(* ===== verification/Errors.thy ===== *)
theory Errors
  imports Main
begin

text \<open>
  Error values. Go's \<^verbatim>\<open>error\<close> interface is a sum: errors built by
  \<^verbatim>\<open>fmt.Errorf\<close> keep the format string and its arguments (the text is not
  rendered), \<^verbatim>\<open>domain.Error\<close> adds one of four codes, and
  \<^verbatim>\<open>service.StartupGateError\<close> carries the startup progress. This theory models
  \<^verbatim>\<open>internal/domain/errors.go\<close> and the mapping of errors to HTTP statuses of
  \<^verbatim>\<open>internal/server/server.go\<close>. The texts of errors, their redaction and their wire form
  are in \<open>Wire\<close>.
\<close>

section \<open>Codes, phases and errors\<close>

datatype code = CodeMissingService | CodeInvalidConfig | CodeReadinessFailure | CodeConflict

datatype startup_phase =
    StartPhaseIdle
  | StartPhaseBindingListeners
  | StartPhaseReconciling
  | StartPhaseReady

datatype err =
    Errorf string "fmt_arg list"
  | DomainError code string "fmt_arg list"
  | StartupGateError startup_phase int int
  | IOError string
and fmt_arg = FStr string | FInt int | FErr err

definition MissingServicef :: "string \<Rightarrow> fmt_arg list \<Rightarrow> err" where
  "MissingServicef f args = DomainError CodeMissingService f args"

definition InvalidConfigf :: "string \<Rightarrow> fmt_arg list \<Rightarrow> err" where
  "InvalidConfigf f args = DomainError CodeInvalidConfig f args"

definition ReadinessFailuref :: "string \<Rightarrow> fmt_arg list \<Rightarrow> err" where
  "ReadinessFailuref f args = DomainError CodeReadinessFailure f args"

definition Conflictf :: "string \<Rightarrow> fmt_arg list \<Rightarrow> err" where
  "Conflictf f args = DomainError CodeConflict f args"

lemmas domain_ctor_defs =
  MissingServicef_def InvalidConfigf_def ReadinessFailuref_def Conflictf_def

text \<open>\<open>errors.As\<close> looks through wrapped errors (\<open>%w\<close>): a \<open>FErr\<close> argument of an
  \<open>Errorf\<close> stands for such a wrapped cause.\<close>

fun CodeOf :: "err \<Rightarrow> code option"
  and CodeOfArgs :: "fmt_arg list \<Rightarrow> code option" where
  "CodeOf (DomainError c f args) = Some c"
| "CodeOf (Errorf f args) = CodeOfArgs args"
| "CodeOf (StartupGateError p c t) = None"
| "CodeOf (IOError m) = None"
| "CodeOfArgs [] = None"
| "CodeOfArgs (FErr e # as) = (case CodeOf e of Some c \<Rightarrow> Some c | None \<Rightarrow> CodeOfArgs as)"
| "CodeOfArgs (FStr s # as) = CodeOfArgs as"
| "CodeOfArgs (FInt i # as) = CodeOfArgs as"

section \<open>HTTP statuses\<close>

definition domainHTTPStatus :: "err \<Rightarrow> nat" where
  "domainHTTPStatus e =
     (case CodeOf e of
        None \<Rightarrow> 500
      | Some CodeMissingService \<Rightarrow> 404
      | Some CodeInvalidConfig \<Rightarrow> 400
      | Some CodeReadinessFailure \<Rightarrow> 503
      | Some CodeConflict \<Rightarrow> 409)"

text \<open>\<^verbatim>\<open>serviceHTTPError\<close>: the startup gate is a conflict, coded errors follow
  their code, everything else is an internal error.\<close>

fun gateOf :: "err \<Rightarrow> (startup_phase \<times> int \<times> int) option"
  and gateOfArgs :: "fmt_arg list \<Rightarrow> (startup_phase \<times> int \<times> int) option" where
  "gateOf (StartupGateError p c t) = Some (p, c, t)"
| "gateOf (Errorf f args) = gateOfArgs args"
| "gateOf (DomainError c f args) = None"
| "gateOf (IOError m) = None"
| "gateOfArgs [] = None"
| "gateOfArgs (FErr e # as) = (case gateOf e of Some g \<Rightarrow> Some g | None \<Rightarrow> gateOfArgs as)"
| "gateOfArgs (FStr s # as) = gateOfArgs as"
| "gateOfArgs (FInt i # as) = gateOfArgs as"

definition serviceHTTPError :: "err \<Rightarrow> nat" where
  "serviceHTTPError e =
     (case gateOf e of
        Some g \<Rightarrow> 409
      | None \<Rightarrow> (case CodeOf e of Some c \<Rightarrow> domainHTTPStatus e | None \<Rightarrow> 500))"

lemma serviceHTTPError_gate [simp]: "serviceHTTPError (StartupGateError p c t) = 409"
  by (simp add: serviceHTTPError_def)

lemma serviceHTTPError_domain [simp]:
  "serviceHTTPError (DomainError c f args) =
     (case c of CodeMissingService \<Rightarrow> 404 | CodeInvalidConfig \<Rightarrow> 400
      | CodeReadinessFailure \<Rightarrow> 503 | CodeConflict \<Rightarrow> 409)"
  by (simp add: serviceHTTPError_def domainHTTPStatus_def split: code.split)

section \<open>Order of the startup phases\<close>

text \<open>The phases of startup reconciliation are passed in the order of their declaration.\<close>

primrec phase_rank :: "startup_phase \<Rightarrow> nat" where
  "phase_rank StartPhaseIdle = 0"
| "phase_rank StartPhaseBindingListeners = 1"
| "phase_rank StartPhaseReconciling = 2"
| "phase_rank StartPhaseReady = 3"

lemma phase_rank_inject: "phase_rank p = phase_rank q \<Longrightarrow> p = q"
  by (cases p; cases q) auto

instantiation startup_phase :: linorder
begin

definition less_eq_startup_phase :: "startup_phase \<Rightarrow> startup_phase \<Rightarrow> bool" where
  "less_eq_startup_phase p q \<longleftrightarrow> phase_rank p \<le> phase_rank q"

definition less_startup_phase :: "startup_phase \<Rightarrow> startup_phase \<Rightarrow> bool" where
  "less_startup_phase p q \<longleftrightarrow> phase_rank p < phase_rank q"

instance
  by standard
    (auto simp: less_eq_startup_phase_def less_startup_phase_def intro: phase_rank_inject)

end

end
