(* ===== verification/Prelude.thy ===== *)
theory Prelude
  imports
    Errors
    "HOL-Library.AList"
    "HOL-Library.List_Lexorder"
    "HOL-Library.Char_ord"
    "HOL-Library.Sublist"
begin

text \<open>
  Shared vocabulary: Go maps as association lists, Go's string helpers on byte strings,
  results of fallible stateful operations, and the lemma collections the component
  theories fill. A Go map is a list of key/value pairs with distinct keys; the list's
  order is the iteration order of the run, which Go leaves unspecified, so a theorem over
  every list covers every order. \<^verbatim>\<open>nil\<close> and the empty map are both \<open>[]\<close>.
\<close>

section \<open>Maps\<close>

type_synonym 'v gomap = "(string \<times> 'v) list"

type_synonym ports = "int gomap"

named_theorems gomap_simps \<open>lookups in updated and deleted Go maps\<close>

lemma map_of_update [simp, gomap_simps]:
  "map_of (AList.update k v m) k' = (if k' = k then Some v else map_of m k')"
  by (simp add: update_conv)

lemma map_of_delete [simp, gomap_simps]:
  "map_of (AList.delete k m) k' = (if k' = k then None else map_of m k')"
  by (simp add: delete_conv)

lemma distinct_keys_update [simp]:
  "distinct (map fst m) \<Longrightarrow> distinct (map fst (AList.update k v m))"
  by (rule distinct_update)

lemma distinct_keys_delete [simp]:
  "distinct (map fst m) \<Longrightarrow> distinct (map fst (AList.delete k m))"
  by (rule distinct_delete)

lemma set_update_distinct:
  "distinct (map fst m) \<Longrightarrow>
   set (AList.update k v m) = insert (k, v) {p \<in> set m. fst p \<noteq> k}"
proof (induction m)
  case Nil
  then show ?case by simp
next
  case (Cons p m)
  show ?case
  proof (cases "fst p = k")
    case True
    with Cons.prems have "{q \<in> set m. fst q \<noteq> k} = set m" by (auto simp: rev_image_eqI)
    moreover have "{q \<in> set (p # m). fst q \<noteq> k} = {q \<in> set m. fst q \<noteq> k}" using True by auto
    moreover have "set (AList.update k v (p # m)) = insert (k, v) (set m)"
      using True by (cases p) simp
    ultimately show ?thesis by simp
  next
    case False
    with Cons show ?thesis by (cases p) auto
  qed
qed

lemma set_update_subset: "set (AList.update k v m) \<subseteq> insert (k, v) (set m)"
  by (induction m) auto

lemma set_update_in:
  "p \<in> set (AList.update k v m) \<Longrightarrow> p = (k, v) \<or> p \<in> set m"
  using set_update_subset[of k v m] by auto

lemma set_delete_in: "p \<in> set (AList.delete k m) \<longleftrightarrow> p \<in> set m \<and> fst p \<noteq> k"
  by (auto simp: AList.delete_eq)

lemma map_of_map_values [simp]:
  "map_of (map (\<lambda>(k, v). (k, f v)) m) k = map_option f (map_of m k)"
  by (induction m) auto

lemma keys_map_values [simp]: "map fst (map (\<lambda>(k, v). (k, f v)) m) = map fst m"
  by (induction m) auto

lemma keys_map_values_comp [simp]: "map (fst \<circ> (\<lambda>(k, v). (k, f v))) m = map fst m"
  by (induction m) auto

text \<open>Updating in the middle of a mapped list: the value written is the mapped one.\<close>

lemma map_values_update:
  "map (\<lambda>(k, v). (k, f v)) (AList.update k v m) =
   AList.update k (f v) (map (\<lambda>(k, v). (k, f v)) m)"
  by (induction m) auto

text \<open>\<^verbatim>\<open>copyPorts\<close> and its clones: a map in the model is a value, so a copy is the
  value itself; the copy of an empty map is the nil map.\<close>

definition copyPorts :: "ports \<Rightarrow> ports" where
  "copyPorts m = (if m = [] then [] else m)"

lemma copyPorts_id [simp]: "copyPorts m = m"
  by (simp add: copyPorts_def)

section \<open>Results\<close>

text \<open>A stateful operation that may fail returns its error or value and the new state.\<close>

type_synonym ('a, 's) res = "(err + 'a) \<times> 's"

definition ok :: "err + 'a \<Rightarrow> bool" where
  "ok r = (case r of Inl e \<Rightarrow> False | Inr x \<Rightarrow> True)"

lemma ok_simps [simp]: "ok (Inl e) = False" "ok (Inr x) = True"
  by (simp_all add: ok_def)

lemma ok_iff: "ok r \<longleftrightarrow> (\<exists>x. r = Inr x)"
  by (cases r) auto

text \<open>What follows a call: one continuation for its value, one for its error.\<close>

definition on_res ::
    "('a, 's) res \<Rightarrow> ('a \<Rightarrow> 's \<Rightarrow> 'r) \<Rightarrow> (err \<Rightarrow> 's \<Rightarrow> 'r) \<Rightarrow> 'r" where
  "on_res x good bad = (case fst x of Inl e \<Rightarrow> bad e (snd x) | Inr a \<Rightarrow> good a (snd x))"

lemma on_res_simps [simp]:
  "on_res (Inl e, s) good bad = bad e s" "on_res (Inr a, s) good bad = good a s"
  by (simp_all add: on_res_def)

lemma on_res_split:
  "P (on_res x good bad) \<longleftrightarrow>
     (\<forall>e s. x = (Inl e, s) \<longrightarrow> P (bad e s)) \<and> (\<forall>a s. x = (Inr a, s) \<longrightarrow> P (good a s))"
  by (cases x; cases "fst x") auto

lemma on_res_split_asm:
  "P (on_res x good bad) \<longleftrightarrow>
     \<not> ((\<exists>e s. x = (Inl e, s) \<and> \<not> P (bad e s)) \<or> (\<exists>a s. x = (Inr a, s) \<and> \<not> P (good a s)))"
  by (cases x; cases "fst x") auto

section \<open>Strings\<close>

text \<open>\<^verbatim>\<open>strings.TrimSpace\<close> on bytes: the six ASCII white-space bytes.\<close>

definition is_space :: "char \<Rightarrow> bool" where
  "is_space c \<longleftrightarrow> c \<in> {CHR 0x09, CHR 0x0A, CHR 0x0B, CHR 0x0C, CHR 0x0D, CHR '' ''}"

definition trim_left :: "string \<Rightarrow> string" where
  "trim_left s = dropWhile is_space s"

definition trim_space :: "string \<Rightarrow> string" where
  "trim_space s = rev (trim_left (rev (trim_left s)))"

definition has_suffix :: "string \<Rightarrow> string \<Rightarrow> bool" where
  "has_suffix s suf = prefix (rev suf) (rev s)"

lemma has_suffix_iff: "has_suffix s suf \<longleftrightarrow> suffix suf s"
  by (simp add: has_suffix_def suffix_to_prefix)

text \<open>\<^verbatim>\<open>strings.TrimPrefix\<close> and \<^verbatim>\<open>strings.TrimSuffix\<close>.\<close>

definition trim_prefix :: "string \<Rightarrow> string \<Rightarrow> string" where
  "trim_prefix s p = (if prefix p s then drop (length p) s else s)"

definition trim_suffix :: "string \<Rightarrow> string \<Rightarrow> string" where
  "trim_suffix s p = (if has_suffix s p then take (length s - length p) s else s)"

text \<open>\<^verbatim>\<open>strings.ToLower\<close> and \<^verbatim>\<open>strings.ToUpper\<close>, byte by byte on ASCII.\<close>

definition to_lower :: "char \<Rightarrow> char" where
  "to_lower c = (if CHR ''A'' \<le> c \<and> c \<le> CHR ''Z'' then char_of (of_char c + 32 :: nat) else c)"

definition to_upper :: "char \<Rightarrow> char" where
  "to_upper c = (if CHR ''a'' \<le> c \<and> c \<le> CHR ''z'' then char_of (of_char c - 32 :: nat) else c)"

text \<open>\<^verbatim>\<open>strings.Index\<close>: the first position of a substring, \<open>None\<close> for -1.\<close>

fun str_index :: "string \<Rightarrow> string \<Rightarrow> nat option" where
  "str_index s sub =
     (if prefix sub s then Some 0
      else case s of [] \<Rightarrow> None | c # cs \<Rightarrow> map_option Suc (str_index cs sub))"

declare str_index.simps [simp del]

definition str_contains :: "string \<Rightarrow> string \<Rightarrow> bool" where
  "str_contains s sub = (str_index s sub \<noteq> None)"

text \<open>\<^verbatim>\<open>strings.Cut\<close>: the text before and after the first separator.\<close>

definition str_cut :: "string \<Rightarrow> string \<Rightarrow> (string \<times> string) option" where
  "str_cut s sep =
     (case str_index s sep of
        None \<Rightarrow> None
      | Some i \<Rightarrow> Some (take i s, drop (i + length sep) s))"

lemma str_index_SomeD:
  "str_index s sub = Some i \<Longrightarrow> prefix sub (drop i s) \<and> i + length sub \<le> length s"
proof (induction s sub arbitrary: i rule: str_index.induct)
  case (1 s sub)
  show ?case
  proof (cases "prefix sub s")
    case True
    with "1.prems" have "i = 0" by (simp add: str_index.simps)
    with True show ?thesis by (auto simp: prefix_length_le)
  next
    case False
    with "1.prems" obtain c cs j where s: "s = c # cs" "str_index cs sub = Some j" "i = Suc j"
      by (auto simp: str_index.simps [of s] split: list.splits)
    with "1.IH" [OF False s(1) s(2)] show ?thesis by simp
  qed
qed

lemma str_index_None_iff: "str_index s sub = None \<longleftrightarrow> \<not> sublist sub s"
proof (induction s sub rule: str_index.induct)
  case (1 s sub)
  show ?case
  proof (cases s)
    case Nil
    then show ?thesis by (simp add: str_index.simps)
  next
    case (Cons c cs)
    show ?thesis
    proof (cases "prefix sub s")
      case True
      then show ?thesis by (simp add: str_index.simps)
    next
      case False
      with Cons have "str_index s sub = map_option Suc (str_index cs sub)"
        by (simp add: str_index.simps [of "c # cs"])
      moreover from "1.IH" [OF False Cons]
      have "str_index cs sub = None \<longleftrightarrow> \<not> sublist sub cs" .
      moreover from Cons False have "sublist sub s \<longleftrightarrow> sublist sub cs"
        by (simp add: sublist_Cons_right)
      ultimately show ?thesis by simp
    qed
  qed
qed

lemma str_contains_iff: "str_contains s sub \<longleftrightarrow> sublist sub s"
  by (simp add: str_contains_def str_index_None_iff)

lemma str_cut_SomeD: "str_cut s sep = Some (a, b) \<Longrightarrow> s = a @ sep @ b"
  by (auto simp: str_cut_def prefix_def split: option.splits dest!: str_index_SomeD)
     (metis append_take_drop_id append_eq_conv_conj drop_drop add.commute)

lemma set_trim_left: "set (trim_left s) \<subseteq> set s"
  by (auto simp: trim_left_def dest: set_dropWhileD)

lemma set_trim_space: "set (trim_space s) \<subseteq> set s"
  by (auto simp: trim_space_def dest!: subsetD [OF set_trim_left])

lemma trim_left_idem [simp]: "trim_left (trim_left s) = trim_left s"
  by (simp add: trim_left_def)

lemma trim_left_Nil_iff: "trim_left s = [] \<longleftrightarrow> (\<forall>c \<in> set s. is_space c)"
  by (simp add: trim_left_def dropWhile_eq_Nil_conv)

lemma trim_left_hd: "trim_left s \<noteq> [] \<Longrightarrow> \<not> is_space (hd (trim_left s))"
  by (auto simp: trim_left_def hd_dropWhile dropWhile_eq_Nil_conv)

lemma trim_space_idem [simp]: "trim_space (trim_space s) = trim_space s"
proof -
  let ?a = "trim_left s"
  let ?b = "trim_left (rev ?a)"
  have "trim_left (rev ?b) = rev ?b"
  proof (cases "?b = []")
    case True
    then show ?thesis unfolding True by (simp add: trim_left_def)
  next
    case False
    have "?a = rev ?b @ rev (takeWhile is_space (rev ?a))"
      by (metis trim_left_def rev_append rev_rev_ident takeWhile_dropWhile_id)
    then have "hd ?a = hd (rev ?b)" using False by (metis hd_append2 rev_is_Nil_conv)
    moreover have "?a \<noteq> []" using False by (metis trim_left_def dropWhile.simps(1) rev.simps(1))
    ultimately have "\<not> is_space (hd (rev ?b))" using trim_left_hd [of s] by metis
    then show ?thesis using False unfolding trim_left_def by (cases "rev ?b") (auto simp: trim_left_def)
  qed
  then show ?thesis by (simp add: trim_space_def)
qed

text \<open>\<^verbatim>\<open>strings.Split\<close> on one character and \<^verbatim>\<open>strings.Join\<close>.\<close>

fun split_on :: "char \<Rightarrow> string \<Rightarrow> string list" where
  "split_on c [] = [[]]"
| "split_on c (x # xs) =
     (if x = c then [] # split_on c xs
      else case split_on c xs of [] \<Rightarrow> [[x]] | f # fs \<Rightarrow> (x # f) # fs)"

lemma split_on_nonempty [simp]: "split_on c s \<noteq> []"
  by (cases s) (auto split: list.split)

fun str_join :: "string \<Rightarrow> string list \<Rightarrow> string" where
  "str_join sep [] = []"
| "str_join sep [x] = x"
| "str_join sep (x # y # ys) = x @ sep @ str_join sep (y # ys)"

lemma str_join_Cons: "str_join sep (x # xs) = x @ (if xs = [] then [] else sep @ str_join sep xs)"
  by (cases xs) simp_all

lemma split_on_no_sep: "c \<notin> set s \<Longrightarrow> split_on c s = [s]"
  by (induction s) auto

lemma split_on_append: "c \<notin> set s \<Longrightarrow> split_on c (s @ c # t) = s # split_on c t"
  by (induction s) auto

lemma split_on_join:
  "xs \<noteq> [] \<Longrightarrow> \<forall>x \<in> set xs. c \<notin> set x \<Longrightarrow> split_on c (str_join [c] xs) = xs"
  by (induction xs) (auto simp: str_join_Cons split_on_no_sep split_on_append)

lemma split_on_join_append:
  "xs \<noteq> [] \<Longrightarrow> \<forall>x \<in> set xs. c \<notin> set x \<Longrightarrow>
   split_on c (str_join [c] xs @ c # t) = xs @ split_on c t"
  by (induction xs) (auto simp: str_join_Cons split_on_append)

lemma join_split_on: "str_join [c] (split_on c s) = s"
proof (induction s)
  case (Cons x s)
  obtain f fs where "split_on c s = f # fs" by (cases "split_on c s") auto
  with Cons show ?case by (simp add: str_join_Cons)
qed simp

lemma split_on_parts: "x \<in> set (split_on c s) \<Longrightarrow> c \<notin> set x"
proof (induction s arbitrary: x)
  case (Cons a s)
  obtain f fs where "split_on c s = f # fs" by (cases "split_on c s") auto
  with Cons show ?case by (auto split: if_splits)
qed simp

section \<open>Decimal numbers\<close>

text \<open>\<^verbatim>\<open>fmt.Sprint\<close> and \<^verbatim>\<open>%d\<close> on an integer; \<open>char_of_digit\<close> is one decimal digit.\<close>

definition char_of_digit :: "nat \<Rightarrow> char" where
  "char_of_digit d = char_of (48 + d)"

fun show_nat :: "nat \<Rightarrow> string" where
  "show_nat n = (if n < 10 then [char_of_digit n]
                 else show_nat (n div 10) @ [char_of_digit (n mod 10)])"

declare show_nat.simps [simp del]

definition show_int :: "int \<Rightarrow> string" where
  "show_int i = (if i < 0 then CHR ''-'' # show_nat (nat (- i)) else show_nat (nat i))"

text \<open>The inverse of \<open>show_nat\<close>: the number a string of digits denotes.\<close>

definition digit_val :: "char \<Rightarrow> nat" where
  "digit_val c = of_char c - 48"

definition nat_of_digits :: "string \<Rightarrow> nat" where
  "nat_of_digits s = foldl (\<lambda>n c. 10 * n + digit_val c) 0 s"

definition is_digit :: "char \<Rightarrow> bool" where
  "is_digit c \<longleftrightarrow> CHR ''0'' \<le> c \<and> c \<le> CHR ''9''"

lemma digit_val_char_of_digit [simp]: "d < 10 \<Longrightarrow> digit_val (char_of_digit d) = d"
  by (simp add: digit_val_def char_of_digit_def of_char_of)

lemma is_digit_char_of_digit: "d < 10 \<Longrightarrow> is_digit (char_of_digit d)"
  by (simp add: is_digit_def char_of_digit_def less_eq_char_def of_char_of)

lemma nat_of_digits_show_nat [simp]: "nat_of_digits (show_nat n) = n"
proof (induction n rule: show_nat.induct)
  case (1 n)
  then show ?case
    by (cases "n < 10") (auto simp: show_nat.simps [of n] nat_of_digits_def)
qed

lemma show_nat_digits: "\<forall>c \<in> set (show_nat n). is_digit c"
proof (induction n rule: show_nat.induct)
  case (1 n)
  then show ?case
    by (cases "n < 10") (auto simp: show_nat.simps [of n] is_digit_char_of_digit)
qed

lemma show_nat_nonempty [simp]: "show_nat n \<noteq> []"
  by (simp add: show_nat.simps [of n])

lemma show_nat_inject [simp]: "show_nat m = show_nat n \<longleftrightarrow> m = n"
  by (metis nat_of_digits_show_nat)

lemma not_digit_minus [simp]: "\<not> is_digit CHR ''-''"
  by (simp add: is_digit_def)

lemma show_nat_hd: "show_nat n \<noteq> CHR ''-'' # xs"
proof
  assume "show_nat n = CHR ''-'' # xs"
  then have "CHR ''-'' \<in> set (show_nat n)" by simp
  with show_nat_digits [of n] show False by (metis not_digit_minus)
qed

lemma show_int_inject [simp]: "show_int i = show_int j \<longleftrightarrow> i = j"
  using show_nat_hd by (auto simp: show_int_def dest: not_sym split: if_splits)

end
