(* ===== verification/Registry_Types.thy ===== *)
theory Registry_Types
  imports Prelude
begin

text \<open>
  The service record of \<^verbatim>\<open>internal/registry/registry.go\<close>, its port maps and the
  functions over one record: \<open>PickPort\<close>, \<open>NormalizePorts\<close>, \<open>syncSingularFromMap\<close>,
  \<open>AddressFor\<close>, \<open>Snapshot\<close>. Times and durations are nanosecond counts (\<open>int\<close>); the zero
  \<^verbatim>\<open>time.Time\<close> is 0.
\<close>

section \<open>Types\<close>

text \<open>Both Go types are strings with named constants; any other text is \<open>TypeOther\<close> or
  \<open>StatusOther\<close>, and the empty string is one of those.\<close>

datatype service_type = TypeBinary | TypeStatic | TypeOther string

datatype service_status =
    StatusRunning
  | StatusStopped
  | StatusFailed
  | StatusOrphaned
  | StatusArchived
  | StatusOther string

record start_event =
  se_started_at :: int
  se_exit_code :: int
  se_duration :: int

record deployment_snapshot =
  ds_version :: string
  ds_type :: service_type
  ds_config_path :: string
  ds_binary_path :: string
  ds_args :: "string list"
  ds_proxy_bind_address :: string
  ds_env_file :: string
  ds_health_check :: string
  ds_stable_ports :: ports
  ds_health_check_port :: string
  ds_watch_paths :: "string list"
  ds_drain_window :: int
  ds_health_check_timeout :: int
  ds_restart_policy :: string
  ds_deployed_at :: int

record service =
  sv_name :: string
  sv_type :: service_type
  sv_version :: string
  sv_config_path :: string
  sv_binary_path :: string
  sv_args :: "string list"
  sv_stable_port :: int
  sv_internal_port :: int
  sv_proxy_bind_address :: string
  sv_env_file :: string
  sv_health_check :: string
  sv_stable_ports :: ports
  sv_internal_ports :: ports
  sv_health_check_port :: string
  sv_watch_paths :: "string list"
  sv_drain_window :: int
  sv_health_check_timeout :: int
  sv_restart_policy :: string
  sv_status :: service_status
  sv_pid :: int
  sv_deployed_at :: int
  sv_updated_at :: int
  sv_last_deployed_at :: int
  sv_last_started_at :: int
  sv_crash_attempts :: int
  sv_gave_up :: bool
  sv_start_history :: "start_event list"
  sv_previous_deployment :: "deployment_snapshot option"
  sv_archived_at :: int
  sv_archived_from :: service_status

record tombstone =
  tb_name :: string
  tb_archived_at :: int
  tb_pruned_at :: int
  tb_stable_ports :: ports

text \<open>A composite literal leaves the fields it does not name at their zero values.\<close>

definition zero_service :: service where
  "zero_service =
     \<lparr>sv_name = '''', sv_type = TypeOther '''', sv_version = '''', sv_config_path = '''',
      sv_binary_path = '''', sv_args = [], sv_stable_port = 0, sv_internal_port = 0,
      sv_proxy_bind_address = '''', sv_env_file = '''', sv_health_check = '''',
      sv_stable_ports = [], sv_internal_ports = [], sv_health_check_port = '''',
      sv_watch_paths = [], sv_drain_window = 0, sv_health_check_timeout = 0,
      sv_restart_policy = '''', sv_status = StatusOther '''', sv_pid = 0,
      sv_deployed_at = 0, sv_updated_at = 0, sv_last_deployed_at = 0,
      sv_last_started_at = 0, sv_crash_attempts = 0, sv_gave_up = False,
      sv_start_history = [], sv_previous_deployment = None, sv_archived_at = 0,
      sv_archived_from = StatusOther ''''\<rparr>"

definition DefaultProxyBindAddress :: string where
  "DefaultProxyBindAddress = ''localhost''"

section \<open>Choosing the primary port\<close>

text \<open>The loop over the keys: \<open>first\<close> is replaced when it is still empty or larger.\<close>

definition first_key :: "string list \<Rightarrow> string" where
  "first_key ks = foldl (\<lambda>first k. if first = '''' \<or> k < first then k else first) '''' ks"

definition PickPort :: "ports \<Rightarrow> string \<Rightarrow> int" where
  "PickPort ports healthCheckPort =
     (if ports = [] then 0
      else if healthCheckPort \<noteq> '''' \<and> map_of ports healthCheckPort \<noteq> None
           then the (map_of ports healthCheckPort)
      else case map_of ports ''default'' of
             Some p \<Rightarrow> p
           | None \<Rightarrow> (case map_of ports (first_key (map fst ports)) of
                        Some p \<Rightarrow> p | None \<Rightarrow> 0))"

definition PrimaryStablePort :: "service \<Rightarrow> int" where
  "PrimaryStablePort s = PickPort (sv_stable_ports s) (sv_health_check_port s)"

definition PrimaryInternalPort :: "service \<Rightarrow> int" where
  "PrimaryInternalPort s = PickPort (sv_internal_ports s) (sv_health_check_port s)"

definition IsMultiPort :: "service \<Rightarrow> bool" where
  "IsMultiPort s = (1 < length (sv_stable_ports s))"

definition syncSingularFromMap :: "service \<Rightarrow> service" where
  "syncSingularFromMap s =
     s\<lparr>sv_stable_port := PrimaryStablePort s, sv_internal_port := PrimaryInternalPort s\<rparr>"

definition NormalizePorts :: "service \<Rightarrow> service" where
  "NormalizePorts s =
     (let s1 = (if sv_stable_ports s = [] \<and> sv_stable_port s \<noteq> 0
                then s\<lparr>sv_stable_ports := [(''default'', sv_stable_port s)]\<rparr> else s);
          s2 = (if sv_internal_ports s1 = [] \<and> sv_internal_port s1 \<noteq> 0
                then s1\<lparr>sv_internal_ports := [(''default'', sv_internal_port s1)]\<rparr> else s1);
          s3 = syncSingularFromMap s2
      in if sv_proxy_bind_address s3 = ''''
         then s3\<lparr>sv_proxy_bind_address := DefaultProxyBindAddress\<rparr> else s3)"

section \<open>Addresses\<close>

text \<open>\<^verbatim>\<open>net.JoinHostPort\<close> brackets a host that contains a colon (an IPv6 literal).\<close>

definition JoinHostPort :: "string \<Rightarrow> string \<Rightarrow> string" where
  "JoinHostPort host port =
     (if CHR '':'' \<in> set host then ''['' @ host @ '']:'' @ port else host @ '':'' @ port)"

definition AddressFor :: "string \<Rightarrow> int \<Rightarrow> string" where
  "AddressFor bindAddress port =
     (let b = (if bindAddress = '''' then DefaultProxyBindAddress else bindAddress)
      in ''http://'' @ JoinHostPort b (show_int port))"

definition Address :: "service \<Rightarrow> string" where
  "Address s = AddressFor (sv_proxy_bind_address s) (sv_stable_port s)"

definition Addresses :: "service \<Rightarrow> string gomap" where
  "Addresses s =
     map (\<lambda>(name, port). (name, AddressFor (sv_proxy_bind_address s) port)) (sv_stable_ports s)"

section \<open>Snapshots and clones\<close>

definition Snapshot :: "service \<Rightarrow> deployment_snapshot" where
  "Snapshot s =
     \<lparr>ds_version = sv_version s, ds_type = sv_type s, ds_config_path = sv_config_path s,
      ds_binary_path = sv_binary_path s, ds_args = sv_args s,
      ds_proxy_bind_address = sv_proxy_bind_address s, ds_env_file = sv_env_file s,
      ds_health_check = sv_health_check s, ds_stable_ports = copyPorts (sv_stable_ports s),
      ds_health_check_port = sv_health_check_port s, ds_watch_paths = sv_watch_paths s,
      ds_drain_window = sv_drain_window s,
      ds_health_check_timeout = sv_health_check_timeout s,
      ds_restart_policy = sv_restart_policy s, ds_deployed_at = sv_deployed_at s\<rparr>"

definition cloneService :: "service \<Rightarrow> service" where
  "cloneService s =
     s\<lparr>sv_stable_ports := copyPorts (sv_stable_ports s),
       sv_internal_ports := copyPorts (sv_internal_ports s),
       sv_previous_deployment :=
         map_option (\<lambda>p. p\<lparr>ds_stable_ports := copyPorts (ds_stable_ports p)\<rparr>)
           (sv_previous_deployment s)\<rparr>"

lemma cloneService_id [simp]: "cloneService s = s"
  by (cases "sv_previous_deployment s") (simp_all add: cloneService_def)

section \<open>Lemmas\<close>

subsection \<open>The first key\<close>

lemma foldl_first_key:
  "'''' \<notin> set (k # ks) \<Longrightarrow>
   foldl (\<lambda>first k. if first = '''' \<or> k < first then k else first) k ks = Min (set (k # ks))"
proof (induction ks arbitrary: k)
  case Nil
  then show ?case by simp
next
  case (Cons x ks)
  let ?f = "\<lambda>first k. if first = '''' \<or> k < first then k else first"
  from Cons.prems have step: "?f k x = min k x" by (auto simp: min_def)
  from Cons.prems have "'''' \<notin> set (min k x # ks)" by (auto simp: min_def)
  from Cons.IH [OF this] have "foldl ?f (min k x) ks = Min (insert (min k x) (set ks))"
    by simp
  moreover have "Min (insert (min k x) (set ks)) = Min (set (k # x # ks))"
    by (cases "ks = []") (simp_all add: min.assoc)
  ultimately show ?case
    unfolding foldl_Cons step by simp
qed

lemma first_key_Min:
  assumes "'''' \<notin> set ks" and "ks \<noteq> []"
  shows "first_key ks = Min (set ks)"
proof -
  obtain k ks' where ks: "ks = k # ks'" using assms(2) by (cases ks) auto
  then show ?thesis
    using assms(1) foldl_first_key [of k ks'] by (simp add: first_key_def)
qed

lemma foldl_first_key_in:
  "foldl (\<lambda>first k. if first = '''' \<or> k < first then k else first) a ks \<in> insert a (set ks)"
proof (induction ks arbitrary: a)
  case (Cons x ks)
  show ?case using Cons.IH [of "if a = '''' \<or> x < a then x else a"] by auto
qed simp

lemma first_key_in: "ks \<noteq> [] \<Longrightarrow> first_key ks \<in> set ks"
  using foldl_first_key_in [of "hd ks" "tl ks"] by (cases ks) (auto simp: first_key_def)

subsection \<open>PickPort\<close>

lemma PickPort_Nil [simp]: "PickPort [] h = 0"
  by (simp add: PickPort_def)

lemma PickPort_single [simp]: "PickPort [(k, p)] h = p"
  by (auto simp: PickPort_def first_key_def)

lemma PickPort_health: "map_of m h = Some p \<Longrightarrow> h \<noteq> '''' \<Longrightarrow> PickPort m h = p"
  by (auto simp: PickPort_def)

lemma PickPort_default:
  "map_of m ''default'' = Some p \<Longrightarrow> h = '''' \<or> map_of m h = None \<Longrightarrow> PickPort m h = p"
  by (auto simp: PickPort_def)

lemma PickPort_in:
  assumes "m \<noteq> []"
  shows "PickPort m h \<in> snd ` set m"
proof -
  have "map_of m (first_key (map fst m)) \<noteq> None"
    using first_key_in [of "map fst m"] assms by (auto simp: map_of_eq_None_iff)
  then show ?thesis
    using assms by (force simp: PickPort_def image_iff split: option.split
        dest: map_of_SomeD)
qed

lemma PickPort_cong:
  assumes "map_of m = map_of m'" and "m = [] \<longleftrightarrow> m' = []"
    and "first_key (map fst m) = first_key (map fst m')"
  shows "PickPort m h = PickPort m' h"
  unfolding PickPort_def assms(1,3) using assms(2) by simp

subsection \<open>Normalisation\<close>

lemma sync_fields [simp]:
  "sv_stable_ports (syncSingularFromMap s) = sv_stable_ports s"
  "sv_internal_ports (syncSingularFromMap s) = sv_internal_ports s"
  "sv_health_check_port (syncSingularFromMap s) = sv_health_check_port s"
  "sv_stable_port (syncSingularFromMap s) = PrimaryStablePort s"
  "sv_internal_port (syncSingularFromMap s) = PrimaryInternalPort s"
  "sv_name (syncSingularFromMap s) = sv_name s"
  "sv_status (syncSingularFromMap s) = sv_status s"
  "sv_pid (syncSingularFromMap s) = sv_pid s"
  "sv_start_history (syncSingularFromMap s) = sv_start_history s"
  "sv_proxy_bind_address (syncSingularFromMap s) = sv_proxy_bind_address s"
  "sv_type (syncSingularFromMap s) = sv_type s"
  "sv_archived_at (syncSingularFromMap s) = sv_archived_at s"
  by (simp_all add: syncSingularFromMap_def)

lemma sync_idem [simp]: "syncSingularFromMap (syncSingularFromMap s) = syncSingularFromMap s"
  by (simp add: syncSingularFromMap_def PrimaryStablePort_def PrimaryInternalPort_def)

text \<open>The shape \<open>NormalizePorts\<close> establishes: the singular fields are those the maps give,
  and a bind address is set.\<close>

definition normalized :: "service \<Rightarrow> bool" where
  "normalized s \<longleftrightarrow> syncSingularFromMap s = s \<and> sv_proxy_bind_address s \<noteq> ''''"

lemma sync_eq_iff:
  "syncSingularFromMap s = s \<longleftrightarrow>
     sv_stable_port s = PrimaryStablePort s \<and> sv_internal_port s = PrimaryInternalPort s"
  by (auto simp: syncSingularFromMap_def dest: arg_cong [where f = sv_stable_port]
      arg_cong [where f = sv_internal_port])

lemma normalized_NormalizePorts: "normalized (NormalizePorts s)"
  by (auto simp: normalized_def sync_eq_iff NormalizePorts_def Let_def syncSingularFromMap_def
      PrimaryStablePort_def PrimaryInternalPort_def DefaultProxyBindAddress_def)

lemma NormalizePorts_id:
  assumes "normalized s"
  shows "NormalizePorts s = s"
proof -
  have "sv_stable_ports s = [] \<Longrightarrow> sv_stable_port s = 0"
    and "sv_internal_ports s = [] \<Longrightarrow> sv_internal_port s = 0"
    using assms by (auto simp: normalized_def sync_eq_iff PrimaryStablePort_def
        PrimaryInternalPort_def)
  then show ?thesis
    using assms by (auto simp: NormalizePorts_def normalized_def Let_def)
qed

lemma NormalizePorts_fields [simp]:
  "sv_name (NormalizePorts s) = sv_name s"
  "sv_status (NormalizePorts s) = sv_status s"
  "sv_type (NormalizePorts s) = sv_type s"
  "sv_pid (NormalizePorts s) = sv_pid s"
  "sv_start_history (NormalizePorts s) = sv_start_history s"
  "sv_crash_attempts (NormalizePorts s) = sv_crash_attempts s"
  "sv_last_deployed_at (NormalizePorts s) = sv_last_deployed_at s"
  "sv_last_started_at (NormalizePorts s) = sv_last_started_at s"
  "sv_deployed_at (NormalizePorts s) = sv_deployed_at s"
  "sv_health_check_port (NormalizePorts s) = sv_health_check_port s"
  "sv_health_check (NormalizePorts s) = sv_health_check s"
  "sv_health_check_timeout (NormalizePorts s) = sv_health_check_timeout s"
  "sv_binary_path (NormalizePorts s) = sv_binary_path s"
  "sv_config_path (NormalizePorts s) = sv_config_path s"
  "sv_version (NormalizePorts s) = sv_version s"
  "sv_previous_deployment (NormalizePorts s) = sv_previous_deployment s"
  "sv_gave_up (NormalizePorts s) = sv_gave_up s"
  by (simp_all add: NormalizePorts_def Let_def syncSingularFromMap_def)

lemma NormalizePorts_stable_ports:
  "sv_stable_ports s \<noteq> [] \<Longrightarrow> sv_stable_ports (NormalizePorts s) = sv_stable_ports s"
  by (simp add: NormalizePorts_def Let_def)

lemma NormalizePorts_stable_ports_0 [simp]:
  "sv_stable_port s = 0 \<Longrightarrow> sv_stable_ports (NormalizePorts s) = sv_stable_ports s"
  by (simp add: NormalizePorts_def Let_def)

lemma NormalizePorts_internal_ports:
  "sv_internal_ports s \<noteq> [] \<or> sv_internal_port s = 0 \<Longrightarrow>
   sv_internal_ports (NormalizePorts s) = sv_internal_ports s"
  by (auto simp: NormalizePorts_def Let_def)

end
