(* ===== verification/Registry.thy ===== *)
theory Registry
  imports Registry_Types
begin

text \<open>
  The registry store of \<^verbatim>\<open>internal/registry/registry.go\<close>. The state is the in-memory
  maps and the content of \<^verbatim>\<open>registry.json\<close> (\<open>None\<close> while the file does not exist).
  Every mutator ends in \<open>save\<close>; its argument \<open>dsk\<close> says whether writing the temporary file
  and renaming it succeed. A rename is atomic, so a failed save leaves the file as it was
  while the in-memory change stays. \<open>now\<close> is the clock reading of the operation.
  \<^verbatim>\<open>Get\<close> and the mutators hand out deep copies, so the model's values need no aliasing.
\<close>

section \<open>State, load and save\<close>

record registry_file =
  rf_services :: "service gomap"
  rf_tombstones :: "tombstone gomap"

record registry =
  rg_services :: "service gomap"
  rg_tombstones :: "tombstone gomap"
  rg_disk :: "registry_file option"

definition reg_load :: "registry_file option \<Rightarrow> registry" where
  "reg_load f =
     (case f of
        None \<Rightarrow> \<lparr>rg_services = [], rg_tombstones = [], rg_disk = None\<rparr>
      | Some rf \<Rightarrow>
          \<lparr>rg_services = map (\<lambda>(n, s). (n, NormalizePorts s)) (rf_services rf),
           rg_tombstones = rf_tombstones rf, rg_disk = Some rf\<rparr>)"

definition reg_save :: "bool \<Rightarrow> registry \<Rightarrow> (unit, registry) res" where
  "reg_save dsk r =
     (let r' = r\<lparr>rg_services := map (\<lambda>(n, s). (n, syncSingularFromMap s)) (rg_services r)\<rparr>
      in if dsk
         then (Inr (), r'\<lparr>rg_disk := Some \<lparr>rf_services = rg_services r',
                                         rf_tombstones = rg_tombstones r'\<rparr>\<rparr>)
         else (Inl (IOError ''registry.json''), r'))"

definition not_found :: "string \<Rightarrow> err" where
  "not_found name = Errorf ''service %q not found'' [FStr name]"

text \<open>The shape the single-service mutators share: look the entry up, change it through its
  pointer, save.\<close>

definition with_service ::
    "string \<Rightarrow> (service \<Rightarrow> service) \<Rightarrow> bool \<Rightarrow> registry \<Rightarrow> (unit, registry) res" where
  "with_service name f dsk r =
     (case map_of (rg_services r) name of
        None \<Rightarrow> (Inl (not_found name), r)
      | Some s \<Rightarrow> reg_save dsk (r\<lparr>rg_services := AList.update name (f s) (rg_services r)\<rparr>))"

section \<open>Register, Restore, Get, All\<close>

definition keep_existing :: "service \<Rightarrow> service \<Rightarrow> service" where
  "keep_existing existing s =
     (let s1 = (if sv_stable_ports existing \<noteq> []
                then s\<lparr>sv_stable_ports := copyPorts (sv_stable_ports existing)\<rparr> else s);
          s2 = s1\<lparr>sv_stable_port := sv_stable_port existing,
                  sv_internal_ports := copyPorts (sv_internal_ports existing),
                  sv_internal_port := sv_internal_port existing,
                  sv_status := sv_status existing,
                  sv_pid := sv_pid existing,
                  sv_last_started_at := sv_last_started_at existing,
                  sv_start_history := sv_start_history existing,
                  sv_crash_attempts := sv_crash_attempts existing,
                  sv_gave_up := sv_gave_up existing,
                  sv_last_deployed_at := sv_last_deployed_at existing\<rparr>;
          s3 = (if sv_proxy_bind_address s2 = ''''
                then s2\<lparr>sv_proxy_bind_address := sv_proxy_bind_address existing\<rparr> else s2);
          s4 = s3\<lparr>sv_deployed_at := sv_deployed_at existing\<rparr>
      in if sv_previous_deployment s4 = None
         then s4\<lparr>sv_previous_deployment := Some (Snapshot existing)\<rparr> else s4)"

definition registered :: "int \<Rightarrow> service option \<Rightarrow> service \<Rightarrow> service" where
  "registered now old s =
     (let s1 = (case old of Some existing \<Rightarrow> keep_existing existing (cloneService s)
                | None \<Rightarrow> (cloneService s)\<lparr>sv_deployed_at := now\<rparr>)
      in (NormalizePorts s1)\<lparr>sv_updated_at := now\<rparr>)"

definition Register :: "int \<Rightarrow> bool \<Rightarrow> service \<Rightarrow> registry \<Rightarrow> (unit, registry) res" where
  "Register now dsk s r =
     (let s' = registered now (map_of (rg_services r) (sv_name s)) s
      in reg_save dsk (r\<lparr>rg_services := AList.update (sv_name s) s' (rg_services r)\<rparr>))"

definition Restore :: "bool \<Rightarrow> service option \<Rightarrow> registry \<Rightarrow> (unit, registry) res" where
  "Restore dsk so r =
     (case so of
        None \<Rightarrow> (Inl (Errorf ''cannot restore a nil service'' []), r)
      | Some s \<Rightarrow>
          reg_save dsk (r\<lparr>rg_services := AList.update (sv_name s) (cloneService s)
                                        (rg_services r)\<rparr>))"

definition Get :: "string \<Rightarrow> registry \<Rightarrow> service option" where
  "Get name r = map_option cloneService (map_of (rg_services r) name)"

definition All :: "registry \<Rightarrow> service list" where
  "All r = map cloneService (filter (\<lambda>s. sv_status s \<noteq> StatusArchived) (map snd (rg_services r)))"

definition AllIncludingArchived :: "registry \<Rightarrow> service list" where
  "AllIncludingArchived r = map cloneService (map snd (rg_services r))"

section \<open>Archive, restore, prune\<close>

definition Archive :: "int \<Rightarrow> bool \<Rightarrow> string \<Rightarrow> registry \<Rightarrow> (service, registry) res" where
  "Archive now dsk name r =
     (case map_of (rg_services r) name of
        None \<Rightarrow> (Inl (not_found name), r)
      | Some s \<Rightarrow>
          if sv_status s = StatusArchived
          then (Inl (Errorf ''service %q is already archived'' [FStr name]), r)
          else if sv_status s = StatusRunning
          then (Inl (Errorf ''service %q is running; stop it before archiving'' [FStr name]), r)
          else
            (let s' = s\<lparr>sv_archived_from := sv_status s, sv_status := StatusArchived,
                        sv_archived_at := now, sv_pid := 0, sv_updated_at := now\<rparr>
             in case reg_save dsk (r\<lparr>rg_services := AList.update name s' (rg_services r)\<rparr>) of
                  (Inl e, r') \<Rightarrow> (Inl e, r')
                | (Inr _, r') \<Rightarrow> (Inr (syncSingularFromMap s'), r')))"

definition RestoreArchived :: "int \<Rightarrow> bool \<Rightarrow> string \<Rightarrow> registry \<Rightarrow> (service, registry) res" where
  "RestoreArchived now dsk name r =
     (case map_of (rg_services r) name of
        None \<Rightarrow> (Inl (not_found name), r)
      | Some s \<Rightarrow>
          if sv_status s \<noteq> StatusArchived
          then (Inl (Errorf ''service %q is not archived'' [FStr name]), r)
          else
            (let s' = s\<lparr>sv_status := StatusStopped, sv_archived_from := StatusOther '''',
                        sv_archived_at := 0, sv_updated_at := now\<rparr>
             in case reg_save dsk (r\<lparr>rg_services := AList.update name s' (rg_services r)\<rparr>) of
                  (Inl e, r') \<Rightarrow> (Inl e, r')
                | (Inr _, r') \<Rightarrow> (Inr (syncSingularFromMap s'), r')))"

definition Prune :: "int \<Rightarrow> bool \<Rightarrow> string \<Rightarrow> registry \<Rightarrow> (tombstone, registry) res" where
  "Prune now dsk name r =
     (case map_of (rg_services r) name of
        None \<Rightarrow> (Inl (not_found name), r)
      | Some s \<Rightarrow>
          if sv_status s \<noteq> StatusArchived
          then (Inl (Errorf ''service %q must be archived before pruning'' [FStr name]), r)
          else
            (let tomb = \<lparr>tb_name = name, tb_archived_at = sv_archived_at s, tb_pruned_at = now,
                         tb_stable_ports = copyPorts (sv_stable_ports s)\<rparr>
             in case reg_save dsk (r\<lparr>rg_services := AList.delete name (rg_services r),
                                     rg_tombstones := AList.update name tomb (rg_tombstones r)\<rparr>) of
                  (Inl e, r') \<Rightarrow> (Inl e, r')
                | (Inr _, r') \<Rightarrow> (Inr tomb, r')))"

section \<open>Runtime state\<close>

definition UpdateStatus ::
    "int \<Rightarrow> bool \<Rightarrow> string \<Rightarrow> service_status \<Rightarrow> int \<Rightarrow> registry \<Rightarrow> (unit, registry) res" where
  "UpdateStatus now dsk name status pid r =
     (case map_of (rg_services r) name of
        None \<Rightarrow> (Inl (not_found name), r)
      | Some s \<Rightarrow>
          if sv_status s = status \<and> sv_pid s = pid then (Inr (), r)
          else with_service name
                 (\<lambda>s. s\<lparr>sv_status := status, sv_pid := pid, sv_updated_at := now\<rparr>) dsk r)"

definition UpdateLastDeployed :: "int \<Rightarrow> bool \<Rightarrow> string \<Rightarrow> int \<Rightarrow> registry \<Rightarrow> (unit, registry) res" where
  "UpdateLastDeployed now dsk name t r =
     with_service name (\<lambda>s. s\<lparr>sv_last_deployed_at := t, sv_updated_at := now\<rparr>) dsk r"

text \<open>The ring buffer of the last ten starts.\<close>

definition push_history :: "start_event \<Rightarrow> start_event list \<Rightarrow> start_event list" where
  "push_history ev h =
     (let h' = h @ [ev] in if 10 < length h' then drop (length h' - 10) h' else h')"

definition UpdateStartHistory ::
    "int \<Rightarrow> bool \<Rightarrow> string \<Rightarrow> start_event \<Rightarrow> registry \<Rightarrow> (unit, registry) res" where
  "UpdateStartHistory now dsk name event r =
     with_service name
       (\<lambda>s. s\<lparr>sv_start_history := push_history event (sv_start_history s), sv_updated_at := now\<rparr>)
       dsk r"

definition start_record :: "int \<Rightarrow> start_event" where
  "start_record t = \<lparr>se_started_at = t, se_exit_code = -1, se_duration = 0\<rparr>"

definition UpdateProcessStarted ::
    "int \<Rightarrow> bool \<Rightarrow> string \<Rightarrow> ports \<Rightarrow> int \<Rightarrow> registry \<Rightarrow> (unit, registry) res" where
  "UpdateProcessStarted now dsk name ports startedAt r =
     with_service name
       (\<lambda>s. (syncSingularFromMap (s\<lparr>sv_internal_ports := ports\<rparr>))
              \<lparr>sv_last_started_at := startedAt,
               sv_start_history := push_history (start_record startedAt) (sv_start_history s),
               sv_updated_at := now\<rparr>) dsk r"

definition MarkRunning ::
    "int \<Rightarrow> bool \<Rightarrow> string \<Rightarrow> int \<Rightarrow> int \<Rightarrow> registry \<Rightarrow> (unit, registry) res" where
  "MarkRunning now dsk name pid lastDeployedAt r =
     with_service name
       (\<lambda>s. (if lastDeployedAt \<noteq> 0 then s\<lparr>sv_last_deployed_at := lastDeployedAt\<rparr> else s)
              \<lparr>sv_status := StatusRunning, sv_pid := pid, sv_crash_attempts := 0,
               sv_gave_up := False, sv_updated_at := now\<rparr>) dsk r"

definition RecordStart :: "int \<Rightarrow> bool \<Rightarrow> string \<Rightarrow> int \<Rightarrow> registry \<Rightarrow> (unit, registry) res" where
  "RecordStart now dsk name startedAt r =
     with_service name
       (\<lambda>s. s\<lparr>sv_last_started_at := startedAt,
              sv_start_history := push_history (start_record startedAt) (sv_start_history s),
              sv_updated_at := now\<rparr>) dsk r"

text \<open>\<open>CompleteStart\<close> scans the history from its end and fills in the first record whose start
  time matches. On the reversed history that is the first match.\<close>

fun complete_first :: "int \<Rightarrow> int \<Rightarrow> int \<Rightarrow> start_event list \<Rightarrow> start_event list option" where
  "complete_first t code dur [] = None"
| "complete_first t code dur (ev # evs) =
     (if se_started_at ev = t
      then Some (ev\<lparr>se_exit_code := code, se_duration := dur\<rparr> # evs)
      else map_option ((#) ev) (complete_first t code dur evs))"

definition complete_history ::
    "int \<Rightarrow> int \<Rightarrow> int \<Rightarrow> start_event list \<Rightarrow> start_event list option" where
  "complete_history t code dur h = map_option rev (complete_first t code dur (rev h))"

definition CompleteStart ::
    "int \<Rightarrow> bool \<Rightarrow> string \<Rightarrow> int \<Rightarrow> int \<Rightarrow> int \<Rightarrow> registry \<Rightarrow> (unit, registry) res" where
  "CompleteStart now dsk name startedAt exitCode duration r =
     (case map_of (rg_services r) name of
        None \<Rightarrow> (Inl (not_found name), r)
      | Some s \<Rightarrow>
          (case complete_history startedAt exitCode duration (sv_start_history s) of
             None \<Rightarrow> (Inl (Errorf ''service %q start record not found'' [FStr name]), r)
           | Some h \<Rightarrow>
               with_service name (\<lambda>s. s\<lparr>sv_start_history := h, sv_updated_at := now\<rparr>) dsk r))"

definition UpdateLastStarted :: "int \<Rightarrow> bool \<Rightarrow> string \<Rightarrow> int \<Rightarrow> registry \<Rightarrow> (unit, registry) res" where
  "UpdateLastStarted now dsk name t r =
     with_service name (\<lambda>s. s\<lparr>sv_last_started_at := t, sv_updated_at := now\<rparr>) dsk r"

definition UpdateCrashState ::
    "int \<Rightarrow> bool \<Rightarrow> string \<Rightarrow> int \<Rightarrow> bool \<Rightarrow> registry \<Rightarrow> (unit, registry) res" where
  "UpdateCrashState now dsk name attempts gaveUp r =
     with_service name
       (\<lambda>s. s\<lparr>sv_crash_attempts := attempts, sv_gave_up := gaveUp, sv_updated_at := now\<rparr>) dsk r"

definition service_ports :: "service \<Rightarrow> int list" where
  "service_ports s =
     filter (\<lambda>p. p \<noteq> 0) (map snd (sv_stable_ports s)) @
     (if sv_stable_port s \<noteq> 0 then [sv_stable_port s] else [])"

definition UsedPorts :: "registry \<Rightarrow> int list" where
  "UsedPorts r = concat (map service_ports (map snd (rg_services r)))"

definition UpdateInternalPorts ::
    "int \<Rightarrow> bool \<Rightarrow> string \<Rightarrow> ports \<Rightarrow> registry \<Rightarrow> (unit, registry) res" where
  "UpdateInternalPorts now dsk name ports r =
     with_service name
       (\<lambda>s. (syncSingularFromMap (s\<lparr>sv_internal_ports := copyPorts ports\<rparr>))
              \<lparr>sv_updated_at := now\<rparr>) dsk r"

definition Remove :: "bool \<Rightarrow> string \<Rightarrow> registry \<Rightarrow> (unit, registry) res" where
  "Remove dsk name r = reg_save dsk (r\<lparr>rg_services := AList.delete name (rg_services r)\<rparr>)"

end
