(* ===== verification/Registry_Props.thy ===== *)
theory Registry_Props
  imports Registry_Inv
begin

text \<open>
  The properties of the registry store: recovery after a restart, atomicity of a failed save,
  the invariant of reachable stores, what a redeploy preserves, the start-history ring buffer,
  the primary port, and the archive life cycle.
\<close>

section \<open>Recovery and atomic saves\<close>

lemma disk_agrees_start: "disk_agrees (reg_load None)"
  by (simp add: disk_agrees_def reg_load_def)

lemma case_res_agrees:
  "disk_agrees (snd x) \<Longrightarrow>
   disk_agrees (snd (case x of (Inl e, r') \<Rightarrow> (Inl e, r') | (Inr y, r') \<Rightarrow> (Inr v, r')))"
  by simp

lemma lifecycle_agrees:
  assumes "reg_inv r" and "disk_agrees r"
  shows "disk_agrees (snd (Archive now True n r))"
    and "disk_agrees (snd (RestoreArchived now True n r))"
    and "disk_agrees (snd (Prune now True n r))"
    and "disk_agrees (snd (CompleteStart now True n t c d r))"
    and "disk_agrees (snd (Remove True n r))"
    and "disk_agrees (snd (UpdateStatus now True n st pid r))"
proof -
  have ok: "reg_ok r" using assms(1) by (simp add: reg_inv_def)
  note intros = reg_save_disk_agrees reg_ok_update reg_ok_prune reg_ok_delete
  show "disk_agrees (snd (Archive now True n r))"
    using assms ok by (auto simp: Archive_def Let_def svc_ok_def split: option.split
        intro!: intros dest: reg_okD)
  show "disk_agrees (snd (RestoreArchived now True n r))"
    using assms ok by (auto simp: RestoreArchived_def Let_def svc_ok_def split: option.split
        intro!: intros dest: reg_okD)
  show "disk_agrees (snd (Prune now True n r))"
    using assms ok by (auto simp: Prune_def Let_def split: option.split intro!: intros)
  show "disk_agrees (snd (CompleteStart now True n t c d r))"
    using assms ok by (auto simp: CompleteStart_def with_service_def svc_ok_def
        split: option.split intro!: intros dest: reg_okD dest!: complete_history_length)
  show "disk_agrees (snd (Remove True n r))"
    using ok by (auto simp: Remove_def intro!: intros)
  show "disk_agrees (snd (UpdateStatus now True n st pid r))"
    using assms by (auto simp: UpdateStatus_def mut_status.succeeds_agrees split: option.split)
qed

lemma Register_agrees:
  assumes "reg_inv r" and "length (sv_start_history s) \<le> 10"
  shows "disk_agrees (snd (Register now True s r))"
  unfolding Register_def Let_def using assms
  by (intro reg_save_disk_agrees reg_ok_update svc_ok_registered)
    (auto simp: reg_inv_def dest: reg_okD)

lemma Restore_agrees:
  "reg_inv r \<Longrightarrow> disk_agrees r \<Longrightarrow> op_wf (OpRestore so) \<Longrightarrow> disk_agrees (snd (Restore True so r))"
  by (cases so) (auto simp: Restore_def reg_inv_def intro!: reg_save_disk_agrees reg_ok_update)

lemmas mutators_agree =
  mut_last_deployed.succeeds_agrees mut_history.succeeds_agrees mut_started.succeeds_agrees
  mut_running.succeeds_agrees mut_record_start.succeeds_agrees
  mut_last_started.succeeds_agrees mut_crash.succeeds_agrees mut_internal.succeeds_agrees

lemma reg_exec_agrees:
  assumes "reg_inv r" and "disk_agrees r" and "op_wf oper"
  shows "disk_agrees (snd (reg_exec now True oper r))"
  using assms
  by (cases oper) (auto simp: mutator_defs simp del: copyPorts_id
      intro: Register_agrees Restore_agrees lifecycle_agrees mutators_agree)

text \<open>C24: a daemon restart loses nothing. In every store reached by operations whose saves all
  succeeded, loading \<^verbatim>\<open>registry.json\<close> again gives exactly the services and tombstones held in
  memory, ports and history included.\<close>

theorem restart_recovers_registry:
  assumes "registry_reachable True r"
  shows "rg_services (reg_load (rg_disk r)) = rg_services r
    \<and> rg_tombstones (reg_load (rg_disk r)) = rg_tombstones r"
proof -
  have "disk_agrees r"
    using assms
  proof (induction rule: registry_reachable.induct)
    case reg_start
    show ?case by (rule disk_agrees_start)
  next
    case (reg_step r oper dsk now)
    then show ?case using reg_exec_agrees reachable_reg_inv by simp
  qed
  then show ?thesis by (simp add: disk_agrees_def)
qed

definition demo_service :: service where
  "demo_service = zero_service\<lparr>sv_name := ''api'', sv_type := TypeBinary,
     sv_stable_ports := [(''default'', 3000)], sv_binary_path := ''/bin/api'',
     sv_health_check := ''/health'', sv_status := StatusStopped\<rparr>"

lemma demo_reachable: "registry_reachable b (snd (Register 5 True demo_service (reg_load None)))"
  using reg_step [OF reg_start, of "OpRegister demo_service" b True 5]
  by (simp add: demo_service_def zero_service_def)

theorem restart_recovers_registry_witness:
  "rg_services (reg_load (rg_disk (snd (Register 5 True demo_service (reg_load None)))))
     = rg_services (snd (Register 5 True demo_service (reg_load None)))"
  using restart_recovers_registry [OF demo_reachable] by blast

lemma reg_save_fail_keeps: "rg_disk (snd (reg_save False r)) = rg_disk r"
  by (simp add: reg_save_def Let_def)

lemma with_service_fail_keeps [simp]:
  "rg_disk (snd (with_service n f False r)) = rg_disk r"
  "ok (fst (with_service n f False r)) = False"
  by (simp_all add: with_service_def reg_save_fail_keeps split: option.split)

text \<open>C25: a failed save is atomic and is reported. When the disk refuses, no operation changes
  \<^verbatim>\<open>registry.json\<close>, and an operation that still reports success changed nothing at all.\<close>

theorem failed_save_is_atomic:
  "rg_disk (snd (reg_exec now False oper r)) = rg_disk r \<and>
   (fst (reg_exec now False oper r) \<longrightarrow> snd (reg_exec now False oper r) = r)"
proof (cases oper)
  case (OpRestore so)
  then show ?thesis by (cases so) (simp_all add: Restore_def reg_save_fail_keeps)
qed (auto simp: Register_def Let_def mutator_defs UpdateStatus_def Archive_def
    RestoreArchived_def Prune_def CompleteStart_def Remove_def reg_save_fail_keeps
    split: option.split)

theorem failed_save_is_atomic_witness:
  "rg_disk (snd (reg_exec 7 False (OpRemove ''api'')
      (snd (Register 5 True demo_service (reg_load None)))))
   = rg_disk (snd (Register 5 True demo_service (reg_load None)))"
  using failed_save_is_atomic by blast

section \<open>The invariant of reachable stores\<close>

text \<open>in every reachable store, saves failing or not, each key is listed once and is its
  record's name, every record's singular ports are those \<open>PickPort\<close> chooses from its maps, its
  bind address is set, and its start history holds at most ten entries.\<close>

theorem registry_invariant:
  assumes "registry_reachable b r" and "(n, s) \<in> set (rg_services r)"
  shows "sv_name s = n
    \<and> map_of (rg_services r) n = Some s
    \<and> sv_stable_port s = PickPort (sv_stable_ports s) (sv_health_check_port s)
    \<and> sv_internal_port s = PickPort (sv_internal_ports s) (sv_health_check_port s)
    \<and> sv_proxy_bind_address s \<noteq> ''''
    \<and> length (sv_start_history s) \<le> 10"
proof -
  from assms(1) have "reg_inv r" by (rule reachable_reg_inv)
  then show ?thesis
    using assms(2) by (auto simp: reg_inv_def reg_ok_def reg_synced_def svc_ok_def
        sync_eq_iff PrimaryStablePort_def PrimaryInternalPort_def)
qed

theorem registry_invariant_witness:
  "\<exists>s. (''api'', s) \<in> set (rg_services (snd (Register 5 True demo_service (reg_load None))))
     \<and> sv_stable_port s = PickPort (sv_stable_ports s) (sv_health_check_port s)"
proof -
  let ?r = "snd (Register 5 True demo_service (reg_load None))"
  have "\<exists>s. (''api'', s) \<in> set (rg_services ?r)"
    by (simp add: Register_def reg_load_def demo_service_def Let_def)
  then show ?thesis using registry_invariant [OF demo_reachable] by blast
qed

section \<open>Redeploying a service\<close>

text \<open>registering a service that exists never moves its stable ports and keeps what is
  serving now (internal ports, status, PID, start history, crash state), while the new
  configuration is staged and the old one is kept as the previous deployment.\<close>

theorem redeploy_keeps_ports_and_runtime:
  assumes "reg_inv r" and "Get (sv_name s) r = Some e" and "sv_stable_ports e \<noteq> []"
  shows "\<exists>s'. Get (sv_name s) (snd (Register now dsk s r)) = Some s'
    \<and> sv_stable_ports s' = sv_stable_ports e \<and> sv_internal_ports s' = sv_internal_ports e
    \<and> sv_status s' = sv_status e \<and> sv_pid s' = sv_pid e
    \<and> sv_start_history s' = sv_start_history e
    \<and> sv_crash_attempts s' = sv_crash_attempts e \<and> sv_gave_up s' = sv_gave_up e
    \<and> sv_binary_path s' = sv_binary_path s \<and> sv_version s' = sv_version s
    \<and> (sv_previous_deployment s = None \<longrightarrow> sv_previous_deployment s' = Some (Snapshot e))"
proof -
  from assms(2) have e: "map_of (rg_services r) (sv_name s) = Some e" by (simp add: Get_def)
  from registered_fields [OF reg_inv_zero [OF assms(1) e], of now s] assms(3) e
  show ?thesis by (simp add: Register_def Let_def Get_def syncSingularFromMap_def)
qed

definition demo_reg :: registry where
  "demo_reg = snd (Register 5 True demo_service (reg_load None))"

lemma demo_reg_inv: "reg_inv demo_reg"
  unfolding demo_reg_def using demo_reachable by (rule reachable_reg_inv)

lemma demo_reg_get: "\<exists>e. Get ''api'' demo_reg = Some e \<and> sv_stable_ports e = [(''default'', 3000)]"
  by (simp add: demo_reg_def Register_def Let_def Get_def reg_load_def registered_def
      demo_service_def zero_service_def NormalizePorts_def syncSingularFromMap_def)

lemma demo_reg_status: "Get ''api'' demo_reg = Some e \<Longrightarrow> sv_status e = StatusStopped"
  by (auto simp: demo_reg_def Register_def Let_def Get_def reg_load_def registered_def
      demo_service_def zero_service_def NormalizePorts_def syncSingularFromMap_def)

theorem redeploy_keeps_ports_and_runtime_witness:
  "\<exists>s'. Get ''api'' (snd (Register 9 True
            (demo_service\<lparr>sv_stable_ports := [(''default'', 4000)]\<rparr>) demo_reg)) = Some s'
     \<and> sv_stable_ports s' = [(''default'', 3000)]"
proof -
  obtain e where e: "Get ''api'' demo_reg = Some e" "sv_stable_ports e = [(''default'', 3000)]"
    using demo_reg_get by blast
  have n: "sv_name (demo_service\<lparr>sv_stable_ports := [(''default'', 4000)]\<rparr>) = ''api''"
    by (simp add: demo_service_def)
  from e n redeploy_keeps_ports_and_runtime
    [OF demo_reg_inv, of "demo_service\<lparr>sv_stable_ports := [(''default'', 4000)]\<rparr>" e 9 True]
  show ?thesis by auto
qed

section \<open>Start history\<close>

text \<open>the start history is a ring buffer of the last ten starts: however many starts are
  recorded, it holds the most recent ten, oldest first.\<close>

theorem start_history_keeps_last_ten:
  assumes "length h \<le> 10"
  shows "foldl (\<lambda>h ev. push_history ev h) h evs = drop (length (h @ evs) - 10) (h @ evs)"
  using assms
proof (induction evs arbitrary: h)
  case Nil
  then show ?case by simp
next
  case (Cons ev evs)
  show ?case
  proof (cases "length h = 10")
    case True
    then obtain x xs where h: "h = x # xs" by (cases h) auto
    with True have "push_history ev h = xs @ [ev]" by (simp add: push_history_def)
    with Cons.IH [of "xs @ [ev]"] True h show ?thesis by simp
  next
    case False
    with Cons.prems have "push_history ev h = h @ [ev]" by (simp add: push_history_def Let_def)
    moreover from False Cons.prems have "length (h @ [ev]) \<le> 10" by simp
    ultimately show ?thesis using Cons.IH [of "h @ [ev]"] by simp
  qed
qed

theorem start_history_keeps_last_ten_witness:
  "foldl (\<lambda>h ev. push_history ev h) [] (map start_record [1..12]) = map start_record [3..12]"
  using start_history_keeps_last_ten [of "[]" "map start_record [1..12]"]
  by (simp add: upto_rec1 start_record_def)

lemma complete_first_append:
  "\<forall>ev \<in> set xs. se_started_at ev \<noteq> t \<Longrightarrow> se_started_at ev = t \<Longrightarrow>
   complete_first t c d (xs @ ev # ys) =
     Some (xs @ ev\<lparr>se_exit_code := c, se_duration := d\<rparr> # ys)"
  by (induction xs) auto

lemma complete_first_None:
  "complete_first t c d xs = None \<longleftrightarrow> (\<forall>ev \<in> set xs. se_started_at ev \<noteq> t)"
  by (induction xs) auto

lemma complete_history_last:
  assumes "\<forall>ev \<in> set post. se_started_at ev \<noteq> t" and "se_started_at ev = t"
  shows "complete_history t c d (pre @ ev # post) =
    Some (pre @ ev\<lparr>se_exit_code := c, se_duration := d\<rparr> # post)"
  using complete_first_append [of "rev post" t ev c d "rev pre"] assms
  by (simp add: complete_history_def)

text \<open>when a process ends, the exit code and run time are written to the latest start record
  with its start time and to no other, and to no other service's history.\<close>

theorem complete_start_fills_latest_record:
  assumes "reg_inv r" and "Get name r = Some s"
    and "sv_start_history s = pre @ ev # post"
    and "se_started_at ev = t" and "\<forall>x \<in> set post. se_started_at x \<noteq> t"
  shows "\<exists>s'. Get name (snd (CompleteStart now dsk name t c d r)) = Some s'
    \<and> sv_start_history s' = pre @ ev\<lparr>se_exit_code := c, se_duration := d\<rparr> # post
    \<and> sv_status s' = sv_status s
    \<and> (\<forall>n. n \<noteq> name \<longrightarrow> Get n (snd (CompleteStart now dsk name t c d r)) = Get n r)"
proof -
  from assms(2) have s: "map_of (rg_services r) name = Some s" by (simp add: Get_def)
  have "map_option syncSingularFromMap (map_of (rg_services r) n) = map_of (rg_services r) n" for n
    using assms(1) by (cases "map_of (rg_services r) n")
      (auto simp: reg_inv_def reg_synced_def dest: map_of_SomeD)
  then show ?thesis
    using s complete_history_last [OF assms(5,4), of c d pre] assms(3)
    by (simp add: CompleteStart_def with_service_def Get_def option.map_comp)
qed

definition demo_started :: registry where
  "demo_started = snd (UpdateProcessStarted 6 True ''api'' [(''default'', 50001)] 6 demo_reg)"

lemma demo_started_inv: "reg_inv demo_started"
  unfolding demo_started_def UpdateProcessStarted_def
  by (rule mut_started.preserves_inv [OF demo_reg_inv])

lemma demo_started_get:
  "\<exists>s. Get ''api'' demo_started = Some s \<and> sv_start_history s = [] @ start_record 6 # []"
  by (simp add: demo_started_def demo_reg_def Register_def Let_def Get_def reg_load_def
      registered_def demo_service_def zero_service_def UpdateProcessStarted_def with_service_def
      push_history_def)

theorem complete_start_fills_latest_record_witness:
  "\<exists>s'. Get ''api'' (snd (CompleteStart 9 True ''api'' 6 1 3 demo_started)) = Some s'
     \<and> sv_start_history s' = [(start_record 6)\<lparr>se_exit_code := 1, se_duration := 3\<rparr>]"
proof -
  obtain s where s: "Get ''api'' demo_started = Some s"
      "sv_start_history s = [] @ start_record 6 # []"
    using demo_started_get by blast
  have t: "se_started_at (start_record 6) = 6" by (simp add: start_record_def)
  from complete_start_fills_latest_record [OF demo_started_inv s t, of 9 True 1 3]
  show ?thesis by auto
qed

section \<open>The primary port\<close>

text \<open>the primary port does not depend on the order in which Go iterates the port map, as
  long as no port has the empty name, and it is always one of the map's ports.\<close>

theorem PickPort_order_independent:
  assumes "distinct (map fst m)" and "set m = set m'" and "distinct (map fst m')"
    and "'''' \<notin> fst ` set m"
  shows "PickPort m h = PickPort m' h \<and> (m \<noteq> [] \<longrightarrow> PickPort m h \<in> snd ` set m)"
proof -
  have eq: "map_of m = map_of m'" using assms(1,2,3) by (simp add: map_of_inject_set)
  have nil: "m = [] \<longleftrightarrow> m' = []" using assms(2) by auto
  have keys: "set (map fst m) = set (map fst m')" using assms(2) by simp
  have "first_key (map fst m) = first_key (map fst m')"
  proof (cases "m = []")
    case False
    then have "first_key (map fst m) = Min (set (map fst m))"
      and "first_key (map fst m') = Min (set (map fst m'))"
      using assms(2,4) nil False first_key_Min [of "map fst m"] first_key_Min [of "map fst m'"]
      by simp_all
    with keys show ?thesis by simp
  qed (use nil in simp)
  with eq nil show ?thesis using PickPort_cong [of m m' h] PickPort_in by blast
qed

theorem PickPort_order_independent_witness:
  "PickPort [(''ws'', 7172), (''http'', 7173)] '''' = 7173
   \<and> PickPort [(''http'', 7173), (''ws'', 7172)] '''' = 7173"
proof -
  have "PickPort [(''http'', 7173), (''ws'', 7172)] ''''
      = PickPort [(''ws'', 7172), (''http'', 7173)] ''''"
    using PickPort_order_independent
      [of "[(''http'', 7173), (''ws'', 7172)]" "[(''ws'', 7172), (''http'', 7173)]" "''''"]
    by auto
  moreover have "PickPort [(''ws'', 7172), (''http'', 7173)] '''' = 7173"
    by (simp add: PickPort_def first_key_def)
  ultimately show ?thesis by simp
qed

text \<open>with an empty port name the choice does depend on the iteration order, although the
  comment on \<^verbatim>\<open>PickPort\<close> promises a deterministic fallback: the loop takes the empty string for
  "nothing chosen yet".\<close>

theorem PickPort_empty_name_order:
  "PickPort [('''', 1), (''a'', 2)] '''' = 2 \<and> PickPort [(''a'', 2), ('''', 1)] '''' = 1"
  by (simp add: PickPort_def first_key_def)

section \<open>Archive life cycle\<close>

lemma UsedPorts_lookup:
  "map_of (rg_services r) n = Some s \<Longrightarrow> p \<in> snd ` set (sv_stable_ports s) \<Longrightarrow> p \<noteq> 0 \<Longrightarrow>
   p \<in> set (UsedPorts r)"
  by (force simp: UsedPorts_def service_ports_def dest: map_of_SomeD)

lemma map_of_All:
  assumes "reg_inv r" and "map_of (rg_services r) name = Some a" and "sv_status a = StatusArchived"
  shows "name \<notin> sv_name ` set (All r)"
proof
  assume "name \<in> sv_name ` set (All r)"
  then obtain k b where b: "(k, b) \<in> set (rg_services r)" "sv_name b = name"
      "sv_status b \<noteq> StatusArchived"
    by (auto simp: All_def)
  from assms(1) b(1) have "svc_ok k b" and dist: "distinct (map fst (rg_services r))"
    by (auto simp: reg_inv_def reg_ok_def)
  with b(2) have "k = name" by (simp add: svc_ok_def)
  with b(1) dist have "map_of (rg_services r) name = Some b" by simp
  with assms(2,3) b(3) show False by simp
qed

lemma Archive_lookup:
  assumes "map_of (rg_services r) name = Some s" and "ok (fst (Archive now dsk name r))"
  shows "\<exists>a. map_of (rg_services (snd (Archive now dsk name r))) name = Some a
      \<and> sv_status a = StatusArchived \<and> sv_archived_from a = sv_status s \<and> sv_pid a = 0
      \<and> sv_stable_ports a = sv_stable_ports s"
  using assms by (simp add: Archive_def Let_def syncSingularFromMap_def split: if_splits)

text \<open>archiving succeeds exactly for a registered service that is neither running nor already
  archived (and whose save succeeds).\<close>

theorem archive_succeeds_iff:
  "ok (fst (Archive now dsk name r)) \<longleftrightarrow>
     dsk \<and> (\<exists>s. Get name r = Some s \<and> sv_status s \<noteq> StatusRunning \<and> sv_status s \<noteq> StatusArchived)"
  by (simp add: Archive_def Get_def Let_def split: option.split)

text \<open>a successful archive hides the service from \<open>All\<close>, remembers the status it came from
  and keeps its stable ports reserved; restoring it returns it stopped, with the ports it had.\<close>

theorem archive_and_restore:
  assumes "reg_inv r" and "Get name r = Some s" and "ok (fst (Archive now dsk name r))"
    and "ra = snd (Archive now dsk name r)" and "rr = snd (RestoreArchived now' dsk name ra)"
  shows "name \<notin> sv_name ` set (All ra)
       \<and> (\<exists>a. Get name ra = Some a \<and> sv_status a = StatusArchived
              \<and> sv_archived_from a = sv_status s \<and> sv_pid a = 0
              \<and> sv_stable_ports a = sv_stable_ports s)
       \<and> {p \<in> snd ` set (sv_stable_ports s). p \<noteq> 0} \<subseteq> set (UsedPorts ra)
       \<and> (\<exists>b. Get name rr = Some b \<and> sv_status b = StatusStopped
              \<and> sv_stable_ports b = sv_stable_ports s)"
proof -
  from assms(2) have s: "map_of (rg_services r) name = Some s" by (simp add: Get_def)
  from Archive_lookup [OF s assms(3)] obtain a where
    a: "map_of (rg_services ra) name = Some a" "sv_status a = StatusArchived"
      "sv_archived_from a = sv_status s" "sv_pid a = 0" "sv_stable_ports a = sv_stable_ports s"
    using assms(4) by blast
  have "reg_inv ra" unfolding assms(4) using assms(1) by (rule Archive_inv)
  then have "name \<notin> sv_name ` set (All ra)" using a(1,2) by (rule map_of_All)
  moreover have "{p \<in> snd ` set (sv_stable_ports s). p \<noteq> 0} \<subseteq> set (UsedPorts ra)"
    using UsedPorts_lookup [OF a(1)] a(5) by auto
  moreover have "\<exists>b. Get name rr = Some b \<and> sv_status b = StatusStopped
      \<and> sv_stable_ports b = sv_stable_ports s"
    using a by (simp add: assms(5) RestoreArchived_def Get_def Let_def)
  ultimately show ?thesis using a by (simp add: Get_def)
qed

lemma demo_archive_ok: "ok (fst (Archive 8 True ''api'' demo_reg))"
  by (simp add: Archive_def demo_reg_def Register_def Let_def reg_load_def registered_def
      demo_service_def zero_service_def)

theorem archive_and_restore_witness:
  "''api'' \<notin> sv_name ` set (All (snd (Archive 8 True ''api'' demo_reg)))"
proof -
  obtain e where "Get ''api'' demo_reg = Some e" using demo_reg_get by blast
  from archive_and_restore [OF demo_reg_inv this demo_archive_ok refl refl]
  show ?thesis by blast
qed

text \<open>pruning removes exactly the named service, only when it is archived, and leaves a
  tombstone with its stable ports and archive time; every other service and tombstone is
  untouched, and a service that is not archived cannot be pruned.\<close>

theorem prune_only_archived:
  assumes "reg_inv r"
  shows "if (\<exists>s. Get name r = Some s \<and> sv_status s = StatusArchived)
    then Get name (snd (Prune now dsk name r)) = None
      \<and> map_option tb_stable_ports (map_of (rg_tombstones (snd (Prune now dsk name r))) name)
          = map_option sv_stable_ports (Get name r)
      \<and> map_option tb_archived_at (map_of (rg_tombstones (snd (Prune now dsk name r))) name)
          = map_option sv_archived_at (Get name r)
      \<and> (\<lambda>n. Get n (snd (Prune now dsk name r))) = (\<lambda>n. if n = name then None else Get n r)
      \<and> (\<forall>n. n \<noteq> name \<longrightarrow>
            map_of (rg_tombstones (snd (Prune now dsk name r))) n = map_of (rg_tombstones r) n)
      \<and> (ok (fst (Prune now dsk name r)) \<longleftrightarrow> dsk)
    else \<not> ok (fst (Prune now dsk name r)) \<and> snd (Prune now dsk name r) = r"
proof -
  have "map_option syncSingularFromMap (map_of (rg_services r) n) = map_of (rg_services r) n" for n
    using assms by (cases "map_of (rg_services r) n")
      (auto simp: reg_inv_def reg_synced_def dest: map_of_SomeD)
  then show ?thesis
    by (auto simp: Prune_def Get_def Let_def split: option.split)
qed

theorem prune_only_archived_witness:
  "snd (Prune 9 True ''api'' demo_reg) = demo_reg"
  using prune_only_archived [OF demo_reg_inv, of "''api''" 9 True] demo_reg_status by auto

end
