(* ===== verification/Ip.thy ===== *)
theory Ip
  imports Prelude "HOL-Library.Word"
begin

text \<open>
  The parts of Go's \<^verbatim>\<open>net\<close> and \<^verbatim>\<open>net/netip\<close> that the proxy uses: parsing an address,
  the predicates on it, and splitting a host from a port. IPv4 addresses are 32-bit words,
  IPv6 addresses 128-bit words with a zone.
\<close>

unbundle bit_operations_syntax

section \<open>Addresses\<close>

datatype ip = V4 "32 word" | V6 "128 word" string

text \<open>\<^verbatim>\<open>Addr.Unmap\<close>: an IPv4-mapped IPv6 address (\<^verbatim>\<open>::ffff:a.b.c.d\<close>) is its IPv4 address.\<close>

definition is_4in6 :: "128 word \<Rightarrow> bool" where
  "is_4in6 w = (drop_bit 32 w = 0xffff)"

primrec ip_unmap :: "ip \<Rightarrow> ip" where
  "ip_unmap (V4 w) = V4 w"
| "ip_unmap (V6 w z) = (if is_4in6 w then V4 (ucast w) else V6 w z)"

primrec ip_is_loopback :: "ip \<Rightarrow> bool" where
  "ip_is_loopback (V4 w) = (drop_bit 24 w = 127)"
| "ip_is_loopback (V6 w z) = (if is_4in6 w then drop_bit 24 (ucast w :: 32 word) = 127 else w = 1)"

definition ip_is_unspecified :: "ip \<Rightarrow> bool" where
  "ip_is_unspecified a \<longleftrightarrow> a = V4 0 \<or> a = V6 0 ''''"

text \<open>\<^verbatim>\<open>Prefix.Contains\<close> for an IPv4 and an IPv6 prefix; an address with a zone is in no prefix.\<close>

definition prefix4_contains :: "32 word \<Rightarrow> nat \<Rightarrow> ip \<Rightarrow> bool" where
  "prefix4_contains p bits a =
     (case a of V4 w \<Rightarrow> drop_bit (32 - bits) w = drop_bit (32 - bits) p | V6 w z \<Rightarrow> False)"

definition prefix6_contains :: "128 word \<Rightarrow> nat \<Rightarrow> ip \<Rightarrow> bool" where
  "prefix6_contains p bits a =
     (case a of
        V4 w \<Rightarrow> False
      | V6 w z \<Rightarrow> z = '''' \<and> drop_bit (128 - bits) w = drop_bit (128 - bits) p)"

section \<open>Parsing\<close>

definition octet :: "string \<Rightarrow> nat option" where
  "octet f =
     (if f \<noteq> [] \<and> list_all is_digit f \<and> (hd f \<noteq> CHR ''0'' \<or> length f = 1) \<and> nat_of_digits f \<le> 255
      then Some (nat_of_digits f) else None)"

definition parse_ipv4 :: "string \<Rightarrow> (32 word) option" where
  "parse_ipv4 s =
     (case map octet (split_on CHR ''.'' s) of
        [Some a, Some b, Some c, Some d] \<Rightarrow>
          Some (of_nat (((a * 256 + b) * 256 + c) * 256 + d))
      | _ \<Rightarrow> None)"

definition is_hex :: "char \<Rightarrow> bool" where
  "is_hex c \<longleftrightarrow> is_digit c \<or> (CHR ''a'' \<le> c \<and> c \<le> CHR ''f'') \<or> (CHR ''A'' \<le> c \<and> c \<le> CHR ''F'')"

definition hex_val :: "char \<Rightarrow> nat" where
  "hex_val c = (if is_digit c then of_char c - 48
                else if CHR ''a'' \<le> c then of_char c - 87 else of_char c - 55)"

definition hex_group :: "string \<Rightarrow> 16 word" where
  "hex_group h = of_nat (foldl (\<lambda>n c. 16 * n + hex_val c) 0 h)"

text \<open>The loop over the colon-separated groups: at most eight, one optional ellipsis, an IPv4
  address in the place of the last two.\<close>

fun ipv6_groups ::
    "nat \<Rightarrow> 16 word list \<Rightarrow> nat option \<Rightarrow> string \<Rightarrow> (16 word list \<times> nat option) option" where
  "ipv6_groups 0 gs ell s = (if s = [] then Some (gs, ell) else None)"
| "ipv6_groups (Suc n) gs ell s =
     (let h = takeWhile is_hex s; r = dropWhile is_hex s; gs' = gs @ [hex_group h] in
      if h = [] \<or> 4 < length h then None
      else if r \<noteq> [] \<and> hd r = CHR ''.'' then
        (if ell = None \<and> length gs \<noteq> 6 \<or> 8 < length gs + 2 then None
         else case parse_ipv4 s of
                None \<Rightarrow> None
              | Some w \<Rightarrow> Some (gs @ [ucast (drop_bit 16 w), ucast w], ell))
      else case r of
             [] \<Rightarrow> Some (gs', ell)
           | c # r1 \<Rightarrow>
               if c \<noteq> CHR '':'' \<or> r1 = [] then None
               else if hd r1 = CHR '':'' then
                 (if ell \<noteq> None then None
                  else if tl r1 = [] then Some (gs', Some (length gs'))
                  else ipv6_groups n gs' (Some (length gs')) (tl r1))
               else ipv6_groups n gs' ell r1)"

definition ipv6_word :: "16 word list \<Rightarrow> 128 word" where
  "ipv6_word gs = foldl (\<lambda>a g. push_bit 16 a OR ucast g) 0 gs"

definition expand_groups :: "16 word list \<times> nat option \<Rightarrow> (16 word list) option" where
  "expand_groups p =
     (case p of (gs, ell) \<Rightarrow>
        if length gs < 8
        then map_option (\<lambda>e. take e gs @ replicate (8 - length gs) 0 @ drop e gs) ell
        else if ell = None then Some gs else None)"

definition parse_ipv6 :: "string \<Rightarrow> ip option" where
  "parse_ipv6 s0 =
     (let s = takeWhile (\<lambda>c. c \<noteq> CHR ''%'') s0; rest = dropWhile (\<lambda>c. c \<noteq> CHR ''%'') s0;
          zone = tl rest in
      if rest \<noteq> [] \<and> zone = [] then None
      else if s = ''::'' then Some (V6 0 zone)
      else
        (let p = (if prefix ''::'' s then ipv6_groups 8 [] (Some 0) (drop 2 s)
                  else ipv6_groups 8 [] None s)
         in case Option.bind p expand_groups of
              None \<Rightarrow> None
            | Some gs \<Rightarrow> Some (V6 (ipv6_word gs) zone)))"

text \<open>\<^verbatim>\<open>netip.ParseAddr\<close>: the first of \<^verbatim>\<open>'.'\<close>, \<^verbatim>\<open>':'\<close> and \<^verbatim>\<open>'%'\<close> decides.\<close>

definition ParseAddr :: "string \<Rightarrow> ip option" where
  "ParseAddr s =
     (case dropWhile (\<lambda>c. c \<notin> {CHR ''.'', CHR '':'', CHR ''%''}) s of
        [] \<Rightarrow> None
      | c # cs \<Rightarrow>
          if c = CHR ''.'' then map_option V4 (parse_ipv4 s)
          else if c = CHR '':'' then parse_ipv6 s
          else None)"

text \<open>\<^verbatim>\<open>netip.AddrFromSlice\<close>: 4 or 16 bytes.\<close>

definition word_of_bytes :: "8 word list \<Rightarrow> 'a::len word" where
  "word_of_bytes bs = foldl (\<lambda>a b. push_bit 8 a OR ucast b) 0 bs"

definition AddrFromSlice :: "8 word list \<Rightarrow> ip option" where
  "AddrFromSlice bs =
     (if length bs = 4 then Some (V4 (word_of_bytes bs))
      else if length bs = 16 then Some (V6 (word_of_bytes bs) '''') else None)"

section \<open>Host and port\<close>

text \<open>\<^verbatim>\<open>net.SplitHostPort\<close>.\<close>

definition last_colon :: "string \<Rightarrow> (string \<times> string) option" where
  "last_colon s =
     (case dropWhile (\<lambda>c. c \<noteq> CHR '':'') (rev s) of
        [] \<Rightarrow> None
      | c # r \<Rightarrow> Some (rev r, rev (takeWhile (\<lambda>c. c \<noteq> CHR '':'') (rev s))))"

definition SplitHostPort :: "string \<Rightarrow> (string \<times> string) option" where
  "SplitHostPort s =
     (case last_colon s of
        None \<Rightarrow> None
      | Some (h, port) \<Rightarrow>
          if prefix ''['' s
          then (let host = takeWhile (\<lambda>c. c \<noteq> CHR '']'') (tl h) in
                if h = ''['' @ host @ '']'' \<and> CHR ''['' \<notin> set (tl s) \<and> CHR '']'' \<notin> set port
                then Some (host, port) else None)
          else if CHR '':'' \<in> set h \<or> CHR ''['' \<in> set s \<or> CHR '']'' \<in> set s then None
          else Some (h, port))"

lemma last_colon_append:
  "CHR '':'' \<notin> set port \<Longrightarrow> last_colon (host @ '':'' @ port) = Some (host, port)"
  by (simp add: last_colon_def dropWhile_append takeWhile_append)

lemma SplitHostPort_plain:
  assumes "set host \<inter> {CHR '':'', CHR ''['', CHR '']''} = {}"
    and "set port \<inter> {CHR '':'', CHR ''['', CHR '']''} = {}"
  shows "SplitHostPort (host @ '':'' @ port) = Some (host, port)"
proof -
  have "last_colon (host @ '':'' @ port) = Some (host, port)"
    using assms(2) by (intro last_colon_append) auto
  then show ?thesis
    using assms by (cases host) (auto simp: SplitHostPort_def)
qed

lemma SplitHostPort_bracketed:
  assumes "set host \<inter> {CHR ''['', CHR '']''} = {}"
    and "set port \<inter> {CHR '':'', CHR ''['', CHR '']''} = {}"
  shows "SplitHostPort (''['' @ host @ '']:'' @ port) = Some (host, port)"
proof -
  have "last_colon ((''['' @ host @ '']'') @ '':'' @ port) = Some (''['' @ host @ '']'', port)"
    using assms(2) by (intro last_colon_append) auto
  moreover have "takeWhile (\<lambda>c. c \<noteq> CHR '']'') (host @ '']'') = host"
    using assms(1) by (subst takeWhile_append2) auto
  ultimately show ?thesis
    using assms by (auto simp: SplitHostPort_def)
qed

end
