(* ===== verification/Proxy.thy ===== *)
theory Proxy
  imports Ip Registry_Types
begin

text \<open>
  The reverse proxy of \<^verbatim>\<open>internal/proxy/proxy.go\<close>: one permanent listener per service
  port, one routing generation per service, swapped atomically. A \<^verbatim>\<open>*serviceRoute\<close> is a
  number, and \<open>pm_gens\<close> is the store the numbers point into: an entry and the route table share
  a generation because they hold the same number. \<open>pm_leaked\<close> are the sockets the process
  keeps open without an entry for them.
\<close>

section \<open>Bind addresses\<close>

datatype net_addr = IPNet "8 word list" | IPAddr "8 word list" | OtherAddr

text \<open>The outside: the answer of \<^verbatim>\<open>net.InterfaceAddrs\<close> and the sockets other processes hold.\<close>

record net_env =
  ne_interfaces :: "err + net_addr list"
  ne_busy :: "ip \<Rightarrow> int \<Rightarrow> bool"

definition addr_text :: "string \<Rightarrow> string" where
  "addr_text bindAddress = trim_prefix (trim_suffix bindAddress '']'') ''[''"

definition isTailscaleAddress :: "ip \<Rightarrow> bool" where
  "isTailscaleAddress a =
     (let a = ip_unmap a
      in prefix4_contains 0x64400000 10 a
         \<or> prefix6_contains 0xfd7a115ca1e000000000000000000000 48 a)"

definition netIPToNetIPAddr :: "8 word list \<Rightarrow> ip option" where
  "netIPToNetIPAddr bs = map_option ip_unmap (AddrFromSlice bs)"

definition netAddrToNetIP :: "net_addr \<Rightarrow> ip option" where
  "netAddrToNetIP raw =
     (case raw of IPNet bs \<Rightarrow> netIPToNetIPAddr bs | IPAddr bs \<Rightarrow> netIPToNetIPAddr bs
      | OtherAddr \<Rightarrow> None)"

definition localInterfaceHasAddress :: "net_env \<Rightarrow> ip \<Rightarrow> err + bool" where
  "localInterfaceHasAddress env want =
     (case ne_interfaces env of
        Inl e \<Rightarrow> Inl e
      | Inr addrs \<Rightarrow>
          Inr (\<exists>raw \<in> set addrs. map_option ip_unmap (netAddrToNetIP raw) = Some (ip_unmap want)))"

definition ValidateProxyBindAddress :: "net_env \<Rightarrow> string \<Rightarrow> err + unit" where
  "ValidateProxyBindAddress env addr0 =
     (let bindAddress = trim_space addr0 in
      if bindAddress = '''' \<or> bindAddress = DefaultProxyBindAddress then Inr ()
      else case ParseAddr (addr_text bindAddress) of
        None \<Rightarrow> Inl (Errorf ''proxy_bind_address %q must be localhost, a loopback IP, or a local Tailscale IP''
                      [FStr bindAddress])
      | Some a0 \<Rightarrow>
          (let a = ip_unmap a0 in
           if ip_is_loopback a then Inr ()
           else if ip_is_unspecified a
           then Inl (Errorf ''proxy_bind_address %q is a wildcard bind; use localhost or this host's actual Tailscale IP''
                       [FStr bindAddress])
           else if \<not> isTailscaleAddress a
           then Inl (Errorf ''proxy_bind_address %q is not a Tailscale address; use localhost or this host's actual Tailscale IP''
                       [FStr bindAddress])
           else case localInterfaceHasAddress env a of
               Inl e \<Rightarrow> Inl (Errorf ''validating proxy_bind_address %q: %w'' [FStr bindAddress, FErr e])
             | Inr b \<Rightarrow>
                 if b then Inr ()
                 else Inl (Errorf ''proxy_bind_address %q is not assigned to a local interface''
                             [FStr bindAddress])))"

section \<open>Routes, entries and the manager\<close>

datatype handler =
    ServiceStarting
  | ServiceUnavailable
  | FlushProxy int
  | FileServer string

record pentry =
  en_stablePort :: int
  en_bindAddress :: string
  en_portName :: string
  en_sockets :: "(ip \<times> int) list"
  en_route :: nat

record pmgr =
  pm_entries :: "pentry gomap"
  pm_routes :: "nat gomap"
  pm_gens :: "nat \<Rightarrow> handler gomap"
  pm_next :: nat
  pm_leaked :: "(ip \<times> int) list"

definition NewProxy :: pmgr where
  "NewProxy = \<lparr>pm_entries = [], pm_routes = [], pm_gens = (\<lambda>_. []), pm_next = 0, pm_leaked = []\<rparr>"

definition entryKey :: "string \<Rightarrow> string \<Rightarrow> string" where
  "entryKey service portName = service @ '':'' @ portName"

definition servicePrefix :: "string \<Rightarrow> string" where
  "servicePrefix service = service @ '':''"

definition currentHandlers :: "pmgr \<Rightarrow> nat option \<Rightarrow> handler gomap" where
  "currentHandlers m route = (case route of None \<Rightarrow> [] | Some i \<Rightarrow> pm_gens m i)"

definition publishRouteGeneration :: "nat \<Rightarrow> handler gomap \<Rightarrow> pmgr \<Rightarrow> pmgr" where
  "publishRouteGeneration route gen m = m\<lparr>pm_gens := (pm_gens m)(route := gen)\<rparr>"

section \<open>Listening\<close>

text \<open>A port other than 0 can be bound once: not when another process or this manager holds the
  socket. The numeric address of the sockets a listener holds is kept, so that \<^verbatim>\<open>localhost\<close>
  and \<^verbatim>\<open>127.0.0.1\<close> are the same socket. \<open>listen_tcp\<close> is \<^verbatim>\<open>net.Listen\<close> on a host and port
  that came from \<open>JoinHostPort\<close>; a host that is not an IP address was refused before.\<close>

definition socket_free :: "net_env \<Rightarrow> (ip \<times> int) list \<Rightarrow> ip \<Rightarrow> int \<Rightarrow> bool" where
  "socket_free env held a port \<longleftrightarrow>
     0 \<le> port \<and> port \<le> 65535 \<and> \<not> ne_busy env a port \<and> (port = 0 \<or> (a, port) \<notin> set held)"

definition listen_tcp :: "net_env \<Rightarrow> (ip \<times> int) list \<Rightarrow> string \<Rightarrow> int \<Rightarrow> (ip \<times> int) option" where
  "listen_tcp env held addr port =
     (case SplitHostPort addr of
        None \<Rightarrow> None
      | Some (host, _) \<Rightarrow>
          (case ParseAddr host of
             None \<Rightarrow> None
           | Some a \<Rightarrow>
               if socket_free env held (ip_unmap a) port then Some (ip_unmap a, port) else None))"

definition listen_err :: err where
  "listen_err = IOError ''listen tcp: bind: address already in use''"

definition loopback4 :: ip where "loopback4 = V4 0x7f000001"

definition loopback6 :: ip where "loopback6 = V6 1 ''''"

definition listen :: "net_env \<Rightarrow> (ip \<times> int) list \<Rightarrow> string \<Rightarrow> int \<Rightarrow> err + (ip \<times> int) list" where
  "listen env held bindAddress stablePort =
     (if bindAddress = '''' \<or> bindAddress = DefaultProxyBindAddress
      then if socket_free env held loopback4 stablePort
           then Inr ((loopback4, stablePort) #
                     (if socket_free env held loopback6 stablePort
                      then [(loopback6, stablePort)] else []))
           else Inl listen_err
      else case listen_tcp env held (JoinHostPort bindAddress (show_int stablePort)) stablePort of
             None \<Rightarrow> Inl listen_err
           | Some l \<Rightarrow> Inr [l])"

definition held_sockets :: "pmgr \<Rightarrow> pentry gomap \<Rightarrow> (ip \<times> int) list" where
  "held_sockets m pending =
     concat (map (en_sockets \<circ> snd) (pm_entries m)) @ concat (map (en_sockets \<circ> snd) pending)
     @ pm_leaked m"

section \<open>Registering the ports of a service\<close>

definition cannot_bind :: "string \<Rightarrow> string \<Rightarrow> int \<Rightarrow> err \<Rightarrow> err" where
  "cannot_bind name portName stablePort e =
     Errorf ''proxy: cannot bind port %d for %q (port %s): %w''
       [FInt stablePort, FStr name, FStr portName, FErr e]"

text \<open>The first loop. A port that has an entry keeps it or moves it to a new listener at once; a
  new port's listener is collected as pending. When a new port cannot be bound the pending
  listeners are closed; when an existing entry cannot be moved they are not.\<close>

fun bind_ports ::
    "net_env \<Rightarrow> string \<Rightarrow> string \<Rightarrow> ports \<Rightarrow> pentry gomap \<Rightarrow> pmgr \<Rightarrow> (pentry gomap, pmgr) res" where
  "bind_ports env name bindAddress [] pending m = (Inr pending, m)"
| "bind_ports env name bindAddress ((portName, stablePort) # ports) pending m =
     (let key = entryKey name portName in
      case map_of (pm_entries m) key of
        Some e \<Rightarrow>
          if en_stablePort e = stablePort \<and> en_bindAddress e = bindAddress
          then bind_ports env name bindAddress ports pending m
          else (case listen env (held_sockets m pending) bindAddress stablePort of
                  Inl er \<Rightarrow>
                    (Inl (cannot_bind name portName stablePort er),
                     m\<lparr>pm_leaked := concat (map (en_sockets \<circ> snd) pending) @ pm_leaked m\<rparr>)
                | Inr ls \<Rightarrow>
                    bind_ports env name bindAddress ports pending
                      (m\<lparr>pm_entries := AList.update key
                           (e\<lparr>en_stablePort := stablePort, en_bindAddress := bindAddress,
                              en_sockets := ls\<rparr>) (pm_entries m)\<rparr>))
      | None \<Rightarrow>
          (case listen env (held_sockets m pending) bindAddress stablePort of
             Inl er \<Rightarrow> (Inl (cannot_bind name portName stablePort er), m)
           | Inr ls \<Rightarrow>
               bind_ports env name bindAddress ports
                 (pending @ [(key, \<lparr>en_stablePort = stablePort, en_bindAddress = bindAddress,
                     en_portName = portName, en_sockets = ls, en_route = 0\<rparr>)]) m))"

text \<open>The second part: the route is created when it is the service's first; the new ports get a starting handler in one published generation, then
  their entries start serving.\<close>

definition route_for :: "string \<Rightarrow> pmgr \<Rightarrow> nat \<times> pmgr" where
  "route_for name m =
     (case map_of (pm_routes m) name of
        Some i \<Rightarrow> (i, m)
      | None \<Rightarrow> (pm_next m, m\<lparr>pm_routes := AList.update name (pm_next m) (pm_routes m),
                              pm_gens := (pm_gens m)(pm_next m := []),
                              pm_next := Suc (pm_next m)\<rparr>))"

definition starting_handlers :: "pentry gomap \<Rightarrow> handler gomap \<Rightarrow> handler gomap" where
  "starting_handlers pending h =
     foldl (\<lambda>h (key, e). AList.update (en_portName e) ServiceStarting h) h pending"

definition add_entries :: "nat \<Rightarrow> pentry gomap \<Rightarrow> pentry gomap \<Rightarrow> pentry gomap" where
  "add_entries route pending es =
     foldl (\<lambda>es (key, e). AList.update key (e\<lparr>en_route := route\<rparr>) es) es pending"

definition commit_pending :: "string \<Rightarrow> pentry gomap \<Rightarrow> pmgr \<Rightarrow> pmgr" where
  "commit_pending name pending m =
     (case route_for name m of
        (route, m1) \<Rightarrow>
          (let next = starting_handlers pending (currentHandlers m1 (Some route));
               m2 = publishRouteGeneration route next m1
           in m2\<lparr>pm_entries := add_entries route pending (pm_entries m2)\<rparr>))"

definition RegisterPortsWithBind ::
    "net_env \<Rightarrow> string \<Rightarrow> ports \<Rightarrow> string \<Rightarrow> pmgr \<Rightarrow> (unit, pmgr) res" where
  "RegisterPortsWithBind env name ports addr0 m =
     (let b0 = trim_space addr0;
          bindAddress = (if b0 = '''' then DefaultProxyBindAddress else b0) in
      case ValidateProxyBindAddress env bindAddress of
        Inl e \<Rightarrow> (Inl e, m)
      | Inr _ \<Rightarrow>
          (case bind_ports env name bindAddress ports [] m of
             (Inl e, m') \<Rightarrow> (Inl e, m')
           | (Inr pending, m') \<Rightarrow>
               if pending = [] then (Inr (), m') else (Inr (), commit_pending name pending m')))"

definition RegisterPorts :: "net_env \<Rightarrow> string \<Rightarrow> ports \<Rightarrow> pmgr \<Rightarrow> (unit, pmgr) res" where
  "RegisterPorts env name ports m = RegisterPortsWithBind env name ports DefaultProxyBindAddress m"

definition RegisterWithBind :: "net_env \<Rightarrow> string \<Rightarrow> int \<Rightarrow> string \<Rightarrow> pmgr \<Rightarrow> (unit, pmgr) res" where
  "RegisterWithBind env name stablePort bindAddress m =
     RegisterPortsWithBind env name [(''default'', stablePort)] bindAddress m"

definition RegisterDefault :: "net_env \<Rightarrow> string \<Rightarrow> int \<Rightarrow> pmgr \<Rightarrow> (unit, pmgr) res" where
  "RegisterDefault env name stablePort m = RegisterPorts env name [(''default'', stablePort)] m"

section \<open>Swapping, removing\<close>

text \<open>\<^verbatim>\<open>url.Parse\<close> of \<^verbatim>\<open>http://localhost:%d\<close> fails for a negative number only.\<close>

fun swap_handlers :: "ports \<Rightarrow> handler gomap \<Rightarrow> err + handler gomap" where
  "swap_handlers [] next = Inr next"
| "swap_handlers ((portName, port) # ports) next =
     (if port < 0 then Inl (Errorf ''invalid port %q after host'' [FInt port])
      else swap_handlers ports (AList.update portName (FlushProxy port) next))"

definition not_registered :: "string \<Rightarrow> err" where
  "not_registered name = Errorf ''proxy: service %q not registered'' [FStr name]"

definition SwapPorts :: "string \<Rightarrow> ports \<Rightarrow> pmgr \<Rightarrow> (unit, pmgr) res" where
  "SwapPorts name internalPorts m =
     (case map_of (pm_routes m) name of
        None \<Rightarrow> (Inl (not_registered name), m)
      | Some route \<Rightarrow>
          (case filter (\<lambda>(portName, _). map_of (pm_entries m) (entryKey name portName) = None)
                  internalPorts of
             (portName, _) # _ \<Rightarrow>
               (Inl (Errorf ''proxy: service %q port %q not registered'' [FStr name, FStr portName]), m)
           | [] \<Rightarrow>
               (case swap_handlers internalPorts (currentHandlers m (Some route)) of
                  Inl e \<Rightarrow> (Inl e, m)
                | Inr next \<Rightarrow> (Inr (), publishRouteGeneration route next m))))"

definition Swap :: "string \<Rightarrow> int \<Rightarrow> pmgr \<Rightarrow> (unit, pmgr) res" where
  "Swap name internalPort m = SwapPorts name [(''default'', internalPort)] m"

definition SwapStatic :: "string \<Rightarrow> string \<Rightarrow> pmgr \<Rightarrow> (unit, pmgr) res" where
  "SwapStatic name dir m =
     (case map_of (pm_entries m) (entryKey name ''default'') of
        None \<Rightarrow> (Inl (not_registered name), m)
      | Some e \<Rightarrow>
          (Inr (), publishRouteGeneration (en_route e)
             (AList.update ''default'' (FileServer dir) (currentHandlers m (Some (en_route e)))) m))"

definition service_entries :: "string \<Rightarrow> pmgr \<Rightarrow> pentry list" where
  "service_entries name m =
     map snd (filter (\<lambda>(key, e). prefix (servicePrefix name) key) (pm_entries m))"

definition UnswapPorts :: "string \<Rightarrow> pmgr \<Rightarrow> pmgr" where
  "UnswapPorts name m =
     (case map_of (pm_routes m) name of
        None \<Rightarrow> m
      | Some route \<Rightarrow>
          publishRouteGeneration route
            (foldl (\<lambda>h e. AList.update (en_portName e) ServiceUnavailable h)
               (currentHandlers m (Some route)) (service_entries name m)) m)"

definition RemovePorts :: "string \<Rightarrow> pmgr \<Rightarrow> pmgr" where
  "RemovePorts name m =
     m\<lparr>pm_entries := filter (\<lambda>(key, e). \<not> prefix (servicePrefix name) key) (pm_entries m),
       pm_routes := AList.delete name (pm_routes m)\<rparr>"

definition StablePort :: "string \<Rightarrow> pmgr \<Rightarrow> int" where
  "StablePort name m =
     (case map_of (pm_entries m) (entryKey name ''default'') of
        Some e \<Rightarrow> en_stablePort e
      | None \<Rightarrow> (case service_entries name m of e # _ \<Rightarrow> en_stablePort e | [] \<Rightarrow> 0))"

section \<open>Serving a request\<close>

text \<open>A header is a map from canonical names to the list of its values. A response is the status
  and body of an error page, or the upstream (port, flushing, headers it receives) or directory
  that answers it.\<close>

type_synonym header = "string list gomap"

record request =
  rq_remote_addr :: string
  rq_headers :: header

datatype response =
    HttpError nat string
  | Upstream int bool header
  | FileResponse string

definition EqualFold :: "string \<Rightarrow> string \<Rightarrow> bool" where
  "EqualFold s t = (map to_lower s = map to_lower t)"

text \<open>\<^verbatim>\<open>http.CanonicalHeaderKey\<close> of a name: the first letter and the letters after a hyphen are
  upper case, the others lower case.\<close>

fun canonical_from :: "bool \<Rightarrow> string \<Rightarrow> string" where
  "canonical_from up [] = []"
| "canonical_from up (c # cs) =
     (if up then to_upper c else to_lower c) # canonical_from (c = CHR ''-'') cs"

definition header_get :: "string \<Rightarrow> header \<Rightarrow> string" where
  "header_get k h = (case map_of h k of Some (v # _) \<Rightarrow> v | _ \<Rightarrow> '''')"

text \<open>The director the standard library installs rewrites the URL and pins the user agent; the
  one of the proxy then replaces the client address header.\<close>

definition rp_director :: "request \<Rightarrow> header" where
  "rp_director r =
     (let h = rq_headers r;
          h1 = (if map_of h ''User-Agent'' = None then AList.update ''User-Agent'' [''''] h else h);
          h2 = AList.delete ''X-Anito-Client-Ip'' h1
      in case SplitHostPort (rq_remote_addr r) of
           Some (host, _) \<Rightarrow> AList.update ''X-Anito-Client-Ip'' [host] h2
         | None \<Rightarrow> h2)"

text \<open>After the director \<^verbatim>\<open>httputil.ReverseProxy\<close> removes the hop-by-hop headers: the ones the
  \<^verbatim>\<open>Connection\<close> header names and a fixed list. (The forwarding headers it then adds are not
  modelled.)\<close>

definition hop_headers :: "string list" where
  "hop_headers = [''Connection'', ''Proxy-Connection'', ''Keep-Alive'', ''Proxy-Authenticate'',
     ''Proxy-Authorization'', ''Te'', ''Trailer'', ''Transfer-Encoding'', ''Upgrade'']"

definition connection_tokens :: "header \<Rightarrow> string list" where
  "connection_tokens h =
     filter (\<lambda>t. t \<noteq> '''')
       (map trim_space (concat (map (split_on CHR '','')
          (case map_of h ''Connection'' of Some vs \<Rightarrow> vs | None \<Rightarrow> []))))"

definition removeHopByHopHeaders :: "header \<Rightarrow> header" where
  "removeHopByHopHeaders h =
     foldl (\<lambda>h k. AList.delete k h) h (map (canonical_from True) (connection_tokens h) @ hop_headers)"

definition reverse_proxy_headers :: "request \<Rightarrow> header" where
  "reverse_proxy_headers r = removeHopByHopHeaders (rp_director r)"

text \<open>\<^verbatim>\<open>flushProxy.ServeHTTP\<close>: the flag says that the response is flushed after every write.\<close>

definition flush_ServeHTTP :: "int \<Rightarrow> request \<Rightarrow> response" where
  "flush_ServeHTTP port r =
     (if EqualFold (header_get ''Connection'' (rq_headers r)) ''upgrade''
      then Upstream port False (reverse_proxy_headers r)
      else if header_get ''Accept'' (rq_headers r) = ''text/event-stream''
      then Upstream port True (reverse_proxy_headers r)
      else Upstream port False (reverse_proxy_headers r))"

primrec handler_ServeHTTP :: "handler \<Rightarrow> request \<Rightarrow> response" where
  "handler_ServeHTTP ServiceStarting r = HttpError 503 ''service starting''"
| "handler_ServeHTTP ServiceUnavailable r = HttpError 503 ''service unavailable''"
| "handler_ServeHTTP (FlushProxy port) r = flush_ServeHTTP port r"
| "handler_ServeHTTP (FileServer dir) r = FileResponse dir"

definition serve_entry :: "pmgr \<Rightarrow> pentry \<Rightarrow> request \<Rightarrow> response" where
  "serve_entry m e r =
     (case map_of (pm_gens m (en_route e)) (en_portName e) of
        None \<Rightarrow> HttpError 503 ''service unavailable''
      | Some h \<Rightarrow> handler_ServeHTTP h r)"

end
