(* ===== verification/Names.thy ===== *)
theory Names
  imports Prelude
begin

text \<open>
  The two service-name checks of \<^verbatim>\<open>internal/service/service.go\<close>: the exported one that the
  deploy paths call and the one of the reservation and log paths. Names that pass are safe as
  one segment of a file name and as the service part of the proxy's composite keys.
\<close>

section \<open>The checks\<close>

definition DaemonLogName :: string where
  "DaemonLogName = ''~daemon''"

definition isServiceNameAlphaNum :: "char \<Rightarrow> bool" where
  "isServiceNameAlphaNum c \<longleftrightarrow>
     (CHR ''a'' \<le> c \<and> c \<le> CHR ''z'') \<or> (CHR ''A'' \<le> c \<and> c \<le> CHR ''Z'') \<or>
     (CHR ''0'' \<le> c \<and> c \<le> CHR ''9'')"

definition name_char :: "char \<Rightarrow> bool" where
  "name_char c \<longleftrightarrow> isServiceNameAlphaNum c \<or> c = CHR ''.'' \<or> c = CHR ''_'' \<or> c = CHR ''-''"

definition ValidateServiceName :: "string \<Rightarrow> err + unit" where
  "ValidateServiceName name =
     (if name = '''' then Inl (Errorf ''invalid service name: name is required'' [])
      else if prefix DaemonLogName name
      then Inl (Errorf ''invalid service name %q: %s is reserved'' [FStr name, FStr DaemonLogName])
      else if 64 < length name
      then Inl (Errorf ''invalid service name %q: must be 64 characters or fewer'' [FStr name])
      else if str_contains name ''..''
      then Inl (Errorf ''invalid service name %q: must not contain '..' '' [FStr name])
      else if \<not> isServiceNameAlphaNum (hd name)
      then Inl (Errorf ''invalid service name %q: must start with a letter or digit'' [FStr name])
      else if \<not> list_all name_char (tl name)
      then Inl (Errorf ''invalid service name %q: only letters, digits, '.', '_' and '-' are allowed''
                  [FStr name])
      else Inr ())"

definition validateServiceName :: "string \<Rightarrow> err + unit" where
  "validateServiceName name =
     (if name = '''' then Inl (InvalidConfigf ''service name is required'' [])
      else if 128 < length name
      then Inl (InvalidConfigf ''service name must be 128 characters or fewer'' [])
      else if name = DaemonLogName \<or> name = ''.'' \<or> name = ''..''
      then Inl (InvalidConfigf ''service name %q is reserved'' [FStr name])
      else case filter (\<lambda>c. \<not> name_char c) name of
             c # _ \<Rightarrow> Inl (InvalidConfigf ''service name %q contains invalid character %q''
                             [FStr name, FStr [c]])
           | [] \<Rightarrow> Inr ())"

section \<open>What the checks guarantee\<close>

lemma name_char_safe: "name_char c \<Longrightarrow> c \<noteq> CHR ''/'' \<and> c \<noteq> CHR '':'' \<and> \<not> is_space c"
  by (auto simp: name_char_def isServiceNameAlphaNum_def is_space_def)

lemma ValidateServiceName_chars:
  "ok (ValidateServiceName name) \<Longrightarrow> list_all name_char name"
  by (cases name) (auto simp: ValidateServiceName_def name_char_def split: if_splits)

lemma validateServiceName_chars:
  "ok (validateServiceName name) \<Longrightarrow> list_all name_char name"
  by (auto simp: validateServiceName_def list_all_iff filter_empty_conv
      split: if_splits list.splits)

lemma ValidateServiceName_colon: "ok (ValidateServiceName name) \<Longrightarrow> CHR '':'' \<notin> set name"
  using ValidateServiceName_chars [of name] name_char_safe by (auto simp: list_all_iff)

lemma ValidateServiceName_nonempty: "ok (ValidateServiceName name) \<Longrightarrow> name \<noteq> ''''"
  by (auto simp: ValidateServiceName_def)

section \<open>Properties\<close>

text \<open>a valid service name is one safe path segment: it is not empty, has at most 64
  characters, no slash, no colon, no white space and no \<^verbatim>\<open>..\<close>, does not begin with a dot or a
  dash and is not in the daemon's reserved range.\<close>

theorem ValidateServiceName_safe:
  assumes "ok (ValidateServiceName name)"
  shows "0 < length name \<and> length name \<le> 64 \<and> CHR ''/'' \<notin> set name \<and> CHR '':'' \<notin> set name
    \<and> {c \<in> set name. is_space c} = {} \<and> \<not> sublist ''..'' name
    \<and> isServiceNameAlphaNum (hd name) \<and> \<not> prefix DaemonLogName name"
proof -
  have "list_all name_char name" using assms by (rule ValidateServiceName_chars)
  then have "CHR ''/'' \<notin> set name" "CHR '':'' \<notin> set name" "{c \<in> set name. is_space c} = {}"
    using name_char_safe by (auto simp: list_all_iff)
  then show ?thesis
    using assms by (auto simp: ValidateServiceName_def str_contains_iff split: if_splits)
qed

theorem ValidateServiceName_safe_witness: "\<not> sublist ''..'' ''my-app.v2''"
proof -
  have "ok (ValidateServiceName ''my-app.v2'')" by code_simp
  from ValidateServiceName_safe [OF this] show ?thesis by blast
qed

text \<open>every name the deploy paths accept is accepted by the reservation and log paths; the
  converse fails (for instance for a name with a leading dot), so the second check is strictly
  weaker.\<close>

theorem name_checks_nested:
  "{n. ok (ValidateServiceName n)} \<subset> {n. ok (validateServiceName n)}"
proof -
  have "ok (validateServiceName n)" if "ok (ValidateServiceName n)" for n
  proof -
    have "list_all name_char n" using that by (rule ValidateServiceName_chars)
    then have "filter (\<lambda>c. \<not> name_char c) n = []"
      by (simp add: list_all_iff filter_empty_conv)
    moreover have "n \<noteq> DaemonLogName" "n \<noteq> ''.''" "n \<noteq> ''..''" "n \<noteq> ''''" "length n \<le> 64"
      using that by (auto simp: ValidateServiceName_def isServiceNameAlphaNum_def split: if_splits)
    ultimately show ?thesis by (simp add: validateServiceName_def)
  qed
  moreover have "ok (validateServiceName ''.hidden'')" by code_simp
  moreover have "\<not> ok (ValidateServiceName ''.hidden'')" by code_simp
  ultimately show ?thesis by blast
qed

end
