(* ===== verification/Proxy_Inv.thy ===== *)
theory Proxy_Inv
  imports Proxy Names
begin

text \<open>
  The invariant of the proxy manager and what each operation does to the handlers the named
  ports serve. \<open>port_router\<close> is the contract the service layer relies on; the proxy's model is
  its interpretation \<open>px\<close>.
\<close>

text \<open>Lookups stay lookups in the proofs that follow.\<close>

declare map_of_eq_Some_iff [simp del]

section \<open>Composite keys\<close>

lemma colon_split:
  "CHR '':'' \<notin> set a \<Longrightarrow> CHR '':'' \<notin> set b \<Longrightarrow> a @ CHR '':'' # xs = b @ CHR '':'' # ys \<longleftrightarrow> a = b \<and> xs = ys"
  by (induction a arbitrary: b) (case_tac b; auto)+

lemma entryKey_inject:
  "CHR '':'' \<notin> set a \<Longrightarrow> CHR '':'' \<notin> set b \<Longrightarrow> entryKey a p = entryKey b q \<longleftrightarrow> a = b \<and> p = q"
  by (simp add: entryKey_def colon_split)

lemma servicePrefix_iff:
  assumes "CHR '':'' \<notin> set n" and "CHR '':'' \<notin> set s"
  shows "prefix (servicePrefix n) (entryKey s p) \<longleftrightarrow> n = s"
proof
  assume "prefix (servicePrefix n) (entryKey s p)"
  then obtain zs where "s @ CHR '':'' # p = n @ CHR '':'' # zs"
    by (auto simp: servicePrefix_def entryKey_def prefix_def)
  with assms show "n = s" by (simp add: colon_split)
qed (simp add: servicePrefix_def entryKey_def)

section \<open>The invariant\<close>

definition entry_ok :: "pmgr \<Rightarrow> string \<Rightarrow> pentry \<Rightarrow> bool" where
  "entry_ok m k e \<longleftrightarrow> (\<exists>s. CHR '':'' \<notin> set s \<and> k = entryKey s (en_portName e)
     \<and> map_of (pm_routes m) s = Some (en_route e))"

definition pm_inv :: "pmgr \<Rightarrow> bool" where
  "pm_inv m \<longleftrightarrow> distinct (map fst (pm_entries m))
     \<and> (\<forall>(k, e) \<in> set (pm_entries m). entry_ok m k e)
     \<and> distinct (map fst (pm_routes m)) \<and> inj_on (map_of (pm_routes m)) (dom (map_of (pm_routes m)))
     \<and> (\<forall>i \<in> ran (map_of (pm_routes m)). i < pm_next m)"

text \<open>What a request to a service's named port meets: no entry (\<open>None\<close>), an entry without a
  handler, or its handler.\<close>

definition serving :: "pmgr \<Rightarrow> string \<Rightarrow> string \<Rightarrow> handler option option" where
  "serving m s p =
     map_option (\<lambda>e. map_of (pm_gens m (en_route e)) (en_portName e))
       (map_of (pm_entries m) (entryKey s p))"

lemma pm_inv_entry:
  assumes "pm_inv m" and "CHR '':'' \<notin> set s" and "map_of (pm_entries m) (entryKey s p) = Some e"
  shows "en_portName e = p" and "map_of (pm_routes m) s = Some (en_route e)"
proof -
  from assms(1,3) have "entry_ok m (entryKey s p) e"
    by (auto simp: pm_inv_def dest!: map_of_SomeD)
  with assms(2) show "en_portName e = p" and "map_of (pm_routes m) s = Some (en_route e)"
    by (auto simp: entry_ok_def entryKey_inject)
qed

lemma pm_inv_route_inj:
  "pm_inv m \<Longrightarrow> map_of (pm_routes m) a = Some i \<Longrightarrow> map_of (pm_routes m) b = Some i \<Longrightarrow> a = b"
  unfolding pm_inv_def inj_on_def by (metis domI)

lemma serving_entry:
  "pm_inv m \<Longrightarrow> CHR '':'' \<notin> set s \<Longrightarrow> map_of (pm_entries m) (entryKey s p) = Some e \<Longrightarrow>
   serving m s p = Some (map_of (pm_gens m (en_route e)) p)"
  using pm_inv_entry by (simp add: serving_def)

lemma serve_entry_serving:
  "map_of (pm_entries m) (entryKey s p) = Some e \<Longrightarrow>
   serve_entry m e r = (case serving m s p of
       Some (Some h) \<Rightarrow> handler_ServeHTTP h r | _ \<Rightarrow> HttpError 503 ''service unavailable'')"
  by (simp add: serve_entry_def serving_def split: option.split)

section \<open>Publishing a generation\<close>

lemma publish_fields [simp]:
  "pm_entries (publishRouteGeneration i g m) = pm_entries m"
  "pm_routes (publishRouteGeneration i g m) = pm_routes m"
  "pm_next (publishRouteGeneration i g m) = pm_next m"
  "pm_leaked (publishRouteGeneration i g m) = pm_leaked m"
  "pm_gens (publishRouteGeneration i g m) = (pm_gens m)(i := g)"
  by (simp_all add: publishRouteGeneration_def)

lemma publish_inv [simp]: "pm_inv (publishRouteGeneration i g m) = pm_inv m"
  by (simp add: pm_inv_def entry_ok_def)

lemma publish_serving:
  assumes "pm_inv m" and "map_of (pm_routes m) n = Some i" and "CHR '':'' \<notin> set s"
  shows "serving (publishRouteGeneration i g m) s p =
    (if s = n \<and> map_of (pm_entries m) (entryKey s p) \<noteq> None then Some (map_of g p)
     else serving m s p)"
proof (cases "map_of (pm_entries m) (entryKey s p)")
  case None
  then show ?thesis by (simp add: serving_def)
next
  case (Some e)
  with assms have e: "en_portName e = p" "map_of (pm_routes m) s = Some (en_route e)"
    by (auto dest: pm_inv_entry)
  moreover have "en_route e = i \<longleftrightarrow> s = n"
    using assms(1,2) e(2) by (auto dest: pm_inv_route_inj)
  ultimately show ?thesis using Some by (simp add: serving_def)
qed

section \<open>Swap, unswap, remove\<close>

lemma swap_handlers_lookup:
  "distinct (map fst ports) \<Longrightarrow> swap_handlers ports h = Inr h' \<Longrightarrow>
   map_of h' p = (case map_of ports p of Some q \<Rightarrow> Some (FlushProxy q) | None \<Rightarrow> map_of h p)"
proof (induction ports h arbitrary: h' rule: swap_handlers.induct)
  case (2 portName port ports h)
  then have "swap_handlers ports (AList.update portName (FlushProxy port) h) = Inr h'"
    and "\<not> port < 0" by (auto split: if_splits)
  moreover from "2.prems"(1) have "map_of ports portName = None" "distinct (map fst ports)"
    by (auto simp: map_of_eq_None_iff)
  ultimately show ?case using "2.IH" by (auto split: option.splits)
qed simp

lemma SwapPorts_fail: "fst (SwapPorts n ports m) = Inl e \<Longrightarrow> snd (SwapPorts n ports m) = m"
  by (auto simp: SwapPorts_def split: option.splits list.splits sum.splits)

lemma SwapPorts_inv: "pm_inv m \<Longrightarrow> pm_inv (snd (SwapPorts n ports m))"
  by (auto simp: SwapPorts_def split: option.splits list.splits sum.splits)

lemma SwapPorts_ok:
  assumes "fst (SwapPorts n ports m) = Inr ()"
  obtains i h where "map_of (pm_routes m) n = Some i"
    and "\<And>p q. (p, q) \<in> set ports \<Longrightarrow> map_of (pm_entries m) (entryKey n p) \<noteq> None"
    and "swap_handlers ports (pm_gens m i) = Inr h"
    and "snd (SwapPorts n ports m) = publishRouteGeneration i h m"
proof -
  from assms obtain i where i: "map_of (pm_routes m) n = Some i"
    by (auto simp: SwapPorts_def split: option.splits)
  from assms i have f: "filter (\<lambda>(p, _). map_of (pm_entries m) (entryKey n p) = None) ports = []"
    by (auto simp: SwapPorts_def split: list.splits)
  from assms i f obtain h where h: "swap_handlers ports (pm_gens m i) = Inr h"
    by (auto simp: SwapPorts_def currentHandlers_def split: sum.splits)
  show thesis
  proof (rule that)
    show "snd (SwapPorts n ports m) = publishRouteGeneration i h m"
      using i f h by (simp add: SwapPorts_def currentHandlers_def)
    show "(p, q) \<in> set ports \<Longrightarrow> map_of (pm_entries m) (entryKey n p) \<noteq> None" for p q
      using f by (auto simp: filter_empty_conv)
  qed (use i h in simp_all)
qed

lemma SwapPorts_serving:
  assumes "pm_inv m" and "CHR '':'' \<notin> set s" and "distinct (map fst ports)"
    and "fst (SwapPorts n ports m) = Inr ()"
  shows "serving (snd (SwapPorts n ports m)) s p =
    (case map_of ports p of
       Some q \<Rightarrow> if s = n then Some (Some (FlushProxy q)) else serving m s p
     | None \<Rightarrow> serving m s p)"
proof -
  from assms(4) obtain i h where i: "map_of (pm_routes m) n = Some i"
    and reg: "\<And>p q. (p, q) \<in> set ports \<Longrightarrow> map_of (pm_entries m) (entryKey n p) \<noteq> None"
    and h: "swap_handlers ports (pm_gens m i) = Inr h"
    and new: "snd (SwapPorts n ports m) = publishRouteGeneration i h m"
    by (rule SwapPorts_ok) blast
  from swap_handlers_lookup [OF assms(3) h]
  have look: "map_of h p =
      (case map_of ports p of Some q \<Rightarrow> Some (FlushProxy q) | None \<Rightarrow> map_of (pm_gens m i) p)" .
  show ?thesis
  proof (cases "s = n \<and> map_of (pm_entries m) (entryKey s p) \<noteq> None")
    case True
    then obtain e where e: "map_of (pm_entries m) (entryKey s p) = Some e" by auto
    from pm_inv_entry [OF assms(1,2) e] True i have "en_route e = i" by simp
    with serving_entry [OF assms(1,2) e] have "serving m s p = Some (map_of (pm_gens m i) p)"
      by simp
    with True look show ?thesis
      using publish_serving [OF assms(1) i assms(2), of h p] new e
      by (simp split: option.split)
  next
    case False
    have "map_of ports p = Some q \<Longrightarrow> s \<noteq> n" for q
      using False reg [of p q] by (metis map_of_SomeD)
    with False show ?thesis
      by (auto simp: new publish_serving [OF assms(1) i assms(2)] split: option.split)
  qed
qed

lemma foldl_unavailable:
  "map_of (foldl (\<lambda>h e. AList.update (en_portName e) ServiceUnavailable h) h es) p =
   (if p \<in> en_portName ` set es then Some ServiceUnavailable else map_of h p)"
  by (induction es arbitrary: h) auto

lemma service_entries_ports:
  assumes "pm_inv m" and "CHR '':'' \<notin> set n"
  shows "p \<in> en_portName ` set (service_entries n m) \<longleftrightarrow>
    map_of (pm_entries m) (entryKey n p) \<noteq> None"
proof
  assume "p \<in> en_portName ` set (service_entries n m)"
  then obtain k e where ke: "(k, e) \<in> set (pm_entries m)" "prefix (servicePrefix n) k"
      "p = en_portName e" by (auto simp: service_entries_def)
  with assms(1) obtain s where s: "CHR '':'' \<notin> set s" "k = entryKey s (en_portName e)"
    by (auto simp: pm_inv_def entry_ok_def)
  with ke(2) assms(2) have "n = s" by (simp add: servicePrefix_iff)
  with s ke show "map_of (pm_entries m) (entryKey n p) \<noteq> None"
    by (metis map_of_eq_None_iff fst_conv imageI)
next
  assume "map_of (pm_entries m) (entryKey n p) \<noteq> None"
  then obtain e where e: "map_of (pm_entries m) (entryKey n p) = Some e" by auto
  from pm_inv_entry [OF assms e] have "en_portName e = p" by simp
  moreover from e have "e \<in> set (service_entries n m)"
    using assms(2) by (force simp: service_entries_def servicePrefix_iff dest: map_of_SomeD)
  ultimately show "p \<in> en_portName ` set (service_entries n m)" by blast
qed

lemma UnswapPorts_inv: "pm_inv m \<Longrightarrow> pm_inv (UnswapPorts n m)"
  by (simp add: UnswapPorts_def split: option.split)

lemma UnswapPorts_serving:
  assumes "pm_inv m" and "CHR '':'' \<notin> set n" and "CHR '':'' \<notin> set s"
  shows "serving (UnswapPorts n m) s p =
    (if s = n \<and> serving m s p \<noteq> None then Some (Some ServiceUnavailable) else serving m s p)"
proof (cases "map_of (pm_routes m) n")
  case None
  have "serving m n p = None"
    using None pm_inv_entry(2) [OF assms(1,2)] by (cases "map_of (pm_entries m) (entryKey n p)")
      (auto simp: serving_def)
  with None show ?thesis by (auto simp: UnswapPorts_def)
next
  case (Some i)
  let ?h = "foldl (\<lambda>h e. AList.update (en_portName e) ServiceUnavailable h) (pm_gens m i)
              (service_entries n m)"
  from Some have "UnswapPorts n m = publishRouteGeneration i ?h m"
    by (simp add: UnswapPorts_def currentHandlers_def)
  moreover have "serving m s p \<noteq> None \<longleftrightarrow> map_of (pm_entries m) (entryKey s p) \<noteq> None"
    by (simp add: serving_def)
  ultimately show ?thesis
    using service_entries_ports [OF assms(1,2), of p]
      publish_serving [OF assms(1) Some assms(3), of ?h p]
    by (auto simp: foldl_unavailable)
qed

lemma map_of_filter_key:
  "map_of (filter (\<lambda>(k, v). P k) xs) k = (if P k then map_of xs k else None)"
  by (induction xs) auto

lemma RemovePorts_serving:
  assumes "CHR '':'' \<notin> set n" and "CHR '':'' \<notin> set s"
  shows "serving (RemovePorts n m) s p = (if s = n then None else serving m s p)"
  using assms by (simp add: serving_def RemovePorts_def map_of_filter_key servicePrefix_iff)

lemma RemovePorts_inv:
  assumes "pm_inv m"
  shows "pm_inv (RemovePorts n m)"
proof -
  have "entry_ok (RemovePorts n m) k e"
    if e: "(k, e) \<in> set (pm_entries (RemovePorts n m))" for k e
  proof -
    from e assms obtain s where s: "CHR '':'' \<notin> set s" "k = entryKey s (en_portName e)"
        "map_of (pm_routes m) s = Some (en_route e)" and k: "\<not> prefix (servicePrefix n) k"
      by (auto simp: RemovePorts_def pm_inv_def entry_ok_def)
    then have "s \<noteq> n" by (auto simp: servicePrefix_def entryKey_def)
    with s show ?thesis by (auto simp: entry_ok_def RemovePorts_def)
  qed
  moreover have "inj_on (map_of (pm_routes (RemovePorts n m))) (dom (map_of (pm_routes (RemovePorts n m))))"
    using pm_inv_route_inj [OF assms]
    by (auto simp: RemovePorts_def inj_on_def)
  moreover have "ran (map_of (pm_routes (RemovePorts n m))) \<subseteq> ran (map_of (pm_routes m))"
    by (auto simp: RemovePorts_def ran_def)
  ultimately show ?thesis
    using assms by (auto simp: pm_inv_def RemovePorts_def distinct_map_filter)
qed

section \<open>Registering\<close>

lemma bind_ports_keeps:
  "pm_routes (snd (bind_ports env n b ports pending m)) = pm_routes m
   \<and> pm_gens (snd (bind_ports env n b ports pending m)) = pm_gens m
   \<and> pm_next (snd (bind_ports env n b ports pending m)) = pm_next m
   \<and> map fst (pm_entries (snd (bind_ports env n b ports pending m))) = map fst (pm_entries m)"
proof (induction env n b ports pending m rule: bind_ports.induct)
  case (2 env name bindAddress portName stablePort ports pending m)
  show ?case
  proof (cases "map_of (pm_entries m) (entryKey name portName)")
    case None
    with 2 show ?thesis by (auto simp: Let_def split: sum.split)
  next
    case (Some e)
    then have "entryKey name portName \<in> fst ` set (pm_entries m)"
      by (force dest: map_of_SomeD)
    with Some 2 show ?thesis by (auto simp: Let_def update_keys split: sum.split)
  qed
qed simp

lemma bind_ports_serving:
  "serving (snd (bind_ports env n b ports pending m)) s p = serving m s p"
proof (induction env n b ports pending m rule: bind_ports.induct)
  case (2 env name bindAddress portName stablePort ports pending m)
  then show ?case
    by (auto simp: Let_def serving_def split: option.split sum.split)
qed simp

lemma bind_ports_inv: "pm_inv m \<Longrightarrow> pm_inv (snd (bind_ports env n b ports pending m))"
proof (induction env n b ports pending m rule: bind_ports.induct)
  case (2 env name bindAddress portName stablePort ports pending m)
  let ?k = "entryKey name portName"
  have upd: "pm_inv (m\<lparr>pm_entries := AList.update ?k (e\<lparr>en_stablePort := stablePort,
      en_bindAddress := bindAddress, en_sockets := ls\<rparr>) (pm_entries m)\<rparr>)"
    if "map_of (pm_entries m) ?k = Some e" for e ls
    using "2.prems" map_of_SomeD [OF that]
    by (auto simp: pm_inv_def entry_ok_def dest!: set_update_in)
  have leak: "pm_inv (m\<lparr>pm_leaked := xs\<rparr>)" for xs
    using "2.prems" by (simp add: pm_inv_def entry_ok_def)
  from 2 upd leak show ?case
    by (auto simp: Let_def split: option.split sum.split)
qed simp

lemma bind_ports_other:
  assumes "CHR '':'' \<notin> set n" and "CHR '':'' \<notin> set s" and "s \<noteq> n"
  shows "map_of (pm_entries (snd (bind_ports env n b ports pending m))) (entryKey s p) =
     map_of (pm_entries m) (entryKey s p)"
  using assms
proof (induction env n b ports pending m rule: bind_ports.induct)
  case (2 env name bindAddress portName stablePort ports pending m)
  then have "entryKey s p \<noteq> entryKey name portName" by (simp add: entryKey_inject)
  with 2 show ?case by (auto simp: Let_def split: option.split sum.split)
qed simp

text \<open>The pending ports of a successful run are the requested ports that had no entry.\<close>

definition pending_ok :: "string \<Rightarrow> pentry gomap \<Rightarrow> bool" where
  "pending_ok n pending \<longleftrightarrow> (\<forall>(k, e) \<in> set pending. k = entryKey n (en_portName e))"

lemma bind_ports_pending:
  assumes "bind_ports env n b ports pending m = (Inr pending', m')" and "pending_ok n pending"
  shows "pending_ok n pending' \<and>
    (\<lambda>(k, e). en_portName e) ` set pending' =
      (\<lambda>(k, e). en_portName e) ` set pending
      \<union> {p \<in> fst ` set ports. map_of (pm_entries m) (entryKey n p) = None}"
  using assms
proof (induction env n b ports pending m rule: bind_ports.induct)
  case (2 env name bindAddress portName stablePort ports pending m)
  let ?k = "entryKey name portName"
  show ?case
  proof (cases "map_of (pm_entries m) ?k")
    case None
    with "2.prems"(1) obtain ls where ls: "listen env (held_sockets m pending) bindAddress stablePort = Inr ls"
      by (auto simp: Let_def split: sum.splits)
    let ?e = "\<lparr>en_stablePort = stablePort, en_bindAddress = bindAddress,
                en_portName = portName, en_sockets = ls, en_route = 0\<rparr>"
    from "2.prems"(1) None ls
    have "bind_ports env name bindAddress ports (pending @ [(?k, ?e)]) m = (Inr pending', m')"
      by (simp add: Let_def)
    moreover from "2.prems"(2) have "pending_ok name (pending @ [(?k, ?e)])"
      by (auto simp: pending_ok_def)
    ultimately show ?thesis using "2.IH"(1) [OF refl None ls] None by auto
  next
    case (Some e)
    show ?thesis
    proof (cases "en_stablePort e = stablePort \<and> en_bindAddress e = bindAddress")
      case True
      with "2.prems" "2.IH"(2) [OF refl Some True] Some show ?thesis by (auto simp: Let_def)
    next
      case False
      with "2.prems"(1) Some obtain ls where
        ls: "listen env (held_sockets m pending) bindAddress stablePort = Inr ls"
        by (auto simp: Let_def split: sum.splits if_splits)
      with "2.prems" "2.IH"(3) [OF refl Some False ls] Some False show ?thesis
        by (auto simp: Let_def split: if_splits)
    qed
  qed
qed simp

lemma starting_handlers_lookup:
  "map_of (starting_handlers pending h) p =
   (if p \<in> (\<lambda>(k, e). en_portName e) ` set pending then Some ServiceStarting else map_of h p)"
  by (induction pending arbitrary: h) (auto simp: starting_handlers_def)

lemma add_entries_Cons:
  "add_entries i ((k, e) # pending) es = add_entries i pending (AList.update k (e\<lparr>en_route := i\<rparr>) es)"
  by (simp add: add_entries_def)

lemma add_entries_lookup:
  "map_of (add_entries i pending es) k =
   (case map_of (rev pending) k of Some e \<Rightarrow> Some (e\<lparr>en_route := i\<rparr>) | None \<Rightarrow> map_of es k)"
proof (induction pending arbitrary: es)
  case (Cons p pending)
  obtain k' e' where p: "p = (k', e')" by (cases p)
  show ?case
    using Cons.IH [of "AList.update k' (e'\<lparr>en_route := i\<rparr>) es"]
    by (auto simp: p add_entries_Cons map_add_def split: option.splits)
qed (simp add: add_entries_def)

lemma add_entries_distinct:
  "distinct (map fst es) \<Longrightarrow> distinct (map fst (add_entries i pending es))"
proof (induction pending arbitrary: es)
  case (Cons p pending)
  then show ?case by (cases p) (simp add: add_entries_Cons)
qed (simp add: add_entries_def)

lemma route_for_spec:
  assumes "pm_inv m"
  shows "pm_inv (snd (route_for n m)) \<and> map_of (pm_routes (snd (route_for n m))) n = Some (fst (route_for n m))
    \<and> pm_entries (snd (route_for n m)) = pm_entries m
    \<and> (CHR '':'' \<notin> set s \<longrightarrow> serving (snd (route_for n m)) s p = serving m s p)"
proof (cases "map_of (pm_routes m) n")
  case None
  let ?m = "m\<lparr>pm_routes := AList.update n (pm_next m) (pm_routes m),
              pm_gens := (pm_gens m)(pm_next m := []), pm_next := Suc (pm_next m)\<rparr>"
  have lt: "map_of (pm_routes m) s' = Some i \<Longrightarrow> i < pm_next m" for s' i
    using assms unfolding pm_inv_def by (meson ranI)
  have ok: "entry_ok ?m k e" if "entry_ok m k e" for k e
  proof -
    from that obtain s' where s': "CHR '':'' \<notin> set s'" "k = entryKey s' (en_portName e)"
      "map_of (pm_routes m) s' = Some (en_route e)" unfolding entry_ok_def by blast
    moreover from s' None have "map_of (pm_routes ?m) s' = Some (en_route e)" by auto
    ultimately show ?thesis unfolding entry_ok_def by blast
  qed
  have "inj_on (map_of (pm_routes ?m)) (dom (map_of (pm_routes ?m)))"
  proof (rule inj_onI)
    fix a b
    assume ab: "a \<in> dom (map_of (pm_routes ?m))" "b \<in> dom (map_of (pm_routes ?m))"
      "map_of (pm_routes ?m) a = map_of (pm_routes ?m) b"
    then obtain i where "map_of (pm_routes ?m) a = Some i" "map_of (pm_routes ?m) b = Some i"
      by (metis domD)
    then show "a = b"
      using lt pm_inv_route_inj [OF assms, of a i b]
      by (auto split: if_splits)
  qed
  moreover have "i < Suc (pm_next m)" if "i \<in> ran (map_of (pm_routes ?m))" for i
  proof -
    from that obtain s' where "map_of (pm_routes ?m) s' = Some i" by (auto simp: ran_def)
    with lt [of s' i] show ?thesis by (auto split: if_splits)
  qed
  ultimately have "pm_inv ?m"
    using assms ok by (auto simp: pm_inv_def)
  moreover have "serving ?m s p = serving m s p" if "CHR '':'' \<notin> set s"
  proof (cases "map_of (pm_entries m) (entryKey s p)")
    case (Some e)
    with pm_inv_entry [OF assms that Some] lt have "en_route e < pm_next m" by blast
    with Some show ?thesis by (simp add: serving_def)
  qed (simp add: serving_def)
  ultimately show ?thesis using None by (simp add: route_for_def)
next
  case (Some i)
  with assms show ?thesis by (simp add: route_for_def)
qed

lemma add_entries_in:
  "(k, e) \<in> set (add_entries i pending es) \<Longrightarrow>
   (k, e) \<in> set es \<or> (\<exists>e'. (k, e') \<in> set pending \<and> e = e'\<lparr>en_route := i\<rparr>)"
proof (induction pending arbitrary: es)
  case (Cons p pending)
  obtain k' e' where p: "p = (k', e')" by (cases p)
  from Cons.prems have "(k, e) \<in> set (add_entries i pending (AList.update k' (e'\<lparr>en_route := i\<rparr>) es))"
    by (simp add: p add_entries_Cons)
  from Cons.IH [OF this] show ?case
    by (auto simp: p dest!: set_update_in)
qed (simp add: add_entries_def)

lemma commit_pending_spec:
  assumes "pm_inv m" and "pending_ok n pending" and "CHR '':'' \<notin> set n"
  shows "pm_inv (commit_pending n pending m)"
    and "CHR '':'' \<notin> set s \<Longrightarrow> serving (commit_pending n pending m) s p =
      (if s = n \<and> p \<in> (\<lambda>(k, e). en_portName e) ` set pending
       then Some (Some ServiceStarting) else serving m s p)"
proof -
  obtain i m1 where rf: "route_for n m = (i, m1)" by (cases "route_for n m")
  let ?g = "starting_handlers pending (pm_gens m1 i)"
  let ?m2 = "publishRouteGeneration i ?g m1"
  let ?es = "add_entries i pending (pm_entries m1)"
  have c: "commit_pending n pending m = ?m2\<lparr>pm_entries := ?es\<rparr>"
    by (simp add: commit_pending_def rf Let_def currentHandlers_def)
  from route_for_spec [OF assms(1), of n s p] rf have inv1: "pm_inv m1"
    and i: "map_of (pm_routes m1) n = Some i" and es: "pm_entries m1 = pm_entries m"
    and same: "CHR '':'' \<notin> set s \<Longrightarrow> serving m1 s p = serving m s p" by auto
  have ent: "entry_ok (?m2\<lparr>pm_entries := ?es\<rparr>) k e" if "(k, e) \<in> set ?es" for k e
    using add_entries_in [OF that]
  proof
    assume "(k, e) \<in> set (pm_entries m1)"
    with inv1 have "entry_ok m1 k e" by (auto simp: pm_inv_def)
    then show ?thesis by (simp add: entry_ok_def)
  next
    assume "\<exists>e'. (k, e') \<in> set pending \<and> e = e'\<lparr>en_route := i\<rparr>"
    then obtain e' where e': "(k, e') \<in> set pending" "e = e'\<lparr>en_route := i\<rparr>" by blast
    with assms(2) have "k = entryKey n (en_portName e)" by (auto simp: pending_ok_def)
    moreover have "map_of (pm_routes (?m2\<lparr>pm_entries := ?es\<rparr>)) n = Some (en_route e)"
      using i e' by simp
    ultimately show ?thesis using assms(3) unfolding entry_ok_def by blast
  qed
  show "pm_inv (commit_pending n pending m)"
    using inv1 ent unfolding c by (auto simp: pm_inv_def add_entries_distinct)
  assume s: "CHR '':'' \<notin> set s"
  show "serving (commit_pending n pending m) s p =
      (if s = n \<and> p \<in> (\<lambda>(k, e). en_portName e) ` set pending
       then Some (Some ServiceStarting) else serving m s p)"
  proof (cases "map_of (rev pending) (entryKey s p)")
    case None
    have no: "\<not> (s = n \<and> p \<in> (\<lambda>(k, e). en_portName e) ` set pending)"
    proof
      assume "s = n \<and> p \<in> (\<lambda>(k, e). en_portName e) ` set pending"
      then obtain k e where "(k, e) \<in> set pending" "p = en_portName e" "s = n" by auto
      with assms(2) have "(entryKey s p, e) \<in> set (rev pending)" by (auto simp: pending_ok_def)
      with None show False by (force simp: map_of_eq_None_iff)
    qed
    have "serving (commit_pending n pending m) s p = serving ?m2 s p"
      using None by (simp add: c serving_def add_entries_lookup)
    also have "\<dots> = serving m1 s p"
    proof (cases "map_of (pm_entries m1) (entryKey s p)")
      case (Some e)
      from pm_inv_entry [OF inv1 s Some] have e: "map_of (pm_routes m1) s = Some (en_route e)" "en_portName e = p"
        by simp_all
      show ?thesis
      proof (cases "s = n")
        case True
        with e i no have "en_route e = i" "map_of ?g p = map_of (pm_gens m1 i) p"
          by (auto simp: starting_handlers_lookup)
        then show ?thesis using Some e by (simp add: serving_def)
      next
        case False
        with publish_serving [OF inv1 i s] show ?thesis by simp
      qed
    qed (simp add: serving_def)
    finally show ?thesis using no same [OF s] by auto
  next
    case (Some e)
    then have "(entryKey s p, e) \<in> set pending" by (auto dest: map_of_SomeD)
    with assms(2) have "entryKey s p = entryKey n (en_portName e)" by (auto simp: pending_ok_def)
    with assms(3) s have sn: "s = n" "p = en_portName e" by (simp_all add: entryKey_inject)
    then have mem: "p \<in> (\<lambda>(k, e). en_portName e) ` set pending"
      using \<open>(entryKey s p, e) \<in> set pending\<close> by force
    then have "map_of ?g p = Some ServiceStarting" by (simp add: starting_handlers_lookup)
    with Some sn mem show ?thesis by (simp add: c serving_def add_entries_lookup)
  qed
qed

lemma Register_inv_serving:
  assumes "pm_inv m" and "CHR '':'' \<notin> set n"
  shows "pm_inv (snd (RegisterPortsWithBind env n ports addr m))"
    and "CHR '':'' \<notin> set s \<Longrightarrow> serving (snd (RegisterPortsWithBind env n ports addr m)) s p =
      (if s = n \<and> p \<in> fst ` set ports \<and> serving m n p = None
          \<and> ok (fst (RegisterPortsWithBind env n ports addr m))
       then Some (Some ServiceStarting) else serving m s p)"
proof -
  define b where "b = (if trim_space addr = '''' then DefaultProxyBindAddress else trim_space addr)"
  let ?b = "bind_ports env n b ports [] m"
  let ?R = "RegisterPortsWithBind env n ports addr m"
  have R: "?R = (case ValidateProxyBindAddress env b of
        Inl e \<Rightarrow> (Inl e, m)
      | Inr _ \<Rightarrow> (case ?b of
             (Inl e, m') \<Rightarrow> (Inl e, m')
           | (Inr pending, m') \<Rightarrow>
               if pending = [] then (Inr (), m') else (Inr (), commit_pending n pending m')))"
    unfolding RegisterPortsWithBind_def b_def Let_def by simp
  have inv: "pm_inv (snd ?b)" using assms(1) by (rule bind_ports_inv)
  have same: "serving (snd ?b) s p = serving m s p" for s p by (rule bind_ports_serving)
  have "pm_inv (snd ?R) \<and> (CHR '':'' \<notin> set s \<longrightarrow> serving (snd ?R) s p =
      (if s = n \<and> p \<in> fst ` set ports \<and> serving m n p = None \<and> ok (fst ?R)
       then Some (Some ServiceStarting) else serving m s p))"
  proof (cases "ValidateProxyBindAddress env b")
    case (Inl e)
    then show ?thesis using assms(1) by (simp add: R)
  next
    case (Inr u)
    show ?thesis
    proof (cases ?b)
      case (Pair res m')
      show ?thesis
      proof (cases res)
        case (Inl e)
        then show ?thesis using Inr Pair inv same [of s p] by (simp add: R)
      next
        case res: (Inr pending)
        from Pair res have b: "?b = (Inr pending, m')" by simp
        from bind_ports_pending [OF b] have pend: "pending_ok n pending"
          "(\<lambda>(k, e). en_portName e) ` set pending =
             {p \<in> fst ` set ports. map_of (pm_entries m) (entryKey n p) = None}"
          by (simp_all add: pending_ok_def)
        have none: "map_of (pm_entries m) (entryKey n p) = None \<longleftrightarrow> serving m n p = None"
          by (simp add: serving_def)
        have R': "?R = (if pending = [] then (Inr (), m') else (Inr (), commit_pending n pending m'))"
          using Inr b by (simp add: R)
        from inv same [of s p] b have m': "pm_inv m'" "serving m' s p = serving m s p" by simp_all
        show ?thesis
        proof (cases "pending = []")
          case True
          with pend(2) have "p \<in> fst ` set ports \<Longrightarrow> serving m n p \<noteq> None"
            using none by auto
          with R' m' True show ?thesis by force
        next
          case False
          from commit_pending_spec(1) [OF m'(1) pend(1) assms(2)]
            commit_pending_spec(2) [OF m'(1) pend(1) assms(2), of s p] m' R' False pend(2) none
          show ?thesis by auto
        qed
      qed
    qed
  qed
  then show "pm_inv (snd ?R)" and "CHR '':'' \<notin> set s \<Longrightarrow> serving (snd ?R) s p =
      (if s = n \<and> p \<in> fst ` set ports \<and> serving m n p = None \<and> ok (fst ?R)
       then Some (Some ServiceStarting) else serving m s p)" by simp_all
qed

lemma pm_inv_New: "pm_inv NewProxy"
  by (simp add: pm_inv_def NewProxy_def)

end
