(* ===== verification/Proxy_Props.thy ===== *)
theory Proxy_Props
  imports Proxy_Inv
begin

text \<open>
  The contract between the proxy and the service layer as a locale, its interpretation on the
  proxy's model, and the properties of the proxy.
\<close>

section \<open>The contract of a port router\<close>

text \<open>A router serves handlers on named ports; \<open>swap\<close> is all or nothing and touches one service
  only; \<open>unswap\<close> leaves no upstream.\<close>

locale port_router =
  fixes inv :: "'st \<Rightarrow> bool"
    and name_ok :: "string \<Rightarrow> bool"
    and serves :: "'st \<Rightarrow> string \<Rightarrow> string \<Rightarrow> 'h option option"
    and upstream :: "int \<Rightarrow> 'h"
    and down :: 'h
    and swap :: "string \<Rightarrow> ports \<Rightarrow> 'st \<Rightarrow> (unit, 'st) res"
    and unswap :: "string \<Rightarrow> 'st \<Rightarrow> 'st"
    and remove :: "string \<Rightarrow> 'st \<Rightarrow> 'st"
  assumes swap_inv: "inv m \<Longrightarrow> inv (snd (swap n ports m))"
    and swap_fail: "fst (swap n ports m) = Inl e \<Longrightarrow> snd (swap n ports m) = m"
    and swap_serves: "inv m \<Longrightarrow> name_ok s \<Longrightarrow> distinct (map fst ports) \<Longrightarrow>
      fst (swap n ports m) = Inr () \<Longrightarrow>
      serves (snd (swap n ports m)) s p =
        (case map_of ports p of
           Some q \<Rightarrow> if s = n then Some (Some (upstream q)) else serves m s p
         | None \<Rightarrow> serves m s p)"
    and unswap_inv: "inv m \<Longrightarrow> inv (unswap n m)"
    and unswap_serves: "inv m \<Longrightarrow> name_ok n \<Longrightarrow> name_ok s \<Longrightarrow>
      serves (unswap n m) s p =
        (if s = n \<and> serves m s p \<noteq> None then Some (Some down) else serves m s p)"
    and remove_inv: "inv m \<Longrightarrow> name_ok n \<Longrightarrow> inv (remove n m)"
    and remove_serves: "name_ok n \<Longrightarrow> name_ok s \<Longrightarrow>
      serves (remove n m) s p = (if s = n then None else serves m s p)"
begin

lemma swap_other:
  assumes "inv m" and "name_ok s" and "distinct (map fst ports)" and "s \<noteq> n"
  shows "serves (snd (swap n ports m)) s p = serves m s p"
proof (cases "fst (swap n ports m)")
  case (Inl e)
  then show ?thesis by (simp add: swap_fail)
next
  case (Inr u)
  with assms show ?thesis by (cases "map_of ports p") (simp_all add: swap_serves)
qed

text \<open>Swapping to a candidate and back serves the previous upstream on every port again.\<close>

lemma swap_back:
  assumes "inv m" and "name_ok n" and "distinct (map fst ports)" and "distinct (map fst old)"
    and "fst ` set ports \<subseteq> fst ` set old" and "fst (swap n ports m) = Inr ()"
    and "fst (swap n old (snd (swap n ports m))) = Inr ()"
    and "\<And>p q. map_of old p = Some q \<Longrightarrow> serves m n p = Some (Some (upstream q))"
  shows "serves (snd (swap n old (snd (swap n ports m)))) n p = serves m n p"
proof (cases "map_of old p")
  case None
  with assms(5) have "map_of ports p = None" by (auto simp: map_of_eq_None_iff)
  with None assms show ?thesis by (simp add: swap_serves swap_inv)
next
  case (Some q)
  with assms show ?thesis by (simp add: swap_serves swap_inv)
qed

lemma swap_unswap:
  assumes "inv m" and "name_ok n" and "name_ok s" and "distinct (map fst ports)"
    and "fst (swap n ports m) = Inr ()"
  shows "serves (unswap n (snd (swap n ports m))) s p = serves (unswap n m) s p
    \<or> s = n \<and> map_of ports p \<noteq> None"
  using assms by (cases "map_of ports p") (auto simp: unswap_serves swap_serves swap_inv)

end

interpretation px: port_router pm_inv "\<lambda>n. CHR '':'' \<notin> set n" serving FlushProxy ServiceUnavailable
    SwapPorts UnswapPorts RemovePorts
  by unfold_locales (simp_all add: SwapPorts_inv SwapPorts_fail SwapPorts_serving UnswapPorts_inv
      UnswapPorts_serving RemovePorts_inv RemovePorts_serving)

section \<open>Reachable proxies\<close>

datatype proxy_op =
    PxRegister net_env string ports string
  | PxSwap string ports
  | PxSwapStatic string string
  | PxUnswap string
  | PxRemove string

fun proxy_exec :: "proxy_op \<Rightarrow> pmgr \<Rightarrow> pmgr" where
  "proxy_exec (PxRegister env n ports addr) m = snd (RegisterPortsWithBind env n ports addr m)"
| "proxy_exec (PxSwap n ports) m = snd (SwapPorts n ports m)"
| "proxy_exec (PxSwapStatic n dir) m = snd (SwapStatic n dir m)"
| "proxy_exec (PxUnswap n) m = UnswapPorts n m"
| "proxy_exec (PxRemove n) m = RemovePorts n m"

fun proxy_op_name :: "proxy_op \<Rightarrow> string" where
  "proxy_op_name (PxRegister env n ports addr) = n"
| "proxy_op_name (PxSwap n ports) = n"
| "proxy_op_name (PxSwapStatic n dir) = n"
| "proxy_op_name (PxUnswap n) = n"
| "proxy_op_name (PxRemove n) = n"

inductive proxy_reachable :: "pmgr \<Rightarrow> bool" where
  px_start: "proxy_reachable NewProxy"
| px_step: "proxy_reachable m \<Longrightarrow> ok (ValidateServiceName (proxy_op_name oper)) \<Longrightarrow>
    proxy_reachable (proxy_exec oper m)"

lemma SwapStatic_inv: "pm_inv m \<Longrightarrow> pm_inv (snd (SwapStatic n dir m))"
  by (simp add: SwapStatic_def split: option.split)

lemma proxy_exec_inv:
  "pm_inv m \<Longrightarrow> CHR '':'' \<notin> set (proxy_op_name oper) \<Longrightarrow> pm_inv (proxy_exec oper m)"
  by (cases oper) (simp_all add: Register_inv_serving px.swap_inv SwapStatic_inv px.unswap_inv
      px.remove_inv)

lemma proxy_reachable_inv: "proxy_reachable m \<Longrightarrow> pm_inv m"
  by (induction rule: proxy_reachable.induct)
    (auto intro: pm_inv_New proxy_exec_inv simp: ValidateServiceName_colon)

lemma SwapStatic_other:
  assumes "pm_inv m" and "CHR '':'' \<notin> set n" and "CHR '':'' \<notin> set s" and "s \<noteq> n"
  shows "serving (snd (SwapStatic n dir m)) s p = serving m s p"
proof (cases "map_of (pm_entries m) (entryKey n ''default'')")
  case (Some e)
  from pm_inv_entry [OF assms(1,2) Some] have "map_of (pm_routes m) n = Some (en_route e)" by simp
  from publish_serving [OF assms(1) this assms(3)] assms(4) Some show ?thesis
    by (simp add: SwapStatic_def)
qed (simp add: SwapStatic_def)

definition distinct_ports :: "proxy_op \<Rightarrow> bool" where
  "distinct_ports oper = (case oper of PxSwap n ports \<Rightarrow> distinct (map fst ports) | _ \<Rightarrow> True)"

text \<open>services are isolated in the proxy: whatever operation runs on one service, every
  request to every port of every other service meets the same handler as before.\<close>

theorem proxy_isolates_services:
  assumes "proxy_reachable m" and "distinct_ports oper"
    and "ok (ValidateServiceName (proxy_op_name oper))" and "ok (ValidateServiceName other)"
    and "other \<noteq> proxy_op_name oper"
  shows "serving (proxy_exec oper m) other p = serving m other p"
proof -
  have "pm_inv m" "CHR '':'' \<notin> set (proxy_op_name oper)" "CHR '':'' \<notin> set other"
    using assms by (auto intro: proxy_reachable_inv simp: ValidateServiceName_colon)
  with assms show ?thesis
    by (cases oper) (simp_all add: Register_inv_serving px.swap_other distinct_ports_def
        SwapStatic_other px.unswap_serves px.remove_serves)
qed

definition demo_env :: net_env where
  "demo_env = \<lparr>ne_interfaces = Inr [IPNet [127, 0, 0, 1], IPNet [100, 101, 102, 103]],
               ne_busy = (\<lambda>a p. p = 22)\<rparr>"

definition demo_proxy :: pmgr where
  "demo_proxy = proxy_exec (PxRegister demo_env ''web'' [(''http'', 8080), (''ws'', 8081)] '''') NewProxy"

lemma demo_names: "ok (ValidateServiceName ''web'')" "ok (ValidateServiceName ''api'')"
  by code_simp+

lemma demo_proxy_reachable: "proxy_reachable demo_proxy"
  unfolding demo_proxy_def by (rule px_step [OF px_start]) (simp add: demo_names)

theorem proxy_isolates_services_witness:
  "serving (proxy_exec (PxRemove ''api'') demo_proxy) ''web'' ''ws'' = serving demo_proxy ''web'' ''ws''"
  by (rule proxy_isolates_services [OF demo_proxy_reachable])
    (simp_all add: demo_names distinct_ports_def)

text \<open>the swap to new upstreams is all or nothing: on success every named port of the service
  serves its new upstream, in one publication, and nothing else changes; on failure nothing
  changes at all. It succeeds exactly when the service is routed, every named port has a
  listener and no port number is negative.\<close>

theorem SwapPorts_all_or_nothing:
  assumes "proxy_reachable m" and "ok (ValidateServiceName name)" and "distinct (map fst ports)"
  shows "if ok (fst (SwapPorts name ports m))
    then (\<lambda>p. serving (snd (SwapPorts name ports m)) name p) =
      (\<lambda>p. case map_of ports p of Some q \<Rightarrow> Some (Some (FlushProxy q)) | None \<Rightarrow> serving m name p)
    else snd (SwapPorts name ports m) = m"
proof -
  have inv: "pm_inv m" and n: "CHR '':'' \<notin> set name"
    using assms by (auto intro: proxy_reachable_inv simp: ValidateServiceName_colon)
  show ?thesis
  proof (cases "fst (SwapPorts name ports m)")
    case (Inl e)
    then show ?thesis by (simp add: px.swap_fail)
  next
    case (Inr u)
    with px.swap_serves [OF inv n assms(3), of name] show ?thesis
      by (auto split: option.split)
  qed
qed

theorem SwapPorts_all_or_nothing_witness:
  "serving (snd (SwapPorts ''web'' [(''ws'', 50001), (''http'', 50000)] demo_proxy)) ''web'' ''http''
     = Some (Some (FlushProxy 50000))"
proof -
  have "ok (fst (SwapPorts ''web'' [(''ws'', 50001), (''http'', 50000)] demo_proxy))" by code_simp
  with SwapPorts_all_or_nothing [OF demo_proxy_reachable demo_names(1),
      of "[(''ws'', 50001), (''http'', 50000)]"]
  show ?thesis by (auto dest!: fun_cong [where x = "''http''"])
qed

section \<open>Where the proxy listens\<close>

lemma trim_space_fixed: "trim_left s = s \<Longrightarrow> trim_left (rev s) = rev s \<Longrightarrow> trim_space s = s"
  by (simp add: trim_space_def)

lemma show_int_chars: "c \<in> set (show_int i) \<Longrightarrow> is_digit c \<or> c = CHR ''-''"
  using show_nat_digits by (auto simp: show_int_def split: if_splits)

lemma show_int_separators: "set (show_int i) \<inter> {CHR '':'', CHR ''['', CHR '']''} = {}"
  by (auto dest!: show_int_chars simp: is_digit_def)

lemma addr_text_plain: "CHR ''['' \<notin> set b \<Longrightarrow> CHR '']'' \<notin> set b \<Longrightarrow> addr_text b = b"
  by (auto simp: addr_text_def trim_prefix_def trim_suffix_def has_suffix_iff prefix_def suffix_def)

lemma addr_text_bracketed: "addr_text (''['' @ h @ '']'') = h"
  by (simp add: addr_text_def trim_prefix_def trim_suffix_def has_suffix_iff suffix_def)

lemma SplitHostPort_addr_text:
  assumes "SplitHostPort (JoinHostPort b (show_int p)) = Some (host, q)"
  shows "host = addr_text b"
proof -
  have sep: "CHR '':'' \<notin> set (show_int p)" "CHR ''['' \<notin> set (show_int p)" "CHR '']'' \<notin> set (show_int p)"
    using show_int_separators [of p] by auto
  let ?s = "JoinHostPort b (show_int p)"
  show ?thesis
  proof (cases "CHR '':'' \<in> set b")
    case True
    then have s: "?s = (''['' @ b @ '']'') @ '':'' @ show_int p" by (simp add: JoinHostPort_def)
    have lc: "last_colon ?s = Some (''['' @ b @ '']'', show_int p)"
      unfolding s by (rule last_colon_append) (rule sep)
    from s have pre: "prefix ''['' ?s" by simp
    let ?h = "takeWhile (\<lambda>c. c \<noteq> CHR '']'') (b @ '']'')"
    from assms lc pre have h: "b = ?h" "host = ?h" "CHR ''['' \<notin> set (tl ?s)"
      by (auto simp: SplitHostPort_def Let_def split: if_splits)
    from h(1) have "CHR '']'' \<notin> set b" by (metis set_takeWhileD)
    moreover from h(3) s have "CHR ''['' \<notin> set b" by simp
    ultimately show ?thesis using h(1,2) by (simp add: addr_text_plain)
  next
    case False
    then have s: "?s = b @ '':'' @ show_int p" by (simp add: JoinHostPort_def)
    have lc: "last_colon ?s = Some (b, show_int p)"
      unfolding s by (rule last_colon_append) (rule sep)
    show ?thesis
    proof (cases "prefix ''['' ?s")
      case True
      with assms lc have "b = ''['' @ host @ '']''"
        by (auto simp: SplitHostPort_def Let_def split: if_splits)
      then show ?thesis using addr_text_bracketed [of host] by simp
    next
      case False
      with assms lc s have "host = b" "CHR ''['' \<notin> set b" "CHR '']'' \<notin> set b"
        by (auto simp: SplitHostPort_def split: if_splits)
      then show ?thesis by (simp add: addr_text_plain)
    qed
  qed
qed

text \<open>The addresses the policy allows: loopback, or a Tailscale address of this host.\<close>

definition allowed_addr :: "net_env \<Rightarrow> ip \<Rightarrow> bool" where
  "allowed_addr env a \<longleftrightarrow>
     ip_is_loopback a \<or> isTailscaleAddress a \<and> localInterfaceHasAddress env a = Inr True"

lemma Validate_allowed:
  assumes "ok (ValidateProxyBindAddress env b)" and "trim_space b = b"
    and "b \<noteq> ''''" and "b \<noteq> DefaultProxyBindAddress"
  obtains a where "ParseAddr (addr_text b) = Some a" and "allowed_addr env (ip_unmap a)"
  using assms by (auto simp: ValidateProxyBindAddress_def allowed_addr_def Let_def
      split: option.splits if_splits sum.splits)

lemma listen_allowed:
  assumes "ok (ValidateProxyBindAddress env b)" and "trim_space b = b"
    and "listen env held b port = Inr ls"
  shows "\<forall>(a, q) \<in> set ls. allowed_addr env a"
proof (cases "b = '''' \<or> b = DefaultProxyBindAddress")
  case True
  with assms(3) have "set ls \<subseteq> {(loopback4, port), (loopback6, port)}"
    by (auto simp: listen_def split: if_splits)
  moreover have "ip_is_loopback loopback4" "ip_is_loopback loopback6"
    by (simp_all add: loopback4_def loopback6_def is_4in6_def)
  ultimately show ?thesis by (auto simp: allowed_addr_def)
next
  case False
  with assms(1,2) obtain a where a: "ParseAddr (addr_text b) = Some a" "allowed_addr env (ip_unmap a)"
    by (auto elim: Validate_allowed)
  from False assms(3) obtain host q a' where
    s: "SplitHostPort (JoinHostPort b (show_int port)) = Some (host, q)"
    and "ParseAddr host = Some a'" and ls: "ls = [(ip_unmap a', port)]"
    by (auto simp: listen_def listen_tcp_def split: option.splits if_splits)
  with a(1) have "a' = a" using SplitHostPort_addr_text [OF s] by simp
  with a(2) ls show ?thesis by simp
qed

definition sockets :: "pmgr \<Rightarrow> (ip \<times> int) set" where
  "sockets m = (\<Union>(k, e) \<in> set (pm_entries m). set (en_sockets e)) \<union> set (pm_leaked m)"

definition pending_sockets :: "pentry gomap \<Rightarrow> (ip \<times> int) set" where
  "pending_sockets pending = (\<Union>(k, e) \<in> set pending. set (en_sockets e))"

lemma pending_sockets_append:
  "pending_sockets (xs @ [(k, e)]) = pending_sockets xs \<union> set (en_sockets e)"
  by (auto simp: pending_sockets_def)

lemma sockets_update:
  "sockets (m\<lparr>pm_entries := AList.update k e (pm_entries m)\<rparr>) \<subseteq> sockets m \<union> set (en_sockets e)"
  using set_update_subset [of k e "pm_entries m"] by (fastforce simp: sockets_def)

lemma bind_ports_sockets:
  assumes "ok (ValidateProxyBindAddress env b)" and "trim_space b = b"
  shows "sockets (snd (bind_ports env n b ports pending m))
      \<union> (case fst (bind_ports env n b ports pending m) of Inr p \<Rightarrow> pending_sockets p | Inl e \<Rightarrow> {})
    \<subseteq> sockets m \<union> pending_sockets pending \<union> {(a, q). allowed_addr env a}"
  using assms
proof (induction env n b ports pending m rule: bind_ports.induct)
  case (2 env name bindAddress portName stablePort ports pending m)
  let ?k = "entryKey name portName"
  show ?case
  proof (cases "listen env (held_sockets m pending) bindAddress stablePort")
    case (Inl er)
    have "sockets (m\<lparr>pm_leaked := concat (map (en_sockets \<circ> snd) pending) @ pm_leaked m\<rparr>)
        \<subseteq> sockets m \<union> pending_sockets pending"
      by (auto simp: sockets_def pending_sockets_def)
    with 2 Inl show ?thesis by (auto simp: Let_def split: option.split)
  next
    case (Inr ls)
    from listen_allowed [OF "2.prems" Inr] have ls: "set ls \<subseteq> {(a, q). allowed_addr env a}" by auto
    show ?thesis
    proof (cases "map_of (pm_entries m) ?k")
      case None
      with "2.IH"(1) [OF refl None Inr "2.prems"] Inr ls show ?thesis
        by (auto simp: Let_def pending_sockets_append)
    next
      case (Some e)
      show ?thesis
      proof (cases "en_stablePort e = stablePort \<and> en_bindAddress e = bindAddress")
        case True
        with "2.IH"(2) [OF refl Some True "2.prems"] Some show ?thesis by (simp add: Let_def)
      next
        case False
        let ?e = "e\<lparr>en_stablePort := stablePort, en_bindAddress := bindAddress, en_sockets := ls\<rparr>"
        from "2.IH"(3) [OF refl Some False Inr "2.prems"] Some False Inr ls
          sockets_update [of ?k ?e m]
        show ?thesis by (auto simp: Let_def)
      qed
    qed
  qed
qed simp

lemma commit_pending_sockets:
  "sockets (commit_pending n pending m) \<subseteq> sockets m \<union> pending_sockets pending"
proof -
  obtain i m1 where rf: "route_for n m = (i, m1)" by (cases "route_for n m")
  then have m1: "pm_entries m1 = pm_entries m" "pm_leaked m1 = pm_leaked m"
    by (auto simp: route_for_def split: option.splits)
  have "(k, e) \<in> set (add_entries i pending (pm_entries m)) \<Longrightarrow> set (en_sockets e)
      \<subseteq> sockets m \<union> pending_sockets pending" for k e
    by (drule add_entries_in) (fastforce simp: sockets_def pending_sockets_def)
  then show ?thesis
    by (auto simp: commit_pending_def rf Let_def m1 sockets_def [of "_\<lparr>pm_entries := _\<rparr>"])
      (auto simp: sockets_def)
qed

text \<open>the proxy is never exposed beyond policy: every socket a registration opens is on a
  loopback address or on a Tailscale address (100.64.0.0/10 or fd7a:115c:a1e0::/48) that is
  assigned to this host, whatever bind address was asked for.\<close>

theorem RegisterPorts_exposure:
  "sockets (snd (RegisterPortsWithBind env name ports addr m))
     \<subseteq> sockets m \<union> {(a, q). ip_is_loopback a
          \<or> isTailscaleAddress a \<and> localInterfaceHasAddress env a = Inr True}"
proof -
  define b where "b = (if trim_space addr = '''' then DefaultProxyBindAddress else trim_space addr)"
  have trim: "trim_space b = b"
    unfolding b_def by (simp add: trim_space_idem) (simp add: DefaultProxyBindAddress_def
        trim_space_def trim_left_def is_space_def)
  let ?R = "RegisterPortsWithBind env name ports addr m"
  have R: "?R = (case ValidateProxyBindAddress env b of
        Inl e \<Rightarrow> (Inl e, m)
      | Inr _ \<Rightarrow> (case bind_ports env name b ports [] m of
             (Inl e, m') \<Rightarrow> (Inl e, m')
           | (Inr pending, m') \<Rightarrow>
               if pending = [] then (Inr (), m') else (Inr (), commit_pending name pending m')))"
    unfolding RegisterPortsWithBind_def b_def Let_def by simp
  have "sockets (snd ?R) \<subseteq> sockets m \<union> {(a, q). allowed_addr env a}"
  proof (cases "ValidateProxyBindAddress env b")
    case (Inl e)
    then show ?thesis by (simp add: R)
  next
    case (Inr u)
    then have "ok (ValidateProxyBindAddress env b)" by simp
    from bind_ports_sockets [OF this trim, of name ports "[]" m]
    have *: "sockets (snd (bind_ports env name b ports [] m))
        \<union> (case fst (bind_ports env name b ports [] m) of Inr p \<Rightarrow> pending_sockets p | Inl e \<Rightarrow> {})
      \<subseteq> sockets m \<union> {(a, q). allowed_addr env a}" by (simp add: pending_sockets_def)
    show ?thesis
    proof (cases "bind_ports env name b ports [] m")
      case (Pair res m')
      show ?thesis
      proof (cases res)
        case (Inl e)
        with Pair Inr * show ?thesis by (simp add: R)
      next
        case res: (Inr pending)
        with Pair * have "sockets m' \<union> pending_sockets pending
            \<subseteq> sockets m \<union> {(a, q). allowed_addr env a}" by simp
        moreover have "sockets (snd ?R) \<subseteq> sockets m' \<union> pending_sockets pending"
          using commit_pending_sockets [of name pending m'] Inr Pair res by (simp add: R)
        ultimately show ?thesis by blast
      qed
    qed
  qed
  then show ?thesis by (simp add: allowed_addr_def)
qed

section \<open>Registration\<close>

lemma pending_key:
  assumes "pending_ok n pending" and "entryKey n p \<in> fst ` set pending"
  shows "p \<in> (\<lambda>(k, e). en_portName e) ` set pending"
proof -
  from assms(2) obtain e where e: "(entryKey n p, e) \<in> set pending" by auto
  with assms(1) have "entryKey n p = entryKey n (en_portName e)" by (auto simp: pending_ok_def)
  then have "p = en_portName e" by (simp add: entryKey_def)
  with e show ?thesis by (intro rev_image_eqI [OF e]) simp
qed

lemma bind_ports_success:
  assumes "bind_ports env n b ports pending m = (Inr pending', m')"
    and "CHR '':'' \<notin> set n" and "distinct (map fst ports)" and "pm_inv m"
    and "distinct (map fst pending)" and "pending_ok n pending"
    and "\<forall>(k, e) \<in> set pending. en_portName e \<notin> fst ` set ports \<and> map_of (pm_entries m) k = None"
  shows "distinct (map fst pending') \<and> set pending \<subseteq> set pending'
    \<and> (\<forall>k. k \<notin> entryKey n ` fst ` set ports \<longrightarrow> map_of (pm_entries m') k = map_of (pm_entries m) k)
    \<and> (\<forall>(p, sp) \<in> set ports. \<exists>e. en_stablePort e = sp \<and> en_bindAddress e = b
        \<and> ((entryKey n p, e) \<in> set pending' \<or> map_of (pm_entries m') (entryKey n p) = Some e))"
  using assms
proof (induction env n b ports pending m rule: bind_ports.induct)
  case (2 env name bindAddress portName stablePort ports pending m)
  let ?k = "entryKey name portName"
  have notin: "?k \<notin> entryKey name ` fst ` set ports"
    using "2.prems"(3) by (auto simp: entryKey_def)
  have rest: "distinct (map fst ports)" using "2.prems"(3) by simp
  show ?case
  proof (cases "map_of (pm_entries m) ?k")
    case None
    with "2.prems"(1) obtain ls where ls: "listen env (held_sockets m pending) bindAddress stablePort = Inr ls"
      by (auto simp: Let_def split: sum.splits)
    let ?e = "\<lparr>en_stablePort = stablePort, en_bindAddress = bindAddress,
                en_portName = portName, en_sockets = ls, en_route = 0\<rparr>"
    from "2.prems"(1) None ls
    have b: "bind_ports env name bindAddress ports (pending @ [(?k, ?e)]) m = (Inr pending', m')"
      by (simp add: Let_def)
    have fresh: "?k \<notin> fst ` set pending"
      using "2.prems"(6,7) by (fastforce simp: pending_ok_def entryKey_def)
    have al: "\<forall>(k, e) \<in> set (pending @ [(?k, ?e)]). en_portName e \<notin> fst ` set ports
        \<and> map_of (pm_entries m) k = None"
      using "2.prems"(3,7) None by auto
    have po: "pending_ok name (pending @ [(?k, ?e)])"
      using "2.prems"(6) by (auto simp: pending_ok_def)
    have di: "distinct (map fst (pending @ [(?k, ?e)]))" using "2.prems"(5) fresh by simp
    have ih: "distinct (map fst pending') \<and> set (pending @ [(?k, ?e)]) \<subseteq> set pending'
      \<and> (\<forall>k. k \<notin> entryKey name ` fst ` set ports \<longrightarrow> map_of (pm_entries m') k = map_of (pm_entries m) k)
      \<and> (\<forall>(p, sp) \<in> set ports. \<exists>e. en_stablePort e = sp \<and> en_bindAddress e = bindAddress
        \<and> ((entryKey name p, e) \<in> set pending' \<or> map_of (pm_entries m') (entryKey name p) = Some e))"
      by (rule "2.IH"(1) [OF refl None ls b "2.prems"(2) rest "2.prems"(4) di po al])
    moreover from ih have "\<exists>e. en_stablePort e = stablePort \<and> en_bindAddress e = bindAddress
        \<and> (?k, e) \<in> set pending'" by (intro exI [of _ ?e]) simp
    ultimately show ?thesis by auto
  next
    case (Some e)
    have k: "\<forall>(k, e) \<in> set pending. k \<noteq> ?k"
      using "2.prems"(7) Some by auto
    show ?thesis
    proof (cases "en_stablePort e = stablePort \<and> en_bindAddress e = bindAddress")
      case True
      with "2.prems"(1) Some have b: "bind_ports env name bindAddress ports pending m = (Inr pending', m')"
        by (simp add: Let_def)
      from "2.prems"(7) have "\<forall>(k, e) \<in> set pending. en_portName e \<notin> fst ` set ports
          \<and> map_of (pm_entries m) k = None" by auto
      from "2.IH"(2) [OF refl Some True b "2.prems"(2) rest "2.prems"(4-6) this]
      show ?thesis using Some True notin by auto
    next
      case False
      with "2.prems"(1) Some obtain ls where
        ls: "listen env (held_sockets m pending) bindAddress stablePort = Inr ls"
        by (auto simp: Let_def split: sum.splits if_splits)
      let ?e = "e\<lparr>en_stablePort := stablePort, en_bindAddress := bindAddress, en_sockets := ls\<rparr>"
      let ?m = "m\<lparr>pm_entries := AList.update ?k ?e (pm_entries m)\<rparr>"
      from "2.prems"(1) Some False ls
      have b: "bind_ports env name bindAddress ports pending ?m = (Inr pending', m')"
        by (auto simp: Let_def split: if_splits)
      have "pm_inv ?m"
        using "2.prems"(4) map_of_SomeD [OF Some]
        by (auto simp: pm_inv_def entry_ok_def dest!: set_update_in)
      moreover have "\<forall>(k, e) \<in> set pending. en_portName e \<notin> fst ` set ports
          \<and> map_of (pm_entries ?m) k = None" using "2.prems"(7) k by auto
      ultimately have ih: "distinct (map fst pending') \<and> set pending \<subseteq> set pending'
        \<and> (\<forall>k. k \<notin> entryKey name ` fst ` set ports \<longrightarrow> map_of (pm_entries m') k = map_of (pm_entries ?m) k)
        \<and> (\<forall>(p, sp) \<in> set ports. \<exists>e. en_stablePort e = sp \<and> en_bindAddress e = bindAddress
          \<and> ((entryKey name p, e) \<in> set pending' \<or> map_of (pm_entries m') (entryKey name p) = Some e))"
        by (intro "2.IH"(3) [OF refl Some False ls b "2.prems"(2) rest _ "2.prems"(5,6)])
      moreover from ih notin have "map_of (pm_entries m') ?k = Some ?e" by simp
      then have "\<exists>e. en_stablePort e = stablePort \<and> en_bindAddress e = bindAddress
          \<and> map_of (pm_entries m') ?k = Some e" by (intro exI [of _ ?e]) simp
      ultimately show ?thesis by auto
    qed
  qed
qed simp

text \<open>after a successful registration every requested port has a listener on the requested
  stable port and (trimmed) bind address.\<close>

theorem RegisterPorts_success:
  assumes "proxy_reachable m" and "ok (ValidateServiceName name)" and "distinct (map fst ports)"
    and "ok (fst (RegisterPortsWithBind env name ports addr m))" and "map_of ports p = Some sp"
  shows "\<exists>e. map_of (pm_entries (snd (RegisterPortsWithBind env name ports addr m)))
        (entryKey name p) = Some e
    \<and> en_stablePort e = sp
    \<and> en_bindAddress e = (if trim_space addr = '''' then DefaultProxyBindAddress else trim_space addr)"
proof -
  define b where "b = (if trim_space addr = '''' then DefaultProxyBindAddress else trim_space addr)"
  let ?R = "RegisterPortsWithBind env name ports addr m"
  have R: "?R = (case ValidateProxyBindAddress env b of
        Inl e \<Rightarrow> (Inl e, m)
      | Inr _ \<Rightarrow> (case bind_ports env name b ports [] m of
             (Inl e, m') \<Rightarrow> (Inl e, m')
           | (Inr pending, m') \<Rightarrow>
               if pending = [] then (Inr (), m') else (Inr (), commit_pending name pending m')))"
    unfolding RegisterPortsWithBind_def b_def Let_def by simp
  from assms(4) obtain pending m' where
    b: "bind_ports env name b ports [] m = (Inr pending, m')"
    and v: "ValidateProxyBindAddress env b = Inr ()"
    by (auto simp: R split: sum.splits prod.splits)
  have inv: "pm_inv m" and n: "CHR '':'' \<notin> set name"
    using assms by (auto intro: proxy_reachable_inv simp: ValidateServiceName_colon)
  from bind_ports_success [OF b n assms(3) inv] map_of_SomeD [OF assms(5)]
  obtain e where e: "en_stablePort e = sp" "en_bindAddress e = b"
    and at: "(entryKey name p, e) \<in> set pending \<or> map_of (pm_entries m') (entryKey name p) = Some e"
    and dist: "distinct (map fst pending)"
    by (fastforce simp: pending_ok_def)
  show ?thesis
  proof (cases "(entryKey name p, e) \<in> set pending")
    case True
    then have look: "map_of (rev pending) (entryKey name p) = Some e"
      using dist by (intro map_of_is_SomeI) (simp_all add: rev_map [symmetric])
    obtain i m1 where rf: "route_for name m' = (i, m1)" by (cases "route_for name m'")
    have "?R = (Inr (), commit_pending name pending m')" using b v True by (auto simp: R)
    then show ?thesis
      using look e by (auto simp: commit_pending_def rf Let_def add_entries_lookup b_def)
  next
    case False
    with at have at': "map_of (pm_entries m') (entryKey name p) = Some e" by simp
    have "map fst (pm_entries m') = map fst (pm_entries m)"
      using bind_ports_keeps [of env name b ports "[]" m] b by simp
    with at' have "map_of (pm_entries m) (entryKey name p) \<noteq> None"
      by (metis map_of_eq_None_iff option.distinct(1) set_map)
    then have "p \<notin> (\<lambda>(k, e). en_portName e) ` set pending"
      using bind_ports_pending [OF b] by (simp add: pending_ok_def)
    moreover have "pending_ok name pending"
      using bind_ports_pending [OF b] by (simp add: pending_ok_def)
    ultimately have no: "entryKey name p \<notin> fst ` set pending"
      using pending_key by blast
    then have "map_of (rev pending) (entryKey name p) = None" by (simp add: map_of_eq_None_iff)
    moreover obtain i m1 where rf: "route_for name m' = (i, m1)" by (cases "route_for name m'")
    moreover from rf have "pm_entries m1 = pm_entries m'"
      by (auto simp: route_for_def split: option.splits)
    ultimately have c: "map_of (pm_entries (commit_pending name pending m')) (entryKey name p) = Some e"
      using at' by (simp add: commit_pending_def Let_def add_entries_lookup)
    have "snd ?R = m' \<or> snd ?R = commit_pending name pending m'"
      using b v by (simp add: R)
    then have "map_of (pm_entries (snd ?R)) (entryKey name p) = Some e"
    proof
      assume "snd ?R = m'"
      then show ?thesis using at' by simp
    next
      assume "snd ?R = commit_pending name pending m'"
      then show ?thesis using c by simp
    qed
    then show ?thesis using e unfolding b_def by (intro exI [of _ e] conjI)
  qed
qed

theorem RegisterPorts_success_witness:
  "\<exists>e. map_of (pm_entries (snd (RegisterPortsWithBind demo_env ''api'' [(''default'', 9000)]
          '' localhost '' demo_proxy))) (entryKey ''api'' ''default'') = Some e
     \<and> en_stablePort e = 9000"
proof -
  have "ok (fst (RegisterPortsWithBind demo_env ''api'' [(''default'', 9000)]
          '' localhost '' demo_proxy))" by code_simp
  from RegisterPorts_success [OF demo_proxy_reachable demo_names(2) _ this, of "''default''" 9000]
  show ?thesis by auto
qed

text \<open>a failed registration serves nothing new: no port of any service gains, loses or
  changes the handler it serves, and no new entry appears.\<close>

theorem RegisterPorts_failure:
  assumes "fst (RegisterPortsWithBind env name ports addr m) = Inl e"
  shows "serving (snd (RegisterPortsWithBind env name ports addr m)) = serving m
    \<and> map fst (pm_entries (snd (RegisterPortsWithBind env name ports addr m)))
      = map fst (pm_entries m)"
proof -
  define b where "b = (if trim_space addr = '''' then DefaultProxyBindAddress else trim_space addr)"
  let ?R = "RegisterPortsWithBind env name ports addr m"
  have R: "?R = (case ValidateProxyBindAddress env b of
        Inl e \<Rightarrow> (Inl e, m)
      | Inr _ \<Rightarrow> (case bind_ports env name b ports [] m of
             (Inl e, m') \<Rightarrow> (Inl e, m')
           | (Inr pending, m') \<Rightarrow>
               if pending = [] then (Inr (), m') else (Inr (), commit_pending name pending m')))"
    unfolding RegisterPortsWithBind_def b_def Let_def by simp
  with assms have "snd ?R = m \<or> snd ?R = snd (bind_ports env name b ports [] m)"
    by (auto split: sum.splits prod.splits if_splits)
  then show ?thesis
    using bind_ports_serving [of env name b ports "[]" m] bind_ports_keeps [of env name b ports "[]" m]
    by (auto simp: fun_eq_iff)
qed

theorem RegisterPorts_failure_witness:
  "serving (snd (RegisterPorts demo_env ''api'' [(''a'', 9000), (''b'', 22)] demo_proxy)) = serving demo_proxy"
proof -
  have "\<not> ok (fst (RegisterPorts demo_env ''api'' [(''a'', 9000), (''b'', 22)] demo_proxy))" by code_simp
  then obtain e where "fst (RegisterPortsWithBind demo_env ''api'' [(''a'', 9000), (''b'', 22)]
      DefaultProxyBindAddress demo_proxy) = Inl e"
    by (cases "fst (RegisterPorts demo_env ''api'' [(''a'', 9000), (''b'', 22)] demo_proxy)")
      (auto simp: RegisterPorts_def)
  from RegisterPorts_failure [OF this] show ?thesis by (simp add: RegisterPorts_def)
qed

section \<open>Two defects\<close>

text \<open>the rollback of a partly failed registration is incomplete: when an existing port
  cannot be moved, the sockets already opened for new ports stay open although no entry owns
  them, so a second attempt cannot bind them.\<close>

theorem RegisterPorts_leaks_sockets:
  "\<exists>env m ports. proxy_reachable m \<and> pm_leaked m = []
     \<and> \<not> ok (fst (RegisterPorts env ''web'' ports m))
     \<and> pm_leaked (snd (RegisterPorts env ''web'' ports m)) \<noteq> []
     \<and> \<not> ok (fst (RegisterPorts (env\<lparr>ne_busy := \<lambda>a p. False\<rparr>) ''web'' ports
                (snd (RegisterPorts env ''web'' ports m))))"
proof (intro exI conjI)
  let ?ports = "[(''admin'', 9001), (''http'', 22)]"
  show "proxy_reachable demo_proxy" by (rule demo_proxy_reachable)
  show "pm_leaked demo_proxy = []" by code_simp
  show "\<not> ok (fst (RegisterPorts demo_env ''web'' ?ports demo_proxy))" by code_simp
  show "pm_leaked (snd (RegisterPorts demo_env ''web'' ?ports demo_proxy)) \<noteq> []" by code_simp
  show "\<not> ok (fst (RegisterPorts (demo_env\<lparr>ne_busy := \<lambda>a p. False\<rparr>) ''web'' ?ports
      (snd (RegisterPorts demo_env ''web'' ?ports demo_proxy))))" by code_simp
qed

text \<open>a bracketed IPv6 literal passes validation, but no listener can be opened on it: the
  host is bracketed a second time.\<close>

theorem bracketed_ipv6_never_listens:
  "ok (ValidateProxyBindAddress env ''[::1]'') \<and> \<not> ok (listen env held ''[::1]'' port)"
proof -
  have "trim_space ''[::1]'' = ''[::1]''"
    by (simp add: trim_space_def trim_left_def is_space_def)
  moreover have "ParseAddr (addr_text ''[::1]'') = Some (V6 1 '''')" by code_simp
  ultimately have "ok (ValidateProxyBindAddress env ''[::1]'')"
    by (simp add: ValidateProxyBindAddress_def Let_def DefaultProxyBindAddress_def is_4in6_def)
  moreover have "SplitHostPort (JoinHostPort ''[::1]'' (show_int port)) = None"
  proof -
    have s: "JoinHostPort ''[::1]'' (show_int port) = ''[[::1]]'' @ '':'' @ show_int port"
      by (simp add: JoinHostPort_def)
    have "last_colon (''[[::1]]'' @ '':'' @ show_int port) = Some (''[[::1]]'', show_int port)"
      using show_int_separators [of port] by (intro last_colon_append) auto
    then show ?thesis unfolding s by (simp add: SplitHostPort_def)
  qed
  ultimately show ?thesis
    by (simp add: listen_def listen_tcp_def DefaultProxyBindAddress_def)
qed

section \<open>The client address header\<close>

lemma remove_hop_subset: "map_of (removeHopByHopHeaders h) k \<in> {None, map_of h k}"
proof -
  have "map_of (foldl (\<lambda>h k. AList.delete k h) h ks) k \<in> {None, map_of h k}" for ks
  proof (induction ks arbitrary: h)
    case (Cons a ks)
    show ?case using Cons.IH [of "AList.delete a h"] by (cases "a = k") auto
  qed simp
  then show ?thesis unfolding removeHopByHopHeaders_def .
qed

text \<open>a client cannot forge the address header an upstream reads: whatever headers the
  request carries, the upstream sees in \<^verbatim>\<open>X-Anito-Client-IP\<close> either the host of the peer's
  connection or no such header.\<close>

theorem client_ip_not_forgeable:
  "map_of (reverse_proxy_headers r) ''X-Anito-Client-Ip'' = None \<or>
   (\<exists>host port. SplitHostPort (rq_remote_addr r) = Some (host, port) \<and>
     map_of (reverse_proxy_headers r) ''X-Anito-Client-Ip'' = Some [host])"
  using remove_hop_subset [of "rp_director r" "''X-Anito-Client-Ip''"]
  by (auto simp: reverse_proxy_headers_def rp_director_def Let_def split: option.splits)

text \<open>but a client can make the header disappear, by naming it in its \<^verbatim>\<open>Connection\<close> header:
  the reverse proxy drops hop-by-hop headers after the director has run.\<close>

theorem client_ip_can_be_dropped:
  "map_of (reverse_proxy_headers
     \<lparr>rq_remote_addr = ''192.0.2.7:4242'',
      rq_headers = [(''Connection'', [''close, x-anito-client-ip''])]\<rparr>) ''X-Anito-Client-Ip'' = None"
  by code_simp

end
