(* ===== verification/Envfile.thy ===== *)
theory Envfile
  imports Registry_Types
begin

text \<open>
  How \<^verbatim>\<open>internal/process/process.go\<close> builds the environment of a child process: parsing the
  env file (\<open>parseEnvLine\<close>, \<open>splitLines\<close>, \<open>loadEnvFile\<close>), the port variables it injects
  (\<open>buildCmd\<close>), and the small parsers of process output and exit states. \<^verbatim>\<open>os/exec\<close> resolves
  duplicate keys of an environment by the last value (\<open>env_value\<close>).
\<close>

section \<open>Env files\<close>

definition newline :: char where "newline = CHR 0x0A"

text \<open>\<open>splitLines\<close> with the characters since the last line break as an accumulator.\<close>

fun split_from :: "string \<Rightarrow> string \<Rightarrow> string list" where
  "split_from cur [] = (if cur = [] then [] else [cur])"
| "split_from cur (c # cs) =
     (if c = newline then cur # split_from [] cs else split_from (cur @ [c]) cs)"

definition splitLines :: "string \<Rightarrow> string list" where
  "splitLines s = split_from [] s"

definition env_key_forbidden :: "char set" where
  "env_key_forbidden = {CHR '' '', CHR 0x09, CHR 0x0D, CHR 0x0A, CHR ''=''}"

definition unquote :: "string \<Rightarrow> string" where
  "unquote v =
     (if 2 \<le> length v \<and> (hd v = CHR 0x22 \<and> last v = CHR 0x22 \<or> hd v = CHR 0x27 \<and> last v = CHR 0x27)
      then butlast (tl v) else v)"

definition strip_export :: "string \<Rightarrow> string" where
  "strip_export t =
     (if prefix ''export '' t \<or> prefix (''export'' @ [CHR 0x09]) t
      then trim_space (trim_prefix (trim_prefix t ''export '') (''export'' @ [CHR 0x09])) else t)"

definition parse_entry :: "string \<Rightarrow> string \<Rightarrow> err + string option" where
  "parse_entry line t =
     (case str_index t ''='' of
        None \<Rightarrow> Inl (Errorf ''invalid env entry %q: expected KEY=VALUE'' [FStr line])
      | Some eq \<Rightarrow>
          if eq = 0 then Inl (Errorf ''invalid env entry %q: expected KEY=VALUE'' [FStr line])
          else
            (let key = trim_space (take eq t); value = trim_space (drop (eq + 1) t) in
             if key = '''' \<or> set key \<inter> env_key_forbidden \<noteq> {}
             then Inl (Errorf ''invalid env key %q'' [FStr key])
             else Inr (Some (key @ ''='' @ unquote value))))"

definition parseEnvLine :: "string \<Rightarrow> err + string option" where
  "parseEnvLine line =
     (let trimmed = trim_space line in
      if trimmed = '''' \<or> prefix ''#'' trimmed then Inr None
      else parse_entry line (strip_export trimmed))"

fun load_lines :: "string \<Rightarrow> nat \<Rightarrow> string list \<Rightarrow> err + string list" where
  "load_lines path i [] = Inr []"
| "load_lines path i (line # lines) =
     (case parseEnvLine line of
        Inl e \<Rightarrow> Inl (Errorf ''%s:%d: %w'' [FStr path, FInt (int i + 1), FErr e])
      | Inr None \<Rightarrow> load_lines path (Suc i) lines
      | Inr (Some v) \<Rightarrow>
          (case load_lines path (Suc i) lines of Inl e \<Rightarrow> Inl e | Inr vs \<Rightarrow> Inr (v # vs)))"

text \<open>\<open>files\<close> is the content of the files that can be read.\<close>

definition loadEnvFile :: "(string \<Rightarrow> string option) \<Rightarrow> string \<Rightarrow> err + string list" where
  "loadEnvFile files path =
     (case files path of
        None \<Rightarrow> Inl (IOError path)
      | Some data \<Rightarrow> load_lines path 0 (splitLines data))"

section \<open>The command of a service\<close>

record command =
  cmd_path :: string
  cmd_args :: "string list"
  cmd_env :: "string list"
  cmd_log :: string

record exec_env =
  xe_environ :: "string list"
  xe_files :: "string \<Rightarrow> string option"
  xe_log_ok :: bool

definition hasDefaultOnly :: "ports \<Rightarrow> bool" where
  "hasDefaultOnly ports \<longleftrightarrow> length ports = 1 \<and> map_of ports ''default'' \<noteq> None"

definition port_vars :: "string \<Rightarrow> string list" where
  "port_vars portStr =
     [''PORT='' @ portStr, ''ASPNETCORE_HTTP_PORTS='' @ portStr,
      ''ASPNETCORE_URLS=http://localhost:'' @ portStr]"

definition injected_vars :: "string \<Rightarrow> ports \<Rightarrow> string list" where
  "injected_vars healthCheckPort ports =
     (if 1 < length ports \<or> length ports = 1 \<and> \<not> hasDefaultOnly ports
      then map (\<lambda>(name, p). ''PORT_'' @ map to_upper name @ ''='' @ show_int p) ports
           @ port_vars (show_int (PickPort ports healthCheckPort))
      else concat (map (\<lambda>(name, p). port_vars (show_int p)) ports))"

definition buildCmd ::
    "exec_env \<Rightarrow> string \<Rightarrow> service \<Rightarrow> ports \<Rightarrow> err + command" where
  "buildCmd xe logDir svc ports =
     (if sv_type svc \<noteq> TypeBinary
      then Inl (Errorf ''buildCmd: static services do not run a process'' [])
      else
        (case (if sv_env_file svc \<noteq> '''' then loadEnvFile (xe_files xe) (sv_env_file svc) else Inr []) of
           Inl e \<Rightarrow> Inl (Errorf ''loading env file: %w'' [FErr e])
         | Inr envVars \<Rightarrow>
             (let outPath = logDir @ ''/'' @ sv_name svc @ ''.log'' in
              if xe_log_ok xe
              then Inr \<lparr>cmd_path = sv_binary_path svc, cmd_args = sv_args svc,
                        cmd_env = xe_environ xe @ envVars
                                  @ injected_vars (sv_health_check_port svc) ports,
                        cmd_log = outPath\<rparr>
              else Inl (IOError outPath))))"

text \<open>What the child sees: the value of the last entry with the key.\<close>

definition env_value :: "string list \<Rightarrow> string \<Rightarrow> string option" where
  "env_value env k =
     (case filter (prefix (k @ ''='')) (rev env) of
        [] \<Rightarrow> None
      | e # _ \<Rightarrow> Some (drop (length k + 1) e))"

section \<open>Exit states and process lists\<close>

text \<open>\<^verbatim>\<open>os.ProcessState\<close>: the exit code (-1 when signalled or not exited) and the signal.\<close>

record process_state =
  ps_exit_code :: int
  ps_signal :: "int option"

definition processExitCode :: "process_state option \<Rightarrow> int" where
  "processExitCode st =
     (case st of
        None \<Rightarrow> 1
      | Some s \<Rightarrow>
          if 0 \<le> ps_exit_code s then ps_exit_code s
          else (case ps_signal s of Some sig \<Rightarrow> 128 + sig | None \<Rightarrow> 1))"

text \<open>\<^verbatim>\<open>strings.Fields\<close> and \<^verbatim>\<open>strconv.Atoi\<close> (64 bits).\<close>

fun fields_from :: "string \<Rightarrow> string \<Rightarrow> string list" where
  "fields_from cur [] = (if cur = [] then [] else [cur])"
| "fields_from cur (c # cs) =
     (if is_space c then (if cur = [] then fields_from [] cs else cur # fields_from [] cs)
      else fields_from (cur @ [c]) cs)"

definition Fields :: "string \<Rightarrow> string list" where
  "Fields s = fields_from [] s"

definition Atoi :: "string \<Rightarrow> int option" where
  "Atoi s =
     (let neg = prefix ''-'' s;
          ds = (if prefix ''-'' s \<or> prefix ''+'' s then tl s else s);
          n = int (nat_of_digits ds); i = (if neg then - n else n)
      in if ds \<noteq> [] \<and> list_all is_digit ds \<and> - (2 ^ 63) \<le> i \<and> i < 2 ^ 63 then Some i else None)"

fun parse_pids :: "string list \<Rightarrow> err + int list" where
  "parse_pids [] = Inr []"
| "parse_pids (l # ls) =
     (case Atoi l of
        None \<Rightarrow> Inl (Errorf ''parse pid %q: %w'' [FStr l, FErr (IOError ''invalid syntax'')])
      | Some p \<Rightarrow> (case parse_pids ls of Inl e \<Rightarrow> Inl e | Inr ps \<Rightarrow> Inr (p # ps)))"

definition parsePIDLines :: "string \<Rightarrow> err + int list" where
  "parsePIDLines out = parse_pids (Fields out)"

section \<open>Lemmas\<close>

lemma split_from_join:
  "concat (map (\<lambda>l. l @ [newline]) (split_from cur s)) =
     cur @ s @ (if cur @ s = [] \<or> s \<noteq> [] \<and> last s = newline then [] else [newline])"
  by (induction cur s rule: split_from.induct) auto

lemma split_from_no_newline:
  "newline \<notin> set cur \<Longrightarrow> l \<in> set (split_from cur s) \<Longrightarrow> newline \<notin> set l"
  by (induction cur s rule: split_from.induct) (auto split: if_splits)

lemma env_value_append:
  "env_value (xs @ ys) k = (case env_value ys k of Some v \<Rightarrow> Some v | None \<Rightarrow> env_value xs k)"
  by (simp add: env_value_def split: list.split)

lemma prefix_key_iff:
  "CHR ''='' \<notin> set k \<Longrightarrow> CHR ''='' \<notin> set k' \<Longrightarrow> prefix (k @ ''='') (k' @ CHR ''='' # v) \<longleftrightarrow> k = k'"
proof
  assume "CHR ''='' \<notin> set k" "CHR ''='' \<notin> set k'" "prefix (k @ ''='') (k' @ CHR ''='' # v)"
  then obtain w where "k' @ CHR ''='' # v = k @ CHR ''='' # w" by (auto simp: prefix_def)
  then have "takeWhile (\<lambda>c. c \<noteq> CHR ''='') (k' @ CHR ''='' # v) =
      takeWhile (\<lambda>c. c \<noteq> CHR ''='') (k @ CHR ''='' # w)" by simp
  moreover have "takeWhile (\<lambda>c. c \<noteq> CHR ''='') (x @ CHR ''='' # y) = x" if "CHR ''='' \<notin> set x" for x y
    using that by (induction x) auto
  ultimately show "k = k'" using \<open>CHR ''='' \<notin> set k\<close> \<open>CHR ''='' \<notin> set k'\<close> by simp
qed simp

lemma str_index_char:
  "str_index (k @ c # v) [c] = Some (length k)" if "c \<notin> set k"
  using that by (induction k) (auto simp: str_index.simps)

lemma env_value_port_vars: "env_value (port_vars s) ''PORT'' = Some s"
  by (simp add: env_value_def port_vars_def)

lemma single_default:
  assumes "hasDefaultOnly ports"
  obtains p where "ports = [(''default'', p)]"
proof -
  from assms obtain k p where "ports = [(k, p)]"
    by (cases ports; cases "tl ports") (auto simp: hasDefaultOnly_def)
  with assms that show thesis by (auto simp: hasDefaultOnly_def split: if_splits)
qed

text \<open>a service always reads its own port from \<^verbatim>\<open>PORT\<close>: whatever the daemon's environment and
  the env file say, the value the child sees is the port chosen for health checks.\<close>

theorem buildCmd_PORT:
  assumes "buildCmd xe logDir svc ports = Inr cmd" and "ports \<noteq> []"
  shows "env_value (cmd_env cmd) ''PORT'' = Some (show_int (PickPort ports (sv_health_check_port svc)))"
proof -
  from assms(1) obtain vars where
    env: "cmd_env cmd = xe_environ xe @ vars @ injected_vars (sv_health_check_port svc) ports"
    by (auto simp: buildCmd_def Let_def split: if_splits sum.splits)
  have "env_value (injected_vars (sv_health_check_port svc) ports) ''PORT'' =
      Some (show_int (PickPort ports (sv_health_check_port svc)))"
  proof (cases "1 < length ports \<or> length ports = 1 \<and> \<not> hasDefaultOnly ports")
    case True
    then show ?thesis
      by (simp only: injected_vars_def if_True env_value_append env_value_port_vars option.case)
  next
    case False
    with assms(2) have "hasDefaultOnly ports" by (cases ports) auto
    then obtain p where "ports = [(''default'', p)]" by (rule single_default)
    with False show ?thesis by (simp add: injected_vars_def env_value_port_vars)
  qed
  then show ?thesis by (simp add: env env_value_append)
qed

definition demo_exec :: exec_env where
  "demo_exec = \<lparr>xe_environ = [''HOME=/root'', ''PORT=1''],
     xe_files = [''/srv/.env'' \<mapsto> ''export PORT=99'' @ [newline] @ ''KEY='' @ [CHR 0x22] @ ''a b'' @ [CHR 0x22]],
     xe_log_ok = True\<rparr>"

theorem buildCmd_PORT_witness:
  "\<exists>cmd. buildCmd demo_exec ''/logs'' (zero_service\<lparr>sv_type := TypeBinary, sv_env_file := ''/srv/.env''\<rparr>)
        [(''default'', 81)] = Inr cmd
     \<and> env_value (cmd_env cmd) ''PORT'' = Some (show_int 81)"
proof -
  let ?s = "zero_service\<lparr>sv_type := TypeBinary, sv_env_file := ''/srv/.env''\<rparr>"
  have "ok (buildCmd demo_exec ''/logs'' ?s [(''default'', 81)])" by code_simp
  then obtain cmd where "buildCmd demo_exec ''/logs'' ?s [(''default'', 81)] = Inr cmd"
    by (auto simp: ok_iff)
  with buildCmd_PORT [OF this] show ?thesis by auto
qed

definition env_entry_ok :: "string \<Rightarrow> bool" where
  "env_entry_ok v \<longleftrightarrow>
     (\<exists>key value. v = key @ ''='' @ value \<and> key \<noteq> '''' \<and> set key \<inter> env_key_forbidden = {})"

lemma parseEnvLine_shape:
  assumes "parseEnvLine line = Inr (Some v)"
  shows "env_entry_ok v"
  using assms unfolding env_entry_ok_def
  by (auto simp: parseEnvLine_def parse_entry_def Let_def split: if_splits option.splits)

lemma load_lines_shape:
  "load_lines path i ls = Inr vs \<Longrightarrow> list_all env_entry_ok vs"
proof (induction path i ls arbitrary: vs rule: load_lines.induct)
  case (2 path i line ls)
  then show ?case
    by (auto split: sum.splits option.splits dest!: parseEnvLine_shape)
qed simp

text \<open>every variable an env file yields is \<^verbatim>\<open>KEY=VALUE\<close> with a key that is not empty and
  has no blank, line break or equals sign; a file with a malformed line yields no variable at
  all, and the lines the parser sees are the file's text, cut exactly at its line breaks.\<close>

theorem loadEnvFile_shape:
  "(case loadEnvFile files path of
      Inr vs \<Rightarrow> list_all env_entry_ok vs
    | Inl e \<Rightarrow> files path = None \<or> (\<exists>data line. files path = Some data
        \<and> line \<in> set (splitLines data) \<and> \<not> ok (parseEnvLine line)))
   \<and> concat (map (\<lambda>l. l @ [newline]) (splitLines data)) =
       data @ (if data = [] \<or> last data = newline then [] else [newline])
   \<and> newline \<notin> \<Union> (set ` set (splitLines data))"
proof (intro conjI)
  have bad: "load_lines path i ls = Inl e \<Longrightarrow> \<exists>line \<in> set ls. \<not> ok (parseEnvLine line)" for i ls e
    by (induction path i ls arbitrary: e rule: load_lines.induct)
      (auto split: sum.splits option.splits)
  show "case loadEnvFile files path of
      Inr vs \<Rightarrow> list_all env_entry_ok vs
    | Inl e \<Rightarrow> files path = None \<or> (\<exists>data line. files path = Some data
        \<and> line \<in> set (splitLines data) \<and> \<not> ok (parseEnvLine line))"
  proof (cases "files path")
    case (Some data)
    then show ?thesis
      using bad [of 0 "splitLines data"] load_lines_shape [of path 0 "splitLines data"]
      by (cases "load_lines path 0 (splitLines data)") (auto simp: loadEnvFile_def)
  qed (simp add: loadEnvFile_def)
  show "concat (map (\<lambda>l. l @ [newline]) (splitLines data)) =
      data @ (if data = [] \<or> last data = newline then [] else [newline])"
    using split_from_join [of "[]" data] by (auto simp: splitLines_def)
  show "newline \<notin> \<Union> (set ` set (splitLines data))"
    using split_from_no_newline [of "[]" _ data] by (auto simp: splitLines_def)
qed

lemma trim_space_keep:
  assumes "s \<noteq> []" and "\<not> is_space (hd s)" and "\<not> is_space (last s)"
  shows "trim_space s = s"
proof -
  have "trim_left s = s" using assms by (cases s) (auto simp: trim_left_def)
  moreover have "trim_left (rev s) = rev s"
    using assms by (cases "rev s") (auto simp: trim_left_def last_rev hd_rev [symmetric])
  ultimately show ?thesis by (simp add: trim_space_def)
qed

definition plain_key :: "string \<Rightarrow> bool" where
  "plain_key k \<longleftrightarrow> k \<noteq> '''' \<and> (\<forall>c \<in> set k. \<not> is_space c \<and> c \<noteq> CHR ''='' \<and> c \<noteq> CHR ''#'')"

lemma plain_key_trim: "plain_key k \<Longrightarrow> trim_space k = k"
  by (intro trim_space_keep) (auto simp: plain_key_def)

lemma not_export:
  assumes "plain_key k" and "is_space b"
  shows "\<not> prefix (''export'' @ [b]) (k @ CHR ''='' # v)"
proof
  assume "prefix (''export'' @ [b]) (k @ CHR ''='' # v)"
  then obtain zs where zs: "k @ CHR ''='' # v = ''export'' @ b # zs" by (auto simp: prefix_def)
  have b: "b \<noteq> CHR ''=''" using assms(2) by (auto simp: is_space_def)
  have "takeWhile (\<lambda>c. c \<noteq> CHR ''='') (k @ CHR ''='' # v) = k"
    using assms(1) by (auto simp: takeWhile_append plain_key_def)
  then have "k = ''export'' @ b # takeWhile (\<lambda>c. c \<noteq> CHR ''='') zs" using b by (simp add: zs)
  then have "b \<in> set k" by (metis in_set_conv_decomp)
  with assms show False by (auto simp: plain_key_def)
qed

lemma strip_export_plain: "plain_key k \<Longrightarrow> strip_export (k @ CHR ''='' # v) = k @ CHR ''='' # v"
  using not_export [of k "CHR '' ''" v] not_export [of k "CHR 0x09" v]
  by (simp add: strip_export_def is_space_def)

lemma trim_space_prefix: "trim_space (w @ s) = trim_space s" if "list_all is_space w"
  using that by (induction w) (simp_all add: trim_space_def trim_left_def)

text \<open>quoting is faithful: an entry with a plain key and a value in double quotes is read
  back as exactly that key and value, blanks, hashes, quotes and equals signs in the value
  included, and an \<^verbatim>\<open>export\<close> in front changes nothing.\<close>

theorem parseEnvLine_quoted:
  assumes "plain_key k"
  shows "parseEnvLine (k @ ''='' @ [CHR 0x22] @ v @ [CHR 0x22]) = Inr (Some (k @ ''='' @ v))
    \<and> parseEnvLine (''export '' @ k @ ''='' @ [CHR 0x22] @ v @ [CHR 0x22]) = Inr (Some (k @ ''='' @ v))"
proof -
  let ?q = "CHR 0x22 # v @ [CHR 0x22]"
  let ?t = "k @ CHR ''='' # ?q"
  have key: "CHR ''='' \<notin> set k" "trim_space k = k" "k \<noteq> []" "set k \<inter> env_key_forbidden = {}"
    using assms plain_key_trim [OF assms] by (auto simp: plain_key_def env_key_forbidden_def is_space_def)
  have tq: "trim_space ?q = ?q" by (rule trim_space_keep) (simp_all add: is_space_def)
  have tt: "trim_space ?t = ?t"
    using assms by (intro trim_space_keep) (auto simp: plain_key_def is_space_def)
  have hash: "\<not> prefix ''#'' ?t" using assms by (cases k) (auto simp: plain_key_def)
  have idx: "str_index ?t ''='' = Some (length k)" using key(1) by (rule str_index_char)
  have unq: "unquote ?q = v" by (simp add: unquote_def)
  have main: "parse_entry line ?t = Inr (Some (k @ ''='' @ v))" for line
    using key tq unq by (simp add: parse_entry_def idx Let_def)
  have "parseEnvLine ?t = Inr (Some (k @ ''='' @ v))"
    using hash main [of ?t] key(3) tt strip_export_plain [OF assms] by (simp add: parseEnvLine_def Let_def)
  moreover have "parseEnvLine (''export '' @ ?t) = Inr (Some (k @ ''='' @ v))"
  proof -
    have t1: "trim_space (''export '' @ ?t) = ''export '' @ ?t"
      by (rule trim_space_keep) (simp_all add: is_space_def)
    have "\<not> prefix (''export'' @ [CHR 0x09]) ?t" using assms by (intro not_export) (simp_all add: is_space_def)
    then have t2: "strip_export (''export '' @ ?t) = ?t"
      using tt by (simp add: strip_export_def trim_prefix_def)
    show ?thesis
      using t1 t2 main [of "''export '' @ ?t"] by (simp add: parseEnvLine_def Let_def)
  qed
  ultimately show ?thesis by simp
qed

theorem parseEnvLine_quoted_witness:
  "parseEnvLine (''export '' @ ''GREETING'' @ ''='' @ [CHR 0x22] @ '' a = b # c '' @ [CHR 0x22])
     = Inr (Some (''GREETING'' @ ''='' @ '' a = b # c ''))"
proof -
  have "plain_key ''GREETING''" by code_simp
  from parseEnvLine_quoted [OF this] show ?thesis by blast
qed

end
