(* ===== verification/Process.thy ===== *)
theory Process
  imports Envfile Registry
begin

text \<open>
  The process manager of \<^verbatim>\<open>internal/process/process.go\<close>. A started command is a number; what
  the goroutine that waits for it knows (\<open>cmd_info\<close>) is kept in \<open>mg_cmds\<close>. \<open>mg_procs\<close> is the
  table of tracked processes; \<open>rp_orig\<close> tells whether a table entry is the object the
  goroutine captured or the copy \<open>Restore\<close> made, because the goroutine reads the candidate
  flag of its own object only. The outside (free ports, spawning, the clock, the disk,
  whether a process obeys a signal) answers through arguments.
\<close>

section \<open>State\<close>

record cmd_info =
  cm_name :: string
  cm_pid :: int
  cm_started_at :: int
  cm_candidate :: bool
  cm_exited :: bool
  cm_done :: bool

record running_proc =
  rp_cmd :: nat
  rp_internalPort :: int
  rp_internalPorts :: ports
  rp_orig :: bool

record procmgr =
  mg_procs :: "running_proc gomap"
  mg_draining :: "(int \<times> int) list"
  mg_cmds :: "nat \<Rightarrow> cmd_info option"
  mg_next :: nat
  mg_logDir :: string

record detached =
  dt_name :: string
  dt_cmd :: nat
  dt_internalPort :: int
  dt_internalPorts :: ports

definition NewProcesses :: "string \<Rightarrow> procmgr" where
  "NewProcesses logDir =
     \<lparr>mg_procs = [], mg_draining = [], mg_cmds = (\<lambda>_. None), mg_next = 0, mg_logDir = logDir\<rparr>"

definition cmd_pid :: "procmgr \<Rightarrow> nat \<Rightarrow> int" where
  "cmd_pid m c = (case mg_cmds m c of Some ci \<Rightarrow> cm_pid ci | None \<Rightarrow> 0)"

definition set_cmd :: "nat \<Rightarrow> (cmd_info \<Rightarrow> cmd_info) \<Rightarrow> procmgr \<Rightarrow> procmgr" where
  "set_cmd c f m = m\<lparr>mg_cmds := (mg_cmds m)(c := map_option f (mg_cmds m c))\<rparr>"

section \<open>Starting a process\<close>

text \<open>What the outside answers while a process is started: the ephemeral ports in the order they
  are asked for, the files the command needs, the PID or error of \<^verbatim>\<open>cmd.Start\<close>, the clock and
  the disk.\<close>

record spawn_env =
  sp_ports :: "nat \<Rightarrow> err + int"
  sp_exec :: exec_env
  sp_start :: "err + int"
  sp_now :: int
  sp_dsk :: bool

fun reserve_ports ::
    "spawn_env \<Rightarrow> (string \<Rightarrow> err \<Rightarrow> err) \<Rightarrow> nat \<Rightarrow> string list \<Rightarrow> ports \<Rightarrow> err + ports" where
  "reserve_ports env mk i [] ports = Inr ports"
| "reserve_ports env mk i (name # names) ports =
     (case sp_ports env i of
        Inl e \<Rightarrow> Inl (mk name e)
      | Inr p \<Rightarrow> reserve_ports env mk (Suc i) names (AList.update name p ports))"

definition reserveInternalPorts :: "spawn_env \<Rightarrow> service \<Rightarrow> err + ports" where
  "reserveInternalPorts env svc =
     (if sv_stable_ports svc \<noteq> []
      then reserve_ports env
             (\<lambda>name e. Errorf ''could not reserve free port for %q (port %s): %w''
                [FStr (sv_name svc), FStr name, FErr e]) 0 (map fst (sv_stable_ports svc)) []
      else reserve_ports env
             (\<lambda>name e. Errorf ''could not reserve free port for %q: %w''
                [FStr (sv_name svc), FErr e]) 0 [''default''] [])"

definition start_proc ::
    "spawn_env \<Rightarrow> service \<Rightarrow> bool \<Rightarrow> procmgr \<times> registry \<Rightarrow> (ports, procmgr \<times> registry) res" where
  "start_proc env svc candidate mr =
     (let (m, r) = mr in
      if map_of (mg_procs m) (sv_name svc) \<noteq> None
      then (Inl (Errorf ''service %q is already running'' [FStr (sv_name svc)]), (m, r))
      else case reserveInternalPorts env svc of
        Inl e \<Rightarrow> (Inl e, (m, r))
      | Inr ports \<Rightarrow>
          (case buildCmd (sp_exec env) (mg_logDir m) svc ports of
             Inl e \<Rightarrow> (Inl e, (m, r))
           | Inr _ \<Rightarrow>
               (case sp_start env of
                  Inl e \<Rightarrow>
                    (Inl (Errorf ''failed to start %q: %w'' [FStr (sv_name svc), FErr e]),
                     (m, snd (UpdateStatus (sp_now env) (sp_dsk env) (sv_name svc) StatusFailed 0 r)))
                | Inr pid \<Rightarrow>
                    (let c = mg_next m;
                         rp = \<lparr>rp_cmd = c, rp_internalPort = PickPort ports (sv_health_check_port svc),
                               rp_internalPorts = copyPorts ports, rp_orig = True\<rparr>;
                         ci = \<lparr>cm_name = sv_name svc, cm_pid = pid, cm_started_at = sp_now env,
                               cm_candidate = candidate, cm_exited = False, cm_done = False\<rparr>
                     in (Inr ports,
                         (m\<lparr>mg_procs := AList.update (sv_name svc) rp (mg_procs m),
                            mg_cmds := (mg_cmds m)(c \<mapsto> ci), mg_next := Suc c\<rparr>,
                          snd (UpdateProcessStarted (sp_now env) (sp_dsk env) (sv_name svc) ports
                                 (sp_now env) r)))))))"

definition Start :: "spawn_env \<Rightarrow> service \<Rightarrow> procmgr \<times> registry \<Rightarrow> (ports, procmgr \<times> registry) res" where
  "Start env svc mr = start_proc env svc False mr"

definition StartCandidate ::
    "spawn_env \<Rightarrow> service \<Rightarrow> procmgr \<times> registry \<Rightarrow> (ports, procmgr \<times> registry) res" where
  "StartCandidate env svc mr = start_proc env svc True mr"

section \<open>The exit of a process\<close>

text \<open>The goroutine's locked section: the entry is deleted only when it still is this command, and
  the draining mark of the PID is consumed.\<close>

record exit_outcome =
  eo_code :: "int option"
  eo_candidate :: bool

definition exit_locked :: "nat \<Rightarrow> procmgr \<Rightarrow> exit_outcome \<times> procmgr" where
  "exit_locked c m =
     (case mg_cmds m c of
        None \<Rightarrow> (\<lparr>eo_code = None, eo_candidate = False\<rparr>, m)
      | Some ci \<Rightarrow>
          (let m1 = set_cmd c (\<lambda>ci. ci\<lparr>cm_exited := True\<rparr>) m;
               procs = (case map_of (mg_procs m) (cm_name ci) of
                          Some cur \<Rightarrow> if rp_cmd cur = c then AList.delete (cm_name ci) (mg_procs m)
                                      else mg_procs m
                        | None \<Rightarrow> mg_procs m)
           in (\<lparr>eo_code = map_of (mg_draining m) (cm_pid ci), eo_candidate = cm_candidate ci\<rparr>,
               m1\<lparr>mg_procs := procs, mg_draining := AList.delete (cm_pid ci) (mg_draining m)\<rparr>)))"

text \<open>After the lock: the start record is completed with the recorded or the real exit code, and
  a process that was neither draining nor a candidate has crashed. The result tells whether
  \<open>OnCrash\<close> is called.\<close>

definition exit_finish ::
    "int \<Rightarrow> bool \<Rightarrow> cmd_info \<Rightarrow> process_state option \<Rightarrow> exit_outcome \<Rightarrow> registry \<Rightarrow> bool \<times> registry" where
  "exit_finish now dsk ci st eo r =
     (let exitCode = (case eo_code eo of Some code \<Rightarrow> code | None \<Rightarrow> processExitCode st);
          r1 = snd (CompleteStart now dsk (cm_name ci) (cm_started_at ci) exitCode
                      (now - cm_started_at ci) r)
      in if eo_code eo \<noteq> None then (False, r1)
         else if eo_candidate eo then (False, r1)
         else (True, snd (UpdateStatus now dsk (cm_name ci) StatusFailed 0 r1)))"

definition proc_exit ::
    "int \<Rightarrow> bool \<Rightarrow> nat \<Rightarrow> process_state option \<Rightarrow> procmgr \<times> registry \<Rightarrow> bool \<times> (procmgr \<times> registry)" where
  "proc_exit now dsk c st mr =
     (let (m, r) = mr in
      case mg_cmds m c of
        None \<Rightarrow> (False, (m, r))
      | Some ci \<Rightarrow>
          if cm_exited ci then (False, (m, r))
          else
            (let (eo, m1) = exit_locked c m;
                 (crash, r1) = exit_finish now dsk ci st eo r
             in (crash, (set_cmd c (\<lambda>ci. ci\<lparr>cm_done := True\<rparr>) m1, r1))))"

section \<open>Intentional terminations\<close>

definition MarkDraining :: "int \<Rightarrow> procmgr \<Rightarrow> procmgr" where
  "MarkDraining pid m = (if pid \<le> 0 then m else m\<lparr>mg_draining := AList.update pid 0 (mg_draining m)\<rparr>)"

definition MarkDrainingProcess :: "nat option \<Rightarrow> procmgr \<Rightarrow> int \<times> procmgr" where
  "MarkDrainingProcess co m =
     (case co of
        None \<Rightarrow> (0, m)
      | Some c \<Rightarrow> if cmd_pid m c \<le> 0 then (0, m) else (cmd_pid m c, MarkDraining (cmd_pid m c) m))"

text \<open>\<open>drainProc\<close>: SIGTERM, then SIGKILL after the time-out. What the process does is the answer
  of the outside; when it exits, its goroutine has run before \<open>drainProc\<close> returns.\<close>

datatype drain_answer = ExitsOnTerm | ExitsOnKill | Survives

definition drainProc :: "drain_answer \<Rightarrow> int \<Rightarrow> err + unit" where
  "drainProc ans pid =
     (case ans of
        ExitsOnTerm \<Rightarrow> Inr ()
      | ExitsOnKill \<Rightarrow> Inr ()
      | Survives \<Rightarrow> Inl (Errorf ''process pid=%d did not exit after SIGKILL'' [FInt pid]))"

definition drain_cmd ::
    "int \<Rightarrow> bool \<Rightarrow> drain_answer \<Rightarrow> nat \<Rightarrow> procmgr \<times> registry \<Rightarrow> (unit, procmgr \<times> registry) res" where
  "drain_cmd now dsk ans c mr =
     (drainProc ans (cmd_pid (fst mr) c),
      if ans = Survives then mr else snd (proc_exit now dsk c None mr))"

text \<open>\<open>Stop\<close> and \<open>StopFailed\<close> differ in the exit code they have recorded.\<close>

definition stop_with ::
    "int \<Rightarrow> int \<Rightarrow> bool \<Rightarrow> drain_answer \<Rightarrow> string \<Rightarrow> procmgr \<times> registry \<Rightarrow> (unit, procmgr \<times> registry) res" where
  "stop_with code now dsk ans name mr =
     (let (m, r) = mr in
      case map_of (mg_procs m) name of
        None \<Rightarrow> (Inl (Errorf ''service %q is not running'' [FStr name]), (m, r))
      | Some rp \<Rightarrow>
          drain_cmd now dsk ans (rp_cmd rp)
            (m\<lparr>mg_procs := AList.delete name (mg_procs m),
               mg_draining := AList.update (cmd_pid m (rp_cmd rp)) code (mg_draining m)\<rparr>, r))"

definition StopProc ::
    "int \<Rightarrow> bool \<Rightarrow> drain_answer \<Rightarrow> string \<Rightarrow> procmgr \<times> registry \<Rightarrow> (unit, procmgr \<times> registry) res" where
  "StopProc now dsk ans name mr = stop_with 0 now dsk ans name mr"

definition StopFailed ::
    "int \<Rightarrow> bool \<Rightarrow> drain_answer \<Rightarrow> string \<Rightarrow> procmgr \<times> registry \<Rightarrow> (unit, procmgr \<times> registry) res" where
  "StopFailed now dsk ans name mr = stop_with 1 now dsk ans name mr"

definition RestartProc ::
    "spawn_env \<Rightarrow> drain_answer \<Rightarrow> service \<Rightarrow> procmgr \<times> registry \<Rightarrow> (ports, procmgr \<times> registry) res" where
  "RestartProc env ans svc mr =
     Start env svc (snd (StopProc (sp_now env) (sp_dsk env) ans (sv_name svc) mr))"

section \<open>Candidates, detaching and restoring\<close>

definition Activate :: "string \<Rightarrow> procmgr \<Rightarrow> (unit, procmgr) res" where
  "Activate name m =
     (case map_of (mg_procs m) name of
        None \<Rightarrow> (Inl (Errorf ''service %q candidate exited before activation'' [FStr name]), m)
      | Some rp \<Rightarrow>
          (Inr (), if rp_orig rp then set_cmd (rp_cmd rp) (\<lambda>ci. ci\<lparr>cm_candidate := False\<rparr>) m else m))"

definition Detach :: "string \<Rightarrow> procmgr \<Rightarrow> detached option \<times> procmgr" where
  "Detach name m =
     (case map_of (mg_procs m) name of
        None \<Rightarrow> (None, m)
      | Some rp \<Rightarrow>
          (Some \<lparr>dt_name = name, dt_cmd = rp_cmd rp, dt_internalPort = rp_internalPort rp,
                 dt_internalPorts = rp_internalPorts rp\<rparr>,
           m\<lparr>mg_procs := AList.delete name (mg_procs m)\<rparr>))"

definition Deregister :: "string \<Rightarrow> procmgr \<Rightarrow> (int \<times> nat option) \<times> procmgr" where
  "Deregister name m =
     (case Detach name m of
        (None, m') \<Rightarrow> ((0, None), m')
      | (Some dp, m') \<Rightarrow> ((cmd_pid m (dt_cmd dp), Some (dt_cmd dp)), m'))"

text \<open>\<open>alive\<close> answers \<open>PIDAlive\<close>.\<close>

definition RestoreProc :: "(int \<Rightarrow> bool) \<Rightarrow> string \<Rightarrow> detached option \<Rightarrow> procmgr \<Rightarrow> (bool, procmgr) res" where
  "RestoreProc alive name dp m =
     (let gone = Errorf ''service %q previous process already exited'' [FStr name] in
      case dp of
        None \<Rightarrow> (Inr False, m)
      | Some d \<Rightarrow>
          (case mg_cmds m (dt_cmd d) of
             None \<Rightarrow> (Inr False, m)
           | Some ci \<Rightarrow>
               if cm_done ci then (Inl gone, m)
               else if \<not> (0 < cm_pid ci \<and> alive (cm_pid ci)) then (Inr False, m)
               else if cm_exited ci then (Inl gone, m)
               else if map_of (mg_procs m) name \<noteq> None
               then (Inl (Errorf ''service %q is already running'' [FStr name]), m)
               else
                 (Inr True,
                  m\<lparr>mg_procs := AList.update name
                       \<lparr>rp_cmd = dt_cmd d, rp_internalPort = dt_internalPort d,
                        rp_internalPorts = dt_internalPorts d, rp_orig = False\<rparr> (mg_procs m)\<rparr>)))"

section \<open>Queries\<close>

definition IsRunning :: "string \<Rightarrow> procmgr \<Rightarrow> bool" where
  "IsRunning name m = (map_of (mg_procs m) name \<noteq> None)"

definition ProcPID :: "string \<Rightarrow> procmgr \<Rightarrow> int" where
  "ProcPID name m = (case map_of (mg_procs m) name of Some rp \<Rightarrow> cmd_pid m (rp_cmd rp) | None \<Rightarrow> 0)"

definition InternalPort :: "string \<Rightarrow> procmgr \<Rightarrow> int" where
  "InternalPort name m = (case map_of (mg_procs m) name of Some rp \<Rightarrow> rp_internalPort rp | None \<Rightarrow> 0)"

definition InternalPorts :: "string \<Rightarrow> procmgr \<Rightarrow> ports" where
  "InternalPorts name m =
     (case map_of (mg_procs m) name of Some rp \<Rightarrow> copyPorts (rp_internalPorts rp) | None \<Rightarrow> [])"

definition DetachedPID :: "detached option \<Rightarrow> procmgr \<Rightarrow> int" where
  "DetachedPID dp m = (case dp of None \<Rightarrow> 0 | Some d \<Rightarrow> cmd_pid m (dt_cmd d))"

end
