(* ===== verification/Process_Props.thy ===== *)
theory Process_Props
  imports Process Registry_Props
begin

text \<open>
  The step relation of the process manager (the locked sections of its operations and of the
  waiting goroutines, in any interleaving), its invariant, and the properties of starting,
  stopping, crashing, detaching and restoring.
\<close>

declare map_of_eq_Some_iff [simp del]

section \<open>Steps\<close>

inductive proc_step :: "procmgr \<Rightarrow> procmgr \<Rightarrow> bool" where
  st_start: "proc_step m (fst (snd (start_proc env svc cand (m, r))))"
| st_exit: "mg_cmds m c = Some ci \<Longrightarrow> \<not> cm_exited ci \<Longrightarrow> proc_step m (snd (exit_locked c m))"
| st_done: "mg_cmds m c = Some ci \<Longrightarrow> cm_exited ci \<Longrightarrow>
    proc_step m (set_cmd c (\<lambda>ci. ci\<lparr>cm_done := True\<rparr>) m)"
| st_mark: "proc_step m (MarkDraining pid m)"
| st_stop: "proc_step m (m\<lparr>mg_procs := AList.delete name (mg_procs m),
                          mg_draining := AList.update pid code (mg_draining m)\<rparr>)"
| st_activate: "proc_step m (snd (Activate name m))"
| st_detach: "proc_step m (snd (Detach name m))"
| st_restore: "mg_cmds m (dt_cmd d) = Some ci \<Longrightarrow> cm_name ci = name \<Longrightarrow>
    proc_step m (snd (RestoreProc alive name (Some d) m))"

inductive_cases proc_stepE: "proc_step m m'"

inductive proc_reachable :: "procmgr \<Rightarrow> bool" where
  pr_start: "proc_reachable (NewProcesses logDir)"
| pr_step: "proc_reachable m \<Longrightarrow> proc_step m m' \<Longrightarrow> proc_reachable m'"

section \<open>The invariant\<close>

text \<open>Every tracked process is a started command of that name that has not exited; numbers not
  given out yet are unused; a finished goroutine has passed its locked section.\<close>

definition tracked_ok :: "procmgr \<Rightarrow> string \<Rightarrow> running_proc \<Rightarrow> bool" where
  "tracked_ok m n rp \<longleftrightarrow>
     (\<exists>ci. mg_cmds m (rp_cmd rp) = Some ci \<and> cm_name ci = n \<and> \<not> cm_exited ci)"

definition cmds_ok :: "procmgr \<Rightarrow> bool" where
  "cmds_ok m \<longleftrightarrow> (\<forall>c ci. mg_cmds m c = Some ci \<longrightarrow> c < mg_next m \<and> (cm_done ci \<longrightarrow> cm_exited ci))"

definition mg_inv :: "procmgr \<Rightarrow> bool" where
  "mg_inv m \<longleftrightarrow> distinct (map fst (mg_procs m)) \<and> (\<forall>(n, rp) \<in> set (mg_procs m). tracked_ok m n rp)
     \<and> cmds_ok m"

lemma mg_inv_tracked: "mg_inv m \<Longrightarrow> map_of (mg_procs m) n = Some rp \<Longrightarrow> tracked_ok m n rp"
  by (auto simp: mg_inv_def dest!: map_of_SomeD)

lemma mg_inv_done: "mg_inv m \<Longrightarrow> mg_cmds m c = Some ci \<Longrightarrow> cm_done ci \<Longrightarrow> cm_exited ci"
  by (auto simp: mg_inv_def cmds_ok_def)

lemma mg_inv_delete: "mg_inv m \<Longrightarrow> mg_inv (m\<lparr>mg_procs := AList.delete n (mg_procs m)\<rparr>)"
  by (auto simp: mg_inv_def tracked_ok_def cmds_ok_def set_delete_in)

lemma mg_inv_draining [simp]: "mg_inv (m\<lparr>mg_draining := d\<rparr>) = mg_inv m"
  by (simp add: mg_inv_def tracked_ok_def cmds_ok_def)

lemma mg_inv_set_cmd:
  assumes "mg_inv m" and "\<And>ci. cm_name (f ci) = cm_name ci \<and> cm_exited (f ci) = cm_exited ci"
    and "\<And>ci. mg_cmds m c = Some ci \<Longrightarrow> cm_done (f ci) \<Longrightarrow> cm_exited ci"
  shows "mg_inv (set_cmd c f m)"
  using assms by (fastforce simp: mg_inv_def tracked_ok_def cmds_ok_def set_cmd_def split: if_splits)

lemma exit_locked_inv:
  assumes "mg_inv m" and "mg_cmds m c = Some ci"
  shows "mg_inv (snd (exit_locked c m))"
proof -
  let ?m = "snd (exit_locked c m)"
  have cmds: "mg_cmds ?m = (mg_cmds m)(c := Some (ci\<lparr>cm_exited := True\<rparr>))" "mg_next ?m = mg_next m"
    using assms(2) by (simp_all add: exit_locked_def Let_def set_cmd_def)
  have sub: "(n, rp) \<in> set (mg_procs ?m) \<Longrightarrow> (n, rp) \<in> set (mg_procs m) \<and> rp_cmd rp \<noteq> c" for n rp
  proof -
    assume in': "(n, rp) \<in> set (mg_procs ?m)"
    then have in0: "(n, rp) \<in> set (mg_procs m)"
      using assms(2) by (auto simp: exit_locked_def Let_def set_cmd_def set_delete_in
          split: option.splits if_splits)
    moreover have "rp_cmd rp \<noteq> c"
    proof
      assume c: "rp_cmd rp = c"
      from assms(1) in0 have "tracked_ok m n rp" "distinct (map fst (mg_procs m))"
        by (auto simp: mg_inv_def)
      with c assms(2) have n: "cm_name ci = n" and look: "map_of (mg_procs m) n = Some rp"
        using in0 by (auto simp: tracked_ok_def)
      with in' c assms(2) show False
        by (auto simp: exit_locked_def Let_def set_cmd_def set_delete_in)
    qed
    ultimately show ?thesis by simp
  qed
  have "tracked_ok ?m n rp" if "(n, rp) \<in> set (mg_procs ?m)" for n rp
  proof -
    from sub [OF that] assms(1) have "tracked_ok m n rp" "rp_cmd rp \<noteq> c" by (auto simp: mg_inv_def)
    then show ?thesis by (simp add: tracked_ok_def cmds)
  qed
  moreover have "distinct (map fst (mg_procs ?m))"
    using assms by (auto simp: exit_locked_def Let_def set_cmd_def mg_inv_def split: option.split)
  moreover have "cmds_ok ?m"
    using assms by (auto simp: cmds_ok_def cmds mg_inv_def)
  ultimately show ?thesis by (auto simp: mg_inv_def)
qed

text \<open>A successful start, as one equation.\<close>

lemma start_proc_cases:
  obtains (failed) e r' where "start_proc env svc cand (m, r) = (Inl e, (m, r'))"
  | (started) ports pid where "map_of (mg_procs m) (sv_name svc) = None"
      and "reserveInternalPorts env svc = Inr ports" and "sp_start env = Inr pid"
      and "start_proc env svc cand (m, r) =
        (Inr ports,
         (m\<lparr>mg_procs := AList.update (sv_name svc)
              \<lparr>rp_cmd = mg_next m, rp_internalPort = PickPort ports (sv_health_check_port svc),
               rp_internalPorts = ports, rp_orig = True\<rparr> (mg_procs m),
            mg_cmds := (mg_cmds m)(mg_next m \<mapsto>
              \<lparr>cm_name = sv_name svc, cm_pid = pid, cm_started_at = sp_now env,
               cm_candidate = cand, cm_exited = False, cm_done = False\<rparr>),
            mg_next := Suc (mg_next m)\<rparr>,
          snd (UpdateProcessStarted (sp_now env) (sp_dsk env) (sv_name svc) ports (sp_now env) r)))"
proof (cases "map_of (mg_procs m) (sv_name svc)")
  case None
  show ?thesis
  proof (cases "reserveInternalPorts env svc")
    case (Inl e)
    with None failed show ?thesis by (simp add: start_proc_def)
  next
    case ports: (Inr ports)
    show ?thesis
    proof (cases "buildCmd (sp_exec env) (mg_logDir m) svc ports")
      case (Inl e)
      with None ports failed show ?thesis by (simp add: start_proc_def)
    next
      case (Inr cmd)
      with None ports failed started show ?thesis
        by (cases "sp_start env") (simp_all add: start_proc_def Let_def)
    qed
  qed
next
  case (Some rp)
  with failed show ?thesis by (simp add: start_proc_def)
qed

lemma start_proc_inv:
  assumes "mg_inv m"
  shows "mg_inv (fst (snd (start_proc env svc cand (m, r))))"
proof (cases rule: start_proc_cases [of env svc cand m r])
  case (failed e r')
  with assms show ?thesis by simp
next
  case (started ports pid)
  have fresh: "mg_cmds m (mg_next m) = None"
    using assms by (cases "mg_cmds m (mg_next m)") (auto simp: mg_inv_def cmds_ok_def)
  have "tracked_ok m n rp \<Longrightarrow> rp_cmd rp \<noteq> mg_next m" for n rp
    using fresh by (auto simp: tracked_ok_def)
  with assms fresh show ?thesis
    by (auto simp: started(4) mg_inv_def tracked_ok_def cmds_ok_def less_Suc_eq dest!: set_update_in)
qed

lemma RestoreProc_inv:
  assumes "mg_inv m" and "mg_cmds m (dt_cmd d) = Some ci" and "cm_name ci = name"
  shows "mg_inv (snd (RestoreProc alive name (Some d) m))"
  using assms
  by (auto simp: RestoreProc_def Let_def mg_inv_def tracked_ok_def cmds_ok_def dest!: set_update_in)

lemma proc_step_inv:
  assumes "proc_step m m'" and "mg_inv m"
  shows "mg_inv m'"
  using assms
proof (cases rule: proc_step.cases)
  case (st_done c ci)
  with assms(2) show ?thesis by (auto intro: mg_inv_set_cmd)
next
  case (st_stop pid code name)
  with mg_inv_delete [OF assms(2), of name] show ?thesis by (simp add: mg_inv_def tracked_ok_def cmds_ok_def)
next
  case (st_activate name)
  with assms(2) show ?thesis
    by (auto simp: Activate_def split: option.split intro!: mg_inv_set_cmd dest: mg_inv_done)
next
  case (st_detach name)
  with assms(2) show ?thesis by (auto simp: Detach_def mg_inv_delete split: option.split)
next
  case (st_mark pid)
  with assms(2) show ?thesis by (simp add: MarkDraining_def)
qed (use assms in \<open>auto intro: start_proc_inv exit_locked_inv RestoreProc_inv\<close>)

lemma proc_reachable_inv: "proc_reachable m \<Longrightarrow> mg_inv m"
proof (induction rule: proc_reachable.induct)
  case (pr_start logDir)
  show ?case by (simp add: NewProcesses_def mg_inv_def cmds_ok_def)
qed (auto intro: proc_step_inv)

section \<open>Properties\<close>

text \<open>C30: in every reachable state, whatever the interleaving of operations and process exits, a
  service name tracks at most one process, that process was started for this name and has not
  exited, and no process is tracked under two names.\<close>

theorem tracked_processes_live:
  assumes "proc_reachable m" and "map_of (mg_procs m) n = Some rp"
  shows "(\<exists>ci. mg_cmds m (rp_cmd rp) = Some ci \<and> cm_name ci = n \<and> \<not> cm_exited ci)
    \<and> distinct (map fst (mg_procs m))
    \<and> {k. \<exists>rp'. map_of (mg_procs m) k = Some rp' \<and> rp_cmd rp' = rp_cmd rp} = {n}"
proof -
  have inv: "mg_inv m" using assms(1) by (rule proc_reachable_inv)
  have t: "tracked_ok m n rp" using inv assms(2) by (rule mg_inv_tracked)
  have "k = n" if "map_of (mg_procs m) k = Some rp'" "rp_cmd rp' = rp_cmd rp" for k rp'
    using mg_inv_tracked [OF inv that(1)] t that(2) by (auto simp: tracked_ok_def)
  then have "{k. \<exists>rp'. map_of (mg_procs m) k = Some rp' \<and> rp_cmd rp' = rp_cmd rp} = {n}"
    using assms(2) by blast
  moreover have "distinct (map fst (mg_procs m))" using inv by (simp add: mg_inv_def)
  ultimately show ?thesis using t unfolding tracked_ok_def by blast
qed

definition demo_spawn :: spawn_env where
  "demo_spawn = \<lparr>sp_ports = (\<lambda>i. Inr (int i + 50)), sp_exec = \<lparr>xe_environ = [],
      xe_files = (\<lambda>_. None), xe_log_ok = True\<rparr>, sp_start = Inr 4242, sp_now = 7, sp_dsk = True\<rparr>"

definition demo_bin :: service where
  "demo_bin = zero_service\<lparr>sv_name := ''api'', sv_type := TypeBinary, sv_binary_path := ''/bin/api'',
     sv_stable_ports := [(''default'', 8100)], sv_stable_port := 8100\<rparr>"

definition demo_mgr :: "int \<Rightarrow> bool \<Rightarrow> procmgr" where
  "demo_mgr t cand = fst (snd (start_proc (demo_spawn\<lparr>sp_now := t\<rparr>) demo_bin cand
     (NewProcesses ''/logs'', reg_load None)))"

lemma demo_mgr_reachable: "proc_reachable (demo_mgr t cand)"
  unfolding demo_mgr_def by (rule pr_step [OF pr_start st_start])

lemma demo_mgr_eq: "demo_mgr t cand = \<lparr>mg_procs = [(''api'', \<lparr>rp_cmd = 0, rp_internalPort = 50,
      rp_internalPorts = [(''default'', 50)], rp_orig = True\<rparr>)], mg_draining = [],
      mg_cmds = (\<lambda>_. None)(0 \<mapsto> \<lparr>cm_name = ''api'', cm_pid = 4242, cm_started_at = t,
        cm_candidate = cand, cm_exited = False, cm_done = False\<rparr>), mg_next = 1, mg_logDir = ''/logs''\<rparr>"
  by (simp add: demo_mgr_def start_proc_def NewProcesses_def demo_bin_def demo_spawn_def
      buildCmd_def reserveInternalPorts_def Let_def PickPort_def zero_service_def)

lemma demo_mgr_tracks: "map_of (mg_procs (demo_mgr t cand)) ''api'' =
    Some \<lparr>rp_cmd = 0, rp_internalPort = 50, rp_internalPorts = [(''default'', 50)], rp_orig = True\<rparr>"
  by (simp add: demo_mgr_eq)

lemma demo_mgr_cmd: "mg_cmds (demo_mgr t cand) 0 = Some \<lparr>cm_name = ''api'', cm_pid = 4242,
    cm_started_at = t, cm_candidate = cand, cm_exited = False, cm_done = False\<rparr>"
  by (simp add: demo_mgr_eq)

theorem tracked_processes_live_witness:
  "\<exists>ci. mg_cmds (demo_mgr 7 True) 0 = Some ci \<and> cm_name ci = ''api'' \<and> \<not> cm_exited ci"
  using tracked_processes_live [OF demo_mgr_reachable demo_mgr_tracks] by simp

text \<open>when a process exits, its table entry and nothing else disappears: a replacement that
  took over the name, and every other service, stays tracked.\<close>

theorem exit_keeps_replacement:
  assumes "proc_reachable m" and "mg_cmds m c \<noteq> None"
  shows "map_of (mg_procs (snd (exit_locked c m))) =
    (\<lambda>n. case map_of (mg_procs m) n of
           Some rp \<Rightarrow> if rp_cmd rp = c then None else Some rp
         | None \<Rightarrow> None)"
proof
  fix n
  have inv: "mg_inv m" using assms(1) by (rule proc_reachable_inv)
  from assms(2) obtain ci where ci: "mg_cmds m c = Some ci" by auto
  have other: "rp_cmd rp \<noteq> c" if "map_of (mg_procs m) n = Some rp" "n \<noteq> cm_name ci" for rp
    using mg_inv_tracked [OF inv that(1)] that(2) ci by (auto simp: tracked_ok_def)
  show "map_of (mg_procs (snd (exit_locked c m))) n =
      (case map_of (mg_procs m) n of Some rp \<Rightarrow> if rp_cmd rp = c then None else Some rp | None \<Rightarrow> None)"
    using ci other by (cases "n = cm_name ci")
      (auto simp: exit_locked_def Let_def set_cmd_def split: option.splits)
qed

theorem exit_keeps_replacement_witness:
  "map_of (mg_procs (snd (exit_locked 0 (demo_mgr 7 True)))) ''api'' = None"
proof -
  have "mg_cmds (demo_mgr 7 True) 0 \<noteq> None" by (simp add: demo_mgr_cmd)
  from exit_keeps_replacement [OF demo_mgr_reachable this] show ?thesis
    by (simp add: demo_mgr_tracks)
qed

lemma UpdateStatus_status:
  "map_option sv_status (map_of (rg_services (snd (UpdateStatus now dsk n st pid r))) k) =
   (if k = n \<and> map_of (rg_services r) n \<noteq> None then Some st
    else map_option sv_status (map_of (rg_services r) k))"
  by (auto simp: UpdateStatus_def with_service_def option.map_comp comp_def split: option.split)

lemma CompleteStart_status:
  "map_option sv_status (map_of (rg_services (snd (CompleteStart now dsk n t c d r))) k) =
   map_option sv_status (map_of (rg_services r) k)"
  by (auto simp: CompleteStart_def with_service_def option.map_comp comp_def split: option.split)

lemma proc_exit_live:
  assumes "mg_cmds m c = Some ci" and "\<not> cm_exited ci"
  shows "proc_exit now dsk c st (m, r) =
    (case exit_finish now dsk ci st \<lparr>eo_code = map_of (mg_draining m) (cm_pid ci),
                                     eo_candidate = cm_candidate ci\<rparr> r of
       (crash, r1) \<Rightarrow> (crash, (set_cmd c (\<lambda>ci. ci\<lparr>cm_done := True\<rparr>) (snd (exit_locked c m)), r1)))"
  using assms by (simp add: proc_exit_def Let_def exit_locked_def)

text \<open>crash recovery is triggered exactly for the exit of a process that was not being
  terminated on purpose and is not an unactivated candidate; only then the registry shows the
  service as failed, and every other service keeps its status.\<close>

theorem crash_iff_unintended:
  assumes "mg_cmds m c = Some ci" and "\<not> cm_exited ci"
  shows "(fst (proc_exit now dsk c st (m, r)) \<longleftrightarrow>
      map_of (mg_draining m) (cm_pid ci) = None \<and> \<not> cm_candidate ci)
    \<and> (\<lambda>n. map_option sv_status (map_of (rg_services (snd (snd (proc_exit now dsk c st (m, r))))) n)) =
      (\<lambda>n. if fst (proc_exit now dsk c st (m, r)) \<and> n = cm_name ci \<and> map_of (rg_services r) n \<noteq> None
           then Some StatusFailed else map_option sv_status (map_of (rg_services r) n))"
proof -
  let ?eo = "\<lparr>eo_code = map_of (mg_draining m) (cm_pid ci), eo_candidate = cm_candidate ci\<rparr>"
  have none: "(map_of (rg_services (snd (CompleteStart now dsk n t k d r))) n = None) =
      (map_of (rg_services r) n = None)" for n t k d
    using CompleteStart_status [of now dsk n t k d r n] by (metis option.map_disc_iff)
  show ?thesis
    unfolding proc_exit_live [OF assms]
    by (cases "map_of (mg_draining m) (cm_pid ci)"; cases "cm_candidate ci")
      (auto simp: exit_finish_def Let_def UpdateStatus_status CompleteStart_status none fun_eq_iff)
qed

theorem crash_iff_unintended_witness:
  "\<not> fst (proc_exit 9 True 0 None (demo_mgr 7 True, reg_load None))
   \<and> fst (proc_exit 9 True 0 None (demo_mgr 7 False, reg_load None))"
  using crash_iff_unintended [OF demo_mgr_cmd [of 7 True], of 9 True None "reg_load None"]
    crash_iff_unintended [OF demo_mgr_cmd [of 7 False], of 9 True None "reg_load None"]
  by (simp add: demo_mgr_eq)

section \<open>Stopping\<close>

text \<open>stopping a tracked process that obeys the signals succeeds, frees its name, leaves every
  service's status to the caller and records the chosen exit code (0 for a stop, 1 for a
  failed candidate) in the start record of that process.\<close>

theorem stop_records_code:
  assumes "mg_inv m" and "map_of (mg_procs m) name = Some rp" and "mg_cmds m (rp_cmd rp) = Some ci"
    and "reg_inv r" and "Get name r = Some s" and "sv_start_history s = pre @ ev # post"
    and "se_started_at ev = cm_started_at ci" and "\<forall>x \<in> set post. se_started_at x \<noteq> cm_started_at ci"
    and "ans \<noteq> Survives" and "stop_with code now dsk ans name (m, r) = (res, (m', r'))"
  shows "res = Inr () \<and> map_of (mg_procs m') name = None
    \<and> (\<lambda>n. map_option sv_status (Get n r')) = (\<lambda>n. map_option sv_status (Get n r))
    \<and> (\<exists>s'. Get name r' = Some s' \<and> sv_start_history s' =
          pre @ ev\<lparr>se_exit_code := code, se_duration := now - cm_started_at ci\<rparr> # post)"
proof -
  let ?m0 = "m\<lparr>mg_procs := AList.delete name (mg_procs m),
      mg_draining := AList.update (cm_pid ci) code (mg_draining m)\<rparr>"
  from mg_inv_tracked [OF assms(1,2)] assms(3) have ci: "cm_name ci = name" "\<not> cm_exited ci"
    by (auto simp: tracked_ok_def)
  have live: "mg_cmds ?m0 (rp_cmd rp) = Some ci" using assms(3) by simp
  have r': "r' = snd (CompleteStart now dsk name (cm_started_at ci) code (now - cm_started_at ci) r)"
    and m': "m' = set_cmd (rp_cmd rp) (\<lambda>ci. ci\<lparr>cm_done := True\<rparr>) (snd (exit_locked (rp_cmd rp) ?m0))"
    and res: "res = drainProc ans (cm_pid ci)"
    using assms(2,3,9,10) ci
    by (auto simp: stop_with_def drain_cmd_def proc_exit_live [OF live ci(2)] exit_finish_def Let_def
        cmd_pid_def)
  have "map_of (mg_procs m') name = None"
    using assms(3) ci by (simp add: m' exit_locked_def set_cmd_def Let_def)
  moreover have "res = Inr ()" using res assms(9) by (cases ans) (simp_all add: drainProc_def)
  moreover have "(\<lambda>n. map_option sv_status (Get n r')) = (\<lambda>n. map_option sv_status (Get n r))"
    using CompleteStart_status [of now dsk name "cm_started_at ci" code "now - cm_started_at ci" r]
    by (simp add: r' Get_def option.map_comp comp_def)
  moreover have "\<exists>s'. Get name r' = Some s' \<and> sv_start_history s' =
          pre @ ev\<lparr>se_exit_code := code, se_duration := now - cm_started_at ci\<rparr> # post"
    using assms(5,6) complete_history_last [OF assms(8,7)]
    by (simp add: r' CompleteStart_def with_service_def Get_def)
  ultimately show ?thesis by blast
qed

theorem stop_records_code_witness:
  "map_of (mg_procs (fst (snd (stop_with 1 9 True ExitsOnTerm ''api'' (demo_mgr 6 False, demo_started))))) ''api'' = None"
proof -
  obtain s where s: "Get ''api'' demo_started = Some s"
      "sv_start_history s = [] @ start_record 6 # []" using demo_started_get by blast
  obtain res m' r' where st: "stop_with 1 9 True ExitsOnTerm ''api'' (demo_mgr 6 False, demo_started) = (res, (m', r'))"
    by (metis prod.exhaust)
  have c: "mg_cmds (demo_mgr 6 False) (rp_cmd \<lparr>rp_cmd = 0, rp_internalPort = 50,
      rp_internalPorts = [(''default'', 50)], rp_orig = True\<rparr>) = Some \<lparr>cm_name = ''api'', cm_pid = 4242,
      cm_started_at = 6, cm_candidate = False, cm_exited = False, cm_done = False\<rparr>"
    by (simp add: demo_mgr_eq)
  from stop_records_code [OF proc_reachable_inv [OF demo_mgr_reachable] demo_mgr_tracks c
      demo_started_inv s _ _ _ st]
  show ?thesis by (simp add: st start_record_def)
qed

section \<open>Detaching and restoring\<close>

text \<open>detaching a process and restoring it while it still lives gives back the same process on
  the same ports; when it has exited meanwhile the restore is refused and nothing is tracked
  under the name.\<close>

theorem detach_restore:
  assumes "mg_inv m" and "map_of (mg_procs m) name = Some rp" and "Detach name m = (dp, m1)"
    and "mg_procs m2 = mg_procs m1" and "mg_cmds m2 (rp_cmd rp) = Some ci"
    and "RestoreProc alive name dp m2 = (res, m3)"
  shows "if \<not> cm_exited ci \<and> \<not> cm_done ci \<and> 0 < cm_pid ci \<and> alive (cm_pid ci)
    then res = Inr True \<and> ProcPID name m3 = cm_pid ci
      \<and> InternalPorts name m3 = InternalPorts name m \<and> InternalPort name m3 = InternalPort name m
      \<and> (\<forall>n. n \<noteq> name \<longrightarrow> map_of (mg_procs m3) n = map_of (mg_procs m) n)
    else res \<noteq> Inr True \<and> IsRunning name m3 = False"
  using assms
  by (auto simp: Detach_def RestoreProc_def Let_def ProcPID_def InternalPorts_def InternalPort_def
      IsRunning_def cmd_pid_def split: if_splits)

theorem detach_restore_witness:
  "\<exists>m3. RestoreProc (\<lambda>p. True) ''api'' (fst (Detach ''api'' (demo_mgr 7 False)))
       (snd (Detach ''api'' (demo_mgr 7 False))) = (Inr True, m3)
     \<and> InternalPorts ''api'' m3 = InternalPorts ''api'' (demo_mgr 7 False)"
proof -
  obtain res m3 where r: "RestoreProc (\<lambda>p. True) ''api'' (fst (Detach ''api'' (demo_mgr 7 False)))
      (snd (Detach ''api'' (demo_mgr 7 False))) = (res, m3)" by (metis prod.exhaust)
  have "mg_cmds (snd (Detach ''api'' (demo_mgr 7 False))) (rp_cmd \<lparr>rp_cmd = 0, rp_internalPort = 50,
      rp_internalPorts = [(''default'', 50)], rp_orig = True\<rparr>) = Some \<lparr>cm_name = ''api'', cm_pid = 4242,
      cm_started_at = 7, cm_candidate = False, cm_exited = False, cm_done = False\<rparr>"
    by (simp add: demo_mgr_eq Detach_def)
  from detach_restore [OF proc_reachable_inv [OF demo_mgr_reachable] demo_mgr_tracks
      surjective_pairing refl this r] r
  show ?thesis by simp
qed

end
