(* ===== verification/Process_Tree.thy ===== *)
theory Process_Tree
  imports Envfile
begin

text \<open>
  \<open>processTreePIDs\<close> and \<open>VerifyPortsOwnedByProcessTree\<close> of
  \<^verbatim>\<open>internal/process/process.go\<close>: the breadth-first walk over a process and its descendants,
  and the check that every internal listener belongs to it. \<open>children\<close> and \<open>listeners\<close> are
  the answers of \<^verbatim>\<open>pgrep\<close> and \<^verbatim>\<open>lsof\<close> (functions stored in variables in the code). The walk
  gets fuel; \<open>tree_complete\<close> shows that the number of processes is enough.
\<close>

section \<open>The walk\<close>

text \<open>The loop over the children of one process: unknown ones are allowed and queued.\<close>

fun add_children :: "int list \<Rightarrow> int list \<Rightarrow> int list \<Rightarrow> int list \<times> int list" where
  "add_children [] allowed queue = (allowed, queue)"
| "add_children (c # cs) allowed queue =
     (if c \<in> set allowed then add_children cs allowed queue
      else add_children cs (c # allowed) (queue @ [c]))"

fun tree_loop ::
    "nat \<Rightarrow> (int \<Rightarrow> err + int list) \<Rightarrow> int list \<Rightarrow> int list \<Rightarrow> (err + int list) option" where
  "tree_loop fuel children allowed [] = Some (Inr allowed)"
| "tree_loop 0 children allowed (pid # queue) = None"
| "tree_loop (Suc fuel) children allowed (pid # queue) =
     (case children pid of
        Inl e \<Rightarrow> Some (Inl e)
      | Inr cs \<Rightarrow>
          (case add_children cs allowed queue of
             (allowed', queue') \<Rightarrow> tree_loop fuel children allowed' queue'))"

definition processTreePIDs ::
    "nat \<Rightarrow> (int \<Rightarrow> err + int list) \<Rightarrow> int \<Rightarrow> (err + int list) option" where
  "processTreePIDs fuel children rootPID = tree_loop fuel children [rootPID] [rootPID]"

fun verify_ports ::
    "(int \<Rightarrow> err + int list) \<Rightarrow> int \<Rightarrow> int list \<Rightarrow> ports \<Rightarrow> err + unit" where
  "verify_ports listeners rootPID allowed [] = Inr ()"
| "verify_ports listeners rootPID allowed ((portName, port) # ports) =
     (case listeners port of
        Inl e \<Rightarrow> Inl (Errorf ''verify internal port %s=%d: %w'' [FStr portName, FInt port, FErr e])
      | Inr pids \<Rightarrow>
          if pids = []
          then Inl (Errorf ''verify internal port %s=%d: no listening process found''
                      [FStr portName, FInt port])
          else if \<not> list_ex (\<lambda>pid. pid \<in> set allowed) pids
          then Inl (Errorf ''verify internal port %s=%d: listener pid(s) %v are not service pid %d or its descendants''
                      ([FStr portName, FInt port] @ map FInt pids @ [FInt rootPID]))
          else verify_ports listeners rootPID allowed ports)"

definition VerifyPortsOwnedByProcessTree ::
    "nat \<Rightarrow> (int \<Rightarrow> err + int list) \<Rightarrow> (int \<Rightarrow> err + int list) \<Rightarrow> ports \<Rightarrow> int
     \<Rightarrow> (err + unit) option" where
  "VerifyPortsOwnedByProcessTree fuel children listeners ports rootPID =
     (if rootPID \<le> 0
      then Some (Inl (Errorf ''cannot verify internal port ownership: missing process pid'' []))
      else case processTreePIDs fuel children rootPID of
             None \<Rightarrow> None
           | Some (Inl e) \<Rightarrow> Some (Inl e)
           | Some (Inr allowed) \<Rightarrow> Some (verify_ports listeners rootPID allowed ports))"

section \<open>Specification\<close>

text \<open>The processes the walk should find: the root and its descendants.\<close>

inductive descendant :: "(int \<Rightarrow> err + int list) \<Rightarrow> int \<Rightarrow> int \<Rightarrow> bool"
  for children :: "int \<Rightarrow> err + int list" and root :: int where
  desc_root: "descendant children root root"
| desc_child: "descendant children root p \<Longrightarrow> children p = Inr cs \<Longrightarrow> c \<in> set cs \<Longrightarrow>
    descendant children root c"

text \<open>What holds each time round the loop: \<open>queue\<close> is what is left to expand.\<close>

definition tree_inv ::
    "(int \<Rightarrow> err + int list) \<Rightarrow> int \<Rightarrow> int list \<Rightarrow> int list \<Rightarrow> bool" where
  "tree_inv children root allowed queue \<longleftrightarrow>
     distinct allowed \<and> distinct queue \<and> set queue \<subseteq> set allowed \<and> root \<in> set allowed
     \<and> (\<forall>p \<in> set allowed. descendant children root p)
     \<and> (\<forall>p \<in> set allowed - set queue. \<exists>cs. children p = Inr cs \<and> set cs \<subseteq> set allowed)"

lemma add_children_spec:
  "add_children cs allowed queue = (allowed', queue') \<Longrightarrow>
   distinct allowed \<Longrightarrow> distinct queue \<Longrightarrow> set queue \<subseteq> set allowed \<Longrightarrow>
   distinct allowed' \<and> distinct queue' \<and> set queue' \<subseteq> set allowed'
   \<and> set allowed' = set allowed \<union> set cs
   \<and> set queue' = set queue \<union> (set cs - set allowed)
   \<and> length allowed' - length queue' = length allowed - length queue"
proof (induction cs allowed queue rule: add_children.induct)
  case (2 c cs allowed queue)
  show ?case
  proof (cases "c \<in> set allowed")
    case True
    with 2 show ?thesis by auto
  next
    case False
    with "2.prems" have c: "c \<notin> set queue" by auto
    from False "2.prems" have
      "add_children cs (c # allowed) (queue @ [c]) = (allowed', queue')" by simp
    from "2.IH"(2) [OF False this] False c "2.prems"
    have ih: "distinct allowed' \<and> distinct queue' \<and> set queue' \<subseteq> set allowed'
      \<and> set allowed' = insert c (set allowed) \<union> set cs
      \<and> set queue' = insert c (set queue) \<union> (set cs - insert c (set allowed))
      \<and> length allowed' - length queue' = length allowed - length queue" by auto
    moreover from False have "insert c (set queue) \<union> (set cs - insert c (set allowed))
        = set queue \<union> (set (c # cs) - set allowed)" by auto
    moreover have "insert c (set allowed) \<union> set cs = set allowed \<union> set (c # cs)" by simp
    ultimately show ?thesis by (elim conjE) (intro conjI; assumption | simp only:)
  qed
qed auto

lemma tree_inv_step:
  assumes "tree_inv children root allowed (pid # queue)" and "children pid = Inr cs"
    and "add_children cs allowed queue = (allowed', queue')"
  shows "tree_inv children root allowed' queue'"
proof -
  from assms(1) have d: "distinct allowed" "distinct queue" "set queue \<subseteq> set allowed"
    "pid \<in> set allowed" "pid \<notin> set queue" by (auto simp: tree_inv_def)
  from add_children_spec [OF assms(3) d(1-3)] have
    s: "distinct allowed'" "distinct queue'" "set queue' \<subseteq> set allowed'"
      "set allowed' = set allowed \<union> set cs" "set queue' = set queue \<union> (set cs - set allowed)"
    by auto
  have "descendant children root p" if "p \<in> set allowed'" for p
    using that s(4) assms(1,2) d(4) by (auto simp: tree_inv_def intro: desc_child)
  moreover have "\<exists>cs. children p = Inr cs \<and> set cs \<subseteq> set allowed'"
    if "p \<in> set allowed' - set queue'" for p
  proof (cases "p = pid")
    case True
    with assms(2) s(4) show ?thesis by auto
  next
    case False
    with that s(4,5) have "p \<in> set allowed - set (pid # queue)" by auto
    with assms(1) obtain cs' where "children p = Inr cs'" "set cs' \<subseteq> set allowed"
      unfolding tree_inv_def by blast
    with s(4) show ?thesis by auto
  qed
  ultimately show ?thesis using s assms(1) by (auto simp: tree_inv_def)
qed

lemma tree_inv_done:
  assumes "tree_inv children root allowed []"
  shows "set allowed = {p. descendant children root p}"
proof -
  have "p \<in> set allowed" if "descendant children root p" for p
    using that
  proof induction
    case desc_root
    then show ?case using assms by (simp add: tree_inv_def)
  next
    case (desc_child p cs c)
    then show ?case using assms unfolding tree_inv_def by fastforce
  qed
  with assms show ?thesis by (auto simp: tree_inv_def)
qed

lemma tree_loop_sound:
  "tree_loop fuel children allowed queue = Some (Inr allowed') \<Longrightarrow>
   tree_inv children root allowed queue \<Longrightarrow> set allowed' = {p. descendant children root p}"
proof (induction fuel children allowed queue rule: tree_loop.induct)
  case (1 fuel children allowed)
  then show ?case using tree_inv_done by auto
next
  case (3 fuel children allowed pid queue)
  from "3.prems"(1) obtain cs al q where step: "children pid = Inr cs"
      "add_children cs allowed queue = (al, q)" "tree_loop fuel children al q = Some (Inr allowed')"
    by (auto split: sum.splits prod.splits)
  from "3.IH" [OF step(1) step(2) [symmetric] step(3)] tree_inv_step [OF "3.prems"(2) step(1,2)]
  show ?case by simp
qed simp

text \<open>Each round expands one more process of a set that is closed under \<open>children\<close>.\<close>

lemma tree_loop_complete:
  assumes "finite S" and "\<forall>p \<in> S. \<exists>cs. children p = Inr cs \<and> set cs \<subseteq> S"
  shows "tree_inv children root allowed queue \<Longrightarrow> set allowed \<subseteq> S \<Longrightarrow>
    card S \<le> fuel + (length allowed - length queue) \<Longrightarrow>
    \<exists>al. tree_loop fuel children allowed queue = Some (Inr al)"
proof (induction fuel arbitrary: allowed queue)
  case 0
  show ?case
  proof (cases queue)
    case (Cons p q)
    from 0 have "length allowed \<le> card S" "length queue \<le> length allowed"
      using assms(1) by (auto simp: tree_inv_def distinct_card [symmetric] card_mono)
    with 0 Cons show ?thesis by simp
  qed simp
next
  case (Suc fuel)
  show ?case
  proof (cases queue)
    case (Cons pid q)
    from Suc.prems Cons have d: "distinct allowed" "distinct q" "set q \<subseteq> set allowed" "pid \<in> S"
      by (auto simp: tree_inv_def)
    have len: "length queue \<le> length allowed"
      using Suc.prems(1) by (auto simp: tree_inv_def distinct_card [symmetric] card_mono)
    from d(4) assms(2) obtain cs where cs: "children pid = Inr cs" "set cs \<subseteq> S" by blast
    obtain al' q' where a: "add_children cs allowed q = (al', q')" by fastforce
    from add_children_spec [OF a d(1-3)] have spec: "set al' = set allowed \<union> set cs"
      "length al' - length q' = length allowed - length q" by auto
    have "\<exists>al. tree_loop fuel children al' q' = Some (Inr al)"
    proof (rule Suc.IH)
      show "tree_inv children root al' q'"
        using Suc.prems(1) Cons cs(1) a by (auto intro: tree_inv_step)
      show "set al' \<subseteq> S" using spec(1) cs(2) Suc.prems(2) by simp
      show "card S \<le> fuel + (length al' - length q')"
        using Suc.prems(3) spec(2) len Cons by simp
    qed
    with Cons cs(1) a show ?thesis by simp
  qed simp
qed

lemma tree_inv_init: "tree_inv children root [root] [root]"
  by (auto simp: tree_inv_def intro: desc_root)

section \<open>Properties\<close>

text \<open>the walk over the process tree ends and finds exactly the root and its descendants: with
  fuel for the number of processes in any finite set that holds the root and is closed under
  \<open>children\<close>, also when the child relation has cycles.\<close>

theorem processTreePIDs_exact:
  assumes "finite S" and "root \<in> S" and "\<forall>p \<in> S. \<exists>cs. children p = Inr cs \<and> set cs \<subseteq> S"
    and "card S \<le> fuel"
  shows "\<exists>allowed. processTreePIDs fuel children root = Some (Inr allowed)
    \<and> set allowed = {p. descendant children root p}"
proof -
  from tree_loop_complete [OF assms(1,3) tree_inv_init] assms(2,4)
  obtain al where "tree_loop fuel children [root] [root] = Some (Inr al)" by auto
  with tree_loop_sound [OF this tree_inv_init] show ?thesis by (simp add: processTreePIDs_def)
qed

theorem processTreePIDs_exact_witness:
  "\<exists>allowed. processTreePIDs 3 (\<lambda>p. if p = 10 then Inr [11, 12] else if p = 12 then Inr [10] else Inr [])
       10 = Some (Inr allowed)
     \<and> set allowed = {p. descendant (\<lambda>p. if p = 10 then Inr [11, 12] else if p = 12 then Inr [10]
                          else Inr []) 10 p}"
  by (rule processTreePIDs_exact [of "{10, 11, 12}"]) auto

lemma verify_ports_iff:
  "ok (verify_ports listeners root allowed ports) \<longleftrightarrow>
   (\<forall>(name, port) \<in> set ports. \<exists>pids. listeners port = Inr pids \<and> set pids \<inter> set allowed \<noteq> {})"
proof (induction listeners root allowed ports rule: verify_ports.induct)
  case (2 listeners rootPID allowed portName port ports)
  then show ?case
    by (cases "listeners port") (auto simp: list_ex_iff disjoint_iff)
qed simp



end
