(* ===== verification/Paths.thy ===== *)
theory Paths
  imports Prelude
begin

text \<open>
  \<^verbatim>\<open>path/filepath\<close> on Unix, lexically, and the path checks built on it: \<open>pathWithinRepo\<close> and
  \<open>sameCleanPath\<close> (\<^verbatim>\<open>internal/service/service.go\<close>), \<open>safeJoin\<close>
  (\<^verbatim>\<open>internal/setup/apply.go\<close>), \<open>receiptPath\<close> (\<^verbatim>\<open>internal/receipt/receipt.go\<close>) and \<open>BuildDir\<close>
  (\<^verbatim>\<open>internal/shellcmd/shellcmd.go\<close>). A path is a string, a cleaned path is a list of
  components; \<open>cwd\<close> is the working directory of the daemon. Symbolic links are not resolved, as
  in the code.
\<close>

section \<open>The library functions\<close>

definition slash :: char where "slash = CHR ''/''"

definition IsAbs :: "string \<Rightarrow> bool" where
  "IsAbs p = prefix [slash] p"

text \<open>One component: \<^verbatim>\<open>.\<close> and empty ones vanish, \<^verbatim>\<open>..\<close> removes the one before it or stays at
  the front of a relative path. The stack is in reverse.\<close>

fun clean_step :: "bool \<Rightarrow> string list \<Rightarrow> string \<Rightarrow> string list" where
  "clean_step rooted st c =
     (if c = '''' \<or> c = ''.'' then st
      else if c = ''..'' then
        (case st of
           [] \<Rightarrow> if rooted then [] else [''..'']
         | t # ts \<Rightarrow> if t = ''..'' then ''..'' # st else ts)
      else c # st)"

definition clean_comps :: "string \<Rightarrow> string list" where
  "clean_comps p = rev (foldl (clean_step (IsAbs p)) [] (split_on slash p))"

definition Clean :: "string \<Rightarrow> string" where
  "Clean p =
     (if IsAbs p then slash # str_join [slash] (clean_comps p)
      else if clean_comps p = [] then ''.'' else str_join [slash] (clean_comps p))"

text \<open>The text up to and with the last slash, and the text behind it.\<close>

definition last_slash :: "string \<Rightarrow> string \<times> string" where
  "last_slash p = (rev (dropWhile (\<lambda>c. c \<noteq> slash) (rev p)), rev (takeWhile (\<lambda>c. c \<noteq> slash) (rev p)))"

definition path_dir :: "string \<Rightarrow> string" where
  "path_dir p = Clean (fst (last_slash p))"

definition path_base :: "string \<Rightarrow> string" where
  "path_base p =
     (if p = '''' then ''.''
      else (let q = rev (dropWhile (\<lambda>c. c = slash) (rev p)); b = snd (last_slash q)
            in if b = '''' then [slash] else b))"

definition path_join :: "string list \<Rightarrow> string" where
  "path_join elems =
     (let es = filter (\<lambda>e. e \<noteq> '''') elems in if es = [] then '''' else Clean (str_join [slash] es))"

definition path_abs :: "string \<Rightarrow> string \<Rightarrow> string" where
  "path_abs cwd p = (if IsAbs p then Clean p else path_join [cwd, p])"

text \<open>\<^verbatim>\<open>filepath.Rel\<close> of two cleaned rooted paths, on their components.\<close>

fun rel_comps :: "string list \<Rightarrow> string list \<Rightarrow> string list" where
  "rel_comps (b # bs) (t # ts) =
     (if b = t then rel_comps bs ts else replicate (length (b # bs)) ''..'' @ (t # ts))"
| "rel_comps bs ts = replicate (length bs) ''..'' @ ts"

definition path_rel :: "string \<Rightarrow> string \<Rightarrow> string option" where
  "path_rel base targ =
     (if IsAbs base \<noteq> IsAbs targ then None
      else if \<not> IsAbs base then None
      else case rel_comps (clean_comps base) (clean_comps targ) of
             [] \<Rightarrow> Some ''.''
           | cs \<Rightarrow> Some (str_join [slash] cs))"

section \<open>The checks\<close>

definition pathWithinRepo :: "string \<Rightarrow> string \<Rightarrow> string \<Rightarrow> bool" where
  "pathWithinRepo cwd repoRoot candidate =
     (if trim_space candidate = '''' then False
      else case path_rel (Clean repoRoot) (Clean (path_abs cwd candidate)) of
             None \<Rightarrow> False
           | Some rel \<Rightarrow> rel = ''.'' \<or> (rel \<noteq> ''..'' \<and> \<not> prefix (''..'' @ [slash]) rel \<and> \<not> IsAbs rel))"

definition sameCleanPath :: "string \<Rightarrow> string \<Rightarrow> string \<Rightarrow> bool" where
  "sameCleanPath cwd a b = (Clean (path_abs cwd a) = Clean (path_abs cwd b))"

definition safeJoin :: "string \<Rightarrow> string \<Rightarrow> string \<Rightarrow> err + string" where
  "safeJoin cwd root rel =
     (if root = '''' then Inl (Errorf ''repo_path is required'' [])
      else if rel = '''' then Inl (Errorf ''generated file path is required'' [])
      else if IsAbs rel then Inl (Errorf ''generated path %q must be relative'' [FStr rel])
      else
        (let absRoot = path_abs cwd root; path = Clean (path_join [absRoot, rel]) in
         if path \<noteq> absRoot \<and> \<not> prefix (absRoot @ [slash]) path
         then Inl (Errorf ''generated path %q escapes repo root'' [FStr rel])
         else Inr path))"

definition receiptPath :: "string \<Rightarrow> string" where
  "receiptPath configPath =
     (if configPath = '''' then ''''
      else (let dir = path_dir configPath in
            if path_base dir \<noteq> ''.anito'' then '''' else path_join [dir, ''deployed.json'']))"

definition BuildDir :: "string \<Rightarrow> string" where
  "BuildDir configPath =
     (let dir = path_dir configPath in if path_base dir = ''.anito'' then path_dir dir else dir)"

section \<open>Cleaned components\<close>

definition plain_comp :: "string \<Rightarrow> bool" where
  "plain_comp c \<longleftrightarrow> c \<noteq> '''' \<and> c \<noteq> ''.'' \<and> c \<noteq> ''..'' \<and> slash \<notin> set c"

lemma clean_step_plain:
  "list_all plain_comp st \<Longrightarrow> slash \<notin> set c \<Longrightarrow> list_all plain_comp (clean_step True st c)"
  by (cases st) (auto simp: plain_comp_def)

lemma clean_foldl_plain:
  "list_all plain_comp st \<Longrightarrow> \<forall>c \<in> set cs. slash \<notin> set c \<Longrightarrow>
   list_all plain_comp (foldl (clean_step True) st cs)"
  by (induction cs arbitrary: st) (auto simp del: clean_step.simps intro: clean_step_plain)

lemma clean_comps_plain: "IsAbs p \<Longrightarrow> list_all plain_comp (clean_comps p)"
  unfolding clean_comps_def using clean_foldl_plain [of "[]" "split_on slash p"] split_on_parts
  by auto

lemma clean_foldl_id:
  "list_all plain_comp cs \<Longrightarrow> foldl (clean_step r) st cs = rev cs @ st"
  by (induction cs arbitrary: st) (auto simp: plain_comp_def)

lemma clean_comps_rooted:
  assumes "list_all plain_comp cs"
  shows "clean_comps (slash # str_join [slash] cs) = cs"
proof (cases "cs = []")
  case True
  then show ?thesis by (simp add: clean_comps_def)
next
  case False
  have "\<forall>c \<in> set cs. slash \<notin> set c" using assms by (auto simp: list_all_iff plain_comp_def)
  then have "split_on slash (slash # str_join [slash] cs) = [] # cs"
    using split_on_join [OF False] by simp
  then show ?thesis
    using clean_foldl_id [OF assms] by (simp add: clean_comps_def)
qed

lemma IsAbs_Clean [simp]: "IsAbs p \<Longrightarrow> IsAbs (Clean p)"
  by (simp add: Clean_def) (simp add: IsAbs_def)

lemma clean_comps_Clean: "IsAbs p \<Longrightarrow> clean_comps (Clean p) = clean_comps p"
  by (simp add: Clean_def clean_comps_rooted clean_comps_plain)

lemma Clean_idem: "IsAbs p \<Longrightarrow> Clean (Clean p) = Clean p"
  using clean_comps_Clean [of p] by (simp add: Clean_def [of "Clean p"]) (simp add: Clean_def)

lemma Clean_eq_iff: "IsAbs p \<Longrightarrow> IsAbs q \<Longrightarrow> Clean p = Clean q \<longleftrightarrow> clean_comps p = clean_comps q"
  by (metis Clean_def clean_comps_Clean)

lemma IsAbs_path_abs: "IsAbs cwd \<Longrightarrow> IsAbs (path_abs cwd p)"
proof (cases "IsAbs p")
  case False
  assume "IsAbs cwd"
  then have "cwd \<noteq> []" and "IsAbs (str_join [slash] (cwd # filter (\<lambda>e. e \<noteq> []) [p]))"
    by (auto simp: IsAbs_def prefix_def str_join_Cons)
  with False show ?thesis by (simp add: path_abs_def path_join_def Let_def)
qed (simp add: path_abs_def)

lemma Clean_path_abs: "IsAbs cwd \<Longrightarrow> Clean (path_abs cwd p) = path_abs cwd p"
proof (cases "IsAbs p")
  case True
  then show ?thesis by (simp add: path_abs_def Clean_idem)
next
  case False
  assume "IsAbs cwd"
  then have ne: "cwd \<noteq> []" and "IsAbs (str_join [slash] (cwd # filter (\<lambda>e. e \<noteq> []) [p]))"
    by (auto simp: IsAbs_def prefix_def str_join_Cons)
  with False show ?thesis by (simp add: path_abs_def path_join_def Let_def Clean_idem)
qed

section \<open>Relative paths\<close>

lemma rel_comps_prefix: "prefix bs ts \<Longrightarrow> rel_comps bs ts = drop (length bs) ts"
proof (induction bs ts rule: rel_comps.induct)
  case (1 b bs t ts)
  then show ?case by simp
qed (auto simp: prefix_def)

lemma rel_comps_not_prefix:
  "\<not> prefix bs ts \<Longrightarrow> \<exists>xs. rel_comps bs ts = ''..'' # xs"
proof (induction bs ts rule: rel_comps.induct)
  case (1 b bs t ts)
  then show ?case by (cases "b = t") auto
qed (auto simp: prefix_def neq_Nil_conv)

lemma join_head:
  assumes "\<forall>c \<in> set (x # xs). slash \<notin> set c"
  shows "takeWhile (\<lambda>c. c \<noteq> slash) (str_join [slash] (x # xs)) = x"
proof -
  from assms have x: "slash \<notin> set x" by simp
  have "takeWhile (\<lambda>c. c \<noteq> slash) (x @ slash # r) = x" for r
    using x by (induction x) auto
  moreover have "takeWhile (\<lambda>c. c \<noteq> slash) x = x"
    using x by (induction x) auto
  ultimately show ?thesis by (simp add: str_join_Cons)
qed

lemma join_slash_head:
  "slash \<notin> set d \<Longrightarrow> prefix (d @ [slash]) s \<or> s = d \<Longrightarrow> takeWhile (\<lambda>c. c \<noteq> slash) s = d"
proof -
  assume d: "slash \<notin> set d" and "prefix (d @ [slash]) s \<or> s = d"
  then obtain r where "s = d \<or> s = d @ slash # r" by (auto simp: prefix_def)
  moreover have "takeWhile (\<lambda>c. c \<noteq> slash) (d @ slash # r) = d" using d by (induction d) auto
  moreover have "takeWhile (\<lambda>c. c \<noteq> slash) d = d" using d by (induction d) auto
  ultimately show ?thesis by auto
qed

lemma within_comps:
  assumes "list_all plain_comp bs" and "list_all plain_comp ts"
    and "rel = (case rel_comps bs ts of [] \<Rightarrow> ''.'' | c # cs \<Rightarrow> str_join [slash] (c # cs))"
  shows "(rel = ''.'' \<or> (rel \<noteq> ''..'' \<and> \<not> prefix (''..'' @ [slash]) rel \<and> \<not> IsAbs rel)) \<longleftrightarrow> prefix bs ts"
proof (cases "prefix bs ts")
  case True
  then have r: "rel_comps bs ts = drop (length bs) ts" by (rule rel_comps_prefix)
  show ?thesis
  proof (cases "drop (length bs) ts")
    case Nil
    with r assms(3) True show ?thesis by simp
  next
    case (Cons c cs)
    have "list_all plain_comp (c # cs)" using assms(2) Cons by (metis append_take_drop_id list_all_append)
    then have c: "plain_comp c" "\<forall>x \<in> set (c # cs). slash \<notin> set x"
      by (auto simp: list_all_iff plain_comp_def)
    from assms(3) r Cons have rel: "rel = str_join [slash] (c # cs)" by simp
    have head: "takeWhile (\<lambda>c. c \<noteq> slash) rel = c" using join_head [OF c(2)] rel by simp
    have dd: "slash \<notin> set ''..''" by (simp add: slash_def)
    have "rel \<noteq> ''..''" "\<not> prefix (''..'' @ [slash]) rel"
      using head c(1) join_slash_head [OF dd, of rel] by (auto simp: plain_comp_def)
    moreover have "\<not> IsAbs rel"
      using head c(1) by (auto simp: IsAbs_def prefix_def plain_comp_def)
    ultimately show ?thesis using True by simp
  qed
next
  case False
  then obtain xs where x: "rel_comps bs ts = ''..'' # xs" using rel_comps_not_prefix by blast
  with assms(3) have "rel = ''..'' \<or> prefix (''..'' @ [slash]) rel"
    by (auto simp: str_join_Cons)
  moreover from this have "rel \<noteq> ''.''" by (auto simp: prefix_def)
  ultimately show ?thesis using False by auto
qed

section \<open>Properties\<close>

text \<open>the ownership test of a teardown is exact: a path lies within the repository exactly when
  it is not blank and the cleaned repository root is a component-wise prefix of its cleaned
  absolute form, so \<^verbatim>\<open>/repo-evil\<close> or \<^verbatim>\<open>/repo/../etc\<close> are never within \<^verbatim>\<open>/repo\<close>.\<close>

theorem pathWithinRepo_iff:
  assumes "IsAbs cwd" and "IsAbs repoRoot"
  shows "pathWithinRepo cwd repoRoot candidate \<longleftrightarrow>
    trim_space candidate \<noteq> '''' \<and> prefix (clean_comps repoRoot) (clean_comps (path_abs cwd candidate))"
proof -
  have abs: "IsAbs (path_abs cwd candidate)" using assms(1) by (rule IsAbs_path_abs)
  let ?b = "clean_comps repoRoot" and ?t = "clean_comps (path_abs cwd candidate)"
  let ?rel = "case rel_comps ?b ?t of [] \<Rightarrow> ''.'' | c # cs \<Rightarrow> str_join [slash] (c # cs)"
  have "path_rel (Clean repoRoot) (Clean (path_abs cwd candidate)) = Some ?rel"
    using assms abs by (simp add: path_rel_def clean_comps_Clean split: list.split)
  then show ?thesis
    using within_comps [OF clean_comps_plain [OF assms(2)] clean_comps_plain [OF abs] refl]
    by (simp add: pathWithinRepo_def)
qed

theorem pathWithinRepo_iff_witness:
  "pathWithinRepo ''/'' ''/src/repo'' ''/src/repo/.anito/config.yaml''
   \<and> \<not> pathWithinRepo ''/'' ''/src/repo'' ''/src/repo-evil/x''"
proof -
  have a: "IsAbs ''/''" "IsAbs ''/src/repo''" by code_simp+
  have "prefix (clean_comps ''/src/repo'') (clean_comps (path_abs ''/'' ''/src/repo/.anito/config.yaml''))"
    and "\<not> prefix (clean_comps ''/src/repo'') (clean_comps (path_abs ''/'' ''/src/repo-evil/x''))"
    and "trim_space ''/src/repo/.anito/config.yaml'' \<noteq> ''''" by code_simp+
  with pathWithinRepo_iff [OF a] show ?thesis by simp
qed

text \<open>a generated file never lands outside the repository: whatever relative path is joined to
  the root, with any number of \<^verbatim>\<open>..\<close> components, the result is the root or lies below it.\<close>

theorem safeJoin_within_root:
  assumes "IsAbs cwd" and "safeJoin cwd root rel = Inr path"
  shows "IsAbs path \<and> prefix (clean_comps (path_abs cwd root)) (clean_comps path)"
proof -
  let ?r = "path_abs cwd root"
  have abs: "IsAbs ?r" using assms(1) by (rule IsAbs_path_abs)
  from assms(2) have path: "path = Clean (path_join [?r, rel])"
    and pre: "path = ?r \<or> prefix (?r @ [slash]) path"
    by (auto simp: safeJoin_def Let_def split: if_splits)
  have absp: "IsAbs path" using pre abs by (auto simp: IsAbs_def prefix_def)
  from pre show ?thesis
  proof
    assume "path = ?r"
    then show ?thesis using abs by simp
  next
    assume "prefix (?r @ [slash]) path"
    then obtain zs where zs: "path = ?r @ slash # zs" by (auto simp: prefix_def)
    have r: "?r = slash # str_join [slash] (clean_comps ?r)"
      using Clean_path_abs [OF assms(1), of root] abs by (simp add: Clean_def)
    have pl: "list_all plain_comp (clean_comps ?r)" using abs by (rule clean_comps_plain)
    let ?x = "path_join [?r, rel]"
    have "IsAbs ?x"
    proof -
      have "?r \<noteq> []" and "IsAbs (str_join [slash] (?r # filter (\<lambda>e. e \<noteq> []) [rel]))"
        using abs by (auto simp: IsAbs_def prefix_def str_join_Cons)
      then show ?thesis by (simp add: path_join_def Let_def)
    qed
    then have cp: "path = slash # str_join [slash] (clean_comps path)"
      and plp: "list_all plain_comp (clean_comps path)"
      using absp by (simp_all add: path Clean_def [of ?x] clean_comps_rooted clean_comps_plain)
    show ?thesis
    proof (cases "clean_comps ?r = []")
      case False
      have "str_join [slash] (clean_comps path) = str_join [slash] (clean_comps ?r) @ slash # zs"
        using zs cp r by (metis append_Cons list.inject)
      moreover from this have "clean_comps path \<noteq> []" by auto
      then have "split_on slash (str_join [slash] (clean_comps path)) = clean_comps path"
        using plp by (intro split_on_join) (auto simp: list_all_iff plain_comp_def)
      moreover have "split_on slash (str_join [slash] (clean_comps ?r) @ slash # zs)
          = clean_comps ?r @ split_on slash zs"
        using False pl by (intro split_on_join_append) (auto simp: list_all_iff plain_comp_def)
      ultimately have "clean_comps path = clean_comps ?r @ split_on slash zs" by simp
      then show ?thesis using absp by simp
    qed (use absp in simp)
  qed
qed

theorem safeJoin_within_root_witness:
  "prefix (clean_comps (path_abs ''/'' ''/repo'')) (clean_comps ''/repo/docs/AGENTS.md'')
   \<and> \<not> ok (safeJoin ''/'' ''/repo'' ''docs/../../etc/passwd'')"
proof -
  have "safeJoin ''/'' ''/repo'' ''./docs/x/../AGENTS.md'' = Inr ''/repo/docs/AGENTS.md''"
    and "IsAbs ''/''" and "\<not> ok (safeJoin ''/'' ''/repo'' ''docs/../../etc/passwd'')" by code_simp+
  with safeJoin_within_root show ?thesis by blast
qed

end
