(* ===== verification/Receipt.thy ===== *)
theory Receipt
  imports Paths Registry_Types
begin

text \<open>
  The deployment receipts of \<^verbatim>\<open>internal/receipt/receipt.go\<close>: \<^verbatim>\<open><repo>/.anito/deployed.json\<close>.
  The file system is a map from paths to the services a file lists; a file that does not parse
  reads like one without services, and so does a missing one. \<open>dsk\<close> says whether a write
  succeeds.
\<close>

section \<open>Model\<close>

record receipt_entry =
  re_Name :: string
  re_StablePort :: int
  re_Address :: string
  re_StablePorts :: ports
  re_Addresses :: "string gomap"
  re_BinaryPath :: string
  re_ConfigPath :: string
  re_Version :: string
  re_DeployedAt :: int

type_synonym receipt_fs = "string \<Rightarrow> receipt_entry gomap option"

definition receipt_read :: "receipt_fs \<Rightarrow> string \<Rightarrow> receipt_entry gomap" where
  "receipt_read fs path = (case fs path of None \<Rightarrow> [] | Some f \<Rightarrow> f)"

definition receipt_write :: "bool \<Rightarrow> string \<Rightarrow> receipt_entry gomap \<Rightarrow> receipt_fs \<Rightarrow> (unit, receipt_fs) res" where
  "receipt_write dsk path f fs =
     (if dsk then (Inr (), fs(path \<mapsto> f))
      else (Inl (Errorf ''receipt: write %s: %w'' [FStr path, FErr (IOError path)]), fs))"

definition ReceiptWrite :: "bool \<Rightarrow> receipt_entry \<Rightarrow> receipt_fs \<Rightarrow> (unit, receipt_fs) res" where
  "ReceiptWrite dsk e fs =
     (let path = receiptPath (re_ConfigPath e) in
      if path = '''' then (Inr (), fs)
      else receipt_write dsk path (AList.update (re_Name e) e (receipt_read fs path)) fs)"

definition ReceiptClear :: "bool \<Rightarrow> string \<Rightarrow> string \<Rightarrow> receipt_fs \<Rightarrow> (unit, receipt_fs) res" where
  "ReceiptClear dsk name configPath fs =
     (let path = receiptPath configPath in
      if path = '''' then (Inr (), fs)
      else
        (let f = receipt_read fs path in
         if map_of f name = None then (Inr (), fs)
         else
           (let f' = AList.delete name f in
            if f' = [] then (Inr (), if dsk then fs(path := None) else fs)
            else receipt_write dsk path f' fs)))"

definition repo_receipt :: "string \<Rightarrow> string" where
  "repo_receipt repoPath = path_join [repoPath, ''.anito'', ''deployed.json'']"

definition ReceiptLoad :: "string \<Rightarrow> receipt_fs \<Rightarrow> receipt_entry gomap" where
  "ReceiptLoad repoPath fs = receipt_read fs (repo_receipt repoPath)"

definition ReceiptDeleteAll :: "bool \<Rightarrow> string \<Rightarrow> receipt_fs \<Rightarrow> (unit, receipt_fs) res" where
  "ReceiptDeleteAll dsk repoPath fs =
     (let path = repo_receipt repoPath in
      if fs path = None then (Inr (), fs)
      else if dsk then (Inr (), fs(path := None))
      else (Inl (Errorf ''receipt: remove %s: %w'' [FStr path, FErr (IOError path)]), fs))"

text \<open>\<open>writeReceipt\<close> of \<^verbatim>\<open>internal/service/service.go\<close>.\<close>

definition receipt_of :: "service \<Rightarrow> receipt_entry" where
  "receipt_of svc =
     \<lparr>re_Name = sv_name svc, re_StablePort = sv_stable_port svc, re_Address = Address svc,
      re_StablePorts = sv_stable_ports svc, re_Addresses = Addresses svc,
      re_BinaryPath = sv_binary_path svc, re_ConfigPath = sv_config_path svc,
      re_Version = sv_version svc, re_DeployedAt = sv_last_deployed_at svc\<rparr>"

definition writeReceipt :: "bool \<Rightarrow> service option \<Rightarrow> receipt_fs \<Rightarrow> receipt_fs" where
  "writeReceipt dsk so fs =
     (case so of
        None \<Rightarrow> fs
      | Some svc \<Rightarrow>
          if sv_config_path svc = '''' then fs else snd (ReceiptWrite dsk (receipt_of svc) fs))"

section \<open>Where a repository's receipt lies\<close>

text \<open>A repository root: an absolute, clean path other than the file-system root.\<close>

definition repo_root :: "string \<Rightarrow> bool" where
  "repo_root p \<longleftrightarrow> IsAbs p \<and> Clean p = p \<and> clean_comps p \<noteq> []"

lemma clean_abs: "list_all plain_comp cs \<Longrightarrow> Clean (slash # str_join [slash] cs) = slash # str_join [slash] cs"
  using clean_comps_rooted [of cs] by (simp add: Clean_def) (simp add: IsAbs_def)

lemma str_join_append:
  "xs \<noteq> [] \<Longrightarrow> ys \<noteq> [] \<Longrightarrow> str_join sep (xs @ ys) = str_join sep xs @ sep @ str_join sep ys"
  by (induction xs) (auto simp: str_join_Cons)

lemma repo_root_comps:
  assumes "repo_root p"
  shows "p = slash # str_join [slash] (clean_comps p)" and "list_all plain_comp (clean_comps p)"
    and "clean_comps p \<noteq> []"
  using assms clean_comps_plain [of p] by (auto simp: repo_root_def Clean_def)

lemma plain_names: "plain_comp ''.anito''" "plain_comp ''deployed.json''" "plain_comp ''config.yaml''"
  by (simp_all add: plain_comp_def slash_def)

lemma repo_receipt_eq:
  assumes "repo_root p"
  shows "repo_receipt p = slash # str_join [slash] (clean_comps p @ [''.anito'', ''deployed.json''])"
proof -
  let ?cs = "clean_comps p @ [''.anito'', ''deployed.json'']"
  from repo_root_comps [OF assms] have p: "p = slash # str_join [slash] (clean_comps p)"
    and pl: "list_all plain_comp ?cs" and ne: "clean_comps p \<noteq> []" by (simp_all add: plain_names)
  have "p \<noteq> []" using p by (metis list.distinct(1))
  then have "repo_receipt p = Clean (str_join [slash] [p, ''.anito'', ''deployed.json''])"
    by (simp add: repo_receipt_def path_join_def Let_def)
  also have "str_join [slash] [p, ''.anito'', ''deployed.json''] = slash # str_join [slash] ?cs"
    using ne by (subst p) (simp add: str_join_append)
  finally show ?thesis using clean_abs [OF pl] by simp
qed

lemma last_slash_append:
  "slash \<notin> set b \<Longrightarrow> last_slash (a @ slash # b) = (a @ [slash], b)"
proof -
  assume b: "slash \<notin> set b"
  then have "dropWhile (\<lambda>c. c \<noteq> slash) (rev b @ slash # rev a) = slash # rev a"
    and "takeWhile (\<lambda>c. c \<noteq> slash) (rev b @ slash # rev a) = rev b"
    by (subst dropWhile_append2 takeWhile_append2; auto)+
  then show ?thesis by (simp add: last_slash_def)
qed

lemma path_dir_file:
  assumes "list_all plain_comp cs" and "cs \<noteq> []" and "slash \<notin> set b"
  shows "path_dir (slash # str_join [slash] cs @ slash # b) = slash # str_join [slash] cs"
proof -
  have "path_dir (slash # str_join [slash] cs @ slash # b) = Clean ((slash # str_join [slash] cs) @ [slash])"
    using last_slash_append [OF assms(3), of "slash # str_join [slash] cs"] by (simp add: path_dir_def)
  also have "clean_comps ((slash # str_join [slash] cs) @ [slash]) = cs"
  proof -
    have "\<forall>c \<in> set cs. slash \<notin> set c" using assms(1) by (auto simp: list_all_iff plain_comp_def)
    then have "split_on slash (slash # str_join [slash] cs @ slash # []) = [] # cs @ [[]]"
      using split_on_join_append [OF assms(2), of slash "[]"] by simp
    then show ?thesis using clean_foldl_id [OF assms(1), of True "[]"]
      by (simp add: clean_comps_def IsAbs_def)
  qed
  then have "Clean ((slash # str_join [slash] cs) @ [slash]) = slash # str_join [slash] cs"
    by (simp add: Clean_def) (simp add: IsAbs_def)
  finally show ?thesis .
qed

lemma path_base_last:
  assumes "list_all plain_comp (cs @ [c])"
  shows "path_base (slash # str_join [slash] (cs @ [c])) = c"
proof -
  from assms have c: "slash \<notin> set c" "c \<noteq> []" by (simp_all add: plain_comp_def)
  obtain a where a: "slash # str_join [slash] (cs @ [c]) = a @ slash # c"
  proof (cases "cs = []")
    case True
    with that [of "[]"] show ?thesis by simp
  next
    case False
    with that [of "slash # str_join [slash] cs"] show ?thesis by (simp add: str_join_append)
  qed
  from c have "dropWhile (\<lambda>x. x = slash) (rev (a @ slash # c)) = rev (a @ slash # c)"
    by (cases c rule: rev_cases) auto
  then have "path_base (a @ slash # c) = c"
    using last_slash_append [OF c(1), of a] c(2) by (simp add: path_base_def Let_def)
  then show ?thesis by (simp add: a)
qed

lemma receiptPath_repo:
  assumes "repo_root p"
  shows "receiptPath (p @ ''/.anito/config.yaml'') = repo_receipt p"
proof -
  let ?cs = "clean_comps p @ [''.anito'']"
  from repo_root_comps [OF assms] have p: "p = slash # str_join [slash] (clean_comps p)"
    and pl: "list_all plain_comp ?cs" and ne: "clean_comps p \<noteq> []" by (simp_all add: plain_names)
  have cfg: "p @ ''/.anito/config.yaml'' = slash # str_join [slash] ?cs @ slash # ''config.yaml''"
    using ne by (subst p) (simp add: str_join_append slash_def)
  have dir: "path_dir (p @ ''/.anito/config.yaml'') = slash # str_join [slash] ?cs"
    unfolding cfg by (rule path_dir_file [OF pl]) (simp_all add: slash_def)
  have base: "path_base (slash # str_join [slash] ?cs) = ''.anito''"
    by (rule path_base_last) (rule pl)
  have "path_join [slash # str_join [slash] ?cs, ''deployed.json'']
      = Clean (slash # str_join [slash] (?cs @ [''deployed.json'']))"
    using str_join_append [of ?cs "[''deployed.json'']" "[slash]"] by (simp add: path_join_def)
  also have "\<dots> = slash # str_join [slash] (?cs @ [''deployed.json''])"
    by (rule clean_abs) (use pl in \<open>simp add: plain_names\<close>)
  finally show ?thesis
    unfolding receiptPath_def dir Let_def base repo_receipt_eq [OF assms] by simp
qed

section \<open>Properties\<close>

text \<open>the receipt round trip: what a deploy from \<^verbatim>\<open><repo>/.anito/config.yaml\<close> writes is what a
  later teardown of that repository loads, for this service, and the other services of the
  receipt are kept; clearing it removes exactly this entry again, and removes the file with the
  last one.\<close>

theorem receipt_roundtrip:
  assumes "repo_root repo" and "sv_config_path svc = repo @ ''/.anito/config.yaml''"
  shows "map_of (ReceiptLoad repo (writeReceipt True (Some svc) fs)) =
      (map_of (ReceiptLoad repo fs))(sv_name svc \<mapsto> receipt_of svc)
    \<and> map_of (ReceiptLoad repo (snd (ReceiptClear True (sv_name svc) (sv_config_path svc)
          (writeReceipt True (Some svc) fs)))) = (map_of (ReceiptLoad repo fs))(sv_name svc := None)
    \<and> (ReceiptLoad repo fs = [] \<longrightarrow>
        snd (ReceiptClear True (sv_name svc) (sv_config_path svc) (writeReceipt True (Some svc) fs))
          (repo_receipt repo) = None)"
proof -
  have path: "receiptPath (sv_config_path svc) = repo_receipt repo"
    using receiptPath_repo [OF assms(1)] assms(2) by simp
  have ne: "repo_receipt repo \<noteq> ''''" by (simp add: repo_receipt_eq [OF assms(1)])
  have cfg: "sv_config_path svc \<noteq> ''''" by (simp add: assms(2))
  let ?f = "AList.update (sv_name svc) (receipt_of svc) (receipt_read fs (repo_receipt repo))"
  have w: "writeReceipt True (Some svc) fs = fs(repo_receipt repo \<mapsto> ?f)"
    using path ne cfg by (simp add: writeReceipt_def ReceiptWrite_def Let_def receipt_write_def receipt_of_def)
  have c: "snd (ReceiptClear True (sv_name svc) (sv_config_path svc) (fs(repo_receipt repo \<mapsto> ?f))) =
      (if AList.delete (sv_name svc) ?f = [] then fs(repo_receipt repo := None)
       else fs(repo_receipt repo \<mapsto> AList.delete (sv_name svc) ?f))"
    using path ne by (simp add: ReceiptClear_def Let_def receipt_write_def receipt_read_def)
  have del: "map_of (AList.delete (sv_name svc) ?f) = (map_of (receipt_read fs (repo_receipt repo)))(sv_name svc := None)"
    by (rule ext) simp
  have "map_of (ReceiptLoad repo (fs(repo_receipt repo \<mapsto> ?f))) =
      (map_of (ReceiptLoad repo fs))(sv_name svc \<mapsto> receipt_of svc)"
    by (rule ext) (simp add: ReceiptLoad_def receipt_read_def)
  moreover have "map_of (ReceiptLoad repo (if AList.delete (sv_name svc) ?f = []
        then fs(repo_receipt repo := None) else fs(repo_receipt repo \<mapsto> AList.delete (sv_name svc) ?f)))
      = (map_of (ReceiptLoad repo fs))(sv_name svc := None)"
    using del by (cases "AList.delete (sv_name svc) ?f = []")
      (simp_all add: ReceiptLoad_def receipt_read_def)
  moreover have "ReceiptLoad repo fs = [] \<Longrightarrow> AList.delete (sv_name svc) ?f = []"
    by (simp add: ReceiptLoad_def)
  ultimately show ?thesis unfolding w c by simp
qed

theorem receipt_roundtrip_witness:
  "map_of (ReceiptLoad ''/src/repo'' (writeReceipt True (Some (zero_service\<lparr>sv_name := ''api'',
       sv_config_path := ''/src/repo/.anito/config.yaml''\<rparr>)) (\<lambda>_. None))) ''api'' \<noteq> None"
proof -
  have "repo_root ''/src/repo''" by code_simp
  from receipt_roundtrip [OF this, of "zero_service\<lparr>sv_name := ''api'',
       sv_config_path := ''/src/repo/.anito/config.yaml''\<rparr>" "\<lambda>_. None"]
  show ?thesis by simp
qed

end
