(* ===== verification/Startup.thy ===== *)
theory Startup
  imports Registry_Types
begin

text \<open>
  The startup tracker of \<^verbatim>\<open>internal/service/startup_state.go\<close> and the result records of
  \<^verbatim>\<open>internal/service/restore.go\<close>. While the phase is binding or reconciling, mutators are
  refused.
\<close>

section \<open>Restore results\<close>

datatype restore_outcome =
    RestoreSkipped | RestoreRunning | RestoreStatic | RestoreFailed | RestoreOrphaned | RestoreBindFail
  | NoOutcome

record restore_service_result =
  rs_name :: string
  rs_prior_status :: service_status
  rs_outcome :: restore_outcome
  rs_stable_ports :: ports
  rs_internal_ports :: ports
  rs_pid :: int
  rs_duration :: int
  rs_error :: "err option"

record restore_all_result =
  ra_started_at :: int
  ra_completed_at :: int
  ra_phase :: startup_phase
  ra_total :: int
  ra_targets :: int
  ra_restored :: int
  ra_failed :: int
  ra_orphaned :: int
  ra_skipped :: int
  ra_bind_failed :: int
  ra_services :: "restore_service_result list"

definition cloneRestoreAllResult :: "restore_all_result option \<Rightarrow> restore_all_result option" where
  "cloneRestoreAllResult r =
     map_option (\<lambda>r. r\<lparr>ra_services := map (\<lambda>s. s\<lparr>rs_stable_ports := copyPorts (rs_stable_ports s),
         rs_internal_ports := copyPorts (rs_internal_ports s)\<rparr>) (ra_services r)\<rparr>) r"

lemma cloneRestoreAllResult_id [simp]: "cloneRestoreAllResult r = r"
  by (cases r) (simp_all add: cloneRestoreAllResult_def)

section \<open>The tracker\<close>

record startup_tracker =
  tk_phase :: startup_phase
  tk_started_at :: int
  tk_completed_at :: int
  tk_total :: int
  tk_completed :: int
  tk_max_parallel :: int
  tk_last_result :: "restore_all_result option"

definition newStartupTracker :: startup_tracker where
  "newStartupTracker =
     \<lparr>tk_phase = StartPhaseReady, tk_started_at = 0, tk_completed_at = 0, tk_total = 0,
      tk_completed = 0, tk_max_parallel = 0, tk_last_result = None\<rparr>"

definition mutationsBlockedLocked :: "startup_tracker \<Rightarrow> bool" where
  "mutationsBlockedLocked t \<longleftrightarrow>
     tk_phase t = StartPhaseBindingListeners \<or> tk_phase t = StartPhaseReconciling"

definition tracker_begin :: "int \<Rightarrow> int \<Rightarrow> int \<Rightarrow> startup_tracker \<Rightarrow> startup_tracker" where
  "tracker_begin startedAt tot maxParallel t =
     t\<lparr>tk_phase := StartPhaseBindingListeners, tk_started_at := startedAt, tk_completed_at := 0,
       tk_total := tot, tk_completed := 0, tk_max_parallel := maxParallel, tk_last_result := None\<rparr>"

definition setPhase :: "startup_phase \<Rightarrow> startup_tracker \<Rightarrow> startup_tracker" where
  "setPhase p t = t\<lparr>tk_phase := p\<rparr>"

definition incrementCompleted :: "startup_tracker \<Rightarrow> startup_tracker" where
  "incrementCompleted t = t\<lparr>tk_completed := tk_completed t + 1\<rparr>"

definition tracker_finish :: "int \<Rightarrow> restore_all_result option \<Rightarrow> startup_tracker \<Rightarrow> startup_tracker" where
  "tracker_finish completedAt result t =
     t\<lparr>tk_phase := StartPhaseReady, tk_completed_at := completedAt, tk_completed := tk_total t,
       tk_last_result := cloneRestoreAllResult result\<rparr>"

text \<open>The snapshot \<^verbatim>\<open>StartupState\<close> hands out, and the gate.\<close>

record startup_state =
  su_phase :: startup_phase
  su_started_at :: int
  su_completed_at :: int
  su_total :: int
  su_completed :: int
  su_max_parallel :: int
  su_mutations_blocked :: bool
  su_last_result :: "restore_all_result option"

definition StartupState :: "startup_tracker \<Rightarrow> startup_state" where
  "StartupState t =
     \<lparr>su_phase = tk_phase t, su_started_at = tk_started_at t, su_completed_at = tk_completed_at t,
      su_total = tk_total t, su_completed = tk_completed t, su_max_parallel = tk_max_parallel t,
      su_mutations_blocked = mutationsBlockedLocked t,
      su_last_result = cloneRestoreAllResult (tk_last_result t)\<rparr>"

definition ensureMutable :: "startup_tracker \<Rightarrow> err + unit" where
  "ensureMutable t =
     (let state = StartupState t in
      if \<not> su_mutations_blocked state then Inr ()
      else Inl (StartupGateError (su_phase state) (su_completed state) (su_total state)))"

lemma ensureMutable_iff: "ok (ensureMutable t) \<longleftrightarrow> \<not> mutationsBlockedLocked t"
  by (simp add: ensureMutable_def StartupState_def Let_def)

lemma ensureMutable_blocked:
  "mutationsBlockedLocked t \<Longrightarrow>
   ensureMutable t = Inl (StartupGateError (tk_phase t) (tk_completed t) (tk_total t))"
  by (simp add: ensureMutable_def StartupState_def Let_def)

end
