(* ===== verification/Health.thy ===== *)
theory Health
  imports Prelude
begin

text \<open>
  The readiness poll \<open>waitHTTPReady\<close> of \<^verbatim>\<open>internal/service/service.go\<close>. Time is in
  nanoseconds. The \<open>i\<close>-th request answers \<open>probe i\<close>: the status of a response, or nothing
  when the request failed, and how long it took (cut off at the request's time-out). The loop
  runs while the clock is before the deadline; each round that does not return lets the clock
  advance by at least one sleep, which bounds the rounds (\<open>wait_fuel\<close>).
\<close>

definition second :: int where "second = 1000000000"

definition healthCheckInterval :: int where "healthCheckInterval = 200000000"

definition defaultHealthCheckTimeout :: int where "defaultHealthCheckTimeout = 15 * second"

record probe =
  pb_status :: "nat option"
  pb_duration :: int

text \<open>\<^verbatim>\<open>ReadinessFailuref\<close> with the message's parts: the time-out, the port and path, the last
  status seen (0 for none).\<close>

definition not_ready :: "int \<Rightarrow> int \<Rightarrow> string \<Rightarrow> nat \<Rightarrow> err" where
  "not_ready timeout internalPort path lastStatus =
     ReadinessFailuref ''health check timed out after %s: GET http://localhost:%d%s did not return 200 (last status: %d)''
       [FInt timeout, FInt internalPort, FStr path, FInt (int lastStatus)]"

text \<open>One request started at \<open>now\<close>: whether its response arrived within its time-out, when the
  clock is afterwards, and the last status the loop remembers.\<close>

definition answered :: "int \<Rightarrow> int \<Rightarrow> probe \<Rightarrow> bool" where
  "answered deadline now p \<longleftrightarrow> pb_status p \<noteq> None \<and> pb_duration p \<le> min second (deadline - now)"

definition request_end :: "int \<Rightarrow> int \<Rightarrow> probe \<Rightarrow> int" where
  "request_end deadline now p = now + max 0 (min (pb_duration p) (min second (deadline - now)))"

definition last_status :: "int \<Rightarrow> int \<Rightarrow> probe \<Rightarrow> nat \<Rightarrow> nat" where
  "last_status deadline now p lst = (if answered deadline now p then the (pb_status p) else lst)"

definition after_sleep :: "int \<Rightarrow> int \<Rightarrow> int" where
  "after_sleep deadline now = now + min healthCheckInterval (deadline - now)"

primrec wait_loop ::
    "nat \<Rightarrow> (nat \<Rightarrow> probe) \<Rightarrow> nat \<Rightarrow> int \<Rightarrow> int \<Rightarrow> nat \<Rightarrow> (nat + int) option" where
  "wait_loop 0 probe i now deadline lst = (if now < deadline then None else Some (Inl lst))"
| "wait_loop (Suc fuel) probe i now deadline lst =
     (if \<not> now < deadline then Some (Inl lst)
      else if answered deadline now (probe i) \<and> pb_status (probe i) = Some 200
      then Some (Inr (request_end deadline now (probe i)))
      else if deadline - request_end deadline now (probe i) \<le> 0
      then Some (Inl (last_status deadline now (probe i) lst))
      else wait_loop fuel probe (Suc i) (after_sleep deadline (request_end deadline now (probe i)))
             deadline (last_status deadline now (probe i) lst))"

definition wait_fuel :: "int \<Rightarrow> nat" where
  "wait_fuel timeout = Suc (nat (timeout div healthCheckInterval))"

text \<open>Fuel is enough (\<open>waitHTTPReady_returns\<close>), so the \<open>None\<close> branch is never taken.\<close>

definition waitHTTPReady :: "(nat \<Rightarrow> probe) \<Rightarrow> int \<Rightarrow> int \<Rightarrow> string \<Rightarrow> int \<Rightarrow> (err + int) option" where
  "waitHTTPReady probe now internalPort path timeout =
     (case wait_loop (wait_fuel timeout) probe 0 now (now + timeout) 0 of
        None \<Rightarrow> None
      | Some (Inl lastStatus) \<Rightarrow> Some (Inl (not_ready timeout internalPort path lastStatus))
      | Some (Inr t) \<Rightarrow> Some (Inr t))"

section \<open>Termination and meaning\<close>

lemma request_end_ge: "now \<le> request_end deadline now p"
  by (simp add: request_end_def)

lemma request_end_le: "now < deadline \<Longrightarrow> request_end deadline now p \<le> deadline"
  by (simp add: request_end_def)

lemma after_sleep_step:
  assumes "t < deadline" and "deadline - t \<le> (int fuel + 1) * healthCheckInterval"
  shows "deadline - after_sleep deadline t \<le> int fuel * healthCheckInterval"
  using assms by (auto simp: after_sleep_def min_def algebra_simps healthCheckInterval_def)

lemma wait_loop_returns:
  "deadline - now \<le> int fuel * healthCheckInterval \<Longrightarrow> wait_loop fuel probe i now deadline lst \<noteq> None"
proof (induction fuel arbitrary: i now lst)
  case 0
  then show ?case by simp
next
  case (Suc fuel)
  let ?e = "request_end deadline now (probe i)"
  have "wait_loop fuel probe (Suc i) (after_sleep deadline ?e) deadline l \<noteq> None" if "?e < deadline" for l
  proof (rule Suc.IH [OF after_sleep_step [OF that]])
    have "deadline - ?e \<le> deadline - now" using request_end_ge [of now deadline "probe i"] by simp
    also have "\<dots> \<le> (int fuel + 1) * healthCheckInterval" using Suc.prems by (simp add: algebra_simps)
    finally show "deadline - ?e \<le> (int fuel + 1) * healthCheckInterval" .
  qed
  then show ?case by (simp split: if_split)
qed

lemma wait_fuel_enough: "timeout \<le> int (wait_fuel timeout) * healthCheckInterval"
proof (cases "0 \<le> timeout")
  case True
  then have "int (wait_fuel timeout) = timeout div healthCheckInterval + 1"
    by (simp add: wait_fuel_def healthCheckInterval_def)
  then show ?thesis by (simp add: healthCheckInterval_def)
next
  case False
  then show ?thesis by (simp add: healthCheckInterval_def)
qed

lemma waitHTTPReady_not_None: "waitHTTPReady probe now port path timeout \<noteq> None"
proof -
  have "wait_loop (wait_fuel timeout) probe 0 now (now + timeout) 0 \<noteq> None"
    using wait_fuel_enough [of timeout] by (intro wait_loop_returns) simp
  then show ?thesis by (auto simp: waitHTTPReady_def split: option.split sum.split)
qed

lemma wait_loop_success:
  "wait_loop fuel probe i now deadline lst = Some (Inr t) \<Longrightarrow>
   t \<le> deadline \<and> (\<exists>k. i \<le> k \<and> k < i + fuel \<and> pb_status (probe k) = Some 200)"
proof (induction fuel arbitrary: i now lst)
  case 0
  then show ?case by (simp split: if_splits)
next
  case (Suc fuel)
  show ?case
  proof (cases "answered deadline now (probe i) \<and> pb_status (probe i) = Some 200")
    case True
    with Suc.prems have "t = request_end deadline now (probe i)" "now < deadline"
      by (auto split: if_splits)
    with True request_end_le show ?thesis by auto
  next
    case False
    with Suc.prems have "wait_loop fuel probe (Suc i)
        (after_sleep deadline (request_end deadline now (probe i))) deadline
        (last_status deadline now (probe i) lst) = Some (Inr t)"
      by (simp split: if_splits)
    from Suc.IH [OF this] show ?thesis by (auto intro: Suc_leD)
  qed
qed

text \<open>C35: the readiness poll always returns, after at most one request per 200 ms of its time-out
  (and one more); it succeeds only when one of those requests was answered with 200, and then
  within the time-out; a failure is a readiness failure (HTTP 503).\<close>

theorem waitHTTPReady_returns:
  "\<exists>res. waitHTTPReady probe now port path timeout = Some res
    \<and> (case res of
         Inr t \<Rightarrow> t \<le> now + timeout
           \<and> (\<exists>k < Suc (nat (timeout div healthCheckInterval)). pb_status (probe k) = Some 200)
       | Inl e \<Rightarrow> CodeOf e = Some CodeReadinessFailure)"
proof -
  obtain res where res: "waitHTTPReady probe now port path timeout = Some res"
    using waitHTTPReady_not_None [of probe now port path timeout] by auto
  show ?thesis
  proof (cases res)
    case (Inl e)
    with res show ?thesis
      by (auto simp: waitHTTPReady_def not_ready_def ReadinessFailuref_def
          split: option.splits sum.splits)
  next
    case (Inr t)
    with res have "wait_loop (wait_fuel timeout) probe 0 now (now + timeout) 0 = Some (Inr t)"
      by (auto simp: waitHTTPReady_def split: option.splits sum.splits)
    from wait_loop_success [OF this] Inr res show ?thesis by (auto simp: wait_fuel_def)
  qed
qed

end
