(* ===== verification/Config.thy ===== *)
theory Config
  imports Paths
begin

text \<open>
  \<^verbatim>\<open>internal/config/config.go\<close>: a repository's \<^verbatim>\<open>.anito/config.yaml\<close>, its checks, its defaults
  and its relative paths. Reading the file, parsing YAML and the working directory are parameters
  of \<open>config_load\<close>.
\<close>

section \<open>The file\<close>

record config =
  cf_Name :: string
  cf_Version :: string
  cf_VersionPath :: string
  cf_Port :: int
  cf_Ports :: "(string \<times> int) list"
  cf_Type :: string
  cf_Build :: string
  cf_Output :: string
  cf_Args :: "string list"
  cf_ProxyBindAddress :: string
  cf_EnvFile :: string
  cf_HealthCheck :: string
  cf_HealthCheckPort :: string
  cf_Watch :: "string list"
  cf_DrainWindow :: int
  cf_HealthCheckTimeout :: int
  cf_RestartPolicy :: string

section \<open>Loading\<close>

text \<open>The dash of a message in UTF-8, and quotation marks.\<close>

definition em_dash :: string where
  "em_dash = [CHR 0xE2, CHR 0x80, CHR 0x94]"

definition quoted :: "string \<Rightarrow> string" where
  "quoted s = CHR 0x22 # s @ [CHR 0x22]"

definition normalize_ports :: "config \<Rightarrow> config" where
  "normalize_ports cfg =
     (if cf_Port cfg \<noteq> 0 \<and> cf_Ports cfg = [] then cfg\<lparr>cf_Ports := [(''default'', cf_Port cfg)]\<rparr> else cfg)"

definition config_defaults :: "config \<Rightarrow> config" where
  "config_defaults cfg =
     cfg\<lparr>cf_Type := (if cf_Type cfg = '''' then ''binary'' else cf_Type cfg),
         cf_HealthCheck := (if cf_HealthCheck cfg = '''' then ''/health'' else cf_HealthCheck cfg),
         cf_RestartPolicy := (if cf_RestartPolicy cfg = '''' then ''on-watch'' else cf_RestartPolicy cfg)\<rparr>"

definition against :: "string \<Rightarrow> string \<Rightarrow> string" where
  "against configDir p = (if IsAbs p then p else path_join [configDir, p])"

definition resolve_paths :: "string \<Rightarrow> config \<Rightarrow> config" where
  "resolve_paths configDir cfg =
     cfg\<lparr>cf_EnvFile := (if cf_EnvFile cfg = '''' then '''' else against configDir (cf_EnvFile cfg)),
         cf_VersionPath := (if cf_VersionPath cfg = '''' then '''' else against configDir (cf_VersionPath cfg)),
         cf_Watch := map (against configDir) (cf_Watch cfg)\<rparr>"

text \<open>\<^verbatim>\<open>filepath.Abs\<close>: the working directory is asked for only when the path is relative.\<close>

definition go_abs :: "err + string \<Rightarrow> string \<Rightarrow> err + string" where
  "go_abs getwd path =
     (if IsAbs path then Inr (Clean path)
      else case getwd of Inl e \<Rightarrow> Inl e | Inr cwd \<Rightarrow> Inr (path_abs cwd path))"

definition known_policy :: "config \<Rightarrow> bool" where
  "known_policy cfg \<longleftrightarrow> cf_RestartPolicy cfg \<in> {''always'', ''on-watch'', ''never''}"

definition config_load ::
    "(string \<Rightarrow> err + string) \<Rightarrow> (string \<Rightarrow> err + config) \<Rightarrow> err + string \<Rightarrow> string \<Rightarrow> err + config" where
  "config_load read_file parse_yaml getwd path =
     (case read_file path of
        Inl e \<Rightarrow> Inl (Errorf ''reading %s: %w'' [FStr path, FErr e])
      | Inr data \<Rightarrow>
          (case parse_yaml data of
             Inl e \<Rightarrow> Inl (Errorf ''parsing %s: %w'' [FStr path, FErr e])
           | Inr cfg0 \<Rightarrow>
               if cf_Name cfg0 = '''' then Inl (Errorf ''%s: name is required'' [FStr path])
               else if cf_Port cfg0 \<noteq> 0 \<and> cf_Ports cfg0 \<noteq> []
               then Inl (Errorf (''%s: port and ports are mutually exclusive '' @ em_dash @ '' use one or the other'')
                       [FStr path])
               else
                 (let cfg = normalize_ports cfg0 in
                  if cf_HealthCheckPort cfg \<noteq> '''' \<and> cf_Ports cfg \<noteq> []
                     \<and> map_of (cf_Ports cfg) (cf_HealthCheckPort cfg) = None
                  then Inl (Errorf ''%s: health_check_port %q does not match any key in ports''
                              [FStr path, FStr (cf_HealthCheckPort cfg)])
                  else if cf_Output cfg = '''' then Inl (Errorf ''%s: output is required'' [FStr path])
                  else
                    (let cfg1 = config_defaults cfg in
                     if \<not> known_policy cfg1
                     then Inl (Errorf (''%s: restart_policy must be '' @ quoted ''always'' @ '', '' @ quoted ''on-watch''
                                     @ '', or '' @ quoted ''never'') [FStr path])
                     else
                       (case go_abs getwd path of
                          Inl e \<Rightarrow> Inl (Errorf ''resolving %s: %w'' [FStr path, FErr e])
                        | Inr absPath \<Rightarrow> Inr (resolve_paths (path_dir absPath) cfg1))))))"

section \<open>What a loaded configuration has\<close>

definition config_ready :: "config \<Rightarrow> bool" where
  "config_ready cfg \<longleftrightarrow> cf_Name cfg \<noteq> '''' \<and> cf_Output cfg \<noteq> '''' \<and> cf_Type cfg \<noteq> ''''
     \<and> cf_HealthCheck cfg \<noteq> '''' \<and> cf_RestartPolicy cfg \<in> {''always'', ''on-watch'', ''never''}
     \<and> (cf_Port cfg \<noteq> 0 \<longrightarrow> cf_Ports cfg = [(''default'', cf_Port cfg)])
     \<and> (cf_HealthCheckPort cfg \<noteq> '''' \<and> cf_Ports cfg \<noteq> [] \<longrightarrow>
          map_of (cf_Ports cfg) (cf_HealthCheckPort cfg) \<noteq> None)
     \<and> (cf_EnvFile cfg = '''' \<or> IsAbs (cf_EnvFile cfg)) \<and> (cf_VersionPath cfg = '''' \<or> IsAbs (cf_VersionPath cfg))
     \<and> (\<forall>p \<in> set (cf_Watch cfg). IsAbs p)"

lemma IsAbs_last_slash: "IsAbs p \<Longrightarrow> IsAbs (fst (last_slash p))"
proof -
  assume "IsAbs p"
  then obtain q where p: "p = slash # q" by (auto simp: IsAbs_def prefix_def)
  have "dropWhile (\<lambda>c. c \<noteq> slash) (rev q @ [slash]) = (if slash \<in> set q
      then dropWhile (\<lambda>c. c \<noteq> slash) (rev q) @ [slash] else [slash])"
    by (simp add: dropWhile_append)
  then show ?thesis by (simp add: p last_slash_def IsAbs_def)
qed

lemma IsAbs_path_dir: "IsAbs p \<Longrightarrow> IsAbs (path_dir p)"
  by (simp add: path_dir_def IsAbs_last_slash)

lemma IsAbs_against: "IsAbs dir \<Longrightarrow> IsAbs (against dir p)"
proof -
  assume dir: "IsAbs dir"
  then have "dir \<noteq> ''''" by (auto simp: IsAbs_def)
  then have "IsAbs (str_join [slash] (filter (\<lambda>e. e \<noteq> '''') [dir, p]))"
    using dir by (auto simp: IsAbs_def prefix_def str_join_Cons)
  with \<open>dir \<noteq> ''''\<close> show ?thesis by (simp add: against_def path_join_def Let_def)
qed

lemma go_abs_IsAbs: "go_abs getwd path = Inr a \<Longrightarrow> (\<And>cwd. getwd = Inr cwd \<Longrightarrow> IsAbs cwd) \<Longrightarrow> IsAbs a"
  by (auto simp: go_abs_def IsAbs_path_abs split: if_splits sum.splits)

lemma config_default_fields:
  "cf_Name (config_defaults c) = cf_Name c" "cf_Output (config_defaults c) = cf_Output c"
  "cf_Port (config_defaults c) = cf_Port c" "cf_Ports (config_defaults c) = cf_Ports c"
  "cf_HealthCheckPort (config_defaults c) = cf_HealthCheckPort c"
  "cf_EnvFile (config_defaults c) = cf_EnvFile c" "cf_VersionPath (config_defaults c) = cf_VersionPath c"
  "cf_Watch (config_defaults c) = cf_Watch c" "cf_Type (config_defaults c) \<noteq> ''''"
  "cf_HealthCheck (config_defaults c) \<noteq> ''''"
  by (simp_all add: config_defaults_def)

lemma normalize_fields:
  "cf_Name (normalize_ports c) = cf_Name c" "cf_Port (normalize_ports c) = cf_Port c"
  "cf_Port c = 0 \<or> cf_Ports c = [] \<Longrightarrow> cf_Port c \<noteq> 0 \<Longrightarrow> cf_Ports (normalize_ports c) = [(''default'', cf_Port c)]"
  by (auto simp: normalize_ports_def)

lemma config_load_Inr:
  "config_load read_file parse_yaml getwd path = Inr cfg \<Longrightarrow>
   \<exists>cfg0 absPath. cf_Name cfg0 \<noteq> '''' \<and> (cf_Port cfg0 = 0 \<or> cf_Ports cfg0 = [])
     \<and> (cf_HealthCheckPort (normalize_ports cfg0) \<noteq> '''' \<and> cf_Ports (normalize_ports cfg0) \<noteq> [] \<longrightarrow>
          map_of (cf_Ports (normalize_ports cfg0)) (cf_HealthCheckPort (normalize_ports cfg0)) \<noteq> None)
     \<and> cf_Output (normalize_ports cfg0) \<noteq> ''''
     \<and> known_policy (config_defaults (normalize_ports cfg0)) \<and> go_abs getwd path = Inr absPath
     \<and> cfg = resolve_paths (path_dir absPath) (config_defaults (normalize_ports cfg0))"
  unfolding config_load_def Let_def
  by (simp split: sum.split_asm if_split_asm) blast+


definition demo_config :: config where
  "demo_config =
     \<lparr>cf_Name = ''api'', cf_Version = '''', cf_VersionPath = '''', cf_Port = 81, cf_Ports = [], cf_Type = '''',
      cf_Build = '''', cf_Output = ''bin/api'', cf_Args = [], cf_ProxyBindAddress = '''', cf_EnvFile = ''.env'',
      cf_HealthCheck = '''', cf_HealthCheckPort = '''', cf_Watch = [''src''], cf_DrainWindow = 0,
      cf_HealthCheckTimeout = 0, cf_RestartPolicy = ''''\<rparr>"


end
