(* ===== verification/Regex.thy ===== *)
theory Regex
  imports Prelude
begin

text \<open>
  Go's \<^verbatim>\<open>regexp\<close> as far as the program uses it, on byte strings: a match is the
  leftmost one, and among those at one place the one a backtracking search finds first.
  \<open>rmatch\<close> lists the ends of all matches at a place in that order. No pattern of the program
  matches the empty string, so a replacement always advances.
\<close>

section \<open>Expressions\<close>

datatype re =
    Cls "char \<Rightarrow> bool"
  | Emp
  | Cat re re
  | Alt re re
  | Star re
  | Grp nat re
  | WordB
  | EndText

definition Lit :: "char \<Rightarrow> re" where "Lit c = Cls (\<lambda>d. d = c)"

definition Plus :: "re \<Rightarrow> re" where "Plus r = Cat r (Star r)"

definition Opt :: "re \<Rightarrow> re" where "Opt r = Alt r Emp"

fun Cats :: "re list \<Rightarrow> re" where
  "Cats [] = Emp"
| "Cats [r] = r"
| "Cats (r # rs) = Cat r (Cats rs)"

fun Alts :: "re list \<Rightarrow> re" where
  "Alts [] = Cls (\<lambda>_. False)"
| "Alts [r] = r"
| "Alts (r # rs) = Alt r (Alts rs)"

definition Word :: "string \<Rightarrow> re" where "Word w = Cats (map Lit w)"

text \<open>\<^verbatim>\<open>r{m}\<close> and \<^verbatim>\<open>r{m,n}\<close>, greedy.\<close>

definition Times :: "nat \<Rightarrow> re \<Rightarrow> re" where "Times m r = Cats (replicate m r)"

fun UpTo :: "nat \<Rightarrow> re \<Rightarrow> re" where
  "UpTo 0 r = Emp"
| "UpTo (Suc n) r = Opt (Cat r (UpTo n r))"

definition Between :: "nat \<Rightarrow> nat \<Rightarrow> re \<Rightarrow> re" where
  "Between m n r = Cat (Times m r) (UpTo (n - m) r)"

section \<open>Matching\<close>

text \<open>A place in the text: what is before it (reversed), what follows, and the groups so far.\<close>

type_synonym place = "string \<times> string \<times> (nat \<times> string) list"

definition word_char :: "char \<Rightarrow> bool" where
  "word_char c \<longleftrightarrow> (let l = to_lower c in l = CHR ''_'' \<or> is_digit l \<or> l \<ge> CHR ''a'' \<and> CHR ''z'' \<ge> l)"

definition at_word :: "string \<Rightarrow> bool" where
  "at_word s = (case s of [] \<Rightarrow> False | c # _ \<Rightarrow> word_char c)"

definition rest_len :: "place \<Rightarrow> nat" where
  "rest_len p = length (fst (snd p))"

function rmatch :: "re \<Rightarrow> place \<Rightarrow> place list" where
  "rmatch (Cls f) p =
     (case p of (b, s, g) \<Rightarrow> (case s of [] \<Rightarrow> [] | c # cs \<Rightarrow> if f c then [(c # b, cs, g)] else []))"
| "rmatch Emp p = [p]"
| "rmatch (Cat r1 r2) p = concat (map (rmatch r2) (rmatch r1 p))"
| "rmatch (Alt r1 r2) p = rmatch r1 p @ rmatch r2 p"
| "rmatch (Star r) p =
     concat (map (\<lambda>q. if rest_len q < rest_len p then rmatch (Star r) q else []) (rmatch r p)) @ [p]"
| "rmatch (Grp n r) p =
     map (\<lambda>(b', s', g'). (b', s', (n, rev (take (length b' - length (fst p)) b')) # g')) (rmatch r p)"
| "rmatch WordB p = (if at_word (fst p) \<noteq> at_word (fst (snd p)) then [p] else [])"
| "rmatch EndText p = (if fst (snd p) = [] then [p] else [])"
  by pat_completeness auto
termination
  by (relation "measures [\<lambda>(r, p). size r, \<lambda>(r, p). rest_len p]") auto

declare rmatch.simps(5) [simp del]

lemmas rmatch_Star = rmatch.simps(5)

definition match_at :: "re \<Rightarrow> string \<Rightarrow> string \<Rightarrow> place option" where
  "match_at r before s = (case rmatch r (before, s, []) of [] \<Rightarrow> None | p # _ \<Rightarrow> Some p)"

definition group :: "nat \<Rightarrow> (nat \<times> string) list \<Rightarrow> string" where
  "group n g = (case map_of g n of Some s \<Rightarrow> s | None \<Rightarrow> [])"

text \<open>\<^verbatim>\<open>ReplaceAllString\<close>; the replacement is a function of the groups.\<close>

function replace_from :: "re \<Rightarrow> ((nat \<times> string) list \<Rightarrow> string) \<Rightarrow> string \<Rightarrow> string \<Rightarrow> string" where
  "replace_from r f before s =
     (case s of
        [] \<Rightarrow> []
      | c # cs \<Rightarrow>
          (case match_at r before s of
             None \<Rightarrow> c # replace_from r f (c # before) cs
           | Some (b', s', g) \<Rightarrow>
               if length s' < length s then f g @ replace_from r f b' s'
               else c # replace_from r f (c # before) cs))"
  by pat_completeness auto
termination
  by (relation "measure (\<lambda>(r, f, b, s). length s)") auto

declare replace_from.simps [simp del]

definition ReplaceAll :: "re \<Rightarrow> ((nat \<times> string) list \<Rightarrow> string) \<Rightarrow> string \<Rightarrow> string" where
  "ReplaceAll r f s = replace_from r f [] s"

text \<open>\<^verbatim>\<open>FindStringSubmatch\<close>: the groups of the leftmost match. \<^verbatim>\<open>MatchString\<close> for a pattern
  that starts with \<^verbatim>\<open>^\<close> and ends with \<^verbatim>\<open>$\<close>.\<close>

fun find_from :: "re \<Rightarrow> string \<Rightarrow> string \<Rightarrow> (nat \<times> string) list option" where
  "find_from r before [] = map_option (\<lambda>(b, s, g). g) (match_at r before [])"
| "find_from r before (c # cs) =
     (case match_at r before (c # cs) of
        Some (b, s, g) \<Rightarrow> Some g
      | None \<Rightarrow> find_from r (c # before) cs)"

definition FindSubmatch :: "re \<Rightarrow> string \<Rightarrow> (nat \<times> string) list option" where
  "FindSubmatch r s = find_from r [] s"

definition MatchWhole :: "re \<Rightarrow> string \<Rightarrow> bool" where
  "MatchWhole r s = (match_at (Cat r EndText) [] s \<noteq> None)"

section \<open>Classes\<close>

definition re_digit :: re where "re_digit = Cls is_digit"

text \<open>\<^verbatim>\<open>\s\<close> of the regular expressions has no vertical tab.\<close>

definition re_space_char :: "char \<Rightarrow> bool" where
  "re_space_char c \<longleftrightarrow> c \<in> {CHR 0x09, CHR 0x0A, CHR 0x0C, CHR 0x0D, CHR '' ''}"

definition re_space :: re where "re_space = Cls re_space_char"

definition CatI :: "string \<Rightarrow> re" where
  "CatI w = Cats (map (\<lambda>c. Cls (\<lambda>d. to_lower d = to_lower c)) w)"

section \<open>Facts about matching\<close>

text \<open>A match splits the text: what it consumed moves from the front of the rest to the part
  before.\<close>

lemma rmatch_split:
  "q \<in> set (rmatch r p) \<Longrightarrow> \<exists>u. fst (snd p) = u @ fst (snd q) \<and> fst q = rev u @ fst p"
proof (induction r p arbitrary: q rule: rmatch.induct)
  case (1 f p)
  then show ?case by (cases p) (auto split: list.splits if_splits)
next
  case (3 r1 r2 p)
  from "3.prems" obtain m where m: "m \<in> set (rmatch r1 p)" "q \<in> set (rmatch r2 m)" by auto
  from "3.IH"(1) [OF m(1)] "3.IH"(2) [OF m] show ?case by fastforce
next
  case (4 r1 r2 p)
  from "4.prems" show ?case by (auto dest: "4.IH")
next
  case (5 r p)
  show ?case
  proof (cases "q = p")
    case False
    with "5.prems" obtain m where m: "m \<in> set (rmatch r p)" "rest_len m < rest_len p" "q \<in> set (rmatch (Star r) m)"
      unfolding rmatch_Star [of r p] by (auto split: if_splits)
    from "5.IH"(1) [OF m(1)] obtain u where u: "fst (snd p) = u @ fst (snd m)" "fst m = rev u @ fst p" by blast
    from "5.IH"(2) [OF m] obtain v where "fst (snd m) = v @ fst (snd q)" "fst q = rev v @ fst m" by blast
    with u have "fst (snd p) = (u @ v) @ fst (snd q) \<and> fst q = rev (u @ v) @ fst p" by simp
    then show ?thesis by blast
  qed simp
next
  case (6 n r p)
  from "6.prems" obtain m where "m \<in> set (rmatch r p)" "fst q = fst m" "fst (snd q) = fst (snd m)"
    by auto
  with "6.IH" show ?case by metis
qed (auto split: if_splits)

text \<open>A star over a class takes the longest run first.\<close>

lemma rmatch_Star_Cls:
  "\<exists>ps. rmatch (Star (Cls f)) (b, s, g) = (rev (takeWhile f s) @ b, dropWhile f s, g) # ps"
proof (induction s arbitrary: b)
  case (Cons c cs)
  from Cons [of "c # b"] show ?case by (auto simp: rest_len_def rmatch_Star [of _ "(b, c # cs, g)"])
qed (simp add: rmatch_Star)

lemma rmatch_Plus_Cls:
  assumes "f c"
  shows "\<exists>ps. rmatch (Plus (Cls f)) (b, c # cs, g) = (rev (takeWhile f (c # cs)) @ b, dropWhile f (c # cs), g) # ps"
  using rmatch_Star_Cls [of f "c # b" cs g] assms by (auto simp: Plus_def)

lemma rmatch_Cat_first:
  "rmatch r1 p = q # qs \<Longrightarrow> rmatch r2 q = m # ms \<Longrightarrow> \<exists>ps. rmatch (Cat r1 r2) p = m # ps"
  by simp

lemma rmatch_Cat_stuck:
  "(\<And>q. q \<in> set (rmatch r1 p) \<Longrightarrow> rmatch r2 q = []) \<Longrightarrow> rmatch (Cat r1 (Cat r2 r3)) p = []"
  by simp

lemma replace_none:
  "\<forall>i. match_at r (rev (take i s) @ b) (drop i s) = None \<Longrightarrow> replace_from r f b s = s"
proof (induction s arbitrary: b)
  case Nil
  then show ?case by (simp add: replace_from.simps)
next
  case (Cons c cs)
  have "match_at r (rev (take i cs) @ c # b) (drop i cs) = None" for i
    using Cons.prems [rule_format, of "Suc i"] by simp
  moreover have "match_at r b (c # cs) = None"
    using Cons.prems [rule_format, of 0] by simp
  ultimately show ?case by (simp add: replace_from.simps [of r f b] Cons.IH)
qed

end
