(* ===== verification/Issues.thy ===== *)
theory Issues
  imports Regex "HOL-Library.Product_Lexorder" "HOL-Library.Word"
begin

text \<open>
  \<^verbatim>\<open>internal/issues/issues.go\<close>: reports of failures, gathered by fingerprint into issues
  with a lifecycle, in one file. The fingerprint is the hash of the normalised source, service, kind
  and text of a report. The clock, the decoder of JSON objects and SHA-256 answer through
  \<open>issue_env\<close>; the disk answers every save. Times are nanoseconds, 0 is Go's zero time.
\<close>

section \<open>Records\<close>

record occurrence =
  oc_ID :: string
  oc_Timestamp :: int
  oc_Source :: string
  oc_Tool :: string
  oc_Input :: string
  oc_Error :: string
  oc_Context :: string
  oc_RepoPath :: string
  oc_Severity :: string

datatype issue_state = StateActive | StateAcknowledged | StateResolved | StateNone | StateOther string

record lifecycle_event =
  le_State :: issue_state
  le_Timestamp :: int
  le_Actor :: string
  le_Note :: string

record issue =
  is_ID :: string
  is_Timestamp :: int
  is_Source :: string
  is_Tool :: string
  is_Input :: string
  is_Error :: string
  is_Context :: string
  is_RepoPath :: string
  is_Severity :: string
  is_Fingerprint :: string
  is_Service :: string
  is_Kind :: string
  is_FirstSeen :: int
  is_LastSeen :: int
  is_OccurrenceCount :: nat
  is_Occurrences :: "occurrence list"
  is_State :: issue_state
  is_AcknowledgedAt :: "int option"
  is_AcknowledgedBy :: string
  is_ResolvedAt :: "int option"
  is_ResolvedBy :: string
  is_TrackerURL :: string
  is_History :: "lifecycle_event list"

definition zero_issue :: issue where
  "zero_issue =
     \<lparr>is_ID = '''', is_Timestamp = 0, is_Source = '''', is_Tool = '''', is_Input = '''', is_Error = '''',
      is_Context = '''', is_RepoPath = '''', is_Severity = '''', is_Fingerprint = '''', is_Service = '''',
      is_Kind = '''', is_FirstSeen = 0, is_LastSeen = 0, is_OccurrenceCount = 0, is_Occurrences = [],
      is_State = StateNone, is_AcknowledgedAt = None, is_AcknowledgedBy = '''', is_ResolvedAt = None,
      is_ResolvedBy = '''', is_TrackerURL = '''', is_History = []\<rparr>"

record store_file =
  sf_Version :: int
  sf_Issues :: "issue list"

record fingerprint_parts =
  fp_Source :: string
  fp_Service :: string
  fp_Kind :: string
  fp_Error :: string

definition currentStoreVersion :: int where "currentStoreVersion = 1"

definition newStoreFile :: store_file where
  "newStoreFile = \<lparr>sf_Version = currentStoreVersion, sf_Issues = []\<rparr>"

text \<open>What answers from outside, and the generator of identifiers with its 64-bit counter.\<close>

record issue_env =
  ie_clock :: "nat \<Rightarrow> int"
  ie_object :: "string \<Rightarrow> string gomap option"
  ie_sha256 :: "string \<Rightarrow> string"

record id_state =
  id_tick :: nat
  id_seq :: "64 word"

definition issue_now :: "issue_env \<Rightarrow> id_state \<Rightarrow> int \<times> id_state" where
  "issue_now E st = (ie_clock E (id_tick st), st\<lparr>id_tick := Suc (id_tick st)\<rparr>)"

section \<open>Normalised texts\<close>

definition lower_alnum :: "char \<Rightarrow> bool" where
  "lower_alnum c \<longleftrightarrow> CHR ''a'' \<le> c \<and> c \<le> CHR ''z'' \<or> is_digit c"

definition nonAlphaNumRE :: re where
  "nonAlphaNumRE = Plus (Cls (\<lambda>c. \<not> lower_alnum c))"

definition trim_char :: "char \<Rightarrow> string \<Rightarrow> string" where
  "trim_char c s = rev (dropWhile (\<lambda>d. d = c) (rev (dropWhile (\<lambda>d. d = c) s)))"

definition normalizeKey :: "string \<Rightarrow> string" where
  "normalizeKey value0 =
     (let v = map to_lower (trim_space value0) in
      if v = '''' then '''' else trim_char CHR ''_'' (ReplaceAll nonAlphaNumRE (\<lambda>_. ''_'') v))"

definition in_set_re :: "string \<Rightarrow> re" where
  "in_set_re cs = Cls (\<lambda>c. is_digit c \<or> c \<in> set cs)"

definition isoTimestampRE :: re where
  "isoTimestampRE =
     Cats [WordB, Times 4 re_digit, Lit CHR ''-'', Times 2 re_digit, Lit CHR ''-'', Times 2 re_digit,
           Cls (\<lambda>c. c \<in> {CHR ''t'', CHR ''T'', CHR '' ''}), Plus (in_set_re '':.+-zZ''), WordB]"

definition timeOfDayRE :: re where
  "timeOfDayRE =
     Cats [WordB, Times 2 re_digit, Lit CHR '':'', Times 2 re_digit, Lit CHR '':'', Times 2 re_digit,
           Opt (Cat (Lit CHR ''.'') (Plus re_digit)), WordB]"

definition label_sep :: re where
  "label_sep = Alt (Star re_space) (Cls (\<lambda>c. c \<in> {CHR ''='', CHR '':''}))"

definition pidRE :: re where
  "pidRE = Cats [WordB, Word ''pid'', label_sep, Plus re_digit, WordB]"

definition portWordRE :: re where
  "portWordRE = Cats [WordB, Word ''port'', label_sep, Between 2 5 re_digit, WordB]"

definition hostPortRE :: re where
  "hostPortRE =
     Cats [WordB, Alts [Word ''localhost'', Word ''127.0.0.1'', Word ''0.0.0.0'', Word ''[::1]''],
           Cat (Lit CHR '':'') (Between 2 5 re_digit), WordB]"

definition listenPortRE :: re where
  "listenPortRE =
     Cats [WordB, Word ''listen tcp '', Grp 1 (Plus (Cls (\<lambda>c. c \<noteq> CHR '':'' \<and> c \<noteq> CHR '' ''))),
           Lit CHR '':'', Between 2 5 re_digit, WordB]"

definition path_run :: re where
  "path_run = Plus (Cls (\<lambda>c. \<not> re_space_char c \<and> c \<noteq> CHR 0x22 \<and> c \<noteq> CHR 0x27))"

definition tempPathRE :: re where
  "tempPathRE =
     Alt (Cats [Opt (Word ''/private''), Word ''/tmp/'', path_run]) (Cat (Word ''/var/folders/'') path_run)"

definition crashAttemptsRE :: re where
  "crashAttemptsRE =
     Cats [WordB, Word ''gave up after '', Plus re_digit, Word '' crash attempts'', WordB]"

definition service_char :: "char \<Rightarrow> bool" where
  "service_char c \<longleftrightarrow> word_char c \<or> c = CHR ''.'' \<or> c = CHR ''-''"

definition serviceFromErrorRE :: re where
  "serviceFromErrorRE =
     Cats [WordB, Word ''service '', Grp 1 (Plus (Cls service_char)), Word '' gave up after '',
           Plus re_digit, Word '' crash attempts'', WordB]"

definition serviceNameRE :: re where "serviceNameRE = Plus (Cls service_char)"

definition whitespaceRE :: re where "whitespaceRE = Plus re_space"

text \<open>The rewrites of an error text, in their order.\<close>

definition error_rewrites :: "(re \<times> ((nat \<times> string) list \<Rightarrow> string)) list" where
  "error_rewrites =
     [(tempPathRE, \<lambda>_. ''<tmp>''), (isoTimestampRE, \<lambda>_. ''<time>''), (timeOfDayRE, \<lambda>_. ''<time>''),
      (hostPortRE, \<lambda>_. ''<addr>''), (listenPortRE, \<lambda>g. ''listen tcp '' @ group 1 g @ '':<port>''),
      (portWordRE, \<lambda>_. ''port=<port>''), (pidRE, \<lambda>_. ''pid=<pid>''),
      (crashAttemptsRE, \<lambda>_. ''gave up after <n> crash attempts''), (whitespaceRE, \<lambda>_. '' '')]"

definition normalizeError :: "string \<Rightarrow> string" where
  "normalizeError msg =
     (let m = map to_lower (trim_space msg) in
      if m = '''' then ''''
      else trim_space (foldl (\<lambda>m (r, f). ReplaceAll r f m) m error_rewrites))"

section \<open>Fingerprints\<close>

definition splitSource :: "string \<Rightarrow> string \<times> string" where
  "splitSource source =
     (case str_cut (trim_space source) '':'' of
        None \<Rightarrow> (trim_space source, '''')
      | Some (a, b) \<Rightarrow> (a, b))"

text \<open>The first of the three keys whose value is a string that looks like a service name.\<close>

fun service_of_keys :: "string gomap \<Rightarrow> string list \<Rightarrow> string" where
  "service_of_keys obj [] = ''''"
| "service_of_keys obj (key # keys) =
     (case map_of obj key of
        Some v \<Rightarrow> if MatchWhole serviceNameRE (trim_space v) then v else service_of_keys obj keys
      | None \<Rightarrow> service_of_keys obj keys)"

definition extractServiceFromInput :: "issue_env \<Rightarrow> string \<Rightarrow> string" where
  "extractServiceFromInput E input0 =
     (let i = trim_space input0 in
      if i = '''' then ''''
      else case (if prefix ''{'' i then ie_object E i else None) of
             Some obj \<Rightarrow> service_of_keys obj [''name'', ''service'', ''service_name'']
           | None \<Rightarrow> if MatchWhole serviceNameRE i then i else '''')"

definition extractServiceFromError :: "string \<Rightarrow> string" where
  "extractServiceFromError msg =
     (case FindSubmatch serviceFromErrorRE msg of None \<Rightarrow> '''' | Some g \<Rightarrow> group 1 g)"

text \<open>\<open>first_nonempty\<close> is the chain of fallbacks.\<close>

definition or_else :: "string \<Rightarrow> string \<Rightarrow> string" where
  "or_else a b = (if a = '''' then b else a)"

definition buildFingerprintParts :: "issue_env \<Rightarrow> occurrence \<Rightarrow> fingerprint_parts" where
  "buildFingerprintParts E occ =
     (case splitSource (oc_Source occ) of
        (sourcePrefix, sourceSuffix) \<Rightarrow>
          (let sourceKey = or_else (normalizeKey sourcePrefix) (normalizeKey (oc_Source occ));
               service0 = (if sourceKey = ''consumer'' then normalizeKey sourceSuffix
                           else normalizeKey (extractServiceFromInput E (oc_Input occ)));
               service1 = or_else service0 (normalizeKey (extractServiceFromError (oc_Error occ)));
               kind0 = (if sourceKey = ''daemon'' then normalizeKey sourceSuffix
                        else if sourceKey = ''consumer'' then or_else (normalizeKey (oc_Tool occ)) ''report''
                        else or_else (normalizeKey (oc_Tool occ)) (normalizeKey sourceSuffix))
           in \<lparr>fp_Source = sourceKey, fp_Service = service1,
               fp_Kind = or_else (or_else kind0 sourceKey) ''unknown'',
               fp_Error = or_else (normalizeError (oc_Error occ)) ''empty''\<rparr>))"

definition fp_hash :: "issue_env \<Rightarrow> fingerprint_parts \<Rightarrow> string" where
  "fp_hash E p = ie_sha256 E (str_join [CHR 0x1F] [fp_Source p, fp_Service p, fp_Kind p, fp_Error p])"

definition fingerprint :: "issue_env \<Rightarrow> occurrence \<Rightarrow> string" where
  "fingerprint E occ = fp_hash E (buildFingerprintParts E occ)"

section \<open>Occurrences\<close>

definition issueToOccurrence :: "issue \<Rightarrow> occurrence" where
  "issueToOccurrence i =
     \<lparr>oc_ID = is_ID i, oc_Timestamp = is_Timestamp i, oc_Source = is_Source i, oc_Tool = is_Tool i,
      oc_Input = is_Input i, oc_Error = is_Error i, oc_Context = is_Context i,
      oc_RepoPath = is_RepoPath i, oc_Severity = is_Severity i\<rparr>"

text \<open>\<^verbatim>\<open>strconv.FormatInt\<close> to base 36.\<close>

definition digit36 :: "nat \<Rightarrow> char" where
  "digit36 d = (if d < 10 then char_of (48 + d) else char_of (87 + d))"

fun base36 :: "nat \<Rightarrow> string" where
  "base36 n = (if n < 36 then [digit36 n] else base36 (n div 36) @ [digit36 (n mod 36)])"

declare base36.simps [simp del]

definition FormatInt36 :: "int \<Rightarrow> string" where
  "FormatInt36 i = (if i < 0 then CHR ''-'' # base36 (nat (- i)) else base36 (nat i))"

definition newGeneratedID :: "int \<Rightarrow> id_state \<Rightarrow> string \<times> id_state" where
  "newGeneratedID now st =
     (let seq = id_seq st + 1 in
      (FormatInt36 now @ ''-'' @ base36 (unat seq), st\<lparr>id_seq := seq\<rparr>))"

definition normalizeOccurrence :: "issue_env \<Rightarrow> occurrence \<Rightarrow> id_state \<Rightarrow> occurrence \<times> id_state" where
  "normalizeOccurrence E occ st =
     (case issue_now E st of (now, st1) \<Rightarrow>
        (case if oc_ID occ = '''' then newGeneratedID now st1 else (oc_ID occ, st1) of (ID, st2) \<Rightarrow>
           (\<lparr>oc_ID = ID,
             oc_Timestamp = (if oc_Timestamp occ = 0 then now else oc_Timestamp occ),
             oc_Source = trim_space (oc_Source occ), oc_Tool = trim_space (oc_Tool occ),
             oc_Input = trim_space (oc_Input occ), oc_Error = trim_space (oc_Error occ),
             oc_Context = trim_space (oc_Context occ), oc_RepoPath = trim_space (oc_RepoPath occ),
             oc_Severity = (if oc_Severity occ = '''' then ''error'' else oc_Severity occ)\<rparr>, st2)))"

fun normalize_all :: "issue_env \<Rightarrow> occurrence list \<Rightarrow> id_state \<Rightarrow> occurrence list \<times> id_state" where
  "normalize_all E [] st = ([], st)"
| "normalize_all E (occ # occs) st =
     (case normalizeOccurrence E occ st of (o1, st1) \<Rightarrow>
        (case normalize_all E occs st1 of (os, st2) \<Rightarrow> (o1 # os, st2)))"

text \<open>Copies are values here; the copy of an empty slice is the nil slice.\<close>

definition cloneOccurrences :: "occurrence list \<Rightarrow> occurrence list" where
  "cloneOccurrences occs = (if occs = [] then [] else occs)"

definition cloneIssue :: "issue \<Rightarrow> issue" where
  "cloneIssue i = i\<lparr>is_Occurrences := cloneOccurrences (is_Occurrences i), is_History := is_History i\<rparr>"

lemma clone_id [simp]: "cloneOccurrences occs = occs" "cloneIssue i = i"
  by (simp_all add: cloneOccurrences_def cloneIssue_def)

section \<open>Building an issue from its occurrences\<close>

text \<open>The earliest time, and the latest occurrence, the last one among equals.\<close>

definition earlier :: "int \<Rightarrow> occurrence \<Rightarrow> int" where
  "earlier t occ = (if oc_Timestamp occ < t then oc_Timestamp occ else t)"

definition later :: "occurrence \<Rightarrow> occurrence \<Rightarrow> occurrence" where
  "later l occ =
     (if oc_Timestamp occ > oc_Timestamp l \<or> oc_Timestamp occ = oc_Timestamp l then occ else l)"

definition first_seen :: "occurrence list \<Rightarrow> int" where
  "first_seen occs = foldl earlier (oc_Timestamp (hd occs)) (tl occs)"

definition latest :: "occurrence list \<Rightarrow> occurrence" where
  "latest occs = foldl later (hd occs) (tl occs)"

definition build_issue :: "issue_env \<Rightarrow> string \<Rightarrow> occurrence list \<Rightarrow> issue" where
  "build_issue E ID normalized =
     (let l = latest normalized; parts = buildFingerprintParts E l in
      \<lparr>is_ID = (if ID = '''' then oc_ID (hd normalized) else ID), is_Timestamp = oc_Timestamp l,
       is_Source = oc_Source l, is_Tool = oc_Tool l, is_Input = oc_Input l, is_Error = oc_Error l,
       is_Context = oc_Context l, is_RepoPath = oc_RepoPath l, is_Severity = oc_Severity l,
       is_Fingerprint = fp_hash E parts, is_Service = fp_Service parts, is_Kind = fp_Kind parts,
       is_FirstSeen = first_seen normalized, is_LastSeen = oc_Timestamp l,
       is_OccurrenceCount = length normalized, is_Occurrences = normalized, is_State = StateActive,
       is_AcknowledgedAt = None, is_AcknowledgedBy = '''', is_ResolvedAt = None, is_ResolvedBy = '''',
       is_TrackerURL = '''', is_History = []\<rparr>)"

definition rebuildIssue :: "issue_env \<Rightarrow> string \<Rightarrow> occurrence list \<Rightarrow> id_state \<Rightarrow> issue \<times> id_state" where
  "rebuildIssue E ID occs st =
     (if occs = [] then (zero_issue, st)
      else case normalize_all E (cloneOccurrences occs) st of (normalized, st1) \<Rightarrow> (build_issue E ID normalized, st1))"

text \<open>What a rebuilt issue keeps of the one it replaces.\<close>

definition carry :: "issue \<Rightarrow> issue \<Rightarrow> issue" where
  "carry previous i =
     i\<lparr>is_State := (if is_State previous = StateNone then StateActive else is_State previous),
       is_AcknowledgedAt := is_AcknowledgedAt previous, is_AcknowledgedBy := is_AcknowledgedBy previous,
       is_ResolvedAt := is_ResolvedAt previous, is_ResolvedBy := is_ResolvedBy previous,
       is_TrackerURL := is_TrackerURL previous, is_History := is_History previous\<rparr>"

definition reopen :: "int \<Rightarrow> issue \<Rightarrow> issue" where
  "reopen now i =
     i\<lparr>is_State := StateActive, is_ResolvedAt := None, is_ResolvedBy := '''',
       is_History := is_History i @
         [\<lparr>le_State = StateActive, le_Timestamp = now, le_Actor = ''system'',
           le_Note = ''reopened by new occurrence''\<rparr>]\<rparr>"

fun merge_into :: "issue_env \<Rightarrow> occurrence \<Rightarrow> issue list \<Rightarrow> id_state \<Rightarrow> issue list \<times> id_state" where
  "merge_into E occ [] st =
     (case rebuildIssue E (oc_ID occ) [occ] st of (i, st1) \<Rightarrow> ([i], st1))"
| "merge_into E occ (previous # issues) st =
     (if is_Fingerprint previous \<noteq> fingerprint E occ
      then case merge_into E occ issues st of (is, st1) \<Rightarrow> (previous # is, st1)
      else case rebuildIssue E (is_ID previous) (cloneOccurrences (is_Occurrences previous) @ [occ]) st of (i, st1) \<Rightarrow>
             if is_State previous = StateResolved
             then case issue_now E st1 of (now, st2) \<Rightarrow> (reopen now (carry previous i) # issues, st2)
             else (carry previous i # issues, st1))"

definition mergeOccurrence :: "issue_env \<Rightarrow> occurrence \<Rightarrow> store_file \<Rightarrow> id_state \<Rightarrow> store_file \<times> id_state" where
  "mergeOccurrence E occ f st =
     (case merge_into E occ (sf_Issues f) st of (is, st1) \<Rightarrow> (f\<lparr>sf_Issues := is\<rparr>, st1))"

text \<open>\<^verbatim>\<open>sort.Slice\<close> leaves the order of equal keys open; the model keeps it.\<close>

definition sortIssues :: "issue list \<Rightarrow> issue list" where
  "sortIssues is = sort_key (\<lambda>i. (is_LastSeen i, is_ID i)) is"

section \<open>The file\<close>

text \<open>What the bytes of the file are taken for: nothing, a store, an object that is no store, or
  the old format with one report per line.\<close>

datatype issues_file =
    NoFile
  | Unreadable err
  | BlankFile
  | StoreJson store_file
  | BadStore err
  | LegacyLines "issue option list"

fun decodeLegacyJSONL :: "issue_env \<Rightarrow> issue option list \<Rightarrow> store_file \<Rightarrow> id_state \<Rightarrow> store_file \<times> id_state" where
  "decodeLegacyJSONL E [] f st = (f, st)"
| "decodeLegacyJSONL E (None # lines) f st = decodeLegacyJSONL E lines f st"
| "decodeLegacyJSONL E (Some legacy # lines) f st =
     (case normalizeOccurrence E (issueToOccurrence legacy) st of (occ, st1) \<Rightarrow>
        (case mergeOccurrence E occ f st1 of (f1, st2) \<Rightarrow> decodeLegacyJSONL E lines f1 st2))"

definition normalize_issue :: "issue_env \<Rightarrow> issue \<Rightarrow> id_state \<Rightarrow> issue \<times> id_state" where
  "normalize_issue E stored st =
     (case normalize_all E
             (if is_Occurrences stored = [] then [issueToOccurrence stored]
              else cloneOccurrences (is_Occurrences stored)) st of
        (occs, st1) \<Rightarrow>
          (case rebuildIssue E (is_ID stored) occs st1 of (i, st2) \<Rightarrow> (carry stored i, st2)))"

fun normalize_issues :: "issue_env \<Rightarrow> issue list \<Rightarrow> id_state \<Rightarrow> issue list \<times> id_state" where
  "normalize_issues E [] st = ([], st)"
| "normalize_issues E (stored # issues) st =
     (case normalize_issue E stored st of (i, st1) \<Rightarrow>
        (case normalize_issues E issues st1 of (is, st2) \<Rightarrow> (i # is, st2)))"

definition normalizeStoreFile :: "issue_env \<Rightarrow> store_file \<Rightarrow> id_state \<Rightarrow> store_file \<times> id_state" where
  "normalizeStoreFile E file st =
     (case normalize_issues E (sf_Issues file) st of (is, st1) \<Rightarrow>
        (newStoreFile\<lparr>sf_Version := sf_Version file, sf_Issues := sortIssues is\<rparr>, st1))"

definition decodeStoreFile :: "issue_env \<Rightarrow> issues_file \<Rightarrow> id_state \<Rightarrow> (err + store_file) \<times> id_state" where
  "decodeStoreFile E data st =
     (case data of
        StoreJson file0 \<Rightarrow>
          (let file = (if sf_Version file0 = 0 then file0\<lparr>sf_Version := currentStoreVersion\<rparr> else file0) in
           if currentStoreVersion < sf_Version file
           then (Inl (Errorf ''issues: unsupported store version %d'' [FInt (sf_Version file)]), st)
           else case normalizeStoreFile E file st of (f, st1) \<Rightarrow> (Inr f, st1))
      | BadStore e \<Rightarrow> (Inl (Errorf ''issues: unmarshal store: %w'' [FErr e]), st)
      | LegacyLines lines \<Rightarrow>
          (case decodeLegacyJSONL E lines newStoreFile st of (f, st1) \<Rightarrow> (Inr f, st1))
      | _ \<Rightarrow> (Inr newStoreFile, st))"

record issue_store =
  st_path :: string
  st_file :: issues_file
  st_ids :: id_state

text \<open>The disk's answers to writing the temporary file and to renaming it.\<close>

record issue_disk =
  dk_write :: "err option"
  dk_rename :: "err option"

definition loadLocked :: "issue_env \<Rightarrow> issue_store \<Rightarrow> (store_file, issue_store) res" where
  "loadLocked E s =
     (case st_file s of
        NoFile \<Rightarrow> (Inr newStoreFile, s)
      | Unreadable e \<Rightarrow> (Inl (Errorf ''issues: open %s: %w'' [FStr (st_path s), FErr e]), s)
      | data \<Rightarrow> (case decodeStoreFile E data (st_ids s) of (x, ids) \<Rightarrow> (x, s\<lparr>st_ids := ids\<rparr>)))"

definition saveLocked :: "issue_disk \<Rightarrow> store_file \<Rightarrow> issue_store \<Rightarrow> (unit, issue_store) res" where
  "saveLocked D f s =
     (let tmp = st_path s @ ''.tmp'' in
      case dk_write D of
        Some e \<Rightarrow> (Inl (Errorf ''issues: write %s: %w'' [FStr tmp, FErr e]), s)
      | None \<Rightarrow>
          (case dk_rename D of
             Some e \<Rightarrow> (Inl (Errorf ''issues: rename %s: %w'' [FStr (st_path s), FErr e]), s)
           | None \<Rightarrow> (Inr (), s\<lparr>st_file := StoreJson (f\<lparr>sf_Issues := sortIssues (sf_Issues f)\<rparr>)\<rparr>)))"

section \<open>Operations\<close>

definition IssueAppend :: "issue_env \<Rightarrow> issue_disk \<Rightarrow> issue \<Rightarrow> issue_store \<Rightarrow> (unit, issue_store) res" where
  "IssueAppend E D iss s =
     on_res (loadLocked E s)
       (\<lambda>f s1.
          case normalizeOccurrence E (issueToOccurrence iss) (st_ids s1) of (occ, ids) \<Rightarrow>
            (case mergeOccurrence E occ f ids of (f1, ids1) \<Rightarrow> saveLocked D f1 (s1\<lparr>st_ids := ids1\<rparr>)))
       (\<lambda>e s1. (Inl e, s1))"

definition IssueClear :: "issue_disk \<Rightarrow> issue_store \<Rightarrow> (unit, issue_store) res" where
  "IssueClear D s = saveLocked D newStoreFile s"

definition issue_not_found :: "string \<Rightarrow> err" where
  "issue_not_found ID = MissingServicef ''issue %q not found'' [FStr ID]"

definition IssueGet :: "issue_env \<Rightarrow> string \<Rightarrow> issue_store \<Rightarrow> (issue, issue_store) res" where
  "IssueGet E ID s =
     on_res (loadLocked E s)
       (\<lambda>f s1.
          (case List.find (\<lambda>i. is_ID i = ID) (sf_Issues f) of
             Some i \<Rightarrow> Inr (cloneIssue i)
           | None \<Rightarrow> Inl (issue_not_found ID), s1))
       (\<lambda>e s1. (Inl e, s1))"

primrec state_text :: "issue_state \<Rightarrow> string" where
  "state_text StateActive = ''active''"
| "state_text StateAcknowledged = ''acknowledged''"
| "state_text StateResolved = ''resolved''"
| "state_text StateNone = ''''"
| "state_text (StateOther s) = s"

text \<open>The loop over the issues: the first one with the identifier is changed. Saving sorts the slice in
  place, and the answer is the issue then found at the same index.\<close>

fun update_issue :: "string \<Rightarrow> (issue \<Rightarrow> err + issue) \<Rightarrow> issue list \<Rightarrow> err + (nat \<times> issue list)" where
  "update_issue ID change [] = Inl (issue_not_found ID)"
| "update_issue ID change (i # is) =
     (if is_ID i \<noteq> ID
      then (case update_issue ID change is of Inl e \<Rightarrow> Inl e | Inr (n, is') \<Rightarrow> Inr (Suc n, i # is'))
      else (case change i of Inl e \<Rightarrow> Inl e | Inr i' \<Rightarrow> Inr (0, i' # is)))"

definition change_issue ::
    "issue_env \<Rightarrow> issue_disk \<Rightarrow> string \<Rightarrow> (int \<Rightarrow> issue \<Rightarrow> err + issue) \<Rightarrow> issue_store \<Rightarrow> (issue, issue_store) res" where
  "change_issue E D ID change s =
     on_res (loadLocked E s)
       (\<lambda>f s1.
          case issue_now E (st_ids s1) of (now, ids) \<Rightarrow>
            (case update_issue ID (change now) (sf_Issues f) of
               Inl e \<Rightarrow> (Inl e, s1)
             | Inr (n, is) \<Rightarrow>
                 on_res (saveLocked D (f\<lparr>sf_Issues := is\<rparr>) (s1\<lparr>st_ids := ids\<rparr>))
                   (\<lambda>_ s2. (Inr (cloneIssue (sortIssues is ! n)), s2)) (\<lambda>e s2. (Inl e, s2))))
       (\<lambda>e s1. (Inl e, s1))"

definition resolve_change :: "string \<Rightarrow> string \<Rightarrow> string \<Rightarrow> int \<Rightarrow> issue \<Rightarrow> err + issue" where
  "resolve_change ID actor trackerURL now i =
     (if is_State i = StateResolved then Inl (Conflictf ''issue %q is already resolved'' [FStr ID])
      else Inr (i\<lparr>is_State := StateResolved, is_ResolvedAt := Some now, is_ResolvedBy := trim_space actor,
                  is_TrackerURL := (if trim_space trackerURL \<noteq> '''' then trim_space trackerURL else is_TrackerURL i),
                  is_History := is_History i @
                    [\<lparr>le_State = StateResolved, le_Timestamp = now, le_Actor = actor, le_Note = ''''\<rparr>]\<rparr>))"

definition IssueResolve ::
    "issue_env \<Rightarrow> issue_disk \<Rightarrow> string \<Rightarrow> string \<Rightarrow> string \<Rightarrow> issue_store \<Rightarrow> (issue, issue_store) res" where
  "IssueResolve E D ID actor trackerURL s = change_issue E D ID (resolve_change ID actor trackerURL) s"

definition transition_change :: "string \<Rightarrow> issue_state \<Rightarrow> string \<Rightarrow> string \<Rightarrow> int \<Rightarrow> issue \<Rightarrow> err + issue" where
  "transition_change ID state actor note now i =
     (let current = (if is_State i = StateNone then StateActive else is_State i) in
      if state = StateAcknowledged \<and> current \<noteq> StateActive
      then Inl (Conflictf ''issue %q cannot be acknowledged from state %s'' [FStr ID, FStr (state_text current)])
      else if state = StateActive \<and> current \<noteq> StateResolved
      then Inl (Conflictf ''issue %q cannot be reopened from state %s'' [FStr ID, FStr (state_text current)])
      else
        (let i1 = i\<lparr>is_State := state\<rparr>;
             i2 = (if state = StateAcknowledged
                   then i1\<lparr>is_AcknowledgedAt := Some now, is_AcknowledgedBy := trim_space actor\<rparr> else i1);
             i3 = (if state = StateActive then i2\<lparr>is_ResolvedAt := None, is_ResolvedBy := ''''\<rparr> else i2)
         in Inr (i3\<lparr>is_History := is_History i3 @
                   [\<lparr>le_State = state, le_Timestamp = now, le_Actor = actor, le_Note = note\<rparr>]\<rparr>)))"

definition transition ::
    "issue_env \<Rightarrow> issue_disk \<Rightarrow> string \<Rightarrow> issue_state \<Rightarrow> string \<Rightarrow> string \<Rightarrow> issue_store \<Rightarrow> (issue, issue_store) res" where
  "transition E D ID state actor note s = change_issue E D ID (transition_change ID state actor note) s"

definition IssueAcknowledge :: "issue_env \<Rightarrow> issue_disk \<Rightarrow> string \<Rightarrow> string \<Rightarrow> issue_store \<Rightarrow> (issue, issue_store) res" where
  "IssueAcknowledge E D ID actor = transition E D ID StateAcknowledged actor ''acknowledged''"

definition IssueReopen :: "issue_env \<Rightarrow> issue_disk \<Rightarrow> string \<Rightarrow> string \<Rightarrow> issue_store \<Rightarrow> (issue, issue_store) res" where
  "IssueReopen E D ID actor = transition E D ID StateActive actor ''reopened''"

definition IssueRecent :: "issue_env \<Rightarrow> int \<Rightarrow> string \<Rightarrow> issue_store \<Rightarrow> (issue list, issue_store) res" where
  "IssueRecent E n source s =
     on_res (loadLocked E s)
       (\<lambda>f s1.
          (let filtered = map cloneIssue (filter (\<lambda>i. source = '''' \<or> prefix source (is_Source i)) (sf_Issues f)) in
           if n \<le> 0 \<or> int (length filtered) \<le> n then (Inr filtered, s1)
           else (Inr (drop (length filtered - nat n) filtered), s1)))
       (\<lambda>e s1. (Inl e, s1))"

end
