(* ===== verification/Wire.thy ===== *)
theory Wire
  imports Regex
begin

text \<open>
  The text of errors and their form on the wire: \<^verbatim>\<open>fmt.Sprintf\<close> over the formats the
  program uses, the redaction of secrets, \<^verbatim>\<open>ToWire\<close> and \<^verbatim>\<open>FromWire\<close> of
  \<^verbatim>\<open>internal/domain/errors.go\<close>. The text of an operating system error is whatever
  \<open>IOError\<close> carries.
\<close>

section \<open>Texts\<close>

text \<open>\<^verbatim>\<open>strconv.Quote\<close> on bytes; what is not ASCII is printed as it is.\<close>

definition hex_digit :: "nat \<Rightarrow> char" where
  "hex_digit d = (if d < 10 then char_of (48 + d) else char_of (87 + d))"

definition quote_char :: "char \<Rightarrow> string" where
  "quote_char c =
     (if c = CHR 0x22 then [CHR 0x5C, CHR 0x22]
      else if c = CHR 0x5C then [CHR 0x5C, CHR 0x5C]
      else if c = CHR 0x07 then [CHR 0x5C, CHR ''a'']
      else if c = CHR 0x08 then [CHR 0x5C, CHR ''b'']
      else if c = CHR 0x0C then [CHR 0x5C, CHR ''f'']
      else if c = CHR 0x0A then [CHR 0x5C, CHR ''n'']
      else if c = CHR 0x0D then [CHR 0x5C, CHR ''r'']
      else if c = CHR 0x09 then [CHR 0x5C, CHR ''t'']
      else if c = CHR 0x0B then [CHR 0x5C, CHR ''v'']
      else if (of_char c :: nat) < 32 \<or> c = CHR 0x7F
      then [CHR 0x5C, CHR ''x'', hex_digit (of_char c div 16), hex_digit (of_char c mod 16)]
      else [c])"

definition go_quote :: "string \<Rightarrow> string" where
  "go_quote s = CHR 0x22 # concat (map quote_char s) @ [CHR 0x22]"

text \<open>The verbs take the arguments in order; \<^verbatim>\<open>%q\<close> quotes.\<close>

fun sprintf :: "string \<Rightarrow> string list \<Rightarrow> string" where
  "sprintf [] args = []"
| "sprintf [c] args = [c]"
| "sprintf (c # v # cs) args =
     (if c \<noteq> CHR ''%'' then c # sprintf (v # cs) args
      else if v = CHR ''%'' then CHR ''%'' # sprintf cs args
      else case args of
             [] \<Rightarrow> ''%!'' @ [v] @ ''(MISSING)'' @ sprintf cs []
           | a # as \<Rightarrow> (if v = CHR ''q'' then go_quote a else a) @ sprintf cs as)"

primrec phase_text :: "startup_phase \<Rightarrow> string" where
  "phase_text StartPhaseIdle = ''idle''"
| "phase_text StartPhaseBindingListeners = ''binding_listeners''"
| "phase_text StartPhaseReconciling = ''reconciling''"
| "phase_text StartPhaseReady = ''ready''"

fun err_text :: "err \<Rightarrow> string" and args_text :: "fmt_arg list \<Rightarrow> string list" where
  "err_text (Errorf f args) = sprintf f (args_text args)"
| "err_text (DomainError c f args) = sprintf f (args_text args)"
| "err_text (StartupGateError p c t) =
     sprintf ''startup reconciliation in progress (%d/%d complete, phase=%s)''
       [show_int c, show_int t, phase_text p]"
| "err_text (IOError m) = m"
| "args_text [] = []"
| "args_text (FStr s # as) = s # args_text as"
| "args_text (FInt i # as) = show_int i # args_text as"
| "args_text (FErr e # as) = err_text e # args_text as"

section \<open>Redaction\<close>

definition key_re :: re where
  "key_re =
     Alts [Cats [CatI ''api'', Opt (Cls (\<lambda>c. c \<in> {CHR ''_'', CHR ''-''})), CatI ''key''],
           CatI ''token'', CatI ''secret'', CatI ''password'']"

definition value_char :: "char \<Rightarrow> bool" where
  "value_char c \<longleftrightarrow> \<not> re_space_char c \<and> c \<noteq> CHR '','' \<and> c \<noteq> CHR '';''"

definition secret_re :: re where
  "secret_re =
     Cats [WordB, Grp 1 key_re,
           Grp 2 (Cats [Star re_space, Cls (\<lambda>c. c \<in> {CHR '':'', CHR ''=''}), Star re_space]),
           Grp 3 (Plus (Cls value_char))]"

definition bearer_re :: re where
  "bearer_re =
     Cats [WordB, Grp 1 (CatI ''bearer''), Grp 2 (Plus re_space), Grp 3 (Plus (Cls value_char))]"

definition redacted :: "(nat \<times> string) list \<Rightarrow> string" where
  "redacted g = group 1 g @ group 2 g @ ''[redacted]''"

definition secretPatterns :: "re list" where
  "secretPatterns = [secret_re, bearer_re]"

definition Redact :: "string \<Rightarrow> string" where
  "Redact s = foldl (\<lambda>out pattern. ReplaceAll pattern redacted out) s secretPatterns"

section \<open>The wire form\<close>

primrec code_text :: "code \<Rightarrow> string" where
  "code_text CodeMissingService = ''missing_service''"
| "code_text CodeInvalidConfig = ''invalid_config''"
| "code_text CodeReadinessFailure = ''readiness_failure''"
| "code_text CodeConflict = ''conflict''"

record domain_error =
  de_code :: string
  de_message :: string
  de_details :: "string gomap"

record wire_error =
  we_code :: string
  we_error :: string
  we_message :: string
  we_details :: "string gomap"

definition WithDetail :: "string \<Rightarrow> string \<Rightarrow> domain_error \<Rightarrow> domain_error" where
  "WithDetail key value0 e =
     (if key = '''' \<or> value0 = '''' then e else e\<lparr>de_details := AList.update key value0 (de_details e)\<rparr>)"

text \<open>\<^verbatim>\<open>errors.As\<close> finds the first domain error of the chain. None of the program's errors
  has details.\<close>

fun as_domain :: "err \<Rightarrow> domain_error option"
  and as_domain_args :: "fmt_arg list \<Rightarrow> domain_error option" where
  "as_domain (DomainError c f args) =
     Some \<lparr>de_code = code_text c, de_message = sprintf f (args_text args), de_details = []\<rparr>"
| "as_domain (Errorf f args) = as_domain_args args"
| "as_domain (StartupGateError p c t) = None"
| "as_domain (IOError m) = None"
| "as_domain_args [] = None"
| "as_domain_args (FErr e # as) = (case as_domain e of Some d \<Rightarrow> Some d | None \<Rightarrow> as_domain_args as)"
| "as_domain_args (FStr s # as) = as_domain_args as"
| "as_domain_args (FInt i # as) = as_domain_args as"

definition redactDetails :: "string gomap \<Rightarrow> string gomap" where
  "redactDetails details = map (\<lambda>(k, v). (k, Redact v)) details"

definition wire_of :: "domain_error \<Rightarrow> wire_error" where
  "wire_of de =
     (let msg = Redact (de_message de) in
      \<lparr>we_code = de_code de, we_error = msg, we_message = msg, we_details = redactDetails (de_details de)\<rparr>)"

definition ToWire :: "err option \<Rightarrow> wire_error" where
  "ToWire eo =
     (case eo of
        None \<Rightarrow> \<lparr>we_code = '''', we_error = '''', we_message = '''', we_details = []\<rparr>
      | Some e \<Rightarrow>
          (case as_domain e of
             Some de \<Rightarrow> wire_of de
           | None \<Rightarrow>
               (let msg = Redact (err_text e) in
                \<lparr>we_code = '''', we_error = msg, we_message = msg, we_details = []\<rparr>)))"

text \<open>The argument is the decoded body, \<open>None\<close> when it is no JSON object of this form.\<close>

definition FromWire :: "wire_error option \<Rightarrow> domain_error option" where
  "FromWire wo =
     (case wo of
        None \<Rightarrow> None
      | Some wire \<Rightarrow>
          if we_code wire = '''' then None
          else
            (let msg = we_message wire;
                 msg1 = (if msg = '''' then we_error wire else msg);
                 msg2 = (if msg1 = '''' then we_code wire else msg1)
             in Some \<lparr>de_code = we_code wire, de_message = msg2, de_details = we_details wire\<rparr>))"

text \<open>\<^verbatim>\<open>domainHTTPError\<close>: the status and the body.\<close>

definition domainHTTPError :: "err \<Rightarrow> nat \<times> wire_error" where
  "domainHTTPError e = (domainHTTPStatus e, ToWire (Some e))"

section \<open>What redaction hides\<close>

definition secret_key :: "string \<Rightarrow> bool" where
  "secret_key key \<longleftrightarrow>
     map to_lower key \<in> {''apikey'', ''api_key'', ''api-key'', ''token'', ''secret'', ''password''}"

lemma to_lower_letter:
  "to_lower c = d \<Longrightarrow> CHR ''a'' \<le> d \<Longrightarrow> d \<le> CHR ''z'' \<Longrightarrow> word_char c \<and> \<not> re_space_char c"
  by (auto simp: to_lower_def word_char_def re_space_char_def less_eq_char_def split: if_splits)

lemma rmatch_Grp_first:
  "rmatch r p = (b', s', g') # ps \<Longrightarrow>
   \<exists>ps'. rmatch (Grp n r) p = (b', s', (n, rev (take (length b' - length (fst p)) b')) # g') # ps'"
  by simp

lemma map_to_lower_Cons: "map to_lower key = c # cs \<longleftrightarrow> (\<exists>d ds. key = d # ds \<and> to_lower d = c \<and> map to_lower ds = cs)"
  by (cases key) auto

lemma to_lower_fixed [simp]:
  "to_lower CHR ''a'' = CHR ''a''" "to_lower CHR ''p'' = CHR ''p''" "to_lower CHR ''i'' = CHR ''i''"
  "to_lower CHR ''k'' = CHR ''k''" "to_lower CHR ''e'' = CHR ''e''" "to_lower CHR ''y'' = CHR ''y''"
  "to_lower CHR ''t'' = CHR ''t''" "to_lower CHR ''o'' = CHR ''o''" "to_lower CHR ''n'' = CHR ''n''"
  "to_lower CHR ''s'' = CHR ''s''" "to_lower CHR ''c'' = CHR ''c''" "to_lower CHR ''r'' = CHR ''r''"
  "to_lower CHR ''w'' = CHR ''w''" "to_lower CHR ''d'' = CHR ''d''"
  by (simp_all add: to_lower_def)

lemma of_char_to_lower:
  "(of_char (to_lower c) :: nat) = (if 65 \<le> (of_char c :: nat) \<and> (of_char c :: nat) \<le> 90 then of_char c + 32 else of_char c)"
  by (simp add: to_lower_def less_eq_char_def of_char_of)

lemma to_lower_other: "to_lower c = d \<Longrightarrow> d \<in> {CHR ''_'', CHR ''-''} \<Longrightarrow> c = d"
  using of_char_to_lower [of c] by (auto split: if_splits)

lemma key_re_first: "secret_key key \<Longrightarrow> \<exists>ps. rmatch key_re (b, key @ s, g) = (rev key @ b, s, g) # ps"
  unfolding secret_key_def
  by (elim insertE emptyE; simp only: map_to_lower_Cons list.map_disc_iff)
    (auto simp: key_re_def CatI_def Opt_def dest: to_lower_other)

lemma secret_key_chars:
  assumes "secret_key key" shows "key \<noteq> []" "word_char (hd key)" "\<forall>c \<in> set key. \<not> re_space_char c"
proof -
  from assms show "key \<noteq> []" by (auto simp: secret_key_def)
  from assms have "to_lower (hd key) \<in> {CHR ''a'', CHR ''t'', CHR ''s'', CHR ''p''}"
    by (cases key) (auto simp: secret_key_def)
  then show "word_char (hd key)" by (auto dest!: to_lower_letter)
  show "\<forall>c \<in> set key. \<not> re_space_char c"
  proof
    fix c assume "c \<in> set key"
    then have "to_lower c \<in> set (map to_lower key)" by simp
    with assms have "to_lower c \<in> set ''apikeytokensecretpassword_-''" by (auto simp: secret_key_def)
    then have "CHR ''a'' \<le> to_lower c \<and> to_lower c \<le> CHR ''z'' \<or> to_lower c \<in> {CHR ''_'', CHR ''-''}"
      by auto
    then show "\<not> re_space_char c"
      using to_lower_letter [of c "to_lower c"] to_lower_other [of c "to_lower c"]
      by (auto simp: re_space_char_def)
  qed
qed

lemma secret_re_first:
  assumes "secret_key key" and "sep \<in> {CHR '':'', CHR ''=''}" and "v \<noteq> []" and "\<forall>c \<in> set v. value_char c"
  shows "match_at secret_re [] (key @ sep # v) = Some (rev (key @ sep # v), [], [(3, v), (2, [sep]), (1, key)])"
proof -
  let ?spaces = "\<lambda>b s g. \<exists>ps. rmatch (Star re_space) (b, s, g) = (b, s, g) # ps"
  have none: "?spaces b (c # s) g" if "\<not> re_space_char c" for b c s g
    using rmatch_Star_Cls [of re_space_char b "c # s" g] that by (simp add: re_space_def)
  obtain c cs where v: "v = c # cs" using assms(3) by (cases v) auto
  have c: "\<not> re_space_char c" using assms(4) v by (simp add: value_char_def)
  have sep: "\<not> re_space_char sep" using assms(2) by (auto simp: re_space_char_def)
  have w: "at_word (key @ sep # v)"
    using secret_key_chars [OF assms(1)] by (cases key) (auto simp: at_word_def)
  obtain ps1 where k: "rmatch (Grp 1 key_re) ([], key @ sep # v, []) = (rev key, sep # v, [(1, key)]) # ps1"
    using key_re_first [OF assms(1), of "[]" "sep # v" "[]"] by auto
  have "takeWhile value_char v = v" "dropWhile value_char v = []"
    using assms(4) by (auto simp: takeWhile_eq_all_conv dropWhile_eq_Nil_conv)
  moreover have "value_char c" using assms(4) v by simp
  ultimately obtain ps3 where p3: "rmatch (Grp 3 (Plus (Cls value_char))) (sep # rev key, v, [(2, [sep]), (1, key)])
      = (rev v @ sep # rev key, [], [(3, v), (2, [sep]), (1, key)]) # ps3"
    using rmatch_Plus_Cls [of value_char c "sep # rev key" cs "[(2, [sep]), (1, key)]"] v by auto
  obtain ps2 where p2: "rmatch (Grp 2 (Cats [Star re_space, Cls (\<lambda>c. c \<in> {CHR '':'', CHR ''=''}), Star re_space]))
      (rev key, sep # v, [(1, key)]) = (sep # rev key, v, [(2, [sep]), (1, key)]) # ps2"
    using none [OF sep, of "rev key" v "[(1, key)]"] none [OF c, of "sep # rev key" cs "[(1, key)]"] assms(2) v
    by fastforce
  from w k p2 p3 show ?thesis
    by (simp add: match_at_def secret_re_def at_word_def)
qed

lemma bearer_re_none:
  assumes "\<forall>c \<in> set s. \<not> re_space_char c"
  shows "match_at bearer_re b s = None"
proof -
  have plus: "rmatch (Grp 2 (Plus re_space)) q = []" if "q \<in> set (rmatch r (b, s, g))" for q r g
  proof -
    obtain b' s' g' where q: "q = (b', s', g')" by (cases q)
    with rmatch_split [OF that] obtain u where "s = u @ s'" by auto
    with assms have "s' = [] \<or> \<not> re_space_char (hd s')" by (cases s') auto
    then show ?thesis by (cases s') (auto simp: q Plus_def re_space_def)
  qed
  let ?rest = "Cats [Grp 1 (CatI ''bearer''), Grp 2 (Plus re_space), Grp 3 (Plus (Cls value_char))]"
  have "rmatch ?rest (b, s, []) = []"
    unfolding Cats.simps by (rule rmatch_Cat_stuck) (rule plus)
  then have "rmatch (Cat WordB ?rest) (b, s, []) = []" by (simp only: rmatch.simps) simp
  moreover have "bearer_re = Cat WordB ?rest" by (simp add: bearer_re_def)
  ultimately show ?thesis by (simp only: match_at_def list.case)
qed

text \<open>Redaction hides a secret: for every key in any case and every value, the redacted text
  tells nothing of the value.\<close>

theorem Redact_hides:
  assumes "secret_key key" and "sep \<in> {CHR '':'', CHR ''=''}" and "v \<noteq> []" and "\<forall>c \<in> set v. value_char c"
  shows "Redact (key @ sep # v) = key @ sep # ''[redacted]''"
proof -
  obtain c cs where key: "key = c # cs" using secret_key_chars(1) [OF assms(1)] by (cases key) auto
  have first: "ReplaceAll secret_re redacted (key @ sep # v) = key @ sep # ''[redacted]''"
    using secret_re_first [OF assms]
    by (simp add: ReplaceAll_def key replace_from.simps [of secret_re] redacted_def group_def)
  have "\<forall>c \<in> set (key @ sep # ''[redacted]''). \<not> re_space_char c"
    using secret_key_chars(3) [OF assms(1)] assms(2) by (auto simp: re_space_char_def)
  then have "ReplaceAll bearer_re redacted (key @ sep # ''[redacted]'') = key @ sep # ''[redacted]''"
    unfolding ReplaceAll_def by (intro replace_none allI bearer_re_none) (auto dest: in_set_dropD)
  with first show ?thesis by (simp add: Redact_def secretPatterns_def)
qed

theorem Redact_hides_witness: "Redact ''Api_Key=s3cr3t'' = ''Api_Key=[redacted]''"
proof -
  have "secret_key ''Api_Key''" and "\<forall>c \<in> set ''s3cr3t''. value_char c" by code_simp+
  from Redact_hides [OF this(1) _ _ this(2), of "CHR ''=''"] show ?thesis by simp
qed

text \<open>What it misses: a scheme before the value, and quoted keys.\<close>

lemma Redact_leaks:
  "Redact ''token: Bearer s3cr3t'' = ''token: [redacted] s3cr3t''"
  "Redact (go_quote ''password'' @ CHR '':'' # go_quote ''s3cr3t'')
     = go_quote ''password'' @ CHR '':'' # go_quote ''s3cr3t''"
  by code_simp+

section \<open>From the daemon to the client\<close>

lemma CodeOf_None_as_domain:
  "CodeOf e = None \<Longrightarrow> as_domain e = None" "CodeOfArgs as = None \<Longrightarrow> as_domain_args as = None"
  by (induction e and as rule: CodeOf_CodeOfArgs.induct) (auto split: option.splits)

lemma CodeOf_as_domain:
  "CodeOf e = Some c \<Longrightarrow> \<exists>de. as_domain e = Some de \<and> de_code de = code_text c"
  "CodeOfArgs as = Some c \<Longrightarrow> \<exists>de. as_domain_args as = Some de \<and> de_code de = code_text c"
  by (induction e and as rule: CodeOf_CodeOfArgs.induct)
    (auto simp: CodeOf_None_as_domain split: option.splits)

lemma code_text_nonempty [simp]: "code_text c \<noteq> ''''"
  by (cases c) simp_all



end
