(* ===== verification/World.thy ===== *)
theory World
  imports Process_Tree Process Proxy Names Receipt Startup Health Config Issues Wire
begin

text \<open>
  The state of the service layer (\<^verbatim>\<open>internal/service/service.go\<close>): the registry, the process
  manager, the proxy, the watchers, the crash counters, the startup tracker, the receipts, and
  what runs in the background (\<open>w_drains\<close>: old processes waiting for their drain window;
  \<open>w_crashq\<close>: crash handlers that were started). The outside answers through \<open>outside\<close>, whose
  functions take a tick; every call to it advances the tick, so no answer is used twice and
  every sequence of answers is possible. At the points where an operation waits,
  processes may exit (\<open>interfere\<close>).
\<close>

section \<open>Outside\<close>

datatype stat_answer = StatFile | StatDir | StatNotExist | StatError

record outside =
  o_now :: "nat \<Rightarrow> int"
  o_dsk :: "nat \<Rightarrow> bool"
  o_net :: "nat \<Rightarrow> net_env"
  o_ports :: "nat \<Rightarrow> nat \<Rightarrow> err + int"
  o_exec :: "nat \<Rightarrow> exec_env"
  o_start :: "nat \<Rightarrow> err + int"
  o_probe :: "nat \<Rightarrow> nat \<Rightarrow> probe"
  o_children :: "nat \<Rightarrow> int \<Rightarrow> err + int list"
  o_listeners :: "nat \<Rightarrow> int \<Rightarrow> err + int list"
  o_tree_fuel :: nat
  o_alive :: "nat \<Rightarrow> int \<Rightarrow> bool"
  o_drain :: "nat \<Rightarrow> drain_answer"
  o_exits :: "nat \<Rightarrow> nat list"
  o_exit_state :: "nat \<Rightarrow> nat \<Rightarrow> process_state option"
  o_stat :: "nat \<Rightarrow> string \<Rightarrow> stat_answer"
  o_sha256 :: "nat \<Rightarrow> string \<Rightarrow> string option"
  o_watch_ok :: "nat \<Rightarrow> bool"
  o_cwd :: string
  o_logdir :: string
  o_read :: "nat \<Rightarrow> string \<Rightarrow> err + string"
  o_yaml :: "string \<Rightarrow> err + config"
  o_logfile :: "nat \<Rightarrow> err option"
  o_build :: "nat \<Rightarrow> string \<Rightarrow> string \<Rightarrow> (err + unit) \<times> string"
  o_scan :: "nat \<Rightarrow> string \<Rightarrow> string list"
  o_issues :: bool
  o_cancelled :: "nat \<Rightarrow> bool"
  o_stops :: "nat \<Rightarrow> bool"

text \<open>Reading a file, parsing YAML, opening a build log, running a build command in a directory (its
  result and what it prints), the lines of a log file; \<open>o_issues\<close> tells whether the service has an
  issue store; \<open>o_cancelled\<close> whether the context of the restore is cancelled, and \<open>o_stops\<close> whether the
  dispatcher of its jobs then takes notice before the next job.\<close>

section \<open>State\<close>

text \<open>What is written to a build log.\<close>

datatype build_entry =
    BuildStarted int string
  | BuildOutput string
  | BuildFailed int err
  | BuildCompleted int

record world =
  w_reg :: registry
  w_mgr :: procmgr
  w_prx :: pmgr
  w_watch :: "string list gomap"
  w_crashAttempts :: "nat gomap"
  w_startup :: startup_tracker
  w_receipts :: receipt_fs
  w_issues :: "issue list"
  w_buildlogs :: "build_entry list gomap"
  w_drains :: "(nat \<times> int \<times> int) list"
  w_crashq :: "string list"
  w_deploysTotal :: nat
  w_crashesTotal :: nat
  w_tick :: nat

definition tick :: "world \<Rightarrow> world" where
  "tick w = w\<lparr>w_tick := Suc (w_tick w)\<rparr>"

definition now_at :: "outside \<Rightarrow> world \<Rightarrow> int" where
  "now_at E w = o_now E (w_tick w)"

section \<open>Calls into the components\<close>

definition reg_do ::
    "outside \<Rightarrow> (int \<Rightarrow> bool \<Rightarrow> registry \<Rightarrow> ('a, registry) res) \<Rightarrow> world \<Rightarrow> ('a, world) res" where
  "reg_do E f w =
     (case f (o_now E (w_tick w)) (o_dsk E (w_tick w)) (w_reg w) of
        (x, r) \<Rightarrow> (x, (tick w)\<lparr>w_reg := r\<rparr>))"

definition mgr_do ::
    "outside \<Rightarrow> (int \<Rightarrow> bool \<Rightarrow> procmgr \<times> registry \<Rightarrow> ('a, procmgr \<times> registry) res) \<Rightarrow> world
     \<Rightarrow> ('a, world) res" where
  "mgr_do E f w =
     (case f (o_now E (w_tick w)) (o_dsk E (w_tick w)) (w_mgr w, w_reg w) of
        (x, (m, r)) \<Rightarrow> (x, (tick w)\<lparr>w_mgr := m, w_reg := r\<rparr>))"

definition prx_do ::
    "outside \<Rightarrow> (net_env \<Rightarrow> pmgr \<Rightarrow> ('a, pmgr) res) \<Rightarrow> world \<Rightarrow> ('a, world) res" where
  "prx_do E f w =
     (case f (o_net E (w_tick w)) (w_prx w) of (x, p) \<Rightarrow> (x, (tick w)\<lparr>w_prx := p\<rparr>))"

definition spawn_at :: "outside \<Rightarrow> world \<Rightarrow> spawn_env" where
  "spawn_at E w =
     \<lparr>sp_ports = o_ports E (w_tick w), sp_exec = o_exec E (w_tick w),
      sp_start = o_start E (w_tick w), sp_now = o_now E (w_tick w), sp_dsk = o_dsk E (w_tick w)\<rparr>"

text \<open>The calls by their names.\<close>

definition reg_Register :: "outside \<Rightarrow> service \<Rightarrow> world \<Rightarrow> (unit, world) res" where
  "reg_Register E svc = reg_do E (\<lambda>now dsk. Register now dsk svc)"

definition reg_Restore :: "outside \<Rightarrow> service \<Rightarrow> world \<Rightarrow> (unit, world) res" where
  "reg_Restore E svc = reg_do E (\<lambda>now dsk. Restore dsk (Some svc))"

definition reg_UpdateStatus :: "outside \<Rightarrow> string \<Rightarrow> service_status \<Rightarrow> int \<Rightarrow> world \<Rightarrow> world" where
  "reg_UpdateStatus E name st pid w = snd (reg_do E (\<lambda>now dsk. UpdateStatus now dsk name st pid) w)"

definition reg_UpdateLastDeployed :: "outside \<Rightarrow> string \<Rightarrow> world \<Rightarrow> world" where
  "reg_UpdateLastDeployed E name w =
     snd (reg_do E (\<lambda>now dsk. UpdateLastDeployed now dsk name now) w)"

text \<open>\<^verbatim>\<open>MarkRunning\<close> gets the current time from \<open>Deploy\<close> and the zero time from a restart.\<close>

definition reg_MarkRunning :: "outside \<Rightarrow> string \<Rightarrow> int \<Rightarrow> bool \<Rightarrow> world \<Rightarrow> world" where
  "reg_MarkRunning E name pid deployed w =
     snd (reg_do E (\<lambda>now dsk. MarkRunning now dsk name pid (if deployed then now else 0)) w)"

definition reg_UpdateCrashState :: "outside \<Rightarrow> string \<Rightarrow> nat \<Rightarrow> bool \<Rightarrow> world \<Rightarrow> world" where
  "reg_UpdateCrashState E name attempts gaveUp w =
     snd (reg_do E (\<lambda>now dsk. UpdateCrashState now dsk name (int attempts) gaveUp) w)"

definition reg_Remove :: "outside \<Rightarrow> string \<Rightarrow> world \<Rightarrow> (unit, world) res" where
  "reg_Remove E name = reg_do E (\<lambda>now dsk. Remove dsk name)"

definition mgr_Detach :: "string \<Rightarrow> world \<Rightarrow> detached option \<times> world" where
  "mgr_Detach name w = (case Detach name (w_mgr w) of (d, m) \<Rightarrow> (d, w\<lparr>w_mgr := m\<rparr>))"

definition mgr_StartCandidate :: "outside \<Rightarrow> service \<Rightarrow> world \<Rightarrow> (ports, world) res" where
  "mgr_StartCandidate E svc w = mgr_do E (\<lambda>now dsk. StartCandidate (spawn_at E w) svc) w"

definition mgr_Stop :: "outside \<Rightarrow> string \<Rightarrow> world \<Rightarrow> (unit, world) res" where
  "mgr_Stop E name w = mgr_do E (\<lambda>now dsk. StopProc now dsk (o_drain E (w_tick w)) name) w"

definition mgr_StopFailed :: "outside \<Rightarrow> string \<Rightarrow> world \<Rightarrow> world" where
  "mgr_StopFailed E name w =
     snd (mgr_do E (\<lambda>now dsk. StopFailed now dsk (o_drain E (w_tick w)) name) w)"

definition mgr_Activate :: "outside \<Rightarrow> string \<Rightarrow> world \<Rightarrow> (unit, world) res" where
  "mgr_Activate E name w = (case Activate name (w_mgr w) of (x, m) \<Rightarrow> (x, (tick w)\<lparr>w_mgr := m\<rparr>))"

definition mgr_Restore :: "outside \<Rightarrow> string \<Rightarrow> detached option \<Rightarrow> world \<Rightarrow> (bool, world) res" where
  "mgr_Restore E name dp w =
     (case RestoreProc (o_alive E (w_tick w)) name dp (w_mgr w) of
        (x, m) \<Rightarrow> (x, (tick w)\<lparr>w_mgr := m\<rparr>))"

definition prx_Register :: "outside \<Rightarrow> string \<Rightarrow> ports \<Rightarrow> string \<Rightarrow> world \<Rightarrow> (unit, world) res" where
  "prx_Register E name ports bindAddr = prx_do E (\<lambda>net. RegisterPortsWithBind net name ports bindAddr)"

definition prx_SwapPorts :: "outside \<Rightarrow> string \<Rightarrow> ports \<Rightarrow> world \<Rightarrow> (unit, world) res" where
  "prx_SwapPorts E name ports = prx_do E (\<lambda>net. SwapPorts name ports)"

definition prx_SwapStatic :: "outside \<Rightarrow> string \<Rightarrow> string \<Rightarrow> world \<Rightarrow> (unit, world) res" where
  "prx_SwapStatic E name dir = prx_do E (\<lambda>net. SwapStatic name dir)"

definition prx_UnswapPorts :: "string \<Rightarrow> world \<Rightarrow> world" where
  "prx_UnswapPorts name w = w\<lparr>w_prx := UnswapPorts name (w_prx w)\<rparr>"

definition prx_RemovePorts :: "string \<Rightarrow> world \<Rightarrow> world" where
  "prx_RemovePorts name w = w\<lparr>w_prx := RemovePorts name (w_prx w)\<rparr>"

section \<open>Processes that exit meanwhile\<close>

definition exit_event :: "outside \<Rightarrow> world \<Rightarrow> nat \<Rightarrow> world" where
  "exit_event E w c =
     (case proc_exit (o_now E (w_tick w)) (o_dsk E (w_tick w)) c (o_exit_state E (w_tick w) c)
             (w_mgr w, w_reg w) of
        (crash, (m, r)) \<Rightarrow>
          (tick w)\<lparr>w_mgr := m, w_reg := r,
            w_crashq := w_crashq w @
              (case mg_cmds (w_mgr w) c of
                 Some ci \<Rightarrow> if crash then [cm_name ci] else []
               | None \<Rightarrow> [])\<rparr>)"

definition interfere :: "outside \<Rightarrow> world \<Rightarrow> world" where
  "interfere E w = foldl (exit_event E) (tick w) (o_exits E (w_tick w))"

section \<open>Readiness and ownership of a candidate\<close>

definition wait_healthy :: "outside \<Rightarrow> int \<Rightarrow> string \<Rightarrow> int \<Rightarrow> world \<Rightarrow> (unit, world) res" where
  "wait_healthy E port path timeout w =
     ((case waitHTTPReady (o_probe E (w_tick w)) (now_at E w) port path timeout of
         Some (Inr t) \<Rightarrow> Inr ()
       | Some (Inl e) \<Rightarrow> Inl e
       | None \<Rightarrow> Inl (Errorf ''readiness poll did not end'' [])), interfere E w)"

text \<open>The readiness poll always ends (\<open>waitHTTPReady_not_None\<close>). With \<open>o_tree_fuel\<close> at least the number of processes the walk always ends
  (\<open>processTreePIDs_exact\<close>).\<close>

definition verify_owned :: "outside \<Rightarrow> ports \<Rightarrow> int \<Rightarrow> world \<Rightarrow> (unit, world) res" where
  "verify_owned E ports pid w =
     ((case VerifyPortsOwnedByProcessTree (o_tree_fuel E) (o_children E (w_tick w))
              (o_listeners E (w_tick w)) ports pid of
         Some x \<Rightarrow> x
       | None \<Rightarrow> Inl (Errorf ''process tree walk did not end'' [])), interfere E w)"

section \<open>Small helpers\<close>

definition reg_Get :: "string \<Rightarrow> world \<Rightarrow> service option" where
  "reg_Get name w = Get name (w_reg w)"

text \<open>An error of the operating system carries what it is about, not its text.\<close>

definition stat_err :: "string \<Rightarrow> err" where
  "stat_err path = IOError (''stat '' @ path)"

definition hashPath :: "outside \<Rightarrow> string \<Rightarrow> world \<Rightarrow> string" where
  "hashPath E path w =
     (if o_stat E (w_tick w) path \<in> {StatNotExist, StatError} then ''unknown''
      else case o_sha256 E (w_tick w) path of
             Some hex \<Rightarrow> ''sha:'' @ take 8 hex
           | None \<Rightarrow> ''unknown'')"

definition fallbackString :: "string \<Rightarrow> string \<Rightarrow> string" where
  "fallbackString value0 fallback = (if value0 \<noteq> '''' then value0 else fallback)"

definition isOrphaned :: "outside \<Rightarrow> world \<Rightarrow> service \<Rightarrow> bool" where
  "isOrphaned E w svc =
     (if sv_type svc \<noteq> TypeBinary \<or> sv_binary_path svc = '''' then False
      else if sv_status svc = StatusRunning then False
      else o_stat E (w_tick w) (sv_binary_path svc) = StatNotExist)"

definition watch_Stop :: "string \<Rightarrow> world \<Rightarrow> world" where
  "watch_Stop name w = w\<lparr>w_watch := AList.delete name (w_watch w)\<rparr>"

text \<open>\<^verbatim>\<open>watcher.Start\<close> stops an existing watcher first, then may fail.\<close>

definition startWatcher :: "outside \<Rightarrow> service option \<Rightarrow> world \<Rightarrow> world" where
  "startWatcher E so w =
     (case so of
        None \<Rightarrow> w
      | Some svc \<Rightarrow>
          if sv_watch_paths svc = [] then w
          else (let w1 = watch_Stop (sv_name svc) w in
                (tick w1)\<lparr>w_watch :=
                  (if o_watch_ok E (w_tick w) then AList.update (sv_name svc) (sv_watch_paths svc) (w_watch w1)
                   else w_watch w1)\<rparr>))"

definition write_receipt :: "outside \<Rightarrow> service option \<Rightarrow> world \<Rightarrow> world" where
  "write_receipt E so w =
     (tick w)\<lparr>w_receipts := writeReceipt (o_dsk E (w_tick w)) so (w_receipts w)\<rparr>"

definition clear_attempts :: "string \<Rightarrow> world \<Rightarrow> world" where
  "clear_attempts name w = w\<lparr>w_crashAttempts := AList.delete name (w_crashAttempts w)\<rparr>"

text \<open>Issues are handed to the store in this order; a store that fails to save is ignored.\<close>

definition report_issue :: "outside \<Rightarrow> issue \<Rightarrow> world \<Rightarrow> world" where
  "report_issue E i w = (if o_issues E then w\<lparr>w_issues := w_issues w @ [i]\<rparr> else w)"

definition load_config :: "outside \<Rightarrow> string \<Rightarrow> world \<Rightarrow> (config, world) res" where
  "load_config E path w =
     (config_load (o_read E (w_tick w)) (o_yaml E) (Inr (o_cwd E)) path, tick w)"

definition build_log_of :: "string \<Rightarrow> world \<Rightarrow> build_entry list" where
  "build_log_of path w = (case map_of (w_buildlogs w) path of Some es \<Rightarrow> es | None \<Rightarrow> [])"

definition log_build :: "string \<Rightarrow> build_entry list \<Rightarrow> world \<Rightarrow> world" where
  "log_build path es w = w\<lparr>w_buildlogs := AList.update path (build_log_of path w @ es) (w_buildlogs w)\<rparr>"

definition truncate_build_log :: "string \<Rightarrow> world \<Rightarrow> world" where
  "truncate_build_log path w = w\<lparr>w_buildlogs := AList.update path [] (w_buildlogs w)\<rparr>"

text \<open>The end of a replacement: the old process is marked as draining at once, so that its exit is
  no crash, and is terminated in the background after the drain window.\<close>

definition schedule_drain :: "detached option \<Rightarrow> int \<Rightarrow> world \<Rightarrow> world" where
  "schedule_drain oldProc window w =
     (case oldProc of
        None \<Rightarrow> w
      | Some d \<Rightarrow>
          (case MarkDrainingProcess (Some (dt_cmd d)) (w_mgr w) of
             (pid, m) \<Rightarrow>
               w\<lparr>w_mgr := m,
                 w_drains := w_drains w @
                   [(dt_cmd d, if pid = 0 then DetachedPID oldProc (w_mgr w) else pid, window)]\<rparr>))"

text \<open>The background drain, when its window is over.\<close>

definition run_drain :: "outside \<Rightarrow> world \<Rightarrow> world" where
  "run_drain E w =
     (case w_drains w of
        [] \<Rightarrow> w
      | (c, pid, window) # rest \<Rightarrow>
          snd (mgr_do E (\<lambda>now dsk. drain_cmd now dsk (o_drain E (w_tick w)) c) (w\<lparr>w_drains := rest\<rparr>)))"

end
