(* ===== verification/Service.thy ===== *)
theory Service
  imports World
begin

text \<open>
  The operations of \<^verbatim>\<open>internal/service/service.go\<close>, \<^verbatim>\<open>archive.go\<close> and \<^verbatim>\<open>startup_state.go\<close> over
  \<open>world\<close>: port allocation, deploy with its rollback paths, restart, rollback, stop, remove,
  reserve, archive, prune, teardown, the crash handler, and the queries. Each operation is one
  function on the state: calls for one service are serialised by its deploy lock where the code
  takes it, and what else happens meanwhile is that processes exit (\<open>interfere\<close>). Two operations
  that overlap in time are not modelled. Where the code would dereference a record that is
  missing right after it was stored, the model has an error; that branch is never taken.
  Notifications and log lines are left out.
\<close>

section \<open>The startup gate\<close>

definition defaultRestoreMaxParallel :: int where "defaultRestoreMaxParallel = 4"

definition ensure_mutable :: "world \<Rightarrow> err + unit" where
  "ensure_mutable w = ensureMutable (w_startup w)"

definition BeginStartup :: "outside \<Rightarrow> int \<Rightarrow> world \<Rightarrow> world" where
  "BeginStartup E maxParallel0 w =
     (let maxParallel = (if maxParallel0 \<le> 0 then defaultRestoreMaxParallel else maxParallel0) in
      w\<lparr>w_startup := tracker_begin (now_at E w) (int (length (All (w_reg w)))) maxParallel (w_startup w)\<rparr>)"

text \<open>Every mutator starts with the gate.\<close>

definition gated :: "(world \<Rightarrow> ('a, world) res) \<Rightarrow> world \<Rightarrow> ('a, world) res" where
  "gated f w = (case ensure_mutable w of Inl e \<Rightarrow> (Inl e, w) | Inr _ \<Rightarrow> f w)"

section \<open>Allocating stable ports\<close>

definition portRange :: "int list" where
  "portRange = [8100..8200]"

definition reservedPorts :: "int list" where
  "reservedPorts = [7700, 7701]"

fun alloc_range ::
    "outside \<Rightarrow> string \<Rightarrow> string \<Rightarrow> string \<Rightarrow> int list \<Rightarrow> int list \<Rightarrow> world \<Rightarrow> (int, world) res" where
  "alloc_range E name portName bindAddr used [] w =
     (Inl (Conflictf ''no available ports in range %d-%d for %s (port %s)''
        [FInt 8100, FInt 8200, FStr name, FStr portName]), w)"
| "alloc_range E name portName bindAddr used (port # ps) w =
     (if port \<in> set used then alloc_range E name portName bindAddr used ps w
      else on_res (prx_Register E name [(portName, port)] bindAddr w)
             (\<lambda>_ w1. (Inr port, w1))
             (\<lambda>_ w1. alloc_range E name portName bindAddr used ps w1))"

definition allocateOnePort ::
    "outside \<Rightarrow> string \<Rightarrow> string \<Rightarrow> int \<Rightarrow> int list \<Rightarrow> string \<Rightarrow> world \<Rightarrow> (int, world) res" where
  "allocateOnePort E name portName preferred used bindAddr w =
     (if preferred \<noteq> 0 then
        if preferred \<in> set reservedPorts
        then (Inl (Conflictf ''port %d is reserved by Anito and cannot be assigned to a service''
                     [FInt preferred]), w)
        else if preferred \<notin> set used then
          on_res (prx_Register E name [(portName, preferred)] bindAddr w)
            (\<lambda>_ w1. (Inr preferred, w1))
            (\<lambda>_ w1. alloc_range E name portName bindAddr used portRange w1)
        else alloc_range E name portName bindAddr used portRange w
      else alloc_range E name portName bindAddr used portRange w)"

fun alloc_new ::
    "outside \<Rightarrow> string \<Rightarrow> string \<Rightarrow> int list \<Rightarrow> ports \<Rightarrow> ports \<Rightarrow> world \<Rightarrow> (ports, world) res" where
  "alloc_new E name bindAddr used result [] w = (Inr result, w)"
| "alloc_new E name bindAddr used result ((portName, pref) # preferred) w =
     on_res (allocateOnePort E name portName pref used bindAddr w)
       (\<lambda>port w1. alloc_new E name bindAddr (port # used) (AList.update portName port result) preferred w1)
       (\<lambda>e w1. (Inl e, prx_RemovePorts name w1))"

definition allocatePorts ::
    "outside \<Rightarrow> string \<Rightarrow> ports \<Rightarrow> string \<Rightarrow> world \<Rightarrow> (ports, world) res" where
  "allocatePorts E name preferred bindAddr w =
     (case reg_Get name w of
        Some existing \<Rightarrow>
          if sv_stable_ports existing \<noteq> []
          then (Inr (sv_stable_ports existing),
                snd (prx_Register E name (sv_stable_ports existing) (sv_proxy_bind_address existing) w))
          else alloc_new E name bindAddr (UsedPorts (w_reg w)) [] preferred w
      | None \<Rightarrow> alloc_new E name bindAddr (UsedPorts (w_reg w)) [] preferred w)"

section \<open>Deploy requests\<close>

record deploy_request =
  dr_Name :: string
  dr_Version :: string
  dr_VersionPath :: string
  dr_Type :: service_type
  dr_Path :: string
  dr_Args :: "string list"
  dr_StablePort :: int
  dr_StablePorts :: ports
  dr_ProxyBindAddress :: string
  dr_HealthCheckPort :: string
  dr_EnvFile :: string
  dr_HealthCheck :: string
  dr_WatchPaths :: "string list"
  dr_DrainWindow :: int
  dr_HealthCheckTimeout :: int
  dr_RestartPolicy :: string
  dr_ConfigPath :: string

text \<open>The empty type of the request is \<open>TypeOther ''''\<close>.\<close>

primrec type_text :: "service_type \<Rightarrow> string" where
  "type_text TypeBinary = ''binary''"
| "type_text TypeStatic = ''static''"
| "type_text (TypeOther s) = s"

definition validateDeployRequest :: "outside \<Rightarrow> world \<Rightarrow> deploy_request \<Rightarrow> err + unit" where
  "validateDeployRequest E w req =
     (case validateServiceName (dr_Name req) of
        Inl e \<Rightarrow> Inl e
      | Inr _ \<Rightarrow>
          if dr_Path req = '''' then Inl (InvalidConfigf ''service path is required'' [])
          else
            (let typeName = (if dr_Type req = TypeOther '''' then TypeBinary else dr_Type req);
                 st = o_stat E (w_tick w) (dr_Path req) in
             if typeName \<noteq> TypeBinary \<and> typeName \<noteq> TypeStatic
             then Inl (InvalidConfigf ''service %q has unsupported type %q''
                         [FStr (dr_Name req), FStr (type_text typeName)])
             else if st = StatNotExist \<or> st = StatError
             then Inl (InvalidConfigf ''service %q path %s: %v''
                         [FStr (dr_Name req), FStr (dr_Path req), FErr (stat_err (dr_Path req))])
             else if typeName = TypeBinary \<and> st = StatDir
             then Inl (InvalidConfigf ''service %q binary path is a directory: %s''
                         [FStr (dr_Name req), FStr (dr_Path req)])
             else if typeName = TypeStatic \<and> st \<noteq> StatDir
             then Inl (InvalidConfigf ''service %q static path is not a directory: %s''
                         [FStr (dr_Name req), FStr (dr_Path req)])
             else if dr_HealthCheck req \<noteq> '''' \<and> \<not> prefix ''/'' (dr_HealthCheck req)
             then Inl (InvalidConfigf ''service %q health_check must start with /'' [FStr (dr_Name req)])
             else if dr_RestartPolicy req \<notin> {'''', ''always'', ''on-watch'', ''never''}
             then Inl (InvalidConfigf ''service %q restart_policy must be always, on-watch, or never''
                         [FStr (dr_Name req)])
             else Inr ()))"

definition default_request :: "deploy_request \<Rightarrow> deploy_request" where
  "default_request req =
     req\<lparr>dr_HealthCheck := (if dr_HealthCheck req = '''' then ''/health'' else dr_HealthCheck req),
         dr_Type := (if dr_Type req = TypeOther '''' then TypeBinary else dr_Type req),
         dr_EnvFile := (if dr_EnvFile req = ''null'' then '''' else dr_EnvFile req),
         dr_StablePorts := (if dr_StablePorts req = [] then [(''default'', dr_StablePort req)]
                            else dr_StablePorts req)\<rparr>"

definition defaultDrainWindow :: int where "defaultDrainWindow = 2 * second"

definition request_drain :: "deploy_request \<Rightarrow> int" where
  "request_drain req = (if dr_DrainWindow req = 0 then defaultDrainWindow else dr_DrainWindow req)"

definition request_timeout :: "deploy_request \<Rightarrow> int" where
  "request_timeout req =
     (if dr_HealthCheckTimeout req = 0 then defaultHealthCheckTimeout else dr_HealthCheckTimeout req)"

definition request_version :: "outside \<Rightarrow> world \<Rightarrow> deploy_request \<Rightarrow> string" where
  "request_version E w req =
     (if dr_Version req \<noteq> '''' then dr_Version req
      else hashPath E (if dr_VersionPath req = '''' then dr_Path req else dr_VersionPath req) w)"

definition request_service :: "deploy_request \<Rightarrow> string \<Rightarrow> ports \<Rightarrow> service" where
  "request_service req version stablePorts =
     NormalizePorts (zero_service
       \<lparr>sv_name := dr_Name req, sv_version := version, sv_type := dr_Type req,
        sv_binary_path := dr_Path req, sv_args := dr_Args req, sv_stable_ports := stablePorts,
        sv_proxy_bind_address := dr_ProxyBindAddress req,
        sv_health_check_port := dr_HealthCheckPort req, sv_env_file := dr_EnvFile req,
        sv_health_check := dr_HealthCheck req, sv_watch_paths := dr_WatchPaths req,
        sv_drain_window := request_drain req, sv_health_check_timeout := request_timeout req,
        sv_restart_policy := (if dr_RestartPolicy req = '''' then ''on-watch'' else dr_RestartPolicy req),
        sv_config_path := dr_ConfigPath req, sv_status := StatusStopped\<rparr>)"

section \<open>Rolling back a failed deploy\<close>

text \<open>The failed start stays in the history of the restored record.\<close>

definition with_lifecycle :: "world \<Rightarrow> string \<Rightarrow> service \<Rightarrow> service" where
  "with_lifecycle w name previous =
     (case reg_Get name w of
        Some current \<Rightarrow> previous\<lparr>sv_last_started_at := sv_last_started_at current,
                                sv_start_history := sv_start_history current\<rparr>
      | None \<Rightarrow> previous)"

definition restore_routes :: "outside \<Rightarrow> string \<Rightarrow> service \<Rightarrow> world \<Rightarrow> world" where
  "restore_routes E name previous w =
     on_res (prx_Register E name (sv_stable_ports previous) (sv_proxy_bind_address previous) w)
       (\<lambda>_ w1.
          if sv_type previous = TypeStatic
          then snd (prx_SwapStatic E name (sv_binary_path previous) w1)
          else if sv_internal_ports previous \<noteq> []
          then snd (prx_SwapPorts E name (sv_internal_ports previous) w1)
          else w1)
       (\<lambda>_ w1. w1)"

definition restoreFailedDeploy ::
    "outside \<Rightarrow> string \<Rightarrow> service option \<Rightarrow> detached option \<Rightarrow> world \<Rightarrow> world" where
  "restoreFailedDeploy E name previous oldProc w =
     (let w1 = (if oldProc \<noteq> None then snd (mgr_Restore E name oldProc w) else w) in
      case previous of
        Some prev \<Rightarrow>
          (let prev' = with_lifecycle w1 name prev
           in restore_routes E name prev' (snd (reg_Restore E prev' w1)))
      | None \<Rightarrow> prx_RemovePorts name (snd (reg_Remove E name w1)))"

definition restorePrevious ::
    "outside \<Rightarrow> string \<Rightarrow> service option \<Rightarrow> detached option \<Rightarrow> world \<Rightarrow> world" where
  "restorePrevious E name previous old w =
     (case previous of
        None \<Rightarrow> reg_UpdateStatus E name StatusFailed 0 (prx_UnswapPorts name w)
      | Some prev \<Rightarrow>
          (let prev' = with_lifecycle w name prev;
               finish = (\<lambda>w. if sv_status prev' = StatusRunning \<and> \<not> IsRunning name (w_mgr w)
                                \<and> sv_type prev' = TypeBinary
                             then reg_UpdateStatus E name StatusFailed 0 (prx_UnswapPorts name w)
                             else w)
           in on_res (reg_Restore E prev' w)
                (\<lambda>_ w1.
                   if old = None then finish w1
                   else on_res (mgr_Restore E name old w1)
                          (\<lambda>restored w2.
                             if \<not> restored then finish w2
                             else
                               (let w3 = (if sv_internal_ports prev' \<noteq> []
                                          then snd (prx_SwapPorts E name (sv_internal_ports prev') w2) else w2)
                                in reg_UpdateStatus E name StatusRunning (DetachedPID old (w_mgr w3)) w3))
                          (\<lambda>_ w2. finish w2))
                (\<lambda>_ w1. w1)))"

section \<open>Promoting a candidate\<close>

text \<open>The steps \<open>Deploy\<close> and \<open>restartLocked\<close> share once the candidate is ready: swap every port
  to it, check that it still lives, activate it, record it as running, forget its crashes,
  and let the old process drain. \<open>bad\<close> undoes a failure; the two last failures leave the
  candidate to its own exit.\<close>

definition promote ::
    "outside \<Rightarrow> string \<Rightarrow> ports \<Rightarrow> bool \<Rightarrow> int \<Rightarrow> detached option
     \<Rightarrow> (world \<Rightarrow> world) \<Rightarrow> world \<Rightarrow> (unit, world) res" where
  "promote E name internalPorts deployed window oldProc undo w =
     on_res (prx_SwapPorts E name internalPorts w)
       (\<lambda>_ w1.
          (let newPID = ProcPID name (w_mgr w1); w2 = interfere E w1 in
           if newPID = 0
           then (Inl (Errorf ''service %q candidate exited before activation'' [FStr name]), undo w2)
           else
             on_res (mgr_Activate E name w2)
               (\<lambda>_ w3.
                  (Inr (),
                   schedule_drain oldProc window
                     (clear_attempts name
                       (reg_UpdateCrashState E name 0 False
                         (reg_MarkRunning E name newPID deployed w3)))))
               (\<lambda>e w3. (Inl e, undo w3))))
       (\<lambda>e w1. (Inl e, undo (mgr_StopFailed E name w1)))"

section \<open>Deploy\<close>

definition deploy_static ::
    "outside \<Rightarrow> deploy_request \<Rightarrow> service option \<Rightarrow> service \<Rightarrow> world \<Rightarrow> (service option, world) res" where
  "deploy_static E req previous svc w =
     on_res (prx_Register E (sv_name svc) (sv_stable_ports svc) (sv_proxy_bind_address svc) w)
       (\<lambda>_ w1.
          on_res (prx_SwapStatic E (dr_Name req) (dr_Path req) w1)
            (\<lambda>_ w2.
               (let w3 = reg_UpdateLastDeployed E (dr_Name req)
                           (reg_UpdateStatus E (dr_Name req) StatusRunning 0 w2);
                    svc' = reg_Get (dr_Name req) w3
                in (Inr svc', write_receipt E svc' (w3\<lparr>w_deploysTotal := Suc (w_deploysTotal w3)\<rparr>))))
            (\<lambda>e w2. (Inl e, restoreFailedDeploy E (dr_Name req) previous None w2)))
       (\<lambda>e w1. (Inl e, restorePrevious E (dr_Name req) previous None w1))"

definition deploy_binary ::
    "outside \<Rightarrow> deploy_request \<Rightarrow> service option \<Rightarrow> service \<Rightarrow> world \<Rightarrow> (service option, world) res" where
  "deploy_binary E req previous svc w =
     (let name = dr_Name req;
          (oldProc, w0) = mgr_Detach (sv_name svc) w;
          undo = restoreFailedDeploy E name previous oldProc
      in
      on_res (mgr_StartCandidate E svc w0)
        (\<lambda>internalPorts w1.
           on_res (wait_healthy E (PickPort internalPorts (dr_HealthCheckPort req))
                     (dr_HealthCheck req) (request_timeout req) w1)
             (\<lambda>_ w2.
                on_res (verify_owned E internalPorts (ProcPID name (w_mgr w2)) w2)
                  (\<lambda>_ w3.
                     on_res (prx_Register E (sv_name svc) (sv_stable_ports svc)
                               (sv_proxy_bind_address svc) w3)
                       (\<lambda>_ w4.
                          on_res (promote E name internalPorts True (request_drain req) oldProc undo w4)
                            (\<lambda>_ w5.
                               (let svc' = reg_Get name w5 in
                                (Inr svc',
                                 write_receipt E svc'
                                   (startWatcher E svc'
                                     (w5\<lparr>w_deploysTotal := Suc (w_deploysTotal w5)\<rparr>)))))
                            (\<lambda>e w5. (Inl e, w5)))
                       (\<lambda>e w4. (Inl e, undo (mgr_StopFailed E name w4))))
                  (\<lambda>e w3. (Inl e, undo (snd (mgr_Stop E name w3)))))
             (\<lambda>e w2. (Inl e, undo (mgr_StopFailed E name w2))))
        (\<lambda>e w1. (Inl e, undo w1)))"

text \<open>The request is valid and has its defaults: assign the ports, stage the record, deploy.\<close>

definition deploy_registered ::
    "outside \<Rightarrow> deploy_request \<Rightarrow> service option \<Rightarrow> world \<Rightarrow> (service option, world) res" where
  "deploy_registered E req previous w =
     (case reg_Get (dr_Name req) w of
        None \<Rightarrow> (Inl (IOError ''unregistered''), w)
      | Some svc \<Rightarrow>
          if dr_Type req = TypeStatic then deploy_static E req previous svc w
          else deploy_binary E req previous svc w)"

definition deploy_valid :: "outside \<Rightarrow> deploy_request \<Rightarrow> world \<Rightarrow> (service option, world) res" where
  "deploy_valid E req w =
     (let previous = reg_Get (dr_Name req) w in
      on_res (allocatePorts E (dr_Name req) (dr_StablePorts req) (dr_ProxyBindAddress req) (tick w))
        (\<lambda>stablePorts w1.
           on_res (reg_Register E (request_service req (request_version E w1 req) stablePorts) w1)
             (\<lambda>_ w2. deploy_registered E req previous w2)
             (\<lambda>e w2. (Inl e, w2)))
        (\<lambda>e w1. (Inl e, w1)))"

definition Deploy :: "outside \<Rightarrow> deploy_request \<Rightarrow> world \<Rightarrow> (service option, world) res" where
  "Deploy E req0 = gated (\<lambda>w.
     case ValidateServiceName (dr_Name req0) of
       Inl e \<Rightarrow> (Inl e, w)
     | Inr _ \<Rightarrow>
         (case validateDeployRequest E w req0 of
            Inl e \<Rightarrow> (Inl e, w)
          | Inr _ \<Rightarrow>
              (let req = default_request req0 in
               case ValidateProxyBindAddress (o_net E (w_tick w)) (dr_ProxyBindAddress req) of
                 Inl e \<Rightarrow> (Inl e, w)
               | Inr _ \<Rightarrow> deploy_valid E req w)))"

section \<open>Stop, restart, rollback\<close>

definition ServiceStop :: "outside \<Rightarrow> string \<Rightarrow> world \<Rightarrow> (unit, world) res" where
  "ServiceStop E name = gated (\<lambda>w.
     case reg_Get name w of
       None \<Rightarrow> (Inl (MissingServicef ''service %q not found'' [FStr name]), w)
     | Some _ \<Rightarrow>
         on_res (mgr_Stop E name (watch_Stop name w))
           (\<lambda>_ w1. (Inr (), prx_UnswapPorts name (reg_UpdateStatus E name StatusStopped 0 w1)))
           (\<lambda>e w1. (Inl e, prx_UnswapPorts name w1)))"

definition restartLocked :: "outside \<Rightarrow> string \<Rightarrow> world \<Rightarrow> (unit, world) res" where
  "restartLocked E name w =
     (case reg_Get name w of
        None \<Rightarrow> (Inl (MissingServicef ''service %q not found'' [FStr name]), w)
      | Some svc \<Rightarrow>
          if sv_type svc \<noteq> TypeBinary then (Inr (), w)
          else
            (let (oldProc, w0) = mgr_Detach name w;
                 undo = restoreFailedDeploy E name (Some svc) oldProc;
                 hcTimeout = (if sv_health_check_timeout svc = 0 then defaultHealthCheckTimeout
                              else sv_health_check_timeout svc);
                 window = (if sv_drain_window svc = 0 then defaultDrainWindow else sv_drain_window svc)
             in
             on_res (mgr_StartCandidate E svc w0)
               (\<lambda>internalPorts w1.
                  on_res (wait_healthy E (PickPort internalPorts (sv_health_check_port svc))
                            (sv_health_check svc) hcTimeout w1)
                    (\<lambda>_ w2.
                       on_res (verify_owned E internalPorts (ProcPID name (w_mgr w2)) w2)
                         (\<lambda>_ w3. promote E name internalPorts False window oldProc undo w3)
                         (\<lambda>e w3. (Inl e, undo (mgr_StopFailed E name w3))))
                    (\<lambda>e w2. (Inl e, undo (mgr_StopFailed E name w2))))
               (\<lambda>e w1. (Inl e, undo w1))))"

definition ServiceRestart :: "outside \<Rightarrow> string \<Rightarrow> world \<Rightarrow> (unit, world) res" where
  "ServiceRestart E name = gated (\<lambda>w.
     case ValidateServiceName name of Inl e \<Rightarrow> (Inl e, w) | Inr _ \<Rightarrow> restartLocked E name w)"

definition rollback_service :: "string \<Rightarrow> service \<Rightarrow> deployment_snapshot \<Rightarrow> service" where
  "rollback_service name current prev =
     NormalizePorts (zero_service
       \<lparr>sv_name := name, sv_version := ds_version prev, sv_type := ds_type prev,
        sv_config_path := ds_config_path prev, sv_binary_path := ds_binary_path prev,
        sv_args := ds_args prev, sv_stable_ports := copyPorts (sv_stable_ports current),
        sv_proxy_bind_address := fallbackString (ds_proxy_bind_address prev) (sv_proxy_bind_address current),
        sv_health_check_port := ds_health_check_port prev, sv_env_file := ds_env_file prev,
        sv_health_check := ds_health_check prev, sv_watch_paths := ds_watch_paths prev,
        sv_drain_window := ds_drain_window prev,
        sv_health_check_timeout := ds_health_check_timeout prev,
        sv_restart_policy := ds_restart_policy prev, sv_status := StatusStopped,
        sv_deployed_at := sv_deployed_at current,
        sv_previous_deployment := Some (Snapshot current)\<rparr>)"

text \<open>The previous configuration is registered again: serve it.\<close>

definition rollback_registered :: "outside \<Rightarrow> string \<Rightarrow> service \<Rightarrow> world \<Rightarrow> (service option, world) res" where
  "rollback_registered E name svc w =
     (let finish = (\<lambda>w. let svc' = reg_Get name w in (Inr svc', write_receipt E svc' w)) in
      on_res (prx_Register E (sv_name svc) (sv_stable_ports svc) (sv_proxy_bind_address svc) w)
        (\<lambda>_ w1.
           if sv_type svc = TypeStatic then
             on_res (prx_SwapStatic E (sv_name svc) (sv_binary_path svc) w1)
               (\<lambda>_ w2. finish (reg_UpdateLastDeployed E name (reg_UpdateStatus E name StatusRunning 0 w2)))
               (\<lambda>e w2. (Inl e, w2))
           else
             on_res (restartLocked E name w1)
               (\<lambda>_ w2. finish (reg_UpdateLastDeployed E name w2))
               (\<lambda>e w2. (Inl e, w2)))
        (\<lambda>e w1. (Inl e, w1)))"

definition Rollback :: "outside \<Rightarrow> string \<Rightarrow> world \<Rightarrow> (service option, world) res" where
  "Rollback E name = gated (\<lambda>w.
     case reg_Get name w of
       None \<Rightarrow> (Inl (MissingServicef ''service %q not found'' [FStr name]), w)
     | Some current \<Rightarrow>
         (case sv_previous_deployment current of
            None \<Rightarrow> (Inl (InvalidConfigf ''service %q has no previous deployment'' [FStr name]), w)
          | Some prev \<Rightarrow>
              on_res (reg_Register E (rollback_service name current prev) w)
                (\<lambda>_ w1.
                   (case reg_Get name w1 of
                      None \<Rightarrow> (Inl (IOError ''unregistered''), w1)
                    | Some svc \<Rightarrow> rollback_registered E name svc w1))
                (\<lambda>e w1. (Inl e, w1))))"

section \<open>Remove and teardown\<close>

definition ServiceRemove :: "outside \<Rightarrow> string \<Rightarrow> world \<Rightarrow> (unit, world) res" where
  "ServiceRemove E name = gated (\<lambda>w.
     (let svc = reg_Get name w;
          w1 = prx_RemovePorts name (snd (mgr_Stop E name (watch_Stop name w)))
      in on_res (reg_Remove E name w1)
           (\<lambda>_ w2.
              (Inr (),
               (case svc of
                  None \<Rightarrow> w2
                | Some s \<Rightarrow>
                    (tick w2)\<lparr>w_receipts := snd (ReceiptClear (o_dsk E (w_tick w2)) name
                                              (sv_config_path s) (w_receipts w2))\<rparr>)))
           (\<lambda>e w2. (Inl e, w2))))"

definition teardownEntryBelongsToRepo :: "string \<Rightarrow> world \<Rightarrow> string \<Rightarrow> string \<Rightarrow> receipt_entry \<Rightarrow> bool" where
  "teardownEntryBelongsToRepo cwd w repoRoot name entry =
     (case reg_Get name w of
        None \<Rightarrow> pathWithinRepo cwd repoRoot (re_ConfigPath entry)
      | Some svc \<Rightarrow>
          if \<not> pathWithinRepo cwd repoRoot (sv_config_path svc) then False
          else if re_ConfigPath entry = '''' then True
          else sameCleanPath cwd (re_ConfigPath entry) (sv_config_path svc))"

fun teardown_loop ::
    "outside \<Rightarrow> string \<Rightarrow> receipt_entry gomap \<Rightarrow> string list \<times> (string \<times> err) list \<Rightarrow> world
     \<Rightarrow> (string list \<times> (string \<times> err) list) \<times> world" where
  "teardown_loop E repoRoot [] acc w = (acc, w)"
| "teardown_loop E repoRoot ((name, entry) # entries) (removed, errs) w =
     (if \<not> teardownEntryBelongsToRepo (o_cwd E) w repoRoot name entry
      then teardown_loop E repoRoot entries (removed, errs) w
      else on_res (ServiceRemove E name w)
             (\<lambda>_ w1. teardown_loop E repoRoot entries (removed @ [name], errs) w1)
             (\<lambda>e w1. teardown_loop E repoRoot entries (removed, errs @ [(name, e)]) w1))"

definition Teardown :: "outside \<Rightarrow> string \<Rightarrow> world \<Rightarrow> ((string list \<times> (string \<times> err) list), world) res" where
  "Teardown E repoPath = gated (\<lambda>w.
     (let services = ReceiptLoad repoPath (w_receipts w) in
      if services = [] then (Inr ([], []), w)
      else (case teardown_loop E (path_abs (o_cwd E) repoPath) services ([], []) w of
              (acc, w1) \<Rightarrow>
                (Inr acc,
                 (tick w1)\<lparr>w_receipts := snd (ReceiptDeleteAll (o_dsk E (w_tick w1)) repoPath
                                           (w_receipts w1))\<rparr>))))"

section \<open>Reserve, archive, prune\<close>

definition reserved_service :: "string \<Rightarrow> ports \<Rightarrow> service" where
  "reserved_service name ports =
     NormalizePorts (zero_service\<lparr>sv_name := name, sv_stable_ports := ports, sv_type := TypeBinary,
        sv_health_check := ''/health'', sv_status := StatusStopped\<rparr>)"

definition reserve_if_new :: "outside \<Rightarrow> string \<Rightarrow> ports \<Rightarrow> world \<Rightarrow> world" where
  "reserve_if_new E name ports w =
     (if reg_Get name w = None then snd (reg_Register E (reserved_service name ports) w) else w)"

definition ReservePorts :: "outside \<Rightarrow> string \<Rightarrow> ports \<Rightarrow> world \<Rightarrow> (ports, world) res" where
  "ReservePorts E name preferred = gated (\<lambda>w.
     case ValidateServiceName name of
       Inl e \<Rightarrow> (Inl e, w)
     | Inr _ \<Rightarrow>
         on_res (allocatePorts E name preferred DefaultProxyBindAddress w)
           (\<lambda>ports w1. (Inr ports, reserve_if_new E name ports w1))
           (\<lambda>e w1. (Inl e, w1)))"

definition Reserve :: "outside \<Rightarrow> string \<Rightarrow> int \<Rightarrow> world \<Rightarrow> (int, world) res" where
  "Reserve E name preferredPort = gated (\<lambda>w.
     case ValidateServiceName name of
       Inl e \<Rightarrow> (Inl e, w)
     | Inr _ \<Rightarrow>
         on_res (allocatePorts E name [(''default'', preferredPort)] DefaultProxyBindAddress w)
           (\<lambda>ports w1. (Inr (case map_of ports ''default'' of Some p \<Rightarrow> p | None \<Rightarrow> 0),
                        reserve_if_new E name ports w1))
           (\<lambda>e w1. (Inl e, w1)))"

definition ServiceArchive :: "outside \<Rightarrow> string \<Rightarrow> world \<Rightarrow> (service, world) res" where
  "ServiceArchive E name = gated (\<lambda>w.
     case reg_Get name w of
       None \<Rightarrow> (Inl (MissingServicef ''service %q not found'' [FStr name]), w)
     | Some current \<Rightarrow>
         if sv_status current = StatusRunning
         then (Inl (Conflictf ''service %q is running; stop it before archiving'' [FStr name]), w)
         else on_res (reg_do E (\<lambda>now dsk. Archive now dsk name) w)
                (\<lambda>archived w1. (Inr archived, watch_Stop name w1))
                (\<lambda>e w1. (Inl (Conflictf ''cannot archive service %q: %v'' [FStr name, FErr e]), w1)))"

definition ServiceRestoreArchived :: "outside \<Rightarrow> string \<Rightarrow> world \<Rightarrow> (service, world) res" where
  "ServiceRestoreArchived E name = gated (\<lambda>w.
     case reg_Get name w of
       None \<Rightarrow> (Inl (MissingServicef ''service %q not found'' [FStr name]), w)
     | Some _ \<Rightarrow>
         on_res (reg_do E (\<lambda>now dsk. RestoreArchived now dsk name) w)
           (\<lambda>s w1. (Inr s, w1))
           (\<lambda>e w1. (Inl (Conflictf ''cannot restore archived service %q: %v'' [FStr name, FErr e]), w1)))"

definition ServicePrune :: "outside \<Rightarrow> string \<Rightarrow> world \<Rightarrow> (tombstone, world) res" where
  "ServicePrune E name = gated (\<lambda>w.
     case reg_Get name w of
       None \<Rightarrow> (Inl (MissingServicef ''service %q not found'' [FStr name]), w)
     | Some current \<Rightarrow>
         if sv_status current \<noteq> StatusArchived
         then (Inl (Conflictf ''service %q must be archived before pruning'' [FStr name]), w)
         else on_res (reg_do E (\<lambda>now dsk. Prune now dsk name) (prx_RemovePorts name w))
                (\<lambda>tomb w1. (Inr tomb, w1))
                (\<lambda>e w1. (Inl (Conflictf ''cannot prune service %q: %v'' [FStr name, FErr e]), w1)))"

section \<open>Log files and builds\<close>

definition buildLogFilePath :: "string \<Rightarrow> world \<Rightarrow> string \<Rightarrow> err + string" where
  "buildLogFilePath logDir w name =
     (case ValidateServiceName name of
        Inl e \<Rightarrow> Inl e
      | Inr _ \<Rightarrow>
          (case reg_Get name w of
             None \<Rightarrow> Inl (MissingServicef ''service %q not found'' [FStr name])
           | Some _ \<Rightarrow> Inr (path_join [logDir, name @ ''-build.log''])))"

definition logFilePath :: "string \<Rightarrow> world \<Rightarrow> string \<Rightarrow> err + string" where
  "logFilePath logDir w name =
     (if name = DaemonLogName then Inr (path_join [logDir, ''anito.log''])
      else case ValidateServiceName name of
        Inl e \<Rightarrow> Inl e
      | Inr _ \<Rightarrow>
          (case reg_Get name w of
             None \<Rightarrow> Inl (MissingServicef ''service %q not found'' [FStr name])
           | Some _ \<Rightarrow> Inr (path_join [logDir, name @ ''.log''])))"

text \<open>\<open>tailLog\<close>: a window of the last \<open>n\<close> lines, moved line by line.\<close>

definition tail_push :: "nat \<Rightarrow> string list \<Rightarrow> string \<Rightarrow> string list" where
  "tail_push n ls l = (let ls' = ls @ [l] in if n < length ls' then tl ls' else ls')"

definition tailLog :: "nat \<Rightarrow> string list \<Rightarrow> string" where
  "tailLog n scanned = str_join [newline] (foldl (tail_push n) [] scanned)"

definition runWatchBuild :: "outside \<Rightarrow> string \<Rightarrow> string \<Rightarrow> world \<Rightarrow> (unit, world) res" where
  "runWatchBuild E name trigger w =
     (case reg_Get name w of
        None \<Rightarrow> (Inl (Errorf ''service %q not found'' [FStr name]), w)
      | Some svc \<Rightarrow>
          if sv_config_path svc = '''' then (Inr (), w)
          else
            (let configPath = path_abs (o_cwd E) (sv_config_path svc) in
             on_res (load_config E configPath w)
               (\<lambda>cfg w1.
                  if cf_Build cfg = '''' then (Inr (), w1)
                  else case buildLogFilePath (o_logdir E) w1 name of
                    Inl e \<Rightarrow> (Inl e, w1)
                  | Inr logPath \<Rightarrow>
                      (case o_logfile E (w_tick w1) of
                         Some e \<Rightarrow> (Inl (Errorf ''opening build log for %q: %w'' [FStr name, FErr e]), tick w1)
                       | None \<Rightarrow>
                           (let w2 = log_build logPath [BuildStarted (now_at E (tick w1)) trigger] (tick w1);
                                answer = o_build E (w_tick w2) (cf_Build cfg) (BuildDir configPath);
                                w3 = log_build logPath [BuildOutput (snd answer)] (interfere E w2)
                            in case fst answer of
                                 Inl e \<Rightarrow>
                                   (Inl (Errorf ''watch build failed for %q: %w'' [FStr name, FErr e]),
                                    log_build logPath [BuildFailed (now_at E w3) e] w3)
                               | Inr _ \<Rightarrow> (Inr (), log_build logPath [BuildCompleted (now_at E w3)] w3))))
               (\<lambda>e w1. (Inl (Errorf ''loading config for watch build %q: %w'' [FStr name, FErr e]), w1))))"

text \<open>A file watcher triggered: build, then restart.\<close>

definition handleWatchTrigger :: "outside \<Rightarrow> string \<Rightarrow> string \<Rightarrow> world \<Rightarrow> (unit, world) res" where
  "handleWatchTrigger E name trigger w =
     (case ValidateServiceName name of
        Inl e \<Rightarrow> (Inl e, w)
      | Inr _ \<Rightarrow>
          on_res (runWatchBuild E name trigger w)
            (\<lambda>_ w1. restartLocked E name w1)
            (\<lambda>e w1. (Inl e, w1)))"

definition StartWatchers :: "outside \<Rightarrow> world \<Rightarrow> world" where
  "StartWatchers E w =
     foldl (\<lambda>w svc. if sv_watch_paths svc \<noteq> [] then startWatcher E (Some svc) w else w) w (All (w_reg w))"

text \<open>A build on request: the log is started anew; the answer is its path, also when the build fails.\<close>

definition BuildLog :: "outside \<Rightarrow> string \<Rightarrow> world \<Rightarrow> (string \<times> err option, world) res" where
  "BuildLog E name w =
     (case reg_Get name w of
        None \<Rightarrow> (Inl (MissingServicef ''service %q not found'' [FStr name]), w)
      | Some svc \<Rightarrow>
          if sv_config_path svc = ''''
          then (Inl (InvalidConfigf (''service %q has no config_path '' @ em_dash @ '' cannot run build'') [FStr name]), w)
          else
            on_res (load_config E (sv_config_path svc) w)
              (\<lambda>cfg w1.
                 if cf_Build cfg = ''''
                 then (Inl (InvalidConfigf ''service %q config has no build command'' [FStr name]), w1)
                 else
                   (let buildLogPath = path_join [o_logdir E, name @ ''-build.log''] in
                    case o_logfile E (w_tick w1) of
                      Some e \<Rightarrow> (Inl (Errorf ''creating build log: %w'' [FErr e]), tick w1)
                    | None \<Rightarrow>
                        (let w2 = truncate_build_log buildLogPath (tick w1);
                             answer = o_build E (w_tick w2) (cf_Build cfg) (BuildDir (sv_config_path svc));
                             w3 = log_build buildLogPath [BuildOutput (snd answer)] (interfere E w2)
                         in case fst answer of
                              Inl e \<Rightarrow> (Inr (buildLogPath, Some (Errorf ''build failed: %w'' [FErr e])), w3)
                            | Inr _ \<Rightarrow> (Inr (buildLogPath, None), w3))))
              (\<lambda>e w1. (Inl (InvalidConfigf ''loading config: %v'' [FErr e]), w1)))"

section \<open>Crashes\<close>

definition crashBackoffDurations :: "int list" where
  "crashBackoffDurations = [second, 2 * second, 4 * second, 8 * second, 30 * second]"

definition attempts_of :: "string \<Rightarrow> world \<Rightarrow> nat" where
  "attempts_of name w = (case map_of (w_crashAttempts w) name of Some n \<Rightarrow> n | None \<Rightarrow> 0)"

definition wants_restart :: "service \<Rightarrow> bool" where
  "wants_restart svc =
     (let policy = (if sv_restart_policy svc = '''' then ''on-watch'' else sv_restart_policy svc) in
      if policy = ''never'' then False
      else if policy = ''on-watch'' then sv_watch_paths svc \<noteq> []
      else True)"

text \<open>The result tells what the handler did, with the back-off it slept before a restart.\<close>

datatype crash_action = NoRestart | GaveUp | Restarted int

definition give_up_issue :: "outside \<Rightarrow> string \<Rightarrow> nat \<Rightarrow> world \<Rightarrow> issue" where
  "give_up_issue E name attempt w =
     (let logContext = (case logFilePath (o_logdir E) w name of
                          Inr logPath \<Rightarrow> tailLog 15 (o_scan E (w_tick w) logPath)
                        | Inl _ \<Rightarrow> '''')
      in zero_issue\<lparr>is_Source := ''daemon:crash_give_up'', is_Tool := ''crash_recovery'',
           is_Error := sprintf ''service %s gave up after %d crash attempts'' [name, show_int (int attempt)],
           is_Context := logContext, is_Severity := ''error''\<rparr>)"

definition handleCrash :: "outside \<Rightarrow> string \<Rightarrow> world \<Rightarrow> crash_action \<times> world" where
  "handleCrash E name w =
     (let w0 = w\<lparr>w_crashesTotal := Suc (w_crashesTotal w)\<rparr> in
      case reg_Get name w0 of
        None \<Rightarrow> (NoRestart, w0)
      | Some svc \<Rightarrow>
          if sv_status svc = StatusStopped then (NoRestart, w0)
          else
            (let w1 = prx_UnswapPorts name w0 in
             if \<not> wants_restart svc then (NoRestart, w1)
             else
               (let attempt = attempts_of name w1 in
                if length crashBackoffDurations \<le> attempt
                then (GaveUp,
                      (let w2 = reg_UpdateStatus E name StatusFailed 0 (reg_UpdateCrashState E name attempt True w1)
                       in report_issue E (give_up_issue E name attempt w2) w2))
                else
                  (let w2 = reg_UpdateCrashState E name (attempt + 1) False
                              (w1\<lparr>w_crashAttempts := AList.update name (attempt + 1) (w_crashAttempts w1)\<rparr>);
                       wait = crashBackoffDurations ! attempt
                   in (Restarted wait, snd (ServiceRestart E name (interfere E w2)))))))"

section \<open>Queries\<close>

definition Services :: "outside \<Rightarrow> world \<Rightarrow> service list" where
  "Services E w =
     map (\<lambda>svc. if isOrphaned E w svc then svc\<lparr>sv_status := StatusOrphaned\<rparr> else svc) (All (w_reg w))"

definition ServiceStatus :: "outside \<Rightarrow> string \<Rightarrow> world \<Rightarrow> err + service" where
  "ServiceStatus E name w =
     (case reg_Get name w of
        None \<Rightarrow> Inl (MissingServicef ''service %q not found'' [FStr name])
      | Some svc \<Rightarrow>
          Inr (if isOrphaned E w svc then svc\<lparr>sv_status := StatusOrphaned\<rparr> else svc))"

record metrics =
  mt_running :: nat
  mt_stopped :: nat
  mt_failed :: nat
  mt_orphaned :: nat
  mt_total :: nat
  mt_deploys :: nat
  mt_crashes :: nat

definition count_service :: "metrics \<Rightarrow> service \<Rightarrow> metrics" where
  "count_service m svc =
     (let m1 = m\<lparr>mt_total := Suc (mt_total m)\<rparr> in
      case sv_status svc of
        StatusRunning \<Rightarrow> m1\<lparr>mt_running := Suc (mt_running m1)\<rparr>
      | StatusStopped \<Rightarrow> m1\<lparr>mt_stopped := Suc (mt_stopped m1)\<rparr>
      | StatusFailed \<Rightarrow> m1\<lparr>mt_failed := Suc (mt_failed m1)\<rparr>
      | StatusOrphaned \<Rightarrow> m1\<lparr>mt_orphaned := Suc (mt_orphaned m1)\<rparr>
      | _ \<Rightarrow> m1)"

definition Metrics :: "outside \<Rightarrow> world \<Rightarrow> metrics" where
  "Metrics E w =
     foldl count_service
       \<lparr>mt_running = 0, mt_stopped = 0, mt_failed = 0, mt_orphaned = 0, mt_total = 0,
        mt_deploys = w_deploysTotal w, mt_crashes = w_crashesTotal w\<rparr> (Services E w)"

section \<open>Reading log files\<close>

text \<open>\<^verbatim>\<open>strings.TrimRight\<close> of line breaks, then the last \<open>n\<close> lines.\<close>

definition last_lines :: "int \<Rightarrow> string \<Rightarrow> string list" where
  "last_lines n data =
     (let ls = split_on newline (rev (dropWhile (\<lambda>c. c = newline) (rev data))) in
      if 0 < n \<and> n < int (length ls) then drop (length ls - nat n) ls else ls)"

text \<open>The content of a log file: \<open>None\<close> when it does not exist, an error when it cannot be read.\<close>

definition read_log :: "(string \<Rightarrow> (err + string) option) \<Rightarrow> string \<Rightarrow> int \<Rightarrow> err + string list" where
  "read_log files path n =
     (case files path of
        None \<Rightarrow> Inr []
      | Some (Inl e) \<Rightarrow> Inl e
      | Some (Inr data) \<Rightarrow> Inr (last_lines n data))"

definition Logs :: "(string \<Rightarrow> (err + string) option) \<Rightarrow> string \<Rightarrow> world \<Rightarrow> string \<Rightarrow> int \<Rightarrow> err + string list" where
  "Logs files logDir w name n =
     (case logFilePath logDir w name of Inl e \<Rightarrow> Inl e | Inr path \<Rightarrow> read_log files path n)"

definition BuildLogs :: "(string \<Rightarrow> (err + string) option) \<Rightarrow> string \<Rightarrow> world \<Rightarrow> string \<Rightarrow> int \<Rightarrow> err + string list" where
  "BuildLogs files logDir w name n =
     (case buildLogFilePath logDir w name of Inl e \<Rightarrow> Inl e | Inr path \<Rightarrow> read_log files path n)"

end
