(* ===== verification/Service_Inv.thy ===== *)
theory Service_Inv
  imports Service Process_Props Proxy_Props
begin

text \<open>
  What the service layer keeps. \<open>world_inv\<close> joins the invariants of the registry, the process
  manager and the proxy; \<open>port_view\<close> is the abstraction the port properties are about: the
  stable ports each service owns. \<open>world_step\<close> is the contract of a call that changes neither;
  almost every call of the service layer is an interpretation of it.
\<close>

section \<open>Invariant and abstraction\<close>

definition stable_ports_of :: "registry \<Rightarrow> string \<Rightarrow> ports" where
  "stable_ports_of r n = (case map_of (rg_services r) n of Some s \<Rightarrow> sv_stable_ports s | None \<Rightarrow> [])"

definition port_view :: "world \<Rightarrow> string \<Rightarrow> ports" where
  "port_view w = stable_ports_of (w_reg w)"

definition names_ok :: "registry \<Rightarrow> bool" where
  "names_ok r \<longleftrightarrow> (\<forall>(n, s) \<in> set (rg_services r). CHR '':'' \<notin> set n)"

definition world_inv :: "world \<Rightarrow> bool" where
  "world_inv w \<longleftrightarrow> reg_inv (w_reg w) \<and> names_ok (w_reg w) \<and> mg_inv (w_mgr w) \<and> pm_inv (w_prx w)"

lemma world_inv_congs [simp]:
  "world_inv (w\<lparr>w_watch := a\<rparr>) = world_inv w" "world_inv (w\<lparr>w_crashAttempts := b\<rparr>) = world_inv w"
  "world_inv (w\<lparr>w_startup := c\<rparr>) = world_inv w" "world_inv (w\<lparr>w_receipts := d\<rparr>) = world_inv w"
  "world_inv (w\<lparr>w_issues := e\<rparr>) = world_inv w" "world_inv (w\<lparr>w_drains := f\<rparr>) = world_inv w"
  "world_inv (w\<lparr>w_crashq := g\<rparr>) = world_inv w" "world_inv (w\<lparr>w_deploysTotal := h\<rparr>) = world_inv w"
  "world_inv (w\<lparr>w_buildlogs := bl\<rparr>) = world_inv w"
  "world_inv (w\<lparr>w_crashesTotal := i\<rparr>) = world_inv w" "world_inv (w\<lparr>w_tick := j\<rparr>) = world_inv w"
  by (simp_all add: world_inv_def)

lemma port_view_congs [simp]:
  "port_view (w\<lparr>w_watch := a\<rparr>) = port_view w" "port_view (w\<lparr>w_crashAttempts := b\<rparr>) = port_view w"
  "port_view (w\<lparr>w_startup := c\<rparr>) = port_view w" "port_view (w\<lparr>w_receipts := d\<rparr>) = port_view w"
  "port_view (w\<lparr>w_issues := e\<rparr>) = port_view w" "port_view (w\<lparr>w_drains := f\<rparr>) = port_view w"
  "port_view (w\<lparr>w_crashq := g\<rparr>) = port_view w" "port_view (w\<lparr>w_deploysTotal := h\<rparr>) = port_view w"
  "port_view (w\<lparr>w_buildlogs := bl\<rparr>) = port_view w"
  "port_view (w\<lparr>w_crashesTotal := i\<rparr>) = port_view w" "port_view (w\<lparr>w_tick := j\<rparr>) = port_view w"
  "port_view (w\<lparr>w_mgr := k\<rparr>) = port_view w" "port_view (w\<lparr>w_prx := l\<rparr>) = port_view w"
  "port_view (w\<lparr>w_reg := r\<rparr>) = stable_ports_of r"
  by (simp_all add: port_view_def)

text \<open>The commands started so far, with the services they were started for: a detached process can
  be put back because nothing forgets it.\<close>

definition cmd_names :: "world \<Rightarrow> nat \<rightharpoonup> string" where
  "cmd_names w = map_option cm_name \<circ> mg_cmds (w_mgr w)"

lemma cmd_names_congs [simp]:
  "cmd_names (w\<lparr>w_watch := a\<rparr>) = cmd_names w" "cmd_names (w\<lparr>w_crashAttempts := b\<rparr>) = cmd_names w"
  "cmd_names (w\<lparr>w_startup := c\<rparr>) = cmd_names w" "cmd_names (w\<lparr>w_receipts := d\<rparr>) = cmd_names w"
  "cmd_names (w\<lparr>w_issues := e\<rparr>) = cmd_names w" "cmd_names (w\<lparr>w_drains := f\<rparr>) = cmd_names w"
  "cmd_names (w\<lparr>w_crashq := g\<rparr>) = cmd_names w" "cmd_names (w\<lparr>w_deploysTotal := h\<rparr>) = cmd_names w"
  "cmd_names (w\<lparr>w_buildlogs := bl\<rparr>) = cmd_names w"
  "cmd_names (w\<lparr>w_crashesTotal := i\<rparr>) = cmd_names w" "cmd_names (w\<lparr>w_tick := j\<rparr>) = cmd_names w"
  "cmd_names (w\<lparr>w_prx := l\<rparr>) = cmd_names w" "cmd_names (w\<lparr>w_reg := r\<rparr>) = cmd_names w"
  "cmd_names (w\<lparr>w_mgr := m\<rparr>) = map_option cm_name \<circ> mg_cmds m"
  by (simp_all add: cmd_names_def)

definition names_kept :: "procmgr \<Rightarrow> procmgr \<Rightarrow> bool" where
  "names_kept m m' \<longleftrightarrow> map_option cm_name \<circ> mg_cmds m \<subseteq>\<^sub>m map_option cm_name \<circ> mg_cmds m'"

lemma names_kept_refl [simp]: "names_kept m m"
  by (simp add: names_kept_def)

lemma names_kept_trans: "names_kept m m' \<Longrightarrow> names_kept m' m'' \<Longrightarrow> names_kept m m''"
  unfolding names_kept_def by (rule map_le_trans)

lemma names_kept_congs [simp]:
  "names_kept m (m'\<lparr>mg_procs := a\<rparr>) = names_kept m m'"
  "names_kept m (m'\<lparr>mg_draining := b\<rparr>) = names_kept m m'"
  "names_kept m (m'\<lparr>mg_next := c\<rparr>) = names_kept m m'"
  by (simp_all add: names_kept_def)

lemma names_kept_set_cmd:
  "(\<And>ci. cm_name (f ci) = cm_name ci) \<Longrightarrow> names_kept m (set_cmd c f m)"
  by (auto simp: names_kept_def map_le_def set_cmd_def split: option.split)

lemma names_kept_new:
  "mg_inv m \<Longrightarrow> names_kept m (m\<lparr>mg_procs := a, mg_cmds := (mg_cmds m)(mg_next m \<mapsto> ci)\<rparr>)"
  by (fastforce simp: names_kept_def map_le_def mg_inv_def cmds_ok_def)

section \<open>The registry's mutators under the abstraction\<close>

lemma stable_ports_of_with_service:
  assumes "\<And>s. sv_stable_ports (f s) = sv_stable_ports s"
  shows "stable_ports_of (snd (with_service n f dsk r)) = stable_ports_of r"
  by (rule ext) (auto simp: stable_ports_of_def with_service_def assms split: option.split)

lemma names_ok_save [simp]: "names_ok (snd (reg_save dsk r)) = names_ok r"
  by (auto simp: names_ok_def split: prod.splits)

lemma names_ok_update:
  "names_ok r \<Longrightarrow> CHR '':'' \<notin> set n \<Longrightarrow> names_ok (r\<lparr>rg_services := AList.update n s (rg_services r)\<rparr>)"
  by (auto simp: names_ok_def dest!: set_update_in)

lemma names_okD: "names_ok r \<Longrightarrow> map_of (rg_services r) n = Some s \<Longrightarrow> CHR '':'' \<notin> set n"
  by (auto simp: names_ok_def dest!: map_of_SomeD)

lemma names_ok_with_service: "names_ok r \<Longrightarrow> names_ok (snd (with_service n f dsk r))"
  by (auto simp: with_service_def intro!: names_ok_update dest: names_okD split: option.split)

named_theorems mutator_keeps \<open>registry mutators keep the invariant, the names and the stable ports\<close>

definition keeps_reg :: "registry \<Rightarrow> registry \<Rightarrow> bool" where
  "keeps_reg r r' \<longleftrightarrow> (reg_inv r \<longrightarrow> reg_inv r') \<and> (names_ok r \<longrightarrow> names_ok r')
     \<and> stable_ports_of r' = stable_ports_of r"

lemma keeps_reg_refl [mutator_keeps]: "keeps_reg r r"
  by (simp add: keeps_reg_def)

lemma keeps_reg_trans: "keeps_reg r r' \<Longrightarrow> keeps_reg r' r'' \<Longrightarrow> keeps_reg r r''"
  by (simp add: keeps_reg_def)

lemma UpdateStatus_keeps [mutator_keeps]: "keeps_reg r (snd (UpdateStatus now dsk n st pid r))"
  unfolding keeps_reg_def
  by (intro conjI impI UpdateStatus_inv)
    (auto simp: UpdateStatus_def names_ok_with_service stable_ports_of_with_service split: option.split)

lemma CompleteStart_keeps [mutator_keeps]: "keeps_reg r (snd (CompleteStart now dsk n t c d r))"
  unfolding keeps_reg_def
  by (intro conjI impI CompleteStart_inv)
    (auto simp: CompleteStart_def names_ok_with_service stable_ports_of_with_service split: option.split)

lemma plain_mutators_keep [mutator_keeps]:
  "keeps_reg r (snd (UpdateLastDeployed now dsk n t r))"
  "keeps_reg r (snd (MarkRunning now dsk n pid t r))"
  "keeps_reg r (snd (UpdateCrashState now dsk n a g r))"
  "keeps_reg r (snd (UpdateProcessStarted now dsk n ports t r))"
  by (simp_all add: keeps_reg_def mutator_defs mutators_inv names_ok_with_service
      stable_ports_of_with_service)

section \<open>The contract of a quiet call\<close>

text \<open>A state at the given port view, in which at least the commands \<open>N\<close> have been started.\<close>

definition at_view :: "(string \<Rightarrow> ports) \<Rightarrow> (nat \<rightharpoonup> string) \<Rightarrow> world \<Rightarrow> bool" where
  "at_view v N w \<longleftrightarrow> world_inv w \<and> port_view w = v \<and> N \<subseteq>\<^sub>m cmd_names w"

locale world_step =
  fixes f :: "world \<Rightarrow> world"
  assumes quiet [simp]: "at_view v N w \<Longrightarrow> at_view v N (f w)"
begin

lemma keeps_inv: "world_inv w \<Longrightarrow> world_inv (f w)"
  using quiet [of "port_view w" "cmd_names w" w] by (simp add: at_view_def)

lemma keeps_view: "world_inv w \<Longrightarrow> port_view (f w) = port_view w"
  using quiet [of "port_view w" "cmd_names w" w] by (simp add: at_view_def)

end

lemma at_viewI:
  "at_view v N w \<Longrightarrow> world_inv w' \<Longrightarrow> port_view w' = port_view w \<Longrightarrow> cmd_names w \<subseteq>\<^sub>m cmd_names w'
   \<Longrightarrow> at_view v N w'"
  by (auto simp: at_view_def intro: map_le_trans)

lemma tick_fields [simp]:
  "w_reg (tick w) = w_reg w" "w_mgr (tick w) = w_mgr w" "w_prx (tick w) = w_prx w"
  by (simp_all add: tick_def)

lemma tick_keeps [simp]:
  "world_inv (tick w) = world_inv w" "port_view (tick w) = port_view w"
  "cmd_names (tick w) = cmd_names w" "at_view v N (tick w) = at_view v N w"
  by (simp_all add: tick_def at_view_def)

lemma at_view_congs [simp]:
  "at_view v N (w\<lparr>w_watch := a\<rparr>) = at_view v N w" "at_view v N (w\<lparr>w_crashAttempts := b\<rparr>) = at_view v N w"
  "at_view v N (w\<lparr>w_startup := c\<rparr>) = at_view v N w" "at_view v N (w\<lparr>w_receipts := d\<rparr>) = at_view v N w"
  "at_view v N (w\<lparr>w_issues := e\<rparr>) = at_view v N w" "at_view v N (w\<lparr>w_drains := f\<rparr>) = at_view v N w"
  "at_view v N (w\<lparr>w_crashq := g\<rparr>) = at_view v N w" "at_view v N (w\<lparr>w_deploysTotal := h\<rparr>) = at_view v N w"
  "at_view v N (w\<lparr>w_buildlogs := bl\<rparr>) = at_view v N w"
  "at_view v N (w\<lparr>w_crashesTotal := i\<rparr>) = at_view v N w" "at_view v N (w\<lparr>w_tick := j\<rparr>) = at_view v N w"
  by (simp_all add: at_view_def)

lemma reg_do_keeps:
  assumes "\<And>now dsk r. keeps_reg r (snd (f now dsk r))"
  shows "world_step (\<lambda>w. snd (reg_do E f w))"
proof
  fix v N and w :: world
  obtain x r where f: "f (o_now E (w_tick w)) (o_dsk E (w_tick w)) (w_reg w) = (x, r)"
    by fastforce
  have "keeps_reg (w_reg w) r"
    using assms [where r = "w_reg w"] f by (metis snd_conv)
  with f show "at_view v N w \<Longrightarrow> at_view v N (snd (reg_do E f w))"
    by (simp add: reg_do_def keeps_reg_def at_view_def world_inv_def tick_def port_view_def)
qed

interpretation st_status: world_step "reg_UpdateStatus E name st pid" for E name st pid
  unfolding reg_UpdateStatus_def by (rule reg_do_keeps) (rule mutator_keeps)

interpretation st_last_deployed: world_step "reg_UpdateLastDeployed E name" for E name
  unfolding reg_UpdateLastDeployed_def by (rule reg_do_keeps) (rule mutator_keeps)

interpretation st_mark_running: world_step "reg_MarkRunning E name pid deployed" for E name pid deployed
  unfolding reg_MarkRunning_def by (rule reg_do_keeps) (rule mutator_keeps)

interpretation st_crash_state: world_step "reg_UpdateCrashState E name n g" for E name n g
  unfolding reg_UpdateCrashState_def by (rule reg_do_keeps) (rule mutator_keeps)

section \<open>Processes\<close>

text \<open>What a call of the manager keeps, of its own state and of the registry it reports to.\<close>

definition keeps_mgr :: "procmgr \<times> registry \<Rightarrow> procmgr \<times> registry \<Rightarrow> bool" where
  "keeps_mgr s s' \<longleftrightarrow> mg_inv (fst s') \<and> names_kept (fst s) (fst s') \<and> keeps_reg (snd s) (snd s')"

lemma keeps_mgr_refl: "mg_inv m \<Longrightarrow> keeps_mgr (m, r) (m, r)"
  by (simp add: keeps_mgr_def keeps_reg_refl)

lemma exit_locked_names: "names_kept m (snd (exit_locked c m))"
  by (auto simp: exit_locked_def Let_def names_kept_set_cmd split: option.split)

lemma proc_exit_keeps:
  assumes "mg_inv m"
  shows "keeps_mgr (m, r) (snd (proc_exit now dsk c st (m, r)))"
proof (cases "mg_cmds m c")
  case None
  with assms show ?thesis by (simp add: proc_exit_def keeps_mgr_refl)
next
  case (Some ci)
  show ?thesis
  proof (cases "cm_exited ci")
    case True
    with Some assms show ?thesis by (simp add: proc_exit_def keeps_mgr_refl)
  next
    case False
    have "mg_inv (set_cmd c (\<lambda>ci. ci\<lparr>cm_done := True\<rparr>) (snd (exit_locked c m)))"
      using exit_locked_inv [OF assms Some] Some
      by (intro mg_inv_set_cmd) (auto simp: exit_locked_def Let_def set_cmd_def)
    moreover have "keeps_reg r (snd (exit_finish now dsk ci st eo r))" for eo
      by (auto simp: exit_finish_def Let_def intro: mutator_keeps keeps_reg_trans)
    moreover have "names_kept m (set_cmd c (\<lambda>ci. ci\<lparr>cm_done := True\<rparr>) (snd (exit_locked c m)))"
      by (rule names_kept_trans [OF exit_locked_names names_kept_set_cmd]) simp
    ultimately show ?thesis
      by (simp add: keeps_mgr_def proc_exit_live [OF Some False] split: prod.split) (metis snd_conv)
  qed
qed

lemma drain_cmd_keeps: "mg_inv m \<Longrightarrow> keeps_mgr (m, r) (snd (drain_cmd now dsk ans c (m, r)))"
  by (simp add: drain_cmd_def keeps_mgr_refl proc_exit_keeps)

lemma stop_with_keeps:
  assumes "mg_inv m"
  shows "keeps_mgr (m, r) (snd (stop_with code now dsk ans n (m, r)))"
proof (cases "map_of (mg_procs m) n")
  case None
  with assms show ?thesis by (simp add: stop_with_def keeps_mgr_refl)
next
  case (Some rp)
  have "mg_inv (m\<lparr>mg_procs := AList.delete n (mg_procs m), mg_draining := d\<rparr>)" for d
    using mg_inv_delete [OF assms, of n] by (simp add: mg_inv_def tracked_ok_def cmds_ok_def)
  from drain_cmd_keeps [OF this] Some show ?thesis
    by (simp add: stop_with_def keeps_mgr_def names_kept_def)
qed

lemma start_proc_keeps:
  assumes "mg_inv m"
  shows "keeps_mgr (m, r) (snd (start_proc env svc cand (m, r)))"
proof -
  have "keeps_reg r (snd (snd (start_proc env svc cand (m, r))))"
    by (auto simp: start_proc_def Let_def split: sum.split intro: mutator_keeps)
  moreover have "names_kept m (fst (snd (start_proc env svc cand (m, r))))"
    by (rule start_proc_cases [of env svc cand m r]) (simp_all add: names_kept_new [OF assms])
  ultimately show ?thesis
    using start_proc_inv [OF assms] by (simp add: keeps_mgr_def)
qed

lemma at_view_mgr:
  "at_view v N w \<Longrightarrow> keeps_mgr (w_mgr w, w_reg w) (m, r) \<Longrightarrow> at_view v N (w\<lparr>w_mgr := m, w_reg := r\<rparr>)"
  by (auto simp: keeps_mgr_def keeps_reg_def at_view_def world_inv_def port_view_def
        names_kept_def cmd_names_def intro: map_le_trans)

lemma at_view_mg_inv: "at_view v N w \<Longrightarrow> mg_inv (w_mgr w)"
  by (simp add: at_view_def world_inv_def)

lemma mgr_do_keeps:
  assumes "\<And>now dsk m r. mg_inv m \<Longrightarrow> keeps_mgr (m, r) (snd (f now dsk (m, r)))"
    and w: "at_view v N w"
  shows "at_view v N (snd (mgr_do E f w))"
proof -
  obtain x m r where f: "f (o_now E (w_tick w)) (o_dsk E (w_tick w)) (w_mgr w, w_reg w) = (x, (m, r))"
    by (metis prod.exhaust)
  from at_view_mg_inv [OF w] f have "keeps_mgr (w_mgr w, w_reg w) (m, r)"
    using assms(1) [of "w_mgr w"] by (metis snd_conv)
  with at_view_mgr [of v N "tick w" m r] f w show ?thesis
    by (simp add: mgr_do_def)
qed

interpretation st_start: world_step "\<lambda>w. snd (mgr_StartCandidate E svc w)" for E svc
  by unfold_locales
    (simp add: mgr_StartCandidate_def mgr_do_keeps StartCandidate_def start_proc_keeps)

interpretation st_stop: world_step "\<lambda>w. snd (mgr_Stop E name w)" for E name
  by unfold_locales (simp add: mgr_Stop_def mgr_do_keeps StopProc_def stop_with_keeps)

interpretation st_stop_failed: world_step "mgr_StopFailed E name" for E name
  by unfold_locales (simp add: mgr_StopFailed_def mgr_do_keeps StopFailed_def stop_with_keeps)

text \<open>The calls that touch the manager alone.\<close>

lemma mgr_only:
  "at_view v N w \<Longrightarrow> mg_inv m \<Longrightarrow> names_kept (w_mgr w) m \<Longrightarrow> at_view v N (w\<lparr>w_mgr := m\<rparr>)"
  by (auto simp: at_view_def world_inv_def port_view_def names_kept_def cmd_names_def intro: map_le_trans)

interpretation st_detach: world_step "\<lambda>w. snd (mgr_Detach name w)" for name
  by unfold_locales
    (auto simp: mgr_Detach_def Detach_def mgr_only mg_inv_delete at_view_mg_inv split: option.split)

lemma Activate_inv: "mg_inv m \<Longrightarrow> mg_inv (snd (Activate name m))"
  using proc_step_inv [OF proc_step.st_activate] by blast

lemma Activate_names: "names_kept m (snd (Activate name m))"
  by (auto simp: Activate_def names_kept_set_cmd split: option.split)

interpretation st_activate: world_step "\<lambda>w. snd (mgr_Activate E name w)" for E name
proof
  fix v N and w :: world
  obtain x m where "Activate name (w_mgr w) = (x, m)" by fastforce
  then show "at_view v N w \<Longrightarrow> at_view v N (snd (mgr_Activate E name w))"
    using Activate_inv [of "w_mgr w" name] Activate_names [of "w_mgr w" name]
    by (simp add: mgr_Activate_def mgr_only at_view_mg_inv tick_def)
qed

text \<open>A detached process is put back under its own name.\<close>

definition owned :: "string \<Rightarrow> detached option \<Rightarrow> (nat \<rightharpoonup> string) \<Rightarrow> bool" where
  "owned name dp N \<longleftrightarrow> (\<forall>d. dp = Some d \<longrightarrow> N (dt_cmd d) = Some name)"

lemma RestoreProc_owned_inv:
  assumes "mg_inv m" and "owned name dp (map_option cm_name \<circ> mg_cmds m)"
  shows "mg_inv (snd (RestoreProc alive name dp m))"
proof (cases dp)
  case (Some d)
  with assms(2) obtain ci where "mg_cmds m (dt_cmd d) = Some ci" "cm_name ci = name"
    by (auto simp: owned_def)
  from proc_step_inv [OF proc_step.st_restore [OF this] assms(1)] Some show ?thesis by simp
qed (simp add: RestoreProc_def assms)

lemma RestoreProc_names: "names_kept m (snd (RestoreProc alive name dp m))"
  by (auto simp: RestoreProc_def Let_def split: option.split)

lemma mgr_Restore_keeps:
  assumes "at_view v N w" and "owned name dp N"
  shows "at_view v N (snd (mgr_Restore E name dp w))"
proof -
  have "owned name dp (map_option cm_name \<circ> mg_cmds (w_mgr w))"
    using assms by (auto simp: owned_def at_view_def cmd_names_def map_le_def dom_def)
  with at_view_mg_inv [OF assms(1)] have "mg_inv (snd (RestoreProc alive name dp (w_mgr w)))" for alive
    by (rule RestoreProc_owned_inv)
  with assms(1) have "at_view v N ((tick w)\<lparr>w_mgr := snd (RestoreProc alive name dp (w_mgr w))\<rparr>)" for alive
    by (intro mgr_only) (simp_all add: RestoreProc_names)
  then show ?thesis by (simp add: mgr_Restore_def case_prod_beta)
qed

lemma mgr_Detach_owned:
  assumes "world_inv w"
  shows "owned name (fst (mgr_Detach name w)) (cmd_names w)"
  using assms mg_inv_tracked [of "w_mgr w" name]
  by (auto simp: owned_def mgr_Detach_def Detach_def world_inv_def tracked_ok_def cmd_names_def
      split: option.split)

lemma exit_event_keeps:
  assumes w: "at_view v N w"
  shows "at_view v N (exit_event E w c)"
proof -
  obtain b m r where f: "proc_exit (o_now E (w_tick w)) (o_dsk E (w_tick w)) c
      (o_exit_state E (w_tick w) c) (w_mgr w, w_reg w) = (b, (m, r))"
    by (metis prod.exhaust)
  with proc_exit_keeps [OF at_view_mg_inv [OF w]] have "keeps_mgr (w_mgr w, w_reg w) (m, r)"
    by (metis snd_conv)
  with at_view_mgr [of v N "tick w" m r] f w show ?thesis
    by (simp add: exit_event_def)
qed

lemma exits_keep: "at_view v N w \<Longrightarrow> at_view v N (foldl (exit_event E) w cs)"
  by (induction cs arbitrary: w) (simp_all add: exit_event_keeps)

interpretation st_interfere: world_step "interfere E" for E
  by unfold_locales (simp add: interfere_def exits_keep)

interpretation st_wait: world_step "\<lambda>w. snd (wait_healthy E port path timeout w)" for E port path timeout
  by unfold_locales (simp add: wait_healthy_def)

interpretation st_verify: world_step "\<lambda>w. snd (verify_owned E ports pid w)" for E ports pid
  by unfold_locales (simp add: verify_owned_def)

section \<open>Proxy calls\<close>

lemma at_view_prx: "at_view v N w \<Longrightarrow> pm_inv p \<Longrightarrow> at_view v N (w\<lparr>w_prx := p\<rparr>)"
  by (simp add: at_view_def world_inv_def port_view_def)

lemma at_view_pm_inv: "at_view v N w \<Longrightarrow> pm_inv (w_prx w)"
  by (simp add: at_view_def world_inv_def)

lemma prx_do_keeps:
  assumes "\<And>net m. pm_inv m \<Longrightarrow> pm_inv (snd (f net m))"
  shows "world_step (\<lambda>w. snd (prx_do E f w))"
proof
  fix v N and w :: world
  obtain x p where f: "f (o_net E (w_tick w)) (w_prx w) = (x, p)"
    by fastforce
  have "pm_inv (w_prx w) \<Longrightarrow> pm_inv p"
    using assms [of "w_prx w"] f by (metis snd_conv)
  with f show "at_view v N w \<Longrightarrow> at_view v N (snd (prx_do E f w))"
    by (simp add: prx_do_def at_view_prx at_view_pm_inv)
qed

interpretation st_swap: world_step "\<lambda>w. snd (prx_SwapPorts E name ports w)" for E name ports
  unfolding prx_SwapPorts_def by (rule prx_do_keeps) (rule px.swap_inv)

interpretation st_swap_static: world_step "\<lambda>w. snd (prx_SwapStatic E name dir w)" for E name dir
  unfolding prx_SwapStatic_def by (rule prx_do_keeps) (rule SwapStatic_inv)

interpretation st_unswap: world_step "prx_UnswapPorts name" for name
  by unfold_locales (simp add: prx_UnswapPorts_def at_view_prx at_view_pm_inv px.unswap_inv)

text \<open>Service names have no colon, the separator of the proxy's keys.\<close>

lemma prx_Register_step: "CHR '':'' \<notin> set name \<Longrightarrow> world_step (\<lambda>w. snd (prx_Register E name ports addr w))"
  unfolding prx_Register_def by (rule prx_do_keeps) (rule Register_inv_serving(1))

lemmas prx_Register_quiet [simp] = prx_Register_step [THEN world_step.quiet]

interpretation st_remove: world_step "prx_RemovePorts name" for name
  by unfold_locales (simp add: prx_RemovePorts_def at_view_prx at_view_pm_inv RemovePorts_inv)

section \<open>Book-keeping\<close>

interpretation st_watch_stop: world_step "watch_Stop name" for name
  by unfold_locales (simp add: watch_Stop_def)

interpretation st_start_watcher: world_step "startWatcher E so" for E so
  by unfold_locales (simp add: startWatcher_def Let_def split: option.split)

interpretation st_receipt: world_step "write_receipt E so" for E so
  by unfold_locales (simp add: write_receipt_def)

interpretation st_report: world_step "report_issue E i" for E i
  by unfold_locales (simp add: report_issue_def)

interpretation st_load_config: world_step "\<lambda>w. snd (load_config E path w)" for E path
  by unfold_locales (simp add: load_config_def)

interpretation st_log_build: world_step "log_build path es" for path es
  by unfold_locales (simp add: log_build_def)

interpretation st_truncate: world_step "truncate_build_log path" for path
  by unfold_locales (simp add: truncate_build_log_def)

interpretation st_clear: world_step "clear_attempts name" for name
  by unfold_locales (simp add: clear_attempts_def)

interpretation st_schedule: world_step "schedule_drain oldProc window" for oldProc window
  by unfold_locales
    (auto simp: schedule_drain_def MarkDrainingProcess_def MarkDraining_def mgr_only at_view_mg_inv
      split: option.split prod.split)

interpretation st_run_drain: world_step "run_drain E" for E
  by unfold_locales (simp add: run_drain_def mgr_do_keeps drain_cmd_keeps split: list.split)

end
