(* ===== verification/Service_Ports.thy ===== *)
theory Service_Ports
  imports Service_Inv
begin

text \<open>
  Who owns which stable port. \<open>port_change\<close> is the specification of every operation but removal:
  the owners stay as they are, or a service without ports gets fresh ones. From it follow that an
  assigned port never changes and that no port has two owners, along every sequence of operations,
  crashes and drains (\<open>service_reachable\<close>).
\<close>

section \<open>Specification\<close>

definition free_port :: "(string \<Rightarrow> ports) \<Rightarrow> int \<Rightarrow> bool" where
  "free_port v x \<longleftrightarrow> (\<forall>n q. map_of (v n) q \<noteq> Some x)"

definition fresh_ports :: "(string \<Rightarrow> ports) \<Rightarrow> ports \<Rightarrow> bool" where
  "fresh_ports v ps \<longleftrightarrow>
     (\<forall>p x. map_of ps p = Some x \<longrightarrow> free_port v x \<and> x \<notin> set reservedPorts)
     \<and> (\<forall>p q x. map_of ps p = Some x \<and> map_of ps q = Some x \<longrightarrow> p = q)"

definition port_change :: "string \<Rightarrow> (string \<Rightarrow> ports) \<Rightarrow> (string \<Rightarrow> ports) \<Rightarrow> bool" where
  "port_change name v v' \<longleftrightarrow>
     v' = v \<or> v name = [] \<and> (\<exists>ps. fresh_ports v ps \<and> v' = v(name := ps))"

definition ports_unique :: "(string \<Rightarrow> ports) \<Rightarrow> bool" where
  "ports_unique v \<longleftrightarrow>
     (\<forall>n m p q x. map_of (v n) p = Some x \<and> map_of (v m) q = Some x \<longrightarrow> n = m \<and> p = q)
     \<and> (\<forall>n p x. map_of (v n) p = Some x \<longrightarrow> x \<notin> set reservedPorts)"

lemma port_change_refl [simp]: "port_change name v v"
  by (simp add: port_change_def)

lemma port_change_unique: "port_change name v v' \<Longrightarrow> ports_unique v \<Longrightarrow> ports_unique v'"
  by (fastforce simp: port_change_def ports_unique_def fresh_ports_def free_port_def split: if_splits)

lemma port_change_pinned: "port_change name v v' \<Longrightarrow> v n \<noteq> [] \<Longrightarrow> v' n = v n"
  by (auto simp: port_change_def)

lemma unique_shrink: "ports_unique v \<Longrightarrow> ports_unique (v(name := []))"
  by (auto simp: ports_unique_def)

lemma UsedPorts_free:
  assumes "reg_inv r" and "x \<notin> set (UsedPorts r)" and "x \<noteq> 0"
  shows "free_port (stable_ports_of r) x"
  using assms
  by (force simp: free_port_def stable_ports_of_def UsedPorts_def service_ports_def
      split: option.splits dest!: map_of_SomeD)

section \<open>Rules for sequences of calls\<close>

lemma on_res_rule:
  assumes "P (snd x)" and "\<And>a w. x = (Inr a, w) \<Longrightarrow> P w \<Longrightarrow> Q (good a w)"
    and "\<And>e w. x = (Inl e, w) \<Longrightarrow> P w \<Longrightarrow> Q (bad e w)"
  shows "Q (on_res x good bad)"
  using assms by (cases x; cases "fst x") auto

lemma on_res_at:
  assumes "at_view v N (snd x)"
    and "\<And>a w. at_view v N w \<Longrightarrow> at_view v N (f (good a w))"
    and "\<And>e w. at_view v N w \<Longrightarrow> at_view v N (f (bad e w))"
  shows "at_view v N (f (on_res x good bad))"
  using assms by (cases x; cases "fst x") auto

lemmas on_res_at_snd = on_res_at [where f = snd]
lemmas on_res_at_id = on_res_at [where f = "\<lambda>w. w"]

section \<open>Allocation\<close>

lemma alloc_range_at:
  "CHR '':'' \<notin> set name \<Longrightarrow> at_view v N w
   \<Longrightarrow> at_view v N (snd (alloc_range E name portName bindAddr used ps w))"
  by (induction ps arbitrary: w) (auto intro!: on_res_at_snd)

lemma alloc_range_fresh:
  "alloc_range E name portName bindAddr used ps w = (Inr x, w') \<Longrightarrow> x \<in> set ps - set used"
  by (induction ps arbitrary: w) (auto split: if_splits on_res_split_asm)

lemma allocateOnePort_at:
  "CHR '':'' \<notin> set name \<Longrightarrow> at_view v N w
   \<Longrightarrow> at_view v N (snd (allocateOnePort E name portName pref used bindAddr w))"
  by (auto simp: allocateOnePort_def alloc_range_at intro!: on_res_at_snd)

lemma portRange_props: "x \<in> set portRange \<Longrightarrow> x \<noteq> 0 \<and> x \<notin> set reservedPorts"
  by (auto simp: portRange_def reservedPorts_def)

lemma allocateOnePort_fresh:
  assumes "allocateOnePort E name portName pref used bindAddr w = (Inr x, w')"
  shows "x \<notin> set used \<and> x \<noteq> 0 \<and> x \<notin> set reservedPorts"
proof -
  have "x \<in> set portRange - set used \<or> x = pref \<and> pref \<noteq> 0 \<and> pref \<notin> set used \<and> pref \<notin> set reservedPorts"
    using assms by (auto simp: allocateOnePort_def split: if_splits on_res_split_asm dest: alloc_range_fresh)
  then show ?thesis using portRange_props by auto
qed

lemma alloc_new_at:
  "CHR '':'' \<notin> set name \<Longrightarrow> at_view v N w
   \<Longrightarrow> at_view v N (snd (alloc_new E name bindAddr used result preferred w))"
proof (induction preferred arbitrary: w used result)
  case (Cons pp preferred)
  obtain portName pref where pp: "pp = (portName, pref)" by fastforce
  show ?case
    unfolding pp alloc_new.simps
  proof (rule on_res_at_snd)
    show "at_view v N (snd (allocateOnePort E name portName pref used bindAddr w))"
      using Cons.prems by (rule allocateOnePort_at)
  qed (use Cons.IH Cons.prems(1) in simp_all)
qed simp

text \<open>The ports found so far are pairwise distinct and in \<open>used\<close>.\<close>

definition picked :: "(string \<Rightarrow> ports) \<Rightarrow> int list \<Rightarrow> ports \<Rightarrow> bool" where
  "picked v used ps \<longleftrightarrow> fresh_ports v ps \<and> snd ` set ps \<subseteq> set used
     \<and> (\<forall>x. x \<noteq> 0 \<and> x \<notin> set used \<longrightarrow> free_port v x)"

lemma picked_add:
  assumes "picked v used ps" and "x \<notin> set used" and "x \<noteq> 0" and "x \<notin> set reservedPorts"
  shows "picked v (x # used) (AList.update p x ps)"
proof -
  have used: "snd ` set ps \<subseteq> set used"
    using assms(1) by (simp add: picked_def)
  have old: "map_of ps q \<noteq> Some x" for q
  proof
    assume "map_of ps q = Some x"
    then have "x \<in> snd ` set ps" by (metis map_of_SomeD image_eqI snd_conv)
    with used assms(2) show False by auto
  qed
  have look: "map_of (AList.update p x ps) q = (if q = p then Some x else map_of ps q)" for q
    by (simp add: update_conv')
  have "fresh_ports v (AList.update p x ps)"
  proof -
    have f: "map_of ps q = Some y \<Longrightarrow> free_port v y \<and> y \<notin> set reservedPorts"
      and i: "map_of ps q = Some y \<Longrightarrow> map_of ps q' = Some y \<Longrightarrow> q = q'" for q q' y
      using assms(1) by (auto simp: picked_def fresh_ports_def)
    have x: "free_port v x" using assms(1,2,3) by (simp add: picked_def)
    show ?thesis unfolding fresh_ports_def look
      using f i x old assms(4) by (metis option.inject)
  qed
  moreover have "snd ` set (AList.update p x ps) \<subseteq> set (x # used)"
    using used by (auto dest!: set_update_in)
  ultimately show ?thesis
    using assms(1) by (simp add: picked_def)
qed

lemma alloc_new_fresh:
  "alloc_new E name bindAddr used result preferred w = (Inr ps, w') \<Longrightarrow> picked v used result
   \<Longrightarrow> fresh_ports v ps"
proof (induction preferred arbitrary: w used result)
  case (Cons pp preferred)
  obtain portName pref where pp: "pp = (portName, pref)" by fastforce
  from Cons.prems(1) obtain x w1 where
      one: "allocateOnePort E name portName pref used bindAddr w = (Inr x, w1)"
      and rest: "alloc_new E name bindAddr (x # used) (AList.update portName x result) preferred w1
        = (Inr ps, w')"
    by (auto simp: pp split: on_res_split_asm)
  from allocateOnePort_fresh [OF one] Cons.prems(2) show ?case
    by (intro Cons.IH [OF rest] picked_add) auto
qed (simp add: picked_def)

lemma picked_start: "world_inv w \<Longrightarrow> picked (port_view w) (UsedPorts (w_reg w)) []"
  using UsedPorts_free [of "w_reg w"]
  by (auto simp: picked_def fresh_ports_def port_view_def world_inv_def)

text \<open>What the allocation returns: the ports the service has, or fresh ones.\<close>

lemma reg_Get_view:
  assumes "at_view v N w"
  shows "reg_Get name w = None \<Longrightarrow> v name = []"
    and "reg_Get name w = Some s \<Longrightarrow>
      v name = sv_stable_ports s \<and> svc_ok name s \<and> sv_name s = name \<and> CHR '':'' \<notin> set name"
  using assms reg_okD [of "w_reg w" name s] names_okD [of "w_reg w" name s]
  by (auto simp: reg_Get_def Get_def at_view_def port_view_def stable_ports_of_def world_inv_def
      reg_inv_def svc_ok_def)

lemma allocatePorts_at:
  assumes "CHR '':'' \<notin> set name" and "at_view v N w"
  shows "at_view v N (snd (allocatePorts E name preferred bindAddr w))"
  using assms by (auto simp: allocatePorts_def alloc_new_at split: option.split)

lemma allocatePorts_ports:
  assumes "allocatePorts E name preferred bindAddr w = (Inr ps, w')" and "at_view v N w"
  shows "if v name = [] then fresh_ports v ps else ps = v name"
  using assms picked_start [of w] reg_Get_view [OF assms(2), of name]
  by (auto simp: allocatePorts_def at_view_def split: option.splits if_splits dest!: alloc_new_fresh)

section \<open>Registry calls that move the view\<close>

lemma stable_ports_of_save [simp]: "stable_ports_of (snd (reg_save dsk r)) = stable_ports_of r"
  by (rule ext) (auto simp: stable_ports_of_def map_of_map split: option.split prod.split)

lemma stable_ports_of_update:
  "stable_ports_of (r\<lparr>rg_services := AList.update n s (rg_services r)\<rparr>)
   = (stable_ports_of r)(n := sv_stable_ports s)"
  by (rule ext) (simp add: stable_ports_of_def update_conv')

lemma stable_ports_of_delete:
  "stable_ports_of (r\<lparr>rg_services := AList.delete n (rg_services r)\<rparr>) = (stable_ports_of r)(n := [])"
  by (rule ext) (simp add: stable_ports_of_def delete_conv')

lemma names_ok_delete: "names_ok r \<Longrightarrow> names_ok (r\<lparr>rg_services := AList.delete n (rg_services r)\<rparr>)"
  by (auto simp: names_ok_def set_delete_in)

lemma reg_do_moves:
  assumes "at_view v N w"
    and "\<And>now dsk. reg_inv (w_reg w) \<Longrightarrow> names_ok (w_reg w) \<Longrightarrow> stable_ports_of (w_reg w) = v \<Longrightarrow>
      reg_inv (snd (f now dsk (w_reg w))) \<and> names_ok (snd (f now dsk (w_reg w)))
      \<and> stable_ports_of (snd (f now dsk (w_reg w))) = v'"
  shows "at_view v' N (snd (reg_do E f w))"
  using assms
  by (simp add: reg_do_def case_prod_beta at_view_def world_inv_def port_view_def)

lemma stable_ports_normalize:
  "sv_stable_ports (NormalizePorts s) =
     (if sv_stable_ports s = [] \<and> sv_stable_port s \<noteq> 0 then [(''default'', sv_stable_port s)]
      else sv_stable_ports s)"
  by (simp add: NormalizePorts_def Let_def syncSingularFromMap_def)

lemma registered_view:
  assumes "reg_inv r" and "sv_stable_ports (NormalizePorts s) = sv_stable_ports s"
  shows "sv_stable_ports (registered now (map_of (rg_services r) (sv_name s)) s) =
    (if stable_ports_of r (sv_name s) \<noteq> [] then stable_ports_of r (sv_name s) else sv_stable_ports s)"
proof (cases "map_of (rg_services r) (sv_name s)")
  case None
  then show ?thesis
    using assms(2) by (simp add: registered_def stable_ports_of_def stable_ports_normalize split: if_splits)
next
  case (Some e)
  with assms(1) have "normalized e"
    by (auto intro: reg_inv_normalized dest: map_of_SomeD)
  then show ?thesis
    using Some by (simp add: stable_ports_of_def registered_fields normalized_def sync_eq_iff
        PrimaryStablePort_def PrimaryInternalPort_def)
qed

lemma reg_Register_at:
  assumes "at_view v N w" and "CHR '':'' \<notin> set (sv_name s)" and "length (sv_start_history s) \<le> 10"
    and "sv_stable_ports (NormalizePorts s) = sv_stable_ports s"
  shows "at_view (v(sv_name s := if v (sv_name s) \<noteq> [] then v (sv_name s) else sv_stable_ports s)) N
    (snd (reg_Register E s w))"
  unfolding reg_Register_def
proof (rule reg_do_moves [OF assms(1)], intro conjI)
  fix now dsk
  assume r: "reg_inv (w_reg w)" "names_ok (w_reg w)" "stable_ports_of (w_reg w) = v"
  show "reg_inv (snd (Register now dsk s (w_reg w)))"
    using r assms(3) by (simp add: Register_inv)
  show "names_ok (snd (Register now dsk s (w_reg w)))"
    using r assms(2) by (simp add: Register_def Let_def names_ok_update)
  show "stable_ports_of (snd (Register now dsk s (w_reg w))) =
      v(sv_name s := if v (sv_name s) \<noteq> [] then v (sv_name s) else sv_stable_ports s)"
    using r(3) registered_view [OF r(1) assms(4), of now]
    by (simp add: Register_def Let_def stable_ports_of_update)
qed

lemma reg_Restore_at:
  assumes "at_view v N w" and "CHR '':'' \<notin> set (sv_name s)" and "svc_ok (sv_name s) s"
  shows "at_view (v(sv_name s := sv_stable_ports s)) N (snd (reg_Restore E s w))"
  unfolding reg_Restore_def
proof (rule reg_do_moves [OF assms(1)], intro conjI)
  fix dsk
  assume r: "reg_inv (w_reg w)" "names_ok (w_reg w)" "stable_ports_of (w_reg w) = v"
  show "reg_inv (snd (Restore dsk (Some s) (w_reg w)))"
    using r(1) assms(3) by (auto intro: Restore_inv)
  show "names_ok (snd (Restore dsk (Some s) (w_reg w)))"
    using r(2) assms(2) by (simp add: Restore_def names_ok_update)
  show "stable_ports_of (snd (Restore dsk (Some s) (w_reg w))) = v(sv_name s := sv_stable_ports s)"
    using r(3) by (simp add: Restore_def stable_ports_of_update)
qed

lemma reg_Remove_at:
  assumes "at_view v N w"
  shows "at_view (v(name := [])) N (snd (reg_Remove E name w))"
  unfolding reg_Remove_def
  by (rule reg_do_moves [OF assms])
    (simp add: Remove_inv, simp add: Remove_def names_ok_delete stable_ports_of_delete)

section \<open>Rolling back\<close>

definition prev_ports :: "service option \<Rightarrow> ports" where
  "prev_ports previous = (case previous of None \<Rightarrow> [] | Some p \<Rightarrow> sv_stable_ports p)"

definition prev_ok :: "string \<Rightarrow> service option \<Rightarrow> bool" where
  "prev_ok name previous \<longleftrightarrow> (\<forall>p. previous = Some p \<longrightarrow> svc_ok name p)"

lemma reg_Get_prev:
  "at_view v N w \<Longrightarrow> prev_ok name (reg_Get name w) \<and> prev_ports (reg_Get name w) = v name"
  using reg_Get_view [of v N w name]
  by (cases "reg_Get name w") (auto simp: prev_ok_def prev_ports_def)

lemma with_lifecycle_ok:
  assumes "at_view v N w" and "svc_ok name p"
  shows "svc_ok name (with_lifecycle w name p)" "sv_name (with_lifecycle w name p) = name"
    "sv_stable_ports (with_lifecycle w name p) = sv_stable_ports p"
  using assms(2) reg_Get_view(2) [OF assms(1), of name "the (reg_Get name w)"]
  by (cases "reg_Get name w"; simp add: with_lifecycle_def svc_ok_def)+

lemma restore_routes_at:
  "at_view v N w \<Longrightarrow> CHR '':'' \<notin> set name \<Longrightarrow> at_view v N (restore_routes E name p w)"
  unfolding restore_routes_def by (rule on_res_at_id) simp_all

lemma restoreFailedDeploy_at:
  assumes "at_view v N w" and "CHR '':'' \<notin> set name" and "owned name old N" and "prev_ok name previous"
  shows "at_view (v(name := prev_ports previous)) N (restoreFailedDeploy E name previous old w)"
proof -
  define w1 where "w1 = (if old \<noteq> None then snd (mgr_Restore E name old w) else w)"
  have w1: "at_view v N w1" using assms by (simp add: w1_def mgr_Restore_keeps)
  show ?thesis
  proof (cases previous)
    case None
    with w1 assms(2) show ?thesis
      unfolding restoreFailedDeploy_def Let_def w1_def [symmetric]
      by (simp add: reg_Remove_at prev_ports_def)
  next
    case (Some p)
    with assms(4) have "svc_ok name p" by (simp add: prev_ok_def)
    note p = with_lifecycle_ok [OF w1 this]
    with reg_Restore_at [OF w1, of "with_lifecycle w1 name p" E] assms(2) Some show ?thesis
      unfolding restoreFailedDeploy_def Let_def w1_def [symmetric]
      by (simp add: prev_ports_def restore_routes_at)
  qed
qed

lemma restore_or_finish_at:
  assumes "at_view v N w" and "owned name old N"
    and "\<And>w. at_view v N w \<Longrightarrow> at_view v N (g w)" and "\<And>w. at_view v N w \<Longrightarrow> at_view v N (k w)"
  shows "at_view v N
    (if old = None then g w
     else on_res (mgr_Restore E name old w) (\<lambda>restored w2. if \<not> restored then g w2 else k w2) (\<lambda>_ w2. g w2))"
proof (cases "old = None")
  case False
  have "at_view v N (on_res (mgr_Restore E name old w)
      (\<lambda>restored w2. if \<not> restored then g w2 else k w2) (\<lambda>_ w2. g w2))"
    by (rule on_res_at_id) (simp_all add: assms mgr_Restore_keeps)
  with False show ?thesis by (simp only: if_False)
qed (simp add: assms)

lemma restorePrevious_at:
  assumes "at_view v N w" and "CHR '':'' \<notin> set name" and "owned name old N" and "prev_ok name previous"
  shows "at_view (if previous = None then v else v(name := prev_ports previous)) N
    (restorePrevious E name previous old w)"
proof (cases previous)
  case None
  with assms(1) show ?thesis by (simp add: restorePrevious_def)
next
  case (Some p)
  with assms(4) have "svc_ok name p" by (simp add: prev_ok_def)
  note p = with_lifecycle_ok [OF assms(1) this]
  have "at_view (v(name := sv_stable_ports p)) N
      (snd (reg_Restore E (with_lifecycle w name p) w))"
    using reg_Restore_at [OF assms(1), of "with_lifecycle w name p" E] p assms(2) by simp
  with assms(3) Some show ?thesis
    unfolding restorePrevious_def Let_def
    unfolding option.case
    by (simp only: prev_ports_def option.case option.distinct if_False)
      (rule on_res_at_id, assumption, rule restore_or_finish_at, simp_all add: fun_upd_def)
qed

end
