(* ===== verification/Service_Ops.thy ===== *)
theory Service_Ops
  imports Service_Ports
begin

text \<open>
  Every operation of the service layer meets \<open>moves\<close>: it keeps the invariant and changes the
  port view as \<open>port_change\<close> allows, whatever the outside answers and whatever processes exit
  meanwhile.
\<close>

section \<open>Either of two views\<close>

text \<open>An operation ends at the view it reached, or its rollback leads to another one.\<close>

definition either :: "(string \<Rightarrow> ports) \<Rightarrow> (string \<Rightarrow> ports) \<Rightarrow> (nat \<rightharpoonup> string) \<Rightarrow> world \<Rightarrow> bool" where
  "either v v' N w \<longleftrightarrow> at_view v N w \<or> at_view v' N w"

lemma eitherI [simp]: "at_view v N w \<Longrightarrow> either v v' N w" "at_view v' N w \<Longrightarrow> either v v' N w"
  by (simp_all add: either_def)

lemma on_res_either:
  assumes "at_view v N (snd x)"
    and "\<And>a w. at_view v N w \<Longrightarrow> either v v' N (snd (good a w))"
    and "\<And>e w. at_view v N w \<Longrightarrow> either v v' N (snd (bad e w))"
  shows "either v v' N (snd (on_res x good bad))"
  using assms by (cases x; cases "fst x") auto

lemma on_res_either2:
  assumes "either v v' N (snd x)"
    and "\<And>a w. at_view v N w \<Longrightarrow> at_view v N (snd (good a w))"
    and "\<And>a w. at_view v' N w \<Longrightarrow> at_view v' N (snd (good a w))"
    and "\<And>e w. snd (bad e w) = w"
  shows "either v v' N (snd (on_res x good bad))"
  using assms by (cases x; cases "fst x") (auto simp: either_def)

section \<open>Promotion and deploys\<close>

lemma promote_at:
  assumes "at_view v N w" and "\<And>w. at_view v N w \<Longrightarrow> at_view v' N (undo w)"
  shows "either v v' N (snd (promote E name ports deployed window old undo w))"
  unfolding promote_def Let_def
  by (rule on_res_either) (simp_all add: assms on_res_either)

lemma deploy_static_at:
  assumes "at_view v N w" and "CHR '':'' \<notin> set (dr_Name req)" and "sv_name svc = dr_Name req"
    and "prev_ok (dr_Name req) previous"
  shows "either v (v(dr_Name req := prev_ports previous)) N (snd (deploy_static E req previous svc w))"
proof -
  let ?v' = "v(dr_Name req := prev_ports previous)"
  have owned: "owned (dr_Name req) None N" by (simp add: owned_def)
  have undo: "at_view v N w1 \<Longrightarrow> either v ?v' N (restorePrevious E (dr_Name req) previous None w1)" for w1
    using restorePrevious_at [of v N w1 "dr_Name req" None previous E] assms(2,4) owned
    by (auto simp: either_def split: if_splits)
  have undo': "at_view v N w1 \<Longrightarrow> at_view ?v' N (restoreFailedDeploy E (dr_Name req) previous None w1)" for w1
    by (rule restoreFailedDeploy_at [OF _ assms(2) owned assms(4)])
  show ?thesis
    unfolding deploy_static_def assms(3)
  proof (rule on_res_either)
    show "at_view v N (snd (prx_Register E (dr_Name req) (sv_stable_ports svc) (sv_proxy_bind_address svc) w))"
      using assms(1,2) by simp
  qed (simp_all add: undo, rule on_res_either, simp_all add: undo' Let_def)
qed

lemma deploy_binary_at:
  assumes "world_inv w" and "CHR '':'' \<notin> set (dr_Name req)" and "sv_name svc = dr_Name req"
    and "prev_ok (dr_Name req) previous"
  shows "either (port_view w) ((port_view w)(dr_Name req := prev_ports previous)) (cmd_names w)
    (snd (deploy_binary E req previous svc w))"
proof -
  let ?v = "port_view w" and ?N = "cmd_names w"
  obtain old w0 where d: "mgr_Detach (dr_Name req) w = (old, w0)" by fastforce
  have w: "at_view ?v ?N w" using assms(1) by (simp add: at_view_def)
  from st_detach.quiet [OF this, of "dr_Name req"] d have w0: "at_view ?v ?N w0" by simp
  from mgr_Detach_owned [OF assms(1), of "dr_Name req"] d have owned: "owned (dr_Name req) old ?N" by simp
  have undo: "at_view ?v ?N w1 \<Longrightarrow>
      at_view (?v(dr_Name req := prev_ports previous)) ?N (restoreFailedDeploy E (dr_Name req) previous old w1)" for w1
    by (rule restoreFailedDeploy_at [OF _ assms(2) owned assms(4)])
  show ?thesis
    unfolding deploy_binary_def Let_def assms(3) d case_prod_conv
    using w0 assms(2) undo
    by (intro on_res_either on_res_either2) (simp_all add: promote_at)
qed

section \<open>The specification of an operation\<close>

definition moves :: "string \<Rightarrow> world \<Rightarrow> world \<Rightarrow> bool" where
  "moves name w w' \<longleftrightarrow> world_inv w' \<and> port_change name (port_view w) (port_view w')"

lemma moves_refl: "world_inv w \<Longrightarrow> moves name w w"
  by (simp add: moves_def)

lemma moves_quiet: "at_view (port_view w) N w' \<Longrightarrow> moves name w w'"
  by (simp add: moves_def at_view_def)

lemma moves_either:
  "either v v' N w' \<Longrightarrow> port_change name (port_view w) v \<Longrightarrow> port_change name (port_view w) v'
   \<Longrightarrow> moves name w w'"
  by (auto simp: moves_def at_view_def either_def)

lemma moves_gated: "world_inv w \<Longrightarrow> (ok (ensure_mutable w) \<Longrightarrow> moves name w (snd (f w))) \<Longrightarrow> moves name w (snd (gated f w))"
  by (simp add: gated_def moves_quiet at_view_def moves_def split: sum.split)

lemma at_start: "world_inv w \<Longrightarrow> at_view (port_view w) (cmd_names w) w"
  by (simp add: at_view_def)

lemma at_view_weaken: "at_view v N w \<Longrightarrow> at_view v (cmd_names w) w"
  by (simp add: at_view_def)


lemma NormalizePorts_identity [simp]:
  "sv_name (NormalizePorts s) = sv_name s" "sv_start_history (NormalizePorts s) = sv_start_history s"
  by (simp_all add: NormalizePorts_def syncSingularFromMap_def Let_def)

lemma stable_ports_normalize_twice [simp]:
  "sv_stable_ports (NormalizePorts (NormalizePorts s)) = sv_stable_ports (NormalizePorts s)"
proof -
  have "sv_stable_port (NormalizePorts s) = PrimaryStablePort (NormalizePorts s)"
    using normalized_NormalizePorts [of s] by (simp add: normalized_def sync_eq_iff)
  then show ?thesis
    by (simp add: stable_ports_normalize [of "NormalizePorts s"] PrimaryStablePort_def)
qed

lemma request_service_fields [simp]:
  "sv_name (request_service req ver ps) = dr_Name req" "sv_start_history (request_service req ver ps) = []"
  "sv_stable_ports (NormalizePorts (request_service req ver ps)) = sv_stable_ports (request_service req ver ps)"
  "sv_stable_ports (request_service req ver ps) = ps"
  unfolding request_service_def stable_ports_normalize_twice
  by (simp_all add: stable_ports_normalize, simp_all add: zero_service_def)

lemma default_request_name [simp]: "dr_Name (default_request req) = dr_Name req"
  by (simp add: default_request_def)

lemma deploy_registered_at:
  assumes "at_view v N w" and "CHR '':'' \<notin> set (dr_Name req)" and "prev_ok (dr_Name req) previous"
  shows "either v (v(dr_Name req := prev_ports previous)) N (snd (deploy_registered E req previous w))"
proof (cases "reg_Get (dr_Name req) w")
  case None
  with assms(1) show ?thesis by (simp add: deploy_registered_def)
next
  case (Some svc)
  then have svc: "sv_name svc = dr_Name req" using reg_Get_view(2) [OF assms(1)] by blast
  then show ?thesis
    using deploy_static_at [OF assms(1,2) svc assms(3), of E]
      deploy_binary_at [OF _ assms(2) svc assms(3), of w E] Some assms(1)
    by (auto simp: deploy_registered_def at_view_def either_def intro: map_le_trans)
qed

lemma deploy_valid_moves:
  assumes "world_inv w" and name: "CHR '':'' \<notin> set (dr_Name req)"
  shows "moves (dr_Name req) w (snd (deploy_valid E req w))"
proof -
  let ?name = "dr_Name req" and ?v = "port_view w" and ?N = "cmd_names w"
  let ?previous = "reg_Get ?name w"
  let ?alloc = "allocatePorts E ?name (dr_StablePorts req) (dr_ProxyBindAddress req) (tick w)"
  have w: "at_view ?v ?N w" using assms(1) by (rule at_start)
  have prev: "prev_ok ?name ?previous" "prev_ports ?previous = ?v ?name"
    using reg_Get_prev [OF w] by auto
  have w1: "at_view ?v ?N (snd ?alloc)" using name w by (simp add: allocatePorts_at)
  show ?thesis
  proof (cases "fst ?alloc")
    case (Inl e)
    with w1 show ?thesis by (simp add: deploy_valid_def Let_def on_res_def moves_quiet)
  next
    case (Inr ps)
    define w1 where "w1 = snd ?alloc"
    have alloc: "?alloc = (Inr ps, w1)" using Inr by (simp add: w1_def prod_eq_iff)
    have ps: "if ?v ?name = [] then fresh_ports ?v ps else ps = ?v ?name"
      using allocatePorts_ports [OF alloc, of ?v ?N] w by simp
    let ?svc = "request_service req (request_version E w1 req) ps"
    let ?v1 = "?v(?name := if ?v ?name \<noteq> [] then ?v ?name else ps)"
    have reg: "at_view ?v1 ?N (snd (reg_Register E ?svc w1))"
      using reg_Register_at [OF w1 [folded w1_def], of ?svc E] name
      by (cases "?v ?name = []") simp_all
    have change: "port_change ?name ?v ?v1" "?v1(?name := ?v ?name) = ?v"
      using ps by (auto simp: port_change_def)
    have "either ?v1 ?v ?N (snd (on_res (reg_Register E ?svc w1)
        (\<lambda>_ w2. deploy_registered E req ?previous w2) (\<lambda>e w2. (Inl e, w2))))"
      using reg deploy_registered_at [OF _ name prev(1), of ?v1 ?N] prev(2) change(2)
      by (intro on_res_either) simp_all
    then show ?thesis
      unfolding deploy_valid_def Let_def alloc on_res_simps
      by (rule moves_either [of ?v1 ?v ?N]) (rule change(1), rule port_change_refl)
  qed
qed

lemma Deploy_moves: "world_inv w \<Longrightarrow> moves (dr_Name req) w (snd (Deploy E req w))"
  unfolding Deploy_def
  using deploy_valid_moves [of w "default_request req" E] ValidateServiceName_colon [of "dr_Name req"]
  by (intro moves_gated) (simp_all add: moves_refl Let_def split: sum.split)

section \<open>Restart, stop, rollback\<close>

lemma restartLocked_moves:
  assumes "world_inv w" and "CHR '':'' \<notin> set name"
  shows "moves name w (snd (restartLocked E name w))"
proof (cases "reg_Get name w")
  case None
  with assms(1) show ?thesis by (simp add: restartLocked_def moves_refl)
next
  case (Some svc)
  let ?v = "port_view w" and ?N = "cmd_names w"
  have w: "at_view ?v ?N w" using assms(1) by (rule at_start)
  obtain old w0 where d: "mgr_Detach name w = (old, w0)" by fastforce
  from st_detach.quiet [OF w, of name] d have w0: "at_view ?v ?N w0" by simp
  from mgr_Detach_owned [OF assms(1), of name] d have owned: "owned name old ?N" by simp
  from reg_Get_prev [OF w, of name] Some have prev: "prev_ok name (Some svc)" "prev_ports (Some svc) = ?v name"
    by auto
  have undo: "at_view ?v ?N w1 \<Longrightarrow> at_view ?v ?N (restoreFailedDeploy E name (Some svc) old w1)" for w1
    using restoreFailedDeploy_at [OF _ assms(2) owned prev(1), of ?v w1 E] prev(2) by simp
  have "either ?v ?v ?N (snd (restartLocked E name w))"
  proof (cases "sv_type svc = TypeBinary")
    case True
    then show ?thesis
      unfolding restartLocked_def Some option.case Let_def d case_prod_conv
      using w0 undo
      by (simp only: True simp_thms if_False) (intro on_res_either, simp_all add: promote_at)
  qed (simp add: restartLocked_def Some w)
  then show ?thesis by (rule moves_either) simp_all
qed

lemma ServiceRestart_moves: "world_inv w \<Longrightarrow> moves name w (snd (ServiceRestart E name w))"
  unfolding ServiceRestart_def
  by (rule moves_gated)
    (simp_all add: moves_refl restartLocked_moves ValidateServiceName_colon split: sum.split)

lemma ServiceStop_moves: "world_inv w \<Longrightarrow> moves name w (snd (ServiceStop E name w))"
  unfolding ServiceStop_def using at_start [of w]
  by (intro moves_gated)
    (auto simp: moves_refl intro!: moves_quiet [where N = "cmd_names w"] on_res_at_snd split: option.split)

lemma rollback_service_fields [simp]:
  "sv_name (rollback_service name cur prev) = name" "sv_start_history (rollback_service name cur prev) = []"
  "sv_stable_ports (NormalizePorts (rollback_service name cur prev)) = sv_stable_ports (rollback_service name cur prev)"
  "sv_stable_ports (rollback_service name cur prev) = sv_stable_ports cur"
  unfolding rollback_service_def stable_ports_normalize_twice
  by (simp_all add: stable_ports_normalize, simp_all add: zero_service_def)

text \<open>Composition: what follows a quiet call.\<close>

lemma moves_after: "at_view (port_view w) N w1 \<Longrightarrow> moves name w1 w' \<Longrightarrow> moves name w w'"
  by (simp add: moves_def at_view_def)

lemma moves_then: "moves name w w1 \<Longrightarrow> (\<And>v N. at_view v N w1 \<Longrightarrow> at_view v N w') \<Longrightarrow> moves name w w'"
  using at_start [of w1] by (fastforce simp: moves_def at_view_def)

lemma on_res_moves:
  assumes "moves name w (snd x)" and "\<And>a w1. moves name w w1 \<Longrightarrow> moves name w (snd (good a w1))"
    and "\<And>e w1. moves name w w1 \<Longrightarrow> moves name w (snd (bad e w1))"
  shows "moves name w (snd (on_res x good bad))"
  using assms by (cases x; cases "fst x") auto

lemma on_res_at_moves:
  assumes "at_view (port_view w) N (snd x)"
    and "\<And>a w1. at_view (port_view w) N w1 \<Longrightarrow> moves name w (snd (good a w1))"
    and "\<And>e w1. at_view (port_view w) N w1 \<Longrightarrow> moves name w (snd (bad e w1))"
  shows "moves name w (snd (on_res x good bad))"
  using assms by (cases x; cases "fst x") auto

lemma rollback_registered_moves:
  assumes "at_view (port_view w) N w1" and "CHR '':'' \<notin> set name" and "sv_name svc = name"
  shows "moves name w (snd (rollback_registered E name svc w1))"
proof -
  have restart: "moves name w (snd (restartLocked E name w2))" if "at_view (port_view w) N w2" for w2
    using that assms(2) by (auto simp: at_view_def intro: moves_after restartLocked_moves)
  have serve: "moves name w (snd (on_res (restartLocked E name w2)
      (\<lambda>_ w2. (Inr (f w2), write_receipt E (f w2) (reg_UpdateLastDeployed E name w2))) (\<lambda>e w2. (Inl e, w2))))"
    if "at_view (port_view w) N w2" for w2 f
    by (rule on_res_moves) (use restart [OF that] in \<open>auto intro: moves_then\<close>)
  have static: "moves name w (snd (on_res (prx_SwapStatic E name dir w2)
      (\<lambda>_ w2. (Inr (f w2), write_receipt E (f w2)
         (reg_UpdateLastDeployed E name (reg_UpdateStatus E name StatusRunning 0 w2)))) (\<lambda>e w2. (Inl e, w2))))"
    if "at_view (port_view w) N w2" for w2 f dir
    by (rule on_res_at_moves [where N = N]) (simp_all add: that moves_quiet [where N = N])
  show ?thesis
    unfolding rollback_registered_def Let_def assms(3)
    by (rule on_res_at_moves [where N = N])
      (use assms(1,2) in \<open>simp_all add: serve static moves_quiet [where N = N]\<close>)
qed

lemma Rollback_moves: "world_inv w \<Longrightarrow> moves name w (snd (Rollback E name w))"
  unfolding Rollback_def
proof (rule moves_gated, assumption)
  let ?v = "port_view w" and ?N = "cmd_names w"
  assume "world_inv w"
  then have w: "at_view ?v ?N w" by (rule at_start)
  have reg: "at_view ?v ?N (snd (reg_Register E (rollback_service name current prev) w))"
    if "reg_Get name w = Some current" for current prev
  proof -
    from reg_Get_view(2) [OF w that] have cur: "?v name = sv_stable_ports current" "CHR '':'' \<notin> set name"
      by auto
    then have "?v(name := if ?v name \<noteq> [] then ?v name else sv_stable_ports current) = ?v" by auto
    then show ?thesis
      using reg_Register_at [OF w, of "rollback_service name current prev" E] cur(2)
      by (simp only: rollback_service_fields) simp
  qed
  have next_step: "moves name w (snd (case reg_Get name w1 of None \<Rightarrow> (Inl e, w1)
      | Some svc \<Rightarrow> rollback_registered E name svc w1))" if "at_view ?v ?N w1" for w1 e
    using that reg_Get_view(2) [OF that] rollback_registered_moves [OF that]
    by (auto intro: moves_quiet split: option.split)
  show "moves name w (snd (case reg_Get name w of
      None \<Rightarrow> (Inl (MissingServicef ''service %q not found'' [FStr name]), w)
    | Some current \<Rightarrow>
        (case sv_previous_deployment current of
           None \<Rightarrow> (Inl (InvalidConfigf ''service %q has no previous deployment'' [FStr name]), w)
         | Some prev \<Rightarrow>
             on_res (reg_Register E (rollback_service name current prev) w)
               (\<lambda>_ w1. case reg_Get name w1 of
                   None \<Rightarrow> (Inl (IOError ''unregistered''), w1)
                 | Some svc \<Rightarrow> rollback_registered E name svc w1)
               (\<lambda>e w1. (Inl e, w1)))))"
    using moves_quiet [OF w, of name] reg next_step
    by (auto intro!: on_res_at_moves [where N = ?N] intro: moves_quiet [where N = ?N] split: option.split)
qed

section \<open>Remove, teardown, reserve, archive, prune\<close>

text \<open>A removal frees the ports of the service it names.\<close>

definition drops :: "string \<Rightarrow> world \<Rightarrow> world \<Rightarrow> bool" where
  "drops name w w' \<longleftrightarrow> world_inv w'
     \<and> (port_view w' = port_view w \<or> port_view w' = (port_view w)(name := []))"

lemma drops_refl: "world_inv w \<Longrightarrow> drops name w w"
  by (simp add: drops_def)

lemma ServiceRemove_view:
  assumes "world_inv w" and "ok (ensure_mutable w)"
  shows "at_view ((port_view w)(name := [])) (cmd_names w) (snd (ServiceRemove E name w))"
proof -
  let ?v = "port_view w" and ?N = "cmd_names w"
  let ?w1 = "prx_RemovePorts name (snd (mgr_Stop E name (watch_Stop name w)))"
  have w1: "at_view ?v ?N ?w1" using at_start [OF assms(1)] by simp
  show ?thesis
    using reg_Remove_at [OF w1, of name E] assms(2)
    by (auto simp: ServiceRemove_def gated_def Let_def ok_def intro!: on_res_at_snd
        split: option.split sum.split)
qed

lemma ServiceRemove_drops:
  assumes "world_inv w"
  shows "drops name w (snd (ServiceRemove E name w))"
proof -
  have "snd (ServiceRemove E name w) = w" if "\<not> ok (ensure_mutable w)"
    using that by (auto simp: ServiceRemove_def gated_def ok_def split: sum.split)
  then show ?thesis
    using assms ServiceRemove_view [OF assms] by (cases "ok (ensure_mutable w)") (auto simp: drops_def at_view_def)
qed

text \<open>A teardown is a sequence of removals.\<close>

definition drops_only :: "world \<Rightarrow> world \<Rightarrow> bool" where
  "drops_only w w' \<longleftrightarrow> world_inv w' \<and> (\<forall>n. port_view w' n = port_view w n \<or> port_view w' n = [])"

lemma drops_onlyI: "drops name w w' \<Longrightarrow> drops_only w w'"
  by (auto simp: drops_def drops_only_def)

lemma drops_only_trans: "drops_only w w1 \<Longrightarrow> drops_only w1 w2 \<Longrightarrow> drops_only w w2"
  by (simp add: drops_only_def) metis

lemma teardown_loop_drops:
  "world_inv w \<Longrightarrow> drops_only w (snd (teardown_loop E root entries acc w))"
proof (induction entries arbitrary: acc w)
  case Nil
  then show ?case by (cases acc) (simp add: drops_only_def)
next
  case (Cons entry entries)
  obtain name e where entry: "entry = (name, e)" by fastforce
  obtain removed errs where acc: "acc = (removed, errs)" by fastforce
  let ?rm = "ServiceRemove E name w"
  have rm: "drops_only w (snd ?rm)"
    using ServiceRemove_drops [OF Cons.prems] by (rule drops_onlyI)
  have "drops_only w (snd (teardown_loop E root entries acc' (snd ?rm)))" for acc'
  proof -
    from rm have "world_inv (snd ?rm)" by (simp add: drops_only_def)
    from drops_only_trans [OF rm Cons.IH [OF this]] show ?thesis .
  qed
  then show ?case
    using Cons.IH [OF Cons.prems] unfolding entry acc
    by (cases ?rm; cases "fst ?rm") (auto simp: on_res_def)
qed

lemma Teardown_drops:
  assumes "world_inv w"
  shows "drops_only w (snd (Teardown E repo w))"
  using assms teardown_loop_drops [OF assms]
  by (auto simp: Teardown_def gated_def Let_def case_prod_beta drops_only_def world_inv_def tick_def
      port_view_def split: sum.split)

lemma reserved_service_fields [simp]:
  "sv_name (reserved_service name ps) = name" "sv_start_history (reserved_service name ps) = []"
  "sv_stable_ports (NormalizePorts (reserved_service name ps)) = sv_stable_ports (reserved_service name ps)"
  "sv_stable_ports (reserved_service name ps) = ps"
  unfolding reserved_service_def stable_ports_normalize_twice
  by (simp_all add: stable_ports_normalize, simp_all add: zero_service_def)

lemma reserve_moves:
  assumes "world_inv w" and name: "CHR '':'' \<notin> set name"
  shows "moves name w (snd (on_res (allocatePorts E name preferred addr w)
    (\<lambda>ps w1. (Inr (f ps), reserve_if_new E name ps w1)) (\<lambda>e w1. (Inl e, w1))))"
proof -
  let ?alloc = "allocatePorts E name preferred addr w" and ?v = "port_view w" and ?N = "cmd_names w"
  have w: "at_view ?v ?N w" using assms(1) by (rule at_start)
  have w1: "at_view ?v ?N (snd ?alloc)" using name w by (simp add: allocatePorts_at)
  show ?thesis
  proof (cases "fst ?alloc")
    case (Inl e)
    with w1 show ?thesis by (simp add: on_res_def moves_quiet)
  next
    case (Inr ps)
    define w2 where "w2 = snd ?alloc"
    have alloc: "?alloc = (Inr ps, w2)" using Inr by (simp add: w2_def prod_eq_iff)
    have ps: "if ?v name = [] then fresh_ports ?v ps else ps = ?v name"
      using allocatePorts_ports [OF alloc w] .
    have "moves name w (reserve_if_new E name ps w2)"
    proof (cases "reg_Get name w2 = None")
      case True
      then have "?v name = []" using reg_Get_view(1) [OF w1 [folded w2_def]] by simp
      moreover from this have "at_view (?v(name := ps)) ?N (snd (reg_Register E (reserved_service name ps) w2))"
        using reg_Register_at [OF w1 [folded w2_def], of "reserved_service name ps" E] name by simp
      ultimately show ?thesis
        using True ps by (auto simp: reserve_if_new_def moves_def at_view_def port_change_def)
    next
      case False
      then show ?thesis using w1 by (auto simp: reserve_if_new_def w2_def intro: moves_quiet)
    qed
    then show ?thesis unfolding alloc by simp
  qed
qed

lemma ReservePorts_moves: "world_inv w \<Longrightarrow> moves name w (snd (ReservePorts E name preferred w))"
  unfolding ReservePorts_def using reserve_moves [where f = "\<lambda>x. x"] ValidateServiceName_colon [of name]
  by (intro moves_gated) (simp_all add: moves_refl split: sum.split)

lemma Reserve_moves: "world_inv w \<Longrightarrow> moves name w (snd (Reserve E name preferred w))"
  unfolding Reserve_def
  using ValidateServiceName_colon [of name]
    reserve_moves [where f = "\<lambda>ps. case map_of ps ''default'' of Some p \<Rightarrow> p | None \<Rightarrow> 0"]
  by (intro moves_gated) (simp_all add: moves_refl split: sum.split)

text \<open>Archiving keeps the ports reserved; pruning frees them.\<close>

lemma stable_ports_same:
  "map_of (rg_services r) n = Some s \<Longrightarrow> sv_stable_ports s' = sv_stable_ports s \<Longrightarrow>
   stable_ports_of (r\<lparr>rg_services := AList.update n s' (rg_services r)\<rparr>) = stable_ports_of r"
  by (rule ext) (simp add: stable_ports_of_update, simp add: stable_ports_of_def)

lemma Archive_keeps: "keeps_reg r (snd (Archive now dsk name r))"
  unfolding keeps_reg_def
  by (intro conjI impI Archive_inv)
    (auto simp: Archive_def Let_def stable_ports_same intro!: names_ok_update dest: names_okD split: option.split)

lemma RestoreArchived_keeps: "keeps_reg r (snd (RestoreArchived now dsk name r))"
  unfolding keeps_reg_def
  by (intro conjI impI RestoreArchived_inv)
    (auto simp: RestoreArchived_def Let_def stable_ports_same intro!: names_ok_update dest: names_okD split: option.split)

interpretation st_archive: world_step "\<lambda>w. snd (reg_do E (\<lambda>now dsk. Archive now dsk name) w)" for E name
  by (rule reg_do_keeps) (rule Archive_keeps)

interpretation st_restore_archived: world_step "\<lambda>w. snd (reg_do E (\<lambda>now dsk. RestoreArchived now dsk name) w)" for E name
  by (rule reg_do_keeps) (rule RestoreArchived_keeps)

lemma ServiceArchive_moves: "world_inv w \<Longrightarrow> moves name w (snd (ServiceArchive E name w))"
  unfolding ServiceArchive_def using at_start [of w]
  by (intro moves_gated)
    (auto simp: moves_refl intro!: on_res_at_moves [where N = "cmd_names w"]
      intro: moves_quiet [where N = "cmd_names w"] split: option.split)

lemma ServiceRestoreArchived_moves: "world_inv w \<Longrightarrow> moves name w (snd (ServiceRestoreArchived E name w))"
  unfolding ServiceRestoreArchived_def using at_start [of w]
  by (intro moves_gated)
    (auto simp: moves_refl intro!: on_res_at_moves [where N = "cmd_names w"]
      intro: moves_quiet [where N = "cmd_names w"] split: option.split)

lemma Prune_view:
  "reg_inv r \<Longrightarrow> names_ok r \<Longrightarrow> names_ok (snd (Prune now dsk name r))
   \<and> stable_ports_of (snd (Prune now dsk name r)) \<in> {stable_ports_of r, (stable_ports_of r)(name := [])}"
proof -
  have "stable_ports_of (r\<lparr>rg_services := AList.delete name (rg_services r), rg_tombstones := t\<rparr>)
      = (stable_ports_of r)(name := [])" for t
    by (rule ext) (simp add: stable_ports_of_def delete_conv')
  moreover assume "names_ok r"
  ultimately show ?thesis
    by (auto simp: Prune_def Let_def names_ok_def set_delete_in split: option.split)
qed

lemma ServicePrune_drops:
  assumes "world_inv w"
  shows "drops name w (snd (ServicePrune E name w))"
proof -
  define w1 where "w1 = prx_RemovePorts name w"
  have w1: "world_inv w1" "port_view w1 = port_view w"
    using at_start [OF assms] st_remove.quiet [of "port_view w" "cmd_names w" w name]
    by (simp_all add: w1_def at_view_def)
  let ?p = "reg_do E (\<lambda>now dsk. Prune now dsk name) w1"
  have "drops name w (snd ?p)"
    using w1 Prune_inv [of "w_reg w1"] Prune_view [of "w_reg w1"]
    by (auto simp: drops_def reg_do_def case_prod_beta world_inv_def port_view_def)
  then show ?thesis
    using drops_refl [OF assms, of name]
    by (auto simp: ServicePrune_def gated_def w1_def [symmetric] on_res_def split: option.split sum.split)
qed

section \<open>Crashes and startup\<close>

lemma handleCrash_moves:
  assumes "world_inv w"
  shows "moves name w (snd (handleCrash E name w))"
proof -
  let ?v = "port_view w" and ?N = "cmd_names w"
  have w: "at_view ?v ?N w" using assms by (rule at_start)
  have restart: "at_view ?v ?N w1 \<Longrightarrow> moves name w (snd (ServiceRestart E name w1))" for w1
    by (auto simp: at_view_def intro: moves_after ServiceRestart_moves)
  show ?thesis
    using w by (auto simp: handleCrash_def Let_def intro!: restart
        intro: moves_quiet [where N = "cmd_names w"] split: option.split)
qed

lemma reg_Get_colon: "at_view v N w \<Longrightarrow> reg_Get name w = Some svc \<Longrightarrow> CHR '':'' \<notin> set name"
  using reg_Get_view(2) by blast

interpretation st_watch_build: world_step "\<lambda>w. snd (runWatchBuild E name trigger w)" for E name trigger
  by unfold_locales
    (auto simp: runWatchBuild_def Let_def split: option.split sum.split intro!: on_res_at_snd)

interpretation st_build_log: world_step "\<lambda>w. snd (BuildLog E name w)" for E name
  by unfold_locales
    (auto simp: BuildLog_def Let_def split: option.split sum.split intro!: on_res_at_snd)

lemma start_watchers_keep: "at_view v N w \<Longrightarrow>
    at_view v N (foldl (\<lambda>w svc. if sv_watch_paths svc \<noteq> [] then startWatcher E (Some svc) w else w) w svcs)"
  by (induction svcs arbitrary: w) simp_all

interpretation st_start_watchers: world_step "StartWatchers E" for E
  by unfold_locales (simp add: StartWatchers_def start_watchers_keep)

lemma handleWatchTrigger_moves:
  assumes "world_inv w"
  shows "moves name w (snd (handleWatchTrigger E name trigger w))"
proof (cases "ValidateServiceName name")
  case (Inl e)
  with assms show ?thesis by (simp add: handleWatchTrigger_def moves_refl)
next
  case (Inr u)
  then have name: "CHR '':'' \<notin> set name" by (simp add: ValidateServiceName_colon)
  have "moves name w (snd (restartLocked E name w1))" if "at_view (port_view w) (cmd_names w) w1" for w1
    using that name by (auto simp: at_view_def intro: moves_after restartLocked_moves)
  with Inr at_start [OF assms] show ?thesis
    by (auto simp: handleWatchTrigger_def intro!: on_res_at_moves [where N = "cmd_names w"]
        intro: moves_quiet [where N = "cmd_names w"])
qed

interpretation st_begin: world_step "BeginStartup E n" for E n
  by unfold_locales (simp add: BeginStartup_def)

end
