(* ===== verification/Restore.thy ===== *)
theory Restore
  imports Service
begin

text \<open>
  \<^verbatim>\<open>internal/service/restore.go\<close>: after a start of the daemon, the stable ports of all registered
  services are bound, and those that were running are started again by a pool of workers. A
  service's restore is one step, and the order in which the pool performs them is any permutation of the
  jobs (\<open>order\<close>); the context may be cancelled at any time, and the dispatcher may then stop before the
  next job. Test hooks and log lines are left out.
\<close>

section \<open>Results\<close>

record restore_options =
  ro_MaxParallel :: int
  ro_IssueSource :: string

definition baseRestoreResult :: "service \<Rightarrow> restore_service_result" where
  "baseRestoreResult svc =
     \<lparr>rs_name = sv_name svc, rs_prior_status = sv_status svc, rs_outcome = NoOutcome,
      rs_stable_ports = copyPorts (sv_stable_ports svc), rs_internal_ports = [], rs_pid = 0,
      rs_duration = 0, rs_error = None\<rparr>"

definition count_outcome :: "restore_outcome \<Rightarrow> restore_all_result \<Rightarrow> restore_all_result" where
  "count_outcome outcome r =
     (case outcome of
        RestoreRunning \<Rightarrow> r\<lparr>ra_restored := ra_restored r + 1\<rparr>
      | RestoreStatic \<Rightarrow> r\<lparr>ra_restored := ra_restored r + 1\<rparr>
      | RestoreFailed \<Rightarrow> r\<lparr>ra_failed := ra_failed r + 1\<rparr>
      | RestoreOrphaned \<Rightarrow> r\<lparr>ra_orphaned := ra_orphaned r + 1\<rparr>
      | RestoreSkipped \<Rightarrow> r\<lparr>ra_skipped := ra_skipped r + 1\<rparr>
      | RestoreBindFail \<Rightarrow> r\<lparr>ra_bind_failed := ra_bind_failed r + 1\<rparr>
      | NoOutcome \<Rightarrow> r)"

definition recordRestoreResult ::
    "restore_service_result \<Rightarrow> restore_all_result \<times> world \<Rightarrow> restore_all_result \<times> world" where
  "recordRestoreResult res rw =
     (case rw of (result, w) \<Rightarrow>
        ((count_outcome (rs_outcome res) result)
           \<lparr>ra_services := sort_key rs_name (ra_services result @ [res])\<rparr>,
         w\<lparr>w_startup := incrementCompleted (w_startup w)\<rparr>))"

definition startup_issue :: "string \<Rightarrow> string \<Rightarrow> string \<Rightarrow> err \<Rightarrow> issue" where
  "startup_issue source0 tool serviceName e =
     zero_issue\<lparr>is_Source := (if source0 = '''' then ''daemon:restore_failed'' else source0),
       is_Tool := tool, is_Input := serviceName,
       is_Error := sprintf ''service %s: %v'' [serviceName, err_text e], is_Severity := ''error''\<rparr>"

definition recordStartupIssue :: "outside \<Rightarrow> string \<Rightarrow> string \<Rightarrow> string \<Rightarrow> err \<Rightarrow> world \<Rightarrow> world" where
  "recordStartupIssue E source0 tool serviceName e w = report_issue E (startup_issue source0 tool serviceName e) w"

definition restoreFailed ::
    "outside \<Rightarrow> restore_service_result \<Rightarrow> string \<Rightarrow> string \<Rightarrow> string \<Rightarrow> err \<Rightarrow> world
     \<Rightarrow> restore_service_result \<times> world" where
  "restoreFailed E res serviceName issueSource tool e w =
     (res\<lparr>rs_outcome := RestoreFailed, rs_error := Some e\<rparr>,
      recordStartupIssue E issueSource tool serviceName e (reg_UpdateStatus E serviceName StatusFailed 0 w))"

text \<open>The last resort takes whatever port comes first in the map.\<close>

definition healthCheckPort :: "service \<Rightarrow> ports \<Rightarrow> int" where
  "healthCheckPort svc internalPorts =
     (case (if sv_health_check_port svc \<noteq> '''' then map_of internalPorts (sv_health_check_port svc) else None) of
        Some p \<Rightarrow> p
      | None \<Rightarrow>
          (case map_of internalPorts ''default'' of
             Some p \<Rightarrow> p
           | None \<Rightarrow> (case internalPorts of (_, p) # _ \<Rightarrow> p | [] \<Rightarrow> PrimaryInternalPort svc)))"

section \<open>One service\<close>

definition ctx_err :: err where "ctx_err = IOError ''context canceled''"

definition is_cancelled :: "outside \<Rightarrow> world \<Rightarrow> bool" where
  "is_cancelled E w = o_cancelled E (w_tick w)"

text \<open>A failure after the candidate was started.\<close>

definition abort_restore ::
    "outside \<Rightarrow> restore_service_result \<Rightarrow> string \<Rightarrow> string \<Rightarrow> string \<Rightarrow> err \<Rightarrow> world
     \<Rightarrow> restore_service_result \<times> world" where
  "abort_restore E res name issueSource tool e w =
     restoreFailed E res name issueSource tool e (prx_UnswapPorts name (mgr_StopFailed E name w))"

text \<open>The candidate is healthy: the switch to it.\<close>

definition restore_promote ::
    "outside \<Rightarrow> service \<Rightarrow> restore_service_result \<Rightarrow> string \<Rightarrow> ports \<Rightarrow> world
     \<Rightarrow> restore_service_result \<times> world" where
  "restore_promote E svc res issueSource internalPorts w =
     (let name = sv_name svc in
      on_res (prx_SwapPorts E name internalPorts w)
        (\<lambda>_ w1.
           (let pid = ProcPID name (w_mgr w1) in
            if pid = 0
            then abort_restore E res name issueSource ''startup_pid''
                   (Errorf ''service %q candidate exited before activation'' [FStr name]) w1
            else
              on_res (mgr_Activate E name (interfere E (reg_UpdateStatus E name StatusRunning pid w1)))
                (\<lambda>_ w2.
                   (res\<lparr>rs_outcome := RestoreRunning, rs_pid := pid\<rparr>,
                    reg_UpdateCrashState E name 0 False (clear_attempts name w2)))
                (\<lambda>e w2. abort_restore E res name issueSource ''startup_activate'' e w2)))
        (\<lambda>e w1. abort_restore E res name issueSource ''startup_proxy'' (Errorf ''proxy swap: %w'' [FErr e]) w1))"

definition restore_started ::
    "outside \<Rightarrow> service \<Rightarrow> restore_service_result \<Rightarrow> string \<Rightarrow> ports \<Rightarrow> world
     \<Rightarrow> restore_service_result \<times> world" where
  "restore_started E svc res issueSource internalPorts w =
     (let name = sv_name svc;
          hcTimeout = (if sv_health_check_timeout svc = 0 then defaultHealthCheckTimeout
                       else sv_health_check_timeout svc)
      in
      if is_cancelled E w
      then restoreFailed E res name issueSource ''startup_canceled'' ctx_err (mgr_StopFailed E name w)
      else
        on_res (wait_healthy E (healthCheckPort svc internalPorts) (sv_health_check svc) hcTimeout w)
          (\<lambda>_ w1. restore_promote E svc res issueSource internalPorts w1)
          (\<lambda>e w1. abort_restore E res name issueSource ''startup_health''
                     (Errorf ''health check: %w'' [FErr e]) w1))"

definition restore_body ::
    "outside \<Rightarrow> service \<Rightarrow> restore_service_result \<Rightarrow> string \<Rightarrow> world \<Rightarrow> restore_service_result \<times> world" where
  "restore_body E svc res issueSource w =
     (let name = sv_name svc in
      if sv_type svc = TypeStatic then
        on_res (prx_SwapStatic E name (sv_binary_path svc) w)
          (\<lambda>_ w1. (res\<lparr>rs_outcome := RestoreStatic\<rparr>, reg_UpdateStatus E name StatusRunning 0 w1))
          (\<lambda>e w1. restoreFailed E res name issueSource ''startup_static'' (Errorf ''static swap: %w'' [FErr e]) w1)
      else if o_stat E (w_tick w) (sv_binary_path svc) = StatNotExist then
        (let e = Errorf ''binary path missing: %s'' [FStr (sv_binary_path svc)] in
         (res\<lparr>rs_outcome := RestoreOrphaned, rs_error := Some e\<rparr>,
          recordStartupIssue E issueSource ''startup_orphaned'' name e
            (reg_UpdateStatus E name StatusOrphaned 0 (tick w))))
      else if o_stat E (w_tick w) (sv_binary_path svc) = StatError then
        restoreFailed E res name issueSource ''startup_stat''
          (Errorf ''stat %s: %w'' [FStr (sv_binary_path svc), FErr (stat_err (sv_binary_path svc))]) (tick w)
      else
        on_res (mgr_StartCandidate E svc (tick w))
          (\<lambda>internalPorts w1.
             restore_started E svc (res\<lparr>rs_internal_ports := copyPorts internalPorts\<rparr>) issueSource internalPorts w1)
          (\<lambda>e w1. restoreFailed E res name issueSource ''startup_start'' e w1))"

definition restoreOne ::
    "outside \<Rightarrow> service \<Rightarrow> restore_service_result \<Rightarrow> string \<Rightarrow> world \<Rightarrow> restore_service_result \<times> world" where
  "restoreOne E svc res issueSource w =
     (case restore_body E svc res issueSource w of
        (r, w1) \<Rightarrow> (r\<lparr>rs_duration := now_at E w1 - now_at E w\<rparr>, w1))"

section \<open>All services\<close>

type_synonym target = "service \<times> restore_service_result"

text \<open>Binding the listeners of one service: whether it is to be started.\<close>

definition bind_service ::
    "outside \<Rightarrow> string \<Rightarrow> service \<Rightarrow> restore_all_result \<times> world
     \<Rightarrow> target list \<times> (restore_all_result \<times> world)" where
  "bind_service E issueSource svc0 rw =
     (let res = baseRestoreResult svc0 in
      if sv_stable_ports svc0 = [] \<and> sv_stable_port svc0 = 0
      then ([], recordRestoreResult (res\<lparr>rs_outcome := RestoreSkipped\<rparr>) rw)
      else
        (let svc = NormalizePorts svc0 in
         on_res (prx_Register E (sv_name svc) (sv_stable_ports svc) (sv_proxy_bind_address svc) (snd rw))
           (\<lambda>_ w1.
              if sv_status svc \<noteq> StatusRunning
              then ([], recordRestoreResult (res\<lparr>rs_outcome := RestoreSkipped\<rparr>) (fst rw, w1))
              else ([(svc, res)], (fst rw, w1)))
           (\<lambda>e w1.
              ([], recordRestoreResult (res\<lparr>rs_outcome := RestoreBindFail, rs_error := Some e\<rparr>)
                     (fst rw, recordStartupIssue E issueSource ''startup_bind'' (sv_name svc) e
                        (reg_UpdateStatus E (sv_name svc) StatusFailed 0 w1))))))"

fun bind_all ::
    "outside \<Rightarrow> string \<Rightarrow> service list \<Rightarrow> restore_all_result \<times> world
     \<Rightarrow> target list \<times> (restore_all_result \<times> world)" where
  "bind_all E issueSource [] rw = ([], rw)"
| "bind_all E issueSource (svc # svcs) rw =
     (case bind_service E issueSource svc rw of (ts, rw1) \<Rightarrow>
        (case bind_all E issueSource svcs rw1 of (ts', rw2) \<Rightarrow> (ts @ ts', rw2)))"

text \<open>A worker that takes a job.\<close>

definition work :: "outside \<Rightarrow> string \<Rightarrow> target \<Rightarrow> world \<Rightarrow> restore_service_result \<times> world" where
  "work E issueSource item w =
     (if is_cancelled E w
      then ((snd item)\<lparr>rs_outcome := RestoreFailed, rs_error := Some ctx_err\<rparr>, w)
      else restoreOne E (fst item) (snd item) issueSource w)"

fun dispatch ::
    "outside \<Rightarrow> string \<Rightarrow> target list \<Rightarrow> restore_all_result \<times> world \<Rightarrow> restore_all_result \<times> world" where
  "dispatch E issueSource [] rw = rw"
| "dispatch E issueSource (item # items) rw =
     (if is_cancelled E (snd rw) \<and> o_stops E (w_tick (snd rw)) then rw
      else (case work E issueSource item (tick (snd rw)) of (res, w1) \<Rightarrow>
              dispatch E issueSource items (recordRestoreResult res (fst rw, w1))))"

text \<open>What the dispatcher left.\<close>

definition cancel_target ::
    "outside \<Rightarrow> string \<Rightarrow> string set \<Rightarrow> restore_all_result \<times> world \<Rightarrow> target \<Rightarrow> restore_all_result \<times> world" where
  "cancel_target E issueSource seen rw item =
     (let name = sv_name (fst item) in
      if name \<in> seen then rw
      else
        recordRestoreResult ((snd item)\<lparr>rs_outcome := RestoreFailed, rs_error := Some ctx_err\<rparr>)
          (fst rw, reg_UpdateStatus E name StatusFailed 0
             (recordStartupIssue E issueSource ''startup_canceled'' name ctx_err (snd rw))))"

definition cancel_rest ::
    "outside \<Rightarrow> string \<Rightarrow> target list \<Rightarrow> restore_all_result \<times> world \<Rightarrow> restore_all_result \<times> world" where
  "cancel_rest E issueSource targets rw =
     (if is_cancelled E (snd rw)
      then foldl (cancel_target E issueSource (rs_name ` set (ra_services (fst rw)))) rw targets
      else rw)"

definition finish_restore :: "outside \<Rightarrow> restore_all_result \<times> world \<Rightarrow> restore_all_result \<times> world" where
  "finish_restore E rw =
     (let result = (fst rw)\<lparr>ra_completed_at := now_at E (snd rw), ra_phase := StartPhaseReady\<rparr>;
          w = (snd rw)\<lparr>w_startup := tracker_finish (ra_completed_at result) (Some result) (w_startup (snd rw))\<rparr>
      in (result, StartWatchers E w))"

text \<open>Starting, or joining the start that \<open>BeginStartup\<close> announced.\<close>

definition begin_restore :: "outside \<Rightarrow> int \<Rightarrow> int \<Rightarrow> world \<Rightarrow> int \<times> int \<times> world" where
  "begin_restore E n maxParallel0 w =
     (let maxParallel = (if maxParallel0 \<le> 0 then defaultRestoreMaxParallel else maxParallel0);
          state = StartupState (w_startup w)
      in
      if su_phase state \<noteq> StartPhaseBindingListeners \<and> su_phase state \<noteq> StartPhaseReconciling
      then (now_at E w, maxParallel, w\<lparr>w_startup := tracker_begin (now_at E w) n maxParallel (w_startup w)\<rparr>)
      else (su_started_at state, (if su_started_at state \<noteq> 0 then su_max_parallel state else maxParallel), w))"

definition reconcile ::
    "outside \<Rightarrow> string \<Rightarrow> (target list \<Rightarrow> target list) \<Rightarrow> int \<Rightarrow> target list \<Rightarrow> restore_all_result \<times> world
     \<Rightarrow> restore_all_result \<times> world" where
  "reconcile E issueSource order maxParallel targets rw =
     (let w = (snd rw)\<lparr>w_startup := setPhase StartPhaseReconciling
                 ((w_startup (snd rw))\<lparr>tk_max_parallel := min maxParallel (int (length targets))\<rparr>)\<rparr>
      in cancel_rest E issueSource targets
           (dispatch E issueSource (order targets) ((fst rw)\<lparr>ra_phase := StartPhaseReconciling\<rparr>, w)))"

definition RestoreAll ::
    "outside \<Rightarrow> (target list \<Rightarrow> target list) \<Rightarrow> restore_options \<Rightarrow> world \<Rightarrow> restore_all_result \<times> world" where
  "RestoreAll E order opts w =
     (let all = sort_key sv_name (All (w_reg w)) in
      case begin_restore E (int (length all)) (ro_MaxParallel opts) w of
        (startedAt, maxParallel, w1) \<Rightarrow>
          (let result =
             \<lparr>ra_started_at = startedAt, ra_completed_at = 0, ra_phase = StartPhaseBindingListeners,
              ra_total = int (length all), ra_targets = 0, ra_restored = 0, ra_failed = 0, ra_orphaned = 0,
              ra_skipped = 0, ra_bind_failed = 0, ra_services = []\<rparr>
           in case bind_all E (ro_IssueSource opts) all (result, tick w1) of
                (targets, result2, w2) \<Rightarrow>
                  (let rw = (result2\<lparr>ra_targets := int (length targets)\<rparr>, w2) in
                   finish_restore E
                     (if targets = [] then rw
                      else reconcile E (ro_IssueSource opts) order maxParallel targets rw))))"

end
