(* ===== verification/Restore_Ops.thy ===== *)
theory Restore_Ops
  imports Service_Ops Restore "HOL-Library.Multiset"
begin

text \<open>
  The restore after a start of the daemon keeps the joint invariant and every stable port, and it
  accounts for every registered service exactly once, whatever order the workers take, whatever fails
  and whenever the context is cancelled.
\<close>

section \<open>Invariant and ports\<close>

lemma recordRestoreResult_world [simp]:
  "snd (recordRestoreResult res rw) = (snd rw)\<lparr>w_startup := incrementCompleted (w_startup (snd rw))\<rparr>"
  by (simp add: recordRestoreResult_def split: prod.split)

lemma restoreFailed_at: "at_view v N w \<Longrightarrow> at_view v N (snd (restoreFailed E res name src tool e w))"
  by (simp add: restoreFailed_def recordStartupIssue_def)

lemma abort_restore_at: "at_view v N w \<Longrightarrow> at_view v N (snd (abort_restore E res name src tool e w))"
  by (simp add: abort_restore_def restoreFailed_at)

lemma restore_promote_at: "at_view v N w \<Longrightarrow> at_view v N (snd (restore_promote E svc res src ports w))"
  by (auto simp: restore_promote_def Let_def abort_restore_at intro!: on_res_at_snd)

lemma restore_started_at: "at_view v N w \<Longrightarrow> at_view v N (snd (restore_started E svc res src ports w))"
  by (auto simp: restore_started_def Let_def restore_promote_at abort_restore_at restoreFailed_at intro!: on_res_at_snd)

lemma restore_body_at: "at_view v N w \<Longrightarrow> at_view v N (snd (restore_body E svc res src w))"
  by (auto simp: restore_body_def Let_def restore_started_at restoreFailed_at recordStartupIssue_def
      intro!: on_res_at_snd)

interpretation st_restoreOne: world_step "\<lambda>w. snd (restoreOne E svc res src w)" for E svc res src
  using restore_body_at by unfold_locales (simp add: restoreOne_def case_prod_beta)

lemma All_names:
  assumes "world_inv w"
  shows "svc \<in> set (All (w_reg w)) \<Longrightarrow> CHR '':'' \<notin> set (sv_name svc)"
    and "distinct (map sv_name (All (w_reg w)))"
proof -
  let ?kvs = "rg_services (w_reg w)"
  from assms have ok: "reg_ok (w_reg w)" and colon: "names_ok (w_reg w)"
    by (simp_all add: world_inv_def reg_inv_def)
  have key: "(n, s) \<in> set ?kvs \<Longrightarrow> sv_name s = n" for n s
    using ok by (auto simp: reg_ok_def svc_ok_def)
  then show "svc \<in> set (All (w_reg w)) \<Longrightarrow> CHR '':'' \<notin> set (sv_name svc)"
    using colon by (fastforce simp: All_def names_ok_def)
  have "map (sv_name \<circ> snd) ?kvs = map fst ?kvs"
    using key by (intro map_cong) auto
  with ok have "distinct (map sv_name (map snd ?kvs))"
    unfolding reg_ok_def map_map by metis
  then show "distinct (map sv_name (All (w_reg w)))"
    unfolding All_def by (simp add: map_idI distinct_map_filter del: map_map)
qed

lemma bind_service_at:
  assumes "at_view v N (snd rw)" and "CHR '':'' \<notin> set (sv_name svc)"
  shows "at_view v N (snd (snd (bind_service E src svc rw)))"
  using assms
  by (auto simp: bind_service_def Let_def recordStartupIssue_def intro!: on_res_at [where f = "\<lambda>x. snd (snd x)"])

lemma bind_all_at:
  "at_view v N (snd rw) \<Longrightarrow> \<forall>svc \<in> set svcs. CHR '':'' \<notin> set (sv_name svc)
   \<Longrightarrow> at_view v N (snd (snd (bind_all E src svcs rw)))"
proof (induction svcs arbitrary: rw)
  case (Cons svc svcs)
  with bind_service_at [OF Cons.prems(1), of svc E src] show ?case
    by (auto simp: case_prod_beta)
qed simp

lemma work_at: "at_view v N w \<Longrightarrow> at_view v N (snd (work E src item w))"
  by (simp add: work_def)

lemma dispatch_at: "at_view v N (snd rw) \<Longrightarrow> at_view v N (snd (dispatch E src items rw))"
  by (induction items arbitrary: rw) (simp_all add: case_prod_beta work_at)

lemma cancel_target_at: "at_view v N (snd rw) \<Longrightarrow> at_view v N (snd (cancel_target E src seen rw item))"
  by (simp add: cancel_target_def Let_def recordStartupIssue_def)

lemma cancel_rest_at:
  assumes "at_view v N (snd rw)"
  shows "at_view v N (snd (cancel_rest E src items rw))"
proof -
  have "at_view v N (snd rw) \<Longrightarrow> at_view v N (snd (foldl (cancel_target E src seen) rw items))" for seen rw
    by (induction items arbitrary: rw) (simp_all add: cancel_target_at)
  with assms show ?thesis by (simp add: cancel_rest_def)
qed

lemma reconcile_at: "at_view v N (snd rw) \<Longrightarrow> at_view v N (snd (reconcile E src order k items rw))"
  by (simp add: reconcile_def Let_def cancel_rest_at dispatch_at)

lemma finish_restore_at: "at_view v N (snd rw) \<Longrightarrow> at_view v N (snd (finish_restore E rw))"
  by (simp add: finish_restore_def Let_def)

lemma begin_restore_at: "at_view v N w \<Longrightarrow> at_view v N (snd (snd (begin_restore E n k w)))"
  by (simp add: begin_restore_def Let_def)

lemma RestoreAll_at:
  assumes "at_view v N w"
  shows "at_view v N (snd (RestoreAll E order opts w))"
proof -
  have names: "\<forall>svc \<in> set (sort_key sv_name (All (w_reg w))). CHR '':'' \<notin> set (sv_name svc)"
    using assms All_names(1) [of w] by (auto simp: at_view_def)
  show ?thesis
    using begin_restore_at [OF assms] bind_all_at [OF _ names]
    by (simp add: RestoreAll_def Let_def case_prod_beta finish_restore_at reconcile_at)
qed

section \<open>Accounting\<close>

definition counted :: "restore_all_result \<Rightarrow> int" where
  "counted r = ra_restored r + ra_failed r + ra_orphaned r + ra_skipped r + ra_bind_failed r"

text \<open>The services a result reports on, each with an outcome, sorted, and counted once.\<close>

definition reports :: "restore_all_result \<Rightarrow> string multiset \<Rightarrow> bool" where
  "reports r names \<longleftrightarrow> mset (map rs_name (ra_services r)) = names \<and> sorted (map rs_name (ra_services r))
     \<and> counted r = int (length (ra_services r)) \<and> (\<forall>s \<in> set (ra_services r). rs_outcome s \<noteq> NoOutcome)"

lemma recordRestoreResult_reports:
  assumes "reports (fst rw) names" and "rs_outcome res \<noteq> NoOutcome"
  shows "reports (fst (recordRestoreResult res rw)) (add_mset (rs_name res) names)"
  using assms
  by (cases "rs_outcome res")
    (auto simp: reports_def recordRestoreResult_def count_outcome_def counted_def case_prod_beta)

lemma recordRestoreResult_fields [simp]:
  "ra_total (fst (recordRestoreResult res rw)) = ra_total (fst rw)"
  by (simp add: recordRestoreResult_def count_outcome_def split: prod.split restore_outcome.split)

text \<open>The result of one service has its name and an outcome.\<close>

definition judged :: "string \<Rightarrow> restore_service_result \<Rightarrow> bool" where
  "judged name r \<longleftrightarrow> rs_name r = name \<and> rs_outcome r \<noteq> NoOutcome"

lemma restoreFailed_judged [simp]: "judged n (fst (restoreFailed E res name src tool e w)) = (rs_name res = n)"
  by (simp add: restoreFailed_def judged_def)

lemma restore_promote_judged: "judged (rs_name res) (fst (restore_promote E svc res src ports w))"
  by (auto simp: restore_promote_def Let_def abort_restore_def on_res_def split: prod.split sum.split)
    (simp_all add: judged_def)

lemma restore_started_judged: "judged (rs_name res) (fst (restore_started E svc res src ports w))"
  by (auto simp: restore_started_def Let_def abort_restore_def on_res_def restore_promote_judged
      split: prod.split sum.split)

lemma restore_body_judged: "judged (rs_name res) (fst (restore_body E svc res src w))"
  using restore_started_judged [of "res\<lparr>rs_internal_ports := copyPorts ports\<rparr>" E svc src ports for ports]
  by (auto simp: restore_body_def Let_def on_res_def split: prod.split sum.split)
    (simp_all add: judged_def)

lemma work_judged: "judged (rs_name (snd item)) (fst (work E src item w))"
  using restore_body_judged [of "snd item" E "fst item" src w]
  by (simp add: work_def restoreOne_def case_prod_beta) (simp add: judged_def)

lemma NormalizePorts_name: "sv_name (NormalizePorts s) = sv_name s"
  by (simp add: NormalizePorts_def Let_def syncSingularFromMap_def)

abbreviation target_name :: "target \<Rightarrow> string" where
  "target_name t \<equiv> rs_name (snd t)"

lemma bind_service_reports:
  assumes "bind_service E src svc rw = (ts, rw')" and "reports (fst rw) names"
  shows "\<exists>names'. reports (fst rw') names' \<and> names' + mset (map target_name ts) = add_mset (sv_name svc) names"
    "\<forall>t \<in> set ts. sv_name (fst t) = target_name t" "ra_total (fst rw') = ra_total (fst rw)"
proof -
  have rec: "reports (fst (recordRestoreResult res (fst rw, w))) (add_mset (rs_name res) names)"
    if "rs_outcome res \<noteq> NoOutcome" for res w
    using that assms(2) by (intro recordRestoreResult_reports) simp_all
  have rec0: "reports (fst (recordRestoreResult res rw)) (add_mset (rs_name res) names)"
    if "rs_outcome res \<noteq> NoOutcome" for res
    using rec [of res "snd rw"] that by simp
  show "\<exists>names'. reports (fst rw') names' \<and> names' + mset (map target_name ts) = add_mset (sv_name svc) names"
    "\<forall>t \<in> set ts. sv_name (fst t) = target_name t" "ra_total (fst rw') = ra_total (fst rw)"
    using assms rec0 [of "(baseRestoreResult svc)\<lparr>rs_outcome := RestoreSkipped\<rparr>"]
      rec [of "(baseRestoreResult svc)\<lparr>rs_outcome := RestoreSkipped\<rparr>"]
      rec [of "(baseRestoreResult svc)\<lparr>rs_outcome := RestoreBindFail, rs_error := Some e\<rparr>" for e]
    by (auto simp: bind_service_def Let_def on_res_def baseRestoreResult_def NormalizePorts_name
        split: if_splits prod.splits sum.splits)
qed

lemma bind_all_reports:
  "bind_all E src svcs rw = (ts, rw') \<Longrightarrow> reports (fst rw) names \<Longrightarrow>
   (\<exists>names'. reports (fst rw') names' \<and> names' + mset (map target_name ts) = names + mset (map sv_name svcs))
   \<and> (\<forall>t \<in> set ts. sv_name (fst t) = target_name t) \<and> ra_total (fst rw') = ra_total (fst rw)"
proof (induction svcs arbitrary: rw names ts rw')
  case (Cons svc svcs)
  from Cons.prems(1) obtain ts1 rw1 ts2 where one: "bind_service E src svc rw = (ts1, rw1)"
      and rest: "bind_all E src svcs rw1 = (ts2, rw')" and ts: "ts = ts1 @ ts2"
    by (auto split: prod.splits)
  note b = bind_service_reports [OF one Cons.prems(2)]
  from b(1) obtain names1 where n1: "reports (fst rw1) names1"
      and eq1: "names1 + mset (map target_name ts1) = add_mset (sv_name svc) names" by blast
  from Cons.IH [OF rest n1] obtain names2 where n2: "reports (fst rw') names2"
      and eq2: "names2 + mset (map target_name ts2) = names1 + mset (map sv_name svcs)"
      and r: "\<forall>t \<in> set ts2. sv_name (fst t) = target_name t" "ra_total (fst rw') = ra_total (fst rw1)"
    by blast
  have "names2 + mset (map target_name ts) = (names2 + mset (map target_name ts2)) + mset (map target_name ts1)"
    by (simp add: ts ac_simps)
  also have "\<dots> = (names1 + mset (map target_name ts1)) + mset (map sv_name svcs)"
    unfolding eq2 by (simp add: ac_simps)
  also have "\<dots> = names + mset (map sv_name (svc # svcs))"
    unfolding eq1 by simp
  finally have "names2 + mset (map target_name ts) = names + mset (map sv_name (svc # svcs))" .
  with n2 r b(2,3) show ?case by (auto simp: ts)
qed auto

lemma dispatch_reports:
  "dispatch E src items rw = rw' \<Longrightarrow> reports (fst rw) names \<Longrightarrow>
   \<exists>started left. items = started @ left \<and> reports (fst rw') (names + mset (map target_name started))
     \<and> (left \<noteq> [] \<longrightarrow> is_cancelled E (snd rw')) \<and> ra_total (fst rw') = ra_total (fst rw)"
proof (induction items arbitrary: rw names)
  case (Cons item items)
  show ?case
  proof (cases "is_cancelled E (snd rw) \<and> o_stops E (w_tick (snd rw))")
    case True
    with Cons.prems show ?thesis by (intro exI [of _ "[]"] exI [of _ "item # items"]) auto
  next
    case False
    obtain res w1 where work: "work E src item (tick (snd rw)) = (res, w1)" by fastforce
    then have j: "rs_name res = target_name item" "rs_outcome res \<noteq> NoOutcome"
      using work_judged [of item E src "tick (snd rw)"] by (simp_all add: judged_def)
    let ?rw = "recordRestoreResult res (fst rw, w1)"
    have rep: "reports (fst ?rw) (add_mset (target_name item) names)"
      using recordRestoreResult_reports [of "(fst rw, w1)" names res] Cons.prems(2) j by simp
    have disp: "dispatch E src items ?rw = rw'" using Cons.prems(1) False work by auto
    from Cons.IH [OF disp rep] obtain started left where "items = started @ left"
        "reports (fst rw') (add_mset (target_name item) names + mset (map target_name started))"
        "left \<noteq> [] \<longrightarrow> is_cancelled E (snd rw')" "ra_total (fst rw') = ra_total (fst ?rw)"
      by blast
    then show ?thesis by (intro exI [of _ "item # started"] exI [of _ left]) auto
  qed
qed auto

lemma cancel_targets_reports:
  "reports (fst rw) names \<Longrightarrow> \<forall>t \<in> set items. sv_name (fst t) = target_name t \<Longrightarrow>
   reports (fst (foldl (cancel_target E src seen) rw items))
     (names + mset (filter (\<lambda>n. n \<notin> seen) (map target_name items)))
   \<and> ra_total (fst (foldl (cancel_target E src seen) rw items)) = ra_total (fst rw)"
proof (induction items arbitrary: rw names)
  case (Cons item items)
  let ?rw = "cancel_target E src seen rw item"
  let ?names = "if target_name item \<in> seen then names else add_mset (target_name item) names"
  have n: "sv_name (fst item) = target_name item" using Cons.prems(2) by simp
  have "reports (fst ?rw) ?names" "ra_total (fst ?rw) = ra_total (fst rw)"
    using Cons.prems(1)
      recordRestoreResult_reports [of "(fst rw, x)" names
        "(snd item)\<lparr>rs_outcome := RestoreFailed, rs_error := Some ctx_err\<rparr>" for x]
    by (auto simp: cancel_target_def Let_def n)
  with Cons.IH [of ?rw ?names] Cons.prems(2) show ?case by (auto split: if_splits)
qed simp

lemma distinct_parts:
  assumes "A + mset ys = mset xs" and "distinct xs"
  shows "distinct ys" "set_mset A \<inter> set ys = {}"
proof -
  obtain zs where "A = mset zs" using ex_mset by metis
  with assms have "distinct (zs @ ys)" by (metis mset_append mset_eq_imp_distinct_iff)
  then show "distinct ys" "set_mset A \<inter> set ys = {}" using \<open>A = mset zs\<close> by auto
qed

lemma filter_unseen:
  assumes "mset items = mset (started @ left)" and "distinct items" and "set (started @ left) \<inter> A = {}"
  shows "mset (filter (\<lambda>n. n \<notin> A \<union> set started) items) = mset left"
proof -
  have "distinct (started @ left)" using assms(1,2) by (metis mset_eq_imp_distinct_iff)
  then have "filter (\<lambda>n. n \<notin> A \<union> set started) (started @ left) = left"
    using assms(3) by (auto simp: filter_empty_conv intro!: filter_True)
  moreover have "mset (filter (\<lambda>n. n \<notin> A \<union> set started) items) = mset (filter (\<lambda>n. n \<notin> A \<union> set started) (started @ left))"
    using assms(1) by (metis mset_filter)
  ultimately show ?thesis by simp
qed

lemma reconcile_reports:
  assumes "reports (fst rw) names" and "\<forall>ts. mset (order ts) = mset ts"
    and "\<forall>t \<in> set items. sv_name (fst t) = target_name t"
    and "distinct (map target_name items)" and "set_mset names \<inter> set (map target_name items) = {}"
  shows "reports (fst (reconcile E src order k items rw)) (names + mset (map target_name items))
    \<and> ra_total (fst (reconcile E src order k items rw)) = ra_total (fst rw)"
proof -
  define rw0 where "rw0 = ((fst rw)\<lparr>ra_phase := StartPhaseReconciling\<rparr>, (snd rw)\<lparr>w_startup :=
    setPhase StartPhaseReconciling ((w_startup (snd rw))\<lparr>tk_max_parallel := min k (int (length items))\<rparr>)\<rparr>)"
  define rw1 where "rw1 = dispatch E src (order items) rw0"
  have rw: "reconcile E src order k items rw = cancel_rest E src items rw1"
    by (simp add: reconcile_def Let_def rw1_def rw0_def)
  have "reports (fst rw0) names" using assms(1) by (simp add: rw0_def reports_def counted_def)
  from dispatch_reports [OF rw1_def [symmetric] this] obtain started left where
      order: "order items = started @ left"
      and rep: "reports (fst rw1) (names + mset (map target_name started))"
      and cancelled: "left \<noteq> [] \<longrightarrow> is_cancelled E (snd rw1)" and tot: "ra_total (fst rw1) = ra_total (fst rw)"
    by (auto simp: rw0_def)
  have perm: "mset items = mset (started @ left)" using assms(2) order by metis
  then have names_perm: "mset (map target_name items) = mset (map target_name started @ map target_name left)"
    by (metis map_append mset_map)
  have seen: "rs_name ` set (ra_services (fst rw1)) = set_mset names \<union> set (map target_name started)"
    using rep unfolding reports_def
    by (metis list.set_map mset_map set_mset_mset set_mset_union)
  show ?thesis
  proof (cases "is_cancelled E (snd rw1)")
    case False
    with cancelled perm names_perm rep tot show ?thesis by (simp add: rw cancel_rest_def)
  next
    case True
    have "set (map target_name started @ map target_name left) \<inter> set_mset names = {}"
      using assms(5) names_perm by (metis inf_commute set_mset_mset)
    from filter_unseen [OF names_perm assms(4) this]
    have unseen: "mset (filter (\<lambda>n. n \<notin> rs_name ` set (ra_services (fst rw1))) (map target_name items))
        = mset (map target_name left)"
      unfolding seen .
    have "names + mset (map target_name started) + mset (map target_name left) = names + mset (map target_name items)"
      using names_perm by simp
    then have "reports (fst (cancel_rest E src items rw1)) (names + mset (map target_name items))
        \<and> ra_total (fst (cancel_rest E src items rw1)) = ra_total (fst rw)"
      using cancel_targets_reports [OF rep assms(3), of E src "rs_name ` set (ra_services (fst rw1))",
          unfolded unseen] True tot
      by (simp only: cancel_rest_def if_True)
    then show ?thesis unfolding rw .
  qed
qed

lemma finish_restore_result:
  "fst (finish_restore E rw) = (fst rw)\<lparr>ra_completed_at := now_at E (snd rw), ra_phase := StartPhaseReady\<rparr>"
  by (simp add: finish_restore_def Let_def)

lemma RestoreAll_reports:
  assumes "world_inv w" and "\<forall>ts. mset (order ts) = mset ts"
  shows "reports (fst (RestoreAll E order opts w)) (mset (map sv_name (All (w_reg w))))
    \<and> ra_total (fst (RestoreAll E order opts w)) = int (length (All (w_reg w)))
    \<and> ra_phase (fst (RestoreAll E order opts w)) = StartPhaseReady"
proof -
  let ?all = "sort_key sv_name (All (w_reg w))"
  let ?names = "mset (map sv_name (All (w_reg w)))"
  obtain startedAt maxParallel w1 where
      begun: "begin_restore E (int (length ?all)) (ro_MaxParallel opts) w = (startedAt, maxParallel, w1)"
    using prod_cases3 by blast
  define r where "r = \<lparr>ra_started_at = startedAt, ra_completed_at = 0, ra_phase = StartPhaseBindingListeners,
    ra_total = int (length ?all), ra_targets = 0, ra_restored = 0, ra_failed = 0, ra_orphaned = 0,
    ra_skipped = 0, ra_bind_failed = 0, ra_services = []\<rparr>"
  obtain ts r2 w2 where bind: "bind_all E (ro_IssueSource opts) ?all (r, tick w1) = (ts, r2, w2)"
    using prod_cases3 by blast
  have "reports (fst (r, tick w1)) {#}" by (simp add: r_def reports_def counted_def)
  from bind_all_reports [OF bind this] obtain names where rep: "reports r2 names"
      and eq: "names + mset (map target_name ts) = ?names"
      and ts: "\<forall>t \<in> set ts. sv_name (fst t) = target_name t" "ra_total r2 = int (length ?all)"
    by (auto simp: r_def)
  have dist: "distinct (map sv_name (All (w_reg w)))" using All_names(2) [OF assms(1)] .
  note disj = distinct_parts [OF eq dist]
  define rw where "rw = (r2\<lparr>ra_targets := int (length ts)\<rparr>, w2)"
  have rep': "reports (fst rw) names" using rep by (simp add: rw_def reports_def counted_def)
  have all: "RestoreAll E order opts w = finish_restore E (if ts = [] then rw
      else reconcile E (ro_IssueSource opts) order maxParallel ts rw)"
    unfolding RestoreAll_def Let_def begun prod.case bind [unfolded r_def] rw_def by (rule refl)
  have "reports (fst (if ts = [] then rw else reconcile E (ro_IssueSource opts) order maxParallel ts rw)) ?names
    \<and> ra_total (fst (if ts = [] then rw else reconcile E (ro_IssueSource opts) order maxParallel ts rw))
      = int (length (All (w_reg w)))"
    using reconcile_reports [OF rep' assms(2) ts(1) disj, of E "ro_IssueSource opts" maxParallel] rep' eq ts(2)
    by (auto simp: rw_def)
  then show ?thesis
    unfolding all finish_restore_result by (auto simp: reports_def counted_def)
qed

end
