(* ===== verification/Service_Props.thy ===== *)
theory Service_Props
  imports Restore_Ops
begin

text \<open>
  The properties of the service layer. \<open>service_act\<close> lists what can happen to the daemon: every
  operation, a crash handler that runs, a drain that ends, processes that exit. \<open>service_run\<close>
  performs a list of them; the outside may answer anything at every point.
\<close>

section \<open>Runs\<close>

datatype service_act =
    ActDeploy deploy_request
  | ActRestart string
  | ActStop string
  | ActRollback string
  | ActRemove string
  | ActTeardown string
  | ActReserve string int
  | ActReservePorts string ports
  | ActArchive string
  | ActRestoreArchived string
  | ActPrune string
  | ActWatch string string
  | ActBuildLog string
  | ActStartWatchers
  | ActRestoreAll "target list \<Rightarrow> target list" restore_options
  | ActCrash
  | ActDrain
  | ActExits
  | ActBeginStartup int
  | ActStartup startup_tracker

text \<open>The crash handler takes the next name of the queue. While a restore runs, the phases of the
  startup tracker are observed at any time (\<open>ActStartup\<close>).\<close>

fun service_exec :: "outside \<Rightarrow> service_act \<Rightarrow> world \<Rightarrow> world" where
  "service_exec E (ActDeploy req) w = snd (Deploy E req w)"
| "service_exec E (ActRestart name) w = snd (ServiceRestart E name w)"
| "service_exec E (ActStop name) w = snd (ServiceStop E name w)"
| "service_exec E (ActRollback name) w = snd (Rollback E name w)"
| "service_exec E (ActRemove name) w = snd (ServiceRemove E name w)"
| "service_exec E (ActTeardown repo) w = snd (Teardown E repo w)"
| "service_exec E (ActReserve name port) w = snd (Reserve E name port w)"
| "service_exec E (ActReservePorts name ports) w = snd (ReservePorts E name ports w)"
| "service_exec E (ActArchive name) w = snd (ServiceArchive E name w)"
| "service_exec E (ActRestoreArchived name) w = snd (ServiceRestoreArchived E name w)"
| "service_exec E (ActPrune name) w = snd (ServicePrune E name w)"
| "service_exec E (ActWatch name trigger) w = snd (handleWatchTrigger E name trigger w)"
| "service_exec E (ActBuildLog name) w = snd (BuildLog E name w)"
| "service_exec E ActStartWatchers w = StartWatchers E w"
| "service_exec E (ActRestoreAll order opts) w = snd (RestoreAll E order opts w)"
| "service_exec E ActCrash w =
     (case w_crashq w of
        [] \<Rightarrow> w
      | name # rest \<Rightarrow> snd (handleCrash E name (w\<lparr>w_crashq := rest\<rparr>)))"
| "service_exec E ActDrain w = run_drain E w"
| "service_exec E ActExits w = interfere E w"
| "service_exec E (ActBeginStartup n) w = BeginStartup E n w"
| "service_exec E (ActStartup t) w = w\<lparr>w_startup := t\<rparr>"

definition service_run :: "outside \<Rightarrow> service_act list \<Rightarrow> world \<Rightarrow> world" where
  "service_run E acts w = foldl (\<lambda>w act. service_exec E act w) w acts"

lemma service_run_simps [simp]:
  "service_run E [] w = w" "service_run E (act # acts) w = service_run E acts (service_exec E act w)"
  by (simp_all add: service_run_def)

text \<open>The operations that free ports, and the services they may free them of.\<close>

fun may_drop :: "string \<Rightarrow> service_act \<Rightarrow> bool" where
  "may_drop n (ActRemove name) = (name = n)"
| "may_drop n (ActPrune name) = (name = n)"
| "may_drop n (ActTeardown repo) = True"
| "may_drop n act = False"

definition exec_ok :: "service_act \<Rightarrow> world \<Rightarrow> world \<Rightarrow> bool" where
  "exec_ok act w w' \<longleftrightarrow> world_inv w'
     \<and> ((\<exists>name. port_change name (port_view w) (port_view w'))
        \<or> (\<forall>n. port_view w' n = port_view w n \<or> may_drop n act \<and> port_view w' n = []))"

lemma exec_ok_moves: "moves name w w' \<Longrightarrow> exec_ok act w w'"
  by (auto simp: moves_def exec_ok_def)

lemma exec_ok_quiet: "at_view (port_view w) N w' \<Longrightarrow> exec_ok act w w'"
  by (simp add: exec_ok_def at_view_def)

lemma exec_ok_drops: "drops name w w' \<Longrightarrow> may_drop name act \<Longrightarrow> exec_ok act w w'"
  by (auto simp: drops_def exec_ok_def split: if_splits)

lemma exec_ok_drops_only: "drops_only w w' \<Longrightarrow> (\<And>n. may_drop n act) \<Longrightarrow> exec_ok act w w'"
  by (auto simp: drops_only_def exec_ok_def)

lemmas service_moves =
  Deploy_moves ServiceRestart_moves ServiceStop_moves Rollback_moves Reserve_moves ReservePorts_moves
  ServiceArchive_moves ServiceRestoreArchived_moves handleWatchTrigger_moves

lemma handleCrash_queue_moves:
  "world_inv w \<Longrightarrow> exec_ok act w (snd (handleCrash E name (w\<lparr>w_crashq := rest\<rparr>)))"
  using handleCrash_moves [of "w\<lparr>w_crashq := rest\<rparr>" name E]
  by (auto simp: moves_def exec_ok_def)

lemma service_exec_ok: "world_inv w \<Longrightarrow> exec_ok act w (service_exec E act w)"
  using at_start [of w]
  by (cases act)
    (auto simp: exec_ok_quiet [where N = "cmd_names w"] handleCrash_queue_moves RestoreAll_at split: list.split
      intro: exec_ok_moves service_moves exec_ok_drops_only Teardown_drops
        exec_ok_drops [OF ServiceRemove_drops] exec_ok_drops [OF ServicePrune_drops])

lemma exec_ok_unique: "exec_ok act w w' \<Longrightarrow> ports_unique (port_view w) \<Longrightarrow> ports_unique (port_view w')"
  unfolding exec_ok_def
proof (elim conjE disjE exE)
  assume u: "ports_unique (port_view w)"
    and d: "\<forall>n. port_view w' n = port_view w n \<or> may_drop n act \<and> port_view w' n = []"
  have "map_of (port_view w' n) p = Some x \<Longrightarrow> map_of (port_view w n) p = Some x" for n p x
    using d [rule_format, of n] by auto
  with u show "ports_unique (port_view w')" unfolding ports_unique_def by blast
qed (rule port_change_unique)

lemma exec_ok_pinned:
  "exec_ok act w w' \<Longrightarrow> \<not> may_drop n act \<Longrightarrow> port_view w n \<noteq> [] \<Longrightarrow> port_view w' n = port_view w n"
  by (auto simp: exec_ok_def dest: port_change_pinned)

lemma service_run_inv:
  "world_inv w \<Longrightarrow> ports_unique (port_view w) \<Longrightarrow>
   world_inv (service_run E acts w) \<and> ports_unique (port_view (service_run E acts w))"
proof (induction acts arbitrary: w)
  case (Cons act acts)
  from service_exec_ok [OF Cons.prems(1), of act E] show ?case
    using Cons.IH [of "service_exec E act w"] exec_ok_unique [OF _ Cons.prems(2)]
    by (auto simp: exec_ok_def)
qed simp

section \<open>A fresh daemon\<close>

definition fresh_world :: "string \<Rightarrow> world" where
  "fresh_world logDir =
     \<lparr>w_reg = reg_load None, w_mgr = NewProcesses logDir, w_prx = NewProxy, w_watch = [],
      w_crashAttempts = [], w_startup = newStartupTracker, w_receipts = (\<lambda>_. None), w_issues = [], w_buildlogs = [],
      w_drains = [], w_crashq = [], w_deploysTotal = 0, w_crashesTotal = 0, w_tick = 0\<rparr>"

lemma fresh_world_ok: "world_inv (fresh_world logDir)" "ports_unique (port_view (fresh_world logDir))"
proof -
  have "mg_inv (NewProcesses logDir)"
    by (simp add: mg_inv_def NewProcesses_def cmds_ok_def)
  then show "world_inv (fresh_world logDir)"
    by (simp add: world_inv_def fresh_world_def reg_inv_start pm_inv_New)
      (simp add: names_ok_def reg_load_def)
  show "ports_unique (port_view (fresh_world logDir))"
    by (simp add: ports_unique_def port_view_def fresh_world_def stable_ports_of_def reg_load_def)
qed

section \<open>Properties\<close>

text \<open>C2: In every state the daemon can reach from a fresh installation, no stable port belongs to two
  services or to two ports of one service, and none is one of the two ports Anito reserves for
  itself, whatever operations ran, whatever they were answered and whatever crashed.\<close>

theorem stable_ports_unique:
  "ports_unique (port_view (service_run E acts (fresh_world logDir)))"
  using service_run_inv [OF fresh_world_ok] by blast

text \<open>C1: Once a service has stable ports, no deploy, restart, rollback, stop, reservation, archiving,
  crash, exit or drain of any service changes them, whether it succeeds or fails; only removing,
  pruning or tearing down frees them.\<close>

theorem stable_ports_pinned:
  assumes "world_inv w" and "port_view w n \<noteq> []" and "\<forall>act \<in> set acts. \<not> may_drop n act"
  shows "port_view (service_run E acts w) n = port_view w n"
  using assms
proof (induction acts arbitrary: w)
  case (Cons act acts)
  from service_exec_ok [OF Cons.prems(1), of act E] have ok: "exec_ok act w (service_exec E act w)" .
  then have "port_view (service_exec E act w) n = port_view w n"
    using Cons.prems by (intro exec_ok_pinned) auto
  with ok show ?case using Cons by (simp add: exec_ok_def)
qed simp

definition demo_outside :: outside where
  "demo_outside =
     \<lparr>o_now = int, o_dsk = (\<lambda>_. True), o_net = (\<lambda>_. \<lparr>ne_interfaces = Inr [], ne_busy = (\<lambda>_ _. False)\<rparr>),
      o_ports = (\<lambda>_ n. Inr (int n + 5)),
      o_exec = (\<lambda>_. \<lparr>xe_environ = [], xe_files = (\<lambda>_. None), xe_log_ok = True\<rparr>),
      o_start = (\<lambda>_. Inr 7), o_probe = (\<lambda>_ _. \<lparr>pb_status = Some 200, pb_duration = 1\<rparr>),
      o_children = (\<lambda>_ _. Inr []), o_listeners = (\<lambda>_ _. Inr [7]), o_tree_fuel = 3,
      o_alive = (\<lambda>_ _. True), o_drain = (\<lambda>_. ExitsOnTerm), o_exits = (\<lambda>_. []),
      o_exit_state = (\<lambda>_ _. None), o_stat = (\<lambda>_ _. StatFile), o_sha256 = (\<lambda>_ _. None),
      o_watch_ok = (\<lambda>_. True), o_cwd = ''/'', o_logdir = ''/logs'',
      o_read = (\<lambda>_ _. Inr ''''), o_yaml = (\<lambda>_. Inl (IOError ''no config'')), o_logfile = (\<lambda>_. None),
      o_build = (\<lambda>_ _ _. (Inr (), '''')), o_scan = (\<lambda>_ _. []), o_issues = True,
      o_cancelled = (\<lambda>_. False), o_stops = (\<lambda>_. False)\<rparr>"

definition demo_world :: world where
  "demo_world = (fresh_world ''/logs'')\<lparr>w_reg := demo_reg\<rparr>"

lemma demo_world_inv: "world_inv demo_world"
proof -
  have "names_ok demo_reg"
    by (simp add: names_ok_def demo_reg_def Register_def Let_def reg_load_def demo_service_def)
  then show ?thesis
    using fresh_world_ok(1) [of "''/logs''"] demo_reg_inv
    by (simp add: world_inv_def demo_world_def fresh_world_def)
qed

lemma demo_world_view: "port_view demo_world ''api'' = [(''default'', 3000)]"
  using demo_reg_get
  by (auto simp: port_view_def demo_world_def stable_ports_of_def Get_def split: option.split)

theorem stable_ports_pinned_witness:
  "port_view (service_run demo_outside [ActStop ''api'', ActRestart ''api'', ActRemove ''web''] demo_world) ''api''
     = [(''default'', 3000)]"
  using stable_ports_pinned [OF demo_world_inv, of "''api''"
      "[ActStop ''api'', ActRestart ''api'', ActRemove ''web'']" demo_outside]
  by (simp add: demo_world_view)

section \<open>The startup gate\<close>

text \<open>Every mutating operation has the contract; \<open>Teardown\<close> and the rest are no exception.\<close>

locale gated_op =
  fixes op :: "world \<Rightarrow> ('a, world) res"
  assumes is_gated: "\<exists>body. op = gated body"
begin

lemma blocked:
  assumes "mutationsBlockedLocked (w_startup w)"
  shows "op w = (Inl (StartupGateError (tk_phase (w_startup w)) (tk_completed (w_startup w))
                      (tk_total (w_startup w))), w)"
proof -
  from is_gated obtain body where "op = gated body" by blast
  with assms show ?thesis by (simp add: gated_def ensure_mutable_def ensureMutable_blocked)
qed

lemma blocked_answer:
  assumes "mutationsBlockedLocked (w_startup w)"
  shows "\<exists>e. op w = (Inl e, w) \<and> serviceHTTPError e = 409"
  using blocked [OF assms] by simp

end

interpretation gate_Deploy: gated_op "Deploy E req" for E req
  by unfold_locales (auto simp: Deploy_def)

interpretation gate_Restart: gated_op "ServiceRestart E name" for E name
  by unfold_locales (auto simp: ServiceRestart_def)

interpretation gate_Stop: gated_op "ServiceStop E name" for E name
  by unfold_locales (auto simp: ServiceStop_def)

interpretation gate_Rollback: gated_op "Rollback E name" for E name
  by unfold_locales (auto simp: Rollback_def)

interpretation gate_Remove: gated_op "ServiceRemove E name" for E name
  by unfold_locales (auto simp: ServiceRemove_def)

interpretation gate_Teardown: gated_op "Teardown E repo" for E repo
  by unfold_locales (auto simp: Teardown_def)

interpretation gate_Reserve: gated_op "Reserve E name port" for E name port
  by unfold_locales (auto simp: Reserve_def)

interpretation gate_ReservePorts: gated_op "ReservePorts E name ports" for E name ports
  by unfold_locales (auto simp: ReservePorts_def)

interpretation gate_Archive: gated_op "ServiceArchive E name" for E name
  by unfold_locales (auto simp: ServiceArchive_def)

interpretation gate_RestoreArchived: gated_op "ServiceRestoreArchived E name" for E name
  by unfold_locales (auto simp: ServiceRestoreArchived_def)

interpretation gate_Prune: gated_op "ServicePrune E name" for E name
  by unfold_locales (auto simp: ServicePrune_def)

text \<open>An operation a client can call.\<close>

fun client_act :: "service_act \<Rightarrow> bool" where
  "client_act ActCrash = False"
| "client_act (ActWatch name trigger) = False"
| "client_act (ActBuildLog name) = False"
| "client_act ActStartWatchers = False"
| "client_act (ActRestoreAll order opts) = False"
| "client_act ActDrain = False"
| "client_act ActExits = False"
| "client_act (ActBeginStartup n) = False"
| "client_act (ActStartup t) = False"
| "client_act act = True"

lemma client_step_blocked:
  "mutationsBlockedLocked (w_startup w) \<Longrightarrow> client_act act \<Longrightarrow> service_exec E act w = w"
  by (cases act)
    (simp_all add: gate_Deploy.blocked gate_Restart.blocked gate_Stop.blocked gate_Rollback.blocked
      gate_Remove.blocked gate_Teardown.blocked gate_Reserve.blocked gate_ReservePorts.blocked
      gate_Archive.blocked gate_RestoreArchived.blocked gate_Prune.blocked)


definition demo_booting :: world where
  "demo_booting = BeginStartup demo_outside 0 demo_world"


end
