(* ===== verification/Deploy_Props.thy ===== *)
theory Deploy_Props
  imports Service_Props
begin

text \<open>
  What a deploy, a restart, a stop and a removal achieve: the state they end in, read off the
  registry, the process manager and the proxy.
\<close>

section \<open>Processes are only ever untracked behind an operation's back\<close>

definition procs_shrink :: "procmgr \<Rightarrow> procmgr \<Rightarrow> bool" where
  "procs_shrink m m' \<longleftrightarrow> (\<forall>n rp. map_of (mg_procs m') n = Some rp \<longrightarrow> map_of (mg_procs m) n = Some rp)
     \<and> (\<forall>c. cmd_pid m' c = cmd_pid m c)"

lemma procs_shrink_refl [simp]: "procs_shrink m m"
  by (simp add: procs_shrink_def)

lemma procs_shrink_trans [trans]: "procs_shrink m m' \<Longrightarrow> procs_shrink m' m'' \<Longrightarrow> procs_shrink m m''"
  by (simp add: procs_shrink_def)

lemma procs_shrink_None:
  "procs_shrink m m' \<Longrightarrow> map_of (mg_procs m) n = None \<Longrightarrow> map_of (mg_procs m') n = None"
  unfolding procs_shrink_def by (metis not_None_eq)

lemma cmd_pid_set_cmd [simp]: "(\<And>ci. cm_pid (f ci) = cm_pid ci) \<Longrightarrow> cmd_pid (set_cmd c f m) d = cmd_pid m d"
  by (simp add: cmd_pid_def set_cmd_def split: option.split)

lemma set_cmd_procs [simp]: "mg_procs (set_cmd c f m) = mg_procs m"
  by (simp add: set_cmd_def)

lemma cmd_pid_congs [simp]:
  "cmd_pid (m\<lparr>mg_procs := a\<rparr>) c = cmd_pid m c" "cmd_pid (m\<lparr>mg_draining := b\<rparr>) c = cmd_pid m c"
  by (simp_all add: cmd_pid_def)

lemma exit_locked_shrink: "procs_shrink m (snd (exit_locked c m))"
  by (auto simp: procs_shrink_def exit_locked_def Let_def delete_conv' split: option.splits if_splits)

lemma proc_exit_shrink: "procs_shrink m (fst (snd (proc_exit now dsk c st (m, r))))"
proof (cases "mg_cmds m c")
  case None
  then show ?thesis by (simp add: proc_exit_def)
next
  case (Some ci)
  show ?thesis
  proof (cases "cm_exited ci")
    case True
    with Some show ?thesis by (simp add: proc_exit_def)
  next
    case False
    have "procs_shrink m (set_cmd c (\<lambda>ci. ci\<lparr>cm_done := True\<rparr>) (snd (exit_locked c m)))"
      by (rule procs_shrink_trans [OF exit_locked_shrink [of m c]]) (simp add: procs_shrink_def)
    then show ?thesis
      by (simp add: proc_exit_live [OF Some False] split: prod.split)
  qed
qed

lemma exit_event_shrink: "procs_shrink (w_mgr w) (w_mgr (exit_event E w c))"
  using proc_exit_shrink [of "w_mgr w" "o_now E (w_tick w)" "o_dsk E (w_tick w)" c
      "o_exit_state E (w_tick w) c" "w_reg w"]
  by (simp add: exit_event_def case_prod_beta)

lemma interfere_shrink: "procs_shrink (w_mgr w) (w_mgr (interfere E w))"
proof -
  have "procs_shrink (w_mgr w) (w_mgr (foldl (exit_event E) w cs))" for w cs
    by (induction cs arbitrary: w) (auto intro: procs_shrink_trans exit_event_shrink)
  from this [of "tick w" "o_exits E (w_tick w)"] show ?thesis by (simp add: interfere_def)
qed

lemma wait_healthy_shrink: "procs_shrink (w_mgr w) (w_mgr (snd (wait_healthy E port path t w)))"
  by (simp add: wait_healthy_def interfere_shrink)

lemma verify_owned_shrink: "procs_shrink (w_mgr w) (w_mgr (snd (verify_owned E ports pid w)))"
  by (simp add: verify_owned_def interfere_shrink)

section \<open>Frames: what a call leaves alone\<close>

lemma reg_do_frame [simp]:
  "w_mgr (snd (reg_do E f w)) = w_mgr w" "w_prx (snd (reg_do E f w)) = w_prx w"
  by (simp_all add: reg_do_def case_prod_beta)

lemma reg_calls_frame [simp]:
  "w_mgr (reg_UpdateStatus E name st pid w) = w_mgr w" "w_prx (reg_UpdateStatus E name st pid w) = w_prx w"
  "w_mgr (reg_MarkRunning E name pid d w) = w_mgr w" "w_prx (reg_MarkRunning E name pid d w) = w_prx w"
  "w_mgr (reg_UpdateCrashState E name n g w) = w_mgr w" "w_prx (reg_UpdateCrashState E name n g w) = w_prx w"
  "w_mgr (reg_UpdateLastDeployed E name w) = w_mgr w" "w_prx (reg_UpdateLastDeployed E name w) = w_prx w"
  by (simp_all add: reg_UpdateStatus_def reg_MarkRunning_def reg_UpdateCrashState_def
      reg_UpdateLastDeployed_def)

lemma prx_do_frame [simp]:
  "w_mgr (snd (prx_do E f w)) = w_mgr w" "w_reg (snd (prx_do E f w)) = w_reg w"
  by (simp_all add: prx_do_def case_prod_beta)

lemma prx_calls_frame [simp]:
  "w_mgr (snd (prx_Register E name ports addr w)) = w_mgr w" "w_reg (snd (prx_Register E name ports addr w)) = w_reg w"
  "w_mgr (snd (prx_SwapPorts E name ports w)) = w_mgr w" "w_reg (snd (prx_SwapPorts E name ports w)) = w_reg w"
  "w_mgr (snd (prx_SwapStatic E name dir w)) = w_mgr w" "w_reg (snd (prx_SwapStatic E name dir w)) = w_reg w"
  "w_mgr (prx_UnswapPorts name w) = w_mgr w" "w_reg (prx_UnswapPorts name w) = w_reg w"
  "w_mgr (prx_RemovePorts name w) = w_mgr w" "w_reg (prx_RemovePorts name w) = w_reg w"
  by (simp_all add: prx_Register_def prx_SwapPorts_def prx_SwapStatic_def prx_UnswapPorts_def
      prx_RemovePorts_def)

lemma exit_event_prx [simp]: "w_prx (exit_event E w c) = w_prx w"
  by (simp add: exit_event_def case_prod_beta)

lemma interfere_prx [simp]: "w_prx (interfere E w) = w_prx w"
proof -
  have "w_prx (foldl (exit_event E) w cs) = w_prx w" for w cs
    by (induction cs arbitrary: w) simp_all
  then show ?thesis by (simp add: interfere_def)
qed

lemma books_frame [simp]:
  "w_mgr (write_receipt E so w) = w_mgr w" "w_prx (write_receipt E so w) = w_prx w" "w_reg (write_receipt E so w) = w_reg w"
  "w_mgr (startWatcher E so w) = w_mgr w" "w_prx (startWatcher E so w) = w_prx w" "w_reg (startWatcher E so w) = w_reg w"
  "w_mgr (clear_attempts name w) = w_mgr w" "w_prx (clear_attempts name w) = w_prx w" "w_reg (clear_attempts name w) = w_reg w"
  "w_mgr (watch_Stop name w) = w_mgr w" "w_prx (watch_Stop name w) = w_prx w" "w_reg (watch_Stop name w) = w_reg w"
  by (simp_all add: write_receipt_def startWatcher_def clear_attempts_def watch_Stop_def Let_def split: option.split)

lemma schedule_drain_frame [simp]:
  "w_prx (schedule_drain old window w) = w_prx w" "w_reg (schedule_drain old window w) = w_reg w"
  "mg_procs (w_mgr (schedule_drain old window w)) = mg_procs (w_mgr w)"
  "cmd_pid (w_mgr (schedule_drain old window w)) c = cmd_pid (w_mgr w) c"
  by (simp_all add: schedule_drain_def MarkDrainingProcess_def MarkDraining_def Let_def
      split: option.split prod.split)

lemma reg_Get_frame: "w_reg w' = w_reg w \<Longrightarrow> reg_Get name w' = reg_Get name w"
  by (simp add: reg_Get_def)

section \<open>Records after an update\<close>

lemma with_service_result:
  assumes "reg_Get name (snd (reg_do E (\<lambda>now dsk. with_service name (f now) dsk) w)) = Some s"
  shows "\<exists>s0. reg_Get name w = Some s0 \<and> s = syncSingularFromMap (f (o_now E (w_tick w)) s0)"
  using assms
  by (auto simp: reg_Get_def Get_def reg_do_def case_prod_beta with_service_def map_of_map update_conv'
      split: option.splits)

lemma sync_runtime [simp]:
  "sv_status (syncSingularFromMap s) = sv_status s" "sv_pid (syncSingularFromMap s) = sv_pid s"
  "sv_crash_attempts (syncSingularFromMap s) = sv_crash_attempts s" "sv_gave_up (syncSingularFromMap s) = sv_gave_up s"
  by (simp_all add: syncSingularFromMap_def)

lemma UpdateCrashState_record:
  assumes "reg_Get name (reg_UpdateCrashState E name n g w) = Some s"
  obtains s0 where "reg_Get name w = Some s0" "sv_status s = sv_status s0" "sv_pid s = sv_pid s0"
    "sv_crash_attempts s = int n" "sv_gave_up s = g"
  using with_service_result [OF assms [unfolded reg_UpdateCrashState_def UpdateCrashState_def]] that by auto

lemma MarkRunning_record:
  assumes "reg_Get name (reg_MarkRunning E name pid d w) = Some s"
  shows "sv_status s = StatusRunning" "sv_pid s = pid"
  using with_service_result [OF assms [unfolded reg_MarkRunning_def MarkRunning_def]] by auto

lemma UpdateStatus_record:
  assumes "reg_Get name (reg_UpdateStatus E name st pid w) = Some s"
  shows "sv_status s = st" "sv_pid s = pid"
proof -
  let ?f = "\<lambda>now s. s\<lparr>sv_status := st, sv_pid := pid, sv_updated_at := now\<rparr>"
  show "sv_status s = st" "sv_pid s = pid"
    using assms with_service_result [of name E ?f w s]
    by (auto simp: reg_UpdateStatus_def reg_do_def case_prod_beta UpdateStatus_def reg_Get_def Get_def
        split: option.splits if_splits)
qed

section \<open>A promoted candidate\<close>

definition serves_process :: "world \<Rightarrow> string \<Rightarrow> running_proc \<Rightarrow> ports \<Rightarrow> bool" where
  "serves_process w name rp ports \<longleftrightarrow>
     map_of (mg_procs (w_mgr w)) name = Some rp
     \<and> (\<forall>p q. map_of ports p = Some q \<longrightarrow> serving (w_prx w) name p = Some (Some (FlushProxy q)))
     \<and> (\<forall>s. reg_Get name w = Some s \<longrightarrow>
          sv_status s = StatusRunning \<and> sv_pid s = cmd_pid (w_mgr w) (rp_cmd rp) \<and> sv_pid s \<noteq> 0
          \<and> sv_crash_attempts s = 0 \<and> \<not> sv_gave_up s)"

lemma mgr_Activate_frame:
  assumes "mgr_Activate E name w = (Inr (), w')"
  shows "\<exists>rp. map_of (mg_procs (w_mgr w)) name = Some rp" "mg_procs (w_mgr w') = mg_procs (w_mgr w)"
    "cmd_pid (w_mgr w') c = cmd_pid (w_mgr w) c" "w_prx w' = w_prx w" "w_reg w' = w_reg w"
  using assms
  by (auto simp: mgr_Activate_def case_prod_beta Activate_def split: option.splits if_splits)

lemma promote_result:
  assumes "promote E name ports d window old undo w = (Inr (), w')"
    and "pm_inv (w_prx w)" and "CHR '':'' \<notin> set name" and "distinct (map fst ports)"
  obtains rp where "serves_process w' name rp ports" and "map_of (mg_procs (w_mgr w)) name = Some rp"
proof -
  obtain x w1 where swap: "prx_SwapPorts E name ports w = (x, w1)" by fastforce
  with assms(1) have x: "x = Inr ()" by (cases x) (auto simp: promote_def)
  let ?pid = "ProcPID name (w_mgr w1)"
  from assms(1) swap x have pid: "?pid \<noteq> 0"
    by (auto simp: promote_def Let_def split: if_splits)
  with assms(1) swap x obtain w3 where act: "mgr_Activate E name (interfere E w1) = (Inr (), w3)"
      and w': "w' = schedule_drain old window (clear_attempts name
        (reg_UpdateCrashState E name 0 False (reg_MarkRunning E name ?pid d w3)))"
    by (auto simp: promote_def Let_def split: on_res_split_asm)
  have mgr1: "w_mgr w1 = w_mgr w" using prx_calls_frame(3) [of E name ports w] swap by simp
  note act' = mgr_Activate_frame [OF act]
  from act'(1) obtain rp where rp: "map_of (mg_procs (w_mgr (interfere E w1))) name = Some rp" ..
  with interfere_shrink [of w1 E] mgr1 have before: "map_of (mg_procs (w_mgr w)) name = Some rp"
    by (simp add: procs_shrink_def)
  have pid_rp: "cmd_pid (w_mgr w') (rp_cmd rp) = ?pid"
    using interfere_shrink [of w1 E] before
    by (simp add: w' act' ProcPID_def mgr1 procs_shrink_def)
  have prx: "w_prx w' = snd (SwapPorts name ports (w_prx w))" "fst (SwapPorts name ports (w_prx w)) = Inr ()"
    using swap x by (auto simp: w' act'(4) prx_SwapPorts_def prx_do_def case_prod_beta)
  have "serves_process w' name rp ports"
    unfolding serves_process_def
  proof (intro conjI allI impI)
    show "map_of (mg_procs (w_mgr w')) name = Some rp" by (simp add: w' act'(2) rp)
    show "serving (w_prx w') name p = Some (Some (FlushProxy q))" if "map_of ports p = Some q" for p q
      using SwapPorts_serving [OF assms(2,3,4) prx(2), of p] that by (simp add: prx(1))
    fix s
    assume "reg_Get name w' = Some s"
    then have "reg_Get name (reg_UpdateCrashState E name 0 False (reg_MarkRunning E name ?pid d w3)) = Some s"
      by (simp add: w' reg_Get_def)
    then obtain s0 where "reg_Get name (reg_MarkRunning E name ?pid d w3) = Some s0"
        and s: "sv_status s = sv_status s0" "sv_pid s = sv_pid s0" "sv_crash_attempts s = 0" "\<not> sv_gave_up s"
      by (rule UpdateCrashState_record) auto
    with MarkRunning_record [of name E ?pid d w3 s0] pid pid_rp
    show "sv_status s = StatusRunning" "sv_pid s = cmd_pid (w_mgr w') (rp_cmd rp)" "sv_pid s \<noteq> 0"
      "sv_crash_attempts s = 0" "\<not> sv_gave_up s"
      by simp_all
  qed
  from this before show thesis by (rule that)
qed

lemma promote_quiet:
  assumes "promote E name ports d window old undo w = (Inr (), w')" and "at_view v N w"
  shows "at_view v N w'"
proof -
  obtain x w1 where swap: "prx_SwapPorts E name ports w = (x, w1)" by fastforce
  with assms(1) have x: "x = Inr ()" by (cases x) (auto simp: promote_def)
  have w1: "at_view v N w1" using st_swap.quiet [OF assms(2), of E name ports] swap by simp
  obtain y w3 where act: "mgr_Activate E name (interfere E w1) = (y, w3)" by fastforce
  with st_activate.quiet [of v N "interfere E w1" E name] w1 have "at_view v N w3" by simp
  with assms(1) swap x act show ?thesis
    by (cases y) (auto simp: promote_def Let_def split: if_splits)
qed

section \<open>Candidates\<close>

lemma reserve_ports_keys:
  "reserve_ports env mk i names ps = Inr ports \<Longrightarrow> distinct (map fst ps) \<Longrightarrow>
   distinct (map fst ports) \<and> fst ` set ports = fst ` set ps \<union> set names"
proof (induction names arbitrary: i ps)
  case (Cons name names)
  then obtain p where "reserve_ports env mk (Suc i) names (AList.update name p ps) = Inr ports"
    by (auto split: sum.splits)
  from Cons.IH [OF this] Cons.prems(2) show ?case
    by (auto simp: distinct_update dom_update)
qed simp

lemma reserveInternalPorts_keys:
  assumes "reserveInternalPorts env svc = Inr ports"
  shows "distinct (map fst ports)" "fst ` set (sv_stable_ports svc) \<subseteq> fst ` set ports"
proof -
  obtain mk names where "reserve_ports env mk 0 names [] = Inr ports"
      and names: "sv_stable_ports svc = [] \<or> names = map fst (sv_stable_ports svc)"
    using assms by (auto simp: reserveInternalPorts_def simp del: reserve_ports.simps split: if_splits)
  from reserve_ports_keys [OF this(1)] names
  show "distinct (map fst ports)" by simp
  show "fst ` set (sv_stable_ports svc) \<subseteq> fst ` set ports"
    using reserve_ports_keys [OF \<open>reserve_ports env mk 0 names [] = Inr ports\<close>] names
    by (elim disjE) simp_all
qed

lemma mgr_StartCandidate_ok:
  assumes "mgr_StartCandidate E svc w = (Inr ports, w1)"
  shows "distinct (map fst ports)" "fst ` set (sv_stable_ports svc) \<subseteq> fst ` set ports" "w_prx w1 = w_prx w"
    "\<exists>rp. map_of (mg_procs (w_mgr w1)) (sv_name svc) = Some rp \<and> rp_internalPorts rp = ports"
proof -
  let ?start = "start_proc (spawn_at E w) svc True (w_mgr w, w_reg w)"
  have res: "fst ?start = Inr ports" "w_mgr w1 = fst (snd ?start)" "w_prx w1 = w_prx w"
    using assms by (auto simp: mgr_StartCandidate_def mgr_do_def StartCandidate_def case_prod_beta)
  have "distinct (map fst ports) \<and> fst ` set (sv_stable_ports svc) \<subseteq> fst ` set ports \<and>
      (\<exists>rp. map_of (mg_procs (w_mgr w1)) (sv_name svc) = Some rp \<and> rp_internalPorts rp = ports)"
    by (rule start_proc_cases [of "spawn_at E w" svc True "w_mgr w" "w_reg w"])
      (use res reserveInternalPorts_keys [of "spawn_at E w" svc ports] in \<open>auto simp: update_conv'\<close>)
  with res(3) show "distinct (map fst ports)" "fst ` set (sv_stable_ports svc) \<subseteq> fst ` set ports"
    "w_prx w1 = w_prx w"
    "\<exists>rp. map_of (mg_procs (w_mgr w1)) (sv_name svc) = Some rp \<and> rp_internalPorts rp = ports"
    by blast+
qed

text \<open>What a deploy and a restart promise when they succeed.\<close>

definition up :: "world \<Rightarrow> string \<Rightarrow> bool" where
  "up w name \<longleftrightarrow> (\<exists>rp. serves_process w name rp (rp_internalPorts rp)
     \<and> fst ` set (port_view w name) \<subseteq> fst ` set (rp_internalPorts rp))"

text \<open>The common part: a started candidate that passed its checks is promoted.\<close>

lemma candidate_up:
  assumes start: "mgr_StartCandidate E svc w = (Inr ports, w1)"
    and later: "procs_shrink (w_mgr w1) (w_mgr w4)" "at_view v N w4"
    and prom: "promote E name ports d window old undo w4 = (Inr (), w5)"
    and name: "sv_name svc = name" "CHR '':'' \<notin> set name" "sv_stable_ports svc = v name"
  shows "up w5 name" "port_view w5 = v" "world_inv w5"
proof -
  note cand = mgr_StartCandidate_ok [OF start]
  from later(2) have "pm_inv (w_prx w4)" by (rule at_view_pm_inv)
  from promote_result [OF prom this name(2) cand(1)] obtain rp where
    rp: "serves_process w5 name rp ports" "map_of (mg_procs (w_mgr w4)) name = Some rp" .
  with later(1) cand(4) name(1) have ports: "rp_internalPorts rp = ports"
    by (auto simp: procs_shrink_def)
  have w5: "at_view v N w5" by (rule promote_quiet [OF prom later(2)])
  then show "port_view w5 = v" "world_inv w5" by (simp_all add: at_view_def)
  with rp(1) ports cand(2) name(3) show "up w5 name" by (auto simp: up_def)
qed

lemma up_frame:
  assumes "w_mgr w' = w_mgr w" "w_prx w' = w_prx w" "w_reg w' = w_reg w"
  shows "up w' name = up w name"
  using assms by (simp add: up_def serves_process_def reg_Get_def port_view_def)

lemma deploy_binary_up:
  assumes ok: "deploy_binary E req previous svc w = (Inr so, w')"
    and w: "world_inv w" and name: "sv_name svc = dr_Name req" "CHR '':'' \<notin> set (dr_Name req)"
    and ports: "sv_stable_ports svc = port_view w (dr_Name req)"
  shows "up w' (dr_Name req)" "so = reg_Get (dr_Name req) w'" "port_view w' = port_view w"
proof -
  let ?name = "dr_Name req" and ?v = "port_view w" and ?N = "cmd_names w"
  obtain old w0 where d: "mgr_Detach ?name w = (old, w0)" by fastforce
  from st_detach.quiet [OF at_start [OF w], of ?name] d have w0: "at_view ?v ?N w0" by simp
  obtain x ps w1 where start: "mgr_StartCandidate E svc w0 = (Inr ps, w1)"
    using ok by (cases "mgr_StartCandidate E svc w0"; cases "fst (mgr_StartCandidate E svc w0)")
      (auto simp: deploy_binary_def Let_def name d)
  from st_start.quiet [OF w0, of E svc] start have w1: "at_view ?v ?N w1" by simp
  let ?wait = "wait_healthy E (PickPort ps (dr_HealthCheckPort req)) (dr_HealthCheck req) (request_timeout req) w1"
  obtain x2 w2 where wait: "?wait = (x2, w2)" by fastforce
  with ok start have x2: "x2 = Inr ()" by (cases x2) (auto simp: deploy_binary_def Let_def name d)
  have w2: "at_view ?v ?N w2" "procs_shrink (w_mgr w1) (w_mgr w2)"
    using st_wait.quiet [OF w1] wait_healthy_shrink [of w1] wait by (metis snd_conv)+
  obtain x3 w3 where ver: "verify_owned E ps (ProcPID ?name (w_mgr w2)) w2 = (x3, w3)" by fastforce
  with ok start wait x2 have x3: "x3 = Inr ()" by (cases x3) (auto simp: deploy_binary_def Let_def name d)
  have w3: "at_view ?v ?N w3" "procs_shrink (w_mgr w2) (w_mgr w3)"
    using st_verify.quiet [OF w2(1)] verify_owned_shrink [of w2] ver by (metis snd_conv)+
  let ?reg = "prx_Register E ?name (sv_stable_ports svc) (sv_proxy_bind_address svc) w3"
  obtain x4 w4 where reg: "?reg = (x4, w4)" by fastforce
  with ok start wait x2 ver x3 have x4: "x4 = Inr ()" by (cases x4) (auto simp: deploy_binary_def Let_def name d)
  have w4: "at_view ?v ?N w4" "w_mgr w4 = w_mgr w3"
    using prx_Register_quiet [OF name(2) w3(1)] prx_calls_frame(1) [of E ?name] reg by (metis snd_conv)+
  obtain x5 w5 where prom: "promote E ?name ps True (request_drain req) old
      (restoreFailedDeploy E ?name previous old) w4 = (x5, w5)" by fastforce
  with ok start wait x2 ver x3 reg x4 have x5: "x5 = Inr ()"
    and end_state: "so = reg_Get ?name w5" "w_mgr w' = w_mgr w5" "w_prx w' = w_prx w5" "w_reg w' = w_reg w5"
    by (cases x5; auto simp: deploy_binary_def Let_def name d)+
  have "procs_shrink (w_mgr w1) (w_mgr w4)"
    using procs_shrink_trans [OF w2(2) w3(2)] w4(2) by simp
  from candidate_up [OF start this w4(1) prom [unfolded x5] name ports]
  have "up w5 ?name" "port_view w5 = ?v" by simp_all
  with end_state up_frame [of w' w5] show "up w' ?name" "so = reg_Get ?name w'" "port_view w' = ?v"
    by (simp_all add: reg_Get_def port_view_def)
qed

lemma restartLocked_up:
  assumes ok: "restartLocked E name w = (Inr (), w')" and w: "world_inv w" "CHR '':'' \<notin> set name"
    and svc: "reg_Get name w = Some svc" "sv_type svc = TypeBinary"
  shows "up w' name" "port_view w' = port_view w"
proof -
  let ?v = "port_view w" and ?N = "cmd_names w"
  note defs = restartLocked_def Let_def svc
  obtain old w0 where d: "mgr_Detach name w = (old, w0)" by fastforce
  from st_detach.quiet [OF at_start [OF w(1)], of name] d have w0: "at_view ?v ?N w0" by simp
  have name: "sv_name svc = name" "sv_stable_ports svc = ?v name"
    using reg_Get_view(2) [OF at_start [OF w(1)] svc(1)] by auto
  obtain ps w1 where start: "mgr_StartCandidate E svc w0 = (Inr ps, w1)"
    using ok by (cases "mgr_StartCandidate E svc w0"; cases "fst (mgr_StartCandidate E svc w0)")
      (auto simp: defs d)
  from st_start.quiet [OF w0, of E svc] start have w1: "at_view ?v ?N w1" by simp
  let ?timeout = "if sv_health_check_timeout svc = 0 then defaultHealthCheckTimeout else sv_health_check_timeout svc"
  obtain x2 w2 where wait: "wait_healthy E (PickPort ps (sv_health_check_port svc)) (sv_health_check svc) ?timeout w1
      = (x2, w2)" by fastforce
  with ok start have x2: "x2 = Inr ()" by (cases x2) (auto simp: defs d)
  have w2: "at_view ?v ?N w2" "procs_shrink (w_mgr w1) (w_mgr w2)"
    using st_wait.quiet [OF w1] wait_healthy_shrink [of w1] wait by (metis snd_conv)+
  obtain x3 w3 where ver: "verify_owned E ps (ProcPID name (w_mgr w2)) w2 = (x3, w3)" by fastforce
  with ok start wait x2 have x3: "x3 = Inr ()" by (cases x3) (auto simp: defs d)
  have w3: "at_view ?v ?N w3" "procs_shrink (w_mgr w2) (w_mgr w3)"
    using st_verify.quiet [OF w2(1)] verify_owned_shrink [of w2] ver by (metis snd_conv)+
  let ?window = "if sv_drain_window svc = 0 then defaultDrainWindow else sv_drain_window svc"
  have prom: "promote E name ps False ?window old (restoreFailedDeploy E name (Some svc) old) w3 = (Inr (), w')"
    using ok start wait x2 ver x3 by (simp add: defs d)
  from candidate_up [OF start procs_shrink_trans [OF w2(2) w3(2)] w3(1) prom name(1) w(2) name(2)]
  show "up w' name" "port_view w' = ?v" by simp_all
qed

section \<open>A deploy from its request on\<close>

lemma update_not_empty [simp]: "AList.update k v al \<noteq> []"
  by (cases al) auto

lemma alloc_new_nonempty:
  "alloc_new E name bindAddr used result preferred w = (Inr ps, w') \<Longrightarrow> result \<noteq> [] \<or> preferred \<noteq> []
   \<Longrightarrow> ps \<noteq> []"
proof (induction preferred arbitrary: w used result)
  case (Cons pp preferred)
  obtain portName pref where pp: "pp = (portName, pref)" by fastforce
  from Cons.prems(1) obtain x w1 where
      "alloc_new E name bindAddr (x # used) (AList.update portName x result) preferred w1 = (Inr ps, w')"
    by (auto simp: pp split: on_res_split_asm)
  then show ?case by (rule Cons.IH) simp
qed simp

lemma allocatePorts_nonempty:
  "allocatePorts E name preferred bindAddr w = (Inr ps, w') \<Longrightarrow> preferred \<noteq> [] \<Longrightarrow> ps \<noteq> []"
  by (auto simp: allocatePorts_def dest: alloc_new_nonempty split: option.splits if_splits)

lemma default_request_ports [simp]: "dr_StablePorts (default_request req) \<noteq> []"
  by (simp add: default_request_def)

lemma port_view_known: "port_view w n \<noteq> [] \<Longrightarrow> reg_Get n w \<noteq> None"
  by (auto simp: port_view_def stable_ports_of_def reg_Get_def Get_def split: option.splits)

lemma Deploy_validE:
  assumes "Deploy E req w = (Inr so, w')"
  shows "deploy_valid E (default_request req) w = (Inr so, w')" "CHR '':'' \<notin> set (dr_Name req)"
  using assms ValidateServiceName_colon [of "dr_Name req"]
  by (auto simp: Deploy_def gated_def Let_def split: sum.splits)

lemma deploy_valid_registered:
  assumes "deploy_valid E req w = (Inr so, w')" and "world_inv w" and "CHR '':'' \<notin> set (dr_Name req)"
    and "dr_StablePorts req \<noteq> []"
  obtains w2 where "deploy_registered E req (reg_Get (dr_Name req) w) w2 = (Inr so, w')"
    and "world_inv w2" and "port_view w2 (dr_Name req) \<noteq> []"
    and "port_view w (dr_Name req) \<noteq> [] \<longrightarrow> port_view w2 = port_view w"
proof -
  let ?name = "dr_Name req" and ?v = "port_view w" and ?N = "cmd_names w"
  let ?alloc = "allocatePorts E ?name (dr_StablePorts req) (dr_ProxyBindAddress req) (tick w)"
  from assms(1) obtain ps w1 where alloc: "?alloc = (Inr ps, w1)"
    by (cases ?alloc; cases "fst ?alloc") (auto simp: deploy_valid_def Let_def)
  have w: "at_view ?v ?N (tick w)" using at_start [OF assms(2)] by simp
  from allocatePorts_at [OF assms(3) w, of E] alloc have w1: "at_view ?v ?N w1" by (metis snd_conv)
  note ps = allocatePorts_ports [OF alloc w] allocatePorts_nonempty [OF alloc assms(4)]
  let ?svc = "request_service req (request_version E w1 req) ps"
  obtain x w2 where reg: "reg_Register E ?svc w1 = (x, w2)" by fastforce
  with assms(1) alloc have x: "x = Inr ()" by (cases x) (auto simp: deploy_valid_def Let_def)
  have "at_view (?v(?name := if ?v ?name \<noteq> [] then ?v ?name else ps)) ?N w2"
    using reg_Register_at [OF w1, of ?svc E] assms(3) reg
    by (cases "?v ?name = []") simp_all
  with ps reg x alloc assms(1) show thesis
    by (intro that [of w2]) (auto simp: deploy_valid_def Let_def at_view_def split: if_splits)
qed

section \<open>Properties\<close>

text \<open>The type of a request, the default included.\<close>

lemma default_request_type: "dr_Type req \<noteq> TypeStatic \<Longrightarrow> dr_Type (default_request req) \<noteq> TypeStatic"
  by (simp add: default_request_def)

text \<open>C4: When a deploy of a binary succeeds, the service is up: the process manager tracks the
  candidate under its name, the record it returns is the registry's and is running with the pid
  of that process and a clean crash state, and every stable port of the service is proxied to the port the
  candidate was given for it.\<close>

theorem deploy_success:
  assumes "world_inv w" and "Deploy E req w = (Inr so, w')" and "dr_Type req \<noteq> TypeStatic"
  shows "so = reg_Get (dr_Name req) w' \<and> so \<noteq> None \<and> up w' (dr_Name req)"
proof -
  let ?name = "dr_Name req" and ?req = "default_request req"
  note valid = Deploy_validE [OF assms(2)]
  from valid obtain w2 where reg: "deploy_registered E ?req (reg_Get ?name w) w2 = (Inr so, w')"
      and w2: "world_inv w2" "port_view w2 ?name \<noteq> []"
    by (elim deploy_valid_registered) (simp_all add: assms(1))
  then obtain svc where svc: "reg_Get ?name w2 = Some svc"
    by (auto simp: deploy_registered_def split: option.splits)
  with reg default_request_type [OF assms(3)]
  have bin: "deploy_binary E ?req (reg_Get ?name w) svc w2 = (Inr so, w')"
    by (simp add: deploy_registered_def)
  have "sv_name svc = ?name" "sv_stable_ports svc = port_view w2 ?name"
    using reg_Get_view(2) [OF at_start [OF w2(1)] svc] by auto
  then have up: "up w' ?name" "so = reg_Get ?name w'" "port_view w' = port_view w2"
    using deploy_binary_up [OF bin w2(1)] valid(2) by simp_all
  moreover have "reg_Get ?name w' \<noteq> None"
    using up(3) w2(2) by (intro port_view_known) simp
  ultimately show ?thesis by simp
qed

text \<open>When a restart of a binary succeeds, the service is up in the same sense and no stable
  port moved.\<close>

theorem restart_success:
  assumes "world_inv w" and "ServiceRestart E name w = (Inr (), w')"
    and "reg_Get name w = Some svc" and "sv_type svc = TypeBinary"
  shows "up w' name \<and> port_view w' = port_view w"
proof -
  from assms(2) have "ok (ValidateServiceName name)" and body: "restartLocked E name w = (Inr (), w')"
    by (auto simp: ServiceRestart_def gated_def ok_def split: sum.splits)
  from restartLocked_up [OF body assms(1) ValidateServiceName_colon [OF this(1)] assms(3,4)]
  show ?thesis by simp
qed

section \<open>A deploy of a demo service, step by step\<close>

lemma pairI: "fst x = a \<Longrightarrow> x = (a, snd x)"
  by (cases x) simp

definition demo_request :: deploy_request where
  "demo_request =
     \<lparr>dr_Name = ''api'', dr_Version = ''v2'', dr_VersionPath = '''', dr_Type = TypeBinary, dr_Path = ''/b'',
      dr_Args = [], dr_StablePort = 0, dr_StablePorts = [], dr_ProxyBindAddress = '''', dr_HealthCheckPort = '''',
      dr_EnvFile = '''', dr_HealthCheck = '''', dr_WatchPaths = [], dr_DrainWindow = 0, dr_HealthCheckTimeout = 0,
      dr_RestartPolicy = '''', dr_ConfigPath = ''''\<rparr>"

definition demo_req :: deploy_request where "demo_req = default_request demo_request"

definition demo1 :: world where
  "demo1 = snd (allocatePorts demo_outside (dr_Name demo_req) (dr_StablePorts demo_req)
                 (dr_ProxyBindAddress demo_req) (tick demo_world))"

definition demo2 :: world where
  "demo2 = snd (reg_Register demo_outside
     (request_service demo_req (request_version demo_outside demo1 demo_req) [(''default'', 3000)]) demo1)"

definition demo_svc :: service where "demo_svc = the (reg_Get ''api'' demo2)"

definition demo3 :: world where "demo3 = snd (mgr_StartCandidate demo_outside demo_svc demo2)"

definition demo4 :: world where
  "demo4 = snd (wait_healthy demo_outside 5 ''/health'' defaultHealthCheckTimeout demo3)"

definition demo5 :: world where "demo5 = snd (verify_owned demo_outside [(''default'', 5)] 7 demo4)"

definition demo6 :: world where
  "demo6 = snd (prx_Register demo_outside ''api'' [(''default'', 3000)] ''localhost'' demo5)"

definition demo7 :: world where "demo7 = snd (prx_SwapPorts demo_outside ''api'' [(''default'', 5)] demo6)"

lemma demo_allocated: "allocatePorts demo_outside (dr_Name demo_req) (dr_StablePorts demo_req)
    (dr_ProxyBindAddress demo_req) (tick demo_world) = (Inr [(''default'', 3000)], demo1)"
  unfolding demo1_def by (rule pairI) code_simp

lemma demo_registered: "reg_Register demo_outside
    (request_service demo_req (request_version demo_outside demo1 demo_req) [(''default'', 3000)]) demo1 = (Inr (), demo2)"
  unfolding demo2_def by (rule pairI) code_simp

lemma demo_detached: "mgr_Detach ''api'' demo2 = (None, demo2)"
proof -
  have "map_of (mg_procs (w_mgr demo2)) ''api'' = None" by code_simp
  then show ?thesis by (simp add: mgr_Detach_def Detach_def)
qed

lemma demo_started: "mgr_StartCandidate demo_outside demo_svc demo2 = (Inr [(''default'', 5)], demo3)"
  unfolding demo3_def by (rule pairI) code_simp

lemma demo_waited: "wait_healthy demo_outside 5 ''/health'' defaultHealthCheckTimeout demo3 = (Inr (), demo4)"
  unfolding demo4_def by (rule pairI) code_simp

lemma demo_verified: "verify_owned demo_outside [(''default'', 5)] 7 demo4 = (Inr (), demo5)"
  unfolding demo5_def by (rule pairI) code_simp

lemma demo_bound: "prx_Register demo_outside ''api'' [(''default'', 3000)] ''localhost'' demo5 = (Inr (), demo6)"
  unfolding demo6_def by (rule pairI) code_simp

lemma demo_swapped: "prx_SwapPorts demo_outside ''api'' [(''default'', 5)] demo6 = (Inr (), demo7)"
  unfolding demo7_def by (rule pairI) code_simp

definition demo8 :: world where "demo8 = snd (mgr_Activate demo_outside ''api'' (interfere demo_outside demo7))"

lemma demo_activated: "mgr_Activate demo_outside ''api'' (interfere demo_outside demo7) = (Inr (), demo8)"
  unfolding demo8_def by (rule pairI) code_simp

lemma demo_pid: "ProcPID ''api'' (w_mgr demo7) = 7" "ProcPID ''api'' (w_mgr demo4) = 7"
  by code_simp+

lemma demo_promoted:
  "\<exists>w'. promote demo_outside ''api'' [(''default'', 5)] d window old undo demo6 = (Inr (), w')"
  by (simp add: promote_def Let_def demo_swapped demo_pid demo_activated)

lemma demo_svc_fields: "sv_name demo_svc = ''api''" "sv_stable_ports demo_svc = [(''default'', 3000)]"
    "sv_proxy_bind_address demo_svc = ''localhost''" "reg_Get ''api'' demo2 = Some demo_svc"
proof -
  show "sv_name demo_svc = ''api''" "sv_stable_ports demo_svc = [(''default'', 3000)]"
    "sv_proxy_bind_address demo_svc = ''localhost''" by code_simp+
  have "reg_Get ''api'' demo2 \<noteq> None" by code_simp
  then show "reg_Get ''api'' demo2 = Some demo_svc" by (auto simp: demo_svc_def)
qed

lemma demo_req_fields: "dr_Name demo_req = ''api''" "PickPort [(''default'', 5)] (dr_HealthCheckPort demo_req) = 5"
    "dr_HealthCheck demo_req = ''/health''" "request_timeout demo_req = defaultHealthCheckTimeout"
    "dr_Type demo_req = TypeBinary"
  by code_simp+

lemma demo_deployed: "\<exists>so w'. Deploy demo_outside demo_request demo_world = (Inr so, w')"
proof -
  obtain w5 where prom: "promote demo_outside ''api'' [(''default'', 5)] True (request_drain demo_req) None
      (restoreFailedDeploy demo_outside ''api'' (reg_Get ''api'' demo_world) None) demo6 = (Inr (), w5)"
    using demo_promoted by blast
  have "\<exists>so w'. deploy_binary demo_outside demo_req (reg_Get ''api'' demo_world) demo_svc demo2 = (Inr so, w')"
    by (simp add: deploy_binary_def Let_def demo_req_fields demo_svc_fields demo_detached demo_started
        demo_waited demo_pid demo_verified demo_bound prom)
  then have "\<exists>so w'. deploy_valid demo_outside demo_req demo_world = (Inr so, w')"
    unfolding deploy_valid_def Let_def demo_allocated on_res_simps demo_registered
    by (simp add: deploy_registered_def demo_req_fields demo_svc_fields(4))
  moreover have "ok (ensure_mutable demo_world)" "ok (ValidateServiceName (dr_Name demo_request))"
      "ok (validateDeployRequest demo_outside demo_world demo_request)"
      "ok (ValidateProxyBindAddress (o_net demo_outside (w_tick demo_world)) (dr_ProxyBindAddress demo_req))"
    by code_simp+
  ultimately show ?thesis
    by (simp add: Deploy_def gated_def demo_req_def [symmetric] ok_def split: sum.splits)
qed

theorem deploy_success_witness:
  "\<exists>so w'. Deploy demo_outside demo_request demo_world = (Inr so, w') \<and> so \<noteq> None \<and> up w' ''api''"
proof -
  from demo_deployed obtain so w' where run: "Deploy demo_outside demo_request demo_world = (Inr so, w')" by blast
  have "dr_Name demo_request = ''api''" "dr_Type demo_request \<noteq> TypeStatic"
    by (simp_all add: demo_request_def)
  with deploy_success [OF demo_world_inv run] run show ?thesis by auto
qed

text \<open>The same service restarted and stopped from there.\<close>

lemma demo2_inv: "world_inv demo2"
proof -
  let ?v = "port_view demo_world" and ?N = "cmd_names demo_world"
  have "at_view ?v ?N (tick demo_world)" using at_start [OF demo_world_inv] by simp
  then have "at_view ?v ?N demo1"
    unfolding demo1_def by (intro allocatePorts_at) (simp_all add: demo_req_fields)
  from reg_Register_at [OF this, where E = demo_outside and
      s = "request_service demo_req (request_version demo_outside demo1 demo_req) [(''default'', 3000)]"]
  show ?thesis by (simp add: demo2_def demo_req_fields at_view_def)
qed

lemma demo8_inv: "world_inv demo8"
proof -
  from demo2_inv have "world_inv demo6"
    by (simp add: demo6_def demo5_def demo4_def demo3_def prx_Register_step [THEN world_step.keeps_inv]
        st_verify.keeps_inv st_wait.keeps_inv st_start.keeps_inv)
  then show ?thesis
    by (simp add: demo8_def demo7_def st_activate.keeps_inv st_interfere.keeps_inv st_swap.keeps_inv)
qed

definition demo_cfg :: service where "demo_cfg = the (reg_Get ''api'' demo8)"
definition demo_r0 :: world where "demo_r0 = snd (mgr_Detach ''api'' demo8)"
definition demo_r1 :: world where "demo_r1 = snd (mgr_StartCandidate demo_outside demo_cfg demo_r0)"
definition demo_r2 :: world where
  "demo_r2 = snd (wait_healthy demo_outside 5 ''/health'' defaultHealthCheckTimeout demo_r1)"
definition demo_r3 :: world where "demo_r3 = snd (verify_owned demo_outside [(''default'', 5)] 7 demo_r2)"
definition demo_r4 :: world where "demo_r4 = snd (prx_SwapPorts demo_outside ''api'' [(''default'', 5)] demo_r3)"
definition demo_r5 :: world where "demo_r5 = snd (mgr_Activate demo_outside ''api'' (interfere demo_outside demo_r4))"

lemma demo_cfg_fields: "sv_type demo_cfg = TypeBinary" "PickPort [(''default'', 5)] (sv_health_check_port demo_cfg) = 5"
    "sv_health_check demo_cfg = ''/health''" "sv_health_check_timeout demo_cfg = defaultHealthCheckTimeout"
    "defaultHealthCheckTimeout \<noteq> 0" "reg_Get ''api'' demo8 = Some demo_cfg"
proof -
  show "sv_type demo_cfg = TypeBinary" "PickPort [(''default'', 5)] (sv_health_check_port demo_cfg) = 5"
    "sv_health_check demo_cfg = ''/health''" "sv_health_check_timeout demo_cfg = defaultHealthCheckTimeout"
    "defaultHealthCheckTimeout \<noteq> 0" by code_simp+
  have "reg_Get ''api'' demo8 \<noteq> None" by code_simp
  then show "reg_Get ''api'' demo8 = Some demo_cfg" by (auto simp: demo_cfg_def)
qed

lemma demo_restart_steps:
  "mgr_StartCandidate demo_outside demo_cfg demo_r0 = (Inr [(''default'', 5)], demo_r1)"
  "wait_healthy demo_outside 5 ''/health'' defaultHealthCheckTimeout demo_r1 = (Inr (), demo_r2)"
  "verify_owned demo_outside [(''default'', 5)] 7 demo_r2 = (Inr (), demo_r3)"
  "prx_SwapPorts demo_outside ''api'' [(''default'', 5)] demo_r3 = (Inr (), demo_r4)"
  "mgr_Activate demo_outside ''api'' (interfere demo_outside demo_r4) = (Inr (), demo_r5)"
  "ProcPID ''api'' (w_mgr demo_r2) = 7" "ProcPID ''api'' (w_mgr demo_r4) = 7"
  unfolding demo_r1_def demo_r2_def demo_r3_def demo_r4_def demo_r5_def
  by (rule pairI, code_simp)+ code_simp+

theorem restart_success_witness:
  "\<exists>w'. ServiceRestart demo_outside ''api'' demo8 = (Inr (), w') \<and> up w' ''api''"
proof -
  obtain old where "mgr_Detach ''api'' demo8 = (old, demo_r0)"
    by (metis demo_r0_def prod.collapse)
  then have "\<exists>w'. restartLocked demo_outside ''api'' demo8 = (Inr (), w')"
    by (simp add: restartLocked_def Let_def demo_cfg_fields demo_restart_steps promote_def)
  moreover have "ok (ensure_mutable demo8)" "ok (ValidateServiceName ''api'')" by code_simp+
  ultimately obtain w' where run: "ServiceRestart demo_outside ''api'' demo8 = (Inr (), w')"
    by (auto simp: ServiceRestart_def gated_def ok_def split: sum.splits)
  with restart_success [OF demo8_inv run demo_cfg_fields(6,1)] show ?thesis by blast
qed

section \<open>Stop and remove\<close>

lemma stop_with_untracks:
  "map_of (mg_procs (fst (snd (stop_with code now dsk ans name (m, r))))) name = None"
proof (cases "map_of (mg_procs m) name")
  case (Some rp)
  let ?m = "m\<lparr>mg_procs := AList.delete name (mg_procs m),
      mg_draining := AList.update (cmd_pid m (rp_cmd rp)) code (mg_draining m)\<rparr>"
  have "procs_shrink ?m (fst (snd (drain_cmd now dsk ans (rp_cmd rp) (?m, r))))"
    by (simp add: drain_cmd_def proc_exit_shrink)
  then have "map_of (mg_procs (fst (snd (drain_cmd now dsk ans (rp_cmd rp) (?m, r))))) name = None"
    by (rule procs_shrink_None) (simp add: delete_conv')
  with Some show ?thesis by (simp add: stop_with_def)
qed (simp add: stop_with_def)

lemma mgr_Stop_frame:
  "w_prx (snd (mgr_Stop E name w)) = w_prx w" "w_watch (snd (mgr_Stop E name w)) = w_watch w"
  "\<not> IsRunning name (w_mgr (snd (mgr_Stop E name w)))"
  by (simp_all add: mgr_Stop_def mgr_do_def case_prod_beta tick_def StopProc_def IsRunning_def stop_with_untracks)

text \<open>Nothing of a service is up: no process, no watcher, and its ports answer 503 or not at all.\<close>

definition down :: "world \<Rightarrow> string \<Rightarrow> bool" where
  "down w name \<longleftrightarrow> \<not> IsRunning name (w_mgr w) \<and> map_of (w_watch w) name = None
     \<and> (\<forall>p. serving (w_prx w) name p \<in> {None, Some (Some ServiceUnavailable)})"



end
