(* ===== verification/Failure_Props.thy ===== *)
theory Failure_Props
  imports Deploy_Props
begin

text \<open>
  What failures leave behind: the record of a service whose deploy failed, the crash back-off, and
  what a removal leaves.
\<close>

section \<open>A failed deploy\<close>

text \<open>The binary deploy fails in one way only: its rollback runs, from some state.\<close>

lemma promote_fails:
  assumes "promote E name ports d window old undo w = (Inl e, w')"
  shows "\<exists>w1. w' = undo w1"
  using assms by (auto simp: promote_def Let_def split: on_res_split_asm if_splits)

lemma deploy_binary_fails:
  assumes "deploy_binary E req previous svc w = (Inl e, w')"
  shows "\<exists>old w1. w' = restoreFailedDeploy E (dr_Name req) previous old w1"
  using assms promote_fails
  by (auto simp: deploy_binary_def Let_def case_prod_beta split: on_res_split_asm) blast+

definition same_record :: "service \<Rightarrow> service \<Rightarrow> bool" where
  "same_record s s' \<longleftrightarrow>
     s\<lparr>sv_last_started_at := 0, sv_start_history := []\<rparr> = s'\<lparr>sv_last_started_at := 0, sv_start_history := []\<rparr>"

lemma same_record_refl [simp]: "same_record s s"
  by (simp add: same_record_def)

lemma with_lifecycle_same: "same_record prev (with_lifecycle w name prev)"
  by (simp add: with_lifecycle_def same_record_def split: option.split)

lemma with_lifecycle_fields: "sv_name (with_lifecycle w name prev) = sv_name prev"
  by (simp add: with_lifecycle_def split: option.split)

lemma sync_lifecycle:
  "syncSingularFromMap prev = prev \<Longrightarrow> syncSingularFromMap (with_lifecycle w name prev) = with_lifecycle w name prev"
  by (auto simp: with_lifecycle_def sync_eq_iff PrimaryStablePort_def PrimaryInternalPort_def split: option.split)

lemma reg_Restore_record:
  assumes "syncSingularFromMap s = s"
  shows "reg_Get (sv_name s) (snd (reg_Restore E s w)) = Some s"
  using assms
  by (simp add: reg_Get_def Get_def reg_Restore_def reg_do_def case_prod_beta Restore_def map_of_map
      update_conv')

lemma on_res_reg:
  assumes "w_reg (snd x) = r" and "\<And>a v. w_reg v = r \<Longrightarrow> w_reg (f (good a v)) = r"
    and "\<And>e v. w_reg v = r \<Longrightarrow> w_reg (f (bad e v)) = r"
  shows "w_reg (f (on_res x good bad)) = r"
  using assms by (cases x; cases "fst x") auto

lemmas on_res_reg_snd = on_res_reg [where f = snd]
lemmas on_res_reg_id = on_res_reg [where f = "\<lambda>w. w"]

lemma restore_routes_reg: "w_reg (restore_routes E name p w) = w_reg w"
  unfolding restore_routes_def by (rule on_res_reg_id) simp_all

lemma restoreFailedDeploy_record:
  assumes "syncSingularFromMap prev = prev" and "sv_name prev = name"
  shows "\<exists>s. reg_Get name (restoreFailedDeploy E name (Some prev) old w) = Some s \<and> same_record prev s"
proof -
  define w1 where "w1 = (if old \<noteq> None then snd (mgr_Restore E name old w) else w)"
  let ?prev = "with_lifecycle w1 name prev"
  have "reg_Get name (restore_routes E name ?prev (snd (reg_Restore E ?prev w1))) = Some ?prev"
    using reg_Restore_record [OF sync_lifecycle [OF assms(1)], of w1 name E w1] assms(2)
    by (simp add: reg_Get_def restore_routes_reg with_lifecycle_fields)
  then show ?thesis
    unfolding restoreFailedDeploy_def Let_def w1_def [symmetric]
    using with_lifecycle_same by auto
qed

lemma world_inv_record:
  assumes "world_inv w" and "reg_Get name w = Some s"
  shows "syncSingularFromMap s = s \<and> sv_name s = name"
proof -
  have "(name, s) \<in> set (rg_services (w_reg w))"
    using assms(2) by (auto simp: reg_Get_def Get_def dest: map_of_SomeD)
  moreover have "reg_inv (w_reg w)" using assms(1) by (simp add: world_inv_def)
  ultimately have "normalized s" by (rule reg_inv_normalized [rotated])
  then show ?thesis
    using reg_Get_view(2) [OF at_start [OF assms(1)] assms(2)] by (simp add: normalized_def)
qed

lemma alloc_range_reg: "w_reg (snd (alloc_range E name portName addr used ps w)) = w_reg w"
  by (induction ps arbitrary: w) (auto intro!: on_res_reg_snd)

lemma allocateOnePort_reg: "w_reg (snd (allocateOnePort E name portName pref used addr w)) = w_reg w"
  by (auto simp: allocateOnePort_def alloc_range_reg intro!: on_res_reg_snd)

lemma alloc_new_reg: "w_reg (snd (alloc_new E name addr used res pref w)) = w_reg w"
proof (induction pref arbitrary: w used res)
  case (Cons pp pref)
  obtain portName port where pp: "pp = (portName, port)" by fastforce
  show ?case
    unfolding pp alloc_new.simps
    by (rule on_res_reg_snd) (simp_all add: Cons allocateOnePort_reg)
qed simp

lemma allocatePorts_reg: "w_reg (snd (allocatePorts E name pref addr w)) = w_reg w"
  by (simp add: allocatePorts_def alloc_new_reg split: option.split)

lemma reg_save_True [simp]: "fst (reg_save True r) = Inr ()"
  using reg_save_ok [of True r] by (cases "fst (reg_save True r)") simp_all

lemma reg_Register_saved:
  assumes "reg_Register E svc w = (x, w')" and "o_dsk E (w_tick w)"
  shows "x = Inr ()" "reg_Get (sv_name svc) w' \<noteq> None"
proof -
  show "x = Inr ()" "reg_Get (sv_name svc) w' \<noteq> None"
    using assms
    by (auto simp: reg_Register_def reg_do_def case_prod_beta Register_def Let_def reg_Get_def Get_def
        map_of_map update_conv')
qed


text \<open>A redeploy whose new process cannot be started.\<close>

definition demo_refused :: outside where
  "demo_refused = demo_outside\<lparr>o_start := (\<lambda>_. Inl (IOError ''fork/exec''))\<rparr>"

definition demo_f1 :: world where
  "demo_f1 = snd (allocatePorts demo_refused (dr_Name demo_req) (dr_StablePorts demo_req)
                 (dr_ProxyBindAddress demo_req) (tick demo_world))"

definition demo_f2 :: world where
  "demo_f2 = snd (reg_Register demo_refused
     (request_service demo_req (request_version demo_refused demo_f1 demo_req) [(''default'', 3000)]) demo_f1)"

lemma demo_refused_steps:
  "allocatePorts demo_refused (dr_Name demo_req) (dr_StablePorts demo_req) (dr_ProxyBindAddress demo_req)
     (tick demo_world) = (Inr [(''default'', 3000)], demo_f1)"
  "reg_Register demo_refused
    (request_service demo_req (request_version demo_refused demo_f1 demo_req) [(''default'', 3000)]) demo_f1
     = (Inr (), demo_f2)"
  unfolding demo_f1_def demo_f2_def by (rule pairI, code_simp)+

lemma demo_refused_start: "\<not> ok (fst (mgr_StartCandidate demo_refused (the (reg_Get ''api'' demo_f2)) demo_f2))"
  by code_simp

lemma demo_refused_deploy: "\<exists>e w'. Deploy demo_refused demo_request demo_world = (Inl e, w')"
proof -
  have f2: "map_of (mg_procs (w_mgr demo_f2)) ''api'' = None" "reg_Get ''api'' demo_f2 \<noteq> None"
      "sv_name (the (reg_Get ''api'' demo_f2)) = ''api''"
    by code_simp+
  from f2(1) have d: "mgr_Detach ''api'' demo_f2 = (None, demo_f2)" by (simp add: mgr_Detach_def Detach_def)
  from f2(2) obtain svc where svc: "reg_Get ''api'' demo_f2 = Some svc" by auto
  with demo_refused_start obtain e w3 where start: "mgr_StartCandidate demo_refused svc demo_f2 = (Inl e, w3)"
    by (cases "mgr_StartCandidate demo_refused svc demo_f2"; cases "fst (mgr_StartCandidate demo_refused svc demo_f2)")
      auto
  have "\<exists>e w'. deploy_binary demo_refused demo_req prev svc demo_f2 = (Inl e, w')" for prev
    using svc f2(3) by (simp add: deploy_binary_def Let_def demo_req_fields d start)
  then have "\<exists>e w'. deploy_valid demo_refused demo_req demo_world = (Inl e, w')"
    unfolding deploy_valid_def Let_def demo_refused_steps on_res_simps
    by (simp add: deploy_registered_def demo_req_fields svc)
  moreover have "ok (ensure_mutable demo_world)" "ok (ValidateServiceName (dr_Name demo_request))"
      "ok (validateDeployRequest demo_refused demo_world demo_request)"
      "ok (ValidateProxyBindAddress (o_net demo_refused (w_tick demo_world)) (dr_ProxyBindAddress demo_req))"
    by code_simp+
  ultimately show ?thesis
    by (simp add: Deploy_def gated_def demo_req_def [symmetric] ok_def split: sum.splits)
qed


section \<open>Crashes\<close>

lemma wants_restart_gate: "length crashBackoffDurations = 5"
  by (simp add: crashBackoffDurations_def)


definition demo_always :: service where
  "demo_always = demo_service\<lparr>sv_restart_policy := ''always'', sv_status := StatusRunning\<rparr>"

definition demo_crashed :: world where
  "demo_crashed = (fresh_world ''/logs'')
     \<lparr>w_reg := snd (Register 5 True demo_always (reg_load None)), w_crashAttempts := [(''api'', 5)]\<rparr>"


section \<open>Removal\<close>



end
