(* ===== verification/Query_Props.thy ===== *)
theory Query_Props
  imports Service
begin

text \<open>What the read-only operations of the service layer report: log tails and metrics.\<close>

section \<open>Log tails\<close>

lemma tail_push_drop:
  "tail_push n (drop (length xs - n) xs) l = drop (length (xs @ [l]) - n) (xs @ [l])"
proof (cases "n \<le> length xs")
  case True
  then have "length (drop (length xs - n) xs @ [l]) = Suc n" by simp
  moreover have "tl (drop (length xs - n) xs @ [l]) = drop (Suc (length xs - n)) (xs @ [l])"
    using True by (cases n) (simp_all add: drop_Suc [symmetric] tl_drop Suc_diff_le tl_append2)
  ultimately show ?thesis using True by (simp add: tail_push_def Let_def Suc_diff_le)
qed (simp add: tail_push_def Let_def)

text \<open>The moving window over the scanned lines of a log ends as the last \<open>n\<close> lines.\<close>

theorem tailLog_last_lines: "tailLog n ls = str_join [newline] (drop (length ls - n) ls)"
proof -
  have "foldl (tail_push n) [] ls = drop (length ls - n) ls"
  proof (induction ls rule: rev_induct)
    case (snoc l ls)
    then show ?case by (simp only: foldl_append foldl.simps tail_push_drop)
  qed simp
  then show ?thesis by (simp add: tailLog_def)
qed

section \<open>Metrics\<close>

definition with_status :: "service_status \<Rightarrow> service list \<Rightarrow> nat" where
  "with_status st svcs = length (filter (\<lambda>s. sv_status s = st) svcs)"

lemma foldl_count:
  "foldl count_service m svcs = m\<lparr>mt_total := mt_total m + length svcs,
     mt_running := mt_running m + with_status StatusRunning svcs,
     mt_stopped := mt_stopped m + with_status StatusStopped svcs,
     mt_failed := mt_failed m + with_status StatusFailed svcs,
     mt_orphaned := mt_orphaned m + with_status StatusOrphaned svcs\<rparr>"
proof (induction svcs arbitrary: m)
  case (Cons s svcs)
  show ?case
    by (simp add: Cons) (simp add: count_service_def Let_def with_status_def split: service_status.split)
qed (simp add: with_status_def)

text \<open>The metrics count every listed service once, under the status the listing shows: a service
  whose binary is gone and which does not run counts as orphaned and under nothing else.\<close>

theorem Metrics_counts:
  "Metrics E w =
     \<lparr>mt_running = length (filter (\<lambda>s. sv_status s = StatusRunning) (All (w_reg w))),
      mt_stopped = length (filter (\<lambda>s. sv_status s = StatusStopped \<and> \<not> isOrphaned E w s) (All (w_reg w))),
      mt_failed = length (filter (\<lambda>s. sv_status s = StatusFailed \<and> \<not> isOrphaned E w s) (All (w_reg w))),
      mt_orphaned = length (filter (\<lambda>s. sv_status s = StatusOrphaned \<or> isOrphaned E w s) (All (w_reg w))),
      mt_total = length (All (w_reg w)), mt_deploys = w_deploysTotal w, mt_crashes = w_crashesTotal w\<rparr>"
proof -
  have run: "isOrphaned E w s \<Longrightarrow> sv_status s \<noteq> StatusRunning" for s
    by (simp add: isOrphaned_def split: if_splits)
  have "with_status st (Services E w) = length (filter (\<lambda>s. if isOrphaned E w s then st = StatusOrphaned
      else sv_status s = st) (All (w_reg w)))" for st
    by (simp add: with_status_def Services_def filter_map o_def if_distrib [where f = sv_status]
        if_distrib [where f = "\<lambda>x. x = st"] eq_commute cong: if_cong)
  then show ?thesis using run
    by (auto simp: Metrics_def foldl_count Services_def intro!: arg_cong [where f = length] filter_cong)
qed

end
