(* ===== verification/Restore_Props.thy ===== *)
theory Restore_Props
  imports Deploy_Props Restore_Ops
begin

text \<open>
  What the restore of a daemon's services achieves: what each outcome of \<open>restoreOne\<close> stands for, and
  what \<open>RestoreAll\<close> reports and leaves.
\<close>

section \<open>Exits of candidates\<close>

definition runtime_of :: "registry \<Rightarrow> string \<Rightarrow> (service_status \<times> int) option" where
  "runtime_of r n = map_option (\<lambda>s. (sv_status s, sv_pid s)) (map_of (rg_services r) n)"

lemma with_service_runtime:
  assumes "\<And>s. sv_status (f s) = sv_status s" and "\<And>s. sv_pid (f s) = sv_pid s"
  shows "runtime_of (snd (with_service n f dsk r)) m = runtime_of r m"
  using assms
  by (auto simp: runtime_of_def with_service_def map_of_map update_conv' option.map_comp comp_def split: option.split)

lemma CompleteStart_runtime: "runtime_of (snd (CompleteStart now dsk n t k d r)) m = runtime_of r m"
  by (auto simp: CompleteStart_def with_service_runtime split: option.split)

definition only_candidates :: "string \<Rightarrow> procmgr \<Rightarrow> bool" where
  "only_candidates name m \<longleftrightarrow> (\<forall>c ci. mg_cmds m c = Some ci \<and> cm_name ci = name \<longrightarrow> cm_candidate ci)"

lemma exit_locked_candidates:
  "only_candidates name m \<Longrightarrow> only_candidates name (snd (exit_locked c m))"
  by (auto simp: only_candidates_def exit_locked_def set_cmd_def Let_def split: option.splits if_splits)

lemma UpdateStatus_runtime_other: "n \<noteq> m \<Longrightarrow> runtime_of (snd (UpdateStatus now dsk n st pid r)) m = runtime_of r m"
  by (auto simp: UpdateStatus_def with_service_def runtime_of_def map_of_map update_conv' option.map_comp comp_def
      split: option.split)

lemma exit_finish_runtime:
  assumes "cm_name ci = name \<longrightarrow> eo_candidate eo"
  shows "runtime_of (snd (exit_finish now dsk ci st eo r)) name = runtime_of r name"
  using assms by (auto simp: exit_finish_def Let_def CompleteStart_runtime UpdateStatus_runtime_other)

lemma proc_exit_candidates:
  assumes "only_candidates name m"
  shows "only_candidates name (fst (snd (proc_exit now dsk c st (m, r))))"
    "runtime_of (snd (snd (proc_exit now dsk c st (m, r)))) name = runtime_of r name"
proof -
  have "only_candidates name (fst (snd (proc_exit now dsk c st (m, r))))
    \<and> runtime_of (snd (snd (proc_exit now dsk c st (m, r)))) name = runtime_of r name"
  proof (cases "mg_cmds m c")
    case None
    with assms show ?thesis by (simp add: proc_exit_def)
  next
    case (Some ci)
    show ?thesis
    proof (cases "cm_exited ci")
      case True
      with Some assms show ?thesis by (simp add: proc_exit_def)
    next
      case False
      have "only_candidates name (set_cmd c (\<lambda>ci. ci\<lparr>cm_done := True\<rparr>) (snd (exit_locked c m)))"
        using exit_locked_candidates [OF assms, of c]
        by (auto simp: only_candidates_def set_cmd_def split: option.splits if_splits)
      moreover have "cm_name ci = name \<longrightarrow> cm_candidate ci"
        using assms Some by (simp add: only_candidates_def)
      ultimately show ?thesis
        using exit_finish_runtime [of ci name "\<lparr>eo_code = map_of (mg_draining m) (cm_pid ci),
            eo_candidate = cm_candidate ci\<rparr>" now dsk st r]
        by (simp add: proc_exit_live [OF Some False] case_prod_beta)
    qed
  qed
  then show "only_candidates name (fst (snd (proc_exit now dsk c st (m, r))))"
    "runtime_of (snd (snd (proc_exit now dsk c st (m, r)))) name = runtime_of r name" by blast+
qed

lemma interfere_candidates:
  assumes "only_candidates name (w_mgr w)"
  shows "only_candidates name (w_mgr (interfere E w))"
    and "runtime_of (w_reg (interfere E w)) name = runtime_of (w_reg w) name"
proof -
  have "only_candidates name (w_mgr w) \<Longrightarrow> only_candidates name (w_mgr (foldl (exit_event E) w cs))
      \<and> runtime_of (w_reg (foldl (exit_event E) w cs)) name = runtime_of (w_reg w) name" for cs w
  proof (induction cs arbitrary: w)
    case (Cons c cs)
    from proc_exit_candidates [OF Cons.prems, of "o_now E (w_tick w)" "o_dsk E (w_tick w)" c
        "o_exit_state E (w_tick w) c" "w_reg w"]
    have "only_candidates name (w_mgr (exit_event E w c))"
        "runtime_of (w_reg (exit_event E w c)) name = runtime_of (w_reg w) name"
      by (simp_all add: exit_event_def case_prod_beta)
    with Cons.IH show ?case by simp
  qed simp
  from this [of "tick w" "o_exits E (w_tick w)"] assms
  show "only_candidates name (w_mgr (interfere E w))"
    and "runtime_of (w_reg (interfere E w)) name = runtime_of (w_reg w) name"
    by (simp_all add: interfere_def)
qed

lemma start_candidates:
  assumes "\<And>c ci. mg_cmds (w_mgr w) c = Some ci \<Longrightarrow> cm_name ci \<noteq> sv_name svc"
    and "mgr_StartCandidate E svc w = (Inr ports, w1)"
  shows "only_candidates (sv_name svc) (w_mgr w1)"
proof -
  have "mg_cmds (w_mgr w1) c = Some ci \<Longrightarrow> cm_name ci = sv_name svc \<Longrightarrow> cm_candidate ci" for c ci
    using assms
    by (cases rule: start_proc_cases [of "spawn_at E w" svc True "w_mgr w" "w_reg w"])
      (auto simp: mgr_StartCandidate_def mgr_do_def StartCandidate_def case_prod_beta split: if_splits)
  then show ?thesis unfolding only_candidates_def by blast
qed

section \<open>One service\<close>

lemma UpdateStatus_runtime:
  "runtime_of (w_reg (reg_UpdateStatus E n st pid w)) n = map_option (\<lambda>_. (st, pid)) (runtime_of (w_reg w) n)"
  by (auto simp: reg_UpdateStatus_def reg_do_def case_prod_beta UpdateStatus_def with_service_def runtime_of_def
      map_of_map update_conv' option.map_comp comp_def split: option.split)

lemma runtime_record:
  "reg_Get n w = Some s \<Longrightarrow> runtime_of (w_reg w) n = Some (sv_status s, sv_pid s)"
  by (auto simp: reg_Get_def Get_def runtime_of_def split: option.splits)

definition settled :: "world \<Rightarrow> string \<Rightarrow> service_status \<Rightarrow> bool" where
  "settled w n st \<longleftrightarrow> (\<forall>s. reg_Get n w = Some s \<longrightarrow> sv_status s = st \<and> sv_pid s = 0)"

definition issue_filed :: "outside \<Rightarrow> string \<Rightarrow> world \<Rightarrow> bool" where
  "issue_filed E name w \<longleftrightarrow> (o_issues E \<longrightarrow>
     (\<exists>before i. w_issues w = before @ [i] \<and> is_Input i = name \<and> is_Severity i = ''error''))"

lemma recordStartupIssue_reports: "issue_filed E name (recordStartupIssue E src tool name e w)"
  by (simp add: issue_filed_def recordStartupIssue_def report_issue_def startup_issue_def)

lemma recordStartupIssue_frame [simp]:
  "w_reg (recordStartupIssue E src tool name e w) = w_reg w"
  "reg_Get n (recordStartupIssue E src tool name e w) = reg_Get n w"
  by (simp_all add: recordStartupIssue_def report_issue_def reg_Get_def)

lemma settled_UpdateStatus: "settled (reg_UpdateStatus E n st 0 w) n st"
  using UpdateStatus_record [of n E st 0 w] by (auto simp: settled_def)

lemma settled_report [simp]: "settled (recordStartupIssue E src tool name e w) n st = settled w n st"
  by (simp add: settled_def)

text \<open>What each outcome stands for.\<close>

definition restore_settles :: "outside \<Rightarrow> string \<Rightarrow> restore_service_result \<Rightarrow> world \<Rightarrow> bool" where
  "restore_settles E name r w \<longleftrightarrow>
     (case rs_outcome r of
        RestoreRunning \<Rightarrow>
          (\<exists>rp. serves_process w name rp (rs_internal_ports r) \<and> rs_pid r = cmd_pid (w_mgr w) (rp_cmd rp))
          \<and> fst ` set (port_view w name) \<subseteq> fst ` set (rs_internal_ports r)
      | RestoreStatic \<Rightarrow> settled w name StatusRunning
      | RestoreFailed \<Rightarrow> settled w name StatusFailed \<and> issue_filed E name w \<and> rs_error r \<noteq> None
      | RestoreOrphaned \<Rightarrow> settled w name StatusOrphaned \<and> issue_filed E name w \<and> rs_error r \<noteq> None
      | _ \<Rightarrow> False)"

lemma restoreFailed_settles:
  "restore_settles E name (fst (restoreFailed E res name src tool e w)) (snd (restoreFailed E res name src tool e w))"
  by (simp add: restoreFailed_def restore_settles_def settled_UpdateStatus recordStartupIssue_reports)

lemma abort_settles:
  "restore_settles E name (fst (abort_restore E res name src tool e w)) (snd (abort_restore E res name src tool e w))"
  by (simp add: abort_restore_def restoreFailed_settles)

lemma restore_promote_settles:
  fixes E svc res src ports w
  defines "name \<equiv> sv_name svc" and "out \<equiv> restore_promote E svc res src ports w"
  assumes w: "at_view v N w" and name: "CHR '':'' \<notin> set name" and ports: "distinct (map fst ports)"
    and cand: "only_candidates name (w_mgr w)" and res: "rs_internal_ports res = ports"
    and cover: "fst ` set (v name) \<subseteq> fst ` set ports"
  shows "restore_settles E name (fst out) (snd out)"
proof -
  obtain x w2 where swap: "prx_SwapPorts E name ports w = (x, w2)" by fastforce
  let ?pid = "ProcPID name (w_mgr w2)"
  show ?thesis
  proof (cases "(\<exists>e. x = Inl e) \<or> ?pid = 0")
    case True
    then show ?thesis
      using swap by (auto simp: out_def restore_promote_def Let_def abort_settles name_def on_res_def split: sum.split)
  next
    case False
    then have x: "x = Inr ()" and pid: "?pid \<noteq> 0" by (cases x; simp)+
    let ?w = "interfere E (reg_UpdateStatus E name StatusRunning ?pid w2)"
    obtain y w3 where act: "mgr_Activate E name ?w = (y, w3)" by fastforce
    show ?thesis
    proof (cases y)
      case (Inl e)
      then show ?thesis
        using swap x pid act by (auto simp: out_def restore_promote_def Let_def abort_settles name_def)
    next
      case (Inr u)
      with act have act: "mgr_Activate E name ?w = (Inr (), w3)" by simp
      let ?fin = "reg_UpdateCrashState E name 0 False (clear_attempts name w3)"
      have out: "out = (res\<lparr>rs_outcome := RestoreRunning, rs_pid := ?pid\<rparr>, ?fin)"
        using swap x pid act by (simp add: out_def restore_promote_def Let_def name_def)
      note act' = mgr_Activate_frame [OF act]
      have mgr2: "w_mgr w2 = w_mgr w" using prx_calls_frame(3) [of E name ports w] swap by simp
      have same: "procs_shrink (w_mgr w) (w_mgr ?w)"
        using interfere_shrink [of "reg_UpdateStatus E name StatusRunning ?pid w2" E] mgr2 by simp
      from act'(1) obtain rp where rp: "map_of (mg_procs (w_mgr ?w)) name = Some rp" ..
      with same have before: "map_of (mg_procs (w_mgr w)) name = Some rp" by (simp add: procs_shrink_def)
      have pid_rp: "cmd_pid (w_mgr ?fin) (rp_cmd rp) = ?pid"
        using same before by (simp add: act' ProcPID_def mgr2 procs_shrink_def)
      have prx: "w_prx ?fin = snd (SwapPorts name ports (w_prx w))" "fst (SwapPorts name ports (w_prx w)) = Inr ()"
        using swap x by (auto simp: act'(4) prx_SwapPorts_def prx_do_def case_prod_beta)
      have "at_view v N w2" using st_swap.quiet [OF w, of E name ports] swap by simp
      then have view: "at_view v N ?fin"
        using st_activate.quiet [of v N ?w E name] act by simp
      have run: "runtime_of (w_reg w3) name = map_option (\<lambda>_. (StatusRunning, ?pid)) (runtime_of (w_reg w2) name)"
        using interfere_candidates(2) [of name "reg_UpdateStatus E name StatusRunning ?pid w2" E] cand mgr2
        by (simp add: act'(5) UpdateStatus_runtime)
      have "serves_process ?fin name rp ports"
        unfolding serves_process_def
      proof (intro conjI allI impI)
        show "map_of (mg_procs (w_mgr ?fin)) name = Some rp" by (simp add: act'(2) rp)
        show "serving (w_prx ?fin) name p = Some (Some (FlushProxy q))" if "map_of ports p = Some q" for p q
          using SwapPorts_serving [OF at_view_pm_inv [OF w] name ports prx(2), of p] that unfolding prx(1) by simp
        fix s
        assume "reg_Get name ?fin = Some s"
        then obtain s0 where s0: "reg_Get name (clear_attempts name w3) = Some s0" "sv_status s = sv_status s0"
            "sv_pid s = sv_pid s0" "sv_crash_attempts s = 0" "\<not> sv_gave_up s"
          by (rule UpdateCrashState_record) auto
        with runtime_record [of name "clear_attempts name w3" s0] run pid pid_rp
        show "sv_status s = StatusRunning" "sv_pid s = cmd_pid (w_mgr ?fin) (rp_cmd rp)" "sv_pid s \<noteq> 0"
          "sv_crash_attempts s = 0" "\<not> sv_gave_up s"
          by (auto simp: map_option_case split: option.splits)
      qed
      with view cover pid_rp res show ?thesis
        by (auto simp: out restore_settles_def at_view_def)
    qed
  qed
qed

lemma restore_started_settles:
  assumes w: "at_view v N w" and name: "CHR '':'' \<notin> set (sv_name svc)" and ports: "distinct (map fst ports)"
    and cand: "only_candidates (sv_name svc) (w_mgr w)" and res: "rs_internal_ports res = ports"
    and cover: "fst ` set (v (sv_name svc)) \<subseteq> fst ` set ports"
  shows "restore_settles E (sv_name svc) (fst (restore_started E svc res src ports w))
    (snd (restore_started E svc res src ports w))"
proof -
  have "only_candidates (sv_name svc) (w_mgr (snd (wait_healthy E p h t w)))" for p h t
    using interfere_candidates(1) [OF cand] by (simp add: wait_healthy_def)
  with w assms(2-) show ?thesis
    by (auto simp: restore_started_def Let_def restoreFailed_settles abort_settles on_res_def
        intro!: restore_promote_settles [where v = v and N = N] split: prod.split sum.split)
qed

lemma restore_body_settles:
  assumes w: "at_view v N w" and name: "CHR '':'' \<notin> set (sv_name svc)"
    and ports: "sv_stable_ports svc = v (sv_name svc)"
    and fresh: "\<forall>c ci. mg_cmds (w_mgr w) c = Some ci \<longrightarrow> cm_name ci \<noteq> sv_name svc"
  shows "restore_settles E (sv_name svc) (fst (restore_body E svc res src w)) (snd (restore_body E svc res src w))"
proof -
  let ?start = "mgr_StartCandidate E svc (tick w)"
  have started: "restore_settles E (sv_name svc)
      (fst (restore_started E svc (res\<lparr>rs_internal_ports := copyPorts ps\<rparr>) src ps (snd ?start)))
      (snd (restore_started E svc (res\<lparr>rs_internal_ports := copyPorts ps\<rparr>) src ps (snd ?start)))"
    if "fst ?start = Inr ps" for ps
  proof -
    have start: "mgr_StartCandidate E svc (tick w) = (Inr ps, snd ?start)" using that by (metis prod.collapse)
    note ok = mgr_StartCandidate_ok [OF start]
    show ?thesis
    proof (rule restore_started_settles [OF _ name ok(1)])
      show "at_view v N (snd ?start)" using w by simp
      show "only_candidates (sv_name svc) (w_mgr (snd ?start))"
        using start fresh by (intro start_candidates [OF _ start]) simp
      show "fst ` set (v (sv_name svc)) \<subseteq> fst ` set ps" using ok(2) ports by simp
    qed simp
  qed
  show ?thesis
    using started
    by (auto simp: restore_body_def Let_def restoreFailed_settles on_res_def restore_settles_def [of _ _ "_\<lparr>rs_outcome := RestoreStatic\<rparr>"]
      settled_UpdateStatus restore_settles_def [of _ _ "_\<lparr>rs_outcome := RestoreOrphaned, rs_error := _\<rparr>"] recordStartupIssue_reports
        split: prod.split sum.split)
qed

lemma reg_calls_startup [simp]: "w_startup (reg_UpdateStatus E n st pid w) = w_startup w"
  by (simp add: reg_UpdateStatus_def reg_do_def case_prod_beta tick_def)

lemma startWatcher_startup [simp]: "w_startup (startWatcher E so w) = w_startup w"
  by (simp add: startWatcher_def tick_def Let_def watch_Stop_def split: option.split)

lemma StartWatchers_startup [simp]: "w_startup (StartWatchers E w) = w_startup w"
proof -
  have "w_startup (foldl (\<lambda>w svc. if sv_watch_paths svc \<noteq> [] then startWatcher E (Some svc) w else w) w svcs)
      = w_startup w" for svcs
    by (induction svcs arbitrary: w) simp_all
  then show ?thesis by (simp add: StartWatchers_def)
qed

lemma RestoreAll_finish: "\<exists>rw. RestoreAll E order opts w = finish_restore E rw"
  unfolding RestoreAll_def Let_def case_prod_beta by (rule exI, rule refl)

section \<open>Properties\<close>

text \<open>C9: When the daemon restores a service of which it has started no process yet, the outcome it
  reports is what the state then is: running means that the new process is tracked and recorded as running with
  its PID and serves every stable port of the service; static means it is recorded as running; failed
  and orphaned mean that the record says so with no PID and that an issue was filed.\<close>

theorem restoreOne_settles:
  assumes "world_inv w" and "CHR '':'' \<notin> set (sv_name svc)"
    and "sv_stable_ports svc = port_view w (sv_name svc)"
    and "\<forall>c ci. mg_cmds (w_mgr w) c = Some ci \<longrightarrow> cm_name ci \<noteq> sv_name svc"
    and "restoreOne E svc res issueSource w = (r, w')"
  shows "restore_settles E (sv_name svc) r w'"
proof -
  have "restore_settles E n (r\<lparr>rs_duration := d\<rparr>) w = restore_settles E n r w" for n r d w
    by (cases "rs_outcome r") (simp_all add: restore_settles_def)
  with restore_body_settles [OF at_start [OF assms(1)] assms(2,3,4), of E res issueSource] assms(5)
  show ?thesis by (auto simp: restoreOne_def case_prod_beta)
qed

lemma RestoreAll_opens:
  assumes "RestoreAll E order opts w = (r, w')"
  shows "ensure_mutable w' = Inr ()" and "su_last_result (StartupState (w_startup w')) = Some r"
proof -
  from RestoreAll_finish [of E order opts w] assms obtain rw where "finish_restore E rw = (r, w')" by metis
  then show "ensure_mutable w' = Inr ()" "su_last_result (StartupState (w_startup w')) = Some r"
    by (auto simp: finish_restore_def Let_def ensure_mutable_def ensureMutable_def StartupState_def
        tracker_finish_def mutationsBlockedLocked_def)
qed


section \<open>A restored demo service, step by step\<close>

definition boot0 :: world where
  "boot0 = snd (prx_Register demo_outside ''api'' [(''default'', 3000)] ''localhost'' demo2)"

definition boot1 :: world where "boot1 = snd (mgr_StartCandidate demo_outside demo_svc (tick boot0))"

definition boot2 :: world where
  "boot2 = snd (wait_healthy demo_outside 5 ''/health'' defaultHealthCheckTimeout boot1)"

definition boot3 :: world where "boot3 = snd (prx_SwapPorts demo_outside ''api'' [(''default'', 5)] boot2)"

definition boot4 :: world where
  "boot4 = snd (mgr_Activate demo_outside ''api''
     (interfere demo_outside (reg_UpdateStatus demo_outside ''api'' StatusRunning 7 boot3)))"

lemma boot_steps:
  "mgr_StartCandidate demo_outside demo_svc (tick boot0) = (Inr [(''default'', 5)], boot1)"
  "wait_healthy demo_outside 5 ''/health'' defaultHealthCheckTimeout boot1 = (Inr (), boot2)"
  "prx_SwapPorts demo_outside ''api'' [(''default'', 5)] boot2 = (Inr (), boot3)"
  "mgr_Activate demo_outside ''api''
     (interfere demo_outside (reg_UpdateStatus demo_outside ''api'' StatusRunning 7 boot3)) = (Inr (), boot4)"
  "ProcPID ''api'' (w_mgr boot3) = 7"
  unfolding boot1_def boot2_def boot3_def boot4_def
  by (rule pairI, code_simp)+ code_simp

lemma boot_fields:
  "sv_type demo_svc = TypeBinary" "sv_health_check demo_svc = ''/health''" "healthCheckPort demo_svc [(''default'', 5)] = 5"
  "sv_health_check_timeout demo_svc = defaultHealthCheckTimeout" "defaultHealthCheckTimeout \<noteq> 0"
  "o_stat demo_outside (w_tick boot0) (sv_binary_path demo_svc) = StatFile" "\<not> is_cancelled demo_outside boot1"
  by code_simp+

lemma boot0_ok: "world_inv boot0" "port_view boot0 ''api'' = [(''default'', 3000)]" "mg_cmds (w_mgr boot0) = Map.empty"
proof -
  have "at_view (port_view demo2) (cmd_names demo2) demo2" using at_start [OF demo2_inv] .
  then have "at_view (port_view demo2) (cmd_names demo2) boot0"
    unfolding boot0_def by (rule prx_Register_quiet [rotated]) simp
  then show "world_inv boot0" "port_view boot0 ''api'' = [(''default'', 3000)]"
    using reg_Get_view(2) [OF at_start [OF demo2_inv] demo_svc_fields(4)] demo_svc_fields(2)
    by (simp_all add: at_view_def)
  obtain e where "reg_Get ''api'' demo_world = Some e" "sv_stable_ports e = [(''default'', 3000)]"
    using demo_reg_get by (auto simp: reg_Get_def demo_world_def)
  then have "w_mgr demo1 = w_mgr demo_world"
    by (simp add: demo1_def allocatePorts_def demo_req_fields reg_Get_def)
  then have "w_mgr boot0 = w_mgr demo_world"
    by (simp add: boot0_def demo2_def reg_Register_def)
  then show "mg_cmds (w_mgr boot0) = Map.empty"
    by (simp add: demo_world_def fresh_world_def NewProcesses_def)
qed

theorem restoreOne_settles_witness:
  "\<exists>r w'. restoreOne demo_outside demo_svc (baseRestoreResult demo_svc) ''boot'' boot0 = (r, w')
     \<and> rs_outcome r = RestoreRunning \<and> restore_settles demo_outside ''api'' r w'"
proof -
  obtain r w' where run: "restoreOne demo_outside demo_svc (baseRestoreResult demo_svc) ''boot'' boot0 = (r, w')"
    by fastforce
  moreover have "rs_outcome r = RestoreRunning"
    using run by (auto simp: restoreOne_def restore_body_def restore_started_def restore_promote_def Let_def
        boot_fields demo_svc_fields boot_steps case_prod_beta)
  moreover have "restore_settles demo_outside (sv_name demo_svc) r w'"
    by (rule restoreOne_settles [OF boot0_ok(1) _ _ _ run]) (simp_all add: demo_svc_fields boot0_ok)
  ultimately show ?thesis by (simp add: demo_svc_fields)
qed


end
