(* ===== verification/Isolation.thy ===== *)
theory Isolation
  imports Service_Props
begin

text \<open>
  Services do not disturb each other. \<open>holding\<close> is all that the daemon keeps for one service: its
  record, its tracked process, the commands started for it, what the proxy serves for it, its
  watcher, its crash count, and the crashes and drains of it that are still to be handled. The
  operations on other services, their crashes, drains and exits leave it as it is.
\<close>

section \<open>What the daemon keeps for a service\<close>

definition commands_of :: "string \<Rightarrow> procmgr \<Rightarrow> nat \<Rightarrow> cmd_info option" where
  "commands_of m mg c =
     (case mg_cmds mg c of Some ci \<Rightarrow> if cm_name ci = m then Some ci else None | None \<Rightarrow> None)"

record holding =
  ho_record :: "service option"
  ho_process :: "running_proc option"
  ho_commands :: "nat \<Rightarrow> cmd_info option"
  ho_serves :: "string \<Rightarrow> handler option option"
  ho_watch :: "string list option"
  ho_attempts :: "nat option"
  ho_crashes :: nat
  ho_drains :: "(nat \<times> int \<times> int) list"

definition held :: "string \<Rightarrow> world \<Rightarrow> holding" where
  "held m w =
     \<lparr>ho_record = map_of (rg_services (w_reg w)) m, ho_process = map_of (mg_procs (w_mgr w)) m,
      ho_commands = commands_of m (w_mgr w), ho_serves = serving (w_prx w) m,
      ho_watch = map_of (w_watch w) m, ho_attempts = map_of (w_crashAttempts w) m,
      ho_crashes = count_list (w_crashq w) m,
      ho_drains = filter (\<lambda>(c, rest). commands_of m (w_mgr w) c \<noteq> None) (w_drains w)\<rparr>"

lemma held_congs [simp]:
  "held m (w\<lparr>w_startup := c\<rparr>) = held m w" "held m (w\<lparr>w_receipts := d\<rparr>) = held m w"
  "held m (w\<lparr>w_issues := e\<rparr>) = held m w" "held m (w\<lparr>w_deploysTotal := h\<rparr>) = held m w"
  "held m (w\<lparr>w_buildlogs := bl\<rparr>) = held m w" "held m (w\<lparr>w_crashesTotal := i\<rparr>) = held m w"
  "held m (w\<lparr>w_tick := j\<rparr>) = held m w" "held m (tick w) = held m w"
  by (simp_all add: held_def tick_def)

text \<open>A state in which the service \<open>m\<close> has the given holding, and no process of it exits on its own.\<close>

definition undisturbed :: "outside \<Rightarrow> holding \<Rightarrow> bool" where
  "undisturbed E S \<longleftrightarrow> (\<forall>t. \<forall>c \<in> set (o_exits E t). ho_commands S c = None)"

definition beside :: "string \<Rightarrow> holding \<Rightarrow> (nat \<rightharpoonup> string) \<Rightarrow> world \<Rightarrow> bool" where
  "beside m S N w \<longleftrightarrow> CHR '':'' \<notin> set m \<and> (\<exists>v. at_view v N w) \<and> held m w = S"

lemma besideI: "beside m S N w \<Longrightarrow> at_view v N w' \<Longrightarrow> held m w' = held m w \<Longrightarrow> beside m S N w'"
  by (auto simp: beside_def)

lemma beside_view: "beside m S N w \<Longrightarrow> at_view (port_view w) N w"
  by (auto simp: beside_def at_view_def)

lemma beside_congs [simp]:
  "beside m S N (w\<lparr>w_startup := c\<rparr>) = beside m S N w" "beside m S N (w\<lparr>w_receipts := d\<rparr>) = beside m S N w"
  "beside m S N (w\<lparr>w_issues := e\<rparr>) = beside m S N w" "beside m S N (w\<lparr>w_deploysTotal := h\<rparr>) = beside m S N w"
  "beside m S N (w\<lparr>w_buildlogs := bl\<rparr>) = beside m S N w" "beside m S N (w\<lparr>w_crashesTotal := i\<rparr>) = beside m S N w"
  "beside m S N (w\<lparr>w_tick := j\<rparr>) = beside m S N w" "beside m S N (tick w) = beside m S N w"
  by (simp_all add: beside_def)

lemma beside_cmd_names: "beside m S N w \<Longrightarrow> beside m S (cmd_names w) w"
  by (auto simp: beside_def at_view_def)

lemma beside_weaken: "beside m S (cmd_names w) w' \<Longrightarrow> beside m S N w \<Longrightarrow> beside m S N w'"
  by (auto simp: beside_def at_view_def intro: map_le_trans)

lemma on_res_beside:
  assumes "beside m S N (snd x)"
    and "\<And>a w. beside m S N w \<Longrightarrow> beside m S N (f (good a w))"
    and "\<And>e w. beside m S N w \<Longrightarrow> beside m S N (f (bad e w))"
  shows "beside m S N (f (on_res x good bad))"
  using assms by (cases x; cases "fst x") auto

lemmas on_res_beside_snd = on_res_beside [where f = snd]
lemmas on_res_beside_id = on_res_beside [where f = "\<lambda>w. w"]

section \<open>The registry\<close>

named_theorems other_record \<open>a registry call on one service leaves the records of the others\<close>

lemma synced_lookup: "reg_inv r \<Longrightarrow> map_option syncSingularFromMap (map_of (rg_services r) m) = map_of (rg_services r) m"
  by (cases "map_of (rg_services r) m") (auto simp: reg_inv_def reg_synced_def dest: map_of_SomeD)

lemma with_service_other:
  "reg_inv r \<Longrightarrow> m \<noteq> n \<Longrightarrow> map_of (rg_services (snd (with_service n f dsk r))) m = map_of (rg_services r) m"
  by (simp add: with_service_def synced_lookup split: option.split)

lemma mutators_other [other_record]:
  assumes "reg_inv r" and "m \<noteq> n"
  shows "map_of (rg_services (snd (UpdateStatus now dsk n st pid r))) m = map_of (rg_services r) m"
    "map_of (rg_services (snd (UpdateLastDeployed now dsk n t r))) m = map_of (rg_services r) m"
    "map_of (rg_services (snd (MarkRunning now dsk n pid t r))) m = map_of (rg_services r) m"
    "map_of (rg_services (snd (UpdateCrashState now dsk n a g r))) m = map_of (rg_services r) m"
    "map_of (rg_services (snd (UpdateProcessStarted now dsk n ports t r))) m = map_of (rg_services r) m"
    "map_of (rg_services (snd (CompleteStart now dsk n t c d r))) m = map_of (rg_services r) m"
    "map_of (rg_services (snd (Remove dsk n r))) m = map_of (rg_services r) m"
    "map_of (rg_services (snd (Archive now dsk n r))) m = map_of (rg_services r) m"
    "map_of (rg_services (snd (RestoreArchived now dsk n r))) m = map_of (rg_services r) m"
    "map_of (rg_services (snd (Prune now dsk n r))) m = map_of (rg_services r) m"
  using assms
  by (auto simp: UpdateStatus_def mutator_defs CompleteStart_def Remove_def Archive_def RestoreArchived_def
      Prune_def Let_def with_service_other synced_lookup split: option.split prod.split)

lemma Register_other [other_record]:
  "reg_inv r \<Longrightarrow> m \<noteq> sv_name s \<Longrightarrow> map_of (rg_services (snd (Register now dsk s r))) m = map_of (rg_services r) m"
  by (simp add: Register_def Let_def synced_lookup)

lemma Restore_other [other_record]:
  "reg_inv r \<Longrightarrow> m \<noteq> sv_name s \<Longrightarrow> map_of (rg_services (snd (Restore dsk (Some s) r))) m = map_of (rg_services r) m"
  by (simp add: Restore_def synced_lookup)


lemma beside_reg_inv: "beside m S N w \<Longrightarrow> reg_inv (w_reg w)"
  by (auto simp: beside_def at_view_def world_inv_def)

lemma reg_do_beside:
  assumes "beside m S N w" and "at_view v N (snd (reg_do E f w))"
    and "\<And>now dsk. map_of (rg_services (snd (f now dsk (w_reg w)))) m = map_of (rg_services (w_reg w)) m"
  shows "beside m S N (snd (reg_do E f w))"
  by (rule besideI [OF assms(1,2)]) (simp add: reg_do_def case_prod_beta held_def tick_def assms(3))

lemma reg_do_quiet:
  assumes "beside m S N w" and "\<And>now dsk r. keeps_reg r (snd (f now dsk r))"
    and "\<And>now dsk r. reg_inv r \<Longrightarrow> map_of (rg_services (snd (f now dsk r))) m = map_of (rg_services r) m"
  shows "beside m S N (snd (reg_do E f w))"
  using world_step.quiet [OF reg_do_keeps [OF assms(2)] beside_view [OF assms(1)]] assms(3)
    beside_reg_inv [OF assms(1)]
  by (intro reg_do_beside [OF assms(1)]) simp_all

named_theorems besides \<open>calls that leave what other services hold\<close>

lemma reg_calls_beside [besides]:
  assumes "beside m S N w" and "m \<noteq> n"
  shows "beside m S N (reg_UpdateStatus E n st pid w)"
    "beside m S N (reg_UpdateLastDeployed E n w)"
    "beside m S N (reg_MarkRunning E n pid deployed w)"
    "beside m S N (reg_UpdateCrashState E n a g w)"
    "beside m S N (snd (reg_do E (\<lambda>now dsk. Archive now dsk n) w))"
    "beside m S N (snd (reg_do E (\<lambda>now dsk. RestoreArchived now dsk n) w))"
  unfolding reg_UpdateStatus_def reg_UpdateLastDeployed_def reg_MarkRunning_def reg_UpdateCrashState_def
  by (rule reg_do_quiet [OF assms(1)];
      simp add: mutator_keeps Archive_keeps RestoreArchived_keeps mutators_other assms(2))+

section \<open>Processes\<close>

definition apart :: "string \<Rightarrow> procmgr \<times> registry \<Rightarrow> procmgr \<times> registry \<Rightarrow> bool" where
  "apart m s s' \<longleftrightarrow>
     map_of (rg_services (snd s')) m = map_of (rg_services (snd s)) m
     \<and> map_of (mg_procs (fst s')) m = map_of (mg_procs (fst s)) m
     \<and> commands_of m (fst s') = commands_of m (fst s)"

lemma apart_refl [simp]: "apart m s s"
  by (simp add: apart_def)

lemma held_mgr: "apart m (w_mgr w, w_reg w) (mg, r) \<Longrightarrow> held m (w\<lparr>w_mgr := mg, w_reg := r\<rparr>) = held m w"
  by (simp add: apart_def held_def)

lemma commands_of_congs [simp]:
  "commands_of m (mg\<lparr>mg_procs := a\<rparr>) = commands_of m mg"
  "commands_of m (mg\<lparr>mg_draining := b\<rparr>) = commands_of m mg"
  "commands_of m (mg\<lparr>mg_next := c\<rparr>) = commands_of m mg"
  by (rule ext, simp add: commands_of_def)+

lemma commands_of_set_cmd:
  "commands_of m mg c = None \<Longrightarrow> (\<And>ci. cm_name (f ci) = cm_name ci) \<Longrightarrow>
   commands_of m (set_cmd c f mg) = commands_of m mg"
  by (rule ext) (auto simp: commands_of_def set_cmd_def split: option.splits if_splits)

lemma proc_exit_apart:
  assumes "reg_inv r" and "mg_inv mg" and "commands_of m mg c = None"
  shows "apart m (mg, r) (snd (proc_exit now dsk c st (mg, r)))"
proof (cases "\<exists>ci. mg_cmds mg c = Some ci \<and> \<not> cm_exited ci")
  case False
  then show ?thesis by (auto simp: proc_exit_def split: option.split)
next
  case True
  then obtain ci where ci: "mg_cmds mg c = Some ci" "\<not> cm_exited ci" by blast
  with assms(3) have n: "m \<noteq> cm_name ci" by (auto simp: commands_of_def split: if_splits)
  have reg: "map_of (rg_services (snd (exit_finish now dsk ci st eo r))) m = map_of (rg_services r) m" for eo
    using assms(1) n CompleteStart_inv [OF assms(1)]
    by (simp add: exit_finish_def Let_def other_record)
  let ?mg = "set_cmd c (\<lambda>ci. ci\<lparr>cm_done := True\<rparr>) (snd (exit_locked c mg))"
  have "commands_of m ?mg = commands_of m mg" "map_of (mg_procs ?mg) m = map_of (mg_procs mg) m"
    using ci n by (auto simp: exit_locked_def Let_def commands_of_def set_cmd_def delete_conv' fun_eq_iff
        split: option.split)
  with reg show ?thesis
    by (simp add: proc_exit_live [OF ci] apart_def case_prod_beta)
qed

lemma drain_cmd_apart:
  "reg_inv r \<Longrightarrow> mg_inv mg \<Longrightarrow> commands_of m mg c = None \<Longrightarrow>
   apart m (mg, r) (snd (drain_cmd now dsk ans c (mg, r)))"
  by (simp add: drain_cmd_def proc_exit_apart)

lemma tracked_other:
  "mg_inv mg \<Longrightarrow> m \<noteq> n \<Longrightarrow> map_of (mg_procs mg) n = Some rp \<Longrightarrow> commands_of m mg (rp_cmd rp) = None"
  using mg_inv_tracked [of mg n rp] by (auto simp: tracked_ok_def commands_of_def)

lemma stop_with_apart:
  assumes "reg_inv r" and "mg_inv mg" and "m \<noteq> n"
  shows "apart m (mg, r) (snd (stop_with code now dsk ans n (mg, r)))"
proof (cases "map_of (mg_procs mg) n")
  case (Some rp)
  let ?mg = "mg\<lparr>mg_procs := AList.delete n (mg_procs mg),
    mg_draining := AList.update (cmd_pid mg (rp_cmd rp)) code (mg_draining mg)\<rparr>"
  have "mg_inv ?mg"
    using mg_inv_delete [OF assms(2), of n] by (simp add: mg_inv_def tracked_ok_def cmds_ok_def)
  moreover have "commands_of m ?mg (rp_cmd rp) = None"
    using tracked_other [OF assms(2,3) Some] by (simp add: commands_of_def)
  ultimately have "apart m (?mg, r) (snd (drain_cmd now dsk ans (rp_cmd rp) (?mg, r)))"
    using assms(1) by (intro drain_cmd_apart)
  moreover have "apart m (mg, r) (?mg, r)"
    using assms(3) by (simp add: apart_def delete_conv' commands_of_def fun_eq_iff)
  ultimately show ?thesis
    using Some by (simp add: stop_with_def apart_def)
qed (simp add: stop_with_def)

lemma start_proc_apart:
  assumes "reg_inv r" and "mg_inv mg" and "m \<noteq> sv_name svc"
  shows "apart m (mg, r) (snd (start_proc env svc cand (mg, r)))"
proof -
  have "map_of (rg_services (snd (snd (start_proc env svc cand (mg, r))))) m = map_of (rg_services r) m"
    using assms(1,3) by (auto simp: start_proc_def Let_def other_record split: sum.split)
  moreover have "map_of (mg_procs (fst (snd (start_proc env svc cand (mg, r))))) m = map_of (mg_procs mg) m
      \<and> commands_of m (fst (snd (start_proc env svc cand (mg, r)))) = commands_of m mg"
  proof (rule start_proc_cases [of env svc cand mg r])
    have "mg_cmds mg (mg_next mg) = None"
      using assms(2) by (cases "mg_cmds mg (mg_next mg)") (auto simp: mg_inv_def cmds_ok_def)
    with assms(3) show ?thesis if "start_proc env svc cand (mg, r) = (Inr ports,
         (mg\<lparr>mg_procs := AList.update (sv_name svc) rp (mg_procs mg),
            mg_cmds := (mg_cmds mg)(mg_next mg \<mapsto>
              \<lparr>cm_name = sv_name svc, cm_pid = pid, cm_started_at = sp_now env,
               cm_candidate = cand, cm_exited = False, cm_done = False\<rparr>),
            mg_next := Suc (mg_next mg)\<rparr>, r'))" for ports rp pid r'
      using that by (auto simp: update_conv' commands_of_def fun_eq_iff)
  qed simp_all
  ultimately show ?thesis by (simp add: apart_def)
qed


lemma beside_mg_inv: "beside m S N w \<Longrightarrow> mg_inv (w_mgr w)"
  by (auto simp: beside_def at_view_def world_inv_def)

lemma mgr_do_beside:
  assumes "beside m S N w" and "at_view v N (snd (mgr_do E f w))"
    and "\<And>now dsk. reg_inv (w_reg w) \<Longrightarrow> mg_inv (w_mgr w) \<Longrightarrow>
      apart m (w_mgr w, w_reg w) (snd (f now dsk (w_mgr w, w_reg w)))"
  shows "beside m S N (snd (mgr_do E f w))"
proof -
  obtain x mg r where f: "f (o_now E (w_tick w)) (o_dsk E (w_tick w)) (w_mgr w, w_reg w) = (x, (mg, r))"
    by (metis prod.exhaust)
  with assms(3) beside_reg_inv [OF assms(1)] beside_mg_inv [OF assms(1)]
  have "apart m (w_mgr w, w_reg w) (mg, r)" by (metis snd_conv)
  with held_mgr [of m "tick w" mg r] f show ?thesis
    by (intro besideI [OF assms(1,2)]) (simp add: mgr_do_def)
qed

lemma mgr_calls_beside [besides]:
  assumes "beside m S N w" and "m \<noteq> n"
  shows "beside m S N (snd (mgr_Stop E n w))" "beside m S N (mgr_StopFailed E n w)"
    "sv_name svc = n \<Longrightarrow> beside m S N (snd (mgr_StartCandidate E svc w))"
proof -
  note view = beside_view [OF assms(1)]
  show "beside m S N (snd (mgr_Stop E n w))"
    using st_stop.quiet [OF view, of E n] unfolding mgr_Stop_def
    by (rule mgr_do_beside [OF assms(1)]) (simp add: StopProc_def stop_with_apart assms(2))
  show "beside m S N (mgr_StopFailed E n w)"
    using st_stop_failed.quiet [OF view, of E n] unfolding mgr_StopFailed_def
    by (rule mgr_do_beside [OF assms(1)]) (simp add: StopFailed_def stop_with_apart assms(2))
  show "beside m S N (snd (mgr_StartCandidate E svc w))" if "sv_name svc = n"
    using st_start.quiet [OF view, of E svc] unfolding mgr_StartCandidate_def
    by (rule mgr_do_beside [OF assms(1)]) (simp add: StartCandidate_def start_proc_apart assms(2) that)
qed

text \<open>The calls that touch the manager alone.\<close>

lemma held_mgr_only: "apart m (w_mgr w, w_reg w) (mg, w_reg w) \<Longrightarrow> held m (w\<lparr>w_mgr := mg\<rparr>) = held m w"
  by (simp add: apart_def held_def)

lemma Detach_apart: "m \<noteq> n \<Longrightarrow> apart m (mg, r) (snd (Detach n mg), r)"
  by (auto simp: apart_def Detach_def delete_conv' split: option.split)

lemma Activate_apart: "mg_inv mg \<Longrightarrow> m \<noteq> n \<Longrightarrow> apart m (mg, r) (snd (Activate n mg), r)"
  by (auto simp: apart_def Activate_def commands_of_set_cmd tracked_other split: option.split)
    (simp add: set_cmd_def)

lemma RestoreProc_apart: "m \<noteq> n \<Longrightarrow> apart m (mg, r) (snd (RestoreProc alive n dp mg), r)"
  by (auto simp: apart_def RestoreProc_def Let_def update_conv' split: option.split)

lemma mgr_only_beside [besides]:
  assumes "beside m S N w" and "m \<noteq> n"
  shows "beside m S N (snd (mgr_Detach n w))" "beside m S N (snd (mgr_Activate E n w))"
    "owned n dp N \<Longrightarrow> beside m S N (snd (mgr_Restore E n dp w))"
proof -
  note view = beside_view [OF assms(1)]
  show "beside m S N (snd (mgr_Detach n w))"
    using st_detach.quiet [OF view, of n]
    by (rule besideI [OF assms(1)]) (simp add: mgr_Detach_def case_prod_beta held_mgr_only Detach_apart assms(2))
  show "beside m S N (snd (mgr_Activate E n w))"
    using st_activate.quiet [OF view, of E n]
    by (rule besideI [OF assms(1)])
      (simp add: mgr_Activate_def case_prod_beta held_mgr_only Activate_apart assms(2) beside_mg_inv [OF assms(1)])
  show "beside m S N (snd (mgr_Restore E n dp w))" if "owned n dp N"
    using mgr_Restore_keeps [OF view that, of E]
    by (rule besideI [OF assms(1)]) (simp add: mgr_Restore_def case_prod_beta held_mgr_only RestoreProc_apart assms(2))
qed

section \<open>Exits of other processes\<close>

lemma exit_event_beside:
  assumes "beside m S N w" and "ho_commands S c = None"
  shows "beside m S N (exit_event E w c)"
proof -
  obtain b mg r where f: "proc_exit (o_now E (w_tick w)) (o_dsk E (w_tick w)) c
      (o_exit_state E (w_tick w) c) (w_mgr w, w_reg w) = (b, (mg, r))"
    by (metis prod.exhaust)
  have none: "commands_of m (w_mgr w) c = None"
    using assms by (auto simp: beside_def held_def)
  have "apart m (w_mgr w, w_reg w) (mg, r)"
    using proc_exit_apart [OF beside_reg_inv [OF assms(1)] beside_mg_inv [OF assms(1)] none] f
    by (metis snd_conv)
  then have "held m (exit_event E w c) = held m w"
    using none f by (auto simp: exit_event_def held_def apart_def commands_of_def tick_def split: option.splits if_splits)
  with exit_event_keeps [OF beside_view [OF assms(1)], of E c] show ?thesis
    by (rule besideI [OF assms(1)])
qed

lemma exits_beside:
  "beside m S N w \<Longrightarrow> \<forall>c \<in> set cs. ho_commands S c = None \<Longrightarrow> beside m S N (foldl (exit_event E) w cs)"
  by (induction cs arbitrary: w) (simp_all add: exit_event_beside)

lemma interfere_beside [besides]:
  assumes "beside m S N w" and "undisturbed E S"
  shows "beside m S N (interfere E w)" "beside m S N (snd (wait_healthy E port path timeout w))"
    "beside m S N (snd (verify_owned E ports pid w))"
  using assms by (simp_all add: interfere_def wait_healthy_def verify_owned_def exits_beside undisturbed_def)

section \<open>The proxy\<close>

lemma beside_proxy: "beside m S N w \<Longrightarrow> pm_inv (w_prx w) \<and> CHR '':'' \<notin> set m"
  by (auto simp: beside_def at_view_def world_inv_def)

lemma SwapPorts_other:
  assumes "pm_inv p" and "CHR '':'' \<notin> set m" and "m \<noteq> n"
  shows "serving (snd (SwapPorts n ports p)) m = serving p m"
proof (cases "fst (SwapPorts n ports p)")
  case (Inl e)
  then show ?thesis using SwapPorts_fail by metis
next
  case (Inr u)
  then obtain i h where "map_of (pm_routes p) n = Some i"
      "snd (SwapPorts n ports p) = publishRouteGeneration i h p"
    by (auto simp: SwapPorts_def split: option.splits list.splits sum.splits prod.splits)
  with publish_serving [OF assms(1) _ assms(2)] assms(3) show ?thesis by (simp add: fun_eq_iff)
qed

lemma proxy_other:
  assumes "pm_inv p" and "CHR '':'' \<notin> set m" and "CHR '':'' \<notin> set n" and "m \<noteq> n"
  shows "serving (snd (RegisterPortsWithBind env n ports addr p)) m = serving p m"
    "serving (snd (SwapStatic n dir p)) m = serving p m"
    "serving (UnswapPorts n p) m = serving p m" "serving (RemovePorts n p) m = serving p m"
  using assms Register_inv_serving(2) [OF assms(1,3,2)] SwapStatic_other [OF assms(1,3,2)]
  by (simp_all add: fun_eq_iff px.unswap_serves px.remove_serves)

lemma prx_do_beside:
  assumes "beside m S N w" and "at_view v N (snd (prx_do E f w))"
    and "\<And>net. serving (snd (f net (w_prx w))) m = serving (w_prx w) m"
  shows "beside m S N (snd (prx_do E f w))"
  by (rule besideI [OF assms(1,2)]) (simp add: prx_do_def case_prod_beta held_def tick_def assms(3))

lemma prx_calls_beside [besides]:
  assumes "beside m S N w" and "m \<noteq> n" and "CHR '':'' \<notin> set n"
  shows "beside m S N (snd (prx_Register E n ports addr w))" "beside m S N (snd (prx_SwapPorts E n ports w))"
    "beside m S N (snd (prx_SwapStatic E n dir w))" "beside m S N (prx_UnswapPorts n w)"
    "beside m S N (prx_RemovePorts n w)"
proof -
  note view = beside_view [OF assms(1)]
  have p: "pm_inv (w_prx w)" "CHR '':'' \<notin> set m" using beside_proxy [OF assms(1)] by auto
  note other = proxy_other [OF p assms(3,2)] SwapPorts_other [OF p assms(2)]
  show "beside m S N (snd (prx_Register E n ports addr w))"
    using prx_Register_quiet [OF assms(3) view, of E ports addr] unfolding prx_Register_def
    by (rule prx_do_beside [OF assms(1)]) (rule other)
  show "beside m S N (snd (prx_SwapPorts E n ports w))"
    using st_swap.quiet [OF view, of E n ports] unfolding prx_SwapPorts_def
    by (rule prx_do_beside [OF assms(1)]) (rule other)
  show "beside m S N (snd (prx_SwapStatic E n dir w))"
    using st_swap_static.quiet [OF view, of E n dir] unfolding prx_SwapStatic_def
    by (rule prx_do_beside [OF assms(1)]) (rule other)
  show "beside m S N (prx_UnswapPorts n w)"
    using st_unswap.quiet [OF view, of n]
    by (rule besideI [OF assms(1)]) (simp add: prx_UnswapPorts_def held_def other)
  show "beside m S N (prx_RemovePorts n w)"
    using st_remove.quiet [OF view, of n]
    by (rule besideI [OF assms(1)]) (simp add: prx_RemovePorts_def held_def other)
qed


section \<open>Book-keeping\<close>

lemma beside_commands: "beside m S N w \<Longrightarrow> N c = Some n \<Longrightarrow> m \<noteq> n \<Longrightarrow> commands_of m (w_mgr w) c = None"
  by (auto simp: beside_def at_view_def cmd_names_def map_le_def dom_def commands_of_def split: option.split)

lemma books_beside [besides]:
  assumes "beside m S N w" and "m \<noteq> n"
  shows "beside m S N (watch_Stop n w)" "beside m S N (clear_attempts n w)"
    "beside m S N (w\<lparr>w_crashAttempts := AList.update n k (w_crashAttempts w)\<rparr>)"
    "\<forall>svc. so = Some svc \<longrightarrow> sv_name svc = n \<Longrightarrow> beside m S N (startWatcher E so w)"
    "beside m S N (write_receipt E so w)" "beside m S N (report_issue E i w)"
    "beside m S N (snd (load_config E path w))" "beside m S N (log_build path es w)"
    "beside m S N (truncate_build_log path w)"
proof -
  note view = beside_view [OF assms(1)]
  show "beside m S N (watch_Stop n w)" "beside m S N (clear_attempts n w)"
      "beside m S N (w\<lparr>w_crashAttempts := AList.update n k (w_crashAttempts w)\<rparr>)"
    using view assms(2)
    by (auto intro!: besideI [OF assms(1)] simp: held_def watch_Stop_def clear_attempts_def delete_conv' update_conv')
  show "beside m S N (startWatcher E so w)" if "\<forall>svc. so = Some svc \<longrightarrow> sv_name svc = n"
    using st_start_watcher.quiet [OF view, of E so] that assms(2)
    by (rule_tac besideI [OF assms(1)])
      (auto simp: startWatcher_def Let_def held_def watch_Stop_def delete_conv' update_conv' tick_def split: option.split)
qed (use assms(1) in \<open>simp_all add: write_receipt_def report_issue_def load_config_def log_build_def truncate_build_log_def\<close>)

lemma schedule_drain_beside [besides]:
  assumes "beside m S N w" and "m \<noteq> n" and "owned n old N"
  shows "beside m S N (schedule_drain old window w)"
proof (cases old)
  case (Some d)
  with assms(3) have "N (dt_cmd d) = Some n" by (simp add: owned_def)
  note none = beside_commands [OF assms(1) this assms(2)]
  show ?thesis
    using st_schedule.quiet [OF beside_view [OF assms(1)], of old window]
    by (rule besideI [OF assms(1)])
      (use none Some in \<open>auto simp: schedule_drain_def MarkDrainingProcess_def MarkDraining_def held_def
        split: option.split\<close>)
qed (simp add: schedule_drain_def assms(1))

lemma run_drain_beside [besides]:
  assumes "beside m S N w" and "ho_drains S = []"
  shows "beside m S N (run_drain E w)"
proof (cases "w_drains w")
  case (Cons d rest)
  obtain c pid window where d: "d = (c, pid, window)" by (metis prod.exhaust)
  have none: "commands_of m (w_mgr w) c = None" and drains: "held m (w\<lparr>w_drains := rest\<rparr>) = held m w"
    using assms Cons d by (auto simp: beside_def held_def split: if_splits)
  have w1: "beside m S N (w\<lparr>w_drains := rest\<rparr>)"
    using beside_view [OF assms(1)] drains by (intro besideI [OF assms(1), of "port_view w"]) simp_all
  have "at_view (port_view w) N (run_drain E w)"
    using beside_view [OF assms(1)] by simp
  then show ?thesis
    unfolding run_drain_def Cons d list.case prod.case
    by (rule mgr_do_beside [OF w1]) (simp add: drain_cmd_apart none)
qed (simp add: run_drain_def assms(1))

lemma reg_Get_beside:
  "beside m S N w \<Longrightarrow> reg_Get n w = Some s \<Longrightarrow> sv_name s = n \<and> svc_ok n s \<and> CHR '':'' \<notin> set n"
  using reg_Get_view(2) [OF beside_view] by blast

lemma reg_Register_beside [besides]:
  assumes "beside m S N w" and "m \<noteq> sv_name s" and "CHR '':'' \<notin> set (sv_name s)"
    and "length (sv_start_history s) \<le> 10" and "sv_stable_ports (NormalizePorts s) = sv_stable_ports s"
  shows "beside m S N (snd (reg_Register E s w))"
  using reg_Register_at [OF beside_view [OF assms(1)] assms(3-5), of E] unfolding reg_Register_def
  by (rule reg_do_beside [OF assms(1)])
    (simp add: other_record beside_reg_inv [OF assms(1)] assms(2))

lemma reg_Restore_beside [besides]:
  assumes "beside m S N w" and "m \<noteq> sv_name s" and "CHR '':'' \<notin> set (sv_name s)" and "svc_ok (sv_name s) s"
  shows "beside m S N (snd (reg_Restore E s w))"
  using reg_Restore_at [OF beside_view [OF assms(1)] assms(3,4), of E] unfolding reg_Restore_def
  by (rule reg_do_beside [OF assms(1)])
    (simp add: other_record beside_reg_inv [OF assms(1)] assms(2))

lemma reg_Remove_beside [besides]:
  assumes "beside m S N w" and "m \<noteq> n"
  shows "beside m S N (snd (reg_Remove E n w))"
  using reg_Remove_at [OF beside_view [OF assms(1)], of n E] unfolding reg_Remove_def
  by (rule reg_do_beside [OF assms(1)])
    (simp add: mutators_other beside_reg_inv [OF assms(1)] assms(2))

section \<open>Rolling back\<close>

lemma with_lifecycle_beside:
  "beside m S N w \<Longrightarrow> svc_ok n p \<Longrightarrow> svc_ok n (with_lifecycle w n p) \<and> sv_name (with_lifecycle w n p) = n"
  using with_lifecycle_ok [OF beside_view] by blast

lemma restore_routes_beside [besides]:
  assumes "beside m S N w" and "m \<noteq> n" and "CHR '':'' \<notin> set n"
  shows "beside m S N (restore_routes E n p w)"
  unfolding restore_routes_def by (rule on_res_beside_id) (simp_all add: besides assms)

lemma restoreFailedDeploy_beside [besides]:
  assumes "beside m S N w" and "m \<noteq> n" and "CHR '':'' \<notin> set n" and "owned n old N" and "prev_ok n previous"
  shows "beside m S N (restoreFailedDeploy E n previous old w)"
proof -
  define w1 where "w1 = (if old \<noteq> None then snd (mgr_Restore E n old w) else w)"
  have w1: "beside m S N w1" using assms by (simp add: w1_def besides)
  show ?thesis
    unfolding restoreFailedDeploy_def Let_def w1_def [symmetric]
    using w1 assms with_lifecycle_beside [OF w1, of n]
    by (cases previous) (simp_all add: besides prev_ok_def)
qed

lemma restorePrevious_beside [besides]:
  assumes "beside m S N w" and "m \<noteq> n" and "CHR '':'' \<notin> set n" and "owned n old N" and "prev_ok n previous"
  shows "beside m S N (restorePrevious E n previous old w)"
proof (cases previous)
  case None
  then show ?thesis using assms by (simp add: restorePrevious_def besides)
next
  case (Some p)
  with assms(5) have p: "svc_ok n (with_lifecycle w n p)" "sv_name (with_lifecycle w n p) = n"
    using with_lifecycle_beside [OF assms(1), of n p] by (simp_all add: prev_ok_def)
  show ?thesis
    unfolding restorePrevious_def Let_def Some option.case
    by (intro on_res_beside_id) (use assms p in \<open>auto simp: besides intro!: on_res_beside_id\<close>)
qed


section \<open>Allocation\<close>

lemma alloc_range_beside [besides]:
  "beside m S N w \<Longrightarrow> m \<noteq> n \<Longrightarrow> CHR '':'' \<notin> set n \<Longrightarrow>
   beside m S N (snd (alloc_range E n portName bindAddr used ps w))"
  by (induction ps arbitrary: w) (auto simp: besides intro!: on_res_beside_snd)

lemma allocateOnePort_beside [besides]:
  "beside m S N w \<Longrightarrow> m \<noteq> n \<Longrightarrow> CHR '':'' \<notin> set n \<Longrightarrow>
   beside m S N (snd (allocateOnePort E n portName pref used bindAddr w))"
  by (auto simp: allocateOnePort_def besides intro!: on_res_beside_snd)

lemma alloc_new_beside [besides]:
  "beside m S N w \<Longrightarrow> m \<noteq> n \<Longrightarrow> CHR '':'' \<notin> set n \<Longrightarrow>
   beside m S N (snd (alloc_new E n bindAddr used result preferred w))"
  by (induction E n bindAddr used result preferred w rule: alloc_new.induct)
    (auto simp: besides intro!: on_res_beside_snd)

lemma allocatePorts_beside [besides]:
  "beside m S N w \<Longrightarrow> m \<noteq> n \<Longrightarrow> CHR '':'' \<notin> set n \<Longrightarrow>
   beside m S N (snd (allocatePorts E n preferred bindAddr w))"
  by (auto simp: allocatePorts_def besides split: option.split)

section \<open>Deploy and restart\<close>

lemma promote_beside [besides]:
  assumes "beside m S N w" and "m \<noteq> n" and "CHR '':'' \<notin> set n" and "owned n old N" and "undisturbed E S"
    and "\<And>w. beside m S N w \<Longrightarrow> beside m S N (undo w)"
  shows "beside m S N (snd (promote E n ports deployed window old undo w))"
proof -
  have drain: "beside m S N (schedule_drain old window (clear_attempts n (reg_UpdateCrashState E n 0 False
      (reg_MarkRunning E n pid deployed w1))))" if "beside m S N w1" for w1 pid
    using that assms(2,4) by (intro schedule_drain_beside) (auto simp: besides)
  have activate: "beside m S N (snd (on_res (mgr_Activate E n (interfere E w1))
      (\<lambda>_ w3. (Inr (), schedule_drain old window (clear_attempts n (reg_UpdateCrashState E n 0 False
         (reg_MarkRunning E n pid deployed w3))))) (\<lambda>e w3. (Inl e, undo w3))))"
    if "beside m S N w1" for w1 pid
    by (rule on_res_beside_snd) (use that drain assms in \<open>simp_all add: besides\<close>)
  show ?thesis
    unfolding promote_def Let_def
    by (rule on_res_beside_snd) (use assms activate in \<open>simp_all add: besides\<close>)
qed

lemma mgr_Detach_beside:
  assumes "beside m S N w" and "mgr_Detach n w = (old, w0)" and "m \<noteq> n"
  shows "owned n old (cmd_names w)" "beside m S (cmd_names w) w0"
  using mgr_Detach_owned [of w n] mgr_only_beside(1) [OF beside_cmd_names [OF assms(1)] assms(3)] assms
  by (auto simp: beside_def at_view_def)

lemma deploy_static_beside:
  assumes "beside m S N w" and "m \<noteq> dr_Name req" and "CHR '':'' \<notin> set (dr_Name req)"
    and "sv_name svc = dr_Name req" and "prev_ok (dr_Name req) previous"
  shows "beside m S N (snd (deploy_static E req previous svc w))"
proof -
  have owned: "owned (dr_Name req) None N" by (simp add: owned_def)
  show ?thesis
    unfolding deploy_static_def Let_def assms(4)
    by (rule on_res_beside_snd)
      (use assms owned in \<open>auto simp: besides intro!: on_res_beside_snd\<close>)
qed

lemma deploy_binary_beside:
  assumes "beside m S N w" and "m \<noteq> dr_Name req" and "CHR '':'' \<notin> set (dr_Name req)"
    and "sv_name svc = dr_Name req" and "prev_ok (dr_Name req) previous" and "undisturbed E S"
  shows "beside m S N (snd (deploy_binary E req previous svc w))"
proof -
  obtain old w0 where d: "mgr_Detach (dr_Name req) w = (old, w0)" by fastforce
  note w0 = mgr_Detach_beside [OF assms(1) d assms(2)]
  have served: "\<forall>s. reg_Get (dr_Name req) w1 = Some s \<longrightarrow> sv_name s = dr_Name req"
    if "beside m S (cmd_names w) w1" for w1
    using reg_Get_beside [OF that] by blast
  have "beside m S (cmd_names w) (snd (deploy_binary E req previous svc w))"
    unfolding deploy_binary_def Let_def assms(4) d case_prod_conv
    by (intro on_res_beside_snd) (use w0 assms served in \<open>simp_all add: besides\<close>)
  then show ?thesis using assms(1) by (rule beside_weaken)
qed

lemma reg_Get_prev_beside: "beside m S N w \<Longrightarrow> prev_ok n (reg_Get n w)"
  using reg_Get_prev [OF beside_view] by blast

lemma deploy_registered_beside:
  assumes "beside m S N w" and "m \<noteq> dr_Name req" and "CHR '':'' \<notin> set (dr_Name req)"
    and "prev_ok (dr_Name req) previous" and "undisturbed E S"
  shows "beside m S N (snd (deploy_registered E req previous w))"
  using assms reg_Get_beside [OF assms(1), of "dr_Name req"]
  by (auto simp: deploy_registered_def deploy_static_beside deploy_binary_beside split: option.split)

lemma deploy_valid_beside:
  assumes "beside m S N w" and "m \<noteq> dr_Name req" and "CHR '':'' \<notin> set (dr_Name req)" and "undisturbed E S"
  shows "beside m S N (snd (deploy_valid E req w))"
  unfolding deploy_valid_def Let_def
  by (intro on_res_beside_snd)
    (use assms reg_Get_prev_beside [OF assms(1)] in \<open>simp_all add: besides deploy_registered_beside\<close>)

lemma gated_beside: "beside m S N w \<Longrightarrow> beside m S N (snd (f w)) \<Longrightarrow> beside m S N (snd (gated f w))"
  by (simp add: gated_def split: sum.split)

lemma Deploy_beside:
  "beside m S N w \<Longrightarrow> m \<noteq> dr_Name req \<Longrightarrow> undisturbed E S \<Longrightarrow> beside m S N (snd (Deploy E req w))"
  unfolding Deploy_def using ValidateServiceName_colon [of "dr_Name req"]
  by (intro gated_beside) (simp_all add: Let_def deploy_valid_beside split: sum.split)

lemma restartLocked_beside [besides]:
  assumes "beside m S N w" and "m \<noteq> n" and "undisturbed E S"
  shows "beside m S N (snd (restartLocked E n w))"
proof (cases "reg_Get n w")
  case (Some svc)
  from reg_Get_beside [OF assms(1) Some] have n: "CHR '':'' \<notin> set n" "sv_name svc = n" by auto
  obtain old w0 where d: "mgr_Detach n w = (old, w0)" by fastforce
  note w0 = mgr_Detach_beside [OF assms(1) d assms(2)]
  have prev: "prev_ok n (Some svc)" using reg_Get_prev_beside [OF assms(1), of n] Some by simp
  show ?thesis
  proof (cases "sv_type svc = TypeBinary")
    case True
    have "beside m S (cmd_names w) (snd (restartLocked E n w))"
      unfolding restartLocked_def Some option.case Let_def d case_prod_conv
      by (simp only: True simp_thms if_False, intro on_res_beside_snd)
        (use w0 n prev assms in \<open>simp_all add: besides\<close>)
    then show ?thesis using assms(1) by (rule beside_weaken)
  qed (simp add: restartLocked_def Some assms(1))
qed (simp add: restartLocked_def assms(1))

lemma ServiceRestart_beside [besides]:
  "beside m S N w \<Longrightarrow> m \<noteq> n \<Longrightarrow> undisturbed E S \<Longrightarrow> beside m S N (snd (ServiceRestart E n w))"
  unfolding ServiceRestart_def by (rule gated_beside) (simp_all add: besides split: sum.split)

section \<open>The other operations\<close>

lemma ServiceStop_beside:
  "beside m S N w \<Longrightarrow> m \<noteq> n \<Longrightarrow> beside m S N (snd (ServiceStop E n w))"
  unfolding ServiceStop_def using reg_Get_beside [of m S N w n]
  by (intro gated_beside) (auto simp: besides intro!: on_res_beside_snd split: option.split)

lemma rollback_registered_beside:
  assumes "beside m S N w" and "m \<noteq> n" and "CHR '':'' \<notin> set n" and "sv_name svc = n" and "undisturbed E S"
  shows "beside m S N (snd (rollback_registered E n svc w))"
  unfolding rollback_registered_def Let_def assms(4)
  by (intro on_res_beside_snd) (use assms in \<open>auto simp: besides intro!: on_res_beside_snd\<close>)

lemma Rollback_beside:
  assumes "beside m S N w" and "m \<noteq> n" and "undisturbed E S"
  shows "beside m S N (snd (Rollback E n w))"
  unfolding Rollback_def
proof (rule gated_beside [OF assms(1)])
  have step: "beside m S N (snd (case reg_Get n w1 of None \<Rightarrow> (Inl e, w1)
      | Some svc \<Rightarrow> rollback_registered E n svc w1))" if "beside m S N w1" for w1 e
    using that reg_Get_beside [OF that, of n] assms(2,3)
    by (auto simp: rollback_registered_beside split: option.split)
  show "beside m S N (snd (case reg_Get n w of
      None \<Rightarrow> (Inl (MissingServicef ''service %q not found'' [FStr n]), w)
    | Some current \<Rightarrow>
        (case sv_previous_deployment current of
           None \<Rightarrow> (Inl (InvalidConfigf ''service %q has no previous deployment'' [FStr n]), w)
         | Some prev \<Rightarrow>
             on_res (reg_Register E (rollback_service n current prev) w)
               (\<lambda>_ w1. case reg_Get n w1 of
                   None \<Rightarrow> (Inl (IOError ''unregistered''), w1)
                 | Some svc \<Rightarrow> rollback_registered E n svc w1)
               (\<lambda>e w1. (Inl e, w1)))))"
    using assms reg_Get_beside [OF assms(1), of n]
    by (auto simp: besides step intro!: on_res_beside_snd split: option.split)
qed

lemma ServiceRemove_beside:
  assumes "beside m S N w" and "m \<noteq> n" and "CHR '':'' \<notin> set n"
  shows "beside m S N (snd (ServiceRemove E n w))"
  unfolding ServiceRemove_def Let_def
  by (intro gated_beside on_res_beside_snd) (use assms in \<open>simp_all add: besides split: option.split\<close>)

lemma reserve_beside:
  assumes "beside m S N w" and "m \<noteq> n" and "CHR '':'' \<notin> set n"
  shows "beside m S N (snd (on_res (allocatePorts E n preferred addr w)
    (\<lambda>ps w1. (Inr (f ps), reserve_if_new E n ps w1)) (\<lambda>e w1. (Inl e, w1))))"
  by (intro on_res_beside_snd) (use assms in \<open>simp_all add: besides reserve_if_new_def\<close>)

lemma reservations_beside:
  assumes "beside m S N w" and "m \<noteq> n"
  shows "beside m S N (snd (ReservePorts E n preferred w))" "beside m S N (snd (Reserve E n port w))"
  unfolding ReservePorts_def Reserve_def
  using ValidateServiceName_colon [of n] assms reserve_beside [OF assms, where f = "\<lambda>x. x"]
    reserve_beside [OF assms, where f = "\<lambda>ps. case map_of ps ''default'' of Some p \<Rightarrow> p | None \<Rightarrow> 0"]
  by (auto intro!: gated_beside split: sum.split)

lemma archives_beside:
  assumes "beside m S N w" and "m \<noteq> n"
  shows "beside m S N (snd (ServiceArchive E n w))" "beside m S N (snd (ServiceRestoreArchived E n w))"
  unfolding ServiceArchive_def ServiceRestoreArchived_def
  using assms by (auto simp: besides intro!: gated_beside on_res_beside_snd split: option.split)

lemma Prune_beside:
  assumes "beside m S N w" and "m \<noteq> n"
  shows "beside m S N (snd (reg_do E (\<lambda>now dsk. Prune now dsk n) w))"
proof -
  have "reg_inv (w_reg w)" "names_ok (w_reg w)"
    using assms(1) by (auto simp: beside_def at_view_def world_inv_def)
  then have "\<exists>v. at_view v N (snd (reg_do E (\<lambda>now dsk. Prune now dsk n) w))"
    using beside_view [OF assms(1)] Prune_inv [of "w_reg w"] Prune_view [of "w_reg w"]
    by (auto simp: at_view_def reg_do_def case_prod_beta world_inv_def port_view_def)
  then show ?thesis
    using reg_do_beside [OF assms(1)] mutators_other(10) [OF beside_reg_inv [OF assms(1)] assms(2)]
    by blast
qed

lemma ServicePrune_beside:
  assumes "beside m S N w" and "m \<noteq> n"
  shows "beside m S N (snd (ServicePrune E n w))"
  unfolding ServicePrune_def using assms reg_Get_beside [OF assms(1), of n]
  by (auto simp: besides Prune_beside intro!: gated_beside on_res_beside_snd split: option.split)

section \<open>Crashes, watches and builds\<close>

lemma builds_beside [besides]:
  assumes "beside m S N w" and "m \<noteq> n" and "undisturbed E S"
  shows "beside m S N (snd (runWatchBuild E n trigger w))" "beside m S N (snd (BuildLog E n w))"
  using assms
  by (auto simp: runWatchBuild_def BuildLog_def Let_def besides intro!: on_res_beside_snd
      split: option.split sum.split)

lemma handleWatchTrigger_beside:
  "beside m S N w \<Longrightarrow> m \<noteq> n \<Longrightarrow> undisturbed E S \<Longrightarrow> beside m S N (snd (handleWatchTrigger E n trigger w))"
  by (auto simp: handleWatchTrigger_def besides intro!: on_res_beside_snd split: sum.split)

lemma handleCrash_beside:
  assumes "beside m S N w" and "m \<noteq> n" and "undisturbed E S"
  shows "beside m S N (snd (handleCrash E n w))"
  using assms reg_Get_beside [of m S N "w\<lparr>w_crashesTotal := Suc (w_crashesTotal w)\<rparr>" n]
  by (auto simp: handleCrash_def Let_def besides split: option.split)


section \<open>Runs\<close>

text \<open>The acts that are not about the service \<open>m\<close>. The startup restore, the start of all watchers and
  a teardown are about every service. \<open>Remove\<close> does not validate the name it is given; a name with a
  colon could be a prefix of the proxy keys of another service.\<close>

fun spares :: "string \<Rightarrow> service_act \<Rightarrow> bool" where
  "spares m (ActDeploy req) = (m \<noteq> dr_Name req)"
| "spares m (ActRestart name) = (m \<noteq> name)"
| "spares m (ActStop name) = (m \<noteq> name)"
| "spares m (ActRollback name) = (m \<noteq> name)"
| "spares m (ActRemove name) = (m \<noteq> name \<and> CHR '':'' \<notin> set name)"
| "spares m (ActTeardown repo) = False"
| "spares m (ActReserve name port) = (m \<noteq> name)"
| "spares m (ActReservePorts name ports) = (m \<noteq> name)"
| "spares m (ActArchive name) = (m \<noteq> name)"
| "spares m (ActRestoreArchived name) = (m \<noteq> name)"
| "spares m (ActPrune name) = (m \<noteq> name)"
| "spares m (ActWatch name trigger) = (m \<noteq> name)"
| "spares m (ActBuildLog name) = (m \<noteq> name)"
| "spares m ActStartWatchers = False"
| "spares m (ActRestoreAll order opts) = False"
| "spares m act = True"

text \<open>No crash and no drain of the service waits to be handled.\<close>

definition nothing_pending :: "string \<Rightarrow> world \<Rightarrow> bool" where
  "nothing_pending m w \<longleftrightarrow> m \<notin> set (w_crashq w)
     \<and> (\<forall>(c, rest) \<in> set (w_drains w). commands_of m (w_mgr w) c = None)"

lemma nothing_pending_held: "nothing_pending m w \<longleftrightarrow> ho_crashes (held m w) = 0 \<and> ho_drains (held m w) = []"
  by (auto simp: nothing_pending_def held_def filter_empty_conv count_list_0_iff)

lemma crash_queue_beside:
  assumes "beside m S N w" and "undisturbed E S" and "ho_crashes S = 0"
  shows "beside m S N (service_exec E ActCrash w)"
proof (cases "w_crashq w")
  case (Cons n rest)
  have n: "m \<noteq> n" and "held m (w\<lparr>w_crashq := rest\<rparr>) = held m w"
    using assms(1,3) Cons by (auto simp: beside_def held_def split: if_splits)
  then have "beside m S N (w\<lparr>w_crashq := rest\<rparr>)"
    using beside_view [OF assms(1)] by (intro besideI [OF assms(1), of "port_view w"]) simp_all
  then show ?thesis using Cons n assms(2) by (simp add: handleCrash_beside)
qed (simp add: assms(1))

lemma service_exec_beside:
  assumes "beside m S N w" and "undisturbed E S" and "ho_crashes S = 0" and "ho_drains S = []" and "spares m act"
  shows "beside m S N (service_exec E act w)"
proof (cases act)
  case ActCrash
  then show ?thesis using crash_queue_beside assms by simp
next
  case (ActBeginStartup n)
  then show ?thesis using assms(1) by (simp add: BeginStartup_def Let_def)
qed (use assms in \<open>simp_all add: Deploy_beside ServiceRestart_beside ServiceStop_beside Rollback_beside
      ServiceRemove_beside reservations_beside archives_beside ServicePrune_beside
      handleWatchTrigger_beside builds_beside run_drain_beside interfere_beside\<close>)

lemma service_run_beside:
  "beside m S N w \<Longrightarrow> undisturbed E S \<Longrightarrow> ho_crashes S = 0 \<Longrightarrow> ho_drains S = [] \<Longrightarrow> \<forall>act \<in> set acts. spares m act \<Longrightarrow>
   beside m S N (service_run E acts w)"
  by (induction acts arbitrary: w) (simp_all add: service_exec_beside)

section \<open>The property\<close>

text \<open>C3: Services are isolated. Whatever sequence of deploys, restarts, stops, rollbacks, removals,
  reservations, archivings, watch builds, crashes and drains of other services runs, whatever it is
  answered and whichever of their processes exit meanwhile, a service whose own processes keep
  running keeps its record, its tracked process, its commands, every handler the proxy serves for
  it, its watcher and its crash count.\<close>

theorem service_isolation:
  assumes "world_inv w" and "CHR '':'' \<notin> set m" and "nothing_pending m w" and "undisturbed E (held m w)"
    and "\<forall>act \<in> set acts. spares m act"
  shows "held m (service_run E acts w) = held m w"
proof -
  have "beside m (held m w) (cmd_names w) w"
    using assms(1,2) at_start by (auto simp: beside_def)
  from service_run_beside [OF this assms(4) _ _ assms(5)] assms(3) show ?thesis
    by (simp add: nothing_pending_held beside_def)
qed

definition web_request :: deploy_request where
  "web_request =
     \<lparr>dr_Name = ''web'', dr_Version = '''', dr_VersionPath = '''', dr_Type = TypeBinary,
      dr_Path = ''/bin/web'', dr_Args = [], dr_StablePort = 0, dr_StablePorts = [],
      dr_ProxyBindAddress = '''', dr_HealthCheckPort = '''', dr_EnvFile = '''', dr_HealthCheck = '''',
      dr_WatchPaths = [], dr_DrainWindow = 0, dr_HealthCheckTimeout = 0, dr_RestartPolicy = '''',
      dr_ConfigPath = ''''\<rparr>"

theorem service_isolation_witness:
  "held ''api'' (service_run demo_outside
      [ActDeploy web_request, ActRestart ''web'', ActStop ''web'', ActRemove ''web'', ActCrash, ActExits] demo_world)
   = held ''api'' demo_world"
  by (rule service_isolation [OF demo_world_inv])
    (simp_all add: nothing_pending_def undisturbed_def demo_outside_def web_request_def,
      simp_all add: demo_world_def fresh_world_def)

text \<open>The colon matters: \<^verbatim>\<open>Remove\<close> accepts any name, and the removal of a service that does not exist
  takes down a port of another one whose name starts the same way.\<close>

lemma remove_takes_other_port:
  assumes "ok (ensure_mutable w)"
  shows "serving (w_prx (snd (ServiceRemove E ''api:x'' w))) ''api'' ''x:y'' = None"
proof -
  have "serving (RemovePorts ''api:x'' p) ''api'' ''x:y'' = None" for p
    by (simp add: serving_def RemovePorts_def map_of_filter_key entryKey_def servicePrefix_def)
  then show ?thesis
    using assms by (auto simp: ServiceRemove_def gated_def Let_def ok_def on_res_def reg_Remove_def reg_do_def
        case_prod_beta prx_RemovePorts_def tick_def split: sum.split option.split)
qed

end
