(* ===== verification/Issues_Props.thy ===== *)
theory Issues_Props
  imports Issues "HOL-Library.Multiset"
begin

text \<open>
  What the issue store keeps. \<open>issues_inv\<close> is the invariant of its file: one issue per fingerprint,
  each made of normal occurrences of that fingerprint, with every derived field derived from
  them and a known state. \<open>occs_of\<close> is the abstract specification: the list of occurrences per
  fingerprint.
\<close>

section \<open>Normal occurrences\<close>

definition normal_occ :: "occurrence \<Rightarrow> bool" where
  "normal_occ oc \<longleftrightarrow> oc_ID oc \<noteq> '''' \<and> oc_Timestamp oc \<noteq> 0 \<and> oc_Severity oc \<noteq> ''''
     \<and> trim_space (oc_Source oc) = oc_Source oc \<and> trim_space (oc_Tool oc) = oc_Tool oc
     \<and> trim_space (oc_Input oc) = oc_Input oc \<and> trim_space (oc_Error oc) = oc_Error oc
     \<and> trim_space (oc_Context oc) = oc_Context oc \<and> trim_space (oc_RepoPath oc) = oc_RepoPath oc"

lemma base36_nonempty [simp]: "base36 n \<noteq> []"
  by (simp add: base36.simps [of n])

text \<open>The clock never shows Go's zero time.\<close>

definition clock_ok :: "issue_env \<Rightarrow> bool" where
  "clock_ok E \<longleftrightarrow> (\<forall>t. ie_clock E t \<noteq> 0)"

lemma normalizeOccurrence_normal: "clock_ok E \<Longrightarrow> normal_occ (fst (normalizeOccurrence E oc st))"
  by (auto simp: normalizeOccurrence_def issue_now_def newGeneratedID_def normal_occ_def clock_ok_def Let_def)

lemma normalizeOccurrence_id:
  "normal_occ oc \<Longrightarrow> normalizeOccurrence E oc st = (oc, st\<lparr>id_tick := Suc (id_tick st)\<rparr>)"
  by (cases oc) (simp add: normalizeOccurrence_def issue_now_def normal_occ_def)

lemma normalize_all_id:
  "\<forall>oc \<in> set occs. normal_occ oc \<Longrightarrow> fst (normalize_all E occs st) = occs"
  by (induction occs arbitrary: st) (auto simp: normalizeOccurrence_id split: prod.split, metis fst_conv)

section \<open>The latest occurrence\<close>

lemma foldl_later: "foldl later a occs \<in> set (a # occs)"
proof (induction occs arbitrary: a)
  case (Cons oc occs)
  from Cons [of "later a oc"] show ?case by (auto simp: later_def)
qed simp

lemma foldl_later_max: "oc \<in> set (a # occs) \<Longrightarrow> oc_Timestamp oc \<le> oc_Timestamp (foldl later a occs)"
proof (induction occs arbitrary: a oc)
  case (Cons o1 occs)
  have "oc_Timestamp a \<le> oc_Timestamp (later a o1)" "oc_Timestamp o1 \<le> oc_Timestamp (later a o1)"
    by (auto simp: later_def)
  moreover have "oc_Timestamp (later a o1) \<le> oc_Timestamp (foldl later (later a o1) occs)"
    using Cons.IH [of "later a o1" "later a o1"] by simp
  ultimately show ?case using Cons.IH [of oc "later a o1"] Cons.prems by fastforce
qed simp

lemma foldl_earlier: "foldl earlier t occs \<le> t \<and> (\<forall>oc \<in> set occs. foldl earlier t occs \<le> oc_Timestamp oc)"
proof (induction occs arbitrary: t)
  case (Cons oc occs)
  have "earlier t oc \<le> t" "earlier t oc \<le> oc_Timestamp oc" by (auto simp: earlier_def)
  with Cons [of "earlier t oc"] show ?case by auto
qed simp

lemma latest_in: "occs \<noteq> [] \<Longrightarrow> latest occs \<in> set occs"
  using foldl_later [of "hd occs" "tl occs"] by (simp add: latest_def)

lemma latest_single [simp]: "latest [oc] = oc"
  by (simp add: latest_def)

lemma latest_max: "oc \<in> set occs \<Longrightarrow> oc_Timestamp oc \<le> oc_Timestamp (latest occs)"
  using foldl_later_max [of oc "hd occs" "tl occs"] by (cases occs) (simp_all add: latest_def)

lemma first_seen_min: "oc \<in> set occs \<Longrightarrow> first_seen occs \<le> oc_Timestamp oc"
  using foldl_earlier [of "oc_Timestamp (hd occs)" "tl occs"] by (cases occs) (auto simp: first_seen_def)

section \<open>The invariant\<close>

definition known_state :: "issue_state \<Rightarrow> bool" where
  "known_state st \<longleftrightarrow> st \<in> {StateActive, StateAcknowledged, StateResolved}"

text \<open>Nothing of an issue but its lifecycle is independent of its occurrences.\<close>

definition issue_ok :: "issue_env \<Rightarrow> issue \<Rightarrow> bool" where
  "issue_ok E i \<longleftrightarrow> is_Occurrences i \<noteq> [] \<and> is_ID i \<noteq> '''' \<and> known_state (is_State i)
     \<and> (\<forall>oc \<in> set (is_Occurrences i). normal_occ oc \<and> fingerprint E oc = is_Fingerprint i)
     \<and> i = carry i (build_issue E (is_ID i) (is_Occurrences i))"

definition issues_inv :: "issue_env \<Rightarrow> issue list \<Rightarrow> bool" where
  "issues_inv E is \<longleftrightarrow> distinct (map is_Fingerprint is) \<and> (\<forall>i \<in> set is. issue_ok E i)"

lemma carry_fields [simp]:
  "is_ID (carry p i) = is_ID i" "is_Occurrences (carry p i) = is_Occurrences i"
  "is_Fingerprint (carry p i) = is_Fingerprint i" "is_LastSeen (carry p i) = is_LastSeen i"
  "is_State (carry p i) = (if is_State p = StateNone then StateActive else is_State p)"
  by (simp_all add: carry_def)

lemma build_fields [simp]:
  "is_ID (build_issue E ID occs) = (if ID = '''' then oc_ID (hd occs) else ID)"
  "is_Occurrences (build_issue E ID occs) = occs" "is_State (build_issue E ID occs) = StateActive"
  "is_Fingerprint (build_issue E ID occs) = fingerprint E (latest occs)"
  "is_LastSeen (build_issue E ID occs) = oc_Timestamp (latest occs)"
  by (simp_all add: build_issue_def Let_def fingerprint_def)

lemma carry_carry [simp]: "carry (carry p i) j = carry p j"
  by (simp add: carry_def)

lemma carry_same_lifecycle:
  "is_State i = is_State j \<Longrightarrow> is_AcknowledgedAt i = is_AcknowledgedAt j \<Longrightarrow>
   is_AcknowledgedBy i = is_AcknowledgedBy j \<Longrightarrow> is_ResolvedAt i = is_ResolvedAt j \<Longrightarrow>
   is_ResolvedBy i = is_ResolvedBy j \<Longrightarrow> is_TrackerURL i = is_TrackerURL j \<Longrightarrow>
   is_History i = is_History j \<Longrightarrow> carry i b = carry j b"
  by (simp add: carry_def)

text \<open>The lifecycle of an issue may be changed freely.\<close>

definition with_lifecycle_of :: "issue \<Rightarrow> issue \<Rightarrow> bool" where
  "with_lifecycle_of i j \<longleftrightarrow> known_state (is_State j) \<and> j = carry j i"

lemma issue_ok_lifecycle:
  assumes "issue_ok E i" and "with_lifecycle_of i j"
  shows "issue_ok E j \<and> is_ID j = is_ID i \<and> is_Fingerprint j = is_Fingerprint i
    \<and> is_Occurrences j = is_Occurrences i \<and> is_LastSeen j = is_LastSeen i"
proof -
  from assms(2) have j: "j = carry j i" and st: "known_state (is_State j)"
    by (simp_all add: with_lifecycle_of_def)
  have same: "is_ID j = is_ID i" "is_Fingerprint j = is_Fingerprint i" "is_Occurrences j = is_Occurrences i"
      "is_LastSeen j = is_LastSeen i"
    by (subst j, simp)+
  from assms(1) have i: "i = carry i (build_issue E (is_ID i) (is_Occurrences i))" by (simp add: issue_ok_def)
  have "carry j (carry i b) = carry j b" for b by (simp add: carry_def)
  with i j have "j = carry j (build_issue E (is_ID i) (is_Occurrences i))" by metis
  with assms(1) st same show ?thesis by (simp add: issue_ok_def)
qed

section \<open>Merging an occurrence\<close>

lemma rebuild_normal:
  assumes "occs \<noteq> []" and "\<forall>oc \<in> set occs. normal_occ oc"
  shows "fst (rebuildIssue E ID occs st) = build_issue E ID occs"
  using normalize_all_id [OF assms(2), of E st] assms(1)
  by (auto simp: rebuildIssue_def split: prod.split)

lemma build_ok:
  assumes "occs \<noteq> []" and "\<forall>oc \<in> set occs. normal_occ oc \<and> fingerprint E oc = fp"
    and "ID \<noteq> ''''" and "known_state (is_State p)"
  shows "issue_ok E (carry p (build_issue E ID occs))" "is_Fingerprint (build_issue E ID occs) = fp"
proof -
  show fp: "is_Fingerprint (build_issue E ID occs) = fp" using latest_in [OF assms(1)] assms(2) by simp
  then show "issue_ok E (carry p (build_issue E ID occs))"
    using assms by (auto simp: issue_ok_def known_state_def)
qed

lemma merged_issue:
  assumes "issue_ok E previous" and "normal_occ oc" and "is_Fingerprint previous = fingerprint E oc"
  shows "issue_ok E (carry previous (fst (rebuildIssue E (is_ID previous) (is_Occurrences previous @ [oc]) st)))
    \<and> fst (rebuildIssue E (is_ID previous) (is_Occurrences previous @ [oc]) st)
      = build_issue E (is_ID previous) (is_Occurrences previous @ [oc])
    \<and> is_Fingerprint (build_issue E (is_ID previous) (is_Occurrences previous @ [oc])) = fingerprint E oc"
  using assms rebuild_normal [of "is_Occurrences previous @ [oc]" E "is_ID previous" st]
    build_ok [of "is_Occurrences previous @ [oc]" E "fingerprint E oc" "is_ID previous" previous]
  by (auto simp: issue_ok_def)

lemma reopen_lifecycle: "with_lifecycle_of i (reopen now i)"
  by (simp add: with_lifecycle_of_def reopen_def carry_def known_state_def)

text \<open>The abstract view of a list of issues: a map from fingerprints.\<close>

fun issue_at :: "issue list \<Rightarrow> string \<Rightarrow> issue option" where
  "issue_at [] fp = None"
| "issue_at (i # is) fp = (if is_Fingerprint i = fp then Some i else issue_at is fp)"

definition occs_of :: "issue list \<Rightarrow> string \<Rightarrow> occurrence list" where
  "occs_of is fp = (case issue_at is fp of None \<Rightarrow> [] | Some i \<Rightarrow> is_Occurrences i)"

definition life_of :: "issue list \<Rightarrow> string \<Rightarrow> issue_state option" where
  "life_of is fp = map_option is_State (issue_at is fp)"

lemma issue_at_not_in: "fp \<notin> is_Fingerprint ` set is \<Longrightarrow> issue_at is fp = None"
  by (induction "is") auto

lemma issue_at_iff:
  "distinct (map is_Fingerprint is) \<Longrightarrow> i \<in> set is \<Longrightarrow> issue_at is (is_Fingerprint i) = Some i"
  by (induction "is") auto

definition life_after_report :: "issue_state option \<Rightarrow> issue_state" where
  "life_after_report st =
     (case st of None \<Rightarrow> StateActive | Some StateResolved \<Rightarrow> StateActive | Some st \<Rightarrow> st)"

lemma known_life_after: "known_state st \<Longrightarrow> st \<noteq> StateResolved \<Longrightarrow> life_after_report (Some st) = st"
  by (auto simp: life_after_report_def known_state_def)

definition absorbs :: "issue_env \<Rightarrow> occurrence \<Rightarrow> issue list \<Rightarrow> issue list \<Rightarrow> bool" where
  "absorbs E oc is is' \<longleftrightarrow> issues_inv E is'
     \<and> (\<exists>j. issue_at is' = (issue_at is)(fingerprint E oc \<mapsto> j)
            \<and> is_Occurrences j = occs_of is (fingerprint E oc) @ [oc]
            \<and> is_State j = life_after_report (life_of is (fingerprint E oc)))"

lemma merge_into_absorbs:
  assumes "issues_inv E is" and "normal_occ oc"
  shows "absorbs E oc is (fst (merge_into E oc is st))
    \<and> is_Fingerprint ` set (fst (merge_into E oc is st)) = insert (fingerprint E oc) (is_Fingerprint ` set is)"
  using assms
proof (induction E oc "is" st rule: merge_into.induct)
  case (1 E oc st)
  let ?i = "build_issue E (oc_ID oc) [oc]"
  have same: "carry ?i ?i = ?i" by (simp add: carry_def)
  have "oc_ID oc \<noteq> ''''" using "1.prems"(2) by (simp add: normal_occ_def)
  then have "issue_ok E (carry ?i ?i)" "is_Fingerprint ?i = fingerprint E oc"
    using "1.prems"(2) by (auto intro!: build_ok(1) [where fp = "fingerprint E oc"] simp: known_state_def)
  with same have "issue_ok E ?i" "is_Fingerprint ?i = fingerprint E oc" by simp_all
  then show ?case
    using rebuild_normal [of "[oc]" E "oc_ID oc" st] "1.prems"(2)
    by (auto simp: absorbs_def issues_inv_def fun_eq_iff occs_of_def life_of_def life_after_report_def split: prod.split)
next
  case (2 E oc previous issues st)
  show ?case
  proof (cases "is_Fingerprint previous = fingerprint E oc")
    case False
    obtain "is" st1 where m: "merge_into E oc issues st = (is, st1)" by fastforce
    from "2.prems"(1) have inv: "issues_inv E issues" "issue_ok E previous"
        "is_Fingerprint previous \<notin> is_Fingerprint ` set issues"
      by (auto simp: issues_inv_def)
    have view: "occs_of (previous # issues) (fingerprint E oc) = occs_of issues (fingerprint E oc)"
        "life_of (previous # issues) (fingerprint E oc) = life_of issues (fingerprint E oc)"
      using False by (simp_all add: occs_of_def life_of_def)
    from "2.IH" [OF False inv(1) "2.prems"(2)] m inv(2,3) False show ?thesis
      by (auto simp: absorbs_def issues_inv_def fun_eq_iff view)
  next
    case True
    let ?occs = "is_Occurrences previous @ [oc]"
    let ?b = "build_issue E (is_ID previous) ?occs"
    obtain i st1 where r: "rebuildIssue E (is_ID previous) ?occs st = (i, st1)" by fastforce
    from "2.prems"(1) have prev: "issue_ok E previous" and rest: "issues_inv E issues"
        "is_Fingerprint previous \<notin> is_Fingerprint ` set issues"
      by (auto simp: issues_inv_def)
    from merged_issue [OF prev "2.prems"(2) True, of st] r
    have i: "i = ?b" "issue_ok E (carry previous ?b)" "is_Fingerprint ?b = fingerprint E oc" by auto
    let ?j = "\<lambda>now. if is_State previous = StateResolved then reopen now (carry previous ?b) else carry previous ?b"
    have "\<exists>now. fst (merge_into E oc (previous # issues) st) = ?j now # issues"
      using True r i(1) by (auto split: prod.split)
    moreover have "issue_ok E (?j now) \<and> is_Fingerprint (?j now) = fingerprint E oc \<and> is_Occurrences (?j now) = ?occs" for now
      using issue_ok_lifecycle [OF i(2) reopen_lifecycle, of now] i(2,3) by simp
    moreover have "is_State (?j now) = life_after_report (Some (is_State previous))" for now
      using prev by (auto simp: reopen_def life_after_report_def issue_ok_def known_state_def)
    ultimately obtain j where m: "fst (merge_into E oc (previous # issues) st) = j # issues"
      and "issue_ok E j" "is_Fingerprint j = fingerprint E oc" "is_Occurrences j = ?occs"
        "is_State j = life_after_report (Some (is_State previous))" by metis
    with rest True show ?thesis
      unfolding m by (auto simp: absorbs_def issues_inv_def fun_eq_iff occs_of_def life_of_def)
  qed
qed

section \<open>Loading what was saved\<close>

lemma normalize_issue_ok: "issue_ok E i \<Longrightarrow> fst (normalize_issue E i st) = i"
  using normalize_all_id [of "is_Occurrences i" E st] rebuild_normal [of "is_Occurrences i" E "is_ID i"]
  by (auto simp: normalize_issue_def issue_ok_def split: prod.split) (metis fst_conv)

lemma normalize_issues_ok: "\<forall>i \<in> set is. issue_ok E i \<Longrightarrow> fst (normalize_issues E is st) = is"
proof (induction "is" arbitrary: st)
  case (Cons i "is")
  obtain i1 st1 where n: "normalize_issue E i st = (i1, st1)" by fastforce
  obtain is1 st2 where ns: "normalize_issues E is st1 = (is1, st2)" by fastforce
  from normalize_issue_ok [of E i st] Cons.IH [of st1] Cons.prems n ns show ?case by simp
qed simp

lemma sortIssues_simps [simp]:
  "set (sortIssues is) = set is" "sortIssues (sortIssues is) = sortIssues is"
  "distinct (map is_Fingerprint (sortIssues is)) = distinct (map is_Fingerprint is)"
proof -
  have "mset (map is_Fingerprint (sortIssues is)) = mset (map is_Fingerprint is)"
    by (simp only: sortIssues_def mset_map mset_sort)
  then show "distinct (map is_Fingerprint (sortIssues is)) = distinct (map is_Fingerprint is)"
    by (metis mset_eq_imp_distinct_iff)
  show "sortIssues (sortIssues is) = sortIssues is"
    unfolding sortIssues_def by (rule sort_key_id_if_sorted) (rule sorted_sort_key)
qed (simp add: sortIssues_def)

lemma issues_inv_sort [simp]: "issues_inv E (sortIssues is) = issues_inv E is"
  by (simp add: issues_inv_def)

lemma issue_at_sort: "issues_inv E is \<Longrightarrow> issue_at (sortIssues is) = issue_at is"
proof
  fix fp
  assume inv: "issues_inv E is"
  show "issue_at (sortIssues is) fp = issue_at is fp"
  proof (cases "fp \<in> is_Fingerprint ` set is")
    case True
    then obtain i where "i \<in> set is" "fp = is_Fingerprint i" by auto
    with inv show ?thesis by (simp add: issue_at_iff issues_inv_def)
  next
    case False
    then show ?thesis by (simp add: issue_at_not_in)
  qed
qed

text \<open>The file as this program leaves it.\<close>

definition stored :: "issue_store \<Rightarrow> issue list" where
  "stored s = (case st_file s of StoreJson f \<Rightarrow> sf_Issues f | _ \<Rightarrow> [])"

definition store_ok :: "issue_env \<Rightarrow> issue_store \<Rightarrow> bool" where
  "store_ok E s \<longleftrightarrow>
     (case st_file s of
        NoFile \<Rightarrow> True
      | BlankFile \<Rightarrow> True
      | StoreJson f \<Rightarrow> sf_Version f = currentStoreVersion \<and> issues_inv E (sf_Issues f)
                      \<and> sortIssues (sf_Issues f) = sf_Issues f
      | _ \<Rightarrow> False)"

lemma store_ok_issues: "store_ok E s \<Longrightarrow> issues_inv E (stored s)"
  by (auto simp: store_ok_def stored_def issues_inv_def split: issues_file.splits)

lemma store_ok_sorted: "store_ok E s \<Longrightarrow> sortIssues (stored s) = stored s"
  by (auto simp: store_ok_def stored_def sortIssues_def split: issues_file.splits)

lemma load_stored:
  assumes "store_ok E s"
  shows "\<exists>ids. loadLocked E s = (Inr \<lparr>sf_Version = currentStoreVersion, sf_Issues = stored s\<rparr>, s\<lparr>st_ids := ids\<rparr>)"
proof (cases "st_file s")
  case (StoreJson f)
  with assms have f: "sf_Version f = currentStoreVersion" "issues_inv E (sf_Issues f)"
      "sortIssues (sf_Issues f) = sf_Issues f" by (simp_all add: store_ok_def)
  obtain "is" ids where n: "normalize_issues E (sf_Issues f) (st_ids s) = (is, ids)" by fastforce
  with normalize_issues_ok [of "sf_Issues f" E "st_ids s"] f(2) have "is = sf_Issues f"
    by (simp add: issues_inv_def)
  with n f StoreJson show ?thesis
    by (auto simp: loadLocked_def decodeStoreFile_def normalizeStoreFile_def newStoreFile_def stored_def
        currentStoreVersion_def Let_def)
qed (use assms in \<open>auto simp: store_ok_def loadLocked_def decodeStoreFile_def newStoreFile_def stored_def
      intro: exI [of _ "st_ids s"]\<close>)

lemma save_stored:
  assumes "saveLocked D \<lparr>sf_Version = currentStoreVersion, sf_Issues = is\<rparr> s = (r, s')"
    and "issues_inv E is" and "store_ok E s"
  shows "store_ok E s' \<and> stored s' = (if ok r then sortIssues is else stored s)"
  using assms
  by (auto simp: saveLocked_def Let_def store_ok_def stored_def split: option.splits)

section \<open>Changing an issue\<close>

lemma update_issue_InrD:
  "update_issue ID change is = Inr (n, is') \<Longrightarrow>
   \<exists>i'. n < length is \<and> is_ID (is ! n) = ID \<and> change (is ! n) = Inr i' \<and> is' = is[n := i']"
  by (induction "is" arbitrary: n is') (auto split: if_splits sum.splits)

text \<open>A change of the lifecycle that keeps the rest.\<close>

definition lifecycle_only :: "(int \<Rightarrow> issue \<Rightarrow> err + issue) \<Rightarrow> bool" where
  "lifecycle_only change \<longleftrightarrow> (\<forall>now i j. known_state (is_State i) \<longrightarrow> change now i = Inr j \<longrightarrow> with_lifecycle_of i j)"

lemma resolve_lifecycle: "lifecycle_only (resolve_change ID actor url)"
  by (auto simp: lifecycle_only_def resolve_change_def with_lifecycle_of_def carry_def known_state_def
      split: if_splits)

lemma transition_lifecycle: "known_state st \<Longrightarrow> lifecycle_only (transition_change ID st actor note)"
  by (auto simp: lifecycle_only_def transition_change_def with_lifecycle_of_def carry_def known_state_def
      Let_def split: if_splits)

lemma issues_inv_update:
  assumes "issues_inv E is" and "n < length is" and "with_lifecycle_of (is ! n) j"
  shows "issues_inv E (is[n := j])" "issue_at (is[n := j]) = (issue_at is)(is_Fingerprint (is ! n) \<mapsto> j)"
    "sortIssues is = is \<Longrightarrow> sortIssues (is[n := j]) = is[n := j]"
proof -
  from assms have ok: "issue_ok E (is ! n)" by (simp add: issues_inv_def)
  from issue_ok_lifecycle [OF ok assms(3)] have j: "issue_ok E j" "is_ID j = is_ID (is ! n)"
      "is_Fingerprint j = is_Fingerprint (is ! n)" "is_Occurrences j = is_Occurrences (is ! n)"
      "is_LastSeen j = is_LastSeen (is ! n)" by simp_all
  have fps: "map is_Fingerprint (is[n := j]) = map is_Fingerprint is"
    using j(3) assms(2) by (simp add: map_update list_update_same_conv)
  moreover
  have "\<forall>i \<in> set (is[n := j]). issue_ok E i"
    using set_update_subset_insert [of "is" n j] j(1) assms(1) unfolding issues_inv_def by blast
  ultimately show "issues_inv E (is[n := j])"
    using assms(1) unfolding issues_inv_def by (simp only: simp_thms)
  have "issue_at (xs[k := j]) fp = (if fp = is_Fingerprint j then Some j else issue_at xs fp)"
    if "k < length xs" "is_Fingerprint (xs ! k) = is_Fingerprint j" "distinct (map is_Fingerprint xs)" for xs k fp
    using that by (induction xs arbitrary: k) (auto split: nat.split, metis imageI nth_mem)
  with assms j(3) show "issue_at (is[n := j]) = (issue_at is)(is_Fingerprint (is ! n) \<mapsto> j)"
    by (auto simp: fun_eq_iff issues_inv_def)
  let ?key = "\<lambda>i. (is_LastSeen i, is_ID i)"
  have keys: "map ?key (is[n := j]) = map ?key is"
    using j(2,5) assms(2) by (simp add: map_update list_update_same_conv)
  assume "sortIssues is = is"
  then have "sorted (map ?key is)"
    using sorted_sort_key [of ?key "is"] by (simp only: sortIssues_def)
  then have "sorted (map ?key (is[n := j]))" by (simp only: keys)
  then show "sortIssues (is[n := j]) = is[n := j]"
    unfolding sortIssues_def by (rule sort_key_id_if_sorted)
qed

lemma change_issue_ok:
  assumes "change_issue E D ID change s = (r, s')" and "store_ok E s" and "lifecycle_only change"
  shows "store_ok E s' \<and> (\<forall>e. r = Inl e \<longrightarrow> st_file s' = st_file s)
    \<and> (\<forall>j. r = Inr j \<longrightarrow> (\<exists>n now. n < length (stored s) \<and> is_ID (stored s ! n) = ID
          \<and> change now (stored s ! n) = Inr j \<and> with_lifecycle_of (stored s ! n) j
          \<and> stored s' = (stored s)[n := j]))"
proof -
  let ?f = "\<lambda>is. \<lparr>sf_Version = currentStoreVersion, sf_Issues = is\<rparr>"
  obtain ids where l: "loadLocked E s = (Inr (?f (stored s)), s\<lparr>st_ids := ids\<rparr>)"
    using load_stored [OF assms(2)] by blast
  obtain now ids' where t: "issue_now E ids = (now, ids')" by fastforce
  have ok: "store_ok E (s\<lparr>st_ids := i\<rparr>) = store_ok E s" "stored (s\<lparr>st_ids := i\<rparr>) = stored s" for i
    by (simp_all add: store_ok_def stored_def)
  show ?thesis
  proof (cases "update_issue ID (change now) (stored s)")
    case (Inl e)
    with assms(1) l t have "r = Inl e" "s' = s\<lparr>st_ids := ids\<rparr>" by (auto simp: change_issue_def)
    with assms(2) ok show ?thesis by simp
  next
    case (Inr p)
    obtain n "is'" where p: "p = (n, is')" by fastforce
    with Inr update_issue_InrD obtain j where u: "n < length (stored s)" "is_ID (stored s ! n) = ID"
        "change now (stored s ! n) = Inr j" "is' = (stored s)[n := j]" by blast
    from store_ok_issues [OF assms(2)] u(1) have "known_state (is_State (stored s ! n))"
      by (simp add: issues_inv_def issue_ok_def)
    with assms(3) u(3) have lc: "with_lifecycle_of (stored s ! n) j" by (auto simp: lifecycle_only_def)
    note upd = issues_inv_update [OF store_ok_issues [OF assms(2)] u(1) lc]
    from upd(3) [OF store_ok_sorted [OF assms(2)]] u(4) have srt: "sortIssues is' = is'" by simp
    obtain x s1 where sv: "saveLocked D (?f is') (s\<lparr>st_ids := ids'\<rparr>) = (x, s1)" by fastforce
    from save_stored [OF this] upd(1) u(4) assms(2) ok srt
    have s1: "store_ok E s1" "stored s1 = (if ok x then is' else stored s)" by simp_all
    have kept: "\<not> ok x \<Longrightarrow> st_file s1 = st_file s" using sv by (auto simp: saveLocked_def split: option.splits)
    have rs: "(r, s') = on_res (x, s1) (\<lambda>_ s2. (Inr (is' ! n), s2)) (\<lambda>e s2. (Inl e, s2))"
      using assms(1) l t Inr p sv srt by (simp add: change_issue_def)
    show ?thesis
    proof (cases x)
      case Inl: (Inl e)
      with rs s1 kept show ?thesis by simp
    next
      case Inr: (Inr y)
      with rs s1 u lc show ?thesis by auto
    qed
  qed
qed

lemma append_ok:
  assumes "IssueAppend E D iss s = (r, s')" and "store_ok E s" and "clock_ok E"
  shows "store_ok E s' \<and> (\<forall>e. r = Inl e \<longrightarrow> st_file s' = st_file s)
    \<and> (ok r \<longrightarrow> (\<exists>st. absorbs E (fst (normalizeOccurrence E (issueToOccurrence iss) st)) (stored s) (stored s')))"
proof -
  let ?f = "\<lambda>is. \<lparr>sf_Version = currentStoreVersion, sf_Issues = is\<rparr>"
  obtain ids where l: "loadLocked E s = (Inr (?f (stored s)), s\<lparr>st_ids := ids\<rparr>)"
    using load_stored [OF assms(2)] by blast
  obtain oc ids1 where n: "normalizeOccurrence E (issueToOccurrence iss) ids = (oc, ids1)" by fastforce
  obtain "is" ids2 where m: "merge_into E oc (stored s) ids1 = (is, ids2)" by fastforce
  from n normalizeOccurrence_normal [OF assms(3), of "issueToOccurrence iss" ids] have "normal_occ oc" by simp
  from merge_into_absorbs [OF store_ok_issues [OF assms(2)] this, of ids1] m
  have abs: "absorbs E oc (stored s) is" by simp
  then have inv: "issues_inv E is" by (simp add: absorbs_def)
  have ok: "store_ok E (s\<lparr>st_ids := i\<rparr>) = store_ok E s" "stored (s\<lparr>st_ids := i\<rparr>) = stored s" for i
    by (simp_all add: store_ok_def stored_def)
  have sv: "saveLocked D (?f is) (s\<lparr>st_ids := ids2\<rparr>) = (r, s')"
    using assms(1) l n m by (simp add: IssueAppend_def mergeOccurrence_def)
  then have kept: "\<not> ok r \<Longrightarrow> st_file s' = st_file s" by (auto simp: saveLocked_def split: option.splits)
  from save_stored [OF sv inv] assms(2) ok
  have s': "store_ok E s'" "stored s' = (if ok r then sortIssues is else stored s)" by simp_all
  have "absorbs E oc (stored s) (sortIssues is)"
    using abs inv by (simp add: absorbs_def issue_at_sort)
  with s' kept n show ?thesis by (cases r) (auto intro: exI [of _ ids])
qed

section \<open>Operations\<close>

datatype issue_op =
    OpAppend issue
  | OpAcknowledge string string
  | OpResolve string string string
  | OpReopen string string
  | OpClear

text \<open>An operation with the disk's answer: whether it succeeded, and the store.\<close>

fun issue_exec :: "issue_env \<Rightarrow> issue_disk \<Rightarrow> issue_op \<Rightarrow> issue_store \<Rightarrow> bool \<times> issue_store" where
  "issue_exec E D (OpAppend iss) s = map_prod ok id (IssueAppend E D iss s)"
| "issue_exec E D (OpAcknowledge ID actor) s = map_prod ok id (IssueAcknowledge E D ID actor s)"
| "issue_exec E D (OpResolve ID actor url) s = map_prod ok id (IssueResolve E D ID actor url s)"
| "issue_exec E D (OpReopen ID actor) s = map_prod ok id (IssueReopen E D ID actor s)"
| "issue_exec E D OpClear s = map_prod ok id (IssueClear D s)"

text \<open>The abstract machine: a successful report is filed under its fingerprint, clearing empties
  everything, nothing else touches the occurrences.\<close>

definition reported :: "issue_env \<Rightarrow> issue \<Rightarrow> occurrence \<Rightarrow> bool" where
  "reported E iss oc \<longleftrightarrow> (\<exists>st. oc = fst (normalizeOccurrence E (issueToOccurrence iss) st))"

inductive files_as :: "issue_env \<Rightarrow> issue_op \<Rightarrow> (string \<Rightarrow> occurrence list) \<Rightarrow> (string \<Rightarrow> occurrence list) \<Rightarrow> bool"
  for E where
  filed: "reported E iss oc \<Longrightarrow> files_as E (OpAppend iss) v (v(fingerprint E oc := v (fingerprint E oc) @ [oc]))"
| cleared: "files_as E OpClear v (\<lambda>_. [])"
| same: "\<forall>iss. op \<noteq> OpAppend iss \<Longrightarrow> op \<noteq> OpClear \<Longrightarrow> files_as E op v v"

text \<open>The lifecycle: which operation may move an issue from which state to which.\<close>

inductive lifecycle_edge :: "issue_op \<Rightarrow> issue_state \<Rightarrow> issue_state \<Rightarrow> bool" where
  acknowledge: "lifecycle_edge (OpAcknowledge ID actor) StateActive StateAcknowledged"
| resolve: "st \<in> {StateActive, StateAcknowledged} \<Longrightarrow> lifecycle_edge (OpResolve ID actor url) st StateResolved"
| reopened: "lifecycle_edge (OpReopen ID actor) StateResolved StateActive"
| recurs: "lifecycle_edge (OpAppend iss) StateResolved StateActive"

inductive_simps lifecycle_edge_simps [simp]:
  "lifecycle_edge (OpAcknowledge ID actor) st st'" "lifecycle_edge (OpResolve ID actor url) st st'"
  "lifecycle_edge (OpReopen ID actor) st st'" "lifecycle_edge (OpAppend iss) st st'"

definition life_step :: "issue_op \<Rightarrow> issue_state option \<Rightarrow> issue_state option \<Rightarrow> bool" where
  "life_step op l l' \<longleftrightarrow> l' = l \<or> (op = OpClear \<and> l' = None)
     \<or> (\<exists>iss. op = OpAppend iss \<and> l = None \<and> l' = Some StateActive)
     \<or> (\<exists>a b. l = Some a \<and> l' = Some b \<and> lifecycle_edge op a b)"

lemma occs_of_update: "occs_of is' fp = (case issue_at is' fp of None \<Rightarrow> [] | Some i \<Rightarrow> is_Occurrences i)"
  by (simp add: occs_of_def)

definition changes :: "issue_op \<Rightarrow> (int \<Rightarrow> issue \<Rightarrow> err + issue) \<Rightarrow> bool" where
  "changes op change \<longleftrightarrow> lifecycle_only change
     \<and> (\<forall>now i j. known_state (is_State i) \<longrightarrow> change now i = Inr j \<longrightarrow> lifecycle_edge op (is_State i) (is_State j))"

lemma transition_changes:
  "changes (OpAcknowledge ID actor) (transition_change ID StateAcknowledged actor note)"
  "changes (OpReopen ID actor) (transition_change ID StateActive actor note)"
  "changes (OpResolve ID actor url) (resolve_change ID actor url)"
  unfolding changes_def
  by (auto simp: transition_lifecycle resolve_lifecycle known_state_def transition_change_def
      resolve_change_def Let_def split: if_splits)

definition refines :: "issue_env \<Rightarrow> issue_op \<Rightarrow> bool \<Rightarrow> issue_store \<Rightarrow> issue_store \<Rightarrow> bool" where
  "refines E op good s s' \<longleftrightarrow> store_ok E s' \<and> (\<not> good \<longrightarrow> st_file s' = st_file s)
     \<and> (good \<longrightarrow> files_as E op (occs_of (stored s)) (occs_of (stored s'))
              \<and> (\<forall>fp. life_step op (life_of (stored s) fp) (life_of (stored s') fp)))"

lemma change_refines:
  assumes "change_issue E D ID change s = (r, s')" and "store_ok E s" and "changes op change"
    and "\<forall>iss. op \<noteq> OpAppend iss" "op \<noteq> OpClear"
  shows "refines E op (ok r) s s'"
proof (cases r)
  case (Inl e)
  with change_issue_ok [OF assms(1,2)] assms(3) show ?thesis by (simp add: refines_def changes_def)
next
  case (Inr j)
  with change_issue_ok [OF assms(1,2)] assms(3) obtain n now where
      ok': "store_ok E s'" and n: "n < length (stored s)" "change now (stored s ! n) = Inr j"
        "with_lifecycle_of (stored s ! n) j" "stored s' = (stored s)[n := j]"
    by (auto simp: changes_def)
  let ?i = "stored s ! n"
  have inv: "issues_inv E (stored s)" using assms(2) by (rule store_ok_issues)
  with n(1) have i: "issue_ok E ?i" by (simp add: issues_inv_def)
  have at: "issue_at (stored s) (is_Fingerprint ?i) = Some ?i"
    using inv n(1) by (simp add: issues_inv_def issue_at_iff)
  have at': "issue_at (stored s') = (issue_at (stored s))(is_Fingerprint ?i \<mapsto> j)"
    using issues_inv_update(2) [OF inv n(1,3)] n(4) by simp
  from issue_ok_lifecycle [OF i n(3)] at at' have "occs_of (stored s') = occs_of (stored s)"
    by (auto simp: occs_of_def fun_eq_iff)
  moreover have "lifecycle_edge op (is_State ?i) (is_State j)"
    using assms(3) i n(2) unfolding changes_def issue_ok_def by blast
  then have "life_step op (life_of (stored s) fp) (life_of (stored s') fp)" for fp
    using at at' by (auto simp: life_of_def life_step_def)
  ultimately show ?thesis using ok' Inr assms(4,5) by (simp add: refines_def files_as.same)
qed

lemma life_step_report: "life_step (OpAppend iss) l (Some (life_after_report l))"
  by (auto simp: life_step_def life_after_report_def split: option.split issue_state.split)

lemma append_refines:
  assumes "IssueAppend E D iss s = (r, s')" and "store_ok E s" and "clock_ok E"
  shows "refines E (OpAppend iss) (ok r) s s'"
proof (cases r)
  case (Inl e)
  with append_ok [OF assms] show ?thesis by (simp add: refines_def)
next
  case (Inr u)
  with append_ok [OF assms] obtain oc where ok': "store_ok E s'" and oc: "reported E iss oc"
      "absorbs E oc (stored s) (stored s')" by (auto simp: reported_def)
  from oc(2) obtain j where j: "issue_at (stored s') = (issue_at (stored s))(fingerprint E oc \<mapsto> j)"
      "is_Occurrences j = occs_of (stored s) (fingerprint E oc) @ [oc]"
      "is_State j = life_after_report (life_of (stored s) (fingerprint E oc))" by (auto simp: absorbs_def)
  from j(1,2) have "occs_of (stored s') = (occs_of (stored s))(fingerprint E oc := occs_of (stored s) (fingerprint E oc) @ [oc])"
    by (simp add: fun_eq_iff occs_of_update)
  with oc(1) have "files_as E (OpAppend iss) (occs_of (stored s)) (occs_of (stored s'))"
    by (simp add: files_as.filed)
  moreover have "life_step (OpAppend iss) (life_of (stored s) fp) (life_of (stored s') fp)" for fp
    using j(1,3) life_step_report [of iss "life_of (stored s) fp"]
    by (auto simp: life_of_def life_step_def)
  ultimately show ?thesis using ok' Inr by (simp add: refines_def)
qed

lemma clear_refines:
  assumes "IssueClear D s = (r, s')" and "store_ok E s"
  shows "refines E OpClear (ok r) s s'"
proof -
  have empty: "issues_inv E []" "sortIssues [] = []" by (simp_all add: issues_inv_def sortIssues_def)
  have sv: "saveLocked D \<lparr>sf_Version = currentStoreVersion, sf_Issues = []\<rparr> s = (r, s')"
    using assms(1) by (simp add: IssueClear_def newStoreFile_def)
  then have "\<not> ok r \<Longrightarrow> st_file s' = st_file s" by (auto simp: saveLocked_def split: option.splits)
  with save_stored [OF sv empty(1) assms(2)] empty(2) show ?thesis
    by (auto simp: refines_def files_as.cleared occs_of_def [abs_def] life_of_def life_step_def)
qed


definition demo_issue_env :: issue_env where
  "demo_issue_env = \<lparr>ie_clock = (\<lambda>t. int t + 1000), ie_object = (\<lambda>_. None), ie_sha256 = id\<rparr>"

definition demo_report :: issue where
  "demo_report = zero_issue\<lparr>is_Source := ''daemon:crash'', is_Input := ''api'', is_Error := ''listen tcp 127.0.0.1:8100''\<rparr>"

definition demo_issues :: issue_store where
  "demo_issues = \<lparr>st_path = ''issues.jsonl'', st_file = NoFile, st_ids = \<lparr>id_tick = 0, id_seq = 0\<rparr>\<rparr>"


text \<open>What the store answers is what was saved, and its figures are those of the occurrences: the
  count, the first and last time, the fingerprint that all of them share.\<close>

theorem issue_figures:
  assumes "store_ok E s"
  shows "\<exists>s'. IssueRecent E 0 '''' s = (Inr (stored s), s')
    \<and> (\<forall>i \<in> set (stored s). is_OccurrenceCount i = length (is_Occurrences i) \<and> is_Occurrences i \<noteq> []
         \<and> (\<forall>oc \<in> set (is_Occurrences i). is_FirstSeen i \<le> oc_Timestamp oc \<and> oc_Timestamp oc \<le> is_LastSeen i
              \<and> fingerprint E oc = is_Fingerprint i))"
proof -
  have figures: "is_OccurrenceCount i = length (is_Occurrences i) \<and> is_Occurrences i \<noteq> []
      \<and> (\<forall>oc \<in> set (is_Occurrences i). is_FirstSeen i \<le> oc_Timestamp oc \<and> oc_Timestamp oc \<le> is_LastSeen i
           \<and> fingerprint E oc = is_Fingerprint i)" if "issue_ok E i" for i
  proof -
    let ?b = "build_issue E (is_ID i) (is_Occurrences i)"
    from that have i: "i = carry i ?b" "is_Occurrences i \<noteq> []" by (simp_all add: issue_ok_def)
    from arg_cong [OF i(1), of is_OccurrenceCount] arg_cong [OF i(1), of is_FirstSeen]
      arg_cong [OF i(1), of is_LastSeen]
    have "is_OccurrenceCount i = length (is_Occurrences i)" "is_FirstSeen i = first_seen (is_Occurrences i)"
        "is_LastSeen i = oc_Timestamp (latest (is_Occurrences i))"
      by (simp_all add: carry_def build_issue_def Let_def)
    with that i(2) show ?thesis by (auto simp: issue_ok_def first_seen_min latest_max)
  qed
  obtain ids where "loadLocked E s = (Inr \<lparr>sf_Version = currentStoreVersion, sf_Issues = stored s\<rparr>, s\<lparr>st_ids := ids\<rparr>)"
    using load_stored [OF assms] by blast
  moreover have "map cloneIssue is = is" for "is" by (simp add: map_idI)
  ultimately show ?thesis
    using store_ok_issues [OF assms] figures by (simp add: IssueRecent_def issues_inv_def)
qed

definition demo_reported :: issue_store where
  "demo_reported = snd (IssueAppend demo_issue_env \<lparr>dk_write = None, dk_rename = None\<rparr> demo_report demo_issues)"

lemma demo_reported_ok: "store_ok demo_issue_env demo_reported"
  unfolding demo_reported_def
  by (rule append_ok [THEN conjunct1, OF surjective_pairing])
    (simp_all add: store_ok_def demo_issues_def clock_ok_def demo_issue_env_def)

theorem issue_figures_witness:
  "(\<exists>s'. IssueRecent demo_issue_env 0 '''' demo_reported = (Inr (stored demo_reported), s'))
     \<and> length (stored demo_reported) = 1"
proof
  show "\<exists>s'. IssueRecent demo_issue_env 0 '''' demo_reported = (Inr (stored demo_reported), s')"
    using issue_figures [OF demo_reported_ok] by blast
  show "length (stored demo_reported) = 1" by code_simp
qed

text \<open>Reports that differ in ports, times and process numbers make one issue. A loopback port in IPv6
  notation is left in the text: no word boundary precedes its bracket.\<close>

lemma normalizeError_examples:
  "normalizeError ''Listen tcp 127.0.0.1:8100: PID=77 at 2024-01-02T10:11:12Z''
     = ''listen tcp <addr>: pid=<pid> at <time>''"
  "normalizeError ''dial [::1]:8100'' = ''dial [::1]:8100''"
  by code_simp+

text \<open>A file in the old format is not sorted when it is loaded; the answer of a change that sorts it is
  then another issue than the one that was changed.\<close>

definition demo_legacy :: issue_store where
  "demo_legacy = demo_issues\<lparr>st_file := LegacyLines
     [Some (demo_report\<lparr>is_ID := ''b'', is_Timestamp := 2, is_Error := ''two''\<rparr>),
      Some (demo_report\<lparr>is_ID := ''a'', is_Timestamp := 1, is_Error := ''one''\<rparr>)]\<rparr>"

lemma resolve_legacy_answer:
  "map_sum id is_ID (fst (IssueResolve demo_issue_env \<lparr>dk_write = None, dk_rename = None\<rparr> ''b'' ''me'' '''' demo_legacy))
     = Inr ''a''"
  by code_simp

end
