(* ===== verification/Sessions.thy ===== *)
theory Sessions
  imports Prelude "HOL-Library.Product_Lexorder" "HOL-Library.Multiset"
begin

text \<open>
  \<^verbatim>\<open>internal/sessions/sessions.go\<close>: the MCP sessions a daemon remembers, at most 500 of them,
  in one file that is read once and written on changes. The clock answers by the place of the call
  within an operation (0 loading, 1 the operation, 2 saving), the disk answers the write. Creating
  the file never fails half-way in the model: it is written or it is not.
\<close>

section \<open>State\<close>

record session =
  se_ID :: string
  se_CreatedAt :: int
  se_LastSeenAt :: int
  se_CallCount :: int
  se_LastTool :: string

datatype sessions_file =
    NoSessions
  | SessionsUnreadable err
  | SessionsGarbage
  | SessionsJson "session gomap"

record session_store =
  ss_file :: sessions_file
  ss_sessions :: "session gomap"
  ss_loaded :: bool
  ss_lastSave :: int

definition maxTrackedSessions :: nat where "maxTrackedSessions = 500"

definition touchSaveInterval :: int where "touchSaveInterval = 2000000000"

definition zero_session :: session where
  "zero_session = \<lparr>se_ID = '''', se_CreatedAt = 0, se_LastSeenAt = 0, se_CallCount = 0, se_LastTool = ''''\<rparr>"

definition NewSessions :: "sessions_file \<Rightarrow> session_store" where
  "NewSessions file = \<lparr>ss_file = file, ss_sessions = [], ss_loaded = False, ss_lastSave = 0\<rparr>"

section \<open>Pruning, loading, saving\<close>

text \<open>Most recent first, ties by identifier.\<close>

definition by_recency :: "session list \<Rightarrow> session list" where
  "by_recency all = sort_key (\<lambda>s. (- se_LastSeenAt s, se_ID s)) all"

definition pruneOldest :: "nat \<Rightarrow> session gomap \<Rightarrow> session gomap \<times> nat" where
  "pruneOldest limit m =
     (if limit = 0 \<or> length m \<le> limit then (m, 0)
      else
        (let all = by_recency (map snd m) in
         (foldl (\<lambda>m s. AList.delete (se_ID s) m) m (drop limit all), length all - limit)))"

definition load_sessions :: "sessions_file \<Rightarrow> err + session gomap" where
  "load_sessions file =
     (case file of
        NoSessions \<Rightarrow> Inr []
      | SessionsUnreadable e \<Rightarrow> Inl e
      | SessionsGarbage \<Rightarrow> Inr []
      | SessionsJson m \<Rightarrow> Inr m)"

definition loadCached :: "(nat \<Rightarrow> int) \<Rightarrow> session_store \<Rightarrow> (unit, session_store) res" where
  "loadCached now s =
     (if ss_loaded s then (Inr (), s)
      else case load_sessions (ss_file s) of
             Inl e \<Rightarrow> (Inl e, s)
           | Inr m \<Rightarrow> (Inr (), s\<lparr>ss_sessions := m, ss_loaded := True, ss_lastSave := now 0\<rparr>))"

text \<open>The map is pruned in place, before the file is written.\<close>

definition save_sessions :: "(nat \<Rightarrow> int) \<Rightarrow> err option \<Rightarrow> session_store \<Rightarrow> (unit, session_store) res" where
  "save_sessions now disk s =
     (let s1 = s\<lparr>ss_sessions := fst (pruneOldest maxTrackedSessions (ss_sessions s))\<rparr> in
      case disk of
        Some e \<Rightarrow> (Inl e, s1)
      | None \<Rightarrow> (Inr (), s1\<lparr>ss_file := SessionsJson (ss_sessions s1), ss_loaded := True, ss_lastSave := now 2\<rparr>))"

section \<open>Operations\<close>

definition SessionCreate :: "(nat \<Rightarrow> int) \<Rightarrow> err option \<Rightarrow> string \<Rightarrow> session_store \<Rightarrow> (unit, session_store) res" where
  "SessionCreate now disk ID s =
     on_res (loadCached now s)
       (\<lambda>_ s1. save_sessions now disk
          (s1\<lparr>ss_sessions := AList.update ID (zero_session\<lparr>se_ID := ID, se_CreatedAt := now 1, se_LastSeenAt := now 1\<rparr>)
                              (ss_sessions s1)\<rparr>))
       (\<lambda>e s1. (Inl e, s1))"

text \<open>Go's lookup of a missing key is the zero session.\<close>

definition stored_session :: "string \<Rightarrow> session gomap \<Rightarrow> session" where
  "stored_session ID m = (case map_of m ID of Some x \<Rightarrow> x | None \<Rightarrow> zero_session)"

definition touched :: "int \<Rightarrow> string \<Rightarrow> string \<Rightarrow> session \<Rightarrow> session" where
  "touched t ID tool sess0 =
     (let sess1 = (if se_ID sess0 = '''' then zero_session\<lparr>se_ID := ID, se_CreatedAt := t\<rparr> else sess0);
          sess2 = sess1\<lparr>se_LastSeenAt := t, se_CallCount := se_CallCount sess1 + 1\<rparr>
      in if tool \<noteq> '''' then sess2\<lparr>se_LastTool := tool\<rparr> else sess2)"

definition SessionTouch ::
    "(nat \<Rightarrow> int) \<Rightarrow> err option \<Rightarrow> string \<Rightarrow> string \<Rightarrow> session_store \<Rightarrow> (unit, session_store) res" where
  "SessionTouch now disk ID tool s =
     on_res (loadCached now s)
       (\<lambda>_ s1.
          let sess = stored_session ID (ss_sessions s1);
              s2 = s1\<lparr>ss_sessions := AList.update ID (touched (now 1) ID tool sess) (ss_sessions s1)\<rparr>
          in if se_ID sess = '''' \<or> touchSaveInterval \<le> now 1 - ss_lastSave s2 then save_sessions now disk s2
             else (Inr (), s2))
       (\<lambda>e s1. (Inl e, s1))"

definition SessionList :: "(nat \<Rightarrow> int) \<Rightarrow> session_store \<Rightarrow> (session list, session_store) res" where
  "SessionList now s =
     on_res (loadCached now s)
       (\<lambda>_ s1. (Inr (sort_key (\<lambda>s. - se_LastSeenAt s) (map snd (ss_sessions s1))), s1))
       (\<lambda>e s1. (Inl e, s1))"

definition SessionCleanup :: "(nat \<Rightarrow> int) \<Rightarrow> err option \<Rightarrow> int \<Rightarrow> session_store \<Rightarrow> (nat, session_store) res" where
  "SessionCleanup now disk maxAge s =
     on_res (loadCached now s)
       (\<lambda>_ s1.
          let cutoff = now 1 - maxAge;
              fresh = filter (\<lambda>(k, x). \<not> se_LastSeenAt x < cutoff) (ss_sessions s1);
              stale = length (ss_sessions s1) - length fresh
          in case pruneOldest maxTrackedSessions fresh of
               (kept, over) \<Rightarrow>
                 let s2 = s1\<lparr>ss_sessions := kept\<rparr> in
                 if 0 < stale + over
                 then on_res (save_sessions now disk s2) (\<lambda>_ s3. (Inr (stale + over), s3)) (\<lambda>e s3. (Inl e, s3))
                 else (Inr (stale + over), s2))
       (\<lambda>e s1. (Inl e, s1))"

section \<open>What pruning keeps\<close>

text \<open>Sessions are stored under their identifiers.\<close>

definition keyed :: "session gomap \<Rightarrow> bool" where
  "keyed m \<longleftrightarrow> distinct (map fst m) \<and> (\<forall>(k, s) \<in> set m. se_ID s = k)"

lemma keyed_Nil [simp]: "keyed []"
  by (simp add: keyed_def)

lemma keyed_update: "keyed m \<Longrightarrow> se_ID s = k \<Longrightarrow> keyed (AList.update k s m)"
  by (auto simp: keyed_def dest!: set_update_in)

lemma keyed_delete: "keyed m \<Longrightarrow> keyed (AList.delete k m)"
  by (auto simp: keyed_def set_delete_in)

lemma keyed_filter: "keyed m \<Longrightarrow> keyed (filter P m)"
  by (auto simp: keyed_def distinct_map_filter)

lemma delete_ids:
  "foldl (\<lambda>m s. AList.delete (se_ID s) m) m ss = filter (\<lambda>p. fst p \<notin> se_ID ` set ss) m"
proof (induction ss arbitrary: m)
  case (Cons s ss)
  then show ?case by (auto simp: AList.delete_eq intro: filter_cong)
qed simp

lemma keyed_values:
  assumes "keyed m"
  shows "distinct (map se_ID (map snd m))" "(k, s) \<in> set m \<Longrightarrow> se_ID s = k"
proof -
  have "map se_ID (map snd m) = map fst m" using assms by (auto simp: keyed_def)
  with assms show "distinct (map se_ID (map snd m))" by (simp only: keyed_def)
qed (use assms in \<open>auto simp: keyed_def\<close>)

lemma by_recency_simps [simp]:
  "set (by_recency xs) = set xs" "length (by_recency xs) = length xs"
  by (simp_all add: by_recency_def)

lemma by_recency_distinct: "distinct (map se_ID xs) \<Longrightarrow> distinct (map se_ID (by_recency xs))"
proof -
  have "mset (map se_ID (by_recency xs)) = mset (map se_ID xs)"
    by (simp only: by_recency_def mset_map mset_sort)
  then show "distinct (map se_ID xs) \<Longrightarrow> distinct (map se_ID (by_recency xs))"
    by (metis mset_eq_imp_distinct_iff)
qed

text \<open>The pruned map holds the sessions of the front of the sorted list.\<close>

lemma prune_front:
  assumes "keyed m" and "0 < limit" and "limit < length m"
  shows "set (map snd (fst (pruneOldest limit m))) = set (take limit (by_recency (map snd m)))"
proof -
  let ?all = "by_recency (map snd m)"
  have d: "distinct (map se_ID ?all)" using keyed_values(1) [OF assms(1)] by (rule by_recency_distinct)
  have split: "?all = take limit ?all @ drop limit ?all" by simp
  have all: "set ?all = snd ` set m" by simp
  have disj: "se_ID s \<notin> se_ID ` set (drop limit ?all)" if "s \<in> set (take limit ?all)" for s
    using d that by (subst (asm) split) (auto simp del: append_take_drop_id)
  have "set (fst (pruneOldest limit m)) = {p \<in> set m. fst p \<notin> se_ID ` set (drop limit ?all)}"
    using assms(2,3) by (simp add: pruneOldest_def Let_def delete_ids)
  moreover have "s \<in> set (take limit ?all) \<longleftrightarrow> se_ID s \<notin> se_ID ` set (drop limit ?all)" if "s \<in> snd ` set m" for s
    using that all disj split by (metis Un_iff image_eqI set_append)
  ultimately show ?thesis
    using keyed_values(2) [OF assms(1)] all in_set_takeD [of _ limit ?all]
    by (auto simp: image_iff) force+
qed

lemma prune_keyed: "keyed m \<Longrightarrow> keyed (fst (pruneOldest limit m))"
  by (simp add: pruneOldest_def Let_def delete_ids keyed_filter)

lemma distinct_ids: "distinct (map se_ID xs) \<Longrightarrow> distinct xs"
  by (simp add: distinct_map)

lemma prune_length:
  assumes "keyed m" and "0 < limit"
  shows "length (fst (pruneOldest limit m)) = min limit (length m)"
proof (cases "limit < length m")
  case True
  let ?m = "fst (pruneOldest limit m)"
  have "distinct (map snd ?m)" "distinct (by_recency (map snd m))"
    using keyed_values(1) [OF prune_keyed [OF assms(1)]] by_recency_distinct [OF keyed_values(1) [OF assms(1)]]
    by (blast intro: distinct_ids)+
  then have "length ?m = length (take limit (by_recency (map snd m)))"
    using prune_front [OF assms True] by (metis distinct_card distinct_take length_map)
  with True show ?thesis by simp
next
  case False
  then show ?thesis by (simp add: pruneOldest_def)
qed

text \<open>Pruning to a limit drops exactly as many sessions as are too many and reports that number,
  and every session that stays was seen at least as recently as every one that goes.\<close>

theorem prune_keeps_recent:
  assumes "keyed m" and "0 < limit"
  shows "length (fst (pruneOldest limit m)) = min limit (length m)
    \<and> snd (pruneOldest limit m) = length m - length (fst (pruneOldest limit m))
    \<and> set (fst (pruneOldest limit m)) \<subseteq> set m
    \<and> (\<forall>(k, s) \<in> set (fst (pruneOldest limit m)). \<forall>(l, t) \<in> set m - set (fst (pruneOldest limit m)).
         se_LastSeenAt t \<le> se_LastSeenAt s)"
proof (cases "limit < length m")
  case True
  let ?all = "by_recency (map snd m)" and ?m = "fst (pruneOldest limit m)"
  let ?key = "\<lambda>s. (- se_LastSeenAt s, se_ID s)"
  have srt: "sorted (map ?key (take limit ?all) @ map ?key (drop limit ?all))"
    unfolding map_append [symmetric] append_take_drop_id by (simp add: by_recency_def)
  have sub: "set ?m \<subseteq> set m" by (auto simp: pruneOldest_def Let_def delete_ids)
  have "se_LastSeenAt t \<le> se_LastSeenAt s" if "(k, s) \<in> set ?m" "(l, t) \<in> set m" "(l, t) \<notin> set ?m" for k s l t
  proof -
    have s: "s \<in> set (take limit ?all)" using that(1) prune_front [OF assms True] by force
    have "t \<notin> set (map snd ?m)"
      using that(2,3) keyed_values(2) [OF assms(1)] subsetD [OF sub] by (auto, metis)
    then have "t \<notin> set (take limit ?all)" using prune_front [OF assms True] by simp
    moreover have "t \<in> set ?all" using that(2) by force
    ultimately have "t \<in> set (drop limit ?all)" by (metis Un_iff append_take_drop_id set_append)
    with s have "?key s \<in> set (map ?key (take limit ?all))" "?key t \<in> set (map ?key (drop limit ?all))" by auto
    with srt have "?key s \<le> ?key t" unfolding sorted_append by blast
    then show ?thesis by (auto simp: less_eq_prod_def)
  qed
  moreover have "snd (pruneOldest limit m) = length m - length ?m"
    using True prune_length [OF assms] assms(2) by (simp add: pruneOldest_def Let_def)
  ultimately show ?thesis using sub prune_length [OF assms] by blast
next
  case False
  then show ?thesis by (auto simp: pruneOldest_def)
qed

definition demo_sessions :: "session gomap" where
  "demo_sessions = map (\<lambda>(k, t). (k, zero_session\<lparr>se_ID := k, se_LastSeenAt := t\<rparr>)) [(''a'', 1), (''b'', 3), (''c'', 2)]"

theorem prune_keeps_recent_witness:
  "length (fst (pruneOldest 2 demo_sessions)) = 2 \<and> snd (pruneOldest 2 demo_sessions) = 1
     \<and> map fst (fst (pruneOldest 2 demo_sessions)) = [''b'', ''c'']"
proof -
  have "keyed demo_sessions" by (simp add: keyed_def demo_sessions_def)
  from prune_keeps_recent [OF this, of 2]
  have "length (fst (pruneOldest 2 demo_sessions)) = 2 \<and> snd (pruneOldest 2 demo_sessions) = 1"
    by (simp add: demo_sessions_def)
  moreover have "map fst (fst (pruneOldest 2 demo_sessions)) = [''b'', ''c'']" by code_simp
  ultimately show ?thesis by simp
qed

section \<open>The bound\<close>

datatype session_op =
    TouchSession string string
  | CreateSession string
  | ListSessions
  | CleanupSessions int

fun session_exec :: "(nat \<Rightarrow> int) \<times> err option \<times> session_op \<Rightarrow> session_store \<Rightarrow> session_store" where
  "session_exec (now, disk, TouchSession ID tool) s = snd (SessionTouch now disk ID tool s)"
| "session_exec (now, disk, CreateSession ID) s = snd (SessionCreate now disk ID s)"
| "session_exec (now, disk, ListSessions) s = snd (SessionList now s)"
| "session_exec (now, disk, CleanupSessions maxAge) s = snd (SessionCleanup now disk maxAge s)"

definition small :: "session gomap \<Rightarrow> bool" where
  "small m \<longleftrightarrow> keyed m \<and> length m \<le> maxTrackedSessions"

definition sessions_inv :: "session_store \<Rightarrow> bool" where
  "sessions_inv s \<longleftrightarrow> small (ss_sessions s) \<and> (\<forall>m. ss_file s = SessionsJson m \<longrightarrow> small m)"

lemma small_prune: "keyed m \<Longrightarrow> small (fst (pruneOldest maxTrackedSessions m))"
  using prune_length [of m maxTrackedSessions] by (simp add: small_def prune_keyed maxTrackedSessions_def)

lemma small_Nil [simp]: "small []"
  by (simp add: small_def)

lemma loadCached_inv: "sessions_inv s \<Longrightarrow> sessions_inv (snd (loadCached now s))"
  by (auto simp: loadCached_def sessions_inv_def load_sessions_def split: sessions_file.split sum.split)

lemma save_inv:
  "keyed (ss_sessions s) \<Longrightarrow> (\<forall>m. ss_file s = SessionsJson m \<longrightarrow> small m) \<Longrightarrow>
   sessions_inv (snd (save_sessions now disk s))"
  by (auto simp: save_sessions_def Let_def sessions_inv_def small_prune split: option.split)

lemma after_load:
  assumes "sessions_inv s" and "\<And>s1. sessions_inv s1 \<Longrightarrow> sessions_inv (snd (good s1))"
  shows "sessions_inv (snd (on_res (loadCached now s) (\<lambda>_ s1. good s1) (\<lambda>e s1. (Inl e, s1))))"
  using loadCached_inv [OF assms(1), of now] assms(2)
  by (cases "loadCached now s"; cases "fst (loadCached now s)") auto

lemma sessions_inv_keyed: "sessions_inv s \<Longrightarrow> keyed (ss_sessions s)"
  by (simp add: sessions_inv_def small_def)

lemma create_inv: "sessions_inv s \<Longrightarrow> sessions_inv (snd (SessionCreate now disk ID s))"
  unfolding SessionCreate_def
  by (rule after_load) (auto intro!: save_inv keyed_update simp: sessions_inv_keyed, simp add: sessions_inv_def)

text \<open>Touching a known session does not add one.\<close>

lemma length_update_known: "map_of m k \<noteq> None \<Longrightarrow> length (AList.update k v m) = length m"
  by (induction m) auto

lemma touch_inv: "sessions_inv s \<Longrightarrow> sessions_inv (snd (SessionTouch now disk ID tool s))"
  unfolding SessionTouch_def
proof (rule after_load)
  fix s1 assume inv: "sessions_inv s1"
  let ?sess = "stored_session ID (ss_sessions s1)"
  let ?s2 = "s1\<lparr>ss_sessions := AList.update ID (touched (now 1) ID tool ?sess) (ss_sessions s1)\<rparr>"
  have "se_ID (touched (now 1) ID tool ?sess) = ID"
    using keyed_values(2) [OF sessions_inv_keyed [OF inv], of ID]
    by (auto simp: touched_def Let_def stored_session_def zero_session_def split: option.splits dest!: map_of_SomeD)
  with inv have keyed: "keyed (ss_sessions ?s2)" by (simp add: keyed_update sessions_inv_keyed)
  have known: "se_ID ?sess \<noteq> '''' \<Longrightarrow> map_of (ss_sessions s1) ID \<noteq> None"
    by (auto simp: stored_session_def zero_session_def split: option.splits)
  have "sessions_inv (snd (save_sessions now disk ?s2))"
    using keyed inv by (intro save_inv) (simp_all add: sessions_inv_def)
  moreover have "se_ID ?sess \<noteq> '''' \<Longrightarrow> sessions_inv ?s2"
    using known keyed inv by (simp add: sessions_inv_def small_def length_update_known)
  ultimately show "sessions_inv (snd (let sess = ?sess; s2 = s1\<lparr>ss_sessions := AList.update ID (touched (now 1) ID tool sess) (ss_sessions s1)\<rparr>
          in if se_ID sess = '''' \<or> touchSaveInterval \<le> now 1 - ss_lastSave s2 then save_sessions now disk s2
             else (Inr (), s2)))"
    by (simp add: Let_def)
qed

lemma cleanup_inv: "sessions_inv s \<Longrightarrow> sessions_inv (snd (SessionCleanup now disk maxAge s))"
  unfolding SessionCleanup_def
proof (rule after_load)
  fix s1 assume inv: "sessions_inv s1"
  let ?fresh = "filter (\<lambda>(k, x). \<not> se_LastSeenAt x < now 1 - maxAge) (ss_sessions s1)"
  have "keyed ?fresh" using sessions_inv_keyed [OF inv] by (rule keyed_filter)
  then have small: "small (fst (pruneOldest maxTrackedSessions ?fresh))" by (rule small_prune)
  let ?s2 = "s1\<lparr>ss_sessions := fst (pruneOldest maxTrackedSessions ?fresh)\<rparr>"
  have "sessions_inv ?s2" using small inv by (simp add: sessions_inv_def)
  moreover have "sessions_inv (snd (save_sessions now disk ?s2))"
    using small inv by (intro save_inv) (simp_all add: sessions_inv_def small_def)
  moreover have "sessions_inv (snd (on_res x (\<lambda>_ s3. (Inr n, s3)) (\<lambda>e s3. (Inl e, s3))))"
    if "sessions_inv (snd x)" for x :: "(unit, session_store) res" and n :: nat
    using that by (cases x; cases "fst x") auto
  ultimately show "sessions_inv (snd (let cutoff = now 1 - maxAge;
              fresh = filter (\<lambda>(k, x). \<not> se_LastSeenAt x < cutoff) (ss_sessions s1);
              stale = length (ss_sessions s1) - length fresh
          in case pruneOldest maxTrackedSessions fresh of
               (kept, over) \<Rightarrow>
                 let s2 = s1\<lparr>ss_sessions := kept\<rparr> in
                 if 0 < stale + over
                 then on_res (save_sessions now disk s2) (\<lambda>_ s3. (Inr (stale + over), s3)) (\<lambda>e s3. (Inl e, s3))
                 else (Inr (stale + over), s2)))"
    by (simp add: Let_def case_prod_beta)
qed

lemma list_inv: "sessions_inv s \<Longrightarrow> sessions_inv (snd (SessionList now s))"
  unfolding SessionList_def by (rule after_load) auto

text \<open>However many clients come, and whether or not the disk takes a save, a daemon remembers at
  most 500 sessions, in memory and in its file, each under its own identifier.\<close>

theorem sessions_bounded:
  assumes "sessions_inv s"
  shows "sessions_inv (foldl (\<lambda>s act. session_exec act s) s acts)"
  using assms
proof (induction acts arbitrary: s)
  case (Cons act acts)
  obtain now disk op where act: "act = (now, disk, op)" by (cases act)
  have "sessions_inv (session_exec act s)"
    using Cons.prems unfolding act
    by (cases op) (simp_all add: create_inv touch_inv cleanup_inv list_inv)
  with Cons.IH show ?case by simp
qed simp

theorem sessions_bounded_witness:
  "length (ss_sessions (foldl (\<lambda>s act. session_exec act s) (NewSessions NoSessions)
     [(int, None, CreateSession ''a''), (int, None, TouchSession ''b'' ''anito_deploy'')])) \<le> 500"
proof -
  have "sessions_inv (NewSessions NoSessions)" by (simp add: sessions_inv_def NewSessions_def)
  from sessions_bounded [OF this] show ?thesis
    unfolding sessions_inv_def small_def maxTrackedSessions_def by blast
qed

end
