(* ===== verification/Auth.thy ===== *)
theory Auth
  imports Paths Envfile
begin

text \<open>
  \<^verbatim>\<open>internal/auth/auth.go\<close>: the capability token of the control plane. The token comes from the
  environment or from a private file that the daemon creates on its first run; requests carry it
  in a header. The environment, the disk and the random bytes answer through \<open>auth_env\<close>, and so
  does another process that creates the file in between.
\<close>

section \<open>Files and environment\<close>

text \<open>The mode of a file is its nine permission bits.\<close>

datatype token_file = TokenDir | TokenFile nat string

type_synonym token_fs = "string \<rightharpoonup> token_file"

record auth_env =
  au_getenv :: "string \<Rightarrow> string"
  au_home :: "err + string"
  au_stat :: "err option"
  au_chmod :: "err option"
  au_read :: "err option"
  au_mkdir :: "err option"
  au_other :: "token_file option"
  au_open :: "err option"
  au_write :: "err option"
  au_random :: "err + string"

definition ErrNotExist :: err where "ErrNotExist = IOError ''file does not exist''"
definition ErrExist :: err where "ErrExist = IOError ''file already exists''"

fun errors_is :: "err \<Rightarrow> err \<Rightarrow> bool" and args_is :: "err \<Rightarrow> fmt_arg list \<Rightarrow> bool" where
  "errors_is target (Errorf f args) \<longleftrightarrow> Errorf f args = target \<or> args_is target args"
| "errors_is target (DomainError c f args) \<longleftrightarrow> DomainError c f args = target"
| "errors_is target (StartupGateError p c t) \<longleftrightarrow> StartupGateError p c t = target"
| "errors_is target (IOError m) \<longleftrightarrow> IOError m = target"
| "args_is target [] \<longleftrightarrow> False"
| "args_is target (FErr e # as) \<longleftrightarrow> errors_is target e \<or> args_is target as"
| "args_is target (FStr s # as) \<longleftrightarrow> args_is target as"
| "args_is target (FInt i # as) \<longleftrightarrow> args_is target as"

definition HeaderName :: string where "HeaderName = ''X-Anito-Capability-Token''"
definition EnvToken :: string where "EnvToken = ''ANITO_CAPABILITY_TOKEN''"
definition EnvTokenFile :: string where "EnvTokenFile = ''ANITO_CAPABILITY_TOKEN_FILE''"
definition tokenFileName :: string where "tokenFileName = ''capability-token''"
definition tokenBytes :: nat where "tokenBytes = 32"

section \<open>The token file\<close>

definition DefaultTokenPath :: "auth_env \<Rightarrow> err + string" where
  "DefaultTokenPath E =
     (let p = trim_space (au_getenv E EnvTokenFile) in
      if p \<noteq> '''' then Inr p
      else case au_home E of
             Inl e \<Rightarrow> Inl (Errorf ''find home directory: %w'' [FErr e])
           | Inr home \<Rightarrow> Inr (path_join [home, ''.anito'', tokenFileName]))"

text \<open>\<open>mode mod 64\<close> is \<^verbatim>\<open>Perm() & 0077\<close>, the bits of group and others; 384 is 0600.\<close>

definition private_mode :: nat where "private_mode = 384"

definition ensurePrivateFile :: "auth_env \<Rightarrow> string \<Rightarrow> token_fs \<Rightarrow> (unit, token_fs) res" where
  "ensurePrivateFile E path fs =
     (case au_stat E of
        Some e \<Rightarrow> (Inl e, fs)
      | None \<Rightarrow>
          (case fs path of
             None \<Rightarrow> (Inl ErrNotExist, fs)
           | Some TokenDir \<Rightarrow> (Inl (Errorf ''capability token path is a directory: %s'' [FStr path]), fs)
           | Some (TokenFile mode content) \<Rightarrow>
               if mode mod 64 \<noteq> 0
               then (case au_chmod E of
                       Some e \<Rightarrow> (Inl (Errorf ''chmod capability token file: %w'' [FErr e]), fs)
                     | None \<Rightarrow> (Inr (), fs(path \<mapsto> TokenFile private_mode content)))
               else (Inr (), fs)))"

definition read_content :: "auth_env \<Rightarrow> string \<Rightarrow> token_fs \<Rightarrow> err + string" where
  "read_content E path fs =
     (case au_read E of
        Some e \<Rightarrow> Inl e
      | None \<Rightarrow> (case fs path of Some (TokenFile mode content) \<Rightarrow> Inr content | _ \<Rightarrow> Inl ErrNotExist))"

definition readTokenFile :: "auth_env \<Rightarrow> string \<Rightarrow> token_fs \<Rightarrow> (string, token_fs) res" where
  "readTokenFile E path fs =
     on_res (ensurePrivateFile E path fs)
       (\<lambda>_ fs1.
          (case read_content E path fs1 of
             Inl e \<Rightarrow> Inl e
           | Inr b \<Rightarrow>
               (let token = trim_space b in
                if token = '''' then Inl (Errorf ''empty capability token file: %s'' [FStr path]) else Inr token), fs1))
       (\<lambda>e fs1. (Inl e, fs1))"

text \<open>The file is created exclusively: what another process put there in between makes it fail.\<close>

definition writeTokenFile :: "auth_env \<Rightarrow> string \<Rightarrow> string \<Rightarrow> token_fs \<Rightarrow> (unit, token_fs) res" where
  "writeTokenFile E path token fs =
     (let fs1 = (case au_other E of Some f \<Rightarrow> if fs path = None then fs(path \<mapsto> f) else fs | None \<Rightarrow> fs) in
      case au_mkdir E of
        Some e \<Rightarrow> (Inl (Errorf ''create capability token directory: %w'' [FErr e]), fs1)
      | None \<Rightarrow>
          if fs1 path \<noteq> None then (Inl ErrExist, fs1)
          else (case au_open E of
                  Some e \<Rightarrow> (Inl e, fs1)
                | None \<Rightarrow>
                    (case au_write E of
                       Some e \<Rightarrow> (Inl e, fs1(path \<mapsto> TokenFile private_mode ''''))
                     | None \<Rightarrow>
                         (case au_chmod E of
                            Some e \<Rightarrow> (Inl e, fs1(path \<mapsto> TokenFile private_mode (token @ [newline])))
                          | None \<Rightarrow> (Inr (), fs1(path \<mapsto> TokenFile private_mode (token @ [newline])))))))"

definition hex_nibble :: "nat \<Rightarrow> char" where
  "hex_nibble d = (if d < 10 then char_of (48 + d) else char_of (87 + d))"

definition EncodeToString :: "string \<Rightarrow> string" where
  "EncodeToString b = concat (map (\<lambda>c. [hex_nibble (of_char c div 16), hex_nibble (of_char c mod 16)]) b)"

definition generateToken :: "auth_env \<Rightarrow> err + string" where
  "generateToken E =
     (case au_random E of
        Inl e \<Rightarrow> Inl (Errorf ''generate capability token: %w'' [FErr e])
      | Inr bytes \<Rightarrow> Inr (EncodeToString (take tokenBytes bytes)))"

section \<open>Loading\<close>

definition LoadOrCreateToken :: "auth_env \<Rightarrow> token_fs \<Rightarrow> (string \<times> string, token_fs) res" where
  "LoadOrCreateToken E fs =
     (let token = trim_space (au_getenv E EnvToken) in
      if token \<noteq> '''' then (Inr (token, EnvToken), fs)
      else case DefaultTokenPath E of
        Inl e \<Rightarrow> (Inl e, fs)
      | Inr path \<Rightarrow>
          on_res (readTokenFile E path fs)
            (\<lambda>token fs1. (Inr (token, path), fs1))
            (\<lambda>e fs1.
               if \<not> errors_is ErrNotExist e then (Inl e, fs1)
               else case generateToken E of
                 Inl e1 \<Rightarrow> (Inl e1, fs1)
               | Inr token1 \<Rightarrow>
                   on_res (writeTokenFile E path token1 fs1)
                     (\<lambda>_ fs2. (Inr (token1, path), fs2))
                     (\<lambda>e2 fs2.
                        if errors_is ErrExist e2
                        then on_res (readTokenFile E path fs2)
                               (\<lambda>token2 fs3. (Inr (token2, path), fs3))
                               (\<lambda>e3 fs3. (Inl e3, fs3))
                        else (Inl e2, fs2))))"

definition LoadClientToken :: "auth_env \<Rightarrow> token_fs \<Rightarrow> (string \<times> string, token_fs) res" where
  "LoadClientToken E fs =
     (let token = trim_space (au_getenv E EnvToken) in
      if token \<noteq> '''' then (Inr (token, EnvToken), fs)
      else case DefaultTokenPath E of
        Inl e \<Rightarrow> (Inl e, fs)
      | Inr path \<Rightarrow>
          on_res (readTokenFile E path fs)
            (\<lambda>token fs1. (Inr (token, path), fs1))
            (\<lambda>e fs1. if errors_is ErrNotExist e then (Inr ('''', path), fs1) else (Inl e, fs1)))"

section \<open>Requests\<close>

text \<open>The headers of a request by their canonical names, the empty string for a missing one.\<close>

definition AttachToken :: "string \<Rightarrow> (string \<Rightarrow> string) \<Rightarrow> string \<Rightarrow> string" where
  "AttachToken token h = (if trim_space token = '''' then h else h(HeaderName := token))"

definition bearerToken :: "string \<Rightarrow> string" where
  "bearerToken header =
     (case str_cut (trim_space header) '' '' of
        None \<Rightarrow> ''''
      | Some (scheme, token) \<Rightarrow>
          if map to_lower scheme = ''bearer'' then trim_space token else '''')"

definition Authorized :: "(string \<Rightarrow> string) \<Rightarrow> string \<Rightarrow> bool" where
  "Authorized h expected0 =
     (let expected = trim_space expected0 in
      if expected = '''' then False
      else
        (let got0 = trim_space (h HeaderName);
             got = (if got0 = '''' then bearerToken (h ''Authorization'') else got0)
         in if length got \<noteq> length expected then False else got = expected))"

section \<open>Properties\<close>

text \<open>A request is authorised exactly when a token is expected and the request presents it, in
  Anito's header or, when that is empty, as a bearer token; without an expected token nobody is.\<close>

theorem Authorized_iff:
  "Authorized h expected \<longleftrightarrow> trim_space expected \<noteq> ''''
     \<and> trim_space expected = (if trim_space (h HeaderName) \<noteq> '''' then trim_space (h HeaderName)
                              else bearerToken (h ''Authorization''))"
  by (auto simp: Authorized_def Let_def)

lemma hex_nibble_not_space: "d < 16 \<Longrightarrow> \<not> is_space (hex_nibble d)"
proof -
  assume "d < 16"
  then have "(of_char (hex_nibble d) :: nat) \<in> {48..57} \<union> {97..102}"
    by (auto simp: hex_nibble_def of_char_of)
  then show ?thesis by (auto simp: is_space_def)
qed

lemma encode_not_space: "c \<in> set (EncodeToString b) \<Longrightarrow> \<not> is_space c"
proof -
  have "(of_char c :: nat) div 16 < 16" for c :: char
    using nat_of_char_less_256 [of c] by (intro less_mult_imp_div_less) simp
  then show "c \<in> set (EncodeToString b) \<Longrightarrow> \<not> is_space c"
    by (auto simp: EncodeToString_def hex_nibble_not_space)
qed

lemma trim_no_space: "\<forall>c \<in> set s. \<not> is_space c \<Longrightarrow> trim_space s = s"
proof -
  have left: "trim_left s = s" if "\<forall>c \<in> set s. \<not> is_space c" for s
    using that by (cases s) (simp_all add: trim_left_def)
  show "\<forall>c \<in> set s. \<not> is_space c \<Longrightarrow> trim_space s = s" by (simp add: trim_space_def left)
qed

lemma trim_newline: "\<forall>c \<in> set s. \<not> is_space c \<Longrightarrow> trim_space (s @ [newline]) = s"
proof -
  assume s: "\<forall>c \<in> set s. \<not> is_space c"
  have nl: "is_space newline" by (simp add: is_space_def newline_def)
  have left: "trim_left t = t" if "\<forall>c \<in> set t. \<not> is_space c" for t
    using that by (cases t) (simp_all add: trim_left_def)
  show ?thesis
  proof (cases s)
    case Nil
    with nl show ?thesis by (simp add: trim_space_def trim_left_def)
  next
    case (Cons c cs)
    with s have "trim_left (s @ [newline]) = s @ [newline]" by (simp add: trim_left_def)
    moreover have "trim_left (newline # rev s) = rev s" using nl left [of "rev s"] s by (simp add: trim_left_def)
    ultimately show ?thesis by (simp add: trim_space_def)
  qed
qed

text \<open>A private file with a token.\<close>

definition token_at :: "token_fs \<Rightarrow> string \<Rightarrow> string \<Rightarrow> bool" where
  "token_at fs path token \<longleftrightarrow>
     token \<noteq> '''' \<and> (\<exists>mode content. fs path = Some (TokenFile mode content) \<and> mode mod 64 = 0 \<and> trim_space content = token)"

lemma readTokenFile_InrD: "readTokenFile E path fs = (Inr token, fs') \<Longrightarrow> token_at fs' path token"
  by (auto simp: readTokenFile_def ensurePrivateFile_def read_content_def token_at_def private_mode_def Let_def
      split: option.splits token_file.splits if_splits)

definition calm :: "auth_env \<Rightarrow> bool" where
  "calm C \<longleftrightarrow> au_stat C = None \<and> au_chmod C = None \<and> au_read C = None"

lemma readTokenFile_token_at: "token_at fs path token \<Longrightarrow> calm C \<Longrightarrow> readTokenFile C path fs = (Inr token, fs)"
  by (auto simp: readTokenFile_def ensurePrivateFile_def read_content_def token_at_def calm_def)

lemma writeTokenFile_InrD:
  "writeTokenFile E path token fs = (Inr u, fs') \<Longrightarrow> \<forall>c \<in> set token. \<not> is_space c \<Longrightarrow> token \<noteq> '''' \<Longrightarrow> token_at fs' path token"
  by (auto simp: writeTokenFile_def token_at_def private_mode_def trim_newline Let_def split: option.splits if_splits)

text \<open>The token the daemon starts with comes from the environment or is in the file.\<close>

lemma LoadOrCreateToken_cases:
  assumes "LoadOrCreateToken E fs = (Inr (token, source), fs')" and "\<And>b. au_random E = Inr b \<Longrightarrow> b \<noteq> ''''"
  obtains "trim_space (au_getenv E EnvToken) = token" "token \<noteq> ''''" "source = EnvToken" "fs' = fs"
    | "trim_space (au_getenv E EnvToken) = ''''" "DefaultTokenPath E = Inr source" "token_at fs' source token"
proof (cases "trim_space (au_getenv E EnvToken) = ''''")
  case False
  with assms(1) show thesis by (intro that(1)) (simp_all add: LoadOrCreateToken_def)
next
  case True
  then obtain path where path: "DefaultTokenPath E = Inr path"
    using assms(1) by (auto simp: LoadOrCreateToken_def split: sum.splits)
  have hex: "\<forall>c \<in> set t. \<not> is_space c" "t \<noteq> ''''" if "generateToken E = Inr t" for t
  proof -
    from that obtain b where b: "au_random E = Inr b" "t = EncodeToString (take tokenBytes b)"
      by (auto simp: generateToken_def split: sum.splits)
    then show "\<forall>c \<in> set t. \<not> is_space c" using encode_not_space by blast
    from assms(2) [OF b(1)] b(2) show "t \<noteq> ''''" by (cases b) (simp_all add: EncodeToString_def tokenBytes_def)
  qed
  have "token_at fs' path token \<and> source = path"
    using assms(1) True path hex
    by (auto simp: LoadOrCreateToken_def Let_def split: sum.splits if_splits on_res_split_asm
        dest: readTokenFile_InrD writeTokenFile_InrD)
  with True path show thesis by (intro that(2)) simp_all
qed

lemma LoadOrCreateToken_trimmed:
  assumes "LoadOrCreateToken E fs = (Inr (token, source), fs')" and "\<And>b. au_random E = Inr b \<Longrightarrow> b \<noteq> ''''"
  shows "trim_space token = token" and "token \<noteq> ''''"
  by (rule LoadOrCreateToken_cases [OF assms]; auto simp: token_at_def)+

text \<open>C27: The daemon and its clients agree on the token: when the daemon has loaded or created one, even
  against another process that creates the file at the same moment, a client in the same environment
  loads the same non-empty token, the file is private, and a request with the token is authorised.\<close>

theorem client_is_authorized:
  assumes "LoadOrCreateToken E fs = (Inr (token, source), fs')"
    and "\<And>b. au_random E = Inr b \<Longrightarrow> b \<noteq> ''''"
    and "calm C" and "au_getenv C = au_getenv E" and "au_home C = au_home E"
  shows "LoadClientToken C fs' = (Inr (token, source), fs') \<and> Authorized (AttachToken token h) token
    \<and> (source = EnvToken \<or> token_at fs' source token)"
proof -
  have auth: "Authorized (AttachToken token h) token"
    using LoadOrCreateToken_trimmed [OF assms(1,2)] by (simp add: Authorized_def AttachToken_def)
  have path: "DefaultTokenPath C = DefaultTokenPath E" unfolding DefaultTokenPath_def assms(4,5) ..
  show ?thesis
  proof (rule LoadOrCreateToken_cases [OF assms(1,2)])
    assume "trim_space (au_getenv E EnvToken) = token" "token \<noteq> []" "source = EnvToken" "fs' = fs"
    with auth assms(4) show ?thesis by (simp add: LoadClientToken_def)
  next
    assume disk: "trim_space (au_getenv E EnvToken) = []" "DefaultTokenPath E = Inr source" "token_at fs' source token"
    with assms(4) auth path readTokenFile_token_at [OF disk(3) assms(3)] show ?thesis
      by (simp add: LoadClientToken_def)
  qed
qed

definition demo_auth :: auth_env where
  "demo_auth =
     \<lparr>au_getenv = (\<lambda>_. ''''), au_home = Inr ''/home/me'', au_stat = None, au_chmod = None, au_read = None,
      au_mkdir = None, au_other = Some (TokenFile 420 ''t0k3n ''), au_open = None, au_write = None,
      au_random = Inr ''0123''\<rparr>"

theorem client_is_authorized_witness:
  "\<exists>source fs'. LoadOrCreateToken demo_auth Map.empty = (Inr (''t0k3n'', source), fs')
     \<and> LoadClientToken demo_auth fs' = (Inr (''t0k3n'', source), fs')"
proof -
  have "map_sum id fst (fst (LoadOrCreateToken demo_auth Map.empty)) = Inr ''t0k3n''" by code_simp
  then obtain source fs' where run: "LoadOrCreateToken demo_auth Map.empty = (Inr (''t0k3n'', source), fs')"
    by (cases "LoadOrCreateToken demo_auth Map.empty"; cases "fst (LoadOrCreateToken demo_auth Map.empty)") auto
  from client_is_authorized [OF run, of demo_auth] run show ?thesis
    by (auto simp: calm_def demo_auth_def)
qed

end
