(* ===== verification/Watcher.thy ===== *)
theory Watcher
  imports Paths
begin

text \<open>
  \<^verbatim>\<open>internal/watcher/watcher.go\<close>: one watcher per service, the directories it watches, and the
  debouncing of its events. The goroutine of a watcher and the callbacks of its timers interleave:
  \<open>watch_step\<close> is their step relation. A timer that was stopped too late has fired already; its callback finds
  a newer generation and does nothing.
\<close>

section \<open>The watchers of the services\<close>

text \<open>A watcher is the channel that stops it, by a number; \<open>wm_closed\<close> are the closed ones.\<close>

record watch_manager =
  wm_watchers :: "nat gomap"
  wm_closed :: "nat set"
  wm_next :: nat

definition NewWatchers :: watch_manager where
  "NewWatchers = \<lparr>wm_watchers = [], wm_closed = {}, wm_next = 0\<rparr>"

definition WatchStop :: "string \<Rightarrow> watch_manager \<Rightarrow> watch_manager" where
  "WatchStop name m =
     (case map_of (wm_watchers m) name of
        Some e \<Rightarrow> m\<lparr>wm_closed := insert e (wm_closed m), wm_watchers := AList.delete name (wm_watchers m)\<rparr>
      | None \<Rightarrow> m)"

text \<open>The tree under a root as \<^verbatim>\<open>filepath.Walk\<close> meets it; a broken node is one it reports an error for.\<close>

datatype fs_node = FileNode string | DirNode string "fs_node list" | BrokenNode string

fun node_name :: "fs_node \<Rightarrow> string" where
  "node_name (FileNode n) = n"
| "node_name (DirNode n ns) = n"
| "node_name (BrokenNode n) = n"

definition hidden :: "string \<Rightarrow> bool" where
  "hidden n \<longleftrightarrow> n \<noteq> '''' \<and> hd n = CHR ''.''"

text \<open>Adding a directory may fail; the walk then ends with that error.\<close>

fun walk_node :: "(string \<Rightarrow> err option) \<Rightarrow> bool \<Rightarrow> string \<Rightarrow> fs_node \<Rightarrow> string list \<Rightarrow> err + string list"
  and walk_nodes :: "(string \<Rightarrow> err option) \<Rightarrow> string \<Rightarrow> fs_node list \<Rightarrow> string list \<Rightarrow> err + string list" where
  "walk_node add is_root path (FileNode n) acc = Inr acc"
| "walk_node add is_root path (BrokenNode n) acc = Inr acc"
| "walk_node add is_root path (DirNode n ns) acc =
     (if \<not> is_root \<and> hidden n then Inr acc
      else case add path of
             Some e \<Rightarrow> Inl e
           | None \<Rightarrow> walk_nodes add path ns (acc @ [path]))"
| "walk_nodes add path [] acc = Inr acc"
| "walk_nodes add path (n # ns) acc =
     (case walk_node add False (path_join [path, node_name n]) n acc of
        Inl e \<Rightarrow> Inl e
      | Inr acc1 \<Rightarrow> walk_nodes add path ns acc1)"

definition addDirsRecursive :: "(string \<Rightarrow> err option) \<Rightarrow> (string \<Rightarrow> fs_node) \<Rightarrow> string \<Rightarrow> string list \<Rightarrow> err + string list" where
  "addDirsRecursive add disk root acc = walk_node add True root (disk root) acc"

fun add_roots :: "(string \<Rightarrow> err option) \<Rightarrow> (string \<Rightarrow> fs_node) \<Rightarrow> string list \<Rightarrow> string list \<Rightarrow> err + string list" where
  "add_roots add disk [] acc = Inr acc"
| "add_roots add disk (root # roots) acc =
     (case addDirsRecursive add disk root acc of Inl e \<Rightarrow> Inl e | Inr acc1 \<Rightarrow> add_roots add disk roots acc1)"

definition WatchStart ::
    "err option \<Rightarrow> (string \<Rightarrow> err option) \<Rightarrow> (string \<Rightarrow> fs_node) \<Rightarrow> string \<Rightarrow> string list \<Rightarrow> watch_manager
     \<Rightarrow> (string list, watch_manager) res" where
  "WatchStart newWatcher add disk name paths m =
     (let m1 = WatchStop name m in
      case newWatcher of
        Some e \<Rightarrow> (Inl e, m1)
      | None \<Rightarrow>
          (case add_roots add disk paths [] of
             Inl e \<Rightarrow> (Inl e, m1)
           | Inr dirs \<Rightarrow>
               (Inr dirs, m1\<lparr>wm_watchers := AList.update name (wm_next m1) (wm_watchers m1),
                             wm_next := Suc (wm_next m1)\<rparr>)))"

definition WatchStopAll :: "watch_manager \<Rightarrow> watch_manager" where
  "WatchStopAll m = foldl (\<lambda>m name. WatchStop name m) m (map fst (wm_watchers m))"

definition WatchActive :: "watch_manager \<Rightarrow> string list" where
  "WatchActive m = map fst (wm_watchers m)"

text \<open>Every watcher ever started is closed or the one of its service.\<close>

definition watch_inv :: "watch_manager \<Rightarrow> bool" where
  "watch_inv m \<longleftrightarrow> distinct (map fst (wm_watchers m)) \<and> distinct (map snd (wm_watchers m))
     \<and> {0..<wm_next m} = wm_closed m \<union> snd ` set (wm_watchers m) \<and> wm_closed m \<inter> snd ` set (wm_watchers m) = {}"

lemma update_new_key: "k \<notin> fst ` set m \<Longrightarrow> AList.update k v m = m @ [(k, v)]"
  by (induction m) auto

lemma delete_old_key: "k \<notin> fst ` set m \<Longrightarrow> AList.delete k m = m"
  by (induction m) auto

lemma watch_inv_new: "watch_inv NewWatchers"
  by (simp add: watch_inv_def NewWatchers_def)

lemma WatchStop_inv:
  assumes "watch_inv m"
  shows "watch_inv (WatchStop name m) \<and> wm_next (WatchStop name m) = wm_next m
    \<and> wm_watchers (WatchStop name m) = AList.delete name (wm_watchers m)"
proof (cases "map_of (wm_watchers m) name")
  case None
  then have "AList.delete name (wm_watchers m) = wm_watchers m"
    by (intro delete_old_key) (simp add: map_of_eq_None_iff)
  with None assms show ?thesis by (simp add: WatchStop_def)
next
  case (Some e)
  then have mem: "(name, e) \<in> set (wm_watchers m)" by (rule map_of_SomeD)
  from assms have d: "distinct (map fst (wm_watchers m))" "distinct (map snd (wm_watchers m))"
    by (simp_all add: watch_inv_def)
  have rest: "snd ` set (AList.delete name (wm_watchers m)) = snd ` set (wm_watchers m) - {e}"
  proof -
    have "fst p = name \<longleftrightarrow> snd p = e" if "p \<in> set (wm_watchers m)" for p
      using d mem that by (metis distinct_map fst_conv inj_on_contraD snd_conv)
    then have "{p \<in> set (wm_watchers m). fst p \<noteq> name} = {p \<in> set (wm_watchers m). snd p \<noteq> e}" by blast
    moreover have "set (AList.delete name (wm_watchers m)) = {p \<in> set (wm_watchers m). fst p \<noteq> name}"
      by (auto simp: set_delete_in)
    ultimately show ?thesis by force
  qed
  have "distinct (map snd (AList.delete name (wm_watchers m)))"
    using d(2) by (simp add: AList.delete_eq distinct_map_filter)
  moreover have "e \<in> snd ` set (wm_watchers m)" using mem by force
  ultimately show ?thesis
    using assms Some rest by (auto simp: WatchStop_def watch_inv_def)
qed

lemma WatchStart_inv:
  assumes "watch_inv m"
  shows "watch_inv (snd (WatchStart nw add disk name paths m))"
proof -
  let ?m = "WatchStop name m"
  from WatchStop_inv [OF assms] have inv: "watch_inv ?m" "wm_watchers ?m = AList.delete name (wm_watchers m)" by auto
  have new: "wm_next ?m \<notin> snd ` set (wm_watchers ?m)" "wm_next ?m \<notin> wm_closed ?m"
    using inv(1) unfolding watch_inv_def by (metis UnI1 UnI2 atLeastLessThan_iff less_irrefl)+
  have fresh: "name \<notin> fst ` set (wm_watchers ?m)" by (auto simp: inv(2) AList.delete_eq)
  then have "AList.update name e (wm_watchers ?m) = wm_watchers ?m @ [(name, e)]" for e
    by (rule update_new_key)
  then show ?thesis
    using inv(1) new fresh
    by (simp add: WatchStart_def Let_def watch_inv_def atLeast0_lessThan_Suc split: option.split sum.split)
qed

lemma stop_names:
  "watch_inv m \<Longrightarrow> watch_inv (foldl (\<lambda>m name. WatchStop name m) m names)
     \<and> wm_watchers (foldl (\<lambda>m name. WatchStop name m) m names) = filter (\<lambda>p. fst p \<notin> set names) (wm_watchers m)"
proof (induction names arbitrary: m)
  case (Cons name names)
  from WatchStop_inv [OF Cons.prems, of name] Cons.IH [of "WatchStop name m"] show ?case
    by (auto simp: AList.delete_eq intro: filter_cong)
qed simp

text \<open>No watcher leaks: every watcher ever started has been stopped or is the one of its service, and a
  service has at most one; stopping all leaves none.\<close>

theorem watchers_never_leak:
  assumes "watch_inv m"
  shows "watch_inv (snd (WatchStart nw add disk name paths m)) \<and> watch_inv (WatchStop name m)
    \<and> watch_inv (WatchStopAll m) \<and> wm_closed (WatchStopAll m) = {0..<wm_next (WatchStopAll m)}"
proof -
  have all: "watch_inv (WatchStopAll m)" "wm_watchers (WatchStopAll m) = []"
    using stop_names [OF assms, of "map fst (wm_watchers m)"] by (auto simp: WatchStopAll_def filter_empty_conv)
  then have "wm_closed (WatchStopAll m) = {0..<wm_next (WatchStopAll m)}" by (simp add: watch_inv_def)
  with all(1) WatchStart_inv [OF assms] WatchStop_inv [OF assms] show ?thesis by blast
qed

definition demo_watch :: watch_manager where
  "demo_watch = snd (WatchStart None (\<lambda>_. None) (\<lambda>_. DirNode ''src'' [DirNode ''.git'' [], DirNode ''a'' []])
     ''api'' [''/src''] NewWatchers)"

theorem watchers_never_leak_witness:
  "wm_closed (WatchStopAll demo_watch) = {0..<wm_next (WatchStopAll demo_watch)}
     \<and> map_sum id id (fst (WatchStart None (\<lambda>_. None) (\<lambda>_. DirNode ''src'' [DirNode ''.git'' [], DirNode ''a'' []])
         ''api'' [''/src''] NewWatchers)) = Inr [''/src'', ''/src/a'']"
proof
  have "watch_inv demo_watch" unfolding demo_watch_def by (rule WatchStart_inv [OF watch_inv_new])
  from watchers_never_leak [OF this] show "wm_closed (WatchStopAll demo_watch) = {0..<wm_next (WatchStopAll demo_watch)}"
    by blast
  show "map_sum id id (fst (WatchStart None (\<lambda>_. None) (\<lambda>_. DirNode ''src'' [DirNode ''.git'' [], DirNode ''a'' []])
      ''api'' [''/src''] NewWatchers)) = Inr [''/src'', ''/src/a'']"
    by code_simp
qed

section \<open>Debouncing\<close>

definition debounceDelay :: int where "debounceDelay = 500000000"

record watch_event =
  we_path :: string
  we_write :: bool
  we_create :: bool
  we_rename :: bool

definition relevant :: "watch_event \<Rightarrow> bool" where
  "relevant ev \<longleftrightarrow>
     (if we_write ev \<or> we_create ev \<or> we_rename ev
      then (let base = path_base (we_path ev) in
            \<not> (base \<noteq> '''' \<and> (hd base = CHR ''.'' \<or> hd base = CHR ''#'')))
      else False)"

text \<open>A callback of generation \<open>g\<close>: its timer is armed until a time, has fired, or has passed the
  check that the watcher is not stopped.\<close>

datatype callback = Armed nat int | Fired nat | Passed nat

fun generation_of :: "callback \<Rightarrow> nat" where
  "generation_of (Armed g t) = g"
| "generation_of (Fired g) = g"
| "generation_of (Passed g) = g"

record debounce =
  db_now :: int
  db_generation :: nat
  db_lastTrigger :: string
  db_eventCount :: nat
  db_timer :: "nat option"
  db_callbacks :: "callback list"
  db_done :: bool
  db_loop :: bool
  db_triggers :: "(string \<times> nat) list"

definition new_debounce :: "int \<Rightarrow> debounce" where
  "new_debounce t =
     \<lparr>db_now = t, db_generation = 0, db_lastTrigger = '''', db_eventCount = 0, db_timer = None,
      db_callbacks = [], db_done = False, db_loop = True, db_triggers = []\<rparr>"

text \<open>Stopping the timer has an effect while it is armed.\<close>

definition armed :: "nat \<Rightarrow> callback \<Rightarrow> bool" where
  "armed g c = (case c of Armed h t \<Rightarrow> h = g | _ \<Rightarrow> False)"

definition stop_timer :: "debounce \<Rightarrow> debounce" where
  "stop_timer d =
     (case db_timer d of
        None \<Rightarrow> d
      | Some g \<Rightarrow> d\<lparr>db_callbacks := filter (\<lambda>c. \<not> armed g c) (db_callbacks d)\<rparr>)"

definition resetDebounce :: "string \<Rightarrow> debounce \<Rightarrow> debounce" where
  "resetDebounce path d =
     (let g = Suc (db_generation d);
          d1 = stop_timer (d\<lparr>db_lastTrigger := path, db_eventCount := Suc (db_eventCount d), db_generation := g\<rparr>)
      in d1\<lparr>db_timer := Some g, db_callbacks := db_callbacks d1 @ [Armed g (db_now d + debounceDelay)]\<rparr>)"

definition become :: "callback \<Rightarrow> callback list \<Rightarrow> debounce \<Rightarrow> debounce" where
  "become c cs d = d\<lparr>db_callbacks := cs @ remove1 c (db_callbacks d)\<rparr>"

text \<open>The body of a callback under the lock.\<close>

definition run_callback :: "nat \<Rightarrow> debounce \<Rightarrow> debounce" where
  "run_callback g d =
     (if db_generation d \<noteq> g then d
      else d\<lparr>db_eventCount := 0, db_timer := None,
             db_triggers := db_triggers d @ [(db_lastTrigger d, db_eventCount d)]\<rparr>)"

text \<open>The loop takes events as long as it has not seen that it is to stop.\<close>

inductive watch_step :: "debounce \<Rightarrow> debounce \<Rightarrow> bool" where
  event: "db_loop d \<Longrightarrow> relevant ev \<Longrightarrow> watch_step d (resetDebounce (we_path ev) d)"
| skip: "db_loop d \<Longrightarrow> \<not> relevant ev \<Longrightarrow> watch_step d d"
| elapse: "db_now d < t \<Longrightarrow> watch_step d (d\<lparr>db_now := t\<rparr>)"
| fire: "Armed g t \<in> set (db_callbacks d) \<Longrightarrow> t \<le> db_now d \<Longrightarrow> watch_step d (become (Armed g t) [Fired g] d)"
| stopped: "Fired g \<in> set (db_callbacks d) \<Longrightarrow> db_done d \<Longrightarrow> watch_step d (become (Fired g) [] d)"
| passes: "Fired g \<in> set (db_callbacks d) \<Longrightarrow> \<not> db_done d \<Longrightarrow> watch_step d (become (Fired g) [Passed g] d)"
| run: "Passed g \<in> set (db_callbacks d) \<Longrightarrow> watch_step d (run_callback g (become (Passed g) [] d))"
| close: "watch_step d (d\<lparr>db_done := True\<rparr>)"
| quit: "db_loop d \<Longrightarrow> db_done d \<Longrightarrow> watch_step d (stop_timer (d\<lparr>db_loop := False\<rparr>))"

section \<open>Debouncing loses and invents no event\<close>

definition gens :: "debounce \<Rightarrow> nat list" where
  "gens d = map generation_of (db_callbacks d)"

definition debounce_inv :: "debounce \<Rightarrow> bool" where
  "debounce_inv d \<longleftrightarrow> distinct (gens d) \<and> (\<forall>g \<in> set (gens d). g \<le> db_generation d)
     \<and> (db_generation d \<in> set (gens d) \<longrightarrow> 0 < db_eventCount d)
     \<and> (0 < db_eventCount d \<and> \<not> db_done d \<longrightarrow> db_generation d \<in> set (gens d))
     \<and> sum_list (map snd (db_triggers d)) + db_eventCount d = db_generation d
     \<and> (\<forall>(p, n) \<in> set (db_triggers d). 0 < n) \<and> (\<not> db_loop d \<longrightarrow> db_done d)"

lemma gens_stop [simp]: "set (gens (stop_timer d)) \<subseteq> set (gens d)"
  by (auto simp: gens_def stop_timer_def split: option.split)

lemma distinct_gens_stop: "distinct (gens d) \<Longrightarrow> distinct (gens (stop_timer d))"
  by (auto simp: gens_def stop_timer_def distinct_map_filter split: option.split)

lemma stop_fields [simp]:
  "db_generation (stop_timer d) = db_generation d" "db_eventCount (stop_timer d) = db_eventCount d"
  "db_triggers (stop_timer d) = db_triggers d" "db_done (stop_timer d) = db_done d"
  "db_loop (stop_timer d) = db_loop d" "db_now (stop_timer d) = db_now d"
  "db_lastTrigger (stop_timer d) = db_lastTrigger d"
  by (simp_all add: stop_timer_def split: option.split)

lemma become_fields [simp]:
  "db_generation (become c cs d) = db_generation d" "db_eventCount (become c cs d) = db_eventCount d"
  "db_triggers (become c cs d) = db_triggers d" "db_done (become c cs d) = db_done d"
  "db_loop (become c cs d) = db_loop d" "db_now (become c cs d) = db_now d"
  "db_lastTrigger (become c cs d) = db_lastTrigger d" "db_callbacks (become c cs d) = cs @ remove1 c (db_callbacks d)"
  by (simp_all add: become_def)

lemma gens_become:
  assumes "c \<in> set (db_callbacks d)" and "distinct (gens d)"
  shows "set (gens (become c cs d)) = set (map generation_of cs) \<union> (set (gens d) - {generation_of c})"
    "distinct (map generation_of (remove1 c (db_callbacks d)))"
    "generation_of c \<notin> generation_of ` set (remove1 c (db_callbacks d))"
proof -
  have inj: "inj_on generation_of (set (db_callbacks d))" and d: "distinct (db_callbacks d)"
    using assms(2) by (simp_all add: gens_def distinct_map)
  show "distinct (map generation_of (remove1 c (db_callbacks d)))"
    using d inj by (simp add: distinct_map inj_on_diff)
  show "generation_of c \<notin> generation_of ` set (remove1 c (db_callbacks d))"
    using d inj assms(1) by (auto simp: inj_on_def)
  then show "set (gens (become c cs d)) = set (map generation_of cs) \<union> (set (gens d) - {generation_of c})"
    using d by (auto simp: gens_def)
qed

lemma advance_gens:
  assumes "c \<in> set (db_callbacks d)" and "distinct (gens d)" and "generation_of c' = generation_of c"
  shows "set (gens (become c [c'] d)) = set (gens d)" "distinct (gens (become c [c'] d))"
proof -
  have "generation_of c \<in> set (gens d)" using assms(1) by (simp add: gens_def)
  then show "set (gens (become c [c'] d)) = set (gens d)"
    using gens_become(1) [OF assms(1,2), of "[c']"] assms(3) by auto
  show "distinct (gens (become c [c'] d))"
    using gens_become(2,3) [OF assms(1,2)] assms(3) by (simp add: gens_def)
qed

lemma drop_gens:
  assumes "c \<in> set (db_callbacks d)" and "distinct (gens d)"
  shows "set (gens (become c [] d)) = set (gens d) - {generation_of c}" "distinct (gens (become c [] d))"
  using gens_become(1) [OF assms, of "[]"] gens_become(2) [OF assms] by (simp_all add: gens_def)

lemma inv_advance:
  "debounce_inv d \<Longrightarrow> c \<in> set (db_callbacks d) \<Longrightarrow> generation_of c' = generation_of c \<Longrightarrow>
   debounce_inv (become c [c'] d)"
  by (simp add: debounce_inv_def advance_gens)

lemma inv_drop:
  "debounce_inv d \<Longrightarrow> c \<in> set (db_callbacks d) \<Longrightarrow> db_done d \<or> generation_of c \<noteq> db_generation d \<Longrightarrow>
   debounce_inv (become c [] d)"
  by (auto simp: debounce_inv_def drop_gens)

lemma resetDebounce_gens:
  "gens (resetDebounce path d) = gens (stop_timer d) @ [Suc (db_generation d)]"
  by (simp add: resetDebounce_def Let_def gens_def stop_timer_def split: option.split)

lemma resetDebounce_fields [simp]:
  "db_generation (resetDebounce path d) = Suc (db_generation d)"
  "db_eventCount (resetDebounce path d) = Suc (db_eventCount d)"
  "db_triggers (resetDebounce path d) = db_triggers d" "db_done (resetDebounce path d) = db_done d"
  "db_loop (resetDebounce path d) = db_loop d" "db_now (resetDebounce path d) = db_now d"
  by (simp_all add: resetDebounce_def Let_def)

lemma run_fields [simp]:
  "db_generation (run_callback g d) = db_generation d" "db_callbacks (run_callback g d) = db_callbacks d"
  "db_done (run_callback g d) = db_done d" "db_loop (run_callback g d) = db_loop d"
  "db_now (run_callback g d) = db_now d"
  by (simp_all add: run_callback_def)

lemma debounce_inv_step: "watch_step d d' \<Longrightarrow> debounce_inv d \<Longrightarrow> debounce_inv d'"
proof (induction rule: watch_step.induct)
  case (event d ev)
  from event(3) have le: "\<forall>g \<in> set (gens d). g \<le> db_generation d" and d: "distinct (gens d)"
    by (simp_all add: debounce_inv_def)
  from le gens_stop [of d] have le': "\<forall>g \<in> set (gens (stop_timer d)). g \<le> db_generation d" by blast
  then have "Suc (db_generation d) \<notin> set (gens (stop_timer d))" by auto
  with event(3) le' distinct_gens_stop [OF d] show ?case
    by (simp add: debounce_inv_def resetDebounce_gens le_SucI)
next
  case (fire g t d)
  then show ?case by (intro inv_advance) simp_all
next
  case (stopped g d)
  then show ?case by (intro inv_drop) simp_all
next
  case (passes g d)
  then show ?case by (intro inv_advance) simp_all
next
  case (run g d)
  show ?case
  proof (cases "db_generation d = g")
    case True
    have "g \<in> set (gens d)" using run(1) by (force simp: gens_def)
    with run(2) True have pos: "0 < db_eventCount d" and d: "distinct (gens d)"
      by (simp_all add: debounce_inv_def)
    have "gens (run_callback g (become (Passed g) [] d)) = gens (become (Passed g) [] d)" by (simp add: gens_def)
    with run True pos drop_gens [OF run(1) d] show ?thesis
      by (auto simp: debounce_inv_def run_callback_def)
  next
    case False
    with run show ?thesis by (simp add: run_callback_def inv_drop)
  qed
next
  case (quit d)
  let ?d = "d\<lparr>db_loop := False\<rparr>"
  have "gens ?d = gens d" by (simp add: gens_def)
  then have sub: "set (gens (stop_timer ?d)) \<subseteq> set (gens d)" and "distinct (gens d) \<Longrightarrow> distinct (gens (stop_timer ?d))"
    using gens_stop [of ?d] distinct_gens_stop [of ?d] by simp_all
  with quit show ?case by (simp add: debounce_inv_def) blast
qed (auto simp: debounce_inv_def gens_def)

lemma debounce_reachable: "watch_step\<^sup>*\<^sup>* (new_debounce t) d \<Longrightarrow> debounce_inv d"
proof (induction rule: rtranclp_induct)
  case base
  show ?case by (simp add: debounce_inv_def new_debounce_def gens_def)
qed (rule debounce_inv_step)

text \<open>Debouncing neither loses nor invents an event: at any moment, the relevant events that
  have happened are those reported with the triggers so far plus those still waiting; no trigger is
  empty; and waiting events of a watcher that is not being stopped have a callback that will report
  them.\<close>

theorem debounce_accounts:
  assumes "watch_step\<^sup>*\<^sup>* (new_debounce t) d"
  shows "sum_list (map snd (db_triggers d)) + db_eventCount d = db_generation d
    \<and> (\<forall>(p, n) \<in> set (db_triggers d). 0 < n)
    \<and> (0 < db_eventCount d \<and> \<not> db_done d \<longrightarrow> (\<exists>c \<in> set (db_callbacks d). generation_of c = db_generation d))"
  using debounce_reachable [OF assms] by (auto simp: debounce_inv_def gens_def)

section \<open>The quiet period, and that it ends\<close>

lemma run_match: "db_generation d = g \<Longrightarrow> db_triggers (run_callback g d) = db_triggers d @ [(db_lastTrigger d, db_eventCount d)]"
  by (simp add: run_callback_def)


text \<open>What can happen after an event until the next: no callback of its generation leaves its timer early.\<close>

definition quiet_until :: "int \<Rightarrow> nat \<Rightarrow> (string \<times> nat) list \<Rightarrow> debounce \<Rightarrow> bool" where
  "quiet_until u g triggers d \<longleftrightarrow> g \<le> db_generation d
     \<and> (db_generation d = g \<longrightarrow> u \<le> db_now d
          \<or> db_triggers d = triggers
            \<and> (\<forall>c \<in> set (db_callbacks d). generation_of c = g \<longrightarrow> c = Armed g u))"

lemma quiet_step: "watch_step d d' \<Longrightarrow> quiet_until u g triggers d \<Longrightarrow> quiet_until u g triggers d'"
proof (induction rule: watch_step.induct)
  case (fire h v d)
  then show ?case by (auto simp: quiet_until_def dest: notin_set_remove1)
next
  case (run h d)
  then show ?case by (auto simp: quiet_until_def run_callback_def dest: notin_set_remove1)
next
  case (quit d)
  then show ?case by (auto simp: quiet_until_def stop_timer_def split: option.split)
qed (auto simp: quiet_until_def dest: notin_set_remove1)

text \<open>A trigger is reported only after the quiet period: whatever happens after a relevant event, as
  long as no other one follows, nothing is reported before 500 ms have passed.\<close>

theorem debounce_quiet:
  assumes "watch_step\<^sup>*\<^sup>* (new_debounce t) d" and "watch_step\<^sup>*\<^sup>* (resetDebounce path d) d'"
    and "db_generation d' = db_generation (resetDebounce path d)"
    and "db_triggers d' \<noteq> db_triggers d"
  shows "db_now d + debounceDelay \<le> db_now d'"
proof -
  let ?u = "db_now d + debounceDelay" and ?g = "Suc (db_generation d)"
  have le: "\<forall>g \<in> set (gens d). g \<le> db_generation d"
    using debounce_reachable [OF assms(1)] by (simp add: debounce_inv_def)
  have "quiet_until ?u ?g (db_triggers d) (resetDebounce path d)"
    using le by (auto simp: quiet_until_def resetDebounce_def Let_def stop_timer_def gens_def split: option.split)
  from assms(2) this have "quiet_until ?u ?g (db_triggers d) d'"
    by (induction rule: rtranclp_induct) (auto intro: quiet_step)
  with assms(3,4) show ?thesis by (simp add: quiet_until_def)
qed

definition demo_event :: debounce where
  "demo_event = resetDebounce ''src/main.go'' (new_debounce 0)"

lemma demo_event_reachable: "watch_step\<^sup>*\<^sup>* (new_debounce 0) demo_event"
proof -
  have "relevant \<lparr>we_path = ''src/main.go'', we_write = True, we_create = False, we_rename = False\<rparr>" by code_simp
  with watch_step.event [OF _ this, of "new_debounce 0"] show ?thesis
    by (simp add: demo_event_def new_debounce_def r_into_rtranclp)
qed


theorem debounce_quiet_witness:
  "\<exists>d'. watch_step\<^sup>*\<^sup>* demo_event d' \<and> db_triggers d' \<noteq> [] \<and> debounceDelay \<le> db_now d'"
proof -
  let ?d1 = "demo_event\<lparr>db_now := debounceDelay\<rparr>"
  let ?d2 = "become (Armed 1 debounceDelay) [Fired 1] ?d1"
  let ?d3 = "become (Fired 1) [Passed 1] ?d2"
  let ?d4 = "run_callback 1 (become (Passed 1) [] ?d3)"
  have demo: "db_callbacks demo_event = [Armed 1 debounceDelay]" "db_generation demo_event = 1"
      "db_now demo_event = 0" "\<not> db_done demo_event" "db_triggers demo_event = []"
    by (simp_all add: demo_event_def resetDebounce_def stop_timer_def new_debounce_def)
  have "watch_step demo_event ?d1" using demo(3) by (intro watch_step.elapse) (simp add: debounceDelay_def)
  moreover have "watch_step ?d1 ?d2" using demo(1) by (intro watch_step.fire) simp_all
  moreover have "watch_step ?d2 ?d3" using demo(4) by (intro watch_step.passes) simp_all
  moreover have "watch_step ?d3 ?d4" by (intro watch_step.run) simp
  ultimately have run: "watch_step\<^sup>*\<^sup>* demo_event ?d4"
    by (meson converse_rtranclp_into_rtranclp rtranclp.rtrancl_refl)
  have fields: "db_generation ?d4 = db_generation demo_event" "db_triggers ?d4 \<noteq> []"
    using demo(2,5) by (simp_all add: run_match)
  have "debounceDelay \<le> db_now ?d4"
    using debounce_quiet [of 0 "new_debounce 0" "''src/main.go''" ?d4] run fields
    unfolding demo_event_def by (simp add: new_debounce_def)
  with run fields(2) show ?thesis by blast
qed

theorem debounce_accounts_witness: "db_eventCount demo_event = 1 \<and> (\<exists>c \<in> set (db_callbacks demo_event). generation_of c = 1)"
  using debounce_accounts [OF demo_event_reachable]
  by (simp add: demo_event_def resetDebounce_def stop_timer_def new_debounce_def)

end
