(* ===== verification/Setup.thy ===== *)
theory Setup
  imports Config Envfile
begin

text \<open>
  \<^verbatim>\<open>internal/setup/setup.go\<close>: what a repository is written in, whether it meets the service contract,
  and what is left to do. The repository is read through \<open>repo_env\<close>: which paths exist, what a
  file holds, what a directory lists and which tree lies below it. Texts are in UTF-8.
\<close>

section \<open>The repository\<close>

datatype src_node = SrcFile string | SrcDir string "src_node list" | SrcUnreadable string

record repo_env =
  re_abs :: "string \<Rightarrow> err + string"
  re_exists :: "string \<Rightarrow> bool"
  re_read :: "string \<Rightarrow> err + string"
  re_readdir :: "string \<Rightarrow> err + (string \<times> bool) list"
  re_tree :: "string \<Rightarrow> src_node"

fun src_name :: "src_node \<Rightarrow> string" where
  "src_name (SrcFile n) = n"
| "src_name (SrcDir n cs) = n"
| "src_name (SrcUnreadable n) = n"


definition dq :: string where "dq = [CHR 0x22]"
definition check_mark :: string where "check_mark = [CHR 0xE2, CHR 0x9C, CHR 0x93]"

definition lines_text :: "string list \<Rightarrow> string" where
  "lines_text ls = concat (map (\<lambda>l. l @ [newline]) ls)"

datatype language = Go | NodeJS | Python | Rust | DotNet | UnknownLanguage | NoLanguage | OtherLanguage string

primrec language_text :: "language \<Rightarrow> string" where
  "language_text Go = ''go''"
| "language_text NodeJS = ''node''"
| "language_text Python = ''python''"
| "language_text Rust = ''rust''"
| "language_text DotNet = ''dotnet''"
| "language_text UnknownLanguage = ''unknown''"
| "language_text NoLanguage = ''''"
| "language_text (OtherLanguage s) = s"

section \<open>Detection\<close>

definition file_at :: "string \<Rightarrow> string list \<Rightarrow> string" where
  "file_at root names = path_join (root # names)"

text \<open>\<^verbatim>\<open>filepath.Ext\<close>: from the last dot of the last component.\<close>

definition path_ext :: "string \<Rightarrow> string" where
  "path_ext p =
     (let b = snd (last_slash p) in
      if CHR ''.'' \<in> set b then CHR ''.'' # rev (takeWhile (\<lambda>c. c \<noteq> CHR ''.'') (rev b)) else '''')"

definition detectLanguage :: "repo_env \<Rightarrow> string \<Rightarrow> language" where
  "detectLanguage E root =
     (if (case re_readdir E root of
            Inl _ \<Rightarrow> False
          | Inr entries \<Rightarrow> list_ex (\<lambda>(name, isDir). \<not> isDir \<and> path_ext name = ''.csproj'') entries)
      then DotNet
      else (case find (\<lambda>(name, lang). re_exists E (file_at root [name]))
                   [(''go.mod'', Go), (''package.json'', NodeJS), (''pyproject.toml'', Python),
                    (''setup.py'', Python), (''Cargo.toml'', Rust)] of
              Some (_, lang) \<Rightarrow> lang
            | None \<Rightarrow> UnknownLanguage))"

text \<open>\<^verbatim>\<open>filepath.Walk\<close> with the visitor of \<open>searchFiles\<close>: a directory to skip is left out with all below
  it, also when it is the root; what cannot be read is passed over; the first match ends it.\<close>

definition skipDirs :: "string list" where
  "skipDirs = [''vendor'', ''node_modules'', ''.git'', ''dist'', ''build'', ''.anito'']"

definition search_file :: "repo_env \<Rightarrow> string list \<Rightarrow> string list \<Rightarrow> string \<Rightarrow> bool" where
  "search_file E exts patterns path =
     list_ex (\<lambda>ext. has_suffix path ext \<and>
       (case re_read E path of Inl _ \<Rightarrow> False | Inr content \<Rightarrow> list_ex (str_contains content) patterns)) exts"

fun search_node :: "repo_env \<Rightarrow> string list \<Rightarrow> string list \<Rightarrow> string \<Rightarrow> src_node \<Rightarrow> bool" where
  "search_node E exts patterns path (SrcFile n) = search_file E exts patterns path"
| "search_node E exts patterns path (SrcUnreadable n) = False"
| "search_node E exts patterns path (SrcDir n cs) =
     (n \<notin> set skipDirs \<and> list_ex (\<lambda>c. search_node E exts patterns (file_at path [src_name c]) c) cs)"

definition searchFiles :: "repo_env \<Rightarrow> string \<Rightarrow> string list \<Rightarrow> string list \<Rightarrow> bool" where
  "searchFiles E root exts patterns = search_node E exts patterns root (re_tree E root)"

definition port_patterns :: "language \<Rightarrow> string list \<times> string list" where
  "port_patterns lang =
     (case lang of
        Go \<Rightarrow> ([''.go''], [''os.Getenv('' @ dq @ ''PORT'' @ dq @ '')'', ''os.LookupEnv('' @ dq @ ''PORT'' @ dq @ '')''])
      | NodeJS \<Rightarrow> ([''.js'', ''.ts'', ''.mjs'', ''.cjs''], [''process.env.PORT''])
      | Python \<Rightarrow> ([''.py''], [''environ.get('' @ dq @ ''PORT'' @ dq @ '')'', ''environ['' @ dq @ ''PORT'' @ dq @ '']'', ''os.getenv('' @ dq @ ''PORT'' @ dq @ '')''])
      | Rust \<Rightarrow> ([''.rs''], [''env::var('' @ dq @ ''PORT'' @ dq @ '')''])
      | DotNet \<Rightarrow> ([''.cs'', ''.csproj''],
          [''ASPNETCORE_HTTP_PORTS'', ''ASPNETCORE_URLS'', ''GetEnvironmentVariable('' @ dq @ ''PORT'' @ dq @ '')''])
      | _ \<Rightarrow> ([''.go'', ''.js'', ''.ts'', ''.py'', ''.rs''], [''PORT'']))"

definition detectPORTUsage :: "repo_env \<Rightarrow> string \<Rightarrow> language \<Rightarrow> bool" where
  "detectPORTUsage E root lang = (case port_patterns lang of (exts, ps) \<Rightarrow> searchFiles E root exts ps)"

definition health_exts :: "language \<Rightarrow> string list" where
  "health_exts lang =
     (case lang of
        Go \<Rightarrow> [''.go'']
      | NodeJS \<Rightarrow> [''.js'', ''.ts'', ''.mjs'']
      | Python \<Rightarrow> [''.py'']
      | Rust \<Rightarrow> [''.rs'']
      | DotNet \<Rightarrow> [''.cs'']
      | _ \<Rightarrow> [''.go'', ''.js'', ''.ts'', ''.py'', ''.rs''])"

definition detectHealthRoute :: "repo_env \<Rightarrow> string \<Rightarrow> language \<Rightarrow> bool" where
  "detectHealthRoute E root lang =
     searchFiles E root (health_exts lang)
       (if lang = DotNet then [''MapHealthChecks'', ''AddHealthChecks'']
        else [dq @ ''/health'' @ dq, [CHR 0x27] @ ''/health'' @ [CHR 0x27]])"

section \<open>Build, config and instructions\<close>

definition inferBuildAndOutput :: "repo_env \<Rightarrow> string \<Rightarrow> string \<Rightarrow> language \<Rightarrow> string \<times> string" where
  "inferBuildAndOutput E root name lang =
     (case lang of
        Go \<Rightarrow>
          (''go build -o ./dist/'' @ name @
             (if re_exists E (file_at root [''cmd'', name, ''main.go'']) then '' ./cmd/'' @ name @ ''/''
              else if re_exists E (file_at root [''cmd'', ''main.go'']) then '' ./cmd/''
              else '' .''),
           ''./dist/'' @ name)
      | NodeJS \<Rightarrow> (''npm run build'', ''./dist'')
      | Python \<Rightarrow> ('''', ''./'' @ name @ ''.py'')
      | _ \<Rightarrow> ('''', ''./'' @ name))"

definition generateConfig :: "string \<Rightarrow> string \<Rightarrow> string \<Rightarrow> string" where
  "generateConfig name build outputPath = lines_text
     ([''# .anito/config.yaml'', ''name: '' @ name,
       ''# version: v0.1.0  # set this '' @ em_dash @ '' omit to auto-generate a sha: hash'',
       ''# version_path: ./dist  # use when output is a stable wrapper script'', ''type: binary''] @
      (if build \<noteq> '''' then [''build: '' @ build] else []) @
      (if outputPath \<noteq> '''' then [''output: '' @ outputPath] else []) @
      [''health_check: /health'', ''# port: 3000  # omit to auto-allocate from 8100-8200''])"

definition portFix :: "language \<Rightarrow> string" where
  "portFix lang =
     (case lang of
        Go \<Rightarrow> ''Read PORT at startup: port := os.Getenv('' @ dq @ ''PORT'' @ dq @ ''); if port == '' @ dq @ dq @ '' { port = '' @ dq @ ''8080'' @ dq @ '' } '' @ em_dash @ '' then pass it to your HTTP server''
      | NodeJS \<Rightarrow> ''Use process.env.PORT: const port = process.env.PORT || 3000''
      | Python \<Rightarrow> ''Use os.environ: port = int(os.environ.get('' @ dq @ ''PORT'' @ dq @ '', 8080))''
      | _ \<Rightarrow> ''Read the PORT environment variable and bind your HTTP server to that port'')"

definition healthFix :: "language \<Rightarrow> string" where
  "healthFix lang =
     (case lang of
        Go \<Rightarrow> ''Add: mux.HandleFunc('' @ dq @ ''/health'' @ dq @ '', func(w http.ResponseWriter, r *http.Request) { w.WriteHeader(http.StatusOK) })''
      | NodeJS \<Rightarrow> ''Add: app.get('/health', (req, res) => res.sendStatus(200))''
      | Python \<Rightarrow> ''Add a route: @app.route('/health') def health(): return '' @ [CHR 0x27] @ [CHR 0x27] @ '', 200''
      | _ \<Rightarrow> ''Expose GET /health returning HTTP 200 OK'')"

record setup_issue =
  si_Severity :: string
  si_What :: string
  si_Fix :: string

record inspection =
  in_RepoPath :: string
  in_ServiceName :: string
  in_Language :: language
  in_HasAnitoConfig :: bool
  in_HasPORT :: bool
  in_HasHealthRoute :: bool
  in_SuggestedConfig :: string
  in_Issues :: "setup_issue list"
  in_Instructions :: "string list"

text \<open>Numbered steps.\<close>

definition numbered :: "nat \<Rightarrow> string list \<Rightarrow> string list" where
  "numbered n ls = map (\<lambda>(i, l). show_int (int i) @ ''. '' @ l) (enumerate n ls)"

definition contract_steps :: "inspection \<Rightarrow> string list" where
  "contract_steps r =
     (if in_HasPORT r then [] else [''Add PORT env var reading: '' @ portFix (in_Language r)]) @
     (if in_HasHealthRoute r then [] else [''Add a health endpoint: '' @ healthFix (in_Language r)]) @
     (if in_HasAnitoConfig r then []
      else [''Create .anito/ directory and save the suggested config as .anito/config.yaml''])"

definition release_steps :: "inspection \<Rightarrow> string list" where
  "release_steps r =
     [''Set a version: add `version: v0.1.0` to .anito/config.yaml. Bump this on every release. If omitted, Anito auto-generates a SHA hash (sha:xxxxxxxx) which is unique but not human-readable.'',
      ''If `output` is a stable wrapper script, set `version_path` to the built artifact file or directory so Anito reports changes on every deploy.'',
      ''Test locally: build the binary and confirm GET /health returns 200'',
      ''Deploy: run `anito deploy` from '' @ in_RepoPath r @
        '' '' @ em_dash @ '' the stable_port in the response is permanent. Record it. All other services and agents that connect to this service must use that address. It will never change on redeploy.'',
      ''Test environment: consider deploying a second instance with a different name (e.g. '' @ in_ServiceName r @
        ''-test) pointing at a test database or config. Give it its own stable port. Keep prod and test ports separate and treat both as permanent.'']"

definition generateInstructions :: "inspection \<Rightarrow> string list" where
  "generateInstructions r =
     (let steps = contract_steps r in
      (if steps = [] then [check_mark @ '' This repo already meets the Anito service contract.'']
       else numbered 1 steps) @ numbered (length steps + 1) (release_steps r))"

definition contract_issues :: "inspection \<Rightarrow> setup_issue list" where
  "contract_issues r =
     (if in_HasPORT r then []
      else [\<lparr>si_Severity = ''required'', si_What = ''Service does not read PORT from the environment'',
             si_Fix = portFix (in_Language r)\<rparr>]) @
     (if in_HasHealthRoute r then []
      else [\<lparr>si_Severity = ''required'', si_What = ''No GET /health endpoint detected'',
             si_Fix = healthFix (in_Language r)\<rparr>]) @
     (if in_HasAnitoConfig r then []
      else [\<lparr>si_Severity = ''required'', si_What = ''No .anito/config.yaml found'',
             si_Fix = ''Create .anito/config.yaml using the suggested config in this response''\<rparr>])"

definition Inspect :: "repo_env \<Rightarrow> string \<Rightarrow> err + inspection" where
  "Inspect E path =
     (case re_abs E path of
        Inl e \<Rightarrow> Inl e
      | Inr root \<Rightarrow>
          if \<not> re_exists E root then Inl (Errorf ''path %q does not exist'' [FStr root])
          else
            (let name = path_base root; lang = detectLanguage E root;
                 found = \<lparr>in_RepoPath = root, in_ServiceName = name, in_Language = lang,
                   in_HasAnitoConfig = re_exists E (file_at root [''.anito'', ''config.yaml'']),
                   in_HasPORT = detectPORTUsage E root lang, in_HasHealthRoute = detectHealthRoute E root lang,
                   in_SuggestedConfig = '''', in_Issues = [], in_Instructions = []\<rparr>;
                 (build, outputPath) = inferBuildAndOutput E root name lang
             in Inr (found\<lparr>in_Issues := contract_issues found,
                       in_SuggestedConfig := generateConfig name build outputPath,
                       in_Instructions := generateInstructions found\<rparr>)))"

section \<open>What the search finds\<close>

text \<open>The files below a node, without what lies in a directory to skip.\<close>

inductive source_file :: "string \<Rightarrow> src_node \<Rightarrow> string \<Rightarrow> bool" where
  here: "source_file path (SrcFile n) path"
| below: "n \<notin> set skipDirs \<Longrightarrow> c \<in> set cs \<Longrightarrow> source_file (file_at path [src_name c]) c f
    \<Longrightarrow> source_file path (SrcDir n cs) f"

inductive_simps source_file_simps [simp]:
  "source_file path (SrcFile n) f" "source_file path (SrcDir n cs) f" "source_file path (SrcUnreadable n) f"

lemma search_node_iff:
  "search_node E exts patterns path node \<longleftrightarrow> (\<exists>f. source_file path node f \<and> search_file E exts patterns f)"
  by (induction E exts patterns path node rule: search_node.induct) (auto simp: list_ex_iff)

lemma search_file_iff:
  "search_file E exts patterns f \<longleftrightarrow> (\<exists>ext \<in> set exts. has_suffix f ext)
     \<and> (\<exists>content. re_read E f = Inr content \<and> (\<exists>p \<in> set patterns. str_contains content p))"
  by (cases "re_read E f") (auto simp: search_file_def list_ex_iff)

text \<open>A repository is said to read PORT, or to have a health route, exactly when some source file of its
  language that is not below a skipped directory can be read and holds one of the patterns.\<close>

theorem searchFiles_iff:
  "searchFiles E root exts patterns \<longleftrightarrow>
     (\<exists>f content. source_file root (re_tree E root) f \<and> (\<exists>ext \<in> set exts. has_suffix f ext)
        \<and> re_read E f = Inr content \<and> (\<exists>p \<in> set patterns. str_contains content p))"
  unfolding searchFiles_def search_node_iff search_file_iff by blast

lemma search_below_skipped:
  "re_tree E root = SrcDir n cs \<Longrightarrow> n \<in> set skipDirs \<Longrightarrow> \<not> searchFiles E root exts patterns"
  by (simp add: searchFiles_def)

lemma length_numbered: "length (numbered n ls) = length ls"
  by (simp add: numbered_def)

lemma generateInstructions_length: "length (generateInstructions r) = max 1 (length (contract_steps r)) + 5"
proof -
  have five: "length (release_steps r) = 5" unfolding release_steps_def by (simp only: list.size)
  show ?thesis
    by (cases "contract_steps r") (simp_all add: generateInstructions_def Let_def length_numbered five
        del: append.simps)
qed

lemma contract_counts: "length (contract_issues r) = length (contract_steps r)"
  by (simp only: contract_issues_def contract_steps_def length_append split: if_split) simp

lemma contract_met: "contract_issues r = [] \<longleftrightarrow> in_HasPORT r \<and> in_HasHealthRoute r \<and> in_HasAnitoConfig r"
  by (simp only: contract_issues_def append_is_Nil_conv split: if_split) simp

text \<open>An inspection lists exactly the unmet parts of the contract, with a numbered step for
  each; when all are met there is no issue and the instructions say so.\<close>

theorem Inspect_contract:
  assumes "Inspect E path = Inr r"
  shows "(in_Issues r = [] \<longleftrightarrow> in_HasPORT r \<and> in_HasHealthRoute r \<and> in_HasAnitoConfig r)
    \<and> length (in_Instructions r) = max 1 (length (in_Issues r)) + 5
    \<and> re_abs E path = Inr (in_RepoPath r) \<and> re_exists E (in_RepoPath r)
    \<and> in_HasPORT r = detectPORTUsage E (in_RepoPath r) (detectLanguage E (in_RepoPath r))
    \<and> in_HasHealthRoute r = detectHealthRoute E (in_RepoPath r) (detectLanguage E (in_RepoPath r))"
proof -
  obtain root where root: "re_abs E path = Inr root" "re_exists E root"
    using assms by (auto simp: Inspect_def split: sum.splits if_splits)
  obtain b out where infer: "inferBuildAndOutput E root (path_base root) (detectLanguage E root) = (b, out)"
    by fastforce
  define found where "found = \<lparr>in_RepoPath = root, in_ServiceName = path_base root, in_Language = detectLanguage E root,
     in_HasAnitoConfig = re_exists E (file_at root [''.anito'', ''config.yaml'']),
     in_HasPORT = detectPORTUsage E root (detectLanguage E root),
     in_HasHealthRoute = detectHealthRoute E root (detectLanguage E root),
     in_SuggestedConfig = '''', in_Issues = [], in_Instructions = []\<rparr>"
  have r: "r = found\<lparr>in_Issues := contract_issues found, in_SuggestedConfig := generateConfig (path_base root) b out,
      in_Instructions := generateInstructions found\<rparr>"
    using assms root infer by (simp add: Inspect_def Let_def found_def)
  show ?thesis
    unfolding r using root
    by (simp add: contract_met contract_counts generateInstructions_length) (simp add: found_def)
qed

end
