(* ===== verification/Coordinate.thy ===== *)
theory Coordinate
  imports Setup Names
begin

text \<open>
  \<^verbatim>\<open>internal/setup/coordinate.go\<close>: stable ports for all services of a composite app, and the files that
  tell the services each other's addresses.
\<close>

section \<open>Services and results\<close>

record service_spec =
  ss_Name :: string
  ss_Path :: string
  ss_PreferredPort :: int
  ss_Language :: language
  ss_Framework :: string

record relationship =
  rl_From :: string
  rl_To :: string
  rl_ProxyPath :: string

record generated_file =
  gf_RelPath :: string
  gf_Content :: string

record source_patch =
  pa_RelPath :: string
  pa_Marker :: string
  pa_Block :: string
  pa_Instruction :: string

record coordination =
  co_Allocations :: ports
  co_PortsEnvPath :: string
  co_GeneratedFiles :: "generated_file list"
  co_SourcePatches :: "source_patch list"
  co_Instructions :: "string list"

definition en_dash :: string where "en_dash = [CHR 0xE2, CHR 0x80, CHR 0x93]"
definition right_arrow :: string where "right_arrow = [CHR 0xE2, CHR 0x86, CHR 0x92]"

definition ManagedBlockStart :: string where "ManagedBlockStart = ''// [anito:managed start]''"
definition ManagedBlockEnd :: string where "ManagedBlockEnd = ''// [anito:managed end]''"

section \<open>Ports\<close>

definition portRangeMin :: int where "portRangeMin = 8100"
definition portRangeMax :: int where "portRangeMax = 8200"

text \<open>A missing key of a Go map reads as zero.\<close>

definition port_of :: "ports \<Rightarrow> string \<Rightarrow> int" where
  "port_of alloc name = (case map_of alloc name of Some p \<Rightarrow> p | None \<Rightarrow> 0)"

function next_free :: "int list \<Rightarrow> int \<Rightarrow> int" where
  "next_free taken n = (if n \<in> set taken then next_free taken (n + 1) else n)"
  by pat_completeness auto
termination
proof (relation "measure (\<lambda>(taken, n). length (filter (\<lambda>t. n \<le> t) taken))")
  fix taken :: "int list" and n
  assume n: "n \<in> set taken"
  have "length (filter (\<lambda>t. n + 1 \<le> t) taken) \<le> length (filter (\<lambda>t. n \<le> t) taken)" for taken
    by (induction taken) auto
  with n have "length (filter (\<lambda>t. n + 1 \<le> t) taken) < length (filter (\<lambda>t. n \<le> t) taken)"
    by (induction taken) (auto simp: less_Suc_eq_le)
  then show "((taken, n + 1), taken, n) \<in> measure (\<lambda>(taken, n). length (filter (\<lambda>t. n \<le> t) taken))"
    by simp
qed simp

declare next_free.simps [simp del]

definition honour :: "ports \<times> int list \<Rightarrow> service_spec \<Rightarrow> ports \<times> int list" where
  "honour at svc =
     (let p = ss_PreferredPort svc in
      if p \<noteq> 0 \<and> p \<notin> set (snd at) then (AList.update (ss_Name svc) p (fst at), p # snd at) else at)"

fun alloc_rest :: "int \<Rightarrow> service_spec list \<Rightarrow> ports \<times> int list \<Rightarrow> err + ports" where
  "alloc_rest nxt [] at = Inr (fst at)"
| "alloc_rest nxt (svc # svcs) at =
     (if port_of (fst at) (ss_Name svc) \<noteq> 0 then alloc_rest nxt svcs at
      else (let p = next_free (snd at) nxt in
            if portRangeMax < p
            then Inl (Errorf (''no available ports in range %d'' @ en_dash @ ''%d'') [FInt portRangeMin, FInt portRangeMax])
            else alloc_rest (p + 1) svcs (AList.update (ss_Name svc) p (fst at), p # snd at)))"

definition AllocatePorts :: "service_spec list \<Rightarrow> int list \<Rightarrow> err + ports" where
  "AllocatePorts services usedPorts =
     alloc_rest portRangeMin services (foldl honour ([], [7700, 7701] @ usedPorts) services)"

section \<open>The shared address file\<close>

definition envPrefix :: "string \<Rightarrow> string" where
  "envPrefix name = map to_upper (map (\<lambda>c. if c = CHR ''-'' then CHR ''_'' else c) name)"

definition address_lines :: "ports \<Rightarrow> service_spec \<Rightarrow> string list" where
  "address_lines alloc svc =
     (let port = show_int (port_of alloc (ss_Name svc)); p = envPrefix (ss_Name svc) in
      [''# '' @ ss_Name svc @ '' '' @ em_dash @ '' address never changes on redeploy'',
       p @ ''_PORT='' @ port,
       p @ ''_URL=http://localhost:'' @ port,
       ''''])"

definition env_header :: "string list" where
  "env_header =
     [''# [anito:managed] DO NOT EDIT '' @ em_dash @ '' regenerate with: anito setup'',
      ''# Stable port assignments for this composite app, managed by Anito.'',
      ''# Each service's config.yaml references this file via env_file.'',
      ''# Source files read these env vars to know their neighbours' addresses.'',
      '''']"

definition generatePortsEnv :: "service_spec list \<Rightarrow> ports \<Rightarrow> string" where
  "generatePortsEnv services alloc = lines_text (env_header @ concat (map (address_lines alloc) services))"

section \<open>Generated files and patches\<close>

definition detectFramework :: "repo_env \<Rightarrow> string \<Rightarrow> language \<Rightarrow> string" where
  "detectFramework E path lang =
     (if lang = Go then ''go''
      else if lang \<noteq> NodeJS then language_text lang
      else if list_ex (\<lambda>f. re_exists E (file_at path [f])) [''vite.config.ts'', ''vite.config.js'', ''vite.config.mts'']
      then ''vite''
      else if list_ex (\<lambda>f. re_exists E (file_at path [f])) [''next.config.js'', ''next.config.ts'', ''next.config.mjs'']
      then ''next'' else ''node'')"

definition detect :: "repo_env \<Rightarrow> service_spec \<Rightarrow> service_spec" where
  "detect E svc =
     (let lang = (if ss_Language svc = NoLanguage then detectLanguage E (ss_Path svc) else ss_Language svc)
      in svc\<lparr>ss_Language := lang,
             ss_Framework := (if ss_Framework svc = '''' then detectFramework E (ss_Path svc) lang
                              else ss_Framework svc)\<rparr>)"

text \<open>\<^verbatim>\<open>filepath.Rel\<close> with its error dropped: components in common vanish, what is left of the base is
  climbed.\<close>

fun first_difference :: "string list \<Rightarrow> string list \<Rightarrow> string list \<times> string list" where
  "first_difference (b # bs) (t # ts) = (if b = t then first_difference bs ts else (b # bs, t # ts))"
| "first_difference bs ts = (bs, ts)"

definition rel_path :: "string \<Rightarrow> string \<Rightarrow> string" where
  "rel_path base targ =
     (if Clean base = Clean targ then ''.''
      else if IsAbs base \<noteq> IsAbs targ then ''''
      else (case first_difference (clean_comps base)
                   (if Clean targ = ''.'' then [''.''] else clean_comps targ) of
              (bs, ts) \<Rightarrow>
                if bs \<noteq> [] \<and> hd bs = ''..'' then ''''
                else str_join [slash] (replicate (length bs) ''..'' @ ts)))"

definition readPackageJSONName :: "repo_env \<Rightarrow> string \<Rightarrow> string" where
  "readPackageJSONName E dir =
     (case re_read E (file_at dir [''package.json'']) of
        Inl _ \<Rightarrow> ''''
      | Inr content \<Rightarrow>
          (case str_cut content (dq @ ''name'' @ dq @ '':'') of
             None \<Rightarrow> ''''
           | Some (_, after) \<Rightarrow>
               (case trim_space after of
                  [] \<Rightarrow> ''''
                | c # rest \<Rightarrow>
                    if c \<noteq> CHR 0x22 then ''''
                    else (case str_cut rest dq of None \<Rightarrow> '''' | Some (name, _) \<Rightarrow> name))))"

definition vite_command :: "repo_env \<Rightarrow> string \<Rightarrow> service_spec \<Rightarrow> string" where
  "vite_command E repoRoot svc =
     (let rel = rel_path repoRoot (ss_Path svc) in
      if rel = ''.'' \<or> rel = '''' then ''pnpm exec vite dev --force''
      else (let pkgName = readPackageJSONName E (ss_Path svc) in
            if pkgName \<noteq> '''' then ''pnpm --filter '' @ pkgName @ '' exec vite dev --force''
            else ''pnpm --filter ./'' @ rel @ '' exec vite dev --force''))"

definition config_head :: "service_spec \<Rightarrow> int \<Rightarrow> string list" where
  "config_head svc port =
     [''# .anito/'' @ ss_Name svc @ ''.yaml'',
      ''# [anito:managed] DO NOT EDIT '' @ em_dash @ '' regenerate with: anito setup'',
      ''name: '' @ ss_Name svc,
      ''port: '' @ show_int port,
      ''env_file: ports.env'']"

definition dev_script :: "service_spec \<Rightarrow> string" where
  "dev_script svc = ''.anito/'' @ ss_Name svc @ ''-dev.sh''"

definition generateServiceFiles ::
    "repo_env \<Rightarrow> service_spec \<Rightarrow> int \<Rightarrow> string \<Rightarrow> generated_file \<times> generated_file option" where
  "generateServiceFiles E svc port repoRoot =
     (let configPath = ''.anito/'' @ ss_Name svc @ ''.yaml''; head = config_head svc port in
      if ss_Framework svc = ''vite'' then
        (\<lparr>gf_RelPath = configPath, gf_Content = lines_text
            (head @ [''type: binary'', ''output: '' @ dev_script svc, ''health_check: /''])\<rparr>,
         Some \<lparr>gf_RelPath = dev_script svc, gf_Content = lines_text
            [''#!/usr/bin/env bash'',
             ''# [anito:managed] DO NOT EDIT '' @ em_dash @ '' regenerate with: anito setup'',
             ''# Dev server wrapper for '' @ ss_Name svc @ ''. Anito injects PORT via env.'',
             ''# Vite --force clears stale module/dependency cache after worktree branch changes.'',
             ''cd '' @ repoRoot,
             ''exec '' @ vite_command E repoRoot svc]\<rparr>)
      else if ss_Framework svc = ''go'' then
        (case inferBuildAndOutput E (ss_Path svc) (ss_Name svc) Go of
           (build, outputPath) \<Rightarrow>
             (\<lparr>gf_RelPath = configPath, gf_Content = lines_text
                 (head @ (if build \<noteq> '''' then [''build: '' @ build] else [])
                  @ (if outputPath \<noteq> '''' then [''output: '' @ outputPath] else [])
                  @ [''type: binary'', ''health_check: /health''])\<rparr>, None))
      else
        (\<lparr>gf_RelPath = configPath, gf_Content = lines_text
            (head @ [''type: binary'', ''output: ./'' @ ss_Name svc, ''health_check: /health''])\<rparr>, None))"

definition proxy_lines :: "ports \<Rightarrow> relationship \<Rightarrow> string list" where
  "proxy_lines alloc rel =
     (let port = show_int (port_of alloc (rl_To rel));
          path = (if rl_ProxyPath rel = '''' then ''/api'' else rl_ProxyPath rel)
      in [''      // '' @ right_arrow @ '' '' @ rl_To rel @ '' (stable address: http://localhost:'' @ port @ '')'',
          ''      '' @ [CHR 0x27] @ path @ [CHR 0x27] @ '': process.env.'' @ envPrefix (rl_To rel) @
            ''_URL ?? 'http://localhost:'' @ port @ [CHR 0x27] @ '',''])"

definition server_block :: "service_spec \<Rightarrow> ports \<Rightarrow> relationship list \<Rightarrow> string" where
  "server_block svc alloc relationships =
     (let proxies = filter (\<lambda>rel. rl_From rel = ss_Name svc) relationships in
      lines_text
        ([''  // [anito:managed start] '' @ em_dash @ '' DO NOT EDIT. Regenerate with: anito setup'',
          ''  // Port and proxy config assigned by Anito for composite app coordination.'',
          ''  // These env vars are injected by Anito from .anito/ports.env at startup.'',
          ''  // Changing them manually will break service coordination.'',
          ''  server: {'',
          ''    port: parseInt(process.env.'' @ envPrefix (ss_Name svc) @ ''_PORT ?? '' @ [CHR 0x27] @ [CHR 0x27] @ '') || ''
            @ show_int (port_of alloc (ss_Name svc)) @ '',''] @
         (if proxies \<noteq> []
          then [''    proxy: {''] @ concat (map (proxy_lines alloc) proxies) @ [''    },''] else []) @
         [''  },'', ''  // [anito:managed end]'']))"

definition generateNodeFrameworkPatch ::
    "repo_env \<Rightarrow> service_spec \<Rightarrow> ports \<Rightarrow> relationship list \<Rightarrow> string \<Rightarrow> source_patch" where
  "generateNodeFrameworkPatch E svc alloc relationships repoRoot =
     (let file = (case find (\<lambda>f. re_exists E (file_at (ss_Path svc) [f]))
                         [''vite.config.ts'', ''vite.config.js'', ''next.config.ts'', ''next.config.js'', ''next.config.mjs''] of
                    Some f \<Rightarrow> f | None \<Rightarrow> ''vite.config.ts'');
          block = server_block svc alloc relationships
      in \<lparr>pa_RelPath = rel_path repoRoot (file_at (ss_Path svc) [file]), pa_Marker = ''server'', pa_Block = block,
          pa_Instruction =
            ''In '' @ file @ '', replace (or add) the `server:` block inside `defineConfig({...})` with the block below.'' @ [newline] @
            ''The env vars are loaded from .anito/ports.env by Anito at startup '' @ em_dash @ '' do not hardcode the values.'' @ [newline] @ [newline] @ block\<rparr>)"

definition buildInstructions ::
    "service_spec list \<Rightarrow> ports \<Rightarrow> generated_file list \<Rightarrow> source_patch list \<Rightarrow> string list" where
  "buildInstructions services alloc files patches =
     (let scripts = filter (\<lambda>f. has_suffix (gf_RelPath f) ''-dev.sh'') files in
      numbered 1
        ([''Write .anito/ports.env to the repo root. This is the shared address map '' @ em_dash @ '' all services read it at startup.''] @
         map (\<lambda>svc. ''Write .anito/'' @ ss_Name svc @ ''.yaml. Port '' @ show_int (port_of alloc (ss_Name svc))
                     @ '' is now reserved for this service.'') services @
         map (\<lambda>f. ''Write '' @ gf_RelPath f @ '' and make it executable: chmod +x '' @ gf_RelPath f) scripts @
         map (\<lambda>p. ''Apply source patch to '' @ pa_RelPath p @ '':'' @ [newline] @ ''   '' @ pa_Instruction p) patches @
         [''Reserve ports in Anito (call anito_reserve for each service, or deploy with the generated config). '' @
            ''Ports are reserved atomically '' @ em_dash @ '' no conflicts possible after this step.'',
          ''Deploy all services. The ports below are permanent:'' @ [newline]]) @
      map (\<lambda>svc. ''   anito deploy .anito/'' @ ss_Name svc @ ''.yaml  '' @ right_arrow @ ''  http://localhost:''
                  @ show_int (port_of alloc (ss_Name svc))) services)"

section \<open>The engine\<close>

definition service_files :: "generated_file \<times> generated_file option \<Rightarrow> generated_file list" where
  "service_files fs = fst fs # (case snd fs of None \<Rightarrow> [] | Some script \<Rightarrow> [script])"

definition CoordinateApp ::
    "repo_env \<Rightarrow> string \<Rightarrow> service_spec list \<Rightarrow> relationship list \<Rightarrow> int list \<Rightarrow> err + coordination" where
  "CoordinateApp E repoPath services relationships usedPorts =
     (let detected = map (detect E) services in
      case AllocatePorts detected usedPorts of
        Inl e \<Rightarrow> Inl e
      | Inr alloc \<Rightarrow>
          (let files = \<lparr>gf_RelPath = ''.anito/ports.env'', gf_Content = generatePortsEnv detected alloc\<rparr>
                 # concat (map (\<lambda>svc. service_files (generateServiceFiles E svc (port_of alloc (ss_Name svc)) repoPath)) detected);
               patches = map (\<lambda>svc. generateNodeFrameworkPatch E svc alloc relationships repoPath)
                 (filter (\<lambda>svc. ss_Framework svc = ''vite'' \<or> ss_Framework svc = ''next'') detected)
           in Inr \<lparr>co_Allocations = alloc, co_PortsEnvPath = ''.anito/ports.env'', co_GeneratedFiles = files,
                   co_SourcePatches = patches, co_Instructions = buildInstructions detected alloc files patches\<rparr>))"

end
