(* ===== verification/Coordinate_Props.thy ===== *)
theory Coordinate_Props
  imports Coordinate
begin

text \<open>
  What the coordination of a composite app guarantees: ports that do not clash, found whenever there are
  enough, and an address file from which every service reads the ports that were assigned.
\<close>

section \<open>Ports\<close>

lemma next_free_spec:
  "next_free taken n \<notin> set taken \<and> n \<le> next_free taken n \<and> (\<forall>x. n \<le> x \<and> x < next_free taken n \<longrightarrow> x \<in> set taken)"
proof (induction taken n rule: next_free.induct)
  case (1 taken n)
  show ?case
  proof (cases "n \<in> set taken")
    case True
    with 1 have IH: "next_free taken (n + 1) \<notin> set taken" "n + 1 \<le> next_free taken (n + 1)"
        "\<And>x. n + 1 \<le> x \<Longrightarrow> x < next_free taken (n + 1) \<Longrightarrow> x \<in> set taken" by blast+
    have eq: "next_free taken n = next_free taken (n + 1)" using True by (subst next_free.simps) simp
    have "x \<in> set taken" if "n \<le> x" "x < next_free taken (n + 1)" for x
      using that IH(3) [of x] True by (cases "x = n") auto
    with IH eq show ?thesis by auto
  next
    case False
    then have "next_free taken n = n" by (subst next_free.simps) simp
    with False show ?thesis by auto
  qed
qed

lemma port_of_update [simp]: "port_of (AList.update n p alloc) m = (if m = n then p else port_of alloc m)"
  by (simp add: port_of_def update_conv')

text \<open>The ports handed out so far.\<close>

definition alloc_ok :: "int set \<Rightarrow> service_spec set \<Rightarrow> ports \<times> int list \<Rightarrow> bool" where
  "alloc_ok base svcs at \<longleftrightarrow> base \<subseteq> set (snd at)
     \<and> (\<forall>n p. map_of (fst at) n = Some p \<longrightarrow> p \<in> set (snd at) \<and> p \<notin> base \<and> p \<noteq> 0
          \<and> (\<exists>svc \<in> svcs. ss_Name svc = n \<and> (p \<in> {portRangeMin..portRangeMax} \<or> ss_PreferredPort svc = p)))
     \<and> (\<forall>n m p. map_of (fst at) n = Some p \<and> map_of (fst at) m = Some p \<longrightarrow> n = m)"

lemma alloc_ok_add:
  assumes ok: "alloc_ok base svcs at" and p: "p \<notin> set (snd at)" "p \<noteq> 0" and svc: "svc \<in> svcs"
    and why: "p \<in> {portRangeMin..portRangeMax} \<or> ss_PreferredPort svc = p"
  shows "alloc_ok base svcs (AList.update (ss_Name svc) p (fst at), p # snd at)"
proof -
  have base: "base \<subseteq> set (snd at)"
    and old: "map_of (fst at) n = Some q \<Longrightarrow> q \<in> set (snd at) \<and> q \<notin> base \<and> q \<noteq> 0
      \<and> (\<exists>svc \<in> svcs. ss_Name svc = n \<and> (q \<in> {portRangeMin..portRangeMax} \<or> ss_PreferredPort svc = q))"
    and inj: "map_of (fst at) n = Some q \<Longrightarrow> map_of (fst at) m = Some q \<Longrightarrow> n = m" for n m q
    using ok unfolding alloc_ok_def by blast+
  have look: "map_of (AList.update (ss_Name svc) p (fst at)) n = (if n = ss_Name svc then Some p else map_of (fst at) n)" for n
    by (simp add: update_conv')
  have new: "map_of (fst at) n \<noteq> Some p" for n using old [of n p] p(1) by blast
  show ?thesis
    unfolding alloc_ok_def fst_conv snd_conv look
  proof (intro conjI allI impI)
    show "base \<subseteq> set (p # snd at)" using base by auto
    fix n m q
    show "n = m" if "(if n = ss_Name svc then Some p else map_of (fst at) n) = Some q
        \<and> (if m = ss_Name svc then Some p else map_of (fst at) m) = Some q"
      using that new inj [of n q m] by (auto split: if_splits)
    assume n: "(if n = ss_Name svc then Some p else map_of (fst at) n) = Some q"
    show "q \<in> set (p # snd at)" "q \<noteq> 0" "q \<notin> base"
      using n old [of n q] p base by (auto split: if_splits)
    show "\<exists>svc \<in> svcs. ss_Name svc = n \<and> (q \<in> {portRangeMin..portRangeMax} \<or> ss_PreferredPort svc = q)"
      using n old [of n q] svc why by (auto split: if_splits)
  qed
qed

lemma honour_ok:
  "alloc_ok base svcs at \<Longrightarrow> svc \<in> svcs \<Longrightarrow> alloc_ok base svcs (honour at svc)"
  by (simp add: honour_def Let_def alloc_ok_add)

lemma foldl_honour_ok:
  "alloc_ok base svcs at \<Longrightarrow> set xs \<subseteq> svcs \<Longrightarrow> alloc_ok base svcs (foldl honour at xs)"
  by (induction xs arbitrary: at) (simp_all add: honour_ok)

lemma alloc_rest_ok:
  "alloc_rest nxt xs at = Inr alloc \<Longrightarrow> alloc_ok base svcs at \<Longrightarrow> set xs \<subseteq> svcs \<Longrightarrow> portRangeMin \<le> nxt
   \<Longrightarrow> \<exists>taken. alloc_ok base svcs (alloc, taken)"
proof (induction nxt xs at rule: alloc_rest.induct)
  case (1 nxt at)
  then show ?case by (cases at) auto
next
  case (2 nxt svc xs at)
  let ?p = "next_free (snd at) nxt"
  show ?case
  proof (cases "port_of (fst at) (ss_Name svc) \<noteq> 0")
    case True
    with 2 show ?thesis by simp
  next
    case False
    with 2 have le: "?p \<le> portRangeMax" by (auto simp: Let_def split: if_splits)
    have p: "?p \<notin> set (snd at)" "portRangeMin \<le> ?p" using next_free_spec [of "snd at" nxt] 2(6) by auto
    have "alloc_ok base svcs (AList.update (ss_Name svc) ?p (fst at), ?p # snd at)"
      using 2(4,5) p le by (intro alloc_ok_add) (auto simp: portRangeMin_def)
    with 2 False le p(2) show ?thesis by (simp add: Let_def)
  qed
qed

lemma alloc_rest_keeps:
  "alloc_rest nxt xs at = Inr alloc \<Longrightarrow> portRangeMin \<le> nxt \<Longrightarrow>
   (port_of (fst at) n \<noteq> 0 \<longrightarrow> map_of alloc n = map_of (fst at) n)
   \<and> (n \<in> ss_Name ` set xs \<longrightarrow> port_of alloc n \<noteq> 0)"
proof (induction nxt xs at rule: alloc_rest.induct)
  case (2 nxt svc xs at)
  let ?p = "next_free (snd at) nxt"
  have p: "portRangeMin \<le> ?p" "?p \<noteq> 0"
    using next_free_spec [of "snd at" nxt] 2(4) by (auto simp: portRangeMin_def)
  show ?case
  proof (cases "port_of (fst at) (ss_Name svc) \<noteq> 0")
    case True
    with 2 show ?thesis by (auto simp: port_of_def split: option.splits)
  next
    case False
    with 2(3) have rest: "\<not> portRangeMax < ?p"
        "alloc_rest (?p + 1) xs (AList.update (ss_Name svc) ?p (fst at), ?p # snd at) = Inr alloc"
      by (auto simp: Let_def split: if_splits)
    from 2(2) [OF False refl rest(1) rest(2)] p False show ?thesis
      by (auto simp: update_conv' port_of_def split: if_splits option.splits)
  qed
qed auto

lemma honour_keeps: "port_of (fst at) n \<noteq> 0 \<Longrightarrow> port_of (fst (honour at svc)) n \<noteq> 0"
  by (auto simp: honour_def Let_def)

lemma foldl_honour_keeps: "port_of (fst at) n \<noteq> 0 \<Longrightarrow> port_of (fst (foldl honour at xs)) n \<noteq> 0"
  by (induction xs arbitrary: at) (simp_all add: honour_keeps)

text \<open>How many ports of the range are gone.\<close>

definition range_used :: "int list \<Rightarrow> nat" where
  "range_used taken = card ({portRangeMin..portRangeMax} \<inter> set taken)"

lemma range_used_Cons: "range_used (p # taken) \<le> Suc (range_used taken)"
proof -
  have "{portRangeMin..portRangeMax} \<inter> set (p # taken) \<subseteq> insert p ({portRangeMin..portRangeMax} \<inter> set taken)"
    by auto
  then have "range_used (p # taken) \<le> card (insert p ({portRangeMin..portRangeMax} \<inter> set taken))"
    unfolding range_used_def by (intro card_mono) auto
  also have "\<dots> \<le> Suc (range_used taken)" unfolding range_used_def by (rule card_insert_le_m1) simp_all
  finally show ?thesis .
qed

definition unserved :: "ports \<Rightarrow> service_spec list \<Rightarrow> nat" where
  "unserved alloc xs = length (filter (\<lambda>s. port_of alloc (ss_Name s) = 0) xs)"

lemma unserved_mono:
  "(\<And>n. port_of a n \<noteq> 0 \<Longrightarrow> port_of b n \<noteq> 0) \<Longrightarrow> unserved b xs \<le> unserved a xs"
  by (induction xs) (auto simp: unserved_def le_SucI)

lemma honour_count:
  "range_used (snd (foldl honour at xs)) + unserved (fst (foldl honour at xs)) xs \<le> range_used (snd at) + length xs"
proof (induction xs arbitrary: at)
  case (Cons svc xs)
  let ?at = "honour at svc"
  from Cons.IH [of ?at] have IH: "range_used (snd (foldl honour ?at xs)) + unserved (fst (foldl honour ?at xs)) xs
      \<le> range_used (snd ?at) + length xs" .
  show ?case
  proof (cases "ss_PreferredPort svc \<noteq> 0 \<and> ss_PreferredPort svc \<notin> set (snd at)")
    case True
    then have "port_of (fst ?at) (ss_Name svc) \<noteq> 0" by (simp add: honour_def Let_def)
    then have "port_of (fst (foldl honour ?at xs)) (ss_Name svc) \<noteq> 0" by (rule foldl_honour_keeps)
    moreover have "range_used (snd ?at) \<le> Suc (range_used (snd at))"
      using True range_used_Cons by (simp add: honour_def Let_def)
    ultimately show ?thesis using IH by (simp add: unserved_def)
  next
    case False
    then have "?at = at" by (auto simp: honour_def Let_def)
    with IH show ?thesis by (auto simp: unserved_def)
  qed
qed (simp add: unserved_def)

lemma alloc_rest_fails:
  "alloc_rest nxt xs at = Inl e \<Longrightarrow> portRangeMin \<le> nxt \<Longrightarrow>
   \<forall>x. portRangeMin \<le> x \<and> x < nxt \<longrightarrow> x \<in> set (snd at) \<Longrightarrow> 101 < range_used (snd at) + unserved (fst at) xs"
proof (induction nxt xs at rule: alloc_rest.induct)
  case (2 nxt svc xs at)
  let ?p = "next_free (snd at) nxt"
  have p: "nxt \<le> ?p" "\<And>x. nxt \<le> x \<Longrightarrow> x < ?p \<Longrightarrow> x \<in> set (snd at)"
    using next_free_spec [of "snd at" nxt] by auto
  then have all: "x \<in> set (snd at)" if "portRangeMin \<le> x" "x < ?p" for x
    using that 2(5) by (cases "x < nxt") auto
  show ?case
  proof (cases "port_of (fst at) (ss_Name svc) \<noteq> 0")
    case True
    with 2 show ?thesis by (simp add: unserved_def)
  next
    case False
    then have here: "unserved (fst at) (svc # xs) = Suc (unserved (fst at) xs)" by (simp add: unserved_def)
    show ?thesis
    proof (cases "portRangeMax < ?p")
      case True
      then have "{portRangeMin..portRangeMax} \<inter> set (snd at) = {portRangeMin..portRangeMax}" using all by auto
      then have "range_used (snd at) = 101"
        by (simp add: range_used_def portRangeMin_def portRangeMax_def)
      with here show ?thesis by simp
    next
      case le: False
      let ?at = "(AList.update (ss_Name svc) ?p (fst at), ?p # snd at)"
      have "alloc_rest (?p + 1) xs ?at = Inl e" using 2(3) False le by (simp add: Let_def)
      moreover have "portRangeMin \<le> ?p + 1" using p(1) 2(4) by simp
      moreover have "x \<in> set (snd ?at)" if "portRangeMin \<le> x \<and> x < ?p + 1" for x
        using that all [of x] by (cases "x = ?p") simp_all
      ultimately have IH: "101 < range_used (snd ?at) + unserved (fst ?at) xs"
        using 2(2) False le by meson
      have "?p \<noteq> 0" using p(1) 2(4) by (simp add: portRangeMin_def)
      then have "unserved (fst ?at) xs \<le> unserved (fst at) xs" by (intro unserved_mono) simp
      moreover have "range_used (snd ?at) \<le> Suc (range_used (snd at))" by (simp add: range_used_Cons)
      ultimately show ?thesis using IH here by simp
    qed
  qed
qed simp

lemma range_used_reserved: "range_used ([7700, 7701] @ used) = range_used used"
proof -
  have "{portRangeMin..portRangeMax} \<inter> set ([7700, 7701] @ used) = {portRangeMin..portRangeMax} \<inter> set used"
    by (auto simp: portRangeMin_def portRangeMax_def)
  then show ?thesis by (simp only: range_used_def)
qed

text \<open>A port that only one service prefers and that is free.\<close>

definition sole_preference :: "service_spec list \<Rightarrow> int list \<Rightarrow> service_spec \<Rightarrow> bool" where
  "sole_preference services used svc \<longleftrightarrow> svc \<in> set services \<and> ss_PreferredPort svc \<noteq> 0
     \<and> ss_PreferredPort svc \<notin> set ([7700, 7701] @ used)
     \<and> (\<forall>other \<in> set services. other \<noteq> svc \<longrightarrow>
          ss_PreferredPort other \<noteq> ss_PreferredPort svc \<and> ss_Name other \<noteq> ss_Name svc)"

lemma honour_sole:
  assumes "ss_PreferredPort svc \<noteq> 0"
    and "\<forall>other \<in> set xs. other \<noteq> svc \<longrightarrow> ss_PreferredPort other \<noteq> ss_PreferredPort svc \<and> ss_Name other \<noteq> ss_Name svc"
    and "map_of (fst at) (ss_Name svc) = Some (ss_PreferredPort svc) \<and> ss_PreferredPort svc \<in> set (snd at)
      \<or> svc \<in> set xs \<and> ss_PreferredPort svc \<notin> set (snd at)"
  shows "map_of (fst (foldl honour at xs)) (ss_Name svc) = Some (ss_PreferredPort svc)"
  using assms
proof (induction xs arbitrary: at)
  case (Cons x xs)
  show ?case
    unfolding foldl_Cons
    by (rule Cons.IH) (use Cons.prems in \<open>auto simp: honour_def Let_def update_conv'\<close>)
qed auto

text \<open>C22: Ports for a composite app: when the allocation succeeds every service has a port, no two have the
  same, none is in use or reserved for Anito, each lies in the range or was asked for, and a free
  port that only one service asks for is given to it. It fails only when the range has fewer
  free ports than there are services.\<close>

theorem AllocatePorts_sound:
  "case AllocatePorts services used of
     Inr alloc \<Rightarrow>
       (\<forall>svc \<in> set services. port_of alloc (ss_Name svc) \<noteq> 0)
       \<and> (\<forall>n p. map_of alloc n = Some p \<longrightarrow> p \<notin> set ([7700, 7701] @ used)
            \<and> (\<exists>svc \<in> set services. ss_Name svc = n \<and> (p \<in> {portRangeMin..portRangeMax} \<or> ss_PreferredPort svc = p)))
       \<and> (\<forall>n m p. map_of alloc n = Some p \<and> map_of alloc m = Some p \<longrightarrow> n = m)
       \<and> (\<forall>svc. sole_preference services used svc \<longrightarrow> map_of alloc (ss_Name svc) = Some (ss_PreferredPort svc))
   | Inl e \<Rightarrow> 101 < range_used used + length services"
proof -
  define at where "at = foldl honour ([], [7700, 7701] @ used) services"
  have run: "AllocatePorts services used = alloc_rest portRangeMin services at"
    by (simp add: AllocatePorts_def at_def)
  have "alloc_ok (set ([7700, 7701] @ used)) (set services) ([], [7700, 7701] @ used)"
    by (simp add: alloc_ok_def)
  then have at: "alloc_ok (set ([7700, 7701] @ used)) (set services) at"
    unfolding at_def by (rule foldl_honour_ok) simp
  show ?thesis
  proof (cases "AllocatePorts services used")
    case (Inl e)
    then have "101 < range_used (snd at) + unserved (fst at) services"
      unfolding run by (intro alloc_rest_fails [of portRangeMin services at e]) auto
    also have "\<dots> \<le> range_used used + length services"
      using honour_count [of "([], [7700, 7701] @ used)" services] unfolding at_def snd_conv range_used_reserved .
    finally show ?thesis using Inl by simp
  next
    case (Inr alloc)
    from alloc_rest_ok [OF Inr [unfolded run] at] obtain taken where
        ok: "alloc_ok (set ([7700, 7701] @ used)) (set services) (alloc, taken)" by auto
    note keeps = alloc_rest_keeps [OF Inr [unfolded run] order_refl]
    have "map_of alloc (ss_Name svc) = Some (ss_PreferredPort svc)" if "sole_preference services used svc" for svc
    proof -
      have "map_of (fst at) (ss_Name svc) = Some (ss_PreferredPort svc)"
        unfolding at_def using that by (intro honour_sole) (auto simp: sole_preference_def)
      with keeps [of "ss_Name svc"] that show ?thesis by (auto simp: sole_preference_def port_of_def)
    qed
    with keeps ok show ?thesis by (auto simp: Inr alloc_ok_def)
  qed
qed

section \<open>The address file\<close>

lemma split_from_line:
  "newline \<notin> set l \<Longrightarrow> split_from cur (l @ newline # rest) = (cur @ l) # split_from [] rest"
  by (induction l arbitrary: cur) auto

lemma splitLines_text: "\<forall>l \<in> set ls. newline \<notin> set l \<Longrightarrow> splitLines (lines_text ls) = ls"
  unfolding splitLines_def lines_text_def
  by (induction ls) (simp_all add: split_from_line)

definition line_vars :: "string \<Rightarrow> string list" where
  "line_vars l = (case parseEnvLine l of Inr (Some v) \<Rightarrow> [v] | _ \<Rightarrow> [])"

lemma load_lines_vars:
  "\<forall>l \<in> set ls. ok (parseEnvLine l) \<Longrightarrow> load_lines path i ls = Inr (concat (map line_vars ls))"
  by (induction ls arbitrary: i) (auto simp: line_vars_def ok_def split: sum.splits option.splits)

lemma parseEnvLine_comment: "parseEnvLine (CHR ''#'' # l) = Inr None"
proof -
  have "\<exists>r. trim_left (rev l @ [CHR ''#'']) = r @ [CHR ''#'']"
    by (simp add: trim_left_def dropWhile_append is_space_def)
  then obtain r where "trim_left (rev l @ [CHR ''#'']) = r @ [CHR ''#'']" ..
  then have "trim_space (CHR ''#'' # l) = CHR ''#'' # rev r"
    by (simp add: trim_space_def) (simp add: trim_left_def is_space_def)
  then show ?thesis by (simp add: parseEnvLine_def Let_def)
qed

lemma parseEnvLine_empty: "parseEnvLine '''' = Inr None"
  by (simp add: parseEnvLine_def Let_def trim_space_def trim_left_def)

definition plain_value :: "string \<Rightarrow> bool" where
  "plain_value v \<longleftrightarrow> v \<noteq> '''' \<and> (\<forall>c \<in> set v. \<not> is_space c) \<and> hd v \<noteq> CHR 0x22 \<and> hd v \<noteq> CHR 0x27"

lemma parseEnvLine_plain:
  assumes "plain_key k" and "plain_value v"
  shows "parseEnvLine (k @ CHR ''='' # v) = Inr (Some (k @ CHR ''='' # v))"
proof -
  let ?t = "k @ CHR ''='' # v"
  have key: "CHR ''='' \<notin> set k" "trim_space k = k" "k \<noteq> []" "set k \<inter> env_key_forbidden = {}"
    using assms plain_key_trim [OF assms(1)] by (auto simp: plain_key_def env_key_forbidden_def is_space_def)
  have tv: "trim_space v = v" using assms(2) by (intro trim_space_keep) (auto simp: plain_value_def)
  have tt: "trim_space ?t = ?t"
    using assms by (intro trim_space_keep) (auto simp: plain_key_def plain_value_def)
  have hash: "\<not> prefix ''#'' ?t" using assms by (cases k) (auto simp: plain_key_def)
  have idx: "str_index ?t ''='' = Some (length k)" using key(1) by (rule str_index_char)
  have "unquote v = v" using assms(2) by (simp add: unquote_def plain_value_def)
  then show ?thesis
    using hash key tt tv strip_export_plain [OF assms(1)]
    by (simp add: parseEnvLine_def parse_entry_def idx Let_def)
qed

lemma env_value_single:
  "CHR ''='' \<notin> set k \<Longrightarrow> CHR ''='' \<notin> set k' \<Longrightarrow>
   env_value [k' @ CHR ''='' # v] k = (if k = k' then Some v else None)"
  using prefix_key_iff [of k k' v] by (auto simp: env_value_def)

lemma name_char_upper: "name_char c \<Longrightarrow> c' = to_upper (if c = CHR ''-'' then CHR ''_'' else c) \<Longrightarrow>
    \<not> is_space c' \<and> c' \<noteq> CHR ''='' \<and> c' \<noteq> CHR ''#'' \<and> c' \<noteq> newline"
  by (auto simp: name_char_def isServiceNameAlphaNum_def to_upper_def is_space_def newline_def less_eq_char_def
      dest!: arg_cong [where f = "of_char :: char \<Rightarrow> nat"] split: if_splits)

lemma envPrefix_plain:
  assumes "ok (ValidateServiceName name)"
  shows "plain_key (envPrefix name)" "newline \<notin> set (envPrefix name)"
proof -
  have "name \<noteq> []" "list_all name_char name"
    using assms ValidateServiceName_chars by (auto simp: ValidateServiceName_def)
  then show "plain_key (envPrefix name)" "newline \<notin> set (envPrefix name)"
    using name_char_upper by (fastforce simp: plain_key_def envPrefix_def list_all_iff)+
qed

definition address_vars :: "ports \<Rightarrow> service_spec \<Rightarrow> string list" where
  "address_vars alloc svc =
     [envPrefix (ss_Name svc) @ ''_PORT='' @ show_int (port_of alloc (ss_Name svc)),
      envPrefix (ss_Name svc) @ ''_URL=http://localhost:'' @ show_int (port_of alloc (ss_Name svc))]"

lemma show_int_plain: "c \<in> set (show_int i) \<Longrightarrow> \<not> is_space c \<and> c \<noteq> newline \<and> c \<noteq> CHR 0x22 \<and> c \<noteq> CHR 0x27"
proof -
  assume "c \<in> set (show_int i)"
  then have "is_digit c \<or> c = CHR ''-''" using show_nat_digits by (auto simp: show_int_def list_all_iff split: if_splits)
  then show ?thesis by (auto simp: is_digit_def is_space_def newline_def less_eq_char_def)
qed

lemma show_int_value: "plain_value (show_int i)"
proof -
  have "show_int i \<noteq> []" using show_nat_nonempty by (simp add: show_int_def)
  with show_int_plain [of "hd (show_int i)" i] show_int_plain [of _ i] show ?thesis
    by (auto simp: plain_value_def)
qed

lemma parse_address:
  assumes "ok (ValidateServiceName (ss_Name svc))"
  shows "map parseEnvLine (address_lines alloc svc) =
    [Inr None, Inr (Some (address_vars alloc svc ! 0)), Inr (Some (address_vars alloc svc ! 1)), Inr None]"
proof -
  let ?p = "envPrefix (ss_Name svc)" and ?n = "show_int (port_of alloc (ss_Name svc))"
  have key: "plain_key (?p @ ''_PORT'')" "plain_key (?p @ ''_URL'')"
    using envPrefix_plain(1) [OF assms] by (auto simp: plain_key_def is_space_def)
  have val: "plain_value (''http://localhost:'' @ ?n)"
    using show_int_plain by (auto simp: plain_value_def is_space_def)
  from parseEnvLine_plain [OF key(1) show_int_value [of "port_of alloc (ss_Name svc)"]]
    parseEnvLine_plain [OF key(2) val]
  show ?thesis
    by (simp add: address_lines_def address_vars_def Let_def parseEnvLine_comment parseEnvLine_empty)
qed

lemma address_line_vars:
  assumes "ok (ValidateServiceName (ss_Name svc))"
  shows "concat (map line_vars (address_lines alloc svc)) = address_vars alloc svc"
    and "\<forall>l \<in> set (address_lines alloc svc). ok (parseEnvLine l)"
proof -
  obtain a b c d where lines: "address_lines alloc svc = [a, b, c, d]" by (simp add: address_lines_def Let_def)
  show "concat (map line_vars (address_lines alloc svc)) = address_vars alloc svc"
    "\<forall>l \<in> set (address_lines alloc svc). ok (parseEnvLine l)"
    using parse_address [OF assms, of alloc] unfolding lines
    by (simp_all add: line_vars_def address_vars_def ok_def)
qed

lemma address_newline:
  assumes "ok (ValidateServiceName (ss_Name svc))" and "l \<in> set (address_lines alloc svc)"
  shows "newline \<notin> set l"
proof -
  have "newline \<notin> set (ss_Name svc)"
    using ValidateServiceName_chars [OF assms(1)] name_char_safe by (fastforce simp: list_all_iff newline_def is_space_def)
  moreover have "newline \<notin> set (show_int i)" for i using show_int_plain [of newline i] by blast
  ultimately show ?thesis
    using assms(2) envPrefix_plain(2) [OF assms(1)]
    by (auto simp: address_lines_def Let_def newline_def em_dash_def)
qed

lemma header_lines:
  "\<forall>l \<in> set env_header. newline \<notin> set l \<and> parseEnvLine l = Inr None"
  unfolding env_header_def
  by (simp add: parseEnvLine_comment parseEnvLine_empty) (simp add: newline_def em_dash_def)

text \<open>What a process sees of the variables of the services.\<close>

lemma address_value_none:
  assumes "CHR ''='' \<notin> set p" and "\<forall>svc \<in> set xs. CHR ''='' \<notin> set (envPrefix (ss_Name svc)) \<and> envPrefix (ss_Name svc) \<noteq> p"
  shows "env_value (concat (map (address_vars alloc) xs)) (p @ ''_PORT'') = None
    \<and> env_value (concat (map (address_vars alloc) xs)) (p @ ''_URL'') = None"
  using assms(2)
proof (induction xs)
  case Nil
  show ?case by (simp add: env_value_def)
next
  case (Cons x xs)
  let ?q = "envPrefix (ss_Name x)" and ?n = "show_int (port_of alloc (ss_Name x))"
  have "env_value (address_vars alloc x) (p @ ''_PORT'') = None \<and> env_value (address_vars alloc x) (p @ ''_URL'') = None"
    using env_value_append [of "[?q @ ''_PORT='' @ ?n]" "[?q @ ''_URL=http://localhost:'' @ ?n]"]
      env_value_single [of _ "?q @ ''_PORT''" "?n"] env_value_single [of _ "?q @ ''_URL''" "''http://localhost:'' @ ?n"]
      assms(1) Cons.prems by (auto simp: address_vars_def)
  with Cons show ?case by (simp add: env_value_append)
qed

lemma address_value:
  assumes "distinct (map (\<lambda>svc. envPrefix (ss_Name svc)) xs)" and "svc \<in> set xs"
    and "\<forall>svc \<in> set xs. CHR ''='' \<notin> set (envPrefix (ss_Name svc))"
  shows "env_value (concat (map (address_vars alloc) xs)) (envPrefix (ss_Name svc) @ ''_PORT'')
      = Some (show_int (port_of alloc (ss_Name svc)))
    \<and> env_value (concat (map (address_vars alloc) xs)) (envPrefix (ss_Name svc) @ ''_URL'')
      = Some (''http://localhost:'' @ show_int (port_of alloc (ss_Name svc)))"
  using assms
proof (induction xs)
  case (Cons x xs)
  let ?q = "envPrefix (ss_Name svc)" and ?n = "show_int (port_of alloc (ss_Name svc))"
  show ?case
  proof (cases "svc = x")
    case True
    have "?q \<notin> (\<lambda>s. envPrefix (ss_Name s)) ` set xs" using Cons.prems(1) True by simp
    then have "\<forall>s \<in> set xs. CHR ''='' \<notin> set (envPrefix (ss_Name s)) \<and> envPrefix (ss_Name s) \<noteq> ?q"
      using Cons.prems(3) by (metis image_eqI list.set_intros(2))
    then have none: "env_value (concat (map (address_vars alloc) xs)) (?q @ ''_PORT'') = None"
        "env_value (concat (map (address_vars alloc) xs)) (?q @ ''_URL'') = None"
      using address_value_none [of ?q xs alloc] Cons.prems(3) True by auto
    have "env_value (address_vars alloc svc) (?q @ ''_PORT'') = Some ?n
        \<and> env_value (address_vars alloc svc) (?q @ ''_URL'') = Some (''http://localhost:'' @ ?n)"
      using env_value_append [of "[?q @ ''_PORT='' @ ?n]" "[?q @ ''_URL=http://localhost:'' @ ?n]"]
        env_value_single [of _ "?q @ ''_PORT''" "?n"] env_value_single [of _ "?q @ ''_URL''" "''http://localhost:'' @ ?n"]
        Cons.prems True by (auto simp: address_vars_def)
    with none True show ?thesis by (simp add: env_value_append)
  next
    case False
    with Cons show ?thesis by (simp add: env_value_append)
  qed
qed simp


definition demo_spec :: "string \<Rightarrow> int \<Rightarrow> service_spec" where
  "demo_spec name p = \<lparr>ss_Name = name, ss_Path = ''/app/'' @ name, ss_PreferredPort = p, ss_Language = Go, ss_Framework = ''go''\<rparr>"

definition demo_specs :: "service_spec list" where
  "demo_specs = [demo_spec ''my-api'' 3000, demo_spec ''web'' 0]"

lemma demo_specs_alloc:
  "AllocatePorts demo_specs [8100, 4000] = Inr [(''web'', 8101), (''my-api'', 3000)]
   \<or> AllocatePorts demo_specs [8100, 4000] = Inr [(''my-api'', 3000), (''web'', 8101)]"
  by code_simp

theorem AllocatePorts_sound_witness:
  "\<exists>alloc. AllocatePorts demo_specs [8100, 4000] = Inr alloc \<and> map_of alloc ''my-api'' = Some 3000
     \<and> port_of alloc ''web'' \<notin> {0, 8100, 4000, 7700, 7701, 3000}"
proof -
  obtain alloc where run: "AllocatePorts demo_specs [8100, 4000] = Inr alloc"
    using demo_specs_alloc by blast
  note sound = AllocatePorts_sound [where services = demo_specs and used = "[8100, 4000]", unfolded run sum.case]
  have "sole_preference demo_specs [8100, 4000] (demo_spec ''my-api'' 3000)"
    by (auto simp: sole_preference_def demo_specs_def demo_spec_def)
  with sound have api: "map_of alloc ''my-api'' = Some 3000" by (force simp: demo_spec_def)
  have "port_of alloc ''web'' \<noteq> 0" using sound by (auto simp: demo_specs_def demo_spec_def)
  then obtain p where web: "map_of alloc ''web'' = Some p" "p \<noteq> 0" by (auto simp: port_of_def split: option.splits)
  have "p \<notin> set ([7700, 7701] @ [8100, 4000])" using sound web(1) by blast
  moreover have "p \<noteq> 3000"
  proof
    assume "p = 3000"
    then have "''web'' = ''my-api''" using sound web(1) api by blast
    then show False by simp
  qed
  ultimately show ?thesis using run api web by (simp add: port_of_def)
qed

definition demo_ports_env :: "string \<Rightarrow> string option" where
  "demo_ports_env = [''.anito/ports.env'' \<mapsto> generatePortsEnv demo_specs [(''my-api'', 3000), (''web'', 8101)]]"


text \<open>Names that differ only in a dash and an underscore share their variables: the last one wins.\<close>

lemma prefixes_collide:
  "envPrefix ''my-api'' = envPrefix ''my_api''"
  by code_simp

end
