(* ===== verification/Setup_Apply.thy ===== *)
theory Setup_Apply
  imports Coordinate
begin

text \<open>
  \<^verbatim>\<open>internal/setup/apply.go\<close>: planning a setup and applying it. Applying reserves the ports of the plan,
  stages every file beside its target, then renames the staged files into place; a failure undoes
  what was done. The files are a map from paths to contents and modes; every call to the system
  takes a tick and may fail (\<open>fe_fails\<close>), and so may the calls that undo (\<open>fe_undo\<close>). What a
  failed write leaves in a temporary file is not told apart; directories are not recorded.
\<close>

section \<open>Plans\<close>

datatype plan_mode = ModeSingle | ModeComposite

record plan_request =
  pr_Path :: string
  pr_Services :: "service_spec list"
  pr_Relationships :: "relationship list"

record plan =
  pl_Mode :: plan_mode
  pl_RepoPath :: string
  pl_ServiceName :: string
  pl_Language :: language
  pl_HasAnitoConfig :: bool
  pl_HasPORT :: bool
  pl_HasHealthRoute :: bool
  pl_Issues :: "setup_issue list"
  pl_Allocations :: ports
  pl_GeneratedFiles :: "generated_file list"
  pl_SourcePatches :: "source_patch list"
  pl_Instructions :: "string list"

record port_catalog =
  pc_UsedPorts :: "int list"
  pc_StablePort :: "string \<Rightarrow> int option"

definition copyAllocations :: "ports \<Rightarrow> ports" where
  "copyAllocations a = a"

definition plan_Clone :: "plan \<Rightarrow> plan" where
  "plan_Clone p = p\<lparr>pl_Allocations := copyAllocations (pl_Allocations p)\<rparr>"

definition dryRunSingle :: "repo_env \<Rightarrow> string \<Rightarrow> err + plan" where
  "dryRunSingle E path =
     (case Inspect E path of
        Inl e \<Rightarrow> Inl e
      | Inr r \<Rightarrow> Inr
          \<lparr>pl_Mode = ModeSingle, pl_RepoPath = in_RepoPath r, pl_ServiceName = in_ServiceName r,
           pl_Language = in_Language r, pl_HasAnitoConfig = in_HasAnitoConfig r, pl_HasPORT = in_HasPORT r,
           pl_HasHealthRoute = in_HasHealthRoute r, pl_Issues = in_Issues r, pl_Allocations = [],
           pl_GeneratedFiles =
             (if in_SuggestedConfig r \<noteq> ''''
              then [\<lparr>gf_RelPath = ''.anito/config.yaml'', gf_Content = in_SuggestedConfig r\<rparr>] else []),
           pl_SourcePatches = [], pl_Instructions = in_Instructions r\<rparr>)"

text \<open>A service that has a stable port may ask for it again.\<close>

fun prefer_existing :: "port_catalog \<Rightarrow> service_spec list \<Rightarrow> int list \<Rightarrow> service_spec list \<times> int list" where
  "prefer_existing catalog [] used = ([], used)"
| "prefer_existing catalog (spec # specs) used =
     (case pc_StablePort catalog (ss_Name spec) of
        None \<Rightarrow> (case prefer_existing catalog specs used of (ss, u) \<Rightarrow> (spec # ss, u))
      | Some existing \<Rightarrow>
          (case prefer_existing catalog specs (removeAll existing used) of
             (ss, u) \<Rightarrow>
               ((if ss_PreferredPort spec = 0 then spec\<lparr>ss_PreferredPort := existing\<rparr> else spec) # ss, u)))"

definition dryRunComposite :: "repo_env \<Rightarrow> plan_request \<Rightarrow> port_catalog option \<Rightarrow> err + plan" where
  "dryRunComposite E req catalog =
     (case (case catalog of
              None \<Rightarrow> (pr_Services req, [])
            | Some c \<Rightarrow> prefer_existing c (pr_Services req) (pc_UsedPorts c)) of
        (specs, used) \<Rightarrow>
          (case CoordinateApp E (pr_Path req) specs (pr_Relationships req) used of
             Inl e \<Rightarrow> Inl e
           | Inr r \<Rightarrow> Inr
               \<lparr>pl_Mode = ModeComposite, pl_RepoPath = pr_Path req, pl_ServiceName = '''',
                pl_Language = NoLanguage, pl_HasAnitoConfig = False, pl_HasPORT = False,
                pl_HasHealthRoute = False, pl_Issues = [], pl_Allocations = copyAllocations (co_Allocations r),
                pl_GeneratedFiles = co_GeneratedFiles r, pl_SourcePatches = co_SourcePatches r,
                pl_Instructions = co_Instructions r\<rparr>))"

definition DryRun :: "repo_env \<Rightarrow> plan_request \<Rightarrow> port_catalog option \<Rightarrow> err + plan" where
  "DryRun E req catalog =
     (if pr_Services req \<noteq> [] then dryRunComposite E req catalog else dryRunSingle E (pr_Path req))"

section \<open>Reserving the ports\<close>

text \<open>The reserver with the interfaces it may or may not implement.\<close>

record 's reserver =
  rv_Reserve :: "string \<Rightarrow> int \<Rightarrow> 's \<Rightarrow> (int, 's) res"
  rv_StablePort :: "(string \<Rightarrow> 's \<Rightarrow> int option) option"
  rv_Remove :: "(string \<Rightarrow> 's \<Rightarrow> (unit, 's) res) option"

definition stablePortExists :: "'s reserver \<Rightarrow> string \<Rightarrow> 's \<Rightarrow> bool" where
  "stablePortExists rv name s = (case rv_StablePort rv of None \<Rightarrow> False | Some f \<Rightarrow> f name s \<noteq> None)"

definition port_comment :: string where
  "port_comment = ''# port: 3000  # omit to auto-allocate from 8100-8200''"

text \<open>\<^verbatim>\<open>strings.Replace\<close> of the first occurrence.\<close>

definition replace_first :: "string \<Rightarrow> string \<Rightarrow> string \<Rightarrow> string" where
  "replace_first s old new =
     (case str_cut s old of None \<Rightarrow> s | Some (before, after) \<Rightarrow> before @ new @ after)"

fun fill_port :: "int \<Rightarrow> generated_file list \<Rightarrow> generated_file list" where
  "fill_port port [] = []"
| "fill_port port (f # fs) =
     (if gf_RelPath f \<noteq> ''.anito/config.yaml'' then f # fill_port port fs
      else f\<lparr>gf_Content := replace_first (gf_Content f) port_comment (''port: '' @ show_int port)\<rparr> # fs)"

definition applySingleReservedPort :: "plan \<Rightarrow> int \<Rightarrow> plan" where
  "applySingleReservedPort p port =
     p\<lparr>pl_GeneratedFiles := fill_port port (pl_GeneratedFiles p),
       pl_Instructions := pl_Instructions p @
         [check_mark @ '' Reserved stable port '' @ show_int port @ '' for '' @ pl_ServiceName p @ ''.'']\<rparr>"

text \<open>The result is the error or the allocations, and the names reserved anew so far.\<close>

fun reserve_planned ::
    "'s reserver \<Rightarrow> string list \<Rightarrow> ports \<Rightarrow> string list \<Rightarrow> 's \<Rightarrow> (err + ports) \<times> string list \<times> 's" where
  "reserve_planned rv [] alloc reservations s = (Inr alloc, reservations, s)"
| "reserve_planned rv (name # names) alloc reservations s =
     (let planned = port_of alloc name; existed = stablePortExists rv name s in
      case rv_Reserve rv name planned s of
        (Inl e, s1) \<Rightarrow> (Inl (Errorf ''reserve %s: %w'' [FStr name, FErr e]), reservations, s1)
      | (Inr port, s1) \<Rightarrow>
          (let reservations1 = (if existed then reservations else reservations @ [name]) in
           if planned \<noteq> 0 \<and> port \<noteq> planned
           then (Inl (Errorf ''reserve %s: got port %d, wanted planned port %d'' [FStr name, FInt port, FInt planned]),
                 reservations1, s1)
           else reserve_planned rv names (AList.update name port alloc) reservations1 s1))"

definition reservePlanPorts ::
    "'s reserver option \<Rightarrow> plan \<Rightarrow> 's \<Rightarrow> (err + plan) \<times> string list \<times> 's" where
  "reservePlanPorts rvo p s =
     (if pl_Mode p = ModeSingle then
        (case rvo of
           None \<Rightarrow> (Inr p, [], s)
         | Some rv \<Rightarrow>
             if pl_Allocations p = [] \<and> pl_ServiceName p \<noteq> '''' then
               (let existed = stablePortExists rv (pl_ServiceName p) s in
                case rv_Reserve rv (pl_ServiceName p) 0 s of
                  (Inl e, s1) \<Rightarrow> (Inl (Errorf ''reserve %s: %w'' [FStr (pl_ServiceName p), FErr e]), [], s1)
                | (Inr port, s1) \<Rightarrow>
                    (Inr (applySingleReservedPort (p\<lparr>pl_Allocations := [(pl_ServiceName p, port)]\<rparr>) port),
                     if existed then [] else [pl_ServiceName p], s1))
             else (Inr p, [], s))
      else if pl_Allocations p = [] then (Inr p, [], s)
      else
        (case rvo of
           None \<Rightarrow> (Inl (Errorf ''port reserver is required to apply composite setup'' []), [], s)
         | Some rv \<Rightarrow>
             (case reserve_planned rv (sort (map fst (pl_Allocations p))) (pl_Allocations p) [] s of
                (Inl e, reservations, s1) \<Rightarrow> (Inl e, reservations, s1)
              | (Inr alloc, reservations, s1) \<Rightarrow> (Inr (p\<lparr>pl_Allocations := alloc\<rparr>), reservations, s1))))"

definition rollback_reservations :: "'s reserver option \<Rightarrow> string list \<Rightarrow> 's \<Rightarrow> 's" where
  "rollback_reservations rvo reservations s =
     (case rvo of
        None \<Rightarrow> s
      | Some rv \<Rightarrow>
          (case rv_Remove rv of
             None \<Rightarrow> s
           | Some rm \<Rightarrow> foldl (\<lambda>s name. snd (rm name s)) s (rev reservations)))"

section \<open>Files\<close>

type_synonym disk = "string \<rightharpoonup> string \<times> nat"

record fs_env =
  fe_cwd :: string
  fe_isdir :: "string \<Rightarrow> err + bool"
  fe_fails :: "nat \<Rightarrow> err option"
  fe_undo :: "nat \<Rightarrow> err option"
  fe_temp :: "nat \<Rightarrow> string \<Rightarrow> string"

record setup_fs =
  sf_disk :: disk
  sf_tick :: nat

definition sf_step :: "setup_fs \<Rightarrow> setup_fs" where
  "sf_step s = s\<lparr>sf_tick := Suc (sf_tick s)\<rparr>"

definition sys :: "fs_env \<Rightarrow> (disk \<Rightarrow> disk) \<Rightarrow> setup_fs \<Rightarrow> (unit, setup_fs) res" where
  "sys E f s =
     (case fe_fails E (sf_tick s) of
        Some e \<Rightarrow> (Inl e, sf_step s)
      | None \<Rightarrow> (Inr (), (sf_step s)\<lparr>sf_disk := f (sf_disk s)\<rparr>))"

definition undo :: "fs_env \<Rightarrow> (disk \<Rightarrow> disk) \<Rightarrow> setup_fs \<Rightarrow> setup_fs" where
  "undo E f s =
     (case fe_undo E (sf_tick s) of
        Some e \<Rightarrow> sf_step s
      | None \<Rightarrow> (sf_step s)\<lparr>sf_disk := f (sf_disk s)\<rparr>)"

datatype read_answer = ReadContent string | ReadMissing | ReadFailed err

definition read_file :: "fs_env \<Rightarrow> string \<Rightarrow> setup_fs \<Rightarrow> read_answer \<times> setup_fs" where
  "read_file E path s =
     (case fe_fails E (sf_tick s) of
        Some e \<Rightarrow> ReadFailed e
      | None \<Rightarrow> (case sf_disk s path of Some (c, _) \<Rightarrow> ReadContent c | None \<Rightarrow> ReadMissing), sf_step s)"

definition stat_mode :: "fs_env \<Rightarrow> string \<Rightarrow> setup_fs \<Rightarrow> (nat, setup_fs) res" where
  "stat_mode E path s =
     (case fe_fails E (sf_tick s) of
        Some e \<Rightarrow> Inl e
      | None \<Rightarrow> (case sf_disk s path of Some (_, m) \<Rightarrow> Inr m | None \<Rightarrow> Inl (IOError path)), sf_step s)"

text \<open>\<^verbatim>\<open>os.CreateTemp\<close> never opens a file that is there.\<close>

definition create_temp :: "fs_env \<Rightarrow> string \<Rightarrow> setup_fs \<Rightarrow> (string, setup_fs) res" where
  "create_temp E dir s =
     (let t = fe_temp E (sf_tick s) dir in
      case fe_fails E (sf_tick s) of
        Some e \<Rightarrow> (Inl e, sf_step s)
      | None \<Rightarrow> if sf_disk s t \<noteq> None then (Inl (IOError dir), sf_step s)
                else (Inr t, (sf_step s)\<lparr>sf_disk := (sf_disk s)(t \<mapsto> ('''', 384))\<rparr>))"

definition remove_file :: "string \<Rightarrow> disk \<Rightarrow> disk" where
  "remove_file p d = d(p := None)"

definition rename_file :: "string \<Rightarrow> string \<Rightarrow> disk \<Rightarrow> disk" where
  "rename_file old new d = (d(new := d old))(old := None)"

text \<open>\<^verbatim>\<open>os.WriteFile\<close> gives the mode only to a file it creates.\<close>

definition write_over :: "string \<Rightarrow> string \<Rightarrow> nat \<Rightarrow> disk \<Rightarrow> disk" where
  "write_over p content mode d = d(p \<mapsto> (content, case d p of Some (_, m) \<Rightarrow> m | None \<Rightarrow> mode))"

section \<open>Staging\<close>

record file_op =
  fo_relPath :: string
  fo_path :: string
  fo_tmpPath :: string
  fo_mode :: nat
  fo_existed :: bool
  fo_before :: string
  fo_beforeMode :: nat

definition cleanup :: "fs_env \<Rightarrow> file_op list \<Rightarrow> setup_fs \<Rightarrow> setup_fs" where
  "cleanup E ops s =
     foldl (\<lambda>s oper. if fo_tmpPath oper \<noteq> '''' then undo E (remove_file (fo_tmpPath oper)) s else s) s ops"

definition write_temp :: "fs_env \<Rightarrow> string \<Rightarrow> string \<Rightarrow> nat \<Rightarrow> setup_fs \<Rightarrow> (unit, setup_fs) res" where
  "write_temp E tmp content mode s =
     on_res (sys E (\<lambda>d. d(tmp \<mapsto> (content, 384))) s)
       (\<lambda>_ s1.
          on_res (sys E (\<lambda>d. d(tmp \<mapsto> (content, mode))) s1)
            (\<lambda>_ s2. on_res (sys E (\<lambda>d. d) s2) (\<lambda>_ s3. (Inr (), s3)) (\<lambda>e s3. (Inl e, undo E (remove_file tmp) s3)))
            (\<lambda>e s2. (Inl e, undo E (remove_file tmp) s2)))
       (\<lambda>e s1. (Inl e, undo E (remove_file tmp) s1))"

text \<open>What is at the target now; then the temporary file beside it.\<close>

definition look_before :: "fs_env \<Rightarrow> file_op \<Rightarrow> setup_fs \<Rightarrow> (file_op, setup_fs) res" where
  "look_before E oper s =
     (case read_file E (fo_path oper) s of
        (ReadContent data, s1) \<Rightarrow>
          on_res (stat_mode E (fo_path oper) s1)
            (\<lambda>m s2. (Inr (oper\<lparr>fo_existed := True, fo_before := data, fo_beforeMode := m,
                              fo_mode := (if fo_mode oper = 0 then m else fo_mode oper)\<rparr>), s2))
            (\<lambda>_ s2. (Inr (oper\<lparr>fo_existed := True, fo_before := data\<rparr>), s2))
      | (ReadMissing, s1) \<Rightarrow> (Inr oper, s1)
      | (ReadFailed e, s1) \<Rightarrow> (Inl e, s1))"

definition stageFile :: "fs_env \<Rightarrow> string \<Rightarrow> string \<Rightarrow> string \<Rightarrow> nat \<Rightarrow> setup_fs \<Rightarrow> (file_op, setup_fs) res" where
  "stageFile E root rel content mode s =
     (case safeJoin (fe_cwd E) root rel of
        Inl e \<Rightarrow> (Inl e, s)
      | Inr path \<Rightarrow>
          on_res (look_before E \<lparr>fo_relPath = rel, fo_path = path, fo_tmpPath = '''', fo_mode = mode, fo_existed = False,
                               fo_before = '''', fo_beforeMode = 0\<rparr> s)
            (\<lambda>op0 s1.
               (let oper = (if fo_mode op0 = 0 then op0\<lparr>fo_mode := 420\<rparr> else op0) in
                on_res (sys E (\<lambda>d. d) s1)
                  (\<lambda>_ s2.
                     on_res (create_temp E (path_dir path) s2)
                       (\<lambda>tmp s3.
                          on_res (write_temp E tmp content (fo_mode oper) s3)
                            (\<lambda>_ s4. (Inr (oper\<lparr>fo_tmpPath := tmp\<rparr>), s4))
                            (\<lambda>e s4. (Inl e, s4)))
                       (\<lambda>e s3. (Inl e, s3)))
                  (\<lambda>e s2. (Inl e, s2))))
            (\<lambda>e s1. (Inl e, s1)))"

text \<open>The managed block of a source file; what is around it stays.\<close>

definition replaceManagedBlock :: "string \<Rightarrow> string \<Rightarrow> string option" where
  "replaceManagedBlock content block =
     (case str_index content ManagedBlockStart of
        None \<Rightarrow> None
      | Some start \<Rightarrow>
          (case str_index (drop start content) ManagedBlockEnd of
             None \<Rightarrow> None
           | Some endRel \<Rightarrow>
               (let after = drop (start + endRel + length ManagedBlockEnd) content;
                    rest = (case after of c # cs \<Rightarrow> if c = newline then cs else after | [] \<Rightarrow> []);
                    replacement = (if has_suffix block [newline] then block else block @ [newline])
                in Some (take start content @ replacement @ rest))))"

definition modeForGeneratedFile :: "string \<Rightarrow> nat" where
  "modeForGeneratedFile rel = (if has_suffix rel ''.sh'' then 493 else 420)"

definition isPatchPath :: "source_patch list \<Rightarrow> string \<Rightarrow> bool" where
  "isPatchPath patches rel = list_ex (\<lambda>p. pa_RelPath p = rel) patches"

text \<open>The operations staged so far come back with the error, to be cleaned up.\<close>

fun stage_files ::
    "fs_env \<Rightarrow> string \<Rightarrow> generated_file list \<Rightarrow> file_op list \<Rightarrow> setup_fs
     \<Rightarrow> (err + unit) \<times> file_op list \<times> setup_fs" where
  "stage_files E root [] ops s = (Inr (), ops, s)"
| "stage_files E root (f # fs) ops s =
     on_res (stageFile E root (gf_RelPath f) (gf_Content f) (modeForGeneratedFile (gf_RelPath f)) s)
       (\<lambda>oper s1. stage_files E root fs (ops @ [oper]) s1)
       (\<lambda>e s1. (Inl e, ops, s1))"

fun stage_patches ::
    "fs_env \<Rightarrow> string \<Rightarrow> source_patch list \<Rightarrow> string list \<Rightarrow> file_op list \<Rightarrow> setup_fs
     \<Rightarrow> (err + string list) \<times> file_op list \<times> setup_fs" where
  "stage_patches E root [] unapplied ops s = (Inr unapplied, ops, s)"
| "stage_patches E root (p # ps) unapplied ops s =
     (case safeJoin (fe_cwd E) root (pa_RelPath p) of
        Inl e \<Rightarrow> (Inl e, ops, s)
      | Inr path \<Rightarrow>
          (case read_file E path s of
             (ReadMissing, s1) \<Rightarrow> stage_patches E root ps (unapplied @ [pa_RelPath p]) ops s1
           | (ReadFailed e, s1) \<Rightarrow> (Inl e, ops, s1)
           | (ReadContent data, s1) \<Rightarrow>
               (case replaceManagedBlock data (pa_Block p) of
                  None \<Rightarrow> stage_patches E root ps (unapplied @ [pa_RelPath p]) ops s1
                | Some nxt \<Rightarrow>
                    on_res (stat_mode E path s1)
                      (\<lambda>mode s2.
                         on_res (stageFile E root (pa_RelPath p) nxt mode s2)
                           (\<lambda>oper s3. stage_patches E root ps unapplied (ops @ [oper]) s3)
                           (\<lambda>e s3. (Inl e, ops, s3)))
                      (\<lambda>e s2. (Inl e, ops, s2)))))"

record application =
  ap_ops :: "file_op list"
  ap_unapplied :: "string list"

definition prepareApplication :: "fs_env \<Rightarrow> plan \<Rightarrow> setup_fs \<Rightarrow> (application, setup_fs) res" where
  "prepareApplication E p s =
     (case stage_files E (pl_RepoPath p) (pl_GeneratedFiles p) [] s of
        (Inl e, ops, s1) \<Rightarrow> (Inl e, cleanup E ops s1)
      | (Inr _, ops, s1) \<Rightarrow>
          (case stage_patches E (pl_RepoPath p) (pl_SourcePatches p) [] ops s1 of
             (Inl e, ops2, s2) \<Rightarrow> (Inl e, cleanup E ops2 s2)
           | (Inr unapplied, ops2, s2) \<Rightarrow> (Inr \<lparr>ap_ops = ops2, ap_unapplied = unapplied\<rparr>, s2)))"

section \<open>Committing\<close>

definition undo_op :: "fs_env \<Rightarrow> setup_fs \<Rightarrow> file_op \<Rightarrow> setup_fs" where
  "undo_op E s oper =
     (if fo_existed oper
      then undo E (write_over (fo_path oper) (fo_before oper)
                     (if fo_beforeMode oper = 0 then fo_mode oper else fo_beforeMode oper)) s
      else undo E (remove_file (fo_path oper)) s)"

definition rollback_ops :: "fs_env \<Rightarrow> file_op list \<Rightarrow> setup_fs \<Rightarrow> setup_fs" where
  "rollback_ops E committed s = foldl (undo_op E) s (rev committed)"

record apply_result =
  ar_Plan :: plan
  ar_Applied :: bool
  ar_AppliedFiles :: "string list"
  ar_AppliedPatches :: "string list"
  ar_UnappliedPatches :: "string list"

definition applied :: "file_op \<Rightarrow> apply_result \<Rightarrow> apply_result" where
  "applied oper r =
     (if isPatchPath (pl_SourcePatches (ar_Plan r)) (fo_relPath oper)
      then r\<lparr>ar_AppliedPatches := ar_AppliedPatches r @ [fo_relPath oper]\<rparr>
      else r\<lparr>ar_AppliedFiles := ar_AppliedFiles r @ [fo_relPath oper]\<rparr>)"

fun commit_ops ::
    "fs_env \<Rightarrow> file_op list \<Rightarrow> file_op list \<Rightarrow> file_op list \<Rightarrow> apply_result \<Rightarrow> setup_fs
     \<Rightarrow> (apply_result, setup_fs) res" where
  "commit_ops E everything committed [] r s = (Inr r, s)"
| "commit_ops E everything committed (oper # ops) r s =
     on_res (sys E (rename_file (fo_tmpPath oper) (fo_path oper)) s)
       (\<lambda>_ s1. commit_ops E everything (committed @ [oper]) ops (applied oper r) s1)
       (\<lambda>e s1. (Inl e, cleanup E everything (rollback_ops E committed s1)))"

definition commit :: "fs_env \<Rightarrow> application \<Rightarrow> apply_result \<Rightarrow> setup_fs \<Rightarrow> (apply_result, setup_fs) res" where
  "commit E app r s = commit_ops E (ap_ops app) [] (ap_ops app) r s"

section \<open>Applying\<close>

definition validateRepoRoot :: "fs_env \<Rightarrow> string \<Rightarrow> err + unit" where
  "validateRepoRoot E root =
     (if root = '''' then Inl (Errorf ''repo_path is required'' [])
      else case fe_isdir E root of
        Inl e \<Rightarrow> Inl e
      | Inr isDir \<Rightarrow> if isDir then Inr () else Inl (Errorf ''repo_path %q is not a directory'' [FStr root]))"

definition validatedRelPath :: "fs_env \<Rightarrow> string \<Rightarrow> string \<Rightarrow> err + string" where
  "validatedRelPath E root rel =
     (case safeJoin (fe_cwd E) root rel of Inl e \<Rightarrow> Inl e | Inr path \<Rightarrow> Inr (Clean path))"

text \<open>\<open>seen\<close> maps the targets to what writes them.\<close>

fun validate_paths ::
    "fs_env \<Rightarrow> string \<Rightarrow> (string \<times> string \<times> string) list \<Rightarrow> string gomap \<Rightarrow> err + unit" where
  "validate_paths E root [] seen = Inr ()"
| "validate_paths E root ((rel, what, label) # rest) seen =
     (case validatedRelPath E root rel of
        Inl e \<Rightarrow> Inl e
      | Inr key \<Rightarrow>
          (case map_of seen key of
             Some prev \<Rightarrow> Inl (Errorf ''setup plan writes %q more than once (%s and %s)'' [FStr rel, FStr prev, FStr label])
           | None \<Rightarrow> validate_paths E root rest (AList.update key what seen)))"

definition plan_writes :: "plan \<Rightarrow> (string \<times> string \<times> string) list" where
  "plan_writes p =
     map (\<lambda>f. (gf_RelPath f, ''generated file'', ''generated file'')) (pl_GeneratedFiles p) @
     map (\<lambda>q. (pa_RelPath q, ''source patch'', ''source patch'')) (pl_SourcePatches p)"

definition validatePlanPaths :: "fs_env \<Rightarrow> plan \<Rightarrow> err + unit" where
  "validatePlanPaths E p = validate_paths E (pl_RepoPath p) (plan_writes p) []"

definition Apply ::
    "fs_env \<Rightarrow> 's reserver option \<Rightarrow> plan option \<Rightarrow> 's \<Rightarrow> setup_fs \<Rightarrow> (err + apply_result) \<times> 's \<times> setup_fs" where
  "Apply E rvo po s fs =
     (case po of
        None \<Rightarrow> (Inl (Errorf ''setup plan is required'' []), s, fs)
      | Some p0 \<Rightarrow>
          (let effective = plan_Clone p0 in
           if pl_Mode effective = ModeSingle \<and> pl_HasAnitoConfig effective
           then (Inl (Errorf ''%s already has .anito/config.yaml; call anito_deploy or anito_doctor instead of applying setup''
                        [FStr (pl_RepoPath effective)]), s, fs)
           else
             (case validateRepoRoot E (pl_RepoPath effective) of
                Inl e \<Rightarrow> (Inl e, s, fs)
              | Inr _ \<Rightarrow>
                  (case validatePlanPaths E effective of
                     Inl e \<Rightarrow> (Inl e, s, fs)
                   | Inr _ \<Rightarrow>
                       (case reservePlanPorts rvo effective s of
                          (Inl e, reservations, s1) \<Rightarrow> (Inl e, rollback_reservations rvo reservations s1, fs)
                        | (Inr p1, reservations, s1) \<Rightarrow>
                            (case prepareApplication E p1 fs of
                               (Inl e, fs1) \<Rightarrow> (Inl e, rollback_reservations rvo reservations s1, fs1)
                             | (Inr app, fs1) \<Rightarrow>
                                 (case commit E app \<lparr>ar_Plan = p1, ar_Applied = True, ar_AppliedFiles = [], ar_AppliedPatches = [],
                                                     ar_UnappliedPatches = ap_unapplied app\<rparr> fs1 of
                                    (Inl e, fs2) \<Rightarrow> (Inl e, rollback_reservations rvo reservations s1, fs2)
                                  | (Inr r, fs2) \<Rightarrow> (Inr r, s1, fs2))))))))"

end
