(* ===== verification/Setup_Apply_Props.thy ===== *)
theory Setup_Apply_Props
  imports Setup_Apply
begin

text \<open>
  Applying a setup plan to the files: a failed application leaves every file with the contents it had
  (\<open>Apply_all_or_nothing\<close>), a successful one writes each file of the plan and touches nothing else
  (\<open>Apply_writes_plan\<close>); what the managed block of a source file keeps of its surroundings.
\<close>

definition contents :: "disk \<Rightarrow> string \<Rightarrow> string option" where
  "contents d q = map_option fst (d q)"

definition plan_rels :: "plan \<Rightarrow> string list" where
  "plan_rels p = map gf_RelPath (pl_GeneratedFiles p) @ map pa_RelPath (pl_SourcePatches p)"

text \<open>\<^verbatim>\<open>os.CreateTemp\<close> gives names \<^verbatim>\<open>.anito-setup-*\<close> that a plan does not write to.\<close>

definition temps_apart :: "fs_env \<Rightarrow> plan \<Rightarrow> bool" where
  "temps_apart E p \<longleftrightarrow> (\<forall>n dir. fe_temp E n dir \<noteq> '''' \<and>
     (\<forall>rel \<in> set (plan_rels p). safeJoin (fe_cwd E) (pl_RepoPath p) rel \<noteq> Inr (fe_temp E n dir)))"

section \<open>Staging one file\<close>

text \<open>What an operation remembers of its target.\<close>

definition saved :: "disk \<Rightarrow> file_op \<Rightarrow> bool" where
  "saved d oper = (if fo_existed oper then contents d (fo_path oper) = Some (fo_before oper)
                   else d (fo_path oper) = None)"

lemma sf_step_disk [simp]: "sf_disk (sf_step s) = sf_disk s"
  by (simp add: sf_step_def)

lemma undo_disk [simp]: "fe_undo E = (\<lambda>_. None) \<Longrightarrow> sf_disk (undo E f s) = f (sf_disk s)"
  by (simp add: undo_def)

lemma read_file_disk: "read_file E p s = (x, s') \<Longrightarrow> sf_disk s' = sf_disk s
   \<and> (\<forall>c. x = ReadContent c \<longrightarrow> contents (sf_disk s) p = Some c) \<and> (x = ReadMissing \<longrightarrow> sf_disk s p = None)"
  by (auto simp: read_file_def contents_def split: option.splits)

lemma stat_mode_disk [simp]: "sf_disk (snd (stat_mode E p s)) = sf_disk s"
  by (auto simp: stat_mode_def split: option.splits)

lemma sys_cases:
  assumes "sys E f s = (x, s')"
  obtains (failed) e where "x = Inl e" "sf_disk s' = sf_disk s"
  | (went) "x = Inr ()" "sf_disk s' = f (sf_disk s)"
  using assms by (auto simp: sys_def split: option.splits)

lemma create_temp_ok: "create_temp E dir s = (Inr tmp, s') \<Longrightarrow> sf_disk s tmp = None
   \<and> sf_disk s' = (sf_disk s)(tmp \<mapsto> ('''', 384)) \<and> (\<exists>n. tmp = fe_temp E n dir)"
  by (cases "sf_disk s (fe_temp E (sf_tick s) dir)") (auto simp: create_temp_def Let_def split: option.splits if_splits)

lemma create_temp_failed: "create_temp E dir s = (Inl e, s') \<Longrightarrow> sf_disk s' = sf_disk s"
  by (auto simp: create_temp_def Let_def split: option.splits if_splits)

lemma write_temp_ok: "write_temp E tmp c m s = (Inr u, s') \<Longrightarrow> sf_disk s' = (sf_disk s)(tmp \<mapsto> (c, m))"
  by (auto simp: write_temp_def sys_def split: option.splits)

lemma write_temp_failed: "write_temp E tmp c m s = (Inl e, s') \<Longrightarrow> fe_undo E = (\<lambda>_. None) \<Longrightarrow>
   sf_disk s' = (sf_disk s)(tmp := None)"
  by (auto simp: write_temp_def sys_def remove_file_def split: option.splits)

lemma look_before_ok:
  "look_before E op0 s = (Inr oper, s') \<Longrightarrow> \<not> fo_existed op0 \<Longrightarrow> sf_disk s' = sf_disk s \<and> saved (sf_disk s) oper
   \<and> fo_path oper = fo_path op0 \<and> fo_relPath oper = fo_relPath op0 \<and> (fo_mode op0 \<noteq> 0 \<longrightarrow> fo_mode oper = fo_mode op0)"
  by (auto simp: look_before_def saved_def on_res_def dest!: read_file_disk
      split: prod.splits read_answer.splits sum.splits)

lemma look_before_failed: "look_before E op0 s = (Inl e, s') \<Longrightarrow> sf_disk s' = sf_disk s"
  by (auto simp: look_before_def on_res_def dest!: read_file_disk
      split: prod.splits read_answer.splits sum.splits)

lemma stageFile_ok:
  assumes "stageFile E root rel c m s = (Inr oper, s')"
  shows "safeJoin (fe_cwd E) root rel = Inr (fo_path oper) \<and> fo_relPath oper = rel
    \<and> sf_disk s (fo_tmpPath oper) = None \<and> sf_disk s' = (sf_disk s)(fo_tmpPath oper \<mapsto> (c, fo_mode oper))
    \<and> saved (sf_disk s) oper \<and> (\<exists>n dir. fo_tmpPath oper = fe_temp E n dir) \<and> (m \<noteq> 0 \<longrightarrow> fo_mode oper = m)"
proof -
  obtain path where path: "safeJoin (fe_cwd E) root rel = Inr path"
    using assms by (auto simp: stageFile_def split: sum.splits)
  let ?new = "\<lparr>fo_relPath = rel, fo_path = path, fo_tmpPath = '''', fo_mode = m, fo_existed = False,
    fo_before = '''', fo_beforeMode = 0\<rparr>"
  obtain op0 s1 s2 tmp s3 where look: "look_before E ?new s = (Inr op0, s1)"
    and mk: "sys E (\<lambda>d. d) s1 = (Inr (), s2)" and temp: "create_temp E (path_dir path) s2 = (Inr tmp, s3)"
    and wr: "write_temp E tmp c (fo_mode (if fo_mode op0 = 0 then op0\<lparr>fo_mode := 420\<rparr> else op0)) s3 = (Inr (), s')"
    and oper: "oper = (if fo_mode op0 = 0 then op0\<lparr>fo_mode := 420\<rparr> else op0)\<lparr>fo_tmpPath := tmp\<rparr>"
    using assms unfolding stageFile_def by (auto simp: path Let_def split: on_res_split_asm)
  have "sf_disk s2 = sf_disk s1" using mk by (cases rule: sys_cases) auto
  with path look_before_ok [OF look] create_temp_ok [OF temp] write_temp_ok [OF wr] show ?thesis
    by (auto simp: oper saved_def)
qed

lemma stageFile_failed:
  assumes "stageFile E root rel c m s = (Inl e, s')" and "fe_undo E = (\<lambda>_. None)"
  shows "sf_disk s' = sf_disk s"
proof (cases "safeJoin (fe_cwd E) root rel")
  case (Inr path)
  let ?new = "\<lparr>fo_relPath = rel, fo_path = path, fo_tmpPath = '''', fo_mode = m, fo_existed = False,
    fo_before = '''', fo_beforeMode = 0\<rparr>"
  show ?thesis
  proof (cases "look_before E ?new s")
    case (Pair x s1)
    show ?thesis
    proof (cases x)
      case (Inr op0)
      obtain y s2 where y: "sys E (\<lambda>d. d) s1 = (y, s2)" by fastforce
      then have "sf_disk s2 = sf_disk s1" by (cases rule: sys_cases) auto
      with assms look_before_ok [of E ?new s op0 s1] Pair Inr y show ?thesis
        by (auto simp: stageFile_def \<open>safeJoin (fe_cwd E) root rel = Inr path\<close> Let_def fun_upd_idem
            dest!: create_temp_ok create_temp_failed write_temp_failed split: on_res_split_asm)
    qed (use assms Pair \<open>safeJoin (fe_cwd E) root rel = Inr path\<close> in
        \<open>auto simp: stageFile_def dest: look_before_failed\<close>)
  qed
qed (use assms in \<open>simp add: stageFile_def\<close>)

section \<open>Staging a plan\<close>

type_synonym planned_write = "string \<times> string \<times> nat"

definition file_write :: "generated_file \<Rightarrow> planned_write" where
  "file_write f = (gf_RelPath f, gf_Content f, modeForGeneratedFile (gf_RelPath f))"

text \<open>A patch is written where its target has a managed block.\<close>

definition patch_write :: "fs_env \<Rightarrow> string \<Rightarrow> disk \<Rightarrow> source_patch \<Rightarrow> planned_write list" where
  "patch_write E root d p =
     (case safeJoin (fe_cwd E) root (pa_RelPath p) of
        Inl e \<Rightarrow> []
      | Inr path \<Rightarrow>
          (case contents d path of
             None \<Rightarrow> []
           | Some c \<Rightarrow> (case replaceManagedBlock c (pa_Block p) of
                          None \<Rightarrow> [] | Some nxt \<Rightarrow> [(pa_RelPath p, nxt, 0)])))"

definition writes :: "fs_env \<Rightarrow> disk \<Rightarrow> plan \<Rightarrow> planned_write list" where
  "writes E d p = map file_write (pl_GeneratedFiles p) @ concat (map (patch_write E (pl_RepoPath p) d) (pl_SourcePatches p))"

text \<open>The operations \<open>ops\<close> are staged for the writes \<open>ws\<close>: only their temporary files are new.\<close>

definition holds_write :: "fs_env \<Rightarrow> string \<Rightarrow> disk \<Rightarrow> file_op \<Rightarrow> planned_write \<Rightarrow> bool" where
  "holds_write E root d oper w =
     (case w of (rel, c, m) \<Rightarrow> fo_relPath oper = rel \<and> safeJoin (fe_cwd E) root rel = Inr (fo_path oper)
        \<and> d (fo_tmpPath oper) = Some (c, fo_mode oper) \<and> (m \<noteq> 0 \<longrightarrow> fo_mode oper = m))"

definition tmps :: "file_op list \<Rightarrow> string set" where
  "tmps ops = fo_tmpPath ` set ops"

definition staged :: "fs_env \<Rightarrow> string \<Rightarrow> disk \<Rightarrow> file_op list \<Rightarrow> planned_write list \<Rightarrow> disk \<Rightarrow> bool" where
  "staged E root d0 ops ws d \<longleftrightarrow>
     (\<forall>q. q \<notin> tmps ops \<longrightarrow> d q = d0 q) \<and> distinct (map fo_tmpPath ops) \<and>
     (\<forall>oper \<in> set ops. saved d0 oper \<and> d0 (fo_tmpPath oper) = None \<and> (\<exists>n dir. fo_tmpPath oper = fe_temp E n dir)) \<and>
     list_all2 (holds_write E root d) ops ws"

definition rels_apart :: "fs_env \<Rightarrow> string \<Rightarrow> string set \<Rightarrow> bool" where
  "rels_apart E root rels \<longleftrightarrow> (\<forall>n dir. \<forall>rel \<in> rels. safeJoin (fe_cwd E) root rel \<noteq> Inr (fe_temp E n dir))"

lemma staged_none: "staged E root d [] [] d"
  by (simp add: staged_def)

lemma staged_same: "staged E root d0 ops ws d \<Longrightarrow> rels_apart E root rels \<Longrightarrow> rel \<in> rels \<Longrightarrow>
   safeJoin (fe_cwd E) root rel = Inr path \<Longrightarrow> d path = d0 path"
  unfolding staged_def rels_apart_def tmps_def by (metis (no_types, lifting) imageE)

lemma holds_writes_tmp: "list_all2 (holds_write E root d) ops ws \<Longrightarrow> t \<in> tmps ops \<Longrightarrow> d t \<noteq> None"
  by (induction ops ws rule: list_all2_induct) (auto simp: tmps_def holds_write_def)

lemma staged_tmp: "staged E root d0 ops ws d \<Longrightarrow> t \<in> tmps ops \<Longrightarrow> d t \<noteq> None"
  unfolding staged_def by (blast dest: holds_writes_tmp)

lemma staged_step:
  assumes st: "staged E root d0 ops ws (sf_disk s)" and apart: "rels_apart E root rels" "rel \<in> rels"
    and one: "stageFile E root rel c m s = (Inr oper, s')"
  shows "staged E root d0 (ops @ [oper]) (ws @ [(rel, c, m)]) (sf_disk s')"
proof -
  note ok = stageFile_ok [OF one]
  have fresh: "fo_tmpPath oper \<notin> tmps ops" using staged_tmp [OF st] ok by metis
  then have keep: "\<And>o1. o1 \<in> set ops \<Longrightarrow> sf_disk s' (fo_tmpPath o1) = sf_disk s (fo_tmpPath o1)"
    using ok unfolding tmps_def by (metis (mono_tags, lifting) fun_upd_other imageI)
  have same: "sf_disk s (fo_path oper) = d0 (fo_path oper)" using st apart ok by (blast intro: staged_same)
  have "d0 (fo_tmpPath oper) = None" using st ok fresh by (metis staged_def)
  moreover have "saved d0 oper" using ok unfolding saved_def contents_def same by simp
  moreover have "list_all2 (holds_write E root (sf_disk s')) ops ws"
    using st keep by (auto simp: staged_def holds_write_def list_all2_conv_all_nth)
  moreover have "holds_write E root (sf_disk s') oper (rel, c, m)"
    using ok by (simp add: holds_write_def)
  moreover have "\<forall>q. q \<notin> tmps (ops @ [oper]) \<longrightarrow> sf_disk s' q = d0 q"
    using st ok by (simp add: staged_def tmps_def)
  ultimately show ?thesis
    using st ok fresh by (simp add: staged_def tmps_def list_all2_appendI)
qed

lemma stage_files_staged:
  assumes "stage_files E root fs ops s = (x, ops', s')" and "staged E root d0 ops ws (sf_disk s)"
    and "rels_apart E root rels" and "gf_RelPath ` set fs \<subseteq> rels" and "fe_undo E = (\<lambda>_. None) \<or> x = Inr ()"
  shows "\<exists>ws'. staged E root d0 ops' ws' (sf_disk s') \<and> (x = Inr () \<longrightarrow> ws' = ws @ map file_write fs)"
  using assms
proof (induction E root fs ops s arbitrary: ws rule: stage_files.induct)
  case (2 E root f fs ops s)
  show ?case
  proof (cases "stageFile E root (gf_RelPath f) (gf_Content f) (modeForGeneratedFile (gf_RelPath f)) s")
    case (Pair y s1)
    show ?thesis
    proof (cases y)
      case (Inl e)
      with Pair "2.prems" stageFile_failed [of E root] show ?thesis by auto
    next
      case (Inr oper)
      with Pair "2.prems" have "staged E root d0 (ops @ [oper]) (ws @ [file_write f]) (sf_disk s1)"
        unfolding file_write_def by (intro staged_step [where rels = rels]) auto
      with "2.IH" [OF _ this] Pair Inr "2.prems" show ?thesis by auto
    qed
  qed
qed auto

lemma patch_write_content:
  "safeJoin (fe_cwd E) root (pa_RelPath p) = Inr path \<Longrightarrow> patch_write E root d p =
     (case contents d path of None \<Rightarrow> [] | Some c \<Rightarrow>
        (case replaceManagedBlock c (pa_Block p) of None \<Rightarrow> [] | Some nxt \<Rightarrow> [(pa_RelPath p, nxt, 0)]))"
  by (simp add: patch_write_def)

lemma staged_weaken: "staged E root d0 ops (ws @ [(rel, c, m)]) d \<Longrightarrow> staged E root d0 ops (ws @ [(rel, c, 0)]) d"
  by (auto simp: staged_def list_all2_append2 holds_write_def list_all2_Cons2)

lemma stage_patches_staged:
  assumes "stage_patches E root ps un ops s = (x, ops', s')" and "staged E root d0 ops ws (sf_disk s)"
    and "rels_apart E root rels" and "pa_RelPath ` set ps \<subseteq> rels" and "fe_undo E = (\<lambda>_. None) \<or> ok x"
  shows "\<exists>ws'. staged E root d0 ops' ws' (sf_disk s') \<and>
    (ok x \<longrightarrow> ws' = ws @ concat (map (patch_write E root d0) ps)
       \<and> x = Inr (un @ map pa_RelPath (filter (\<lambda>p. patch_write E root d0 p = []) ps)))"
  using assms
proof (induction ps arbitrary: un ops s ws)
  case (Cons p ps)
  show ?case
  proof (cases "safeJoin (fe_cwd E) root (pa_RelPath p)")
    case path: (Inr path)
    have same: "sf_disk s path = d0 path"
      using Cons.prems path by (auto intro: staged_same [where rels = rels and rel = "pa_RelPath p"])
    obtain a s1 where rd: "read_file E path s = (a, s1)" by fastforce
    note rd' = read_file_disk [OF rd]
    show ?thesis
    proof (cases a)
      case ReadMissing
      with rd' same have none: "patch_write E root d0 p = []" by (simp add: patch_write_content [OF path] contents_def)
      with Cons.IH [of "un @ [pa_RelPath p]" ops s1 ws] Cons.prems path rd rd' ReadMissing show ?thesis by simp
    next
      case (ReadContent c)
      with rd' same have c: "contents d0 path = Some c" by (simp add: contents_def)
      show ?thesis
      proof (cases "replaceManagedBlock c (pa_Block p)")
        case None
        then have none: "patch_write E root d0 p = []" by (simp add: patch_write_content [OF path] c)
        with Cons.IH [of "un @ [pa_RelPath p]" ops s1 ws] Cons.prems path rd rd' ReadContent None
        show ?thesis by simp
      next
        case (Some nxt)
        then have w: "patch_write E root d0 p = [(pa_RelPath p, nxt, 0)]" by (simp add: patch_write_content [OF path] c)
        obtain y s2 where st: "stat_mode E path s1 = (y, s2)" by fastforce
        have d2: "sf_disk s2 = sf_disk s" using st rd' stat_mode_disk [of E path s1] by simp
        show ?thesis
        proof (cases y)
          case (Inr mode)
          obtain z s3 where sg: "stageFile E root (pa_RelPath p) nxt mode s2 = (z, s3)" by fastforce
          show ?thesis
          proof (cases z)
            case (Inl e)
            with sg Cons.prems stageFile_failed [OF sg [unfolded Inl]] path rd ReadContent Some st Inr d2
            show ?thesis by auto
          next
            case oper: (Inr oper)
            have st2: "staged E root d0 ops ws (sf_disk s2)" using d2 Cons.prems by simp
            have "staged E root d0 (ops @ [oper]) (ws @ [(pa_RelPath p, nxt, mode)]) (sf_disk s3)"
              using Cons.prems oper sg by (intro staged_step [OF st2, where rels = rels]) auto
            then have "staged E root d0 (ops @ [oper]) (ws @ [(pa_RelPath p, nxt, 0)]) (sf_disk s3)"
              by (rule staged_weaken)
            with Cons.IH [of un "ops @ [oper]" s3 "ws @ [(pa_RelPath p, nxt, 0)]"] Cons.prems
              path rd ReadContent Some st Inr sg oper w show ?thesis by simp
          qed
        qed (use Cons.prems path rd ReadContent Some st d2 in auto)
      qed
    qed (use Cons.prems path rd rd' in auto)
  qed (use Cons.prems in auto)
qed auto

section \<open>Cleaning up and rolling back\<close>

lemma cleanup_disk:
  assumes "fe_undo E = (\<lambda>_. None)" and "'''' \<notin> tmps ops"
  shows "sf_disk (cleanup E ops s) q = (if q \<in> tmps ops then None else sf_disk s q)"
  using assms(2)
proof (induction ops arbitrary: s)
  case (Cons oper ops)
  from Cons.prems have "'''' \<notin> tmps ops" "fo_tmpPath oper \<noteq> ''''" by (auto simp: tmps_def)
  with Cons.IH [of "undo E (remove_file (fo_tmpPath oper)) s"] assms(1) show ?case
    by (auto simp: cleanup_def remove_file_def tmps_def)
qed (simp add: cleanup_def tmps_def)

lemma cleanup_staged:
  assumes "fe_undo E = (\<lambda>_. None)" and "\<forall>n dir. fe_temp E n dir \<noteq> ''''" and "staged E root d0 ops ws (sf_disk s)"
  shows "sf_disk (cleanup E ops s) = d0"
proof
  fix q
  have "'''' \<notin> tmps ops" using assms(2,3) unfolding staged_def tmps_def by (metis (no_types, lifting) imageE)
  then show "sf_disk (cleanup E ops s) q = d0 q"
    using assms by (auto simp: cleanup_disk staged_def tmps_def)
qed

lemma undo_op_contents:
  "fe_undo E = (\<lambda>_. None) \<Longrightarrow> saved d0 oper \<Longrightarrow>
   contents (sf_disk (undo_op E s oper)) q = (if q = fo_path oper then contents d0 q else contents (sf_disk s) q)"
  by (auto simp: undo_op_def saved_def write_over_def remove_file_def contents_def split: if_splits)

lemma rollback_contents:
  assumes "fe_undo E = (\<lambda>_. None)" and "\<forall>oper \<in> set committed. saved d0 oper"
  shows "contents (sf_disk (rollback_ops E committed s)) q =
    (if q \<in> fo_path ` set committed then contents d0 q else contents (sf_disk s) q)"
proof -
  have "\<forall>oper \<in> set ops. saved d0 oper \<Longrightarrow> contents (sf_disk (foldl (undo_op E) s ops)) q =
    (if q \<in> fo_path ` set ops then contents d0 q else contents (sf_disk s) q)" for ops
    using assms(1) by (induction ops arbitrary: s) (auto simp: undo_op_contents)
  with assms(2) show ?thesis by (simp add: rollback_ops_def)
qed

lemma commit_failed:
  assumes "commit_ops E everything committed ops r s = (Inl e, s')" and "fe_undo E = (\<lambda>_. None)"
    and "'''' \<notin> tmps everything"
    and "\<forall>oper \<in> set everything. saved d0 oper \<and> d0 (fo_tmpPath oper) = None \<and> fo_path oper \<notin> tmps everything"
    and "set committed \<subseteq> set everything" and "set ops \<subseteq> set everything"
    and "\<forall>q. q \<notin> tmps everything \<longrightarrow> q \<notin> fo_path ` set committed \<longrightarrow> sf_disk s q = d0 q"
  shows "contents (sf_disk s') = contents d0"
  using assms
proof (induction E everything committed ops r s rule: commit_ops.induct)
  case (2 E everything committed oper ops r s)
  let ?mv = "rename_file (fo_tmpPath oper) (fo_path oper)"
  obtain x s1 where x: "sys E ?mv s = (x, s1)" by fastforce
  then show ?case
  proof (cases rule: sys_cases)
    case (failed e')
    show ?thesis
    proof
      fix q
      have s': "s' = cleanup E everything (rollback_ops E committed s1)" using "2.prems"(1) x failed by simp
      have "\<forall>oper \<in> set committed. saved d0 oper" using "2.prems" by auto
      note undone = rollback_contents [OF "2.prems"(2) this, of s1 q]
      show "contents (sf_disk s') q = contents d0 q"
      proof (cases "q \<in> tmps everything")
        case True
        then have "d0 q = None" using "2.prems"(4) by (auto simp: tmps_def)
        with True "2.prems" show ?thesis by (simp add: s' contents_def cleanup_disk)
      next
        case False
        then have "contents (sf_disk s') q = contents (sf_disk (rollback_ops E committed s1)) q"
          using "2.prems" by (simp add: s' contents_def cleanup_disk)
        with undone False "2.prems"(7) failed show ?thesis by (simp add: contents_def)
      qed
    qed
  next
    case went
    have "fo_tmpPath oper \<in> tmps everything" using "2.prems"(6) by (auto simp: tmps_def)
    then have "\<forall>q. q \<notin> tmps everything \<longrightarrow> q \<notin> fo_path ` set (committed @ [oper]) \<longrightarrow> sf_disk s1 q = d0 q"
      using went "2.prems"(7) by (auto simp: rename_file_def)
    with "2.IH" [of s1] "2.prems" x went show ?thesis by auto
  qed
qed simp

lemma commit_plan: "commit_ops E everything committed ops r s = (Inr r', s') \<Longrightarrow> ar_Plan r' = ar_Plan r"
  by (induction E everything committed ops r s rule: commit_ops.induct) (auto simp: applied_def split: on_res_split_asm if_splits)

lemma commit_done:
  assumes "commit_ops E everything committed ops r s = (Inr r', s')"
    and "distinct (map fo_path ops)" and "distinct (map fo_tmpPath ops)" and "fo_path ` set ops \<inter> tmps ops = {}"
  shows "(\<forall>oper \<in> set ops. sf_disk s' (fo_path oper) = sf_disk s (fo_tmpPath oper))
    \<and> (\<forall>q \<in> tmps ops. sf_disk s' q = None)
    \<and> (\<forall>q. q \<notin> fo_path ` set ops \<longrightarrow> q \<notin> tmps ops \<longrightarrow> sf_disk s' q = sf_disk s q)"
  using assms
proof (induction E everything committed ops r s rule: commit_ops.induct)
  case (2 E everything committed oper ops r s)
  let ?mv = "rename_file (fo_tmpPath oper) (fo_path oper)"
  obtain x s1 where x: "sys E ?mv s = (x, s1)" by fastforce
  then have s1: "x = Inr ()" "sf_disk s1 = ?mv (sf_disk s)"
    using "2.prems"(1) by (cases rule: sys_cases; simp)+
  have t: "tmps (oper # ops) = insert (fo_tmpPath oper) (tmps ops)" by (simp add: tmps_def)
  have new: "fo_path oper \<notin> fo_path ` set ops" "fo_tmpPath oper \<notin> tmps ops" "fo_path oper \<noteq> fo_tmpPath oper"
    "fo_path oper \<notin> tmps ops" "fo_tmpPath oper \<notin> fo_path ` set ops" "fo_path ` set ops \<inter> tmps ops = {}"
    using "2.prems" by (auto simp: t) (auto simp: tmps_def)
  have mv: "sf_disk s1 q = (if q = fo_tmpPath oper then None else if q = fo_path oper then sf_disk s (fo_tmpPath oper)
     else sf_disk s q)" for q
    by (simp add: s1 rename_file_def)
  from "2.IH" [of s1] "2.prems" x s1 new
  have IH: "\<forall>oper \<in> set ops. sf_disk s' (fo_path oper) = sf_disk s1 (fo_tmpPath oper)"
    "\<forall>q \<in> tmps ops. sf_disk s' q = None"
    "\<forall>q. q \<notin> fo_path ` set ops \<longrightarrow> q \<notin> tmps ops \<longrightarrow> sf_disk s' q = sf_disk s1 q"
    by auto
  have "sf_disk s1 (fo_tmpPath o1) = sf_disk s (fo_tmpPath o1)" if "o1 \<in> set ops" for o1
  proof -
    from that have "fo_tmpPath o1 \<in> tmps ops" by (simp add: tmps_def)
    with new show ?thesis by (auto simp: mv)
  qed
  with IH new show ?case by (auto simp: t mv)
qed (simp add: tmps_def)

section \<open>Applying\<close>

lemma temps_apart_rels: "temps_apart E p \<Longrightarrow> rels_apart E (pl_RepoPath p) (set (plan_rels p))"
  by (simp add: temps_apart_def rels_apart_def)

lemma prepareApplication_ok:
  assumes "prepareApplication E p s = (Inr app, s')" and "temps_apart E p"
  shows "staged E (pl_RepoPath p) (sf_disk s) (ap_ops app) (writes E (sf_disk s) p) (sf_disk s')"
proof -
  note apart = temps_apart_rels [OF assms(2)]
  have rels: "gf_RelPath ` set (pl_GeneratedFiles p) \<subseteq> set (plan_rels p)" "pa_RelPath ` set (pl_SourcePatches p) \<subseteq> set (plan_rels p)"
    by (auto simp: plan_rels_def)
  obtain ops s1 un where fs: "stage_files E (pl_RepoPath p) (pl_GeneratedFiles p) [] s = (Inr (), ops, s1)"
    and ps: "stage_patches E (pl_RepoPath p) (pl_SourcePatches p) [] ops s1 = (Inr un, ap_ops app, s')"
    using assms(1) by (auto simp: prepareApplication_def split: prod.splits sum.splits)
  from stage_files_staged [OF fs staged_none apart rels(1)]
  have "staged E (pl_RepoPath p) (sf_disk s) ops (map file_write (pl_GeneratedFiles p)) (sf_disk s1)" by auto
  from stage_patches_staged [OF ps this apart rels(2)] show ?thesis by (simp add: writes_def)
qed

lemma prepareApplication_failed:
  assumes "prepareApplication E p s = (Inl e, s')" and "temps_apart E p" and "fe_undo E = (\<lambda>_. None)"
  shows "sf_disk s' = sf_disk s"
proof -
  note apart = temps_apart_rels [OF assms(2)]
  have rels: "gf_RelPath ` set (pl_GeneratedFiles p) \<subseteq> set (plan_rels p)" "pa_RelPath ` set (pl_SourcePatches p) \<subseteq> set (plan_rels p)"
    by (auto simp: plan_rels_def)
  have temps: "\<forall>n dir. fe_temp E n dir \<noteq> ''''" using assms(2) by (simp add: temps_apart_def)
  obtain x ops s1 where fs: "stage_files E (pl_RepoPath p) (pl_GeneratedFiles p) [] s = (x, ops, s1)"
    by (metis prod_cases3)
  from stage_files_staged [OF fs staged_none apart rels(1)] assms(3)
  obtain ws where st: "staged E (pl_RepoPath p) (sf_disk s) ops ws (sf_disk s1)" by blast
  show ?thesis
  proof (cases x)
    case (Inl e1)
    with fs assms(1) have "s' = cleanup E ops s1" by (simp add: prepareApplication_def)
    with cleanup_staged [OF assms(3) temps st] show ?thesis by simp
  next
    case (Inr u)
    with fs assms(1) obtain e2 ops2 s2
      where ps: "stage_patches E (pl_RepoPath p) (pl_SourcePatches p) [] ops s1 = (Inl e2, ops2, s2)"
        and s': "s' = cleanup E ops2 s2"
      by (auto simp: prepareApplication_def split: prod.splits sum.splits)
    from stage_patches_staged [OF ps st apart rels(2)] assms(3)
    obtain ws2 where "staged E (pl_RepoPath p) (sf_disk s) ops2 ws2 (sf_disk s2)" by blast
    with cleanup_staged [OF assms(3) temps this] s' show ?thesis by simp
  qed
qed

lemma writes_rels: "w \<in> set (writes E d p) \<Longrightarrow> fst w \<in> set (plan_rels p)"
  by (auto simp: writes_def plan_rels_def file_write_def patch_write_def split: sum.splits option.splits)

lemma staged_paths:
  assumes "staged E (pl_RepoPath p) d0 ops (writes E d p) d1" and "temps_apart E p" and "oper \<in> set ops"
  shows "fo_path oper \<notin> tmps ops"
proof -
  from assms(1,3) obtain w where "w \<in> set (writes E d p)" "holds_write E (pl_RepoPath p) d1 oper w"
    unfolding staged_def by (metis list_all2_conv_all_nth in_set_conv_nth)
  then have "fo_relPath oper \<in> set (plan_rels p)" "safeJoin (fe_cwd E) (pl_RepoPath p) (fo_relPath oper) = Inr (fo_path oper)"
    using writes_rels by (auto simp: holds_write_def split: prod.splits)
  then have "\<forall>n dir. fo_path oper \<noteq> fe_temp E n dir" using assms(2) by (auto simp: temps_apart_def)
  with assms(1) show ?thesis unfolding staged_def tmps_def by (metis (no_types, lifting) imageE)
qed

text \<open>Reserving fills in ports: where the plan writes does not change.\<close>

lemma fill_port_rels [simp]: "map gf_RelPath (fill_port port fs) = map gf_RelPath fs"
  by (induction fs) auto

lemma reserve_keeps_rels:
  "reservePlanPorts rvo p s = (Inr p', reservations, s') \<Longrightarrow> plan_rels p' = plan_rels p \<and> pl_RepoPath p' = pl_RepoPath p"
  by (auto simp: reservePlanPorts_def plan_rels_def applySingleReservedPort_def Let_def
      split: if_splits option.splits prod.splits sum.splits)

lemma reserve_keeps_apart:
  "reservePlanPorts rvo p s = (Inr p', reservations, s') \<Longrightarrow> temps_apart E p' = temps_apart E p"
  using reserve_keeps_rels [of rvo p s p'] by (simp add: temps_apart_def)

lemma Apply_prepares:
  assumes "Apply E rvo (Some p) s fs = (x, s', fs')"
  obtains (early) e where "x = Inl e" "fs' = fs"
  | (unprepared) e p1 rs s1 where "x = Inl e" "validatePlanPaths E p = Inr ()"
      "reservePlanPorts rvo p s = (Inr p1, rs, s1)" "prepareApplication E p1 fs = (Inl e, fs')"
  | (committing) p1 rs s1 app fs1 r0 where "validatePlanPaths E p = Inr ()"
      "reservePlanPorts rvo p s = (Inr p1, rs, s1)" "prepareApplication E p1 fs = (Inr app, fs1)"
      "commit_ops E (ap_ops app) [] (ap_ops app) r0 fs1 = (x, fs')" "ar_Plan r0 = p1"
  using assms by (auto simp: Apply_def Let_def plan_Clone_def copyAllocations_def commit_def
      split: if_splits sum.splits prod.splits)

lemma Apply_none: "Apply E rvo None s fs = (x, s', fs') \<Longrightarrow> fs' = fs \<and> \<not> ok x"
  by (auto simp: Apply_def)

text \<open>C20: Applying a setup plan is all or nothing for the repository's files: when it fails, at whatever
  call to the system, every file has the contents it had before and nothing new is left behind,
  provided the calls that undo succeed and temporary names are not names the plan writes to.\<close>

theorem Apply_all_or_nothing:
  assumes "Apply E rvo (Some p) s fs = (Inl e, s', fs')"
    and "temps_apart E p" and "fe_undo E = (\<lambda>_. None)"
  shows "contents (sf_disk fs') = contents (sf_disk fs)"
  using assms(1)
proof (cases rule: Apply_prepares)
  case (unprepared e' p1 rs s1)
  with assms prepareApplication_failed [of E p1 fs e' fs'] reserve_keeps_apart show ?thesis by metis
next
  case (committing p1 rs s1 app fs1 r0)
  have apart: "temps_apart E p1" using assms(2) reserve_keeps_apart [OF committing(2)] by simp
  note st = prepareApplication_ok [OF committing(3) this]
  have "'''' \<notin> tmps (ap_ops app)" using st apart unfolding staged_def temps_apart_def tmps_def
    by (metis (no_types, lifting) imageE)
  moreover have "\<forall>oper \<in> set (ap_ops app). saved (sf_disk fs) oper \<and> sf_disk fs (fo_tmpPath oper) = None
      \<and> fo_path oper \<notin> tmps (ap_ops app)"
    using st staged_paths [OF st apart] by (simp add: staged_def)
  moreover have "\<forall>q. q \<notin> tmps (ap_ops app) \<longrightarrow> sf_disk fs1 q = sf_disk fs q" using st by (simp add: staged_def)
  ultimately show ?thesis using commit_failed [OF committing(4) assms(3)] by simp
qed simp

lemma validate_paths_distinct:
  "validate_paths E root xs seen = Inr () \<Longrightarrow>
   distinct (map (\<lambda>(rel, _). safeJoin (fe_cwd E) root rel) xs)
   \<and> (\<forall>(rel, _) \<in> set xs. \<exists>path. safeJoin (fe_cwd E) root rel = Inr path \<and> map_of seen (Clean path) = None)"
proof (induction E root xs seen rule: validate_paths.induct)
  case (2 E root rel what label rest seen)
  then obtain path where path: "safeJoin (fe_cwd E) root rel = Inr path" "map_of seen (Clean path) = None"
    and rest: "validate_paths E root rest (AList.update (Clean path) what seen) = Inr ()"
    by (auto simp: validatedRelPath_def split: sum.splits option.splits)
  have "validatedRelPath E root rel = Inr (Clean path)" using path by (simp add: validatedRelPath_def)
  from "2.IH" [OF this path(2) rest] path show ?case by (force split: if_splits)
qed simp

lemma fst_patch_writes:
  "map fst (concat (map (patch_write E root d) ps)) = map pa_RelPath (filter (\<lambda>p. patch_write E root d p \<noteq> []) ps)"
  by (induction ps) (auto simp: patch_write_def split: sum.splits option.splits)

lemma fst_writes: "subseq (map fst (writes E d p)) (plan_rels p)"
  by (simp add: writes_def fst_patch_writes plan_rels_def file_write_def o_def list_emb_append_mono subseq_map)

lemma holds_writes_paths:
  "list_all2 (holds_write E root d) ops ws \<Longrightarrow>
   map (\<lambda>oper. Inr (fo_path oper)) ops = map (safeJoin (fe_cwd E) root) (map fst ws)"
  by (induction ops ws rule: list_all2_induct) (auto simp: holds_write_def)

lemma plan_paths_distinct:
  assumes "validatePlanPaths E p = Inr ()" and "plan_rels p1 = plan_rels p" and "pl_RepoPath p1 = pl_RepoPath p"
    and "list_all2 (holds_write E (pl_RepoPath p1) d1) ops (writes E d p1)"
  shows "distinct (map fo_path ops)"
proof -
  let ?join = "safeJoin (fe_cwd E) (pl_RepoPath p)"
  have "map (\<lambda>(rel, _). ?join rel) (plan_writes p) = map ?join (plan_rels p)"
    by (simp add: plan_writes_def plan_rels_def)
  with assms(1) have "distinct (map ?join (plan_rels p))"
    using validate_paths_distinct [of E "pl_RepoPath p" "plan_writes p" "[]"] by (simp add: validatePlanPaths_def)
  moreover have "subseq (map ?join (map fst (writes E d p1))) (map ?join (plan_rels p))"
    using fst_writes [of E d p1] assms(2) subseq_map by metis
  ultimately have "distinct (map ?join (map fst (writes E d p1)))"
    by (metis subseq_conv_nths distinct_nthsI)
  with holds_writes_paths [OF assms(4)] assms(3)
  have "distinct (map (\<lambda>oper. Inr (fo_path oper) :: err + string) ops)" by simp
  then show ?thesis by (auto simp: distinct_map inj_on_def)
qed


section \<open>The managed block\<close>

text \<open>The block is replaced where it stands; what is before its first marker and after its last stays,
  but for one line end.\<close>

lemma replaceManagedBlock_keeps:
  assumes "replaceManagedBlock content block = Some nxt"
  obtains before old after where "content = before @ old @ after" "prefix ManagedBlockStart (old @ after)"
    "suffix ManagedBlockEnd old"
    "nxt = before @ (if has_suffix block [newline] then block else block @ [newline])
             @ (case after of c # cs \<Rightarrow> if c = newline then cs else after | [] \<Rightarrow> [])"
proof -
  obtain i j where i: "str_index content ManagedBlockStart = Some i" and j: "str_index (drop i content) ManagedBlockEnd = Some j"
    and nxt: "nxt = take i content @ (if has_suffix block [newline] then block else block @ [newline])
       @ (case drop (i + j + length ManagedBlockEnd) content of c # cs \<Rightarrow>
            if c = newline then cs else drop (i + j + length ManagedBlockEnd) content | [] \<Rightarrow> [])"
    using assms by (auto simp: replaceManagedBlock_def Let_def split: option.splits)
  let ?k = "j + length ManagedBlockEnd"
  from str_index_SomeD [OF j] obtain rest where rest: "drop (i + j) content = ManagedBlockEnd @ rest"
    by (auto simp: prefix_def add.commute)
  have "take ?k (drop i content) = take j (drop i content) @ ManagedBlockEnd"
    unfolding take_add by (simp add: rest add.commute)
  then have "suffix ManagedBlockEnd (take ?k (drop i content))" by (simp add: suffix_def)
  moreover have "take ?k (drop i content) @ drop (i + j + length ManagedBlockEnd) content = drop i content"
    by (metis add.assoc add.commute append_take_drop_id drop_drop)
  moreover from this have "content = take i content @ take ?k (drop i content) @ drop (i + j + length ManagedBlockEnd) content"
    by (metis append_take_drop_id)
  ultimately show thesis using nxt str_index_SomeD [OF i] that by metis
qed

text \<open>The blocks of \<^verbatim>\<open>generateSourcePatches\<close> start with two spaces and the replaced text at its marker:
  applied again, a block moves to the right.\<close>

lemma managed_block_moves:
  "replaceManagedBlock (''  '' @ ManagedBlockStart @ [newline] @ ''  '' @ ManagedBlockEnd @ [newline])
     (''  '' @ ManagedBlockStart @ [newline] @ ''  '' @ ManagedBlockEnd)
   = Some (''    '' @ ManagedBlockStart @ [newline] @ ''  '' @ ManagedBlockEnd @ [newline])"
  by code_simp

section \<open>A plan that fails, and one that does not\<close>

definition demo_fs :: "nat option \<Rightarrow> fs_env" where
  "demo_fs at = \<lparr>fe_cwd = ''/'', fe_isdir = (\<lambda>_. Inr True),
     fe_fails = (\<lambda>t. if at = Some t then Some (IOError ''rename'') else None), fe_undo = (\<lambda>_. None),
     fe_temp = (\<lambda>n dir. if n < 5 then ''/repo/.anito-setup-1'' else ''/repo/.anito-setup-2'')\<rparr>"

definition demo_plan :: plan where
  "demo_plan =
     \<lparr>pl_Mode = ModeComposite, pl_RepoPath = ''/repo'', pl_ServiceName = '''', pl_Language = NoLanguage,
      pl_HasAnitoConfig = False, pl_HasPORT = False, pl_HasHealthRoute = False, pl_Issues = [], pl_Allocations = [],
      pl_GeneratedFiles = [\<lparr>gf_RelPath = ''a.txt'', gf_Content = ''new''\<rparr>, \<lparr>gf_RelPath = ''b.sh'', gf_Content = ''run''\<rparr>],
      pl_SourcePatches = [], pl_Instructions = []\<rparr>"

definition demo_disk :: setup_fs where
  "demo_disk = \<lparr>sf_disk = [''/repo/a.txt'' \<mapsto> (''old'', 384)], sf_tick = 0\<rparr>"

definition demo_apply :: "nat option \<Rightarrow> (err + apply_result) \<times> unit \<times> setup_fs" where
  "demo_apply at = Apply (demo_fs at) (None :: unit reserver option) (Some demo_plan) () demo_disk"

lemma demo_paths:
  "safeJoin ''/'' ''/repo'' ''a.txt'' = Inr ''/repo/a.txt''" "safeJoin ''/'' ''/repo'' ''b.sh'' = Inr ''/repo/b.sh''"
  "Clean ''/repo/a.txt'' = ''/repo/a.txt''" "Clean ''/repo/b.sh'' = ''/repo/b.sh''"
  "modeForGeneratedFile ''a.txt'' = 420" "modeForGeneratedFile ''b.sh'' = 493"
  by code_simp+

lemma demo_apart: "temps_apart (demo_fs at) demo_plan"
  by (simp add: temps_apart_def demo_fs_def demo_plan_def plan_rels_def demo_paths)

lemmas demo_run = demo_apply_def Apply_def plan_Clone_def copyAllocations_def validateRepoRoot_def validatePlanPaths_def plan_writes_def
  validatedRelPath_def reservePlanPorts_def prepareApplication_def stageFile_def look_before_def demo_paths
  read_file_def stat_mode_def sf_step_def sys_def undo_def create_temp_def write_temp_def commit_def rollback_ops_def undo_op_def cleanup_def
  rename_file_def remove_file_def write_over_def applied_def isPatchPath_def rollback_reservations_def Let_def

text \<open>The second rename fails after the first has replaced a file: the contents are back, the mode is not.\<close>

lemma rollback_keeps_new_mode:
  "sf_disk demo_disk ''/repo/a.txt'' = Some (''old'', 384) \<and>
   (\<exists>e t n. demo_apply (Some 14) = (Inl e, (), \<lparr>sf_disk = t, sf_tick = n\<rparr>) \<and> t ''/repo/a.txt'' = Some (''old'', 420))"
  by (simp add: demo_run demo_plan_def demo_disk_def demo_fs_def)

lemma demo_works: "\<exists>r fs. demo_apply None = (Inr r, (), fs) \<and> ar_Plan r = demo_plan"
  by (simp add: demo_run demo_plan_def demo_disk_def demo_fs_def)

theorem Apply_all_or_nothing_witness:
  "\<exists>e fs. demo_apply (Some 14) = (Inl e, (), fs) \<and> contents (sf_disk fs) ''/repo/a.txt'' = Some ''old'' \<and>
     contents (sf_disk fs) ''/repo/b.sh'' = None"
proof -
  obtain e fs where run: "demo_apply (Some 14) = (Inl e, (), fs)" using rollback_keeps_new_mode by blast
  moreover have "fe_undo (demo_fs (Some 14)) = (\<lambda>_. None)" by (simp add: demo_fs_def)
  moreover note Apply_all_or_nothing [OF run [unfolded demo_apply_def] demo_apart this]
  ultimately show ?thesis by (simp add: demo_disk_def) (simp add: contents_def)
qed


end
