(* ===== verification/Setup_Ports.thy ===== *)
theory Setup_Ports
  imports Setup_Apply_Props Service_Props
begin

text \<open>
  \<^verbatim>\<open>internal/mcp/setup_apply.go\<close>: the service layer as the reserver of a setup plan. Applying a plan
  composes the setup component with the service layer: what it may do to the ports of the services
  that are there (\<open>setup_keeps_ports\<close>), and that a failed plan returns the ports it took.
\<close>

section \<open>The service layer as port catalog and reserver\<close>

definition setupPorts_UsedPorts :: "world \<Rightarrow> int list" where
  "setupPorts_UsedPorts w = UsedPorts (w_reg w)"

definition setupPorts_StablePort :: "outside \<Rightarrow> string \<Rightarrow> world \<Rightarrow> int option" where
  "setupPorts_StablePort E name w =
     (case ServiceStatus E name w of
        Inl e \<Rightarrow> None
      | Inr svc \<Rightarrow> if sv_stable_port svc = 0 then None else Some (sv_stable_port svc))"

definition setupPorts :: "outside \<Rightarrow> world reserver" where
  "setupPorts E =
     \<lparr>rv_Reserve = Reserve E, rv_StablePort = Some (setupPorts_StablePort E), rv_Remove = Some (ServiceRemove E)\<rparr>"

definition setupCatalog :: "outside \<Rightarrow> world \<Rightarrow> port_catalog" where
  "setupCatalog E w =
     \<lparr>pc_UsedPorts = setupPorts_UsedPorts w, pc_StablePort = (\<lambda>name. setupPorts_StablePort E name w)\<rparr>"

definition applySetup ::
    "fs_env \<Rightarrow> outside \<Rightarrow> plan option \<Rightarrow> world \<Rightarrow> setup_fs \<Rightarrow> (err + apply_result) \<times> world \<times> setup_fs" where
  "applySetup F E po w fs = Apply F (Some (setupPorts E)) po w fs"

section \<open>What a plan does to the ports\<close>

text \<open>A service with ports counts as having a stable port when none of them is zero.\<close>

definition has_ports :: "world \<Rightarrow> string \<Rightarrow> bool" where
  "has_ports w n \<longleftrightarrow> port_view w n \<noteq> [] \<and> 0 \<notin> snd ` set (port_view w n)"

lemma StablePort_has_ports:
  assumes "world_inv w" and "has_ports w n"
  shows "setupPorts_StablePort E n w \<noteq> None"
proof -
  from assms(2) obtain s where s: "map_of (rg_services (w_reg w)) n = Some s" "sv_stable_ports s = port_view w n"
    by (auto simp: has_ports_def port_view_def stable_ports_of_def split: option.splits)
  then have "syncSingularFromMap s = s"
    using assms(1) by (auto simp: world_inv_def reg_inv_def reg_synced_def dest: map_of_SomeD)
  then have "sv_stable_port s = PickPort (port_view w n) (sv_health_check_port s)"
    using s(2) by (metis PrimaryStablePort_def sync_fields(4))
  moreover have "PickPort (port_view w n) (sv_health_check_port s) \<in> snd ` set (port_view w n)"
    using assms(2) by (intro PickPort_in) (simp add: has_ports_def)
  ultimately have "sv_stable_port s \<noteq> 0" using assms(2) by (metis has_ports_def)
  with s(1) show ?thesis
    by (simp add: setupPorts_StablePort_def ServiceStatus_def reg_Get_def Get_def)
qed

lemma startup_calls [simp]:
  "w_startup (snd (prx_Register E name ps addr w)) = w_startup w"
  "w_startup (snd (reg_Register E svc w)) = w_startup w" "w_startup (snd (reg_Remove E name w)) = w_startup w"
  "w_startup (snd (mgr_Stop E name w)) = w_startup w" "w_startup (prx_RemovePorts name w) = w_startup w"
  "w_startup (watch_Stop name w) = w_startup w" "w_startup (tick w) = w_startup w"
  by (simp_all add: prx_Register_def prx_do_def reg_Register_def reg_Remove_def reg_do_def mgr_Stop_def mgr_do_def
      prx_RemovePorts_def watch_Stop_def tick_def case_prod_beta)

lemma on_res_startup:
  "w_startup (snd x) = u \<Longrightarrow> (\<And>a w1. w_startup w1 = u \<Longrightarrow> w_startup (snd (good a w1)) = u) \<Longrightarrow>
   (\<And>e w1. w_startup w1 = u \<Longrightarrow> w_startup (snd (bad e w1)) = u) \<Longrightarrow> w_startup (snd (on_res x good bad)) = u"
  by (cases x; cases "fst x") auto

lemma alloc_range_startup [simp]: "w_startup (snd (alloc_range E name pn addr used ps w)) = w_startup w"
  by (induction ps arbitrary: w) (auto intro!: on_res_startup)

lemma allocateOnePort_startup [simp]: "w_startup (snd (allocateOnePort E name pn pref used addr w)) = w_startup w"
  by (auto simp: allocateOnePort_def intro!: on_res_startup)

lemma alloc_new_startup [simp]: "w_startup (snd (alloc_new E name addr used acc prefs w)) = w_startup w"
  by (induction prefs arbitrary: used acc w) (auto intro!: on_res_startup)

lemma Reserve_startup: "w_startup (snd (Reserve E name port w)) = w_startup w"
  by (auto simp: Reserve_def gated_def allocatePorts_def reserve_if_new_def intro!: on_res_startup split: sum.split option.split)

lemma ServiceRemove_startup: "w_startup (snd (ServiceRemove E name w)) = w_startup w"
  by (auto simp: ServiceRemove_def gated_def Let_def intro!: on_res_startup split: sum.split option.split)

lemma Reserve_failed_view:
  assumes "world_inv w" and "Reserve E name port w = (Inl e, w')"
  shows "port_view w' = port_view w"
proof (cases "\<exists>m u. ensure_mutable w = Inr m \<and> ValidateServiceName name = Inr u")
  case True
  then have "CHR '':'' \<notin> set name" using ValidateServiceName_colon by auto
  with allocatePorts_at [OF this at_start [OF assms(1)], of E "[(''default'', port)]" DefaultProxyBindAddress] True assms(2)
  show ?thesis by (auto simp: Reserve_def gated_def at_view_def split: on_res_split_asm)
qed (use assms(2) in \<open>auto simp: Reserve_def gated_def split: sum.splits\<close>)

lemma Reserve_gate: "Reserve E name port w = (Inr p, w') \<Longrightarrow> ok (ensure_mutable w)"
  by (auto simp: Reserve_def gated_def ok_def split: sum.splits)

text \<open>The plan's names are reserved one after the other; a name is recorded for the rollback only
  when its service had no stable port.\<close>

definition reserving :: "world \<Rightarrow> string list \<Rightarrow> world \<Rightarrow> bool" where
  "reserving w rs w' \<longleftrightarrow> world_inv w' \<and> w_startup w' = w_startup w
     \<and> (\<forall>n. port_view w n \<noteq> [] \<longrightarrow> port_view w' n = port_view w n)
     \<and> (\<forall>n. port_view w n = [] \<longrightarrow> port_view w' n = [] \<or> n \<in> set rs)
     \<and> (\<forall>n \<in> set rs. \<not> has_ports w n) \<and> (rs \<noteq> [] \<longrightarrow> ok (ensure_mutable w))"

lemma reserving_refl: "world_inv w \<Longrightarrow> reserving w [] w"
  by (simp add: reserving_def)

lemma reserving_failed:
  assumes "reserving w rs w1" and "Reserve E name port w1 = (Inl e, w2)"
  shows "reserving w rs w2"
proof -
  have inv: "world_inv w1" using assms(1) by (simp add: reserving_def)
  have "moves name w1 w2" using Reserve_moves [OF inv, of name E port] assms(2) by simp
  with assms Reserve_failed_view [OF inv assms(2)] Reserve_startup [of E name port w1] show ?thesis
    by (simp add: reserving_def moves_def)
qed

lemma StablePort_none_zero:
  "world_inv w \<Longrightarrow> port_view w n = [] \<Longrightarrow> setupPorts_StablePort E n w = None"
  by (auto simp: setupPorts_StablePort_def ServiceStatus_def reg_Get_def Get_def port_view_def stable_ports_of_def
      world_inv_def reg_inv_def reg_synced_def sync_eq_iff PrimaryStablePort_def dest!: map_of_SomeD split: option.splits)

lemma reserving_step:
  assumes "reserving w rs w1" and "Reserve E name port w1 = (Inr x, w2)"
  shows "reserving w (if setupPorts_StablePort E name w1 \<noteq> None then rs else rs @ [name]) w2"
proof -
  have inv: "world_inv w1" using assms(1) by (simp add: reserving_def)
  have mv: "moves name w1 w2" using Reserve_moves [OF inv, of name E port] assms(2) by simp
  have gate: "ok (ensure_mutable w)"
    using Reserve_gate [OF assms(2)] assms(1) by (simp add: reserving_def ensure_mutable_def)
  have st: "w_startup w2 = w_startup w" using Reserve_startup [of E name port w1] assms by (simp add: reserving_def)
  have pin: "port_view w1 n \<noteq> [] \<Longrightarrow> port_view w2 n = port_view w1 n" for n
    using mv by (auto simp: moves_def intro: port_change_pinned)
  have other: "n \<noteq> name \<Longrightarrow> port_view w2 n = port_view w1 n" for n
    using mv by (auto simp: moves_def port_change_def)
  have keep: "\<forall>n. port_view w n \<noteq> [] \<longrightarrow> port_view w2 n = port_view w n"
    using pin assms(1) unfolding reserving_def by metis
  show ?thesis
  proof (cases "setupPorts_StablePort E name w1 = None")
    case True
    have "\<not> has_ports w1 name" using True StablePort_has_ports [OF inv, of name E] by blast
    moreover have "port_view w name \<noteq> [] \<Longrightarrow> port_view w1 name = port_view w name"
      using assms(1) by (simp add: reserving_def)
    ultimately have "\<not> has_ports w name" by (auto simp: has_ports_def)
    with True assms(1) gate st keep other mv show ?thesis by (auto simp: reserving_def moves_def) metis
  next
    case False
    then have "port_view w1 name \<noteq> []" using StablePort_none_zero [OF inv, of name E] by metis
    then have "port_view w2 = port_view w1" using pin other by (metis ext)
    with False assms(1) gate st mv show ?thesis by (simp add: reserving_def moves_def)
  qed
qed

lemma stablePortExists_setup [simp]:
  "stablePortExists (setupPorts E) name w = (setupPorts_StablePort E name w \<noteq> None)"
  "rv_Reserve (setupPorts E) = Reserve E" "rv_Remove (setupPorts E) = Some (ServiceRemove E)"
  by (simp_all add: stablePortExists_def setupPorts_def)

lemma reserve_planned_reserving:
  "reserve_planned (setupPorts E) names alloc rs w1 = (x, rs', w2) \<Longrightarrow> reserving w rs w1 \<Longrightarrow> reserving w rs' w2"
proof (induction names arbitrary: alloc rs w1)
  case (Cons name names)
  obtain y w3 where y: "Reserve E name (port_of alloc name) w1 = (y, w3)" by fastforce
  show ?case
  proof (cases y)
    case (Inl e)
    with y Cons.prems reserving_failed show ?thesis by (auto simp: Let_def)
  next
    case (Inr port)
    note step = reserving_step [OF Cons.prems(2) y [unfolded Inr]]
    with Cons.prems(1) Cons.IH [OF _ step] y Inr show ?thesis by (auto simp: Let_def split: if_splits)
  qed
qed simp

lemma reservePlanPorts_reserving:
  assumes "world_inv w" and "reservePlanPorts (Some (setupPorts E)) p w = (x, rs, w')"
  shows "reserving w rs w'"
proof -
  note none = reserving_refl [OF assms(1)]
  obtain y w3 where y: "Reserve E (pl_ServiceName p) 0 w = (y, w3)" by fastforce
  show ?thesis
    using assms(2) none reserve_planned_reserving [OF _ none, of E] reserving_failed [OF none, of E "pl_ServiceName p" 0]
      reserving_step [OF none, of E "pl_ServiceName p" 0] y
    by (cases y) (auto simp: reservePlanPorts_def Let_def split: if_splits prod.splits sum.splits)
qed

text \<open>Removing the recorded names.\<close>

lemma removals_view:
  assumes "world_inv w" and "ok (ensure_mutable w)"
  shows "let w' = foldl (\<lambda>w name. snd (ServiceRemove E name w)) w names in
    world_inv w' \<and> (\<forall>n. port_view w' n = (if n \<in> set names then [] else port_view w n))"
  using assms
proof (induction names arbitrary: w)
  case (Cons name names)
  let ?w1 = "snd (ServiceRemove E name w)"
  have "world_inv ?w1" "port_view ?w1 = (port_view w)(name := [])"
    using ServiceRemove_view [OF Cons.prems, of name E] by (simp_all add: at_view_def)
  moreover have "ok (ensure_mutable ?w1)" using Cons.prems(2) by (simp add: ensure_mutable_def ServiceRemove_startup)
  ultimately show ?case using Cons.IH [of ?w1] by (auto simp: Let_def)
qed simp

lemma rollback_reserving:
  assumes "reserving w rs w1" and "world_inv w" and "\<forall>n. 0 \<notin> snd ` set (port_view w n)"
  shows "world_inv (rollback_reservations (Some (setupPorts E)) rs w1)
    \<and> port_view (rollback_reservations (Some (setupPorts E)) rs w1) = port_view w"
proof -
  have same: "port_view w1 n = port_view w n" if "n \<notin> set rs" for n
    using assms(1) that unfolding reserving_def by (cases "port_view w n = []") auto
  have gone: "port_view w n = []" if "n \<in> set rs" for n
    using assms(1,3) that by (auto simp: reserving_def has_ports_def)
  have inv: "world_inv w1" using assms(1) by (simp add: reserving_def)
  show ?thesis
  proof (cases "rs = []")
    case True
    with same have "port_view w1 = port_view w" by auto
    with True inv show ?thesis by (simp add: rollback_reservations_def)
  next
    case False
    then have "ok (ensure_mutable w1)" using assms(1) by (simp add: reserving_def ensure_mutable_def)
    from removals_view [OF inv this, of E "rev rs"] show ?thesis
      using same gone by (simp add: rollback_reservations_def Let_def fun_eq_iff)
  qed
qed

text \<open>C19: Applying a setup plan never moves or frees the ports of a service that is there, whatever the
  plan asks for and wherever it fails; a plan that fails, at a reservation, in the files or in the
  commit, gives back every port it had reserved.\<close>

theorem setup_keeps_ports:
  assumes "world_inv w" and "\<forall>n. 0 \<notin> snd ` set (port_view w n)"
    and "applySetup F E po w fs = (x, w', fs')"
  shows "world_inv w' \<and> (\<forall>n. port_view w n \<noteq> [] \<longrightarrow> port_view w' n = port_view w n)
    \<and> (\<not> ok x \<longrightarrow> port_view w' = port_view w)"
proof -
  have *: "reservePlanPorts (Some (setupPorts E)) p w = (y, rs, w1) \<Longrightarrow>
      world_inv w1 \<and> (\<forall>n. port_view w n \<noteq> [] \<longrightarrow> port_view w1 n = port_view w n)
      \<and> world_inv (rollback_reservations (Some (setupPorts E)) rs w1)
      \<and> port_view (rollback_reservations (Some (setupPorts E)) rs w1) = port_view w" for p y rs w1
    using reservePlanPorts_reserving [OF assms(1)] rollback_reserving [OF _ assms(1,2)]
    by (metis reserving_def)
  show ?thesis
    using assms(1,3) * unfolding applySetup_def
    by (auto simp: Apply_def Let_def split: option.splits if_splits sum.splits prod.splits)
qed

definition port_plan :: plan where
  "port_plan = demo_plan\<lparr>pl_Allocations := [(''api'', 3001), (''aaa'', 8150)]\<rparr>"

lemma port_plan_fails: "\<not> ok (fst (applySetup (demo_fs None) demo_outside (Some port_plan) demo_world demo_disk))"
  by code_simp

text \<open>\<^verbatim>\<open>aaa\<close> is reserved, then \<^verbatim>\<open>api\<close> turns out to keep its own port.\<close>

theorem setup_keeps_ports_witness:
  "\<not> ok (fst (applySetup (demo_fs None) demo_outside (Some port_plan) demo_world demo_disk))
   \<and> port_view (fst (snd (applySetup (demo_fs None) demo_outside (Some port_plan) demo_world demo_disk))) = port_view demo_world
   \<and> port_view demo_world ''api'' = [(''default'', 3000)]"
proof -
  let ?r = "applySetup (demo_fs None) demo_outside (Some port_plan) demo_world demo_disk"
  have "?r = (fst ?r, fst (snd ?r), snd (snd ?r))" by simp
  moreover have "port_view demo_world n = []" if "n \<noteq> ''api''" for n
    using that by (simp add: port_view_def stable_ports_of_def demo_world_def demo_reg_def Register_def Let_def
        reg_load_def demo_service_def)
  then have "0 \<notin> snd ` set (port_view demo_world n)" for n
    using demo_world_view by (cases "n = ''api''") auto
  ultimately show ?thesis
    using setup_keeps_ports [OF demo_world_inv, of "demo_fs None" demo_outside "Some port_plan" demo_disk]
      port_plan_fails demo_world_view by blast
qed

end
