(* ===== verification/Log_Stream.thy ===== *)
theory Log_Stream
  imports Service
begin

text \<open>
  Live logs: \<^verbatim>\<open>LogStream\<close> and \<^verbatim>\<open>BuildLogStream\<close> of \<^verbatim>\<open>internal/service/service.go\<close>, their
  text as server-sent events (\<^verbatim>\<open>streamLogs\<close> of \<^verbatim>\<open>internal/server/server.go\<close>) and the client
  that prints it (\<^verbatim>\<open>LogsFollow\<close> of \<^verbatim>\<open>internal/client/client.go\<close>). The scanner is Go's
  \<^verbatim>\<open>bufio.Scanner\<close> over lines: it keeps an error of its reader, the end of the file included, and
  then delivers what it still holds and nothing else.
\<close>

section \<open>The line scanner\<close>

definition maxScanTokenSize :: nat where "maxScanTokenSize = 65536"

definition dropCR :: "string \<Rightarrow> string" where
  "dropCR s = (if s \<noteq> [] \<and> last s = CHR 0x0D then butlast s else s)"

text \<open>The lines of what the reader has until its end, and the chunk a too long line leaves in the buffer.\<close>

function scan_tokens :: "string \<Rightarrow> string list \<times> string option" where
  "scan_tokens data =
     (if data = [] then ([], None)
      else
        (let line = takeWhile (\<lambda>c. c \<noteq> newline) data in
         if maxScanTokenSize \<le> length line then ([], Some (take maxScanTokenSize data))
         else (case scan_tokens (drop (Suc (length line)) data) of (ls, chunk) \<Rightarrow> (dropCR line # ls, chunk))))"
  by pat_completeness auto
termination
  by (relation "measure length") auto

declare scan_tokens.simps [simp del]

text \<open>A scanner that goes on, or one whose reader has failed or ended, with what is in its buffer.\<close>

datatype scanner = Scanning | Ended string

definition scan_all :: "scanner \<Rightarrow> string \<Rightarrow> string list \<times> scanner" where
  "scan_all sc data =
     (case sc of
        Scanning \<Rightarrow> (case scan_tokens data of (ls, chunk) \<Rightarrow> (ls, Ended (case chunk of None \<Rightarrow> [] | Some b \<Rightarrow> b)))
      | Ended b \<Rightarrow> (if b = [] then [] else [dropCR b], Ended []))"

section \<open>Following a file\<close>

text \<open>A tick of the stream: the contents of the file when it is opened by its path at this moment (if it can
  be), the contents of the file that is open, and how many lines are taken from the channel before
  the context ends, if it ends meanwhile.\<close>

record stream_tick =
  tc_path :: "string option"
  tc_open :: string
  tc_taken :: "nat option"

text \<open>The open file: the offset from which it is read, and its scanner.\<close>

type_synonym stream = "(nat \<times> scanner) option"

definition tryOpen :: "string option \<Rightarrow> stream" where
  "tryOpen file = map_option (\<lambda>content. (length content, Scanning)) file"

definition stream_step :: "stream_tick \<Rightarrow> stream \<Rightarrow> string list \<times> stream" where
  "stream_step t st =
     (case st of
        None \<Rightarrow> ([], tryOpen (tc_path t))
      | Some (offset, sc) \<Rightarrow>
          (case scan_all sc (drop offset (tc_open t)) of
             (ls, sc1) \<Rightarrow> (ls, Some (max offset (length (tc_open t)), sc1))))"

fun stream_run :: "stream_tick list \<Rightarrow> stream \<Rightarrow> string list" where
  "stream_run [] st = []"
| "stream_run (t # ts) st =
     (case stream_step t st of
        (ls, st1) \<Rightarrow>
          (case tc_taken t of
             None \<Rightarrow> ls @ stream_run ts st1
           | Some k \<Rightarrow> take k ls))"

definition LogStream ::
    "string \<Rightarrow> world \<Rightarrow> string \<Rightarrow> string option \<Rightarrow> stream_tick list \<Rightarrow> err + string list" where
  "LogStream logDir w name file ts =
     (case logFilePath logDir w name of Inl e \<Rightarrow> Inl e | Inr path \<Rightarrow> Inr (stream_run ts (tryOpen file)))"

definition BuildLogStream ::
    "string \<Rightarrow> world \<Rightarrow> string \<Rightarrow> string option \<Rightarrow> stream_tick list \<Rightarrow> err + string list" where
  "BuildLogStream logDir w name file ts =
     (case buildLogFilePath logDir w name of Inl e \<Rightarrow> Inl e | Inr path \<Rightarrow> Inr (stream_run ts (tryOpen file)))"

section \<open>Server-sent events\<close>

definition sse_data :: "string \<Rightarrow> string" where
  "sse_data line = ''data: '' @ line @ [newline, newline]"

definition sse_error :: "err \<Rightarrow> string" where
  "sse_error e = ''event: error'' @ [newline] @ sse_data (err_text e)"

text \<open>What the handler writes: the backlog, then the stream; an error of either is an event and the status
  is 200 all the same.\<close>

definition sse_text :: "err + string list \<Rightarrow> err + string list \<Rightarrow> string" where
  "sse_text backlog live =
     (case backlog of
        Inl e \<Rightarrow> sse_error e
      | Inr ls \<Rightarrow> concat (map sse_data ls) @
          (case live of Inl e \<Rightarrow> sse_error e | Inr ls \<Rightarrow> concat (map sse_data ls)))"

definition streamLogs ::
    "(string \<Rightarrow> (err + string) option) \<Rightarrow> string \<Rightarrow> world \<Rightarrow> string \<Rightarrow> int \<Rightarrow> string option \<Rightarrow> stream_tick list \<Rightarrow> string" where
  "streamLogs files logDir w name backlogLines file ts =
     sse_text (Logs files logDir w name backlogLines) (LogStream logDir w name file ts)"

definition streamBuildLogs ::
    "(string \<Rightarrow> (err + string) option) \<Rightarrow> string \<Rightarrow> world \<Rightarrow> string \<Rightarrow> string option \<Rightarrow> stream_tick list \<Rightarrow> string" where
  "streamBuildLogs files logDir w name file ts =
     sse_text (BuildLogs files logDir w name 500) (BuildLogStream logDir w name file ts)"

text \<open>The client prints what follows \<^verbatim>\<open>data: \<close>; the Boolean tells that a line was too long.\<close>

definition follow_line :: "string \<Rightarrow> string list" where
  "follow_line line = (if prefix ''data: '' line then [drop 6 line] else [])"

definition follow_text :: "string \<Rightarrow> string list \<times> bool" where
  "follow_text body = (case scan_tokens body of (ls, chunk) \<Rightarrow> (concat (map follow_line ls), chunk \<noteq> None))"

section \<open>What is delivered\<close>

lemma scan_all_ended: "scan_all (Ended []) data = ([], Ended [])"
  by (simp add: scan_all_def)

lemma stream_step_ended:
  "\<exists>n. stream_step t (Some (offset, Ended [])) = ([], Some (n, Ended []))"
  by (simp add: stream_step_def scan_all_ended)

lemma stream_run_ended: "stream_run ts (Some (offset, Ended [])) = []"
proof (induction ts arbitrary: offset)
  case (Cons t ts)
  obtain n where "stream_step t (Some (offset, Ended [])) = ([], Some (n, Ended []))"
    using stream_step_ended by blast
  with Cons show ?case by (simp split: option.split)
qed simp


lemma scan_line:
  assumes "newline \<notin> set line" and "length line < maxScanTokenSize"
  shows "scan_tokens (line @ newline # rest) =
    (dropCR line # fst (scan_tokens rest), snd (scan_tokens rest))"
proof -
  have "takeWhile (\<lambda>c. c \<noteq> newline) (line @ newline # rest) = line"
    using assms(1) by (subst takeWhile_append2) auto
  with assms(2) show ?thesis
    by (subst scan_tokens.simps) (simp add: case_prod_beta Let_def)
qed

lemma scan_event:
  assumes "newline \<notin> set line" and "length line + 6 < maxScanTokenSize" and "dropCR line = line"
  shows "scan_tokens (sse_data line @ rest) =
    ((''data: '' @ line) # '''' # fst (scan_tokens rest), snd (scan_tokens rest))"
proof -
  have cr: "dropCR (''data: '' @ line) = ''data: '' @ line"
    using assms(3) by (cases line rule: rev_cases) (simp_all add: dropCR_def split: if_splits)
  have nl: "newline \<notin> set (''data: '' @ line)" using assms(1) by (simp add: newline_def)
  have "scan_tokens (newline # rest) = ('''' # fst (scan_tokens rest), snd (scan_tokens rest))"
    using scan_line [of "''''" rest] by (simp add: dropCR_def maxScanTokenSize_def)
  with scan_line [of "''data: '' @ line" "newline # rest"] assms(2) cr nl show ?thesis
    by (simp add: sse_data_def)
qed

lemma follow_events:
  assumes "\<forall>line \<in> set ls. newline \<notin> set line \<and> length line + 6 < maxScanTokenSize \<and> dropCR line = line"
  shows "follow_text (concat (map sse_data ls) @ rest) = (ls @ fst (follow_text rest), snd (follow_text rest))"
  using assms
proof (induction ls)
  case (Cons line ls)
  then show ?case
    by (simp add: follow_text_def scan_event case_prod_beta follow_line_def)
qed simp

text \<open>Every line the daemon streams, of the backlog and live, is printed by the client as it is, in
  order, provided a line has no line break in it, does not end in a carriage return and stays below the
  scanner's limit.\<close>

theorem stream_roundtrip:
  assumes "\<forall>line \<in> set backlog \<union> set live.
      newline \<notin> set line \<and> length line + 6 < maxScanTokenSize \<and> dropCR line = line"
  shows "follow_text (sse_text (Inr backlog) (Inr live)) = (backlog @ live, False)"
proof -
  have "follow_text '''' = ([], False)" by (simp add: follow_text_def scan_tokens.simps)
  with assms follow_events [of backlog "concat (map sse_data live)"] follow_events [of live "''''"]
  show ?thesis by (simp add: sse_text_def)
qed

text \<open>An error of the daemon is printed like a line of the log.\<close>

lemma stream_error_is_printed:
  assumes "newline \<notin> set (err_text e)" and "length (err_text e) + 6 < maxScanTokenSize"
    and "dropCR (err_text e) = err_text e"
  shows "follow_text (sse_text (Inl e) live) = ([err_text e], False)"
proof -
  have "scan_tokens (''event: error'' @ newline # sse_data (err_text e)) =
      (''event: error'' # fst (scan_tokens (sse_data (err_text e))), snd (scan_tokens (sse_data (err_text e))))"
    using scan_line [of "''event: error''"] by (simp add: newline_def dropCR_def maxScanTokenSize_def)
  moreover have "scan_tokens (sse_data (err_text e)) = ([''data: '' @ err_text e, ''''], None)"
    using scan_event [OF assms, of "''''"] by (simp add: scan_tokens.simps)
  ultimately show ?thesis by (simp add: sse_text_def sse_error_def follow_text_def follow_line_def)
qed

section \<open>Examples\<close>

definition demo_tick :: "string \<Rightarrow> stream_tick" where
  "demo_tick content = \<lparr>tc_path = None, tc_open = content, tc_taken = None\<rparr>"


theorem stream_roundtrip_witness:
  "follow_text (sse_text (Inr [''ready'', '''']) (Inr [''hit''])) = ([''ready'', '''', ''hit''], False)"
  using stream_roundtrip [of "[''ready'', '''']" "[''hit'']"]
  by (simp add: newline_def maxScanTokenSize_def dropCR_def)

end
