(* ===== verification/Case_Study.thy ===== *)
theory Case_Study
  imports Setup
begin

text \<open>
  Case studies (\<^verbatim>\<open>SubmitCaseStudy\<close> of \<^verbatim>\<open>internal/service/service.go\<close>): a submission
  becomes a draft in a file named after the day and a slug of its first text. The disk and the calendar
  answer through \<open>study_env\<close>; the files are a map from paths to contents.
\<close>

section \<open>The slug\<close>

definition slug_char :: "char \<Rightarrow> bool" where
  "slug_char r \<longleftrightarrow> CHR ''a'' \<le> r \<and> r \<le> CHR ''z'' \<or> CHR ''0'' \<le> r \<and> r \<le> CHR ''9''"

definition slug_step :: "string \<Rightarrow> char \<Rightarrow> string" where
  "slug_step b r =
     (if slug_char r then b @ [r]
      else if r = CHR '' '' \<or> r = CHR ''-'' \<or> r = CHR ''_''
      then (if b \<noteq> [] \<and> last b \<noteq> CHR ''-'' then b @ ''-'' else b)
      else b)"

fun slug_loop :: "string \<Rightarrow> string \<Rightarrow> string" where
  "slug_loop b [] = b"
| "slug_loop b (r # rs) =
     (let b1 = slug_step b r in if 50 \<le> length b1 then b1 else slug_loop b1 rs)"

text \<open>Letters outside ASCII are dropped.\<close>

definition caseStudySlug :: "string \<Rightarrow> string" where
  "caseStudySlug s = rev (dropWhile (\<lambda>c. c = CHR ''-'') (rev (slug_loop [] (map to_lower s))))"

section \<open>The draft\<close>

record case_study =
  cs_PainPoint :: string
  cs_Workflow :: string
  cs_Outcome :: string
  cs_StackContext :: string
  cs_Quote :: string
  cs_CreditAs :: string
  cs_FeaturesUsed :: "string list"

definition formatCaseStudy :: "case_study \<Rightarrow> string \<Rightarrow> string" where
  "formatCaseStudy req date =
     (let credit = (if cs_CreditAs req = '''' then ''anonymous'' else cs_CreditAs req);
          features = (if cs_FeaturesUsed req \<noteq> []
                      then [newline] @ ''features_used: ['' @ str_join '', '' (cs_FeaturesUsed req) @ '']'' else '''')
      in ''---'' @ [newline] @ ''date: '' @ date @ [newline] @ ''draft: true'' @ [newline] @ ''type: case-study'' @ [newline]
         @ ''tags: [case-study]'' @ [newline] @ ''credit_as: '' @ dq @ credit @ dq @ [newline] @ features
         @ (if features \<noteq> '''' then [newline] else '''') @ ''---'' @ [newline] @ [newline]
         @ ''## The Problem'' @ [newline] @ [newline] @ cs_PainPoint req @ [newline, newline]
         @ ''## Workflow with Anito'' @ [newline] @ [newline] @ cs_Workflow req @ [newline, newline]
         @ ''## The Outcome'' @ [newline] @ [newline] @ cs_Outcome req @ [newline]
         @ (if cs_StackContext req \<noteq> '''' then [newline] @ ''*Stack: '' @ cs_StackContext req @ ''*'' @ [newline] else '''')
         @ (if cs_Quote req \<noteq> '''' then [newline] @ ''> '' @ dq @ cs_Quote req @ dq @ '' '' @ em_dash @ '' '' @ credit @ [newline] else ''''))"

section \<open>Submitting\<close>

text \<open>A write that fails may leave any content, or no file.\<close>

record study_env =
  se_mkdir :: "err option"
  se_date :: string
  se_write :: "(err \<times> string option) option"

type_synonym studies = "string gomap"

definition SubmitCaseStudy :: "study_env \<Rightarrow> string \<Rightarrow> case_study \<Rightarrow> studies \<Rightarrow> (string, studies) res" where
  "SubmitCaseStudy E logDir req files =
     (if cs_PainPoint req = '''' \<or> cs_Workflow req = '''' \<or> cs_Outcome req = ''''
      then (Inl (Errorf ''pain_point, workflow, and outcome are required'' []), files)
      else
        (let dir = path_join [path_dir logDir, ''case-studies''] in
         case se_mkdir E of
           Some e \<Rightarrow> (Inl (Errorf ''case-studies: mkdir: %w'' [FErr e]), files)
         | None \<Rightarrow>
             (let slug = caseStudySlug (cs_PainPoint req);
                  filename = se_date E @ ''-'' @ slug @ ''.md'';
                  path = path_join [dir, filename];
                  content = formatCaseStudy req (se_date E)
              in case se_write E of
                   Some (e, partial) \<Rightarrow>
                     (Inl (Errorf ''case-studies: write: %w'' [FErr e]),
                      case partial of Some c \<Rightarrow> AList.update path c files | None \<Rightarrow> files)
                 | None \<Rightarrow> (Inr path, AList.update path content files))))"

section \<open>What a slug is\<close>

definition no_double_dash :: "string \<Rightarrow> bool" where
  "no_double_dash s \<longleftrightarrow> successively (\<lambda>a b. a = CHR ''-'' \<longrightarrow> b \<noteq> CHR ''-'') s"

definition slug_ok :: "string \<Rightarrow> bool" where
  "slug_ok s \<longleftrightarrow> (\<forall>c \<in> set s. slug_char c \<or> c = CHR ''-'') \<and> no_double_dash s
     \<and> (s \<noteq> [] \<longrightarrow> hd s \<noteq> CHR ''-'')"

lemma slug_step_ok:
  assumes "slug_ok b"
  shows "slug_ok (slug_step b r) \<and> length (slug_step b r) \<le> Suc (length b)"
proof -
  have "slug_char r \<Longrightarrow> r \<noteq> CHR ''-''" by (auto simp: slug_char_def)
  with assms show ?thesis
    by (auto simp: slug_step_def slug_ok_def no_double_dash_def successively_append_iff hd_append)
qed

lemma slug_loop_ok: "slug_ok b \<Longrightarrow> length b < 50 \<Longrightarrow> slug_ok (slug_loop b rs) \<and> length (slug_loop b rs) \<le> 50"
proof (induction rs arbitrary: b)
  case (Cons r rs)
  have step: "slug_ok (slug_step b r)" "length (slug_step b r) \<le> 50"
    using slug_step_ok [OF Cons.prems(1), of r] Cons.prems(2) by auto
  show ?case
  proof (cases "50 \<le> length (slug_step b r)")
    case False
    with Cons.IH [OF step(1)] show ?thesis by (simp add: Let_def)
  qed (use step in \<open>simp add: Let_def\<close>)
qed simp

text \<open>The slug of a case study has at most fifty characters, only lower case letters, digits and single
  dashes between them, so that a draft is always a file of its own directory.\<close>

theorem caseStudySlug_safe:
  "length (caseStudySlug s) \<le> 50 \<and> slug_ok (caseStudySlug s)
   \<and> (caseStudySlug s \<noteq> '''' \<longrightarrow> last (caseStudySlug s) \<noteq> CHR ''-'')"
proof -
  let ?l = "slug_loop [] (map to_lower s)"
  have ok: "slug_ok ?l" "length ?l \<le> 50"
    using slug_loop_ok [of "[]" "map to_lower s"] by (simp_all add: slug_ok_def no_double_dash_def)
  obtain ds where split: "?l = caseStudySlug s @ ds"
    unfolding caseStudySlug_def by (metis rev_append rev_rev_ident takeWhile_dropWhile_id)
  have "last (caseStudySlug s) \<noteq> CHR ''-''" if "caseStudySlug s \<noteq> ''''"
    using that hd_dropWhile [of "\<lambda>c. c = CHR ''-''" "rev ?l"]
    by (simp add: caseStudySlug_def last_rev)
  moreover have "slug_ok (caseStudySlug s)"
    using ok(1) unfolding split
    by (auto simp: slug_ok_def no_double_dash_def successively_append_iff)
  moreover have "length (caseStudySlug s) \<le> 50" using ok(2) split by simp
  ultimately show ?thesis by simp
qed

text \<open>Two submissions of a day whose first texts begin alike share a file, and a text without letters
  has an empty slug.\<close>

lemma slugs_collide:
  "caseStudySlug ''Ports, ports!'' = caseStudySlug ''ports ports'' \<and> caseStudySlug ''(...)'' = ''''"
  by code_simp

lemma second_submission_overwrites:
  assumes "SubmitCaseStudy E logDir a files = (Inr path, files1)"
    and "SubmitCaseStudy E logDir b files1 = (Inr path', files2)"
    and "caseStudySlug (cs_PainPoint a) = caseStudySlug (cs_PainPoint b)"
  shows "path' = path \<and> map_of files2 path = Some (formatCaseStudy b (se_date E))"
  using assms by (auto simp: SubmitCaseStudy_def Let_def map_of_update split: if_splits option.splits prod.splits)

definition demo_study :: case_study where
  "demo_study = \<lparr>cs_PainPoint = ''ports'', cs_Workflow = ''deploy'', cs_Outcome = ''calm'', cs_StackContext = '''',
     cs_Quote = '''', cs_CreditAs = '''', cs_FeaturesUsed = []\<rparr>"

text \<open>A case study is saved as the rendered draft under its day and slug, and no other file changes;
  a submission without one of the three required texts is refused without touching a file.\<close>

theorem SubmitCaseStudy_saves:
  assumes "SubmitCaseStudy E logDir req files = (answer, files')"
  shows "(\<forall>path. answer = Inr path \<longrightarrow>
      path = path_join [path_join [path_dir logDir, ''case-studies''],
               se_date E @ ''-'' @ caseStudySlug (cs_PainPoint req) @ ''.md'']
      \<and> map_of files' = (map_of files)(path \<mapsto> formatCaseStudy req (se_date E)))
    \<and> ('''' \<in> {cs_PainPoint req, cs_Workflow req, cs_Outcome req} \<longrightarrow> \<not> ok answer \<and> files' = files)"
  using assms
  by (auto simp: SubmitCaseStudy_def Let_def ok_def update_conv' split: if_splits option.splits prod.splits)

theorem SubmitCaseStudy_saves_witness:
  "\<exists>files'. SubmitCaseStudy \<lparr>se_mkdir = None, se_date = ''2025-01-31'', se_write = None\<rparr> ''/d/logs'' demo_study []
      = (Inr (path_join [path_join [path_dir ''/d/logs'', ''case-studies''],
                ''2025-01-31-'' @ caseStudySlug ''ports'' @ ''.md'']), files')
    \<and> files' \<noteq> []"
proof -
  obtain answer files' where run: "SubmitCaseStudy \<lparr>se_mkdir = None, se_date = ''2025-01-31'', se_write = None\<rparr>
      ''/d/logs'' demo_study [] = (answer, files')" by fastforce
  moreover from this have "ok answer" by (auto simp: SubmitCaseStudy_def demo_study_def Let_def ok_def)
  ultimately show ?thesis
    using SubmitCaseStudy_saves [OF run]
    by (auto simp: ok_def demo_study_def map_upd_nonempty [THEN not_sym] split: sum.splits)
qed

end
