(* ===== verification/Durations.thy ===== *)
theory Durations
  imports Prelude
begin

text \<open>
  Durations as text, \<^verbatim>\<open>time.Duration.String\<close> and \<^verbatim>\<open>time.ParseDuration\<close> of the standard library, which the
  front ends use to show durations and to read them back. Durations are nanoseconds in 64 bits; the bounds of
  the parser are written out. A fraction is scaled exactly; the library does it in floating point, which is the
  same when the unit has as many decimal places as the fraction.
\<close>

section \<open>Formatting\<close>

definition micro_sign :: string where
  "micro_sign = [CHR 0xC2, CHR 0xB5]"

text \<open>\<^verbatim>\<open>fmtFrac\<close>: decimals from the last one, without the zeros at the end.\<close>

fun frac_loop :: "nat \<Rightarrow> nat \<Rightarrow> bool \<Rightarrow> string \<Rightarrow> bool \<times> string \<times> nat" where
  "frac_loop 0 v started acc = (started, acc, v)"
| "frac_loop (Suc n) v started acc =
     (let started' = (started \<or> v mod 10 \<noteq> 0)
      in frac_loop n (v div 10) started' (if started' then char_of_digit (v mod 10) # acc else acc))"

definition fmtFrac :: "nat \<Rightarrow> nat \<Rightarrow> string \<times> nat" where
  "fmtFrac v prec =
     (case frac_loop prec v False '''' of (started, acc, v') \<Rightarrow> (if started then CHR ''.'' # acc else acc, v'))"

definition below_second :: "nat \<Rightarrow> string" where
  "below_second u =
     (if u = 0 then ''0s''
      else if u < 1000 then show_nat u @ ''ns''
      else if u < 1000000 then (case fmtFrac u 3 of (f, q) \<Rightarrow> show_nat q @ f @ micro_sign @ ''s'')
      else (case fmtFrac u 6 of (f, q) \<Rightarrow> show_nat q @ f @ ''ms''))"

definition from_second :: "nat \<Rightarrow> string" where
  "from_second u =
     (case fmtFrac u 9 of (f, q) \<Rightarrow>
        (let secs = show_nat (q mod 60) @ f @ ''s''; mins = q div 60 in
         if mins = 0 then secs
         else (let text = show_nat (mins mod 60) @ ''m'' @ secs; hours = mins div 60 in
               if hours = 0 then text else show_nat hours @ ''h'' @ text)))"

definition duration_text :: "int \<Rightarrow> string" where
  "duration_text d =
     (let u = nat \<bar>d\<bar>; t = (if u < 1000000000 then below_second u else from_second u)
      in if d < 0 then CHR ''-'' # t else t)"

section \<open>Parsing\<close>

definition duration_units :: "(string \<times> nat) list" where
  "duration_units =
     [(''ns'', 1), (''us'', 1000), (micro_sign @ ''s'', 1000), ([CHR 0xCE, CHR 0xBC] @ ''s'', 1000), (''ms'', 1000000),
      (''s'', 1000000000), (''m'', 60000000000), (''h'', 3600000000000)]"

definition leadingInt :: "string \<Rightarrow> (nat \<times> string) option" where
  "leadingInt s =
     (let v = nat_of_digits (takeWhile is_digit s)
      in if v \<le> 2 ^ 63 then Some (v, dropWhile is_digit s) else None)"

text \<open>Digits that no longer fit are passed over.\<close>

fun fraction_digits :: "string \<Rightarrow> nat \<Rightarrow> nat \<Rightarrow> bool \<Rightarrow> nat \<times> nat" where
  "fraction_digits '''' x k over = (x, k)"
| "fraction_digits (c # cs) x k over =
     (if over \<or> (2 ^ 63 - 1) div 10 < x \<or> 2 ^ 63 < 10 * x + digit_val c then fraction_digits cs x k True
      else fraction_digits cs (10 * x + digit_val c) (Suc k) False)"

definition leadingFraction :: "string \<Rightarrow> (nat \<times> nat) \<times> string" where
  "leadingFraction s = (fraction_digits (takeWhile is_digit s) 0 0 False, dropWhile is_digit s)"

definition number_char :: "char \<Rightarrow> bool" where
  "number_char c \<longleftrightarrow> c = CHR ''.'' \<or> is_digit c"

text \<open>One number with its unit.\<close>

definition parse_term :: "string \<Rightarrow> (nat \<times> string) option" where
  "parse_term s =
     (if s = '''' \<or> \<not> number_char (hd s) then None
      else
        (case leadingInt s of
           None \<Rightarrow> None
         | Some (v, s1) \<Rightarrow>
             (let pre = (length s1 \<noteq> length s);
                  ((f, k), s2) = (if s1 \<noteq> '''' \<and> hd s1 = CHR ''.'' then leadingFraction (tl s1) else ((0, 0), s1));
                  post = (s1 \<noteq> '''' \<and> hd s1 = CHR ''.'' \<and> length s2 \<noteq> length (tl s1))
              in if \<not> pre \<and> \<not> post then None
                 else if takeWhile (\<lambda>c. \<not> number_char c) s2 = '''' then None
                 else
                   (case map_of duration_units (takeWhile (\<lambda>c. \<not> number_char c) s2) of
                      None \<Rightarrow> None
                    | Some unit \<Rightarrow>
                        if 2 ^ 63 div unit < v then None
                        else
                          (let total = v * unit + f * unit div 10 ^ k
                           in if 2 ^ 63 < total then None
                              else Some (total, dropWhile (\<lambda>c. \<not> number_char c) s2))))))"

lemma parse_term_shorter: "parse_term s = Some (v, rest) \<Longrightarrow> length rest < length s"
proof -
  assume "parse_term s = Some (v, rest)"
  then obtain v1 s1 s2 where s1: "leadingInt s = Some (v1, s1)"
    and s2: "s2 = s1 \<or> s2 = dropWhile is_digit (tl s1)"
    and unit: "takeWhile (\<lambda>c. \<not> number_char c) s2 \<noteq> ''''" and rest: "rest = dropWhile (\<lambda>c. \<not> number_char c) s2"
    by (auto simp: parse_term_def leadingFraction_def Let_def split: if_splits option.splits prod.splits)
  have "length rest < length s2"
    using unit rest by (metis append_Nil length_append length_greater_0_conv less_add_same_cancel2 takeWhile_dropWhile_id)
  moreover have "length s2 \<le> length s1"
    using s2 length_dropWhile_le [of is_digit "tl s1"] by auto
  moreover have "length s1 \<le> length s"
    using s1 by (auto simp: leadingInt_def Let_def length_dropWhile_le split: if_splits)
  ultimately show ?thesis by simp
qed

function parse_terms :: "nat \<Rightarrow> string \<Rightarrow> nat option" where
  "parse_terms d s =
     (if s = '''' then Some d
      else case parse_term s of
             None \<Rightarrow> None
           | Some (v, rest) \<Rightarrow> if 2 ^ 63 < d + v then None else parse_terms (d + v) rest)"
  by auto
termination
  by (relation "measure (\<lambda>(d, s). length s)") (auto dest: parse_term_shorter)

declare parse_terms.simps [simp del]

definition ParseDuration :: "string \<Rightarrow> err + int" where
  "ParseDuration orig =
     (let signed = (orig \<noteq> '''' \<and> (hd orig = CHR ''-'' \<or> hd orig = CHR ''+''));
          neg = (orig \<noteq> '''' \<and> hd orig = CHR ''-'');
          s = (if signed then tl orig else orig);
          invalid = Inl (Errorf ''time: invalid duration %q'' [FStr orig])
      in if s = ''0'' then Inr 0
         else if s = '''' then invalid
         else case parse_terms 0 s of
                None \<Rightarrow> invalid
              | Some d \<Rightarrow> if neg then Inr (- int d) else if 2 ^ 63 - 1 < d then invalid else Inr (int d))"

section \<open>A duration reads back\<close>

lemma nat_of_digits_Cons: "nat_of_digits (c # ds) = digit_val c * 10 ^ length ds + nat_of_digits ds"
proof -
  have "foldl (\<lambda>n c. 10 * n + digit_val c) a ds = a * 10 ^ length ds + foldl (\<lambda>n c. 10 * n + digit_val c) 0 ds" for a
  proof (induction ds arbitrary: a)
    case (Cons d ds)
    from Cons [of "10 * a + digit_val d"] Cons [of "digit_val d"] show ?case by (simp add: algebra_simps)
  qed simp
  from this [of "digit_val c"] show ?thesis by (simp add: nat_of_digits_def)
qed

lemma mod_power_Suc: "v mod 10 ^ Suc n = 10 * (v div 10 mod 10 ^ n) + v mod (10::nat)"
  by (simp add: mod_mult2_eq)

lemma frac_loop_spec:
  assumes "frac_loop n v started acc = (started', acc', v')" and "started \<longleftrightarrow> acc \<noteq> ''''"
    and "\<forall>c \<in> set acc. is_digit c"
  shows "(started' \<longleftrightarrow> acc' \<noteq> '''') \<and> (\<forall>c \<in> set acc'. is_digit c) \<and> length acc' \<le> n + length acc
    \<and> v' = v div 10 ^ n \<and> nat_of_digits acc' * 10 ^ (n + length acc - length acc')
        = (v mod 10 ^ n) * 10 ^ length acc + nat_of_digits acc"
  using assms
proof (induction n arbitrary: v started acc)
  case (Suc n)
  let ?d = "v mod 10"
  have small: "?d < 10" by simp
  show ?case
  proof (cases "started \<or> ?d \<noteq> 0")
    case True
    let ?acc = "char_of_digit ?d # acc"
    from True Suc.prems(1) have run: "frac_loop n (v div 10) True ?acc = (started', acc', v')" by (simp add: Let_def)
    have digits: "\<forall>c \<in> set ?acc. is_digit c" using Suc.prems(3) is_digit_char_of_digit [OF small] by simp
    from Suc.IH [OF run _ digits]
    have "started' \<longleftrightarrow> acc' \<noteq> ''''" "\<forall>c \<in> set acc'. is_digit c" "length acc' \<le> n + length ?acc"
      "v' = v div 10 div 10 ^ n" "nat_of_digits acc' * 10 ^ (n + length ?acc - length acc')
        = (v div 10 mod 10 ^ n) * 10 ^ length ?acc + nat_of_digits ?acc"
      by simp_all
    moreover have "nat_of_digits ?acc = ?d * 10 ^ length acc + nat_of_digits acc"
      using digit_val_char_of_digit [OF small] by (simp add: nat_of_digits_Cons)
    moreover have "(v mod 10 ^ Suc n) * 10 ^ length acc = (v div 10 mod 10 ^ n) * 10 ^ length ?acc + ?d * 10 ^ length acc"
      unfolding mod_power_Suc by (simp add: algebra_simps)
    ultimately show ?thesis by (simp add: div_mult2_eq)
  next
    case False
    then have none: "\<not> started" "acc = ''''" "?d = 0" using Suc.prems(2) by auto
    from False Suc.prems(1) have run: "frac_loop n (v div 10) False '''' = (started', acc', v')"
      by (simp add: Let_def none)
    from Suc.IH [OF run]
    have IH: "started' \<longleftrightarrow> acc' \<noteq> ''''" "\<forall>c \<in> set acc'. is_digit c" "length acc' \<le> n"
      "v' = v div 10 div 10 ^ n" "nat_of_digits acc' * 10 ^ (n - length acc') = v div 10 mod 10 ^ n"
      by (simp_all add: nat_of_digits_def)
    have "nat_of_digits acc' * 10 ^ (Suc n - length acc') = 10 * (nat_of_digits acc' * 10 ^ (n - length acc'))"
      using IH(3) by (simp add: Suc_diff_le)
    also have "\<dots> = v mod 10 ^ Suc n" unfolding IH(5) mod_power_Suc none(3) by simp
    finally show ?thesis using IH none by (simp add: div_mult2_eq nat_of_digits_def)
  qed
qed auto

lemma fmtFrac_spec:
  assumes "fmtFrac v prec = (f, q)"
  shows "q = v div 10 ^ prec \<and>
    (f = '''' \<and> v mod 10 ^ prec = 0 \<or>
     (\<exists>ds. f = CHR ''.'' # ds \<and> ds \<noteq> '''' \<and> (\<forall>c \<in> set ds. is_digit c) \<and> length ds \<le> prec
        \<and> nat_of_digits ds * 10 ^ (prec - length ds) = v mod 10 ^ prec))"
proof -
  obtain st acc q' where run: "frac_loop prec v False '''' = (st, acc, q')" by (metis prod_cases3)
  from frac_loop_spec [OF run] assms show ?thesis
    by (auto simp: fmtFrac_def run nat_of_digits_def split: if_splits)
qed

text \<open>Fraction digits that fit are all taken.\<close>

lemma fraction_digits_all:
  assumes "x * 10 ^ length ds + nat_of_digits ds < 10 ^ 18" and "\<forall>c \<in> set ds. is_digit c"
  shows "fraction_digits ds x k False = (x * 10 ^ length ds + nat_of_digits ds, k + length ds)"
  using assms
proof (induction ds arbitrary: x k)
  case (Cons d ds)
  have "of_char d \<le> (57 :: nat)" using Cons.prems(2) by (simp add: is_digit_def less_eq_char_def)
  then have "digit_val d \<le> 9" by (simp add: digit_val_def)
  have sum: "(10 * x + digit_val d) * 10 ^ length ds + nat_of_digits ds = x * 10 ^ length (d # ds) + nat_of_digits (d # ds)"
    by (simp add: nat_of_digits_Cons algebra_simps)
  have "10 * x + digit_val d \<le> (10 * x + digit_val d) * 10 ^ length ds" by simp
  then have small: "10 * x + digit_val d < 10 ^ 18" using sum Cons.prems(1) by linarith
  from Cons.IH [of "10 * x + digit_val d" "Suc k"] Cons.prems sum small show ?case by simp
qed (simp add: nat_of_digits_def)

lemma takeWhile_digits: "\<forall>c \<in> set ds. is_digit c \<Longrightarrow> t = '''' \<or> \<not> is_digit (hd t) \<Longrightarrow>
   takeWhile is_digit (ds @ t) = ds \<and> dropWhile is_digit (ds @ t) = t"
  by (cases t) (auto simp: takeWhile_append dropWhile_append)

lemma takeWhile_unit: "\<forall>c \<in> set u. \<not> number_char c \<Longrightarrow> t = '''' \<or> number_char (hd t) \<Longrightarrow>
   takeWhile (\<lambda>c. \<not> number_char c) (u @ t) = u \<and> dropWhile (\<lambda>c. \<not> number_char c) (u @ t) = t"
  by (cases t) (auto simp: takeWhile_append dropWhile_append)

text \<open>A number as \<open>fmtFrac\<close> writes it, with its unit.\<close>

lemma parse_term_written:
  assumes frac: "fmtFrac v prec = (f, q)" and unit: "map_of duration_units u = Some (10 ^ prec * m)"
    and prec: "prec \<le> 9" and chars: "\<forall>c \<in> set u. \<not> number_char c" "u \<noteq> ''''"
    and rest: "t = '''' \<or> number_char (hd t)" and small: "n * (10 ^ prec * m) + (v mod 10 ^ prec) * m \<le> 2 ^ 63" and m: "0 < m"
  shows "parse_term (show_nat n @ f @ u @ t) = Some (n * (10 ^ prec * m) + (v mod 10 ^ prec) * m, t)"
proof -
  let ?unit = "10 ^ prec * m" and ?s = "show_nat n @ f @ u @ t"
  have unit0: "0 < ?unit" using m by simp
  have n: "n \<le> 2 ^ 63 div ?unit" using small unit0 by (simp add: less_eq_div_iff_mult_less_eq)
  then have n63: "n \<le> 2 ^ 63" using div_le_dividend le_trans by blast
  note digits = show_nat_digits [of n]
  have start: "?s \<noteq> ''''" "number_char (hd ?s)" using digits by (auto simp: number_char_def hd_append)
  have u: "\<not> is_digit (hd u)" "hd u \<noteq> CHR ''.''" using chars by (auto simp: number_char_def)
  note unit_end = takeWhile_unit [OF chars(1) rest]
  have f: "f = '''' \<and> v mod 10 ^ prec = 0 \<or> (\<exists>ds. f = CHR ''.'' # ds \<and> ds \<noteq> '''' \<and> (\<forall>c \<in> set ds. is_digit c)
      \<and> length ds \<le> prec \<and> nat_of_digits ds * 10 ^ (prec - length ds) = v mod 10 ^ prec)"
    using fmtFrac_spec [OF frac] by blast
  then have "f @ u @ t = '''' \<or> \<not> is_digit (hd (f @ u @ t))"
    using u chars(2) by (auto simp: is_digit_def hd_append less_eq_char_def)
  with digits n63 have int: "leadingInt ?s = Some (n, f @ u @ t)"
    using takeWhile_digits [OF digits, of "f @ u @ t"] by (simp add: leadingInt_def)
  from f show ?thesis
  proof
    assume "f = '''' \<and> v mod 10 ^ prec = 0"
    then show ?thesis using start int unit_end u chars(2) unit n small
      by (simp add: parse_term_def Let_def not_less hd_append)
  next
    assume "\<exists>ds. f = CHR ''.'' # ds \<and> ds \<noteq> '''' \<and> (\<forall>c \<in> set ds. is_digit c)
      \<and> length ds \<le> prec \<and> nat_of_digits ds * 10 ^ (prec - length ds) = v mod 10 ^ prec"
    then obtain ds where ds: "f = CHR ''.'' # ds" "ds \<noteq> ''''" "\<forall>c \<in> set ds. is_digit c" "length ds \<le> prec"
      "nat_of_digits ds * 10 ^ (prec - length ds) = v mod 10 ^ prec" by blast
    have "nat_of_digits ds * 1 \<le> nat_of_digits ds * 10 ^ (prec - length ds)" by (intro mult_le_mono2) simp
    then have "nat_of_digits ds \<le> v mod 10 ^ prec" using ds(5) by simp
    also have "\<dots> < 10 ^ prec" by simp
    also have "\<dots> \<le> 10 ^ 18" using prec by (intro power_increasing) simp_all
    finally have "fraction_digits ds 0 0 False = (nat_of_digits ds, length ds)"
      using fraction_digits_all [of 0 ds 0] ds(3) by simp
    moreover have "u @ t = '''' \<or> \<not> is_digit (hd (u @ t))" using u chars(2) by (simp add: hd_append)
    ultimately have fr: "leadingFraction (ds @ u @ t) = ((nat_of_digits ds, length ds), u @ t)"
      using takeWhile_digits [OF ds(3)] by (simp add: leadingFraction_def)
    have "nat_of_digits ds * ?unit = (v mod 10 ^ prec) * m * 10 ^ length ds"
      unfolding ds(5) [symmetric] using ds(4) by (simp add: algebra_simps flip: power_add)
    then have "nat_of_digits ds * ?unit div 10 ^ length ds = (v mod 10 ^ prec) * m"
      by (metis nonzero_mult_div_cancel_right power_not_zero zero_neq_numeral)
    then show ?thesis using start int fr unit_end chars(2) unit n small ds(1,2)
      by (simp add: parse_term_def Let_def not_less)
  qed
qed

lemma parse_terms_Nil [simp]: "parse_terms d '''' = Some d"
  by (simp add: parse_terms.simps)

lemma parse_terms_step:
  "parse_term s = Some (v, rest) \<Longrightarrow> d + v \<le> 2 ^ 63 \<Longrightarrow> parse_terms d s = parse_terms (d + v) rest"
  by (cases "s = ''''") (simp_all add: parse_terms.simps [of d s], simp add: parse_term_def)

lemma unit_chars:
  "\<forall>c \<in> set ''ns''. \<not> number_char c" "\<forall>c \<in> set (micro_sign @ ''s''). \<not> number_char c" "\<forall>c \<in> set ''ms''. \<not> number_char c"
  "\<forall>c \<in> set ''s''. \<not> number_char c" "\<forall>c \<in> set ''m''. \<not> number_char c" "\<forall>c \<in> set ''h''. \<not> number_char c"
  by (simp_all add: number_char_def is_digit_def micro_sign_def less_eq_char_def)

lemma unit_values:
  "map_of duration_units ''ns'' = Some (10 ^ 0 * 1)" "map_of duration_units (micro_sign @ ''s'') = Some (10 ^ 3 * 1)"
  "map_of duration_units ''ms'' = Some (10 ^ 6 * 1)" "map_of duration_units ''s'' = Some (10 ^ 9 * 1)"
  "map_of duration_units ''m'' = Some (10 ^ 0 * 60000000000)" "map_of duration_units ''h'' = Some (10 ^ 0 * 3600000000000)"
  by (simp_all add: duration_units_def micro_sign_def)

lemma frac_loop_zero: "frac_loop n 0 False '''' = (False, '''', 0)"
  by (induction n) simp_all

lemma no_fraction: "fmtFrac v 0 = ('''', v)"
  by (simp add: fmtFrac_def)

lemma show_nat_start: "number_char (hd (show_nat n @ t))"
  using show_nat_digits [of n] by (auto simp: number_char_def hd_append)

lemma split_decimal: "u div 10 ^ k * (10 ^ k * 1) + u mod 10 ^ k * 1 = (u :: nat)"
  by (metis div_mult_mod_eq mult.right_neutral)

lemma parse_below_second:
  assumes "u < 1000000000"
  shows "parse_terms 0 (below_second u) = Some u"
proof -
  have u: "u \<le> 2 ^ 63" using assms by simp
  have "parse_terms 0 (show_nat q @ f @ t) = Some u"
    if "fmtFrac u k = (f, q)" "map_of duration_units t = Some (10 ^ k * 1)" "k \<le> 9" "\<forall>c \<in> set t. \<not> number_char c" "t \<noteq> ''''"
    for q f t k
  proof -
    have q: "q = u div 10 ^ k" using fmtFrac_spec [OF that(1)] by simp
    have "q * (10 ^ k * 1) + u mod 10 ^ k * 1 \<le> 2 ^ 63" unfolding q split_decimal using u .
    from parse_term_written [OF that _ this, of "''''"]
    have "parse_term (show_nat q @ f @ t) = Some (u, '''')" unfolding q split_decimal by simp
    from parse_terms_step [OF this, of 0] u show ?thesis by simp
  qed
  note one = this
  show ?thesis
  proof (cases "u = 0")
    case True
    have "fmtFrac u 9 = ('''', 0)" by (simp add: True fmtFrac_def frac_loop_zero)
    moreover have "show_nat 0 = ''0''" by code_simp
    ultimately
    show ?thesis using one [OF _ unit_values(4) _ unit_chars(4)] True by (simp add: below_second_def)
  next
    case False
    then show ?thesis
      using one [OF no_fraction unit_values(1) _ unit_chars(1)]
        one [OF prod.collapse [symmetric] unit_values(2) _ unit_chars(2)] one [OF prod.collapse [symmetric] unit_values(3) _ unit_chars(3)]
      by (simp add: below_second_def case_prod_beta)
  qed
qed

text \<open>Whole minutes and hours.\<close>

lemma parse_whole:
  assumes "map_of duration_units t = Some (10 ^ 0 * m)" and "\<forall>c \<in> set t. \<not> number_char c" and "t \<noteq> ''''"
    and "rest = '''' \<or> number_char (hd rest)" and "d + n * m \<le> 2 ^ 63" and "0 < m"
  shows "parse_terms d (show_nat n @ t @ rest) = parse_terms (d + n * m) rest"
proof -
  have "n * (10 ^ 0 * m) + n mod 10 ^ 0 * m \<le> 2 ^ 63" using assms(5) by simp
  from parse_term_written [OF no_fraction assms(1) _ assms(2,3,4) this assms(6)]
  have "parse_term (show_nat n @ t @ rest) = Some (n * m, rest)" by simp
  from parse_terms_step [OF this assms(5)] show ?thesis .
qed

lemma parse_seconds:
  assumes "fmtFrac u 9 = (f, q)" and "d + (n * 1000000000 + u mod 1000000000) \<le> 2 ^ 63"
  shows "parse_terms d (show_nat n @ f @ ''s'') = Some (d + (n * 1000000000 + u mod 1000000000))"
proof -
  have "n * (10 ^ 9 * 1) + u mod 10 ^ 9 * 1 \<le> 2 ^ 63" using assms(2) by simp
  from parse_term_written [OF assms(1) unit_values(4) _ unit_chars(4) _ _ this, of "''''"]
  have "parse_term (show_nat n @ f @ ''s'') = Some (n * 1000000000 + u mod 1000000000, '''')" by simp
  from parse_terms_step [OF this assms(2)] show ?thesis by simp
qed

lemma parse_from_second:
  assumes "u \<le> 2 ^ 63"
  shows "parse_terms 0 (from_second u) = Some u"
proof -
  obtain f q where fq: "fmtFrac u 9 = (f, q)" by fastforce
  from fmtFrac_spec [OF fq] have q: "q = u div 1000000000" by simp
  define secs where "secs = show_nat (q mod 60) @ f @ ''s''"
  define mins where "mins = q div 60"
  define r where "r = (q mod 60) * 1000000000 + u mod 1000000000"
  have u: "u = mins * 60000000000 + r"
  proof -
    have "q = mins * 60 + q mod 60" unfolding mins_def by simp
    moreover have "u = q * 1000000000 + u mod 1000000000" unfolding q by simp
    ultimately show ?thesis unfolding r_def by linarith
  qed
  have start: "number_char (hd secs)" unfolding secs_def by (rule show_nat_start)
  have tail: "parse_terms d secs = Some (d + r)" if "d + r \<le> 2 ^ 63" for d
    using parse_seconds [OF fq that [unfolded r_def]] unfolding secs_def r_def .
  show ?thesis
  proof (cases "mins = 0")
    case True
    have "from_second u = secs" using True by (simp add: from_second_def fq Let_def secs_def mins_def)
    with tail [of 0] assms u True show ?thesis by simp
  next
    case False
    define short where "short = show_nat (mins mod 60) @ ''m'' @ secs"
    define hours where "hours = mins div 60"
    have split: "mins = hours * 60 + mins mod 60" unfolding hours_def by simp
    have textp: "parse_terms d short = Some (d + (mins mod 60) * 60000000000 + r)"
      if "d + (mins mod 60) * 60000000000 + r \<le> 2 ^ 63" for d
      using parse_whole [OF unit_values(5) unit_chars(5) _ _ _, of secs d "mins mod 60"] tail that start
      unfolding short_def by simp
    show ?thesis
    proof (cases "hours = 0")
      case True
      have "from_second u = short"
        using False True by (simp add: from_second_def fq Let_def secs_def mins_def short_def hours_def)
      with textp [of 0] assms u split True show ?thesis by simp
    next
      case nz: False
      have "from_second u = show_nat hours @ ''h'' @ short"
        using False nz by (simp add: from_second_def fq Let_def secs_def mins_def short_def hours_def)
      moreover have "number_char (hd short)" unfolding short_def by (rule show_nat_start)
      moreover have sum: "u = hours * 3600000000000 + (mins mod 60) * 60000000000 + r"
        using u split by linarith
      ultimately show ?thesis
        using parse_whole [OF unit_values(6) unit_chars(6) _ _ _, of short 0 hours] textp [of "hours * 3600000000000"] assms
        by simp
    qed
  qed
qed

lemma text_start: "number_char (hd (below_second u))" "number_char (hd (from_second u))"
proof -
  have "number_char CHR ''0''" "number_char (hd (show_nat n))" for n
    using show_nat_start [of n "''''"] by (simp_all add: number_char_def is_digit_def)
  then show "number_char (hd (below_second u))" "number_char (hd (from_second u))"
    by (auto simp: below_second_def from_second_def case_prod_beta Let_def)
qed

lemma text_ends: "\<exists>p. below_second u = p @ ''s''" "\<exists>p. from_second u = p @ ''s''"
  by (auto simp: below_second_def from_second_def case_prod_beta Let_def)

text \<open>A duration shown as text and read back is the same duration, for every 64-bit duration: what the
  deploy tool shows of a service's drain window and time-out can be given to it again unchanged.\<close>

lemma ParseDuration_text:
  assumes "- (2 ^ 63) \<le> d" and "d < 2 ^ 63"
  shows "ParseDuration (duration_text d) = Inr d"
proof -
  define u where "u = nat \<bar>d\<bar>"
  have u: "u \<le> 2 ^ 63" "0 \<le> d \<Longrightarrow> u \<le> 2 ^ 63 - 1" using assms by (simp_all add: u_def)
  define t where "t = (if u < 1000000000 then below_second u else from_second u)"
  have run: "parse_terms 0 t = Some u" using parse_below_second parse_from_second u(1) by (simp add: t_def)
  have start: "number_char (hd t)" using text_start by (simp add: t_def)
  obtain p where "t = p @ ''s''" using text_ends by (metis t_def)
  then have t: "t \<noteq> ''0''" "t \<noteq> ''''" by (auto simp: append_eq_Cons_conv)
  have "duration_text d = (if d < 0 then CHR ''-'' # t else t)" by (simp add: duration_text_def Let_def t_def u_def)
  with run t start show ?thesis using u
    by (auto simp: ParseDuration_def Let_def u_def number_char_def is_digit_def)
qed

lemma frac_loop_numeral:
  "frac_loop (numeral k) v started acc =
     (let started' = (started \<or> v mod 10 \<noteq> 0)
      in frac_loop (pred_numeral k) (v div 10) started' (if started' then char_of_digit (v mod 10) # acc else acc))"
  by (simp only: numeral_eq_Suc [of k] frac_loop.simps)

lemma demo_duration: "duration_text 90500000000 = ''1m30.5s''"
proof -
  have "show_nat 1 = ''1''" "show_nat 30 = ''30''" "char_of_digit 5 = CHR ''5''" by code_simp+
  moreover have "fmtFrac 90500000000 9 = ([CHR ''.'', char_of_digit 5], 90)"
    by (simp add: fmtFrac_def frac_loop_numeral)
  ultimately show ?thesis
    by (simp add: duration_text_def from_second_def Let_def)
qed

lemma demo_ParseDuration: "ParseDuration ''1m30.5s'' = Inr 90500000000"
  using ParseDuration_text [of 90500000000] demo_duration by simp

end
