(* ===== verification/Daemon.thy ===== *)
theory Daemon
  imports Service Setup_Apply Case_Study Durations Sessions Auth
begin

text \<open>
  The state behind the two front ends, \<^verbatim>\<open>internal/server\<close> and \<^verbatim>\<open>internal/mcp\<close>: the world of the
  service layer, the stores of issues and sessions, the files of repositories and the drafts of case studies
  (\<^verbatim>\<open>runDaemon\<close> of \<^verbatim>\<open>cmd/anito/main.go\<close> makes them). What both front ends do alike is
  here: logging a failure, reading durations, starting with a token.
\<close>

section \<open>The daemon\<close>

text \<open>Both stores are pointers that may be nil.\<close>

record daemon =
  dm_world :: world
  dm_issues :: "issue_store option"
  dm_sessions :: "session_store option"
  dm_fs :: setup_fs
  dm_studies :: studies

definition svc_do :: "(world \<Rightarrow> ('a, world) res) \<Rightarrow> daemon \<Rightarrow> ('a, daemon) res" where
  "svc_do f d = (case f (dm_world d) of (x, w) \<Rightarrow> (x, d\<lparr>dm_world := w\<rparr>))"

section \<open>What the front ends share\<close>

text \<open>A failure that is logged as an issue; a store that does not save is ignored.\<close>

definition log_issue :: "issue_env \<Rightarrow> issue_disk \<Rightarrow> issue \<Rightarrow> daemon \<Rightarrow> daemon" where
  "log_issue E D i d =
     (case dm_issues d of
        None \<Rightarrow> d
      | Some s \<Rightarrow> d\<lparr>dm_issues := Some (snd (IssueAppend E D i s))\<rparr>)"

definition parse_window :: "string \<Rightarrow> (string \<Rightarrow> err) \<Rightarrow> err + int" where
  "parse_window s bad =
     (if s = '''' then Inr 0
      else (case ParseDuration s of Inl e \<Rightarrow> Inl (bad s) | Inr t \<Rightarrow> Inr t))"

definition bad_drain_window :: "string \<Rightarrow> err" where
  "bad_drain_window s =
     InvalidConfigf (''invalid drain_window %q: use a duration string like '' @ [CHR 0x27] @ ''3s'' @ [CHR 0x27]
       @ '' or '' @ [CHR 0x27] @ ''500ms'' @ [CHR 0x27]) [FStr s]"

definition bad_timeout :: "string \<Rightarrow> err" where
  "bad_timeout s =
     InvalidConfigf (''invalid health_check_timeout %q: use a duration string like '' @ [CHR 0x27] @ ''30s'' @ [CHR 0x27])
       [FStr s]"

text \<open>The token the server starts with: the one it was given, or the one on the disk.\<close>

definition start_token :: "auth_env \<Rightarrow> string \<Rightarrow> token_fs \<Rightarrow> (string, token_fs) res" where
  "start_token A token fs =
     (if token \<noteq> '''' then (Inr token, fs)
      else on_res (LoadOrCreateToken A fs) (\<lambda>(t, source) fs1. (Inr t, fs1))
             (\<lambda>e fs1. (Inl (Errorf ''capability auth: %w'' [FErr e]), fs1)))"

end
