(* ===== verification/Doctor.thy ===== *)
theory Doctor
  imports World Setup Durations
begin

text \<open>
  \<^verbatim>\<open>internal/doctor/doctor.go\<close>: the checks of a repository's configuration files, against the file
  system, the listeners of this machine and the registry. What the checks look at answers through
  \<open>doctor_env\<close>; the registry's side is the function that looks up a service, or none. A Go map is
  visited in the order of its list; the extensions found in a watched directory come in some order.
\<close>

section \<open>Results\<close>

record doctor_issue =
  di_Severity :: string
  di_Field :: string
  di_Message :: string
  di_Action :: string

record config_result =
  cr_ConfigFile :: string
  cr_Name :: string
  cr_ParseError :: string
  cr_Issues :: "doctor_issue list"
  cr_Errors :: nat
  cr_Warnings :: nat

record doctor_result =
  dt_RepoPath :: string
  dt_Configs :: "config_result list"
  dt_Errors :: nat
  dt_Warnings :: nat
  dt_Healthy :: bool

definition cr_add :: "config_result \<Rightarrow> doctor_issue \<Rightarrow> config_result" where
  "cr_add cr iss =
     cr\<lparr>cr_Issues := cr_Issues cr @ [iss],
        cr_Errors := (if di_Severity iss = ''error'' then Suc (cr_Errors cr) else cr_Errors cr),
        cr_Warnings := (if di_Severity iss = ''warning'' then Suc (cr_Warnings cr) else cr_Warnings cr)\<rparr>"

definition mk_issue :: "string \<Rightarrow> string \<Rightarrow> string \<Rightarrow> string \<Rightarrow> doctor_issue" where
  "mk_issue sev field msg action =
     \<lparr>di_Severity = sev, di_Field = field, di_Message = msg, di_Action = action\<rparr>"

section \<open>What is looked at\<close>

datatype dir_answer = DirMissing | DirFailed err | DirEntries "(string \<times> bool) list"

datatype port_answer = NoListener | NotHTTP | HTTPListener nat string

type_synonym status_fetcher = "string \<Rightarrow> err + service"

record doctor_env =
  dc_getwd :: "err + string"
  dc_readdir :: "string \<Rightarrow> dir_answer"
  dc_stat :: "string \<Rightarrow> stat_answer"
  dc_read :: "string \<Rightarrow> err + string"
  dc_yaml :: "string \<Rightarrow> err + config"
  dc_tree :: "string \<Rightarrow> src_node"
  dc_listen :: "string \<Rightarrow> port_answer"

definition stat_ok :: "stat_answer \<Rightarrow> bool" where
  "stat_ok a = (a = StatFile \<or> a = StatDir)"

definition assetExtensions :: "string list" where
  "assetExtensions =
     [''.png'', ''.jpg'', ''.jpeg'', ''.gif'', ''.svg'', ''.webp'', ''.ico'', ''.bmp'', ''.woff'', ''.woff2'',
      ''.ttf'', ''.otf'', ''.mp4'', ''.mov'', ''.avi'', ''.webm'', ''.pdf'', ''.zip'']"

definition isWorktreePath :: "string \<Rightarrow> bool" where
  "isWorktreePath path = str_contains path ''/worktrees/''"

definition viteWrapperUsesForce :: "doctor_env \<Rightarrow> string \<Rightarrow> bool" where
  "viteWrapperUsesForce E path =
     (case dc_read E path of
        Inl _ \<Rightarrow> False
      | Inr content \<Rightarrow> str_contains content ''vite'' \<and> str_contains content ''--force'')"

text \<open>The files of a tree in the order of the walk; at most 2000 of them are looked at.\<close>

fun walk_files :: "src_node \<Rightarrow> string list" where
  "walk_files (SrcFile n) = [n]"
| "walk_files (SrcUnreadable n) = []"
| "walk_files (SrcDir n cs) = concat (map walk_files cs)"

definition findAssets :: "doctor_env \<Rightarrow> string \<Rightarrow> string list \<times> nat" where
  "findAssets E dir =
     (let found = filter (\<lambda>ext. ext \<in> set assetExtensions)
                    (map (\<lambda>f. map to_lower (path_ext f)) (take 2000 (walk_files (dc_tree E dir))))
      in (remdups found, length found))"

text \<open>Both loopback addresses are probed; a listener without Anito's header is a conflict.\<close>

fun conflict_on :: "doctor_env \<Rightarrow> string list \<Rightarrow> string" where
  "conflict_on E [] = ''''"
| "conflict_on E (addr # addrs) =
     (case dc_listen E addr of
        NoListener \<Rightarrow> conflict_on E addrs
      | NotHTTP \<Rightarrow> ''non-HTTP process on '' @ addr
      | HTTPListener status header \<Rightarrow>
          if header \<noteq> ''1''
          then ''foreign process on '' @ addr @ '' (HTTP '' @ show_int (int status) @ '', no Anito header)''
          else conflict_on E addrs)"

definition detectPortConflict :: "doctor_env \<Rightarrow> int \<Rightarrow> string" where
  "detectPortConflict E port = conflict_on E [''127.0.0.1:'' @ show_int port, ''[::1]:'' @ show_int port]"

section \<open>The checks of one file\<close>

definition worktree_issues :: "doctor_env \<Rightarrow> string \<Rightarrow> string \<Rightarrow> doctor_issue list" where
  "worktree_issues E cfgPath absOutput =
     (if \<not> isWorktreePath cfgPath then []
      else case find (\<lambda>dir. stat_ok (dc_stat E (file_at dir [''package.json''])))
                  [path_dir cfgPath, path_dir (path_dir cfgPath)] of
             None \<Rightarrow> []
           | Some dir \<Rightarrow>
               (let nmPath = file_at dir [''node_modules''];
                    missing = mk_issue ''error'' ''worktree''
                      (''worktree frontend detected but node_modules is missing or empty at '' @ nmPath)
                      (''run `npm install` in '' @ dir @ '' before deploying'')
                in case dc_readdir E nmPath of
                     DirMissing \<Rightarrow> [missing]
                   | DirFailed e \<Rightarrow> []
                   | DirEntries entries \<Rightarrow>
                       if length entries < 5 then [missing]
                       else if stat_ok (dc_stat E (file_at nmPath [''.vite''])) \<and> \<not> viteWrapperUsesForce E absOutput
                       then [mk_issue ''info'' ''worktree''
                               (''Vite cache present in worktree '' @ em_dash @ '' content may be stale after cherry-picks that add new files'')
                               (''add `--force` to your vite start command in the dev wrapper script to clear the module graph cache on each restart'')]
                       else []))"

definition output_issues :: "doctor_env \<Rightarrow> config \<Rightarrow> string \<Rightarrow> doctor_issue list" where
  "output_issues E cfg absOutput =
     (if dc_stat E absOutput = StatNotExist
      then (case (if cf_Build cfg \<noteq> ''''
                  then (''warning'', ''run `anito deploy` '' @ em_dash @ '' it will execute the build command automatically'')
                  else (''error'', ''build the binary and run `anito deploy`'')) of
              (sev, action) \<Rightarrow> [mk_issue sev ''output'' (''file not found: '' @ cf_Output cfg) action])
      else [])"

definition env_file_issues :: "doctor_env \<Rightarrow> config \<Rightarrow> string \<Rightarrow> doctor_issue list" where
  "env_file_issues E cfg cfgPath =
     (if cf_EnvFile cfg = '''' then []
      else (let envFilePath = against (path_dir cfgPath) (cf_EnvFile cfg) in
            if dc_stat E envFilePath = StatNotExist
            then [mk_issue ''error'' ''env_file'' (''file not found: '' @ envFilePath)
                    ''create the env_file or correct the path'']
            else []))"

definition type_issues :: "config \<Rightarrow> doctor_issue list" where
  "type_issues cfg =
     (if cf_Type cfg \<noteq> ''binary'' \<and> cf_Type cfg \<noteq> ''static''
      then [mk_issue ''error'' ''type''
              (''unknown type '' @ go_quote (cf_Type cfg) @ '' '' @ em_dash @ '' must be '' @ dq @ ''binary'' @ dq @ '' or '' @ dq @ ''static'' @ dq) '''']
      else [])"

definition policy_issues :: "config \<Rightarrow> doctor_issue list" where
  "policy_issues cfg =
     (if cf_RestartPolicy cfg \<in> {''always'', ''on-watch'', ''never'', ''''} then []
      else [mk_issue ''error'' ''restart_policy''
              (''unknown value '' @ go_quote (cf_RestartPolicy cfg) @ '' '' @ em_dash @ '' must be '' @ dq @ ''always'' @ dq @ '', '' @ dq @ ''on-watch'' @ dq @ '', or '' @ dq @ ''never'' @ dq) ''''])"

definition drain_issues :: "config \<Rightarrow> doctor_issue list" where
  "drain_issues cfg =
     (if 300000000000 < cf_DrainWindow cfg
      then [mk_issue ''warning'' ''drain_window''
              (''value is '' @ duration_text (cf_DrainWindow cfg) @ '' '' @ em_dash @ '' this seems very large'')
              (''use a duration string like '' @ dq @ ''3s'' @ dq @ '' or '' @ dq @ ''500ms'' @ dq @ '' in config.yaml'')]
      else [])"

definition watch_issues :: "doctor_env \<Rightarrow> string \<Rightarrow> string \<Rightarrow> doctor_issue list" where
  "watch_issues E repoRoot wp =
     (case dc_stat E wp of
        StatNotExist \<Rightarrow>
          [mk_issue ''warning'' ''watch'' (''path does not exist: '' @ wp)
             (''remove or correct this path '' @ em_dash @ '' missing watch paths are silently ignored'')]
      | StatError \<Rightarrow> []
      | StatFile \<Rightarrow>
          [mk_issue ''warning'' ''watch'' (''watch path is a file, not a directory: '' @ wp)
             ''watch paths must be directories'']
      | StatDir \<Rightarrow>
          (case findAssets E wp of
             (exts, count) \<Rightarrow>
               if count = 0 then []
               else [mk_issue ''warning'' ''watch''
                       ((case path_rel repoRoot wp of Some rel \<Rightarrow> rel | None \<Rightarrow> '''') @ '' contains '' @ show_int (int count)
                          @ '' asset file(s) ('' @ str_join '', '' exts @ '') '' @ em_dash @ '' these trigger spurious restarts'')
                       ''narrow the watch path to source directories only (e.g. ./src, ./cmd)'']))"

definition port_issue :: "doctor_env \<Rightarrow> string \<Rightarrow> int \<Rightarrow> doctor_issue list" where
  "port_issue E field port =
     (if port \<noteq> 0 \<and> detectPortConflict E port \<noteq> ''''
      then [mk_issue ''error'' field
              (''port '' @ show_int port @ '' has a competing listener: '' @ detectPortConflict E port)
              (''another process is holding this port '' @ em_dash @ '' find and stop it, then restart the service'')]
      else [])"

definition port_issues :: "doctor_env \<Rightarrow> config \<Rightarrow> doctor_issue list" where
  "port_issues E cfg =
     concat (map (\<lambda>(portName, port).
                    port_issue E (if portName \<noteq> ''default'' then ''ports.'' @ portName else ''port'') port) (cf_Ports cfg)) @
     (if cf_Port cfg \<noteq> 0 \<and> cf_Ports cfg = [] then port_issue E ''port'' (cf_Port cfg) else [])"

definition config_path_issues :: "doctor_env \<Rightarrow> string \<Rightarrow> string \<Rightarrow> doctor_issue list" where
  "config_path_issues E cfgPath recorded =
     (if recorded = ''''
      then [mk_issue ''error'' ''config_path'' ''no config path recorded for this service''
              (''redeploy with `anito deploy` or provide config_path in anito_deploy '' @ em_dash @ '' config files are required'')]
      else if dc_stat E recorded = StatNotExist
      then [mk_issue ''error'' ''config_path'' (''config file no longer exists: '' @ recorded)
              ''restore the config file or redeploy from its new location'']
      else if recorded \<noteq> cfgPath
      then [mk_issue ''info'' ''config_path''
              (''service was deployed from a '' @ (if isWorktreePath recorded then ''worktree'' else ''different location'')
                 @ '': '' @ recorded)
              (''run `anito deploy` from this config to update the registered source'')]
      else [])"

definition registry_issues :: "doctor_env \<Rightarrow> config \<Rightarrow> string \<Rightarrow> string \<Rightarrow> service \<Rightarrow> doctor_issue list" where
  "registry_issues E cfg cfgPath absOutput svc =
     (if cf_Port cfg \<noteq> 0 \<and> sv_stable_port svc \<noteq> cf_Port cfg
      then [mk_issue ''warning'' ''port''
              (''config says port '' @ show_int (cf_Port cfg) @ '' but service is registered on port '' @ show_int (sv_stable_port svc))
              (''registry is source of truth '' @ em_dash @ '' update config.yaml port to '' @ show_int (sv_stable_port svc) @ '', or remove the port field'')]
      else []) @
     (if absOutput \<noteq> '''' \<and> sv_binary_path svc \<noteq> absOutput
      then [mk_issue ''info'' ''output''
              (''registered binary differs from config output (registered: '' @ sv_binary_path svc @ '', config: '' @ absOutput @ '')'')
              ''expected if deploying from a worktree; redeploy to update'']
      else []) @
     (if sv_status svc = StatusFailed
      then [mk_issue ''warning'' ''status'' ''service is in failed state''
              (''run `anito restart '' @ cf_Name cfg @ ''` or `anito deploy` to recover'')]
      else []) @
     (if sv_status svc = StatusOrphaned
      then [mk_issue ''error'' ''binary_path'' (''binary no longer exists on disk: '' @ sv_binary_path svc)
              (''rebuild and run `anito deploy`, or run `anito remove '' @ cf_Name cfg @ ''` to clean up the registry'')]
      else []) @
     (if sv_env_file svc \<noteq> '''' \<and> \<not> IsAbs (sv_env_file svc)
      then [mk_issue ''error'' ''env_file''
              (''env_file in registry is a relative path ('' @ go_quote (sv_env_file svc) @ '') '' @ em_dash @ '' the daemon cannot resolve this at runtime'')
              (''redeploy with `anito deploy` '' @ em_dash @ '' relative env_file paths are now resolved automatically'')]
      else []) @
     config_path_issues E cfgPath (sv_config_path svc)"

definition status_issues :: "doctor_env \<Rightarrow> config \<Rightarrow> string \<Rightarrow> string \<Rightarrow> status_fetcher option \<Rightarrow> doctor_issue list" where
  "status_issues E cfg cfgPath absOutput svc =
     (case svc of
        None \<Rightarrow> []
      | Some status \<Rightarrow>
          (case status (cf_Name cfg) of
             Inl _ \<Rightarrow> []
           | Inr entry \<Rightarrow> registry_issues E cfg cfgPath absOutput entry))"

definition config_issues :: "doctor_env \<Rightarrow> config \<Rightarrow> string \<Rightarrow> string \<Rightarrow> status_fetcher option \<Rightarrow> doctor_issue list" where
  "config_issues E cfg cfgPath repoRoot svc =
     (let absOutput = against repoRoot (cf_Output cfg) in
      worktree_issues E cfgPath absOutput @ output_issues E cfg absOutput @ env_file_issues E cfg cfgPath @
      type_issues cfg @ policy_issues cfg @ drain_issues cfg @ concat (map (watch_issues E repoRoot) (cf_Watch cfg)) @
      port_issues E cfg @ status_issues E cfg cfgPath absOutput svc)"

definition checkConfig :: "doctor_env \<Rightarrow> string \<Rightarrow> string \<Rightarrow> string \<Rightarrow> status_fetcher option \<Rightarrow> config_result" where
  "checkConfig E cfgPath relPath repoRoot svc =
     (let cr = \<lparr>cr_ConfigFile = relPath, cr_Name = '''', cr_ParseError = '''', cr_Issues = [], cr_Errors = 0, cr_Warnings = 0\<rparr> in
      case config_load (dc_read E) (dc_yaml E) (dc_getwd E) cfgPath of
        Inl e \<Rightarrow> cr\<lparr>cr_ParseError := err_text e, cr_Errors := 1\<rparr>
      | Inr cfg \<Rightarrow> foldl cr_add (cr\<lparr>cr_Name := cf_Name cfg\<rparr>) (config_issues E cfg cfgPath repoRoot svc))"

section \<open>The report\<close>

definition config_files :: "string \<Rightarrow> (string \<times> bool) list \<Rightarrow> string list" where
  "config_files anitoDir entries =
     map (\<lambda>(name, isDir). file_at anitoDir [name])
       (filter (\<lambda>(name, isDir). \<not> isDir \<and> has_suffix name ''.yaml'') entries)"

definition add_config :: "doctor_result \<Rightarrow> config_result \<Rightarrow> doctor_result" where
  "add_config r cr =
     r\<lparr>dt_Configs := dt_Configs r @ [cr], dt_Errors := dt_Errors r + cr_Errors cr,
       dt_Warnings := dt_Warnings r + cr_Warnings cr\<rparr>"

definition doctor_Check :: "doctor_env \<Rightarrow> string \<Rightarrow> status_fetcher option \<Rightarrow> err + doctor_result" where
  "doctor_Check E repoPath svc =
     (case go_abs (dc_getwd E) repoPath of
        Inl e \<Rightarrow> Inl (Errorf ''resolving path: %w'' [FErr e])
      | Inr root \<Rightarrow>
          (let anitoDir = file_at root [''.anito''] in
           case dc_readdir E anitoDir of
             DirMissing \<Rightarrow> Inl (Errorf (''no .anito/ directory found at %s '' @ em_dash @ '' run `anito setup` to initialise'') [FStr root])
           | DirFailed e \<Rightarrow> Inl e
           | DirEntries entries \<Rightarrow>
               (let configFiles = config_files anitoDir entries in
                if configFiles = []
                then Inl (Errorf (''no .yaml config files found in %s '' @ em_dash @ '' run `anito setup` to generate one'') [FStr anitoDir])
                else
                  (let r = foldl add_config
                             \<lparr>dt_RepoPath = root, dt_Configs = [], dt_Errors = 0, dt_Warnings = 0, dt_Healthy = False\<rparr>
                             (map (\<lambda>cfgPath. checkConfig E cfgPath
                                     (case path_rel root cfgPath of Some rel \<Rightarrow> rel | None \<Rightarrow> '''') root svc) configFiles)
                   in Inr (r\<lparr>dt_Healthy := (dt_Errors r = 0)\<rparr>)))))"

section \<open>What healthy means\<close>

lemma foldl_cr_add:
  "cr_Errors (foldl cr_add cr iss) = cr_Errors cr + length (filter (\<lambda>i. di_Severity i = ''error'') iss)"
  "cr_Warnings (foldl cr_add cr iss) = cr_Warnings cr + length (filter (\<lambda>i. di_Severity i = ''warning'') iss)"
  "cr_Issues (foldl cr_add cr iss) = cr_Issues cr @ iss"
  by (induction iss arbitrary: cr) (simp_all add: cr_add_def)

lemma foldl_add_config:
  "dt_Errors (foldl add_config r crs) = dt_Errors r + sum_list (map cr_Errors crs)"
  "dt_Warnings (foldl add_config r crs) = dt_Warnings r + sum_list (map cr_Warnings crs)"
  "dt_Configs (foldl add_config r crs) = dt_Configs r @ crs" "dt_RepoPath (foldl add_config r crs) = dt_RepoPath r"
  by (induction crs arbitrary: r) (simp_all add: add_config_def)

definition has_error :: "doctor_issue list \<Rightarrow> bool" where
  "has_error iss = list_ex (\<lambda>i. di_Severity i = ''error'') iss"

lemma has_error_simps [simp]:
  "has_error [] = False" "has_error (a @ b) = (has_error a \<or> has_error b)"
  "has_error [mk_issue sev f m act] = (sev = ''error'')" "has_error (concat iss) = (\<exists>i \<in> set iss. has_error i)"
  by (auto simp: has_error_def mk_issue_def list_ex_iff)

lemma checkConfig_clean:
  "cr_Errors (checkConfig E cfgPath rel root svc) = 0 \<longleftrightarrow>
     (\<exists>cfg. config_load (dc_read E) (dc_yaml E) (dc_getwd E) cfgPath = Inr cfg
        \<and> \<not> has_error (config_issues E cfg cfgPath root svc))"
  by (cases "config_load (dc_read E) (dc_yaml E) (dc_getwd E) cfgPath")
    (auto simp: checkConfig_def Let_def foldl_cr_add has_error_def list_ex_iff filter_empty_conv)

text \<open>The specification: what must be in place for a deploy from this file.\<close>

definition modules_missing :: "doctor_env \<Rightarrow> string \<Rightarrow> bool" where
  "modules_missing E cfgPath \<longleftrightarrow>
     isWorktreePath cfgPath \<and>
     (\<exists>dir. find (\<lambda>dir. stat_ok (dc_stat E (file_at dir [''package.json'']))) [path_dir cfgPath, path_dir (path_dir cfgPath)] = Some dir
        \<and> (dc_readdir E (file_at dir [''node_modules'']) = DirMissing
           \<or> (\<exists>es. dc_readdir E (file_at dir [''node_modules'']) = DirEntries es \<and> length es < 5)))"

definition port_available :: "doctor_env \<Rightarrow> int \<Rightarrow> bool" where
  "port_available E port \<longleftrightarrow>
     (\<forall>addr \<in> {''127.0.0.1:'' @ show_int port, ''[::1]:'' @ show_int port}.
        dc_listen E addr = NoListener \<or> (\<exists>status. dc_listen E addr = HTTPListener status ''1''))"

definition entry_usable :: "doctor_env \<Rightarrow> service \<Rightarrow> bool" where
  "entry_usable E svc \<longleftrightarrow>
     sv_status svc \<noteq> StatusOrphaned \<and> (sv_env_file svc = '''' \<or> IsAbs (sv_env_file svc))
     \<and> sv_config_path svc \<noteq> '''' \<and> dc_stat E (sv_config_path svc) \<noteq> StatNotExist"

definition ready_to_deploy :: "doctor_env \<Rightarrow> config \<Rightarrow> string \<Rightarrow> string \<Rightarrow> status_fetcher option \<Rightarrow> bool" where
  "ready_to_deploy E cfg cfgPath root svc \<longleftrightarrow>
     \<not> modules_missing E cfgPath
     \<and> (dc_stat E (against root (cf_Output cfg)) = StatNotExist \<longrightarrow> cf_Build cfg \<noteq> '''')
     \<and> (cf_EnvFile cfg \<noteq> '''' \<longrightarrow> dc_stat E (against (path_dir cfgPath) (cf_EnvFile cfg)) \<noteq> StatNotExist)
     \<and> cf_Type cfg \<in> {''binary'', ''static''}
     \<and> (\<forall>(n, p) \<in> set (cf_Ports cfg). p \<noteq> 0 \<longrightarrow> port_available E p)
     \<and> (\<forall>status entry. svc = Some status \<and> status (cf_Name cfg) = Inr entry \<longrightarrow> entry_usable E entry)"

lemma worktree_issues_error: "has_error (worktree_issues E cfgPath out) \<longleftrightarrow> modules_missing E cfgPath"
  unfolding worktree_issues_def modules_missing_def Let_def
  by (cases "find (\<lambda>dir. stat_ok (dc_stat E (file_at dir [''package.json'']))) [path_dir cfgPath, path_dir (path_dir cfgPath)]")
    (auto split: dir_answer.split simp del: find.simps)

lemma detectPortConflict_none: "detectPortConflict E port = '''' \<longleftrightarrow> port_available E port"
  by (auto simp: detectPortConflict_def port_available_def split: port_answer.split)

lemma port_issues_error:
  assumes "cf_Port cfg \<noteq> 0 \<longrightarrow> cf_Ports cfg \<noteq> []"
  shows "has_error (port_issues E cfg) \<longleftrightarrow> \<not> (\<forall>(n, p) \<in> set (cf_Ports cfg). p \<noteq> 0 \<longrightarrow> port_available E p)"
proof -
  have "has_error (port_issue E field p) \<longleftrightarrow> p \<noteq> 0 \<and> \<not> port_available E p" for field p
    by (simp add: port_issue_def detectPortConflict_none)
  with assms show ?thesis by (cases "cf_Ports cfg") (auto simp: port_issues_def case_prod_beta)
qed

lemma registry_issues_error: "has_error (registry_issues E cfg cfgPath out svc) \<longleftrightarrow> \<not> entry_usable E svc"
  by (simp add: registry_issues_def config_path_issues_def entry_usable_def)

text \<open>A file that loads has a known restart policy and its single port among its named ports: the
  checks of both are never reached.\<close>

lemma config_load_normal:
  "config_load rd yaml wd path = Inr cfg \<Longrightarrow>
     cf_RestartPolicy cfg \<in> {''always'', ''on-watch'', ''never''} \<and> (cf_Port cfg \<noteq> 0 \<longrightarrow> cf_Ports cfg \<noteq> [])"
proof -
  assume "config_load rd yaml wd path = Inr cfg"
  then obtain cfg0 dir where "known_policy (config_defaults (normalize_ports cfg0))"
    "cfg = resolve_paths dir (config_defaults (normalize_ports cfg0))"
    using config_load_Inr by blast
  then show ?thesis
    by (simp add: known_policy_def resolve_paths_def) (simp add: config_defaults_def normalize_ports_def)
qed

lemma policy_check_is_dead: "config_load rd yaml wd path = Inr cfg \<Longrightarrow> policy_issues cfg = []"
  using config_load_normal [of rd yaml wd path cfg] by (auto simp: policy_issues_def)

lemma config_issues_error:
  assumes "config_load rd yaml wd path = Inr cfg"
  shows "has_error (config_issues E cfg cfgPath root svc) \<longleftrightarrow> \<not> ready_to_deploy E cfg cfgPath root svc"
proof -
  have "cf_Port cfg \<noteq> 0 \<longrightarrow> cf_Ports cfg \<noteq> []" using config_load_normal [OF assms] by simp
  note ports = port_issues_error [OF this, of E]
  have out: "has_error (output_issues E cfg o') \<longleftrightarrow> dc_stat E o' = StatNotExist \<and> cf_Build cfg = ''''" for o'
    by (simp add: output_issues_def)
  have env: "has_error (env_file_issues E cfg cfgPath) \<longleftrightarrow>
      cf_EnvFile cfg \<noteq> '''' \<and> dc_stat E (against (path_dir cfgPath) (cf_EnvFile cfg)) = StatNotExist"
    by (simp add: env_file_issues_def Let_def)
  have type: "has_error (type_issues cfg) \<longleftrightarrow> cf_Type cfg \<notin> {''binary'', ''static''}" by (simp add: type_issues_def)
  have drain: "\<not> has_error (drain_issues cfg)" by (simp add: drain_issues_def)
  have watch: "\<not> has_error (watch_issues E root wp)" for wp
    by (simp add: watch_issues_def split: stat_answer.split prod.split)
  have status: "has_error (status_issues E cfg cfgPath o' svc) \<longleftrightarrow>
      (\<exists>status entry. svc = Some status \<and> status (cf_Name cfg) = Inr entry \<and> \<not> entry_usable E entry)" for o'
    by (auto simp: status_issues_def registry_issues_error split: option.split sum.split)
  show ?thesis
    unfolding config_issues_def Let_def ready_to_deploy_def policy_check_is_dead [OF assms]
    by (simp only: has_error_simps worktree_issues_error ports out env type drain status) (auto simp: watch)
qed


definition demo_doctor :: "nat \<Rightarrow> doctor_env" where
  "demo_doctor status =
     \<lparr>dc_getwd = Inr ''/'', dc_readdir = (\<lambda>_. DirEntries [(''config.yaml'', False), (''receipts'', True)]),
      dc_stat = (\<lambda>_. StatFile), dc_read = (\<lambda>_. Inr ''''), dc_yaml = (\<lambda>_. Inr demo_config),
      dc_tree = (\<lambda>_. SrcFile ''x''),
      dc_listen = (\<lambda>addr. if addr = ''127.0.0.1:81'' then HTTPListener status ''1'' else NoListener)\<rparr>"

lemma demo_doctor_runs:
  "go_abs (Inr ''/'') ''/repo'' = Inr ''/repo''" "file_at ''/repo'' [''.anito''] = ''/repo/.anito''"
  "config_files ''/repo/.anito'' [(''config.yaml'', False), (''receipts'', True)] = [''/repo/.anito/config.yaml'']"
  by code_simp+


end
