(* ===== verification/Diagnosis.thy ===== *)
theory Diagnosis
  imports Doctor Service
begin

text \<open>
  \<^verbatim>\<open>internal/diagnosis/diagnosis.go\<close>: the read-only diagnosis of a service and of a repository, built
  on the doctor and the registry. Every message that leaves it is redacted.
\<close>

section \<open>Results\<close>

record diag_request =
  dq_ServiceName :: string
  dq_RepoPath :: string

record finding =
  fi_Code :: code
  fi_Severity :: string
  fi_Scope :: string
  fi_Field :: string
  fi_Message :: string
  fi_Action :: string

record service_snapshot =
  sn_Name :: string
  sn_Status :: service_status
  sn_Address :: string
  sn_PID :: int
  sn_GaveUp :: bool

record diag_result =
  dg_Request :: diag_request
  dg_Healthy :: bool
  dg_Errors :: nat
  dg_Warnings :: nat
  dg_Findings :: "finding list"
  dg_Service :: "service_snapshot option"

definition diag_add :: "diag_result \<Rightarrow> finding \<Rightarrow> diag_result" where
  "diag_add r f0 =
     (let f = f0\<lparr>fi_Severity := (if fi_Severity f0 = '''' then ''error'' else fi_Severity f0),
                 fi_Message := Redact (fi_Message f0), fi_Action := Redact (fi_Action f0)\<rparr>
      in r\<lparr>dg_Findings := dg_Findings r @ [f],
           dg_Errors := (if fi_Severity f = ''error'' then Suc (dg_Errors r) else dg_Errors r),
           dg_Warnings := (if fi_Severity f = ''warning'' then Suc (dg_Warnings r) else dg_Warnings r)\<rparr>)"

section \<open>A service\<close>

definition snapshot_of :: "service \<Rightarrow> service_snapshot" where
  "snapshot_of entry =
     \<lparr>sn_Name = sv_name entry, sn_Status = sv_status entry, sn_Address = Address entry, sn_PID = sv_pid entry,
      sn_GaveUp = sv_gave_up entry\<rparr>"

definition diagnoseService :: "diag_result \<Rightarrow> string \<Rightarrow> status_fetcher option \<Rightarrow> diag_result" where
  "diagnoseService result name svc =
     (case svc of
        None \<Rightarrow> diag_add result
          \<lparr>fi_Code = CodeInvalidConfig, fi_Severity = ''warning'', fi_Scope = ''service'', fi_Field = '''',
           fi_Message = ''daemon status is unavailable; service registry checks were skipped'', fi_Action = ''''\<rparr>
      | Some status \<Rightarrow>
          (case status name of
             Inl e \<Rightarrow>
               (case CodeOf e of
                  Some c \<Rightarrow> diag_add result
                    \<lparr>fi_Code = c, fi_Severity = ''error'', fi_Scope = ''service'', fi_Field = '''',
                     fi_Message = err_text e, fi_Action = ''''\<rparr>
                | None \<Rightarrow> diag_add result
                    \<lparr>fi_Code = CodeMissingService, fi_Severity = ''error'', fi_Scope = ''service'', fi_Field = '''',
                     fi_Message = ''service '' @ go_quote name @ '' not found'', fi_Action = ''''\<rparr>)
           | Inr entry \<Rightarrow>
               (let r = result\<lparr>dg_Service := Some (snapshot_of entry)\<rparr> in
                case sv_status entry of
                  StatusFailed \<Rightarrow> diag_add r
                    \<lparr>fi_Code = CodeReadinessFailure, fi_Severity = ''error'', fi_Scope = ''service'', fi_Field = ''status'',
                     fi_Message = ''service '' @ sv_name entry @ '' is failed'',
                     fi_Action =
                       (if sv_gave_up entry then ''fix the crash loop, then redeploy or restart '' @ sv_name entry
                        else ''redeploy or restart '' @ sv_name entry @ '' after fixing its health check failure'')\<rparr>
                | StatusOrphaned \<Rightarrow> diag_add r
                    \<lparr>fi_Code = CodeInvalidConfig, fi_Severity = ''error'', fi_Scope = ''service'', fi_Field = ''binary_path'',
                     fi_Message = ''binary no longer exists on disk: '' @ sv_binary_path entry,
                     fi_Action = ''rebuild and redeploy, or remove '' @ sv_name entry @ '' from the registry''\<rparr>
                | _ \<Rightarrow> r)))"

section \<open>A repository\<close>

definition classifyDoctorIssue :: "doctor_issue \<Rightarrow> code" where
  "classifyDoctorIssue iss =
     (if di_Field iss = ''port'' \<or> prefix ''ports.'' (di_Field iss) then CodeConflict
      else if di_Field iss = ''status'' then CodeReadinessFailure
      else CodeInvalidConfig)"

definition config_findings :: "config_result \<Rightarrow> finding list" where
  "config_findings cfg =
     (if cr_ParseError cfg \<noteq> ''''
      then [\<lparr>fi_Code = CodeInvalidConfig, fi_Severity = ''error'', fi_Scope = cr_ConfigFile cfg, fi_Field = ''config'',
             fi_Message = cr_ParseError cfg, fi_Action = ''fix the config file and rerun diagnosis''\<rparr>]
      else []) @
     map (\<lambda>iss. \<lparr>fi_Code = classifyDoctorIssue iss, fi_Severity = di_Severity iss, fi_Scope = cr_ConfigFile cfg,
                  fi_Field = di_Field iss, fi_Message = di_Message iss, fi_Action = di_Action iss\<rparr>) (cr_Issues cfg)"

definition diagnoseRepo :: "doctor_env \<Rightarrow> diag_result \<Rightarrow> string \<Rightarrow> status_fetcher option \<Rightarrow> diag_result" where
  "diagnoseRepo E result repoPath svc =
     (case doctor_Check E (case go_abs (dc_getwd E) repoPath of Inl _ \<Rightarrow> repoPath | Inr a \<Rightarrow> a) svc of
        Inl e \<Rightarrow> diag_add result
          \<lparr>fi_Code = CodeInvalidConfig, fi_Severity = ''error'', fi_Scope = ''repo'', fi_Field = '''',
           fi_Message = err_text e, fi_Action = ''run anito setup or correct the .anito config files''\<rparr>
      | Inr report \<Rightarrow> foldl diag_add result (concat (map config_findings (dt_Configs report))))"

section \<open>The diagnosis\<close>

definition diagnosis_Run :: "doctor_env \<Rightarrow> diag_request \<Rightarrow> status_fetcher option \<Rightarrow> err + diag_result" where
  "diagnosis_Run E req0 svc =
     (let req = req0\<lparr>dq_ServiceName := trim_space (dq_ServiceName req0), dq_RepoPath := trim_space (dq_RepoPath req0)\<rparr> in
      if dq_ServiceName req = '''' \<and> dq_RepoPath req = ''''
      then Inl (InvalidConfigf ''diagnosis requires service_name or repo_path'' [])
      else
        (let r0 = \<lparr>dg_Request = req, dg_Healthy = True, dg_Errors = 0, dg_Warnings = 0, dg_Findings = [], dg_Service = None\<rparr>;
             r1 = (if dq_ServiceName req \<noteq> '''' then diagnoseService r0 (dq_ServiceName req) svc else r0);
             r2 = (if dq_RepoPath req \<noteq> '''' then diagnoseRepo E r1 (dq_RepoPath req) svc else r1)
         in Inr (r2\<lparr>dg_Healthy := (dg_Errors r2 = 0)\<rparr>)))"

text \<open>The service layer asks it about itself.\<close>

definition Diagnose :: "doctor_env \<Rightarrow> outside \<Rightarrow> diag_request \<Rightarrow> world \<Rightarrow> err + diag_result" where
  "Diagnose E Eo req w = diagnosis_Run E req (Some (\<lambda>name. ServiceStatus Eo name w))"

section \<open>What a diagnosis says\<close>

definition tallied :: "diag_result \<Rightarrow> bool" where
  "tallied r \<longleftrightarrow> dg_Errors r = length (filter (\<lambda>f. fi_Severity f = ''error'') (dg_Findings r))
     \<and> dg_Warnings r = length (filter (\<lambda>f. fi_Severity f = ''warning'') (dg_Findings r))
     \<and> (\<forall>f \<in> set (dg_Findings r). fi_Message f \<in> range Redact \<and> fi_Action f \<in> range Redact)"

lemma tallied_add: "tallied r \<Longrightarrow> tallied (diag_add r f)"
  by (auto simp: tallied_def diag_add_def Let_def)

lemma tallied_foldl: "tallied r \<Longrightarrow> tallied (foldl diag_add r fs)"
  by (induction fs arbitrary: r) (auto intro: tallied_add)

lemma tallied_service: "tallied r \<Longrightarrow> tallied (diagnoseService r name svc)"
proof -
  assume "tallied r"
  moreover from this have "tallied (r\<lparr>dg_Service := x\<rparr>)" for x by (simp add: tallied_def)
  ultimately show ?thesis
    by (auto simp: diagnoseService_def Let_def intro: tallied_add split: option.split sum.split service_status.split)
qed

lemma tallied_repo: "tallied r \<Longrightarrow> tallied (diagnoseRepo E r path svc)"
  by (auto simp: diagnoseRepo_def intro: tallied_add tallied_foldl split: sum.split)

lemma diag_add_grows: "dg_Errors r \<le> dg_Errors (diag_add r f)"
  by (simp add: diag_add_def Let_def)

lemma foldl_diag_grows: "dg_Errors r \<le> dg_Errors (foldl diag_add r fs)"
  by (induction fs arbitrary: r) (auto intro: le_trans [OF diag_add_grows])

lemma diagnoseRepo_grows: "dg_Errors r \<le> dg_Errors (diagnoseRepo E r path svc)"
  by (auto simp: diagnoseRepo_def diag_add_grows foldl_diag_grows split: sum.split)

text \<open>A diagnosis counts what it lists: it is healthy exactly when no finding is an error, its totals are
  the numbers of its findings, and every text in it is redacted; a service that is asked for and is
  unknown, failed or orphaned makes it unhealthy.\<close>

theorem diagnosis_counts:
  assumes "diagnosis_Run E req svc = Inr r"
  shows "(dg_Healthy r \<longleftrightarrow> (\<forall>f \<in> set (dg_Findings r). fi_Severity f \<noteq> ''error''))
    \<and> dg_Errors r = length (filter (\<lambda>f. fi_Severity f = ''error'') (dg_Findings r))
    \<and> dg_Warnings r = length (filter (\<lambda>f. fi_Severity f = ''warning'') (dg_Findings r))
    \<and> (\<forall>f \<in> set (dg_Findings r). fi_Message f \<in> range Redact \<and> fi_Action f \<in> range Redact)
    \<and> (\<forall>status. svc = Some status \<and> trim_space (dq_ServiceName req) \<noteq> '''' \<and> dg_Healthy r \<longrightarrow>
         (\<exists>entry. status (trim_space (dq_ServiceName req)) = Inr entry
            \<and> sv_status entry \<notin> {StatusFailed, StatusOrphaned}))"
proof -
  let ?name = "trim_space (dq_ServiceName req)"
  define rq where "rq = req\<lparr>dq_ServiceName := ?name, dq_RepoPath := trim_space (dq_RepoPath req)\<rparr>"
  define r0 where "r0 = \<lparr>dg_Request = rq, dg_Healthy = True, dg_Errors = 0, dg_Warnings = 0, dg_Findings = [],
    dg_Service = None\<rparr>"
  define r1 where "r1 = (if ?name \<noteq> '''' then diagnoseService r0 ?name svc else r0)"
  define r2 where "r2 = (if dq_RepoPath rq \<noteq> '''' then diagnoseRepo E r1 (dq_RepoPath rq) svc else r1)"
  have r: "r = r2\<lparr>dg_Healthy := (dg_Errors r2 = 0)\<rparr>"
    using assms by (simp add: diagnosis_Run_def Let_def r2_def r1_def r0_def rq_def split: if_splits)
  have "tallied r0" by (simp add: tallied_def r0_def)
  then have t: "tallied r2" by (simp add: r2_def r1_def tallied_service tallied_repo)
  have "dg_Errors r1 \<le> dg_Errors r2" by (simp add: r2_def diagnoseRepo_grows)
  moreover have "\<exists>entry. status ?name = Inr entry \<and> sv_status entry \<notin> {StatusFailed, StatusOrphaned}"
    if "svc = Some status" "?name \<noteq> ''''" "dg_Errors r1 = 0" for status
    using that by (cases "status ?name")
      (auto simp: r1_def diagnoseService_def diag_add_def Let_def split: option.splits service_status.splits)
  ultimately show ?thesis
    using t by (auto simp: r tallied_def filter_empty_conv)
qed

theorem diagnosis_counts_witness:
  "\<exists>r. diagnosis_Run (demo_doctor 200) \<lparr>dq_ServiceName = '' api'', dq_RepoPath = ''''\<rparr>
          (Some (\<lambda>_. Inl (MissingServicef ''gone'' []))) = Inr r \<and> \<not> dg_Healthy r"
proof -
  have name: "trim_space '' api'' = ''api''" by code_simp
  then obtain r where run: "diagnosis_Run (demo_doctor 200) \<lparr>dq_ServiceName = '' api'', dq_RepoPath = ''''\<rparr>
          (Some (\<lambda>_. Inl (MissingServicef ''gone'' []))) = Inr r"
    by (simp add: diagnosis_Run_def Let_def)
  from diagnosis_counts [OF this] run name show ?thesis by auto
qed

end
