(* ===== verification/Mcp.thy ===== *)
theory Mcp
  imports Daemon Diagnosis Setup_Ports
begin

text \<open>
  \<^verbatim>\<open>internal/mcp/mcp.go\<close>: the tools of the MCP server. A tool call is a value of \<open>mcp_call\<close>, the
  input the SDK has decoded; each handler translates it into calls of the service layer and answers with
  a view of their results. Clocks, disks, log files and the encoder of logged inputs answer through
  \<open>mcp_env\<close>. What is only printed to the log is left out.
\<close>

section \<open>Inputs\<close>

text \<open>Arguments and watch paths tell an omitted list from an empty one.\<close>

record deploy_input =
  mi_Name :: string
  mi_Version :: string
  mi_VersionPath :: string
  mi_Path :: string
  mi_Args :: "string list option"
  mi_StablePort :: int
  mi_StablePorts :: ports
  mi_ProxyBindAddress :: string
  mi_HealthCheckPort :: string
  mi_Type :: string
  mi_EnvFile :: string
  mi_HealthCheck :: string
  mi_WatchPaths :: "string list option"
  mi_DrainWindow :: string
  mi_HealthCheckTimeout :: string
  mi_RestartPolicy :: string
  mi_ConfigPath :: string
  mi_ReplaceConfig :: bool

record coordinate_svc =
  mc_Name :: string
  mc_Path :: string
  mc_PreferredPort :: int

record coordinate_rel =
  mr_From :: string
  mr_To :: string
  mr_ProxyPath :: string

record setup_input =
  ms_Path :: string
  ms_Apply :: bool
  ms_Services :: "coordinate_svc list"
  ms_Relationships :: "coordinate_rel list"

record reserve_input =
  mv_Name :: string
  mv_PreferredPort :: int
  mv_PreferredPorts :: ports

record report_input =
  mp_Error :: string
  mp_Source :: string
  mp_Tool :: string
  mp_Context :: string
  mp_RepoPath :: string
  mp_Severity :: string

datatype mcp_call =
    CallDeploy deploy_input
  | CallIssueAcknowledge string string
  | CallIssueResolve string string string
  | CallIssueReopen string string
  | CallArchive string
  | CallRestoreArchived string
  | CallPrune string bool
  | CallServices
  | CallStatus string
  | CallLogs string int
  | CallRestart string
  | CallRollback string
  | CallStop string
  | CallRemove string
  | CallReserve reserve_input
  | CallSetup setup_input
  | CallDoctor string
  | CallDiagnose string string
  | CallIssues int string
  | CallTeardown string
  | CallReport report_input
  | CallSubmitCaseStudy case_study

fun tool_name :: "mcp_call \<Rightarrow> string" where
  "tool_name (CallDeploy i) = ''anito_deploy''"
| "tool_name (CallIssueAcknowledge ID actor) = ''anito_issue_acknowledge''"
| "tool_name (CallIssueResolve ID actor url) = ''anito_issue_resolve''"
| "tool_name (CallIssueReopen ID actor) = ''anito_issue_reopen''"
| "tool_name (CallArchive name) = ''anito_archive''"
| "tool_name (CallRestoreArchived name) = ''anito_restore_archived''"
| "tool_name (CallPrune name confirm) = ''anito_prune''"
| "tool_name CallServices = ''anito_services''"
| "tool_name (CallStatus name) = ''anito_status''"
| "tool_name (CallLogs name n) = ''anito_logs''"
| "tool_name (CallRestart name) = ''anito_restart''"
| "tool_name (CallRollback name) = ''anito_rollback''"
| "tool_name (CallStop name) = ''anito_stop''"
| "tool_name (CallRemove name) = ''anito_remove''"
| "tool_name (CallReserve i) = ''anito_reserve''"
| "tool_name (CallSetup i) = ''anito_setup''"
| "tool_name (CallDoctor path) = ''anito_doctor''"
| "tool_name (CallDiagnose name repo) = ''anito_diagnose''"
| "tool_name (CallIssues n source) = ''anito_issues''"
| "tool_name (CallTeardown repo) = ''anito_teardown''"
| "tool_name (CallReport i) = ''anito_report''"
| "tool_name (CallSubmitCaseStudy req) = ''anito_submit_case_study''"

section \<open>Outputs\<close>

record service_view =
  vw_Name :: string
  vw_Version :: string
  vw_Type :: string
  vw_StablePort :: int
  vw_PinnedAddress :: string
  vw_StablePorts :: ports
  vw_PinnedAddresses :: "string gomap"
  vw_ProxyBindAddress :: string
  vw_InternalPort :: int
  vw_InternalPorts :: ports
  vw_HealthCheckPort :: string
  vw_HealthCheck :: string
  vw_HealthCheckTimeout :: string
  vw_DrainWindow :: string
  vw_WatchPaths :: "string list"
  vw_RestartPolicy :: string
  vw_Status :: service_status
  vw_PID :: int
  vw_CrashAttempts :: int
  vw_GaveUp :: bool
  vw_BinaryPath :: string
  vw_Args :: "string list"
  vw_EnvFile :: string
  vw_ConfigPath :: string
  vw_DeployedAt :: int
  vw_UpdatedAt :: int
  vw_LastDeployedAt :: int
  vw_LastStartedAt :: int
  vw_StartHistory :: "start_event list"

definition durationString :: "int \<Rightarrow> string" where
  "durationString d = (if d = 0 then '''' else duration_text d)"

definition toView :: "service \<Rightarrow> service_view" where
  "toView svc =
     \<lparr>vw_Name = sv_name svc, vw_Version = sv_version svc, vw_Type = type_text (sv_type svc),
      vw_StablePort = sv_stable_port svc, vw_PinnedAddress = Address svc,
      vw_StablePorts = (if sv_stable_ports svc \<noteq> [] then sv_stable_ports svc else []),
      vw_PinnedAddresses = map (\<lambda>(name, port). (name, AddressFor (sv_proxy_bind_address svc) port)) (sv_stable_ports svc),
      vw_ProxyBindAddress = sv_proxy_bind_address svc, vw_InternalPort = sv_internal_port svc,
      vw_InternalPorts = (if sv_internal_ports svc \<noteq> [] then sv_internal_ports svc else []),
      vw_HealthCheckPort = sv_health_check_port svc, vw_HealthCheck = sv_health_check svc,
      vw_HealthCheckTimeout = durationString (sv_health_check_timeout svc),
      vw_DrainWindow = durationString (sv_drain_window svc), vw_WatchPaths = sv_watch_paths svc,
      vw_RestartPolicy = sv_restart_policy svc, vw_Status = sv_status svc, vw_PID = sv_pid svc,
      vw_CrashAttempts = sv_crash_attempts svc, vw_GaveUp = sv_gave_up svc, vw_BinaryPath = sv_binary_path svc,
      vw_Args = sv_args svc, vw_EnvFile = sv_env_file svc, vw_ConfigPath = sv_config_path svc,
      vw_DeployedAt = sv_deployed_at svc, vw_UpdatedAt = sv_updated_at svc,
      vw_LastDeployedAt = sv_last_deployed_at svc, vw_LastStartedAt = sv_last_started_at svc,
      vw_StartHistory = sv_start_history svc\<rparr>"

record reserve_output =
  ro_Name :: string
  ro_StablePort :: int
  ro_Address :: string
  ro_StablePorts :: ports
  ro_Addresses :: "string gomap"

record issue_view =
  iv_ID :: string
  iv_Timestamp :: int
  iv_Source :: string
  iv_Tool :: string
  iv_Input :: string
  iv_Error :: string
  iv_Context :: string
  iv_RepoPath :: string
  iv_Severity :: string
  iv_State :: issue_state
  iv_FirstSeen :: int
  iv_LastSeen :: int
  iv_OccurrenceCount :: nat
  iv_AcknowledgedAt :: "int option"
  iv_ResolvedAt :: "int option"
  iv_TrackerURL :: string

definition issueToView :: "issue \<Rightarrow> issue_view" where
  "issueToView i =
     \<lparr>iv_ID = is_ID i, iv_Timestamp = is_Timestamp i, iv_Source = is_Source i, iv_Tool = is_Tool i,
      iv_Input = is_Input i, iv_Error = is_Error i, iv_Context = is_Context i, iv_RepoPath = is_RepoPath i,
      iv_Severity = is_Severity i, iv_State = is_State i, iv_FirstSeen = is_FirstSeen i, iv_LastSeen = is_LastSeen i,
      iv_OccurrenceCount = is_OccurrenceCount i, iv_AcknowledgedAt = is_AcknowledgedAt i,
      iv_ResolvedAt = is_ResolvedAt i, iv_TrackerURL = is_TrackerURL i\<rparr>"

text \<open>The mode of a setup result is empty for no plan.\<close>

record setup_result =
  sr_Mode :: "plan_mode option"
  sr_RepoPath :: string
  sr_ServiceName :: string
  sr_Language :: string
  sr_HasAnitoConfig :: bool
  sr_HasPORT :: bool
  sr_HasHealthRoute :: bool
  sr_Issues :: "setup_issue list"
  sr_Allocations :: ports
  sr_GeneratedFiles :: "generated_file list"
  sr_SourcePatches :: "source_patch list"
  sr_Instructions :: "string list"
  sr_Applied :: bool
  sr_AppliedFiles :: "string list"
  sr_AppliedPatches :: "string list"
  sr_UnappliedPatches :: "string list"

definition no_setup_result :: setup_result where
  "no_setup_result =
     \<lparr>sr_Mode = None, sr_RepoPath = '''', sr_ServiceName = '''', sr_Language = '''', sr_HasAnitoConfig = False,
      sr_HasPORT = False, sr_HasHealthRoute = False, sr_Issues = [], sr_Allocations = [], sr_GeneratedFiles = [],
      sr_SourcePatches = [], sr_Instructions = [], sr_Applied = False, sr_AppliedFiles = [], sr_AppliedPatches = [],
      sr_UnappliedPatches = []\<rparr>"

definition toSetupResult :: "plan option \<Rightarrow> apply_result option \<Rightarrow> setup_result" where
  "toSetupResult po ao =
     (case po of
        None \<Rightarrow> no_setup_result
      | Some p \<Rightarrow>
          (let out = no_setup_result
             \<lparr>sr_Mode := Some (pl_Mode p), sr_RepoPath := pl_RepoPath p, sr_ServiceName := pl_ServiceName p,
              sr_Language := language_text (pl_Language p), sr_HasAnitoConfig := pl_HasAnitoConfig p,
              sr_HasPORT := pl_HasPORT p, sr_HasHealthRoute := pl_HasHealthRoute p, sr_Issues := pl_Issues p,
              sr_Allocations := pl_Allocations p, sr_GeneratedFiles := pl_GeneratedFiles p,
              sr_SourcePatches := pl_SourcePatches p, sr_Instructions := pl_Instructions p\<rparr>
           in case ao of
                None \<Rightarrow> out
              | Some a \<Rightarrow> out\<lparr>sr_Applied := ar_Applied a, sr_AppliedFiles := ar_AppliedFiles a,
                                sr_AppliedPatches := ar_AppliedPatches a, sr_UnappliedPatches := ar_UnappliedPatches a\<rparr>))"

definition toSetupPlanRequest :: "setup_input \<Rightarrow> plan_request" where
  "toSetupPlanRequest i =
     \<lparr>pr_Path = ms_Path i,
      pr_Services = map (\<lambda>s. \<lparr>ss_Name = mc_Name s, ss_Path = mc_Path s, ss_PreferredPort = mc_PreferredPort s,
                               ss_Language = NoLanguage, ss_Framework = ''''\<rparr>) (ms_Services i),
      pr_Relationships = map (\<lambda>r. \<lparr>rl_From = mr_From r, rl_To = mr_To r, rl_ProxyPath = mr_ProxyPath r\<rparr>)
                           (ms_Relationships i)\<rparr>"

datatype mcp_output =
    OutService service_view
  | OutServices "service_view list"
  | OutIssue string issue_view
  | OutTombstone tombstone
  | OutLogs string "string list"
  | OutOp string string
  | OutReserve reserve_output
  | OutSetup setup_result
  | OutDoctor "config_result list" nat nat bool
  | OutDiagnosis diag_result
  | OutIssues "issue_view list"
  | OutRemoved "string list" nat
  | OutReport string string
  | OutStudy string string string

text \<open>A tool answers, fails, or panics on a nil pointer.\<close>

datatype tool_reply = ToolOk mcp_output | ToolErr err | ToolPanic

section \<open>What answers from outside\<close>

record mcp_env =
  me_issue :: issue_env
  me_disk :: issue_disk
  me_now :: "nat \<Rightarrow> int"
  me_session_disk :: "err option"
  me_files :: "string \<Rightarrow> (err + string) option"
  me_doctor :: doctor_env
  me_repo :: repo_env
  me_setup :: fs_env
  me_study :: study_env
  me_marshal :: "mcp_call \<Rightarrow> string option"

definition tool_issue :: "mcp_env \<Rightarrow> mcp_call \<Rightarrow> err \<Rightarrow> issue" where
  "tool_issue M call e =
     zero_issue\<lparr>is_Source := ''mcp:'' @ tool_name call, is_Tool := tool_name call,
       is_Input := (case me_marshal M call of Some text \<Rightarrow> text | None \<Rightarrow> ''''),
       is_Error := Redact (err_text e), is_Severity := ''error''\<rparr>"

definition logErr :: "mcp_env \<Rightarrow> mcp_call \<Rightarrow> err \<Rightarrow> daemon \<Rightarrow> daemon" where
  "logErr M call e d = log_issue (me_issue M) (me_disk M) (tool_issue M call e) d"

text \<open>Answers for the result of an operation, without and with logging a failure.\<close>

definition tool_result :: "('a \<Rightarrow> mcp_output) \<Rightarrow> ('a, daemon) res \<Rightarrow> tool_reply \<times> daemon" where
  "tool_result out r = (case r of (Inl e, d) \<Rightarrow> (ToolErr e, d) | (Inr x, d) \<Rightarrow> (ToolOk (out x), d))"

definition logged_result ::
    "mcp_env \<Rightarrow> mcp_call \<Rightarrow> ('a \<Rightarrow> tool_reply) \<Rightarrow> ('a, daemon) res \<Rightarrow> tool_reply \<times> daemon" where
  "logged_result M call out r =
     (case r of (Inl e, d) \<Rightarrow> (ToolErr e, logErr M call e d) | (Inr x, d) \<Rightarrow> (out x, d))"

definition view_of :: "service option \<Rightarrow> tool_reply" where
  "view_of so = (case so of None \<Rightarrow> ToolPanic | Some svc \<Rightarrow> ToolOk (OutService (toView svc)))"

section \<open>Deploying\<close>

definition type_of_text :: "string \<Rightarrow> service_type" where
  "type_of_text s = (if s = ''binary'' then TypeBinary else if s = ''static'' then TypeStatic else TypeOther s)"

text \<open>A redeploy keeps the registered configuration for the fields that are omitted.\<close>

definition mergeDeployInput :: "deploy_input \<Rightarrow> service option \<Rightarrow> deploy_input" where
  "mergeDeployInput i existing =
     (case existing of
        None \<Rightarrow> i
      | Some svc \<Rightarrow>
          if mi_ReplaceConfig i then i
          else i\<lparr>
            mi_Type := (if mi_Type i = '''' then type_text (sv_type svc) else mi_Type i),
            mi_Args := (if mi_Args i = None then Some (sv_args svc) else mi_Args i),
            mi_ProxyBindAddress := or_else (mi_ProxyBindAddress i) (sv_proxy_bind_address svc),
            mi_HealthCheckPort := or_else (mi_HealthCheckPort i) (sv_health_check_port svc),
            mi_EnvFile := or_else (mi_EnvFile i) (sv_env_file svc),
            mi_HealthCheck := or_else (mi_HealthCheck i) (sv_health_check svc),
            mi_WatchPaths := (if mi_WatchPaths i = None then Some (sv_watch_paths svc) else mi_WatchPaths i),
            mi_DrainWindow := or_else (mi_DrainWindow i) (durationString (sv_drain_window svc)),
            mi_HealthCheckTimeout := or_else (mi_HealthCheckTimeout i) (durationString (sv_health_check_timeout svc)),
            mi_RestartPolicy := or_else (mi_RestartPolicy i) (sv_restart_policy svc),
            mi_ConfigPath := or_else (mi_ConfigPath i) (sv_config_path svc)\<rparr>)"

definition list_of :: "string list option \<Rightarrow> string list" where
  "list_of l = (case l of None \<Rightarrow> [] | Some xs \<Rightarrow> xs)"

definition input_request :: "deploy_input \<Rightarrow> int \<Rightarrow> int \<Rightarrow> deploy_request" where
  "input_request i drainWindow hcTimeout =
     \<lparr>dr_Name = mi_Name i, dr_Version = mi_Version i, dr_VersionPath = mi_VersionPath i,
      dr_Type = type_of_text (mi_Type i), dr_Path = mi_Path i, dr_Args = list_of (mi_Args i),
      dr_StablePort = mi_StablePort i, dr_StablePorts = mi_StablePorts i,
      dr_ProxyBindAddress = mi_ProxyBindAddress i, dr_HealthCheckPort = mi_HealthCheckPort i,
      dr_EnvFile = mi_EnvFile i, dr_HealthCheck = mi_HealthCheck i, dr_WatchPaths = list_of (mi_WatchPaths i),
      dr_DrainWindow = drainWindow, dr_HealthCheckTimeout = hcTimeout, dr_RestartPolicy = mi_RestartPolicy i,
      dr_ConfigPath = mi_ConfigPath i\<rparr>"

text \<open>The request that reaches the service layer, or the error of a duration that does not parse.\<close>

definition tool_request :: "outside \<Rightarrow> deploy_input \<Rightarrow> world \<Rightarrow> deploy_input \<times> (err + deploy_request)" where
  "tool_request E i0 w =
     (let i = (case ServiceStatus E (mi_Name i0) w of
                 Inl e \<Rightarrow> i0
               | Inr existing \<Rightarrow> mergeDeployInput i0 (Some existing)) in
      (i, case parse_window (mi_DrainWindow i) bad_drain_window of
            Inl e \<Rightarrow> Inl e
          | Inr drainWindow \<Rightarrow>
              (case parse_window (mi_HealthCheckTimeout i) bad_timeout of
                 Inl e \<Rightarrow> Inl e
               | Inr hcTimeout \<Rightarrow> Inr (input_request i drainWindow hcTimeout))))"

definition tool_deploy :: "outside \<Rightarrow> mcp_env \<Rightarrow> deploy_input \<Rightarrow> daemon \<Rightarrow> tool_reply \<times> daemon" where
  "tool_deploy E M i0 d =
     (case tool_request E i0 (dm_world d) of
        (i, Inl e) \<Rightarrow> (ToolErr e, d)
      | (i, Inr req) \<Rightarrow> logged_result M (CallDeploy i) view_of (svc_do (Deploy E req) d))"

section \<open>Other tools\<close>

definition tool_issue_change ::
    "string \<Rightarrow> (issue_store \<Rightarrow> (issue, issue_store) res) \<Rightarrow> daemon \<Rightarrow> tool_reply \<times> daemon" where
  "tool_issue_change status f d =
     (case dm_issues d of
        None \<Rightarrow> (ToolPanic, d)
      | Some s \<Rightarrow>
          (case f s of
             (Inl e, s1) \<Rightarrow> (ToolErr e, d\<lparr>dm_issues := Some s1\<rparr>)
           | (Inr i, s1) \<Rightarrow> (ToolOk (OutIssue status (issueToView i)), d\<lparr>dm_issues := Some s1\<rparr>)))"

definition tool_prune :: "outside \<Rightarrow> string \<Rightarrow> bool \<Rightarrow> daemon \<Rightarrow> tool_reply \<times> daemon" where
  "tool_prune E name confirm d =
     (if \<not> confirm then (ToolErr (Conflictf ''prune requires confirm=true'' []), d)
      else tool_result OutTombstone (svc_do (ServicePrune E name) d))"

definition tool_logs :: "outside \<Rightarrow> mcp_env \<Rightarrow> string \<Rightarrow> int \<Rightarrow> daemon \<Rightarrow> tool_reply \<times> daemon" where
  "tool_logs E M name n d =
     (let n1 = (if n \<le> 0 then 100 else n) in
      tool_result (OutLogs name) (Logs (me_files M) (o_logdir E) (dm_world d) name n1, d))"

definition tool_restart :: "outside \<Rightarrow> mcp_env \<Rightarrow> string \<Rightarrow> daemon \<Rightarrow> tool_reply \<times> daemon" where
  "tool_restart E M name d =
     (case svc_do (ServiceRestart E name) d of
        (Inl e, d1) \<Rightarrow> (ToolErr e, logErr M (CallRestart name) e d1)
      | (Inr _, d1) \<Rightarrow>
          tool_result (\<lambda>svc. OutService (toView svc)) (ServiceStatus E name (dm_world d1), d1))"

text \<open>The primary port of a multi-port reservation is the one a range over the map gives first.\<close>

definition reserved_ports :: "string \<Rightarrow> ports \<Rightarrow> reserve_output" where
  "reserved_ports name ports =
     (let primary = (case ports of [] \<Rightarrow> (0, '''') | (_, p) # _ \<Rightarrow> (p, AddressFor DefaultProxyBindAddress p)) in
      \<lparr>ro_Name = name, ro_StablePort = fst primary, ro_Address = snd primary, ro_StablePorts = ports,
       ro_Addresses = map (\<lambda>(n, p). (n, AddressFor DefaultProxyBindAddress p)) ports\<rparr>)"

definition tool_reserve :: "outside \<Rightarrow> mcp_env \<Rightarrow> reserve_input \<Rightarrow> daemon \<Rightarrow> tool_reply \<times> daemon" where
  "tool_reserve E M i d =
     (if mv_PreferredPorts i \<noteq> []
      then logged_result M (CallReserve i) (\<lambda>ports. ToolOk (OutReserve (reserved_ports (mv_Name i) ports)))
             (svc_do (ReservePorts E (mv_Name i) (mv_PreferredPorts i)) d)
      else logged_result M (CallReserve i)
             (\<lambda>port. ToolOk (OutReserve \<lparr>ro_Name = mv_Name i, ro_StablePort = port,
                ro_Address = AddressFor DefaultProxyBindAddress port, ro_StablePorts = [], ro_Addresses = []\<rparr>))
             (svc_do (Reserve E (mv_Name i) (mv_PreferredPort i)) d))"

text \<open>A dry run, and with \<^verbatim>\<open>apply\<close> the application of its plan.\<close>

definition apply_do :: "fs_env \<Rightarrow> outside \<Rightarrow> plan \<Rightarrow> daemon \<Rightarrow> (apply_result, daemon) res" where
  "apply_do F E p d =
     (case applySetup F E (Some p) (dm_world d) (dm_fs d) of (x, w, fs) \<Rightarrow> (x, d\<lparr>dm_world := w, dm_fs := fs\<rparr>))"

definition tool_setup :: "outside \<Rightarrow> mcp_env \<Rightarrow> setup_input \<Rightarrow> daemon \<Rightarrow> tool_reply \<times> daemon" where
  "tool_setup E M i d =
     (case DryRun (me_repo M) (toSetupPlanRequest i) (Some (setupCatalog E (dm_world d))) of
        Inl e \<Rightarrow> (ToolErr e, d)
      | Inr p \<Rightarrow>
          if ms_Apply i
          then logged_result M (CallSetup i) (\<lambda>a. ToolOk (OutSetup (toSetupResult (Some (ar_Plan a)) (Some a))))
                 (apply_do (me_setup M) E p d)
          else (ToolOk (OutSetup (toSetupResult (Some p) None)), d))"

definition tool_doctor :: "outside \<Rightarrow> mcp_env \<Rightarrow> string \<Rightarrow> daemon \<Rightarrow> tool_reply \<times> daemon" where
  "tool_doctor E M path d =
     logged_result M (CallDoctor path)
       (\<lambda>r. ToolOk (OutDoctor (dt_Configs r) (dt_Errors r) (dt_Warnings r) (dt_Healthy r)))
       (doctor_Check (me_doctor M) path (Some (\<lambda>name. ServiceStatus E name (dm_world d))), d)"

definition tool_diagnose :: "outside \<Rightarrow> mcp_env \<Rightarrow> string \<Rightarrow> string \<Rightarrow> daemon \<Rightarrow> tool_reply \<times> daemon" where
  "tool_diagnose E M name repo d =
     logged_result M (CallDiagnose name repo) (\<lambda>r. ToolOk (OutDiagnosis r))
       (Diagnose (me_doctor M) E \<lparr>dq_ServiceName = name, dq_RepoPath = repo\<rparr> (dm_world d), d)"

definition tool_issues :: "mcp_env \<Rightarrow> int \<Rightarrow> string \<Rightarrow> daemon \<Rightarrow> tool_reply \<times> daemon" where
  "tool_issues M n source d =
     (case dm_issues d of
        None \<Rightarrow> (ToolPanic, d)
      | Some s \<Rightarrow>
          (case IssueRecent (me_issue M) (if n \<le> 0 then 20 else n) source s of
             (Inl e, s1) \<Rightarrow> (ToolErr e, d\<lparr>dm_issues := Some s1\<rparr>)
           | (Inr ls, s1) \<Rightarrow> (ToolOk (OutIssues (map issueToView ls)), d\<lparr>dm_issues := Some s1\<rparr>)))"

definition tool_teardown :: "outside \<Rightarrow> mcp_env \<Rightarrow> string \<Rightarrow> daemon \<Rightarrow> tool_reply \<times> daemon" where
  "tool_teardown E M repo d =
     (if repo = '''' then (ToolErr (Errorf ''repo_path is required'' []), d)
      else logged_result M (CallTeardown repo) (\<lambda>(gone, kept). ToolOk (OutRemoved gone (length gone)))
             (svc_do (Teardown E repo) d))"

definition report_issue_of :: "report_input \<Rightarrow> issue" where
  "report_issue_of i =
     zero_issue\<lparr>is_Source := or_else (mp_Source i) ''consumer:unknown'', is_Tool := mp_Tool i, is_Error := mp_Error i,
       is_Context := mp_Context i, is_RepoPath := mp_RepoPath i, is_Severity := or_else (mp_Severity i) ''error''\<rparr>"

text \<open>The store is read again for the identifier of the report.\<close>

definition tool_report :: "mcp_env \<Rightarrow> report_input \<Rightarrow> daemon \<Rightarrow> tool_reply \<times> daemon" where
  "tool_report M i d =
     (if mp_Error i = '''' then (ToolErr (Errorf ''error field is required'' []), d)
      else case dm_issues d of
        None \<Rightarrow> (ToolPanic, d)
      | Some s \<Rightarrow>
          (case IssueAppend (me_issue M) (me_disk M) (report_issue_of i) s of
             (Inl e, s1) \<Rightarrow> (ToolErr e, d\<lparr>dm_issues := Some s1\<rparr>)
           | (Inr _, s1) \<Rightarrow>
               (case IssueRecent (me_issue M) 1 (is_Source (report_issue_of i)) s1 of
                  (recent, s2) \<Rightarrow>
                    (ToolOk (OutReport
                       (case recent of Inr ls \<Rightarrow> if ls = [] then '''' else is_ID (last ls) | Inl _ \<Rightarrow> '''') ''logged''),
                     d\<lparr>dm_issues := Some s2\<rparr>))))"

definition tool_case_study :: "outside \<Rightarrow> mcp_env \<Rightarrow> case_study \<Rightarrow> daemon \<Rightarrow> tool_reply \<times> daemon" where
  "tool_case_study E M req d =
     logged_result M (CallSubmitCaseStudy req)
       (\<lambda>path. ToolOk (OutStudy ''received'' path ''Draft saved. The maintainer will review and publish when ready.''))
       (case SubmitCaseStudy (me_study M) (o_logdir E) req (dm_studies d) of (x, files) \<Rightarrow> (x, d\<lparr>dm_studies := files\<rparr>))"

section \<open>A tool call\<close>

fun run_tool :: "outside \<Rightarrow> mcp_env \<Rightarrow> mcp_call \<Rightarrow> daemon \<Rightarrow> tool_reply \<times> daemon" where
  "run_tool E M (CallDeploy i) d = tool_deploy E M i d"
| "run_tool E M (CallIssueAcknowledge ID actor) d =
     tool_issue_change ''acknowledged'' (IssueAcknowledge (me_issue M) (me_disk M) ID actor) d"
| "run_tool E M (CallIssueResolve ID actor url) d =
     tool_issue_change ''resolved'' (IssueResolve (me_issue M) (me_disk M) ID actor url) d"
| "run_tool E M (CallIssueReopen ID actor) d =
     tool_issue_change ''reopened'' (IssueReopen (me_issue M) (me_disk M) ID actor) d"
| "run_tool E M (CallArchive name) d = tool_result (\<lambda>s. OutService (toView s)) (svc_do (ServiceArchive E name) d)"
| "run_tool E M (CallRestoreArchived name) d =
     tool_result (\<lambda>s. OutService (toView s)) (svc_do (ServiceRestoreArchived E name) d)"
| "run_tool E M (CallPrune name confirm) d = tool_prune E name confirm d"
| "run_tool E M CallServices d = (ToolOk (OutServices (map toView (Services E (dm_world d)))), d)"
| "run_tool E M (CallStatus name) d =
     tool_result (\<lambda>s. OutService (toView s)) (ServiceStatus E name (dm_world d), d)"
| "run_tool E M (CallLogs name n) d = tool_logs E M name n d"
| "run_tool E M (CallRestart name) d = tool_restart E M name d"
| "run_tool E M (CallRollback name) d = logged_result M (CallRollback name) view_of (svc_do (Rollback E name) d)"
| "run_tool E M (CallStop name) d = tool_result (\<lambda>_. OutOp ''stopped'' name) (svc_do (ServiceStop E name) d)"
| "run_tool E M (CallRemove name) d = tool_result (\<lambda>_. OutOp ''removed'' name) (svc_do (ServiceRemove E name) d)"
| "run_tool E M (CallReserve i) d = tool_reserve E M i d"
| "run_tool E M (CallSetup i) d = tool_setup E M i d"
| "run_tool E M (CallDoctor path) d = tool_doctor E M path d"
| "run_tool E M (CallDiagnose name repo) d = tool_diagnose E M name repo d"
| "run_tool E M (CallIssues n source) d = tool_issues M n source d"
| "run_tool E M (CallTeardown repo) d = tool_teardown E M repo d"
| "run_tool E M (CallReport i) d = tool_report M i d"
| "run_tool E M (CallSubmitCaseStudy req) d = tool_case_study E M req d"

fun run_tools :: "outside \<Rightarrow> mcp_env \<Rightarrow> mcp_call list \<Rightarrow> daemon \<Rightarrow> tool_reply list \<times> daemon" where
  "run_tools E M [] d = ([], d)"
| "run_tools E M (c # cs) d =
     (case run_tool E M c d of
        (r, d1) \<Rightarrow> (case run_tools E M cs d1 of (rs, d2) \<Rightarrow> (r # rs, d2)))"

end
