(* ===== verification/Mcp_Http.thy ===== *)
theory Mcp_Http
  imports Mcp
begin

text \<open>
  The HTTP side of \<^verbatim>\<open>internal/mcp/mcp.go\<close>: the bound on a request, the capability check, which looks
  into the JSON-RPC body for the tool that is called, and the record of sessions. JSON values are modelled, and
  how \<^verbatim>\<open>encoding/json\<close> fills a struct from one: keys are matched without regard to case, the last
  one wins, a value of another type is an error in the end. The parser of the text and the MCP SDK are
  parameters: the SDK tells which tool calls it makes for a request, and which session it assigns.
\<close>

section \<open>JSON-RPC bodies\<close>

datatype json =
    JNull
  | JBool bool
  | JNum string
  | JStr string
  | JArr "json list"
  | JObj "(string \<times> json) list"

record rpc_tool_call =
  rpc_Method :: string
  rpc_Name :: string

definition key_matches :: "string \<Rightarrow> string \<Rightarrow> bool" where
  "key_matches field key \<longleftrightarrow> map to_lower key = field"

text \<open>Decoding a value into a string; the Boolean tells that nothing went wrong so far.\<close>

definition into_string :: "json \<Rightarrow> string \<times> bool \<Rightarrow> string \<times> bool" where
  "into_string v st =
     (case v of JStr s \<Rightarrow> (s, snd st) | JNull \<Rightarrow> st | _ \<Rightarrow> (fst st, False))"

definition into_params :: "json \<Rightarrow> string \<times> bool \<Rightarrow> string \<times> bool" where
  "into_params v st =
     (case v of
        JNull \<Rightarrow> st
      | JObj kvs \<Rightarrow> foldl (\<lambda>st (k, v). if key_matches ''name'' k then into_string v st else st) st kvs
      | _ \<Rightarrow> (fst st, False))"

definition rpc_field :: "rpc_tool_call \<times> bool \<Rightarrow> string \<times> json \<Rightarrow> rpc_tool_call \<times> bool" where
  "rpc_field st kv =
     (case (st, kv) of
        ((r, good), (k, v)) \<Rightarrow>
          if key_matches ''method'' k
          then (case into_string v (rpc_Method r, good) of (s, g) \<Rightarrow> (r\<lparr>rpc_Method := s\<rparr>, g))
          else if key_matches ''params'' k
          then (case into_params v (rpc_Name r, good) of (s, g) \<Rightarrow> (r\<lparr>rpc_Name := s\<rparr>, g))
          else st)"

definition no_rpc :: rpc_tool_call where "no_rpc = \<lparr>rpc_Method = '''', rpc_Name = ''''\<rparr>"

definition decode_rpc :: "json \<Rightarrow> rpc_tool_call \<times> bool" where
  "decode_rpc j =
     (case j of
        JNull \<Rightarrow> (no_rpc, True)
      | JObj kvs \<Rightarrow> foldl rpc_field (no_rpc, True) kvs
      | _ \<Rightarrow> (no_rpc, False))"

definition isPrivilegedTool :: "string \<Rightarrow> bool" where
  "isPrivilegedTool name \<longleftrightarrow> name \<in> {''anito_deploy'', ''anito_restart'', ''anito_rollback'', ''anito_stop'',
     ''anito_remove'', ''anito_reserve'', ''anito_setup'', ''anito_teardown'', ''anito_report'',
     ''anito_submit_case_study''}"

definition needsCapability :: "rpc_tool_call \<Rightarrow> bool" where
  "needsCapability r \<longleftrightarrow> rpc_Method r = ''tools/call'' \<and> isPrivilegedTool (rpc_Name r)"

text \<open>The messages of a body as the check reads it: none when it cannot be decoded.\<close>

definition rpc_messages :: "(string \<Rightarrow> json option) \<Rightarrow> string \<Rightarrow> rpc_tool_call list" where
  "rpc_messages parse body0 =
     (let body = trim_space body0 in
      if body = '''' then []
      else if hd body = CHR ''[''
      then (case parse body of
              Some (JArr js) \<Rightarrow>
                if list_all (\<lambda>j. snd (decode_rpc j)) js then map (\<lambda>j. fst (decode_rpc j)) js else []
            | _ \<Rightarrow> [])
      else (case parse body of
              None \<Rightarrow> []
            | Some j \<Rightarrow> if snd (decode_rpc j) then [fst (decode_rpc j)] else []))"

definition rpcBodyNeedsCapability :: "(string \<Rightarrow> json option) \<Rightarrow> string \<Rightarrow> bool" where
  "rpcBodyNeedsCapability parse body \<longleftrightarrow> list_ex needsCapability (rpc_messages parse body)"

section \<open>Requests\<close>

record mcp_request =
  mq_Method :: string
  mq_Header :: "string \<Rightarrow> string"
  mq_Body :: "string option"

record sdk =
  sk_calls :: "mcp_request \<Rightarrow> mcp_call list"
  sk_session :: "mcp_request \<Rightarrow> string"

datatype mcp_reply =
    McpError nat string bool
  | McpReplies "tool_reply list"
  | McpAborted

definition maxMCPRequestBodySize :: nat where "maxMCPRequestBodySize = 1048576"

definition errMCPRequestBodyTooLarge :: err where
  "errMCPRequestBodyTooLarge = IOError ''mcp request body too large''"

definition readMCPInspectionBody :: "string \<Rightarrow> err + string" where
  "readMCPInspectionBody body =
     (if maxMCPRequestBodySize < length body then Inl errMCPRequestBodyTooLarge else Inr body)"

definition requestNeedsCapability :: "(string \<Rightarrow> json option) \<Rightarrow> mcp_request \<Rightarrow> err + bool" where
  "requestNeedsCapability parse q =
     (case mq_Body q of
        None \<Rightarrow> Inr False
      | Some b \<Rightarrow>
          if mq_Method q \<noteq> ''POST'' then Inr False
          else (case readMCPInspectionBody b of
                  Inl e \<Rightarrow> Inl e
                | Inr body \<Rightarrow> Inr (rpcBodyNeedsCapability parse body)))"

definition extractToolName :: "(string \<Rightarrow> json option) \<Rightarrow> mcp_request \<Rightarrow> string" where
  "extractToolName parse q =
     (case mq_Body q of
        None \<Rightarrow> ''''
      | Some b \<Rightarrow>
          (case readMCPInspectionBody b of
             Inl e \<Rightarrow> ''''
           | Inr body \<Rightarrow>
               (case parse body of
                  None \<Rightarrow> ''''
                | Some j \<Rightarrow>
                    if \<not> snd (decode_rpc j) \<or> rpc_Method (fst (decode_rpc j)) \<noteq> ''tools/call'' then ''''
                    else rpc_Name (fst (decode_rpc j)))))"

text \<open>A session that is named is touched before the request is handled, a new one is recorded after it.
  Without a store the request panics.\<close>

definition sessionMiddleware ::
    "(string \<Rightarrow> json option) \<Rightarrow> sdk \<Rightarrow> mcp_env \<Rightarrow> (daemon \<Rightarrow> mcp_reply \<times> daemon) \<Rightarrow> mcp_request \<Rightarrow> daemon
     \<Rightarrow> mcp_reply \<times> daemon" where
  "sessionMiddleware parse K M continue q d =
     (if mq_Header q ''Mcp-Session-Id'' \<noteq> ''''
      then (case dm_sessions d of
              None \<Rightarrow> (McpAborted, d)
            | Some s \<Rightarrow> continue (d\<lparr>dm_sessions := Some (snd (SessionTouch (me_now M) (me_session_disk M)
                                      (mq_Header q ''Mcp-Session-Id'') (extractToolName parse q) s))\<rparr>))
      else (case continue d of
              (r, d1) \<Rightarrow>
                if sk_session K q = '''' then (r, d1)
                else (case dm_sessions d1 of
                        None \<Rightarrow> (McpAborted, d1)
                      | Some s \<Rightarrow> (r, d1\<lparr>dm_sessions := Some (snd (SessionCreate (me_now M) (me_session_disk M)
                                               (sk_session K q) s))\<rparr>))))"

definition mcp_capability ::
    "(string \<Rightarrow> json option) \<Rightarrow> string \<Rightarrow> (mcp_request \<Rightarrow> daemon \<Rightarrow> mcp_reply \<times> daemon) \<Rightarrow> mcp_request \<Rightarrow> daemon
     \<Rightarrow> mcp_reply \<times> daemon" where
  "mcp_capability parse token continue q d =
     (case requestNeedsCapability parse q of
        Inl e \<Rightarrow> (McpError 413 ''mcp request body too large'' False, d)
      | Inr needs \<Rightarrow>
          if \<not> needs then continue q d
          else if Authorized (mq_Header q) token then continue q d
          else (McpError 401 ''anito capability token required'' True, d))"

definition mcp_serve ::
    "(string \<Rightarrow> json option) \<Rightarrow> sdk \<Rightarrow> outside \<Rightarrow> mcp_env \<Rightarrow> string \<Rightarrow> mcp_request \<Rightarrow> daemon \<Rightarrow> mcp_reply \<times> daemon" where
  "mcp_serve parse K E M token =
     mcp_capability parse token
       (\<lambda>q. sessionMiddleware parse K M
          (\<lambda>d. case run_tools E M (sk_calls K q) d of (rs, d1) \<Rightarrow> (McpReplies rs, d1)) q)"

section \<open>What the check reads\<close>

lemma needs_some: "rpcBodyNeedsCapability parse body \<longleftrightarrow> (\<exists>r \<in> set (rpc_messages parse body). needsCapability r)"
  by (simp add: rpcBodyNeedsCapability_def list_ex_iff)

text \<open>Two keys that differ in case: the check reads the last one. A decoder that matches keys exactly reads
  the first, and makes a call the check has let pass.\<close>

lemma case_variant_hides_tool:
  "decode_rpc (JObj [(''method'', JStr ''tools/call''),
      (''params'', JObj [(''name'', JStr ''anito_remove''), (''Name'', JStr ''anito_status'')])])
    = (\<lparr>rpc_Method = ''tools/call'', rpc_Name = ''anito_status''\<rparr>, True)
   \<and> \<not> needsCapability \<lparr>rpc_Method = ''tools/call'', rpc_Name = ''anito_status''\<rparr>"
  by code_simp

end
