(* ===== verification/Server.thy ===== *)
theory Server
  imports Daemon Diagnosis Log_Stream
begin

text \<open>
  \<^verbatim>\<open>internal/server/server.go\<close>: the HTTP management API. A request is routed by
  echo's router, a parameter of the model, passes the capability check and is answered by its handler,
  which translates it into calls of the service layer and their results into a status and a body. Bodies are
  typed: the coding of answers as JSON is left out, the decoding of request bodies answers through
  \<open>request_env\<close>, like clocks, disks and log files. What is only printed to the log is left out.
\<close>

section \<open>Requests and answers\<close>

text \<open>The payload of a deploy request.\<close>

record http_deploy =
  hd_Name :: string
  hd_Version :: string
  hd_VersionPath :: string
  hd_Type :: service_type
  hd_Path :: string
  hd_Args :: "string list"
  hd_StablePort :: int
  hd_StablePorts :: ports
  hd_ProxyBindAddress :: string
  hd_HealthCheckPort :: string
  hd_EnvFile :: string
  hd_HealthCheck :: string
  hd_WatchPaths :: "string list"
  hd_DrainWindow :: string
  hd_HealthCheckTimeout :: string
  hd_RestartPolicy :: string
  hd_ConfigPath :: string

record issue_transition =
  it_Actor :: string
  it_TrackerURL :: string

text \<open>A request: the decoded path, the path as it was sent when that is another encoding of it, the
  query parameters and headers by name, the body. A missing parameter or header is empty.\<close>

record http_request =
  hq_Method :: string
  hq_Path :: string
  hq_RawPath :: string
  hq_Query :: "string \<Rightarrow> string"
  hq_Header :: "string \<Rightarrow> string"
  hq_Body :: string
  hq_ContentLength :: int

record request_env =
  re_issue :: issue_env
  re_disk :: issue_disk
  re_now :: "nat \<Rightarrow> int"
  re_files :: "string \<Rightarrow> (err + string) option"
  re_opened :: "string option"
  re_ticks :: "stream_tick list"
  re_doctor :: doctor_env
  re_deploy_json :: "string \<Rightarrow> http_deploy option"
  re_issue_json :: "string \<Rightarrow> issue option"
  re_teardown_json :: "string \<Rightarrow> string option"
  re_transition_json :: "string \<Rightarrow> issue_transition option"
  re_dist :: "string \<Rightarrow> bool"
  re_index :: "string option"
  re_flusher :: bool

datatype body =
    BodyHealth string startup_state
  | BodyServices "service list"
  | BodyService "service option"
  | BodyOp string string
  | BodyTombstone tombstone
  | BodyLines "string list"
  | BodyEvents string
  | BodyDoctor doctor_result
  | BodyDiagnosis diag_result
  | BodyMetrics metrics
  | BodySessions "session list" nat
  | BodyRemoved "string list" nat
  | BodyIssues "issue list"
  | BodyIssue issue
  | BodyMessage string
  | BodyWire wire_error
  | BodyGate string startup_phase int int
  | BodyAsset string
  | BodyHtml string

record reply =
  rp_status :: nat
  rp_body :: body
  rp_challenge :: bool

definition answer :: "nat \<Rightarrow> body \<Rightarrow> reply" where
  "answer status b = \<lparr>rp_status = status, rp_body = b, rp_challenge = False\<rparr>"

definition NewHTTPError :: "nat \<Rightarrow> string \<Rightarrow> reply" where
  "NewHTTPError status msg = answer status (BodyMessage msg)"

text \<open>A handler that panics is recovered.\<close>

definition recovered :: reply where
  "recovered = NewHTTPError 500 ''Internal Server Error''"

section \<open>Errors as answers\<close>

definition domain_reply :: "err \<Rightarrow> reply" where
  "domain_reply e = answer (domainHTTPStatus e) (BodyWire (ToWire (Some e)))"

definition service_reply :: "err \<Rightarrow> reply" where
  "service_reply e =
     (case gateOf e of
        Some (phase, completed, n) \<Rightarrow>
          answer 409 (BodyGate (err_text (StartupGateError phase completed n)) phase completed n)
      | None \<Rightarrow> if CodeOf e \<noteq> None then domain_reply e else NewHTTPError 500 (err_text e))"

text \<open>An answer for the result of an operation.\<close>

definition respond :: "('a \<Rightarrow> reply) \<Rightarrow> ('a, daemon) res \<Rightarrow> reply \<times> daemon" where
  "respond good r = (case r of (Inl e, d) \<Rightarrow> (service_reply e, d) | (Inr x, d) \<Rightarrow> (good x, d))"

section \<open>The capability check\<close>

definition requiresCapability :: "string \<Rightarrow> string \<Rightarrow> bool" where
  "requiresCapability meth path \<longleftrightarrow>
     meth = ''POST'' \<and> path = ''/deploy''
     \<or> meth = ''POST'' \<and> prefix ''/stop/'' path
     \<or> meth = ''POST'' \<and> prefix ''/restart/'' path
     \<or> meth = ''POST'' \<and> prefix ''/rollback/'' path
     \<or> meth = ''POST'' \<and> prefix ''/remove/'' path
     \<or> meth = ''POST'' \<and> path = ''/issues''
     \<or> meth = ''DELETE'' \<and> path = ''/issues''
     \<or> meth = ''POST'' \<and> path = ''/teardown''"

definition capabilityMiddleware ::
    "string \<Rightarrow> (http_request \<Rightarrow> daemon \<Rightarrow> reply \<times> daemon) \<Rightarrow> http_request \<Rightarrow> daemon \<Rightarrow> reply \<times> daemon" where
  "capabilityMiddleware token continue q d =
     (if \<not> requiresCapability (hq_Method q) (hq_Path q) then continue q d
      else if Authorized (hq_Header q) token then continue q d
      else ((NewHTTPError 401 ''anito capability token required'')\<lparr>rp_challenge := True\<rparr>, d))"

section \<open>Handlers\<close>

definition handleHealth :: "string \<Rightarrow> daemon \<Rightarrow> reply \<times> daemon" where
  "handleHealth version d = (answer 200 (BodyHealth version (StartupState (w_startup (dm_world d)))), d)"

definition handleServices :: "outside \<Rightarrow> daemon \<Rightarrow> reply \<times> daemon" where
  "handleServices E d = (answer 200 (BodyServices (Services E (dm_world d))), d)"

definition to_deploy_request :: "http_deploy \<Rightarrow> int \<Rightarrow> int \<Rightarrow> deploy_request" where
  "to_deploy_request req drainWindow hcTimeout =
     \<lparr>dr_Name = hd_Name req, dr_Version = hd_Version req, dr_VersionPath = hd_VersionPath req, dr_Type = hd_Type req,
      dr_Path = hd_Path req, dr_Args = hd_Args req, dr_StablePort = hd_StablePort req,
      dr_StablePorts = hd_StablePorts req, dr_ProxyBindAddress = hd_ProxyBindAddress req,
      dr_HealthCheckPort = hd_HealthCheckPort req, dr_EnvFile = hd_EnvFile req,
      dr_HealthCheck = hd_HealthCheck req, dr_WatchPaths = hd_WatchPaths req, dr_DrainWindow = drainWindow,
      dr_HealthCheckTimeout = hcTimeout, dr_RestartPolicy = hd_RestartPolicy req, dr_ConfigPath = hd_ConfigPath req\<rparr>"

definition deploy_issue :: "string \<Rightarrow> err \<Rightarrow> issue" where
  "deploy_issue name e =
     zero_issue\<lparr>is_Source := ''cli:deploy'', is_Tool := ''deploy'', is_Input := name,
       is_Error := Redact (err_text e), is_Severity := ''error''\<rparr>"

definition handleDeploy :: "outside \<Rightarrow> request_env \<Rightarrow> http_request \<Rightarrow> daemon \<Rightarrow> reply \<times> daemon" where
  "handleDeploy E R q d =
     (case re_deploy_json R (hq_Body q) of
        None \<Rightarrow> (NewHTTPError 400 ''invalid request body'', d)
      | Some req \<Rightarrow>
          if hd_Name req = '''' \<or> hd_Path req = ''''
          then (domain_reply (InvalidConfigf ''name and path are required'' []), d)
          else case parse_window (hd_DrainWindow req) bad_drain_window of
            Inl e \<Rightarrow> (domain_reply e, d)
          | Inr drainWindow \<Rightarrow>
              (case parse_window (hd_HealthCheckTimeout req) bad_timeout of
                 Inl e \<Rightarrow> (domain_reply e, d)
               | Inr hcTimeout \<Rightarrow>
                   (case svc_do (Deploy E (to_deploy_request req drainWindow hcTimeout)) d of
                      (Inl e, d1) \<Rightarrow> (service_reply e, log_issue (re_issue R) (re_disk R) (deploy_issue (hd_Name req) e) d1)
                    | (Inr svc, d1) \<Rightarrow> (answer 200 (BodyService svc), d1))))"

definition handleStop :: "outside \<Rightarrow> string \<Rightarrow> daemon \<Rightarrow> reply \<times> daemon" where
  "handleStop E name d = respond (\<lambda>_. answer 200 (BodyOp ''stopped'' name)) (svc_do (ServiceStop E name) d)"

definition handleRestart :: "outside \<Rightarrow> string \<Rightarrow> daemon \<Rightarrow> reply \<times> daemon" where
  "handleRestart E name d =
     (case svc_do (ServiceRestart E name) d of
        (Inl e, d1) \<Rightarrow> (service_reply e, d1)
      | (Inr _, d1) \<Rightarrow>
          (case ServiceStatus E name (dm_world d1) of
             Inl e \<Rightarrow> (NewHTTPError 500 (err_text e), d1)
           | Inr svc \<Rightarrow> (answer 200 (BodyService (Some svc)), d1)))"

definition handleRollback :: "outside \<Rightarrow> string \<Rightarrow> daemon \<Rightarrow> reply \<times> daemon" where
  "handleRollback E name d = respond (\<lambda>svc. answer 200 (BodyService svc)) (svc_do (Rollback E name) d)"

definition handleStatus :: "outside \<Rightarrow> string \<Rightarrow> daemon \<Rightarrow> reply \<times> daemon" where
  "handleStatus E name d =
     respond (\<lambda>svc. answer 200 (BodyService (Some svc))) (ServiceStatus E name (dm_world d), d)"

definition handleRemove :: "outside \<Rightarrow> string \<Rightarrow> daemon \<Rightarrow> reply \<times> daemon" where
  "handleRemove E name d = respond (\<lambda>_. answer 200 (BodyOp ''removed'' name)) (svc_do (ServiceRemove E name) d)"

definition handleArchive :: "outside \<Rightarrow> string \<Rightarrow> daemon \<Rightarrow> reply \<times> daemon" where
  "handleArchive E name d = respond (\<lambda>svc. answer 200 (BodyService (Some svc))) (svc_do (ServiceArchive E name) d)"

definition handleRestoreArchived :: "outside \<Rightarrow> string \<Rightarrow> daemon \<Rightarrow> reply \<times> daemon" where
  "handleRestoreArchived E name d =
     respond (\<lambda>svc. answer 200 (BodyService (Some svc))) (svc_do (ServiceRestoreArchived E name) d)"

definition handlePrune :: "outside \<Rightarrow> http_request \<Rightarrow> string \<Rightarrow> daemon \<Rightarrow> reply \<times> daemon" where
  "handlePrune E q name d =
     (if hq_Query q ''confirm'' \<noteq> ''prune'' \<and> hq_Header q ''X-Anito-Confirm'' \<noteq> ''prune''
      then (domain_reply (Conflictf ''prune requires confirm=prune or X-Anito-Confirm: prune'' []), d)
      else respond (\<lambda>tomb. answer 200 (BodyTombstone tomb)) (svc_do (ServicePrune E name) d))"

text \<open>A number of lines: the default unless a positive number is given.\<close>

definition query_lines :: "http_request \<Rightarrow> int \<Rightarrow> int" where
  "query_lines q standard_n =
     (if hq_Query q ''lines'' = '''' then standard_n
      else (case Atoi (hq_Query q ''lines'') of
              Some n \<Rightarrow> if 0 < n then n else standard_n
            | None \<Rightarrow> standard_n))"

definition handleLogs :: "outside \<Rightarrow> request_env \<Rightarrow> http_request \<Rightarrow> string \<Rightarrow> daemon \<Rightarrow> reply \<times> daemon" where
  "handleLogs E R q name d =
     (if name = '''' then (NewHTTPError 400 ''service name required'', d)
      else if hq_Query q ''stream'' = ''build''
      then (if \<not> re_flusher R then (NewHTTPError 500 ''streaming not supported'', d)
            else (answer 200 (BodyEvents (streamBuildLogs (re_files R) (o_logdir E) (dm_world d) name
                                            (re_opened R) (re_ticks R))), d))
      else if hq_Query q ''follow'' = ''true''
      then (if \<not> re_flusher R then (NewHTTPError 500 ''streaming not supported'', d)
            else (answer 200 (BodyEvents (streamLogs (re_files R) (o_logdir E) (dm_world d) name (query_lines q 100)
                                            (re_opened R) (re_ticks R))), d))
      else respond (\<lambda>ls. answer 200 (BodyLines ls))
             (Logs (re_files R) (o_logdir E) (dm_world d) name (query_lines q 100), d))"

definition handleDoctor :: "outside \<Rightarrow> request_env \<Rightarrow> http_request \<Rightarrow> daemon \<Rightarrow> reply \<times> daemon" where
  "handleDoctor E R q d =
     (if hq_Query q ''path'' = '''' then (NewHTTPError 400 ''path query parameter is required'', d)
      else case doctor_Check (re_doctor R) (hq_Query q ''path'') (Some (\<lambda>name. ServiceStatus E name (dm_world d))) of
             Inl e \<Rightarrow> (domain_reply (InvalidConfigf ''%s'' [FStr (err_text e)]), d)
           | Inr result \<Rightarrow> (answer 200 (BodyDoctor result), d))"

definition handleDiagnose :: "outside \<Rightarrow> request_env \<Rightarrow> http_request \<Rightarrow> daemon \<Rightarrow> reply \<times> daemon" where
  "handleDiagnose E R q d =
     respond (\<lambda>result. answer 200 (BodyDiagnosis result))
       (Diagnose (re_doctor R) E
          \<lparr>dq_ServiceName = hq_Query q ''service_name'', dq_RepoPath = hq_Query q ''path''\<rparr> (dm_world d), d)"

definition handleMetrics :: "outside \<Rightarrow> daemon \<Rightarrow> reply \<times> daemon" where
  "handleMetrics E d = (answer 200 (BodyMetrics (Metrics E (dm_world d))), d)"

definition handleSessions :: "request_env \<Rightarrow> daemon \<Rightarrow> reply \<times> daemon" where
  "handleSessions R d =
     (case dm_sessions d of
        None \<Rightarrow> (answer 200 (BodySessions [] 0), d)
      | Some s \<Rightarrow>
          (case SessionList (re_now R) s of
             (Inl e, s1) \<Rightarrow> (NewHTTPError 500 (err_text e), d\<lparr>dm_sessions := Some s1\<rparr>)
           | (Inr ls, s1) \<Rightarrow> (answer 200 (BodySessions ls (length ls)), d\<lparr>dm_sessions := Some s1\<rparr>)))"

text \<open>What cannot be removed is told in the log only.\<close>

definition handleTeardown :: "outside \<Rightarrow> request_env \<Rightarrow> http_request \<Rightarrow> daemon \<Rightarrow> reply \<times> daemon" where
  "handleTeardown E R q d =
     (case re_teardown_json R (hq_Body q) of
        None \<Rightarrow> (NewHTTPError 400 ''invalid request body'', d)
      | Some repoPath \<Rightarrow>
          if repoPath = '''' then (NewHTTPError 400 ''repo_path is required'', d)
          else respond (\<lambda>(gone, kept). answer 200 (BodyRemoved gone (length gone))) (svc_do (Teardown E repoPath) d))"

section \<open>Handlers of issues\<close>

text \<open>A call on a nil store panics.\<close>

definition with_issues ::
    "(issue_store \<Rightarrow> ('a, issue_store) res) \<Rightarrow> (err + 'a \<Rightarrow> reply) \<Rightarrow> daemon \<Rightarrow> reply \<times> daemon" where
  "with_issues f reply_to d =
     (case dm_issues d of
        None \<Rightarrow> (recovered, d)
      | Some s \<Rightarrow> (case f s of (x, s1) \<Rightarrow> (reply_to x, d\<lparr>dm_issues := Some s1\<rparr>)))"

definition plain_result :: "('a \<Rightarrow> reply) \<Rightarrow> err + 'a \<Rightarrow> reply" where
  "plain_result good x = (case x of Inl e \<Rightarrow> NewHTTPError 500 (err_text e) | Inr y \<Rightarrow> good y)"

definition service_result :: "('a \<Rightarrow> reply) \<Rightarrow> err + 'a \<Rightarrow> reply" where
  "service_result good x = (case x of Inl e \<Rightarrow> service_reply e | Inr y \<Rightarrow> good y)"

definition handlePostIssue :: "request_env \<Rightarrow> http_request \<Rightarrow> daemon \<Rightarrow> reply \<times> daemon" where
  "handlePostIssue R q d =
     (case re_issue_json R (hq_Body q) of
        None \<Rightarrow> (NewHTTPError 400 ''invalid request body'', d)
      | Some i0 \<Rightarrow>
          if is_Error i0 = '''' then (NewHTTPError 400 ''error field is required'', d)
          else
            (let i = (if is_Source i0 = '''' then i0\<lparr>is_Source := ''external''\<rparr> else i0) in
             with_issues (IssueAppend (re_issue R) (re_disk R) i)
               (plain_result (\<lambda>_. answer 201 (BodyOp ''logged'' ''''))) d))"

definition handleGetIssues :: "request_env \<Rightarrow> http_request \<Rightarrow> daemon \<Rightarrow> reply \<times> daemon" where
  "handleGetIssues R q d =
     with_issues (IssueRecent (re_issue R) (query_lines q 50) (hq_Query q ''source''))
       (plain_result (\<lambda>ls. answer 200 (BodyIssues ls))) d"

definition handleClearIssues :: "request_env \<Rightarrow> daemon \<Rightarrow> reply \<times> daemon" where
  "handleClearIssues R d =
     with_issues (IssueClear (re_disk R)) (plain_result (\<lambda>_. answer 200 (BodyOp ''cleared'' ''''))) d"

definition decodeIssueTransition :: "request_env \<Rightarrow> http_request \<Rightarrow> err + issue_transition" where
  "decodeIssueTransition R q =
     (if hq_ContentLength q = 0 then Inr \<lparr>it_Actor = '''', it_TrackerURL = ''''\<rparr>
      else case re_transition_json R (hq_Body q) of
             None \<Rightarrow> Inl (InvalidConfigf ''invalid issue transition body'' [])
           | Some req \<Rightarrow> Inr req)"

definition handle_transition ::
    "(issue_transition \<Rightarrow> issue_store \<Rightarrow> (issue, issue_store) res) \<Rightarrow> request_env \<Rightarrow> http_request \<Rightarrow> daemon
     \<Rightarrow> reply \<times> daemon" where
  "handle_transition f R q d =
     (case decodeIssueTransition R q of
        Inl e \<Rightarrow> (domain_reply e, d)
      | Inr req \<Rightarrow> with_issues (f req) (service_result (\<lambda>i. answer 200 (BodyIssue i))) d)"

definition handleAcknowledgeIssue :: "request_env \<Rightarrow> http_request \<Rightarrow> string \<Rightarrow> daemon \<Rightarrow> reply \<times> daemon" where
  "handleAcknowledgeIssue R q ID =
     handle_transition (\<lambda>req. IssueAcknowledge (re_issue R) (re_disk R) ID (it_Actor req)) R q"

definition handleResolveIssue :: "request_env \<Rightarrow> http_request \<Rightarrow> string \<Rightarrow> daemon \<Rightarrow> reply \<times> daemon" where
  "handleResolveIssue R q ID =
     handle_transition (\<lambda>req. IssueResolve (re_issue R) (re_disk R) ID (it_Actor req) (it_TrackerURL req)) R q"

definition handleReopenIssue :: "request_env \<Rightarrow> http_request \<Rightarrow> string \<Rightarrow> daemon \<Rightarrow> reply \<times> daemon" where
  "handleReopenIssue R q ID =
     handle_transition (\<lambda>req. IssueReopen (re_issue R) (re_disk R) ID (it_Actor req)) R q"

text \<open>The page of the dashboard; what is not one of its files is its index.\<close>

definition handle_static :: "request_env \<Rightarrow> http_request \<Rightarrow> daemon \<Rightarrow> reply \<times> daemon" where
  "handle_static R q d =
     (let p = (if prefix ''/'' (hq_Path q) then drop 1 (hq_Path q) else hq_Path q) in
      if re_dist R p then (answer 200 (BodyAsset p), d)
      else case re_index R of
             None \<Rightarrow> (NewHTTPError 404 ''index.html not found'', d)
           | Some index \<Rightarrow> (answer 200 (BodyHtml index), d))"

section \<open>Routes\<close>

datatype endpoint =
    EpHealth | EpServices | EpDeploy | EpStop | EpRestart | EpRollback | EpStatus | EpRemove | EpArchive
  | EpRestore | EpPrune | EpLogs | EpPostIssue | EpGetIssues | EpClearIssues | EpAcknowledge | EpResolve
  | EpReopen | EpDoctor | EpDiagnose | EpMetrics | EpSessions | EpTeardown | EpStatic

definition routes :: "(string \<times> string \<times> endpoint) list" where
  "routes =
     [(''GET'', ''/health'', EpHealth), (''GET'', ''/services'', EpServices), (''POST'', ''/deploy'', EpDeploy),
      (''POST'', ''/stop/:name'', EpStop), (''POST'', ''/restart/:name'', EpRestart),
      (''POST'', ''/rollback/:name'', EpRollback), (''GET'', ''/status/:name'', EpStatus),
      (''POST'', ''/remove/:name'', EpRemove), (''POST'', ''/archive/:name'', EpArchive),
      (''POST'', ''/restore/:name'', EpRestore), (''POST'', ''/prune/:name'', EpPrune),
      (''GET'', ''/logs/:name'', EpLogs), (''POST'', ''/issues'', EpPostIssue), (''GET'', ''/issues'', EpGetIssues),
      (''DELETE'', ''/issues'', EpClearIssues), (''POST'', ''/issues/:id/acknowledge'', EpAcknowledge),
      (''POST'', ''/issues/:id/resolve'', EpResolve), (''POST'', ''/issues/:id/reopen'', EpReopen),
      (''GET'', ''/doctor'', EpDoctor), (''GET'', ''/diagnose'', EpDiagnose), (''GET'', ''/metrics'', EpMetrics),
      (''GET'', ''/sessions'', EpSessions), (''POST'', ''/teardown'', EpTeardown), (''GET'', ''/*'', EpStatic)]"

text \<open>The router finds a route for a method and path, with the values of the path's parameters. It gets the
  path as it was sent.\<close>

datatype route = Found endpoint "string \<Rightarrow> string" | NoRoute | MethodNotAllowed

type_synonym router = "string \<Rightarrow> string \<Rightarrow> route"

definition routed_path :: "http_request \<Rightarrow> string" where
  "routed_path q = (if hq_RawPath q \<noteq> '''' then hq_RawPath q else hq_Path q)"

definition handle ::
    "outside \<Rightarrow> request_env \<Rightarrow> string \<Rightarrow> endpoint \<Rightarrow> (string \<Rightarrow> string) \<Rightarrow> http_request \<Rightarrow> daemon \<Rightarrow> reply \<times> daemon" where
  "handle E R version ep param q =
     (case ep of
        EpHealth \<Rightarrow> handleHealth version
      | EpServices \<Rightarrow> handleServices E
      | EpDeploy \<Rightarrow> handleDeploy E R q
      | EpStop \<Rightarrow> handleStop E (param ''name'')
      | EpRestart \<Rightarrow> handleRestart E (param ''name'')
      | EpRollback \<Rightarrow> handleRollback E (param ''name'')
      | EpStatus \<Rightarrow> handleStatus E (param ''name'')
      | EpRemove \<Rightarrow> handleRemove E (param ''name'')
      | EpArchive \<Rightarrow> handleArchive E (param ''name'')
      | EpRestore \<Rightarrow> handleRestoreArchived E (param ''name'')
      | EpPrune \<Rightarrow> handlePrune E q (param ''name'')
      | EpLogs \<Rightarrow> handleLogs E R q (param ''name'')
      | EpPostIssue \<Rightarrow> handlePostIssue R q
      | EpGetIssues \<Rightarrow> handleGetIssues R q
      | EpClearIssues \<Rightarrow> handleClearIssues R
      | EpAcknowledge \<Rightarrow> handleAcknowledgeIssue R q (param ''id'')
      | EpResolve \<Rightarrow> handleResolveIssue R q (param ''id'')
      | EpReopen \<Rightarrow> handleReopenIssue R q (param ''id'')
      | EpDoctor \<Rightarrow> handleDoctor E R q
      | EpDiagnose \<Rightarrow> handleDiagnose E R q
      | EpMetrics \<Rightarrow> handleMetrics E
      | EpSessions \<Rightarrow> handleSessions R
      | EpTeardown \<Rightarrow> handleTeardown E R q
      | EpStatic \<Rightarrow> handle_static R q)"

definition serve ::
    "router \<Rightarrow> outside \<Rightarrow> request_env \<Rightarrow> string \<Rightarrow> string \<Rightarrow> http_request \<Rightarrow> daemon \<Rightarrow> reply \<times> daemon" where
  "serve router E R version token =
     capabilityMiddleware token
       (\<lambda>q d. case router (hq_Method q) (routed_path q) of
                NoRoute \<Rightarrow> (NewHTTPError 404 ''Not Found'', d)
              | MethodNotAllowed \<Rightarrow> (NewHTTPError 405 ''Method Not Allowed'', d)
              | Found ep param \<Rightarrow> handle E R version ep param q d)"

end
