(* ===== verification/Requests.thy ===== *)
theory Requests
  imports Service_Props Setup_Ports
begin

text \<open>
  What the front ends may do to the service layer: runs of its client operations. A relation on worlds, its
  closure, and the operations that are single steps of it; a setup plan is a run of reservations and,
  when it fails, removals.
\<close>

section \<open>Runs of client operations\<close>

definition client_run :: "outside \<Rightarrow> world \<Rightarrow> world \<Rightarrow> bool" where
  "client_run E w w' \<longleftrightarrow> (\<exists>acts. (\<forall>act \<in> set acts. client_act act) \<and> w' = service_run E acts w)"

named_theorems client_intros

lemma client_run_refl [simp, client_intros]: "client_run E w w"
  by (auto simp: client_run_def intro: exI [of _ "[]"])

lemma client_run_trans: "client_run E w w1 \<Longrightarrow> client_run E w1 w2 \<Longrightarrow> client_run E w w2"
proof -
  assume "client_run E w w1" "client_run E w1 w2"
  then obtain as bs where "\<forall>act \<in> set (as @ bs). client_act act" "w2 = service_run E bs (service_run E as w)"
    by (auto simp: client_run_def)
  then show ?thesis unfolding client_run_def by (intro exI [of _ "as @ bs"]) (simp add: service_run_def)
qed

lemma client_run_act: "client_act act \<Longrightarrow> client_run E w (service_exec E act w)"
  by (auto simp: client_run_def intro: exI [of _ "[act]"])

lemma client_operations [simp, client_intros]:
  "client_run E w (snd (Deploy E req w))" "client_run E w (snd (ServiceRestart E name w))"
  "client_run E w (snd (ServiceStop E name w))" "client_run E w (snd (Rollback E name w))"
  "client_run E w (snd (ServiceRemove E name w))" "client_run E w (snd (Teardown E repo w))"
  "client_run E w (snd (Reserve E name port w))" "client_run E w (snd (ReservePorts E name ports w))"
  "client_run E w (snd (ServiceArchive E name w))" "client_run E w (snd (ServiceRestoreArchived E name w))"
  "client_run E w (snd (ServicePrune E name w))"
  using client_run_act [of "ActDeploy req" E w] client_run_act [of "ActRestart name" E w]
    client_run_act [of "ActStop name" E w] client_run_act [of "ActRollback name" E w]
    client_run_act [of "ActRemove name" E w] client_run_act [of "ActTeardown repo" E w]
    client_run_act [of "ActReserve name port" E w] client_run_act [of "ActReservePorts name ports" E w]
    client_run_act [of "ActArchive name" E w] client_run_act [of "ActRestoreArchived name" E w]
    client_run_act [of "ActPrune name" E w]
  by simp_all

lemma client_run_gated:
  assumes "client_run E w w'" and "mutationsBlockedLocked (w_startup w)"
  shows "w' = w"
proof -
  have "\<forall>act \<in> set acts. client_act act \<Longrightarrow> service_run E acts w = w" for acts
    by (induction acts) (simp_all add: client_step_blocked assms(2))
  with assms(1) show ?thesis by (auto simp: client_run_def)
qed

lemma client_run_inv: "client_run E w w' \<Longrightarrow> world_inv w \<Longrightarrow> world_inv w'"
proof -
  have "world_inv w \<Longrightarrow> world_inv (service_run E acts w)" for acts
    using service_exec_ok by (induction acts arbitrary: w) (auto simp: exec_ok_def)
  then show "client_run E w w' \<Longrightarrow> world_inv w \<Longrightarrow> world_inv w'" by (auto simp: client_run_def)
qed

section \<open>Applying a setup plan\<close>

lemma client_run_Reserve: "Reserve E name port w = (x, w') \<Longrightarrow> client_run E w w'"
  by (metis client_operations(7) snd_conv)

lemma client_run_reserve_planned:
  "reserve_planned (setupPorts E) names alloc rs w = (x, rs', w') \<Longrightarrow> client_run E w w'"
proof (induction names arbitrary: alloc rs w)
  case (Cons name names)
  then show ?case
    by (auto simp: Let_def setupPorts_def client_run_Reserve split: prod.splits sum.splits if_splits
        intro: client_run_trans [OF client_run_Reserve])
qed simp

lemma client_run_reservePlanPorts:
  "reservePlanPorts (Some (setupPorts E)) p w = (x, rs, w') \<Longrightarrow> client_run E w w'"
  by (auto simp: reservePlanPorts_def Let_def setupPorts_def client_run_Reserve
      split: prod.splits sum.splits if_splits dest: client_run_reserve_planned [unfolded setupPorts_def])

lemma client_run_rollback: "client_run E w (rollback_reservations (Some (setupPorts E)) rs w)"
proof -
  have "client_run E w (foldl (\<lambda>w name. snd (ServiceRemove E name w)) w names)" for names
    by (induction names arbitrary: w) (auto intro: client_run_trans [OF client_operations(5)])
  then show ?thesis by (simp add: rollback_reservations_def setupPorts_def)
qed

lemma client_run_applySetup [client_intros]:
  "client_run E w (fst (snd (applySetup F E po w fs)))"
  by (auto simp: applySetup_def Apply_def Let_def client_run_reservePlanPorts split: option.split sum.split prod.split
      intro: client_run_trans [OF client_run_reservePlanPorts client_run_rollback])

end
