(* ===== verification/Urls.thy ===== *)
theory Urls
  imports Prelude
begin

text \<open>
  URLs as the client builds them and the server reads them: the parts of \<^verbatim>\<open>net/url\<close> of the standard
  library that the two use. A path travels in the encoding it was written in when that is a valid one, and
  otherwise in the default encoding; the server gets the decoded path, and the raw one when it is not the
  default encoding.
\<close>

section \<open>Escaping\<close>

definition hex_value :: "char \<Rightarrow> nat option" where
  "hex_value c =
     (let n = of_char c in
      if 48 \<le> n \<and> n \<le> 57 then Some (n - 48) else if 97 \<le> n \<and> n \<le> 102 then Some (n - 87)
      else if 65 \<le> n \<and> n \<le> 70 then Some (n - 55) else None)"

fun unescape :: "string \<Rightarrow> string option" where
  "unescape [] = Some []"
| "unescape (c # cs) =
     (if c = CHR ''%''
      then (case cs of
              a # b # rest \<Rightarrow>
                (case (hex_value a, hex_value b, unescape rest) of
                   (Some x, Some y, Some s) \<Rightarrow> Some (char_of (16 * x + y) # s)
                 | _ \<Rightarrow> None)
            | _ \<Rightarrow> None)
      else map_option ((#) c) (unescape cs))"

definition upper_hex :: "nat \<Rightarrow> char" where
  "upper_hex d = (if d < 10 then char_of (48 + d) else char_of (55 + d))"

definition percent :: "char \<Rightarrow> string" where
  "percent c = [CHR ''%'', upper_hex (of_char c div 16), upper_hex (of_char c mod 16)]"

definition unreserved :: "char \<Rightarrow> bool" where
  "unreserved c \<longleftrightarrow>
     (let n = of_char c :: nat in
      97 \<le> n \<and> n \<le> 122 \<or> 65 \<le> n \<and> n \<le> 90 \<or> 48 \<le> n \<and> n \<le> 57 \<or> n \<in> {45, 46, 95, 126})"

definition path_char :: "char \<Rightarrow> bool" where
  "path_char c \<longleftrightarrow> unreserved c \<or> (of_char c :: nat) \<in> {36, 38, 43, 44, 47, 58, 59, 61, 64}"

definition escape_path :: "string \<Rightarrow> string" where
  "escape_path s = concat (map (\<lambda>c. if path_char c then [c] else percent c) s)"

definition valid_encoded :: "string \<Rightarrow> bool" where
  "valid_encoded s \<longleftrightarrow> (\<forall>c \<in> set s. path_char c \<or> c \<in> set ''!()*[]%'' \<or> c = CHR 0x27)"

definition QueryEscape :: "string \<Rightarrow> string" where
  "QueryEscape s = concat (map (\<lambda>c. if unreserved c then [c] else if c = CHR '' '' then ''+'' else percent c) s)"

section \<open>Queries\<close>

definition query_unescape :: "string \<Rightarrow> string option" where
  "query_unescape s = unescape (map (\<lambda>c. if c = CHR ''+'' then CHR '' '' else c) s)"

text \<open>A pair that does not decode, or holds a semicolon, is left out; a key without a value has the empty one.\<close>

definition query_pair :: "string \<Rightarrow> (string \<times> string) list" where
  "query_pair kv =
     (if kv = '''' \<or> CHR '';'' \<in> set kv then []
      else
        (let k = takeWhile (\<lambda>c. c \<noteq> CHR ''='') kv; v = drop (Suc (length k)) kv in
         case (query_unescape k, query_unescape v) of (Some k', Some v') \<Rightarrow> [(k', v')] | _ \<Rightarrow> []))"

definition ParseQuery :: "string \<Rightarrow> (string \<times> string) list" where
  "ParseQuery q = concat (map query_pair (split_on CHR ''&'' q))"

definition query_get :: "(string \<times> string) list \<Rightarrow> string \<Rightarrow> string" where
  "query_get kvs k = (case map_of kvs k of Some v \<Rightarrow> v | None \<Rightarrow> '''')"

section \<open>A URL behind the base of the client\<close>

record url =
  ur_Path :: string
  ur_RawPath :: string
  ur_Query :: string

definition url_parse :: "string \<Rightarrow> url option" where
  "url_parse s0 =
     (let s = takeWhile (\<lambda>c. c \<noteq> CHR ''#'') s0;
          p = takeWhile (\<lambda>c. c \<noteq> CHR ''?'') s;
          q = drop (Suc (length p)) s
      in if \<exists>c \<in> set s. (of_char c :: nat) < 32 \<or> c = CHR 0x7F then None
         else case unescape p of
                None \<Rightarrow> None
              | Some path \<Rightarrow>
                  Some \<lparr>ur_Path = path, ur_RawPath = (if valid_encoded p \<and> p \<noteq> escape_path path then p else ''''),
                        ur_Query = q\<rparr>)"

section \<open>What is kept\<close>

lemma unescape_prefix:
  "CHR ''%'' \<notin> set p \<Longrightarrow> unescape (p @ s) = Some t \<Longrightarrow> \<exists>u. t = p @ u \<and> unescape s = Some u"
  by (induction p arbitrary: t) auto

lemma unescape_plain: "CHR ''%'' \<notin> set p \<Longrightarrow> unescape p = Some p"
  by (induction p) auto

lemma hex_value_upper: "d < 16 \<Longrightarrow> hex_value (upper_hex d) = Some d"
  by (auto simp: hex_value_def upper_hex_def of_char_of)

lemma unescape_percent: "unescape (percent c @ s) = map_option ((#) c) (unescape s)"
proof -
  have "(of_char c :: nat) div 16 < 16" using nat_of_char_less_256 [of c] by (intro less_mult_imp_div_less) simp
  moreover have "16 * ((of_char c :: nat) div 16) + of_char c mod 16 = of_char c" by simp
  ultimately show ?thesis
    by (simp add: percent_def hex_value_upper split: option.split)
qed

lemma upper_hex_char: "d < 16 \<Longrightarrow> unreserved (upper_hex d)"
  by (auto simp: upper_hex_def unreserved_def Let_def of_char_of)

lemma percent_chars: "x \<in> set (percent c) \<Longrightarrow> x = CHR ''%'' \<or> unreserved x"
proof -
  have "(of_char c :: nat) div 16 < 16" using nat_of_char_less_256 [of c] by (intro less_mult_imp_div_less) simp
  then show "x \<in> set (percent c) \<Longrightarrow> x = CHR ''%'' \<or> unreserved x" by (auto simp: percent_def upper_hex_char)
qed

lemma QueryEscape_chars: "x \<in> set (QueryEscape s) \<Longrightarrow> x = CHR ''%'' \<or> x = CHR ''+'' \<or> unreserved x"
  by (auto simp: QueryEscape_def dest: percent_chars split: if_splits)

lemma map_plus_percent:
  "map (\<lambda>c. if c = CHR ''+'' then CHR '' '' else c) (percent c) = percent c"
proof -
  have "\<not> unreserved CHR ''+''" by (simp add: unreserved_def Let_def)
  then have "\<forall>x \<in> set (percent c). x \<noteq> CHR ''+''" using percent_chars [of "CHR ''+''" c] by auto
  then show ?thesis by (simp add: map_idI)
qed

text \<open>Escaping a query value and reading it back.\<close>

lemma query_unescape_QueryEscape: "query_unescape (QueryEscape s) = Some s"
proof (induction s)
  case (Cons c s)
  have plain: "unreserved c \<Longrightarrow> c \<noteq> CHR ''%'' \<and> c \<noteq> CHR ''+''" by (auto simp: unreserved_def Let_def)
  have "query_unescape (percent c @ QueryEscape s) = Some (c # s)"
    using Cons by (simp add: query_unescape_def map_plus_percent unescape_percent)
  with Cons plain show ?case
    by (auto simp: QueryEscape_def query_unescape_def)
qed (simp add: query_unescape_def QueryEscape_def)

lemma query_pair_escaped:
  assumes "\<forall>c \<in> set k. unreserved c" and "k \<noteq> ''''"
  shows "query_pair (k @ ''='' @ QueryEscape v) = [(k, v)]"
proof -
  have no: "\<not> unreserved CHR ''=''" "\<not> unreserved CHR '';''" "\<not> unreserved CHR ''%''" "\<not> unreserved CHR ''+''"
    by (simp_all add: unreserved_def Let_def)
  then have "takeWhile (\<lambda>c. c \<noteq> CHR ''='') (k @ ''='' @ QueryEscape v) = k"
    using assms(1) by (subst takeWhile_append2) auto
  moreover have "query_unescape k = Some k"
    using assms(1) no by (subst query_unescape_def, subst map_idI) (auto intro: unescape_plain)
  moreover have "CHR '';'' \<notin> set (k @ ''='' @ QueryEscape v)"
    using assms(1) no QueryEscape_chars [of "CHR '';''" v] by auto
  ultimately show ?thesis
    using assms(2) by (simp add: query_pair_def query_unescape_QueryEscape)
qed

lemma split_on_none: "c \<notin> set s \<Longrightarrow> split_on c s = [s]"
  by (induction s) auto

lemma plain_url:
  assumes "\<forall>c \<in> set p. path_char c"
  shows "url_parse p = Some \<lparr>ur_Path = p, ur_RawPath = '''', ur_Query = ''''\<rparr>"
proof -
  have no: "\<not> path_char CHR ''#''" "\<not> path_char CHR ''?''" "\<not> path_char CHR ''%''" "\<not> path_char CHR 0x7F"
    by (simp_all add: path_char_def unreserved_def Let_def)
  have low: "path_char c \<Longrightarrow> 32 \<le> (of_char c :: nat)" for c
    by (auto simp: path_char_def unreserved_def Let_def)
  have whole: "takeWhile (\<lambda>c. c \<noteq> CHR ''#'') p = p" "takeWhile (\<lambda>c. c \<noteq> CHR ''?'') p = p"
    using assms no by (auto simp: takeWhile_eq_all_conv)
  moreover have "unescape p = Some p" using assms no by (auto intro: unescape_plain)
  moreover have "escape_path p = p"
    using assms unfolding escape_path_def by (induction p) auto
  moreover have "\<not> (\<exists>c \<in> set p. (of_char c :: nat) < 32 \<or> c = CHR 0x7F)"
    using assms no low by (metis not_le)
  ultimately show ?thesis unfolding url_parse_def Let_def whole by simp
qed

end
