(* ===== verification/Server_Props.thy ===== *)
theory Server_Props
  imports Server Requests Urls
begin

text \<open>
  The properties of the HTTP API: every request is a run of client operations of the service layer, the
  startup gate holds for it, routes that are guarded change nothing without the token, and which routes
  are not guarded. Of the router it is only used that what it finds is a route of the table for a path that
  starts like the route's pattern.
\<close>

section \<open>The router\<close>

text \<open>The fixed part of a pattern, in front of its first parameter.\<close>

definition fixed_part :: "string \<Rightarrow> string" where
  "fixed_part pattern = takeWhile (\<lambda>c. c \<noteq> CHR '':'' \<and> c \<noteq> CHR ''*'') pattern"

definition fits :: "string \<Rightarrow> string \<Rightarrow> bool" where
  "fits pattern path \<longleftrightarrow>
     (if fixed_part pattern = pattern then path = pattern else prefix (fixed_part pattern) path)"

definition sound_router :: "router \<Rightarrow> bool" where
  "sound_router router \<longleftrightarrow>
     (\<forall>meth path ep param. router meth path = Found ep param \<longrightarrow>
        (\<exists>pattern. (meth, pattern, ep) \<in> set routes \<and> fits pattern path))"

text \<open>A request's raw path, when there is one, is an encoding of its path.\<close>

definition url_ok :: "http_request \<Rightarrow> bool" where
  "url_ok q \<longleftrightarrow> hq_RawPath q = '''' \<or> unescape (hq_RawPath q) = Some (hq_Path q)"

lemma routed_prefix:
  assumes "url_ok q" and "CHR ''%'' \<notin> set p" and "prefix p (routed_path q)"
  shows "prefix p (hq_Path q)"
  using assms unescape_prefix [of p]
  by (fastforce simp: url_ok_def routed_path_def prefix_def split: if_splits)

lemma routed_equal:
  assumes "url_ok q" and "CHR ''%'' \<notin> set p" and "routed_path q = p"
  shows "hq_Path q = p"
  using assms unescape_prefix [of p "''''"]
  by (auto simp: url_ok_def routed_path_def split: if_splits)

section \<open>Guarded routes\<close>

definition guarded :: "endpoint \<Rightarrow> bool" where
  "guarded ep \<longleftrightarrow> ep \<in> {EpDeploy, EpStop, EpRestart, EpRollback, EpRemove, EpPostIssue, EpClearIssues, EpTeardown}"

lemma fits_simps:
  "fits ''/deploy'' p \<longleftrightarrow> p = ''/deploy''" "fits ''/issues'' p \<longleftrightarrow> p = ''/issues''"
  "fits ''/teardown'' p \<longleftrightarrow> p = ''/teardown''" "fits ''/stop/:name'' p \<longleftrightarrow> prefix ''/stop/'' p"
  "fits ''/restart/:name'' p \<longleftrightarrow> prefix ''/restart/'' p" "fits ''/rollback/:name'' p \<longleftrightarrow> prefix ''/rollback/'' p"
  "fits ''/remove/:name'' p \<longleftrightarrow> prefix ''/remove/'' p"
  by (simp_all add: fits_def fixed_part_def)

definition guarded_match :: "string \<Rightarrow> string \<Rightarrow> endpoint \<Rightarrow> bool" where
  "guarded_match meth path ep =
     (case ep of
        EpDeploy \<Rightarrow> meth = ''POST'' \<and> path = ''/deploy''
      | EpStop \<Rightarrow> meth = ''POST'' \<and> prefix ''/stop/'' path
      | EpRestart \<Rightarrow> meth = ''POST'' \<and> prefix ''/restart/'' path
      | EpRollback \<Rightarrow> meth = ''POST'' \<and> prefix ''/rollback/'' path
      | EpRemove \<Rightarrow> meth = ''POST'' \<and> prefix ''/remove/'' path
      | EpPostIssue \<Rightarrow> meth = ''POST'' \<and> path = ''/issues''
      | EpClearIssues \<Rightarrow> meth = ''DELETE'' \<and> path = ''/issues''
      | EpTeardown \<Rightarrow> meth = ''POST'' \<and> path = ''/teardown''
      | _ \<Rightarrow> False)"

lemma guarded_requires:
  assumes "sound_router router" and "url_ok q" and "router (hq_Method q) (routed_path q) = Found ep param"
    and "guarded ep"
  shows "requiresCapability (hq_Method q) (hq_Path q)"
proof -
  obtain pattern where pat: "(hq_Method q, pattern, ep) \<in> set routes" "fits pattern (routed_path q)"
    using assms(1,3) unfolding sound_router_def by blast
  have "guarded_match (hq_Method q) (hq_Path q) ep"
    using assms(4) pat routed_equal [OF assms(2)] routed_prefix [OF assms(2)]
    by (cases ep) (simp_all add: guarded_def routes_def guarded_match_def fits_simps)
  then show ?thesis by (cases ep) (simp_all add: guarded_match_def requiresCapability_def)
qed

text \<open>C11: A route for deploying, stopping, restarting, rolling back, removing, tearing down, or reporting and
  clearing issues answers a request without the token with 401 and a challenge, and changes nothing, however the
  path is encoded.\<close>

theorem guarded_routes_need_token:
  assumes "sound_router router" and "url_ok q" and "router (hq_Method q) (routed_path q) = Found ep param"
    and "guarded ep" and "\<not> Authorized (hq_Header q) token"
  shows "serve router E R version token q d =
    (\<lparr>rp_status = 401, rp_body = BodyMessage ''anito capability token required'', rp_challenge = True\<rparr>, d)"
  using guarded_requires [OF assms(1-4)] assms(5)
  by (simp add: serve_def capabilityMiddleware_def NewHTTPError_def answer_def)

section \<open>Every request is a run of operations\<close>

lemma svc_do_world [simp]: "dm_world (snd (svc_do f d)) = snd (f (dm_world d))"
  by (simp add: svc_do_def case_prod_beta)

lemma svc_do_rest [simp]:
  "dm_issues (snd (svc_do f d)) = dm_issues d" "dm_sessions (snd (svc_do f d)) = dm_sessions d"
  "dm_fs (snd (svc_do f d)) = dm_fs d" "dm_studies (snd (svc_do f d)) = dm_studies d"
  by (simp_all add: svc_do_def case_prod_beta)

lemma respond_state [simp]: "snd (respond good r) = snd r"
  by (auto simp: respond_def split: prod.split sum.split)

lemma log_issue_world [simp]: "dm_world (log_issue E D i d) = dm_world d"
  by (simp add: log_issue_def split: option.split)

lemma with_issues_world [simp]: "dm_world (snd (with_issues f reply_to d)) = dm_world d"
  by (auto simp: with_issues_def split: option.split prod.split)

lemma client_run_svc_do:
  "svc_do f d = (x, d1) \<Longrightarrow> client_run E (dm_world d) (snd (f (dm_world d))) \<Longrightarrow> client_run E (dm_world d) (dm_world d1)"
  by (metis svc_do_world snd_conv)

lemma handle_client_run: "client_run E (dm_world d) (dm_world (snd (handle E R version ep param q d)))"
proof (cases ep)
  case EpDeploy
  have "client_run E (dm_world d) (dm_world (snd (handleDeploy E R q d)))"
    by (auto simp: handleDeploy_def split: option.split sum.split prod.split dest!: client_run_svc_do [where E = E])
  with EpDeploy show ?thesis by (simp add: handle_def)
next
  case EpRestart
  have "client_run E (dm_world d) (dm_world (snd (handleRestart E (param ''name'') d)))"
    by (auto simp: handleRestart_def split: sum.split prod.split dest!: client_run_svc_do [where E = E])
  with EpRestart show ?thesis by (simp add: handle_def)
qed (auto simp: handle_def handleHealth_def handleServices_def handleStop_def handleRollback_def handleStatus_def
    handleRemove_def handleArchive_def handleRestoreArchived_def handlePrune_def handleLogs_def handleDoctor_def
    handleDiagnose_def handleMetrics_def handleSessions_def handleTeardown_def handlePostIssue_def
    handleGetIssues_def handleClearIssues_def handle_transition_def handleAcknowledgeIssue_def
    handleResolveIssue_def handleReopenIssue_def handle_static_def Let_def split: option.split sum.split prod.split)


section \<open>What a request without the token can do\<close>

lemma unguarded_world:
  assumes "\<not> guarded ep" and "ep \<notin> {EpArchive, EpRestore, EpPrune}"
  shows "dm_world (snd (handle E R version ep param q d)) = dm_world d"
  using assms
  by (cases ep) (auto simp: guarded_def handle_def handleHealth_def handleServices_def handleStatus_def handleLogs_def
    handleDoctor_def handleDiagnose_def handleMetrics_def handleSessions_def handleGetIssues_def
    handle_transition_def handleAcknowledgeIssue_def handleResolveIssue_def handleReopenIssue_def
    handle_static_def Let_def split: option.split sum.split prod.split)

definition issue_file :: "daemon \<Rightarrow> issues_file option" where
  "issue_file d = map_option st_file (dm_issues d)"

definition session_file :: "daemon \<Rightarrow> sessions_file option" where
  "session_file d = map_option ss_file (dm_sessions d)"

lemma loadLocked_file: "loadLocked E s = (x, s') \<Longrightarrow> st_file s' = st_file s"
  by (auto simp: loadLocked_def split: issues_file.splits prod.splits)

lemma IssueRecent_file: "st_file (snd (IssueRecent E n source s)) = st_file s"
  by (cases "loadLocked E s"; cases "fst (loadLocked E s)")
    (auto simp: IssueRecent_def Let_def dest: loadLocked_file)

lemma IssueRecent_same: "IssueRecent E n source s = (x, s') \<Longrightarrow> st_file s' = st_file s"
  by (metis IssueRecent_file snd_conv)

lemma SessionList_file: "ss_file (snd (SessionList now s)) = ss_file s"
  by (cases "loadCached now s"; cases "fst (loadCached now s)")
    (auto simp: SessionList_def loadCached_def split: if_splits sum.splits)

lemma with_issues_rest [simp]:
  "dm_sessions (snd (with_issues f reply_to d)) = dm_sessions d" "dm_fs (snd (with_issues f reply_to d)) = dm_fs d"
  "dm_studies (snd (with_issues f reply_to d)) = dm_studies d"
  by (auto simp: with_issues_def split: option.split prod.split)

lemma unguarded_stores:
  assumes "\<not> guarded ep"
  shows "(issue_file (snd (handle E R version ep param q d)) = issue_file d \<or> ep \<in> {EpAcknowledge, EpResolve, EpReopen})
    \<and> session_file (snd (handle E R version ep param q d)) = session_file d
    \<and> dm_fs (snd (handle E R version ep param q d)) = dm_fs d
    \<and> dm_studies (snd (handle E R version ep param q d)) = dm_studies d"
proof (cases ep)
  case EpGetIssues
  have "issue_file (snd (handleGetIssues R q d)) = issue_file d"
    by (auto simp: handleGetIssues_def with_issues_def issue_file_def split: option.split prod.split
        dest: IssueRecent_same)
  with EpGetIssues show ?thesis by (simp add: handle_def handleGetIssues_def session_file_def)
next
  case EpSessions
  have "session_file (snd (handleSessions R d)) = session_file d"
    using SessionList_file by (auto simp: handleSessions_def session_file_def split: option.split prod.split sum.split)
      (metis snd_conv)+
  then show ?thesis using EpSessions
    by (auto simp: handle_def handleSessions_def issue_file_def split: option.split prod.split sum.split)
qed (use assms in \<open>auto simp: guarded_def handle_def handleHealth_def handleServices_def handleStatus_def handleLogs_def
    handleArchive_def handleRestoreArchived_def handlePrune_def
    handleDoctor_def handleDiagnose_def handleMetrics_def
    handle_transition_def handleAcknowledgeIssue_def handleResolveIssue_def handleReopenIssue_def
    handle_static_def issue_file_def session_file_def Let_def split: option.split sum.split prod.split\<close>)

text \<open>C10: A request without the token reaches the services only by archiving, restoring an archived service or
  pruning, and the stored issues only by acknowledging, resolving or reopening one; sessions, repositories
  and case studies it cannot change. These six routes are the whole of what is open.\<close>

theorem http_without_token:
  assumes "sound_router router" and "url_ok q" and "\<not> Authorized (hq_Header q) token"
    and "serve router E R version token q d = (r, d')"
  shows "(dm_world d' = dm_world d \<and> issue_file d' = issue_file d
      \<or> (\<exists>ep param. router (hq_Method q) (routed_path q) = Found ep param
           \<and> (ep \<in> {EpArchive, EpRestore, EpPrune} \<and> issue_file d' = issue_file d
              \<or> ep \<in> {EpAcknowledge, EpResolve, EpReopen} \<and> dm_world d' = dm_world d)))
    \<and> session_file d' = session_file d \<and> dm_fs d' = dm_fs d \<and> dm_studies d' = dm_studies d"
proof (cases "router (hq_Method q) (routed_path q)")
  case (Found ep param)
  show ?thesis
  proof (cases "guarded ep")
    case True
    with guarded_requires [OF assms(1,2) Found] assms(3,4) show ?thesis
      by (auto simp: serve_def capabilityMiddleware_def)
  next
    case False
    show ?thesis
    proof (cases "requiresCapability (hq_Method q) (hq_Path q)")
      case True
      with assms(3,4) show ?thesis by (auto simp: serve_def capabilityMiddleware_def)
    next
      case not_required: False
      have d': "d' = snd (handle E R version ep param q d)"
        using assms(4) not_required Found by (simp add: serve_def capabilityMiddleware_def)
      show ?thesis
        using unguarded_stores [OF False, of E R version param q d] unguarded_world [OF False, of E R version param q d]
        by (auto simp: d' Found)
    qed
  qed
qed (use assms(3,4) in \<open>auto simp: serve_def capabilityMiddleware_def split: if_splits\<close>)

text \<open>Pruning a service for good is open to everyone who can reach the port.\<close>

lemma prune_needs_no_token:
  assumes "router ''POST'' (''/prune/'' @ name) = Found EpPrune (\<lambda>_. name)"
    and "hq_Method q = ''POST''" and "hq_Path q = ''/prune/'' @ name" and "hq_RawPath q = ''''"
  shows "serve router E R version token q d = handlePrune E q name d"
  using assms by (simp add: serve_def capabilityMiddleware_def requiresCapability_def routed_path_def handle_def)

section \<open>Examples\<close>

text \<open>A router for two of the routes, as echo documents its patterns.\<close>

definition demo_router :: router where
  "demo_router meth path =
     (if meth = ''POST'' \<and> prefix ''/stop/'' path then Found EpStop (\<lambda>_. drop 6 path)
      else if meth = ''POST'' \<and> prefix ''/archive/'' path then Found EpArchive (\<lambda>_. drop 9 path)
      else NoRoute)"

lemma demo_router_sound: "sound_router demo_router"
proof -
  have "fits ''/archive/:name'' p \<longleftrightarrow> prefix ''/archive/'' p" for p by (simp add: fits_def fixed_part_def)
  then show ?thesis
    unfolding sound_router_def demo_router_def
    by (auto simp: routes_def fits_simps split: if_splits)
qed

definition demo_request :: "string \<Rightarrow> string \<Rightarrow> http_request" where
  "demo_request path raw =
     \<lparr>hq_Method = ''POST'', hq_Path = path, hq_RawPath = raw, hq_Query = (\<lambda>_. ''''), hq_Header = (\<lambda>_. ''''),
      hq_Body = '''', hq_ContentLength = 0\<rparr>"

lemma demo_request_simps [simp]:
  "hq_Method (demo_request path raw) = ''POST''" "hq_Path (demo_request path raw) = path"
  "hq_RawPath (demo_request path raw) = raw" "hq_Header (demo_request path raw) = (\<lambda>_. '''')"
  by (simp_all add: demo_request_def)

lemma demo_unauthorized: "\<not> Authorized (\<lambda>_. '''') ''t0p''"
  by code_simp

theorem guarded_routes_need_token_witness:
  "\<forall>E R d. serve demo_router E R ''dev'' ''t0p'' (demo_request ''/stop/a b'' ''/stop/a%20b'') d =
    (\<lparr>rp_status = 401, rp_body = BodyMessage ''anito capability token required'', rp_challenge = True\<rparr>, d)"
proof -
  have "url_ok (demo_request ''/stop/a b'' ''/stop/a%20b'')" unfolding url_ok_def by code_simp
  then show ?thesis
    using demo_unauthorized
    by (intro allI guarded_routes_need_token [where ep = EpStop and param = "\<lambda>_. ''a%20b''"] demo_router_sound)
      (simp_all add: demo_router_def routed_path_def guarded_def)
qed

theorem http_without_token_witness:
  "\<forall>E R d. dm_fs (snd (serve demo_router E R ''dev'' ''t0p'' (demo_request ''/archive/api'' '''') d)) = dm_fs d"
proof (intro allI)
  fix E R d
  obtain r d' where run: "serve demo_router E R ''dev'' ''t0p'' (demo_request ''/archive/api'' '''') d = (r, d')"
    by fastforce
  have "url_ok (demo_request ''/archive/api'' '''')" by (simp add: url_ok_def)
  from http_without_token [OF demo_router_sound this _ run] demo_unauthorized run
  show "dm_fs (snd (serve demo_router E R ''dev'' ''t0p'' (demo_request ''/archive/api'' '''') d)) = dm_fs d" by simp
qed

end
