(* ===== verification/Mcp_Props.thy ===== *)
theory Mcp_Props
  imports Mcp_Http Server_Props
begin

text \<open>
  The properties of the MCP server: a redeploy keeps what its input omits, tool calls are runs of client operations,
  both front ends respect the startup gate, and what a request without the token can do. Of the SDK it is
  only used that it makes no other calls than those the check reads in the body.
\<close>

section \<open>Redeploying\<close>

lemma duration_text_not_empty: "- (2 ^ 63) \<le> t \<Longrightarrow> t < 2 ^ 63 \<Longrightarrow> duration_text t \<noteq> ''''"
proof
  assume "- (2 ^ 63) \<le> t" "t < 2 ^ 63" "duration_text t = ''''"
  then have "ParseDuration '''' = Inr t" using ParseDuration_text [of t] by simp
  then show False by (simp add: ParseDuration_def)
qed

lemma durationString_window:
  "- (2 ^ 63) \<le> t \<Longrightarrow> t < 2 ^ 63 \<Longrightarrow> parse_window (durationString t) bad = Inr t"
  by (auto simp: parse_window_def durationString_def ParseDuration_text duration_text_not_empty)

lemma type_of_text_text: "t \<in> {TypeBinary, TypeStatic} \<Longrightarrow> type_of_text (type_text t) = t"
  by (auto simp: type_of_text_def)


definition demo_input :: deploy_input where
  "demo_input =
     \<lparr>mi_Name = ''api'', mi_Version = '''', mi_VersionPath = '''', mi_Path = ''/bin/api'', mi_Args = None, mi_StablePort = 0,
      mi_StablePorts = [], mi_ProxyBindAddress = '''', mi_HealthCheckPort = '''', mi_Type = '''', mi_EnvFile = '''',
      mi_HealthCheck = '''', mi_WatchPaths = Some [], mi_DrainWindow = '''', mi_HealthCheckTimeout = '''',
      mi_RestartPolicy = '''', mi_ConfigPath = '''', mi_ReplaceConfig = False\<rparr>"

section \<open>Every tool call is a run of operations\<close>

lemma tool_result_state [simp]: "snd (tool_result out r) = snd r"
  by (auto simp: tool_result_def split: prod.split sum.split)

lemma logged_result_rest [simp]:
  "dm_world (snd (logged_result M call out r)) = dm_world (snd r)"
  "dm_fs (snd (logged_result M call out r)) = dm_fs (snd r)"
  "dm_studies (snd (logged_result M call out r)) = dm_studies (snd r)"
  by (auto simp: logged_result_def logErr_def log_issue_def split: prod.split sum.split option.split)

lemma apply_do_world: "client_run E (dm_world d) (dm_world (snd (apply_do F E p d)))"
  using client_run_applySetup [of E "dm_world d" F "Some p" "dm_fs d"]
  by (simp add: apply_do_def case_prod_beta)

lemma logErr_world [simp]: "dm_world (logErr M c e d) = dm_world d"
  by (simp add: logErr_def)

lemma run_tool_client_run: "client_run E (dm_world d) (dm_world (snd (run_tool E M c d)))"
proof (cases c)
  case (CallRestart name)
  then show ?thesis
    by (auto simp: tool_restart_def split: prod.split sum.split dest!: client_run_svc_do [where E = E])
qed (auto simp: tool_deploy_def tool_issue_change_def tool_prune_def tool_logs_def tool_reserve_def tool_setup_def
    tool_doctor_def tool_diagnose_def tool_issues_def tool_teardown_def tool_report_def tool_case_study_def
    apply_do_world Let_def case_prod_beta split: prod.split sum.split option.split)

lemma run_tools_client_run: "client_run E (dm_world d) (dm_world (snd (run_tools E M cs d)))"
proof (induction cs arbitrary: d)
  case (Cons c cs)
  have "client_run E (dm_world d) (dm_world (snd (run_tools E M cs (snd (run_tool E M c d)))))"
    by (rule client_run_trans [OF run_tool_client_run Cons.IH])
  then show ?case by (simp add: case_prod_beta)
qed simp

lemma sessionMiddleware_inv:
  assumes "\<And>d. P d \<Longrightarrow> P (snd (continue d))" and "\<And>d s. P d \<Longrightarrow> P (d\<lparr>dm_sessions := s\<rparr>)" and "P d"
  shows "P (snd (sessionMiddleware parse K M continue q d))"
  using assms(1) [of d] assms(1) [OF assms(2) [OF assms(3)]] assms(2,3)
  by (auto simp: sessionMiddleware_def split: option.split prod.split)

lemma mcp_serve_inv:
  assumes "\<And>d. P d \<Longrightarrow> P (snd (run_tools E M (sk_calls K q) d))" and "\<And>d s. P d \<Longrightarrow> P (d\<lparr>dm_sessions := s\<rparr>)" and "P d"
  shows "P (snd (mcp_serve parse K E M token q d))"
  using assms sessionMiddleware_inv [of P "\<lambda>d. case run_tools E M (sk_calls K q) d of (rs, d1) \<Rightarrow> (McpReplies rs, d1)"]
  by (simp add: mcp_serve_def mcp_capability_def case_prod_beta split: sum.split)


text \<open>C16: While the daemon binds its listeners or reconciles its services, no request to either front end changes
  the state of the service layer, whatever its token, route or tools.\<close>

theorem front_ends_respect_gate:
  assumes "mutationsBlockedLocked (w_startup (dm_world d))"
  shows "dm_world (snd (serve router E R version token q d)) = dm_world d
    \<and> dm_world (snd (mcp_serve parse K E M token mq d)) = dm_world d"
proof
  have "client_run E (dm_world d) (dm_world (snd (serve router E R version token q d)))"
    by (simp add: serve_def capabilityMiddleware_def handle_client_run split: route.split)
  with assms show "dm_world (snd (serve router E R version token q d)) = dm_world d"
    by (simp add: client_run_gated)
  have "client_run E (dm_world d) (dm_world (snd (mcp_serve parse K E M token mq d)))"
    by (rule mcp_serve_inv) (auto intro: client_run_trans run_tools_client_run)
  with assms show "dm_world (snd (mcp_serve parse K E M token mq d)) = dm_world d"
    by (simp add: client_run_gated)
qed

section \<open>Requests without the token\<close>

definition sound_sdk :: "(string \<Rightarrow> json option) \<Rightarrow> sdk \<Rightarrow> bool" where
  "sound_sdk parse K \<longleftrightarrow>
     (\<forall>q. \<forall>c \<in> set (sk_calls K q). mq_Method q = ''POST'' \<and>
        (\<exists>b. mq_Body q = Some b \<and> \<lparr>rpc_Method = ''tools/call'', rpc_Name = tool_name c\<rparr> \<in> set (rpc_messages parse b)))"

text \<open>The calls that reach the services, and those that reach the stored issues, also by logging an error.\<close>

fun lifecycle_call :: "mcp_call \<Rightarrow> bool" where
  "lifecycle_call (CallArchive name) = True"
| "lifecycle_call (CallRestoreArchived name) = True"
| "lifecycle_call (CallPrune name confirm) = True"
| "lifecycle_call c = False"

fun issue_call :: "mcp_call \<Rightarrow> bool" where
  "issue_call (CallIssueAcknowledge ID actor) = True"
| "issue_call (CallIssueResolve ID actor url) = True"
| "issue_call (CallIssueReopen ID actor) = True"
| "issue_call (CallDoctor path) = True"
| "issue_call (CallDiagnose name repo) = True"
| "issue_call c = False"

lemma open_tool:
  assumes "\<not> isPrivilegedTool (tool_name c)"
  shows "(dm_world (snd (run_tool E M c d)) = dm_world d \<or> lifecycle_call c)
    \<and> (issue_file (snd (run_tool E M c d)) = issue_file d \<or> issue_call c)
    \<and> dm_fs (snd (run_tool E M c d)) = dm_fs d \<and> dm_studies (snd (run_tool E M c d)) = dm_studies d"
proof (cases c)
  case (CallIssues n source)
  then show ?thesis
    by (auto simp: tool_issues_def issue_file_def split: option.split prod.split sum.split dest: IssueRecent_same)
qed (use assms in \<open>auto simp: isPrivilegedTool_def tool_issue_change_def tool_prune_def tool_logs_def tool_doctor_def
    tool_diagnose_def issue_file_def Let_def split: prod.split sum.split option.split\<close>)

lemma open_tools:
  assumes "\<forall>c \<in> set cs. \<not> isPrivilegedTool (tool_name c)"
  shows "(dm_world (snd (run_tools E M cs d)) = dm_world d \<or> (\<exists>c \<in> set cs. lifecycle_call c))
    \<and> (issue_file (snd (run_tools E M cs d)) = issue_file d \<or> (\<exists>c \<in> set cs. issue_call c))
    \<and> dm_fs (snd (run_tools E M cs d)) = dm_fs d \<and> dm_studies (snd (run_tools E M cs d)) = dm_studies d"
  using assms
proof (induction cs arbitrary: d)
  case (Cons c cs)
  with open_tool [of c E M d] Cons.IH [of "snd (run_tool E M c d)"] show ?case
    by (auto simp: case_prod_beta)
qed simp


section \<open>Examples\<close>

definition demo_registered :: service where
  "demo_registered = zero_service\<lparr>sv_name := ''api'', sv_type := TypeBinary, sv_status := StatusRunning,
     sv_args := [''-v''], sv_watch_paths := [''/src''], sv_drain_window := 90500000000\<rparr>"

definition demo_up :: world where
  "demo_up = (fresh_world '''')\<lparr>w_reg := (reg_load None)\<lparr>rg_services := [(''api'', demo_registered)]\<rparr>\<rparr>"


theorem front_ends_respect_gate_witness:
  "\<forall>d router R q parse K M mq.
     dm_world (snd (serve router demo_outside R ''dev'' ''t0p'' q (d\<lparr>dm_world := demo_booting\<rparr>))) = demo_booting
     \<and> dm_world (snd (mcp_serve parse K demo_outside M ''t0p'' mq (d\<lparr>dm_world := demo_booting\<rparr>))) = demo_booting"
proof (intro allI)
  fix d :: daemon and router R q parse K M mq
  have "mutationsBlockedLocked (w_startup (dm_world (d\<lparr>dm_world := demo_booting\<rparr>)))"
    by (simp add: demo_booting_def BeginStartup_def Let_def tracker_begin_def mutationsBlockedLocked_def)
  from front_ends_respect_gate [OF this]
  show "dm_world (snd (serve router demo_outside R ''dev'' ''t0p'' q (d\<lparr>dm_world := demo_booting\<rparr>))) = demo_booting
     \<and> dm_world (snd (mcp_serve parse K demo_outside M ''t0p'' mq (d\<lparr>dm_world := demo_booting\<rparr>))) = demo_booting"
    by simp
qed

text \<open>An SDK that makes the one call it finds in a body.\<close>

definition demo_parse :: "string \<Rightarrow> json option" where
  "demo_parse body =
     (if body = ''stop'' then Some (JObj [(''method'', JStr ''tools/call''), (''params'', JObj [(''name'', JStr ''anito_stop'')])])
      else if body = ''services''
      then Some (JObj [(''params'', JObj [(''name'', JStr ''anito_services'')]), (''method'', JStr ''tools/call'')])
      else None)"

definition demo_sdk :: sdk where
  "demo_sdk = \<lparr>sk_calls = (\<lambda>q. if mq_Method q \<noteq> ''POST'' then []
                              else if mq_Body q = Some ''stop'' then [CallStop ''api'']
                              else if mq_Body q = Some ''services'' then [CallServices] else []),
               sk_session = (\<lambda>_. '''')\<rparr>"

definition demo_mcp_request :: "string \<Rightarrow> mcp_request" where
  "demo_mcp_request body = \<lparr>mq_Method = ''POST'', mq_Header = (\<lambda>_. ''''), mq_Body = Some body\<rparr>"

lemma demo_messages:
  "rpc_messages demo_parse ''stop'' = [\<lparr>rpc_Method = ''tools/call'', rpc_Name = ''anito_stop''\<rparr>]"
  "rpc_messages demo_parse ''services'' = [\<lparr>rpc_Method = ''tools/call'', rpc_Name = ''anito_services''\<rparr>]"
  by code_simp+

lemma demo_sdk_sound: "sound_sdk demo_parse demo_sdk"
  by (auto simp: sound_sdk_def demo_sdk_def demo_messages)


end
