(* ===== verification/Client.thy ===== *)
theory Client
  imports Server_Props
begin

text \<open>
  \<^verbatim>\<open>internal/client/client.go\<close>: the client of the HTTP API. A call loads the token, builds a
  request, sends it through a transport and turns the answer into a result or an error. The transport is
  any function from requests to answers with a state; the daemon's own \<open>serve\<close> is one. Bodies of answers
  are typed, so decoding one is a partial function on them; encoders of request bodies are parameters.
\<close>

section \<open>Requests\<close>

datatype client_err = ClientErr err | ClientDomain domain_error

type_synonym 's transport = "http_request \<Rightarrow> 's \<Rightarrow> (err + reply) \<times> 's"

text \<open>The environment of the client: its token, the text of a body, the text of a status, and the encoders.\<close>

record client_env =
  ce_auth :: auth_env
  ce_text :: "body \<Rightarrow> string"
  ce_status :: "nat \<Rightarrow> string"
  ce_deploy :: "http_deploy \<Rightarrow> string"
  ce_issue :: "issue \<Rightarrow> string"
  ce_teardown :: "string \<Rightarrow> string"

definition unreachable :: "err \<Rightarrow> client_err" where
  "unreachable e =
     ClientErr (Errorf (''daemon unreachable '' @ em_dash @ '' is anito running? (try: anito daemon): %w'') [FErr e])"

definition NewRequest :: "string \<Rightarrow> string \<Rightarrow> string \<Rightarrow> err + http_request" where
  "NewRequest meth path body =
     (case url_parse path of
        None \<Rightarrow> Inl (Errorf ''parse %q: invalid URL'' [FStr path])
      | Some u \<Rightarrow>
          Inr \<lparr>hq_Method = meth, hq_Path = ur_Path u, hq_RawPath = ur_RawPath u,
               hq_Query = query_get (ParseQuery (ur_Query u)), hq_Header = (\<lambda>_. ''''), hq_Body = body,
               hq_ContentLength = int (length body)\<rparr>)"

definition client_do ::
    "auth_env \<Rightarrow> 's transport \<Rightarrow> http_request \<Rightarrow> token_fs \<times> 's \<Rightarrow> (err + reply) \<times> token_fs \<times> 's" where
  "client_do A send q st =
     (case LoadClientToken A (fst st) of
        (Inl e, fs) \<Rightarrow> (Inl e, fs, snd st)
      | (Inr (token, source), fs) \<Rightarrow>
          (case send (q\<lparr>hq_Header := AttachToken token (hq_Header q)\<rparr>) (snd st) of (x, s) \<Rightarrow> (x, fs, s)))"

section \<open>Errors\<close>

text \<open>What \<^verbatim>\<open>FromWire\<close> finds in a body: the code and message of a wire error, also that of the gate.\<close>

definition body_error :: "body \<Rightarrow> domain_error option" where
  "body_error b =
     (case b of
        BodyWire w \<Rightarrow> FromWire (Some w)
      | BodyGate msg phase completed n \<Rightarrow>
          FromWire (Some \<lparr>we_code = ''conflict'', we_error = msg, we_message = msg, we_details = []\<rparr>)
      | _ \<Rightarrow> None)"

definition parseError :: "client_env \<Rightarrow> reply \<Rightarrow> client_err" where
  "parseError C r =
     (case body_error (rp_body r) of
        Some de \<Rightarrow> ClientDomain de
      | None \<Rightarrow>
          (let text = ce_text C (rp_body r);
               msg = if text = '''' then ce_status C (rp_status r) else text in
           ClientErr (Errorf ''daemon error %d: %s'' [FInt (int (rp_status r)), FStr msg])))"

section \<open>Calls\<close>

definition json_error :: client_err where
  "json_error = ClientErr (IOError ''json: cannot unmarshal the answer'')"

text \<open>An answer below 400 is decoded.\<close>

definition client_call ::
    "client_env \<Rightarrow> 's transport \<Rightarrow> string \<Rightarrow> string \<Rightarrow> string \<Rightarrow> (string \<times> string) list \<Rightarrow> (body \<Rightarrow> 'a option)
     \<Rightarrow> token_fs \<times> 's \<Rightarrow> (client_err + 'a) \<times> token_fs \<times> 's" where
  "client_call C send meth path body headers decode st =
     (case NewRequest meth path body of
        Inl e \<Rightarrow> (Inl (ClientErr e), st)
      | Inr q \<Rightarrow>
          (case client_do (ce_auth C) send (q\<lparr>hq_Header := (\<lambda>h. query_get headers h)\<rparr>) st of
             (Inl e, st1) \<Rightarrow> (Inl (unreachable e), st1)
           | (Inr r, st1) \<Rightarrow>
               (if 400 \<le> rp_status r then Inl (parseError C r)
                else (case decode (rp_body r) of None \<Rightarrow> Inl json_error | Some x \<Rightarrow> Inr x), st1)))"

definition getJSON ::
    "client_env \<Rightarrow> 's transport \<Rightarrow> string \<Rightarrow> (body \<Rightarrow> 'a option) \<Rightarrow> token_fs \<times> 's \<Rightarrow> (client_err + 'a) \<times> token_fs \<times> 's" where
  "getJSON C send path decode = client_call C send ''GET'' path '''' [] decode"

definition postJSON ::
    "client_env \<Rightarrow> 's transport \<Rightarrow> string \<Rightarrow> string \<Rightarrow> (body \<Rightarrow> 'a option) \<Rightarrow> token_fs \<times> 's
     \<Rightarrow> (client_err + 'a) \<times> token_fs \<times> 's" where
  "postJSON C send path body decode =
     client_call C send ''POST'' path body [(''Content-Type'', ''application/json'')] decode"

text \<open>Decoders of the answers. A null is the zero value; an object fills the fields it knows, so that any
  other object also decodes, which the handlers never give for these routes.\<close>

definition as_service :: "body \<Rightarrow> service option" where
  "as_service b = (case b of BodyService (Some s) \<Rightarrow> Some s | BodyService None \<Rightarrow> Some zero_service | _ \<Rightarrow> None)"

definition as_nothing :: "body \<Rightarrow> unit option" where
  "as_nothing b = Some ()"

text \<open>A map of strings takes an object only when every value is a string: the answer of \<^verbatim>\<open>/health\<close>
  holds an object under \<^verbatim>\<open>startup\<close>.\<close>

definition as_strings :: "body \<Rightarrow> string gomap option" where
  "as_strings b =
     (case b of
        BodyOp status name \<Rightarrow> Some [(''status'', status), (''name'', name)]
      | BodyMessage msg \<Rightarrow> Some [(''message'', msg)]
      | _ \<Rightarrow> None)"

definition ClientDeploy :: "client_env \<Rightarrow> 's transport \<Rightarrow> http_deploy \<Rightarrow> token_fs \<times> 's \<Rightarrow> (client_err + service) \<times> token_fs \<times> 's" where
  "ClientDeploy C send req = postJSON C send ''/deploy'' (ce_deploy C req) as_service"

definition ClientServices :: "client_env \<Rightarrow> 's transport \<Rightarrow> token_fs \<times> 's \<Rightarrow> (client_err + service list) \<times> token_fs \<times> 's" where
  "ClientServices C send = getJSON C send ''/services'' (\<lambda>b. case b of BodyServices ss \<Rightarrow> Some ss | _ \<Rightarrow> None)"

definition ClientStatus :: "client_env \<Rightarrow> 's transport \<Rightarrow> string \<Rightarrow> token_fs \<times> 's \<Rightarrow> (client_err + service) \<times> token_fs \<times> 's" where
  "ClientStatus C send name = getJSON C send (''/status/'' @ name) as_service"

definition ClientStop :: "client_env \<Rightarrow> 's transport \<Rightarrow> string \<Rightarrow> token_fs \<times> 's \<Rightarrow> (client_err + unit) \<times> token_fs \<times> 's" where
  "ClientStop C send name = postJSON C send (''/stop/'' @ name) '''' as_nothing"

definition ClientRestart :: "client_env \<Rightarrow> 's transport \<Rightarrow> string \<Rightarrow> token_fs \<times> 's \<Rightarrow> (client_err + unit) \<times> token_fs \<times> 's" where
  "ClientRestart C send name = postJSON C send (''/restart/'' @ name) '''' as_nothing"

definition ClientRollback :: "client_env \<Rightarrow> 's transport \<Rightarrow> string \<Rightarrow> token_fs \<times> 's \<Rightarrow> (client_err + service) \<times> token_fs \<times> 's" where
  "ClientRollback C send name = postJSON C send (''/rollback/'' @ name) '''' as_service"

definition ClientRemove :: "client_env \<Rightarrow> 's transport \<Rightarrow> string \<Rightarrow> token_fs \<times> 's \<Rightarrow> (client_err + unit) \<times> token_fs \<times> 's" where
  "ClientRemove C send name = postJSON C send (''/remove/'' @ name) '''' as_nothing"

definition DaemonVersion :: "client_env \<Rightarrow> 's transport \<Rightarrow> token_fs \<times> 's \<Rightarrow> (client_err + string) \<times> token_fs \<times> 's" where
  "DaemonVersion C send st =
     (case getJSON C send ''/health'' as_strings st of
        (Inl e, st1) \<Rightarrow> (Inl e, st1)
      | (Inr m, st1) \<Rightarrow> (Inr (query_get m ''version''), st1))"

definition ClientLogs ::
    "client_env \<Rightarrow> 's transport \<Rightarrow> string \<Rightarrow> int \<Rightarrow> token_fs \<times> 's \<Rightarrow> (client_err + string list) \<times> token_fs \<times> 's" where
  "ClientLogs C send name n =
     getJSON C send (''/logs/'' @ name @ ''?lines='' @ show_int n)
       (\<lambda>b. case b of BodyLines ls \<Rightarrow> Some ls | _ \<Rightarrow> None)"

definition diagnose_path :: "diag_request \<Rightarrow> string" where
  "diagnose_path req =
     (let parts = (if dq_ServiceName req \<noteq> '''' then [''service_name='' @ QueryEscape (dq_ServiceName req)] else []) @
                  (if dq_RepoPath req \<noteq> '''' then [''path='' @ QueryEscape (dq_RepoPath req)] else [])
      in ''/diagnose'' @ (if parts \<noteq> [] then ''?'' @ str_join ''&'' parts else ''''))"

definition ClientDiagnose ::
    "client_env \<Rightarrow> 's transport \<Rightarrow> diag_request \<Rightarrow> token_fs \<times> 's \<Rightarrow> (client_err + diag_result) \<times> token_fs \<times> 's" where
  "ClientDiagnose C send req =
     getJSON C send (diagnose_path req) (\<lambda>b. case b of BodyDiagnosis r \<Rightarrow> Some r | _ \<Rightarrow> None)"

text \<open>Following a log gives what is printed; the error is the one of the scanner.\<close>

definition LogsFollow ::
    "client_env \<Rightarrow> 's transport \<Rightarrow> string \<Rightarrow> int \<Rightarrow> token_fs \<times> 's
     \<Rightarrow> (client_err + (string list \<times> err option)) \<times> token_fs \<times> 's" where
  "LogsFollow C send name backlog =
     client_call C send ''GET'' (''/logs/'' @ name @ ''?lines='' @ show_int backlog @ ''&follow=true'') '''' []
       (\<lambda>b. Some (case follow_text (case b of BodyEvents text \<Rightarrow> text | _ \<Rightarrow> ce_text C b) of
              (ls, too_long) \<Rightarrow> (ls, if too_long then Some (IOError ''bufio.Scanner: token too long'') else None)))"

definition issues_path :: "int \<Rightarrow> string \<Rightarrow> string" where
  "issues_path n source =
     ''/issues?lines='' @ show_int n @ (if source \<noteq> '''' then ''&source='' @ source else '''')"

definition ClientIssues ::
    "client_env \<Rightarrow> 's transport \<Rightarrow> int \<Rightarrow> string \<Rightarrow> token_fs \<times> 's \<Rightarrow> (client_err + issue list) \<times> token_fs \<times> 's" where
  "ClientIssues C send n source =
     getJSON C send (issues_path n source) (\<lambda>b. case b of BodyIssues ls \<Rightarrow> Some ls | _ \<Rightarrow> None)"

definition ClientReport :: "client_env \<Rightarrow> 's transport \<Rightarrow> issue \<Rightarrow> token_fs \<times> 's \<Rightarrow> (client_err + unit) \<times> token_fs \<times> 's" where
  "ClientReport C send i = postJSON C send ''/issues'' (ce_issue C i) as_nothing"

definition ClientTeardown ::
    "client_env \<Rightarrow> 's transport \<Rightarrow> string \<Rightarrow> token_fs \<times> 's \<Rightarrow> (client_err + string list) \<times> token_fs \<times> 's" where
  "ClientTeardown C send repo =
     postJSON C send ''/teardown'' (ce_teardown C repo) (\<lambda>b. case b of BodyRemoved ls n \<Rightarrow> Some ls | _ \<Rightarrow> None)"

end
