(* ===== verification/Cli.thy ===== *)
theory Cli
  imports Client Mcp
begin

text \<open>
  \<^verbatim>\<open>cmd/anito/main.go\<close> and \<^verbatim>\<open>cmd/anito/doctor.go\<close>: the commands of the binary that talk to
  a daemon or look at a repository. A command gives an exit code, what it prints and the state it leaves: the
  token file, the files of the repository and the far end of the transport. The rows of a table are kept
  unaligned; what a build prints is left out. Reading the arguments is in \<open>Cli_Args\<close>.
\<close>

section \<open>Output and state\<close>

datatype printed = Out string | ErrOut string | Logged string | Table "string list list"

type_synonym run = "nat \<times> printed list"

record 's cli_state =
  cs_token :: token_fs
  cs_repo :: setup_fs
  cs_daemon :: 's

record cli_env =
  ci_client :: client_env
  ci_cwd :: "err + string"
  ci_read :: "string \<Rightarrow> err + string"
  ci_yaml :: "string \<Rightarrow> err + config"
  ci_isdir :: "string \<Rightarrow> bool"
  ci_build :: "string \<Rightarrow> string \<Rightarrow> err option"
  ci_doctor :: doctor_env
  ci_repo :: repo_env
  ci_apply :: fs_env
  ci_date :: "int \<Rightarrow> string"

text \<open>What else is printed as UTF-8.\<close>

definition cross_mark :: string where "cross_mark = [CHR 0xE2, CHR 0x9C, CHR 0x97]"
definition warning_sign :: string where "warning_sign = [CHR 0xE2, CHR 0x9A, CHR 0xA0]"
definition info_sign :: string where "info_sign = [CHR 0xE2, CHR 0x84, CHR 0xB9]"

text \<open>\<^verbatim>\<open>fatal\<close> looks for a coded error in the chain.\<close>

definition client_domain :: "client_err \<Rightarrow> domain_error option" where
  "client_domain e = (case e of ClientDomain de \<Rightarrow> Some de | ClientErr e1 \<Rightarrow> as_domain e1)"

definition client_text :: "client_err \<Rightarrow> string" where
  "client_text e =
     (case e of
        ClientDomain de \<Rightarrow> de_message de
      | ClientErr e1 \<Rightarrow> err_text e1)"

definition fatal :: "printed list \<Rightarrow> client_err \<Rightarrow> run" where
  "fatal before e =
     (1, before @
        [ErrOut (case client_domain e of
                   Some de \<Rightarrow> sprintf (''error [%s]: %s'' @ [newline]) [de_code de, de_message de]
                 | None \<Rightarrow> ''error: '' @ client_text e @ [newline])])"

definition on_daemon ::
    "(token_fs \<times> 's \<Rightarrow> (client_err + 'a) \<times> token_fs \<times> 's) \<Rightarrow> 's cli_state \<Rightarrow> (client_err + 'a) \<times> 's cli_state" where
  "on_daemon call st =
     (case call (cs_token st, cs_daemon st) of
        (x, fs, s) \<Rightarrow> (x, st\<lparr>cs_token := fs, cs_daemon := s\<rparr>))"

definition shown :: "printed list \<Rightarrow> ('a \<Rightarrow> run) \<Rightarrow> (client_err + 'a) \<times> 's cli_state \<Rightarrow> run \<times> 's cli_state" where
  "shown before good r =
     (case r of
        (Inl e, st) \<Rightarrow> (fatal before e, st)
      | (Inr x, st) \<Rightarrow> ((fst (good x), before @ snd (good x)), st))"

section \<open>Deploying\<close>

definition hasSingleDefault :: "ports \<Rightarrow> bool" where
  "hasSingleDefault ps = (if length ps \<noteq> 1 then False else map_of ps ''default'' \<noteq> None)"

definition port_desc :: "config \<Rightarrow> string" where
  "port_desc cfg =
     (case cf_Ports cfg of
        [] \<Rightarrow> ''auto''
      | [(_, p)] \<Rightarrow> if p \<noteq> 0 then AddressFor (cf_ProxyBindAddress cfg) p else ''auto''
      | ps \<Rightarrow> show_nat (length ps) @ '' ports'')"

text \<open>The ports of the request: all of them, or the one of a single port.\<close>

definition request_ports :: "config \<Rightarrow> int \<times> ports" where
  "request_ports cfg =
     (if 1 < length (cf_Ports cfg) \<or> (length (cf_Ports cfg) = 1 \<and> \<not> hasSingleDefault (cf_Ports cfg))
      then (0, cf_Ports cfg)
      else if cf_Port cfg \<noteq> 0 then (cf_Port cfg, [])
      else case map_of (cf_Ports cfg) ''default'' of Some p \<Rightarrow> (p, []) | None \<Rightarrow> (0, []))"

definition env_file_at :: "string \<Rightarrow> config \<Rightarrow> string" where
  "env_file_at absConfig cfg =
     (if cf_EnvFile cfg \<noteq> '''' \<and> \<not> IsAbs (cf_EnvFile cfg) then path_join [path_dir absConfig, cf_EnvFile cfg]
      else cf_EnvFile cfg)"

definition deploy_payload :: "config \<Rightarrow> string \<Rightarrow> string \<Rightarrow> http_deploy" where
  "deploy_payload cfg absConfig absOutput =
     \<lparr>hd_Name = cf_Name cfg, hd_Version = cf_Version cfg, hd_VersionPath = cf_VersionPath cfg,
      hd_Type = type_of_text (cf_Type cfg), hd_Path = absOutput, hd_Args = cf_Args cfg,
      hd_StablePort = fst (request_ports cfg), hd_StablePorts = snd (request_ports cfg),
      hd_ProxyBindAddress = cf_ProxyBindAddress cfg, hd_HealthCheckPort = cf_HealthCheckPort cfg,
      hd_EnvFile = env_file_at absConfig cfg, hd_HealthCheck = cf_HealthCheck cfg, hd_WatchPaths = cf_Watch cfg,
      hd_DrainWindow = (if cf_DrainWindow cfg \<noteq> 0 then duration_text (cf_DrainWindow cfg) else ''''),
      hd_HealthCheckTimeout =
        (if cf_HealthCheckTimeout cfg \<noteq> 0 then duration_text (cf_HealthCheckTimeout cfg) else ''''),
      hd_RestartPolicy = cf_RestartPolicy cfg, hd_ConfigPath = absConfig\<rparr>"

definition cli_config :: "cli_env \<Rightarrow> string \<Rightarrow> err + config" where
  "cli_config C configPath = config_load (ci_read C) (ci_yaml C) (ci_cwd C) configPath"

definition runDeploy :: "cli_env \<Rightarrow> 's transport \<Rightarrow> string \<Rightarrow> 's cli_state \<Rightarrow> run \<times> 's cli_state" where
  "runDeploy C send configPath st =
     (case cli_config C configPath of
        Inl e \<Rightarrow> (fatal [] (ClientErr e), st)
      | Inr cfg \<Rightarrow>
          (case go_abs (ci_cwd C) configPath of
             Inl e \<Rightarrow> (fatal [] (ClientErr e), st)
           | Inr absConfig \<Rightarrow>
               (case go_abs (ci_cwd C) (cf_Output cfg) of
                  Inl e \<Rightarrow> (fatal [] (ClientErr e), st)
                | Inr absOutput \<Rightarrow>
                    (let building = (if cf_Build cfg \<noteq> '''' then [Out (sprintf (''building %s...'' @ [newline]) [cf_Name cfg])] else []) in
                     case (if cf_Build cfg \<noteq> '''' then ci_build C (cf_Build cfg) (BuildDir absConfig) else None) of
                       Some e \<Rightarrow> ((1, building @ [Logged (''build failed: '' @ err_text e)]), st)
                     | None \<Rightarrow>
                         shown (building @ [Out (sprintf (''deploying %s '' @ right_arrow @ '' %s...'' @ [newline]) [cf_Name cfg, port_desc cfg])])
                           (\<lambda>svc. (0, [Out (sprintf (check_mark @ '' %s%s running on %s'' @ [newline])
                                     [sv_name svc,
                                      (if sv_version svc \<noteq> '''' then '' ('' @ sv_version svc @ '')'' else ''''),
                                      Address svc])]))
                           (on_daemon (ClientDeploy (ci_client C) send (deploy_payload cfg absConfig absOutput)) st)))))"

definition runPromote :: "cli_env \<Rightarrow> 's transport \<Rightarrow> string \<Rightarrow> string \<Rightarrow> 's cli_state \<Rightarrow> run \<times> 's cli_state" where
  "runPromote C send configPath devName st =
     (case cli_config C configPath of
        Inl e \<Rightarrow> (fatal [] (ClientErr e), st)
      | Inr cfg \<Rightarrow>
          if cf_Build cfg = ''''
          then (fatal [] (ClientErr (Errorf (''config %s has no build command '' @ em_dash @ '' nothing to promote'') [FStr configPath])), st)
          else
            (case runDeploy C send configPath st of
               ((code, out), st1) \<Rightarrow>
                 ((code, (if devName \<noteq> '''' then Out (sprintf (''promoting %s '' @ right_arrow @ '' %s...'' @ [newline]) [devName, cf_Name cfg])
                          else Out (sprintf (''promoting %s...'' @ [newline]) [cf_Name cfg])) # out), st1)))"

section \<open>Looking at services\<close>

primrec status_text :: "service_status \<Rightarrow> string" where
  "status_text StatusRunning = ''running''"
| "status_text StatusStopped = ''stopped''"
| "status_text StatusFailed = ''failed''"
| "status_text StatusOrphaned = ''orphaned''"
| "status_text StatusArchived = ''archived''"
| "status_text (StatusOther s) = s"

definition service_row :: "cli_env \<Rightarrow> service \<Rightarrow> string list" where
  "service_row C s =
     [sv_name s, '':'' @ show_int (sv_stable_port s), status_text (sv_status s),
      (if 0 < sv_pid s then show_int (sv_pid s) else ''-''),
      (if sv_version s = '''' then ''-'' else sv_version s), ci_date C (sv_deployed_at s)]"

definition ports_in_range :: "service list \<Rightarrow> nat" where
  "ports_in_range svcs = length (filter (\<lambda>s. 8100 \<le> sv_stable_port s \<and> sv_stable_port s \<le> 8200) svcs)"

definition runServices :: "cli_env \<Rightarrow> 's transport \<Rightarrow> 's cli_state \<Rightarrow> run \<times> 's cli_state" where
  "runServices C send st =
     shown []
       (\<lambda>svcs.
          if svcs = [] then (0, [Out (''no services registered'' @ [newline])])
          else (0, [Table ([''NAME'', ''PORT'', ''STATUS'', ''PID'', ''VERSION'', ''DEPLOYED''] # map (service_row C) svcs),
                    Out (sprintf ([newline] @ ''Ports: %d/%d in use (%d'' @ en_dash @ ''%d)'' @ [newline])
                           [show_nat (ports_in_range svcs), show_nat (8200 - 8100 + 1), show_nat 8100, show_nat 8200])]))
       (on_daemon (ClientServices (ci_client C) send) st)"

definition status_lines :: "cli_env \<Rightarrow> service \<Rightarrow> printed list" where
  "status_lines C svc =
     [Out (sprintf (''name:          %s'' @ [newline]) [sv_name svc]),
      Out (sprintf (''version:       %s'' @ [newline]) [sv_version svc]),
      Out (sprintf (''type:          %s'' @ [newline]) [type_text (sv_type svc)]),
      Out (sprintf (''port:          %s'' @ [newline]) [Address svc]),
      Out (sprintf (''status:        %s'' @ [newline]) [status_text (sv_status svc)])] @
     (if 0 < sv_pid svc
      then [Out (sprintf (''pid:           %d (internal :%d)'' @ [newline]) [show_int (sv_pid svc), show_int (sv_internal_port svc)])]
      else []) @
     [Out (sprintf (''binary:        %s'' @ [newline]) [sv_binary_path svc]),
      (if sv_config_path svc \<noteq> '''' then Out (sprintf (''config:        %s'' @ [newline]) [sv_config_path svc])
       else Out (''config:        (none recorded '' @ em_dash @ '' redeploy to track)'' @ [newline])),
      Out (sprintf (''deployed:      %s'' @ [newline]) [ci_date C (sv_deployed_at svc)]),
      Out (sprintf (''updated:       %s'' @ [newline]) [ci_date C (sv_updated_at svc)])]"

definition runStatus :: "cli_env \<Rightarrow> 's transport \<Rightarrow> string \<Rightarrow> 's cli_state \<Rightarrow> run \<times> 's cli_state" where
  "runStatus C send name st =
     shown [] (\<lambda>svc. (0, status_lines C svc)) (on_daemon (ClientStatus (ci_client C) send name) st)"

definition issue_row :: "cli_env \<Rightarrow> issue \<Rightarrow> string list" where
  "issue_row C iss =
     (let msg = is_Error iss in
      [ci_date C (is_Timestamp iss), is_Severity iss, is_Source iss,
       (if 60 < length msg then take 57 msg @ ''...'' else msg)])"

definition runIssues :: "cli_env \<Rightarrow> 's transport \<Rightarrow> int \<Rightarrow> string \<Rightarrow> 's cli_state \<Rightarrow> run \<times> 's cli_state" where
  "runIssues C send n source st =
     shown []
       (\<lambda>ls. if ls = [] then (0, [Out (''no issues logged'' @ [newline])])
              else (0, [Table ([''TIME'', ''SEVERITY'', ''SOURCE'', ''ERROR''] # map (issue_row C) ls)]))
       (on_daemon (ClientIssues (ci_client C) send n source) st)"

definition runLogs :: "cli_env \<Rightarrow> 's transport \<Rightarrow> string \<Rightarrow> 's cli_state \<Rightarrow> run \<times> 's cli_state" where
  "runLogs C send name st =
     shown [] (\<lambda>ls. (0, map (\<lambda>l. Out (l @ [newline])) ls)) (on_daemon (ClientLogs (ci_client C) send name 100) st)"

section \<open>Diagnosis and doctor\<close>

definition diagnose_request :: "cli_env \<Rightarrow> string list \<Rightarrow> diag_request" where
  "diagnose_request C args =
     (case args of
        [] \<Rightarrow> \<lparr>dq_ServiceName = '''', dq_RepoPath = ''.''\<rparr>
      | target # _ \<Rightarrow>
          if ci_isdir C target then \<lparr>dq_ServiceName = '''', dq_RepoPath = target\<rparr>
          else \<lparr>dq_ServiceName = target, dq_RepoPath = ''''\<rparr>)"

definition finding_lines :: "finding \<Rightarrow> printed list" where
  "finding_lines f =
     [Out (sprintf (''[%s:%s] %s%s%s'' @ [newline])
        [code_text (fi_Code f), (if fi_Severity f \<noteq> '''' then fi_Severity f else ''info''),
         (if fi_Scope f \<noteq> '''' then fi_Scope f @ '' '' else ''''),
         (if fi_Field f \<noteq> '''' then fi_Field f @ '': '' else ''''), fi_Message f])] @
     (if fi_Action f \<noteq> '''' then [Out (sprintf (''  -> %s'' @ [newline]) [fi_Action f])] else [])"

definition diagnosis_run :: "diag_result \<Rightarrow> run" where
  "diagnosis_run r =
     (let service = (case dg_Service r of
                       None \<Rightarrow> []
                     | Some s \<Rightarrow> [Out (sprintf (''service: %s (%s)'' @ [newline]) [sn_Name s, status_text (sn_Status s)])])
      in if dg_Healthy r then (0, service @ [Out (check_mark @ '' no diagnosis findings'' @ [newline])])
         else (if 0 < dg_Errors r then 1 else 0, service @ concat (map finding_lines (dg_Findings r))))"

definition runDiagnose :: "cli_env \<Rightarrow> 's transport \<Rightarrow> string list \<Rightarrow> 's cli_state \<Rightarrow> run \<times> 's cli_state" where
  "runDiagnose C send args st =
     shown [] diagnosis_run (on_daemon (ClientDiagnose (ci_client C) send (diagnose_request C args)) st)"

definition doctor_issue_lines :: "doctor_issue \<Rightarrow> printed list" where
  "doctor_issue_lines iss =
     (if di_Severity iss = ''error'' then [Out (sprintf (''  '' @ cross_mark @ '' [error] %s: %s'' @ [newline]) [di_Field iss, di_Message iss])]
      else if di_Severity iss = ''warning'' then [Out (sprintf (''  '' @ warning_sign @ '' [warn]  %s: %s'' @ [newline]) [di_Field iss, di_Message iss])]
      else if di_Severity iss = ''info'' then [Out (sprintf (''  '' @ info_sign @ '' [info]  %s: %s'' @ [newline]) [di_Field iss, di_Message iss])]
      else []) @
     (if di_Action iss \<noteq> '''' then [Out (sprintf (''    '' @ right_arrow @ '' %s'' @ [newline]) [di_Action iss])] else [])"

definition printConfigResult :: "config_result \<Rightarrow> printed list" where
  "printConfigResult cr =
     Out (sprintf (''anito doctor '' @ em_dash @ '' %s'' @ [newline] @ [newline]) [cr_ConfigFile cr]) #
     (if cr_ParseError cr \<noteq> '''' then [Out (sprintf (''  '' @ cross_mark @ '' could not parse config: %s'' @ [newline]) [cr_ParseError cr])]
      else
        Table [[''  name:'', cr_Name cr]] #
        (if cr_Issues cr = [] then [Out (''  '' @ check_mark @ '' no issues found'' @ [newline])]
         else concat (map doctor_issue_lines (cr_Issues cr))))"

definition doctor_run :: "doctor_result \<Rightarrow> run" where
  "doctor_run r =
     (if 0 < dt_Errors r then 1 else 0,
      (case dt_Configs r of
         [] \<Rightarrow> []
       | c # cs \<Rightarrow> printConfigResult c @ concat (map (\<lambda>cr. Out [newline] # printConfigResult cr) cs)) @
      [Out [newline],
       (if dt_Errors r = 0 \<and> dt_Warnings r = 0 then Out (check_mark @ '' all checks passed'' @ [newline])
        else if 0 < dt_Errors r
        then Out (sprintf (''%d error(s), %d warning(s)'' @ [newline]) [show_nat (dt_Errors r), show_nat (dt_Warnings r)])
        else Out (sprintf (''0 errors, %d warning(s)'' @ [newline]) [show_nat (dt_Warnings r)]))])"

text \<open>Whether a daemon answers, asked without a token.\<close>

definition isDaemonReachable :: "'s transport \<Rightarrow> 's cli_state \<Rightarrow> bool \<times> 's cli_state" where
  "isDaemonReachable send st =
     (case NewRequest ''GET'' ''/health'' '''' of
        Inl e \<Rightarrow> (False, st)
      | Inr q \<Rightarrow>
          (case send q (cs_daemon st) of
             (Inl e, s) \<Rightarrow> (False, st\<lparr>cs_daemon := s\<rparr>)
           | (Inr r, s) \<Rightarrow> (rp_status r = 200, st\<lparr>cs_daemon := s\<rparr>)))"

text \<open>The statuses a check asks for are all answered from the state it starts in.\<close>

definition client_fetcher :: "cli_env \<Rightarrow> 's transport \<Rightarrow> 's cli_state \<Rightarrow> status_fetcher" where
  "client_fetcher C send st name =
     (case fst (ClientStatus (ci_client C) send name (cs_token st, cs_daemon st)) of
        Inl e \<Rightarrow> Inl (IOError (client_text e))
      | Inr svc \<Rightarrow> Inr svc)"

definition runDoctor :: "cli_env \<Rightarrow> 's transport \<Rightarrow> string \<Rightarrow> 's cli_state \<Rightarrow> run \<times> 's cli_state" where
  "runDoctor C send repoPath st =
     (case isDaemonReachable send st of
        (reachable, st1) \<Rightarrow>
          (case doctor_Check (ci_doctor C) repoPath (if reachable then Some (client_fetcher C send st1) else None) of
             Inl e \<Rightarrow> (fatal [] (ClientErr e), st1)
           | Inr r \<Rightarrow> (doctor_run r, st1)))"

section \<open>Setting up\<close>

definition setup_mark :: "bool \<Rightarrow> string" where
  "setup_mark b = (if b then check_mark else cross_mark)"

definition inspection_lines :: "plan \<Rightarrow> printed list" where
  "inspection_lines p =
     [Out (sprintf (''inspecting %s...'' @ [newline] @ [newline]) [pl_RepoPath p]),
      Table [[''  language:'', language_text (pl_Language p)], [''  PORT env var:'', setup_mark (pl_HasPORT p)],
             [''  /health route:'', setup_mark (pl_HasHealthRoute p)],
             [''  .anito/config.yaml:'', setup_mark (pl_HasAnitoConfig p)]],
      Out [newline]] @
     (if pl_Issues p \<noteq> []
      then [Out (''issues:'' @ [newline])] @
           map (\<lambda>i. Out (sprintf (''  [%s] %s'' @ [newline] @ ''    '' @ right_arrow @ '' %s'' @ [newline]) [si_Severity i, si_What i, si_Fix i])) (pl_Issues p) @
           [Out [newline]]
      else [])"

definition next_lines :: "plan \<Rightarrow> printed list" where
  "next_lines p =
     [Out (''next steps:'' @ [newline])] @ map (\<lambda>step. Out (sprintf (''  %s'' @ [newline]) [step])) (pl_Instructions p) @
     (if pl_Issues p = [] then [Out ([newline] @ check_mark @ '' repo is Anito-ready. Run `anito deploy` to start.'' @ [newline])] else [])"

definition runSetup :: "cli_env \<Rightarrow> string \<Rightarrow> 's cli_state \<Rightarrow> run \<times> 's cli_state" where
  "runSetup C path st =
     (case DryRun (ci_repo C) \<lparr>pr_Path = path, pr_Services = [], pr_Relationships = []\<rparr> None of
        Inl e \<Rightarrow> (fatal [] (ClientErr e), st)
      | Inr p \<Rightarrow>
          (let configPath = path_join [pl_RepoPath p, ''.anito'', ''config.yaml''] in
           if pl_GeneratedFiles p \<noteq> [] \<and> \<not> pl_HasAnitoConfig p
           then (case Apply (ci_apply C) (None :: unit reserver option) (Some p) () (cs_repo st) of
                   (Inl e, _, fs) \<Rightarrow> (fatal (inspection_lines p) (ClientErr e), st\<lparr>cs_repo := fs\<rparr>)
                 | (Inr _, _, fs) \<Rightarrow>
                     ((0, inspection_lines p @ [Out (sprintf (''wrote %s'' @ [newline] @ [newline]) [configPath])] @ next_lines p), st\<lparr>cs_repo := fs\<rparr>))
           else
             ((0, inspection_lines p @
                  (if pl_HasAnitoConfig p then [Out (sprintf (''config already exists at %s '' @ em_dash @ '' skipping write'' @ [newline] @ [newline]) [configPath])] else []) @
                  next_lines p), st)))"

end
