(* ===== verification/Boot.thy ===== *)
theory Boot
  imports Daemon Cli
begin

text \<open>
  \<^verbatim>\<open>runDaemon\<close> of \<^verbatim>\<open>cmd/anito/main.go\<close> with the constructors it calls: what the daemon has
  loaded, made and announced when its two servers start and the restore of its services begins. Restoring
  is \<open>RestoreAll\<close>, serving is \<open>serve\<close> and \<open>mcp_serve\<close>.
\<close>

section \<open>What is on the disk\<close>

datatype registry_answer = RegistryMissing | RegistryFailed err | RegistryJson registry_file

record boot_env =
  be_mkdir :: "string \<Rightarrow> err option"
  be_registry :: "string \<Rightarrow> registry_answer"
  be_issues :: "string \<Rightarrow> issues_file"
  be_ids :: id_state
  be_sessions :: "string \<Rightarrow> sessions_file"
  be_session_now :: "nat \<Rightarrow> int"
  be_session_disk :: "err option"
  be_auth :: auth_env
  be_outside :: outside
  be_receipts :: receipt_fs
  be_repo :: setup_fs
  be_studies :: studies
  be_serving :: err

section \<open>The parts\<close>

definition registry_New :: "boot_env \<Rightarrow> string \<Rightarrow> err + registry" where
  "registry_New B dataDir =
     (case be_mkdir B dataDir of
        Some e \<Rightarrow> Inl e
      | None \<Rightarrow>
          (case be_registry B (path_join [dataDir, ''registry.json'']) of
             RegistryMissing \<Rightarrow> Inr (reg_load None)
           | RegistryFailed e \<Rightarrow> Inl e
           | RegistryJson f \<Rightarrow> Inr (reg_load (Some f))))"

definition process_New :: "boot_env \<Rightarrow> string \<Rightarrow> err + procmgr" where
  "process_New B logDir = (case be_mkdir B logDir of Some e \<Rightarrow> Inl e | None \<Rightarrow> Inr (NewProcesses logDir))"

definition issues_New :: "boot_env \<Rightarrow> string \<Rightarrow> issue_store" where
  "issues_New B dataDir =
     (let path = path_join [dataDir, ''issues.jsonl''] in
      \<lparr>st_path = path, st_file = be_issues B path, st_ids = be_ids B\<rparr>)"

definition service_New :: "boot_env \<Rightarrow> registry \<Rightarrow> procmgr \<Rightarrow> world" where
  "service_New B reg mgr =
     \<lparr>w_reg = reg, w_mgr = mgr, w_prx = NewProxy, w_watch = [], w_crashAttempts = [], w_startup = newStartupTracker,
      w_receipts = be_receipts B, w_issues = [], w_buildlogs = [], w_drains = [], w_crashq = [], w_deploysTotal = 0,
      w_crashesTotal = 0, w_tick = 0\<rparr>"

definition sessions_ready :: "boot_env \<Rightarrow> string \<Rightarrow> printed list \<times> session_store" where
  "sessions_ready B dataDir =
     (case SessionCleanup (be_session_now B) (be_session_disk B) (30 * 24 * 3600000000000)
             (NewSessions (be_sessions B (path_join [dataDir, ''sessions.json'']))) of
        (Inl e, s) \<Rightarrow> ([Logged (''warn: session cleanup: '' @ err_text e)], s)
      | (Inr n, s) \<Rightarrow>
          (if 0 < n then [Logged (sprintf (''[STARTUP] pruned %d stale MCP sessions'') [show_nat n])] else [], s))"

section \<open>Starting\<close>

text \<open>The daemon at the moment it starts to serve, or what is fatal; the token file is what it leaves.\<close>

definition boot ::
    "boot_env \<Rightarrow> string \<Rightarrow> int \<Rightarrow> int \<Rightarrow> string \<Rightarrow> token_fs \<Rightarrow> (printed list + daemon \<times> string) \<times> printed list \<times> token_fs" where
  "boot B version apiPort mcpPort dataDir fs =
     (let logDir = path_join [dataDir, ''logs''] in
      case registry_New B dataDir of
        Inl e \<Rightarrow> (Inl [Logged (''registry: '' @ err_text e)], [], fs)
      | Inr reg \<Rightarrow>
          (case process_New B logDir of
             Inl e \<Rightarrow> (Inl [Logged (''process manager: '' @ err_text e)], [], fs)
           | Inr mgr \<Rightarrow>
               (case sessions_ready B dataDir of
                  (out0, sess) \<Rightarrow>
                    (let out1 = out0 @ [Logged (sprintf (''[STARTUP] version=%s data=%s api=:%d mcp=:%d'')
                                                  [version, dataDir, show_int apiPort, show_int mcpPort])] in
                     case LoadOrCreateToken (be_auth B) fs of
                       (Inl e, fs1) \<Rightarrow> (Inl [Logged (''capability auth: '' @ err_text e)], out1, fs1)
                     | (Inr (token, source), fs1) \<Rightarrow>
                         (let w = BeginStartup (be_outside B) 4 (service_New B reg mgr) in
                          (Inr (\<lparr>dm_world = w, dm_issues = Some (issues_New B dataDir), dm_sessions = Some sess,
                                 dm_fs = be_repo B, dm_studies = be_studies B\<rparr>, token),
                           out1 @ [Logged (sprintf (''[STARTUP] capability auth source=%s'') [source])], fs1))))))"

text \<open>The options of the restore, and what it logs.\<close>

definition restore_opts :: restore_options where
  "restore_opts = \<lparr>ro_MaxParallel = 0, ro_IssueSource = ''daemon:restore_failed''\<rparr>"

definition restore_log :: "restore_all_result \<Rightarrow> printed list" where
  "restore_log r =
     [Logged (sprintf (''[STARTUP] restore complete total=%d targets=%d restored=%d failed=%d orphaned=%d skipped=%d bind_failed=%d'')
        (map show_int [ra_total r, ra_targets r, ra_restored r, ra_failed r, ra_orphaned r, ra_skipped r, ra_bind_failed r]))]"

definition daemonRestoreAll :: "boot_env \<Rightarrow> (target list \<Rightarrow> target list) \<Rightarrow> daemon \<Rightarrow> printed list \<times> daemon" where
  "daemonRestoreAll B order d =
     (case RestoreAll (be_outside B) order restore_opts (dm_world d) of
        (r, w) \<Rightarrow> (restore_log r, d\<lparr>dm_world := w\<rparr>))"

text \<open>The command: it ends only when the daemon cannot start or the server stops.\<close>

definition runDaemon :: "boot_env \<Rightarrow> string \<Rightarrow> int \<Rightarrow> int \<Rightarrow> string \<Rightarrow> token_fs \<Rightarrow> run \<times> token_fs" where
  "runDaemon B version apiPort mcpPort dataDir fs =
     (case boot B version apiPort mcpPort dataDir fs of
        (Inl dying, out, fs1) \<Rightarrow> ((1, out @ dying), fs1)
      | (Inr _, out, fs1) \<Rightarrow> ((1, out @ [Logged (err_text (be_serving B))]), fs1))"

text \<open>Whether a recorded process stands in the way of a start; the restore decides by itself.\<close>

definition restoreStartBlockedReason :: "(int \<Rightarrow> bool) \<Rightarrow> service option \<Rightarrow> string" where
  "restoreStartBlockedReason alive svc =
     (case svc of
        None \<Rightarrow> ''''
      | Some s \<Rightarrow>
          if sv_pid s \<le> 0 then ''''
          else if alive (sv_pid s)
          then sprintf (''recorded pid %d is still alive; refusing to start duplicate'') [show_int (sv_pid s)]
          else '''')"

end
