(* ===== verification/Boot_Props.thy ===== *)
theory Boot_Props
  imports Boot Restore_Props
begin

text \<open>
  A restart of the daemon: what it knew is there again, it serves only with a token, and it changes nothing
  until its services are restored.
\<close>

lemma service_New_inv:
  assumes "reg_inv reg" and "names_ok reg" and "process_New B logDir = Inr mgr"
  shows "world_inv (service_New B reg mgr)"
proof -
  have "mgr = NewProcesses logDir" using assms(3) by (simp add: process_New_def split: option.splits)
  then have "mg_inv mgr" by (simp add: mg_inv_def NewProcesses_def cmds_ok_def)
  with assms(1,2) show ?thesis by (simp add: world_inv_def service_New_def pm_inv_New)
qed

lemma BeginStartup_blocks: "mutationsBlockedLocked (w_startup (BeginStartup E n w))"
  by (simp add: BeginStartup_def Let_def tracker_begin_def mutationsBlockedLocked_def)

lemma BeginStartup_keeps [simp]:
  "world_inv (BeginStartup E n w) = world_inv w" "w_reg (BeginStartup E n w) = w_reg w"
  by (simp_all add: BeginStartup_def Let_def)

text \<open>Everything the registry says about its services follows from its two maps.\<close>

lemma registry_maps:
  assumes "rg_services r = rg_services s" and "rg_tombstones r = rg_tombstones s"
  shows "reg_inv r = reg_inv s" and "names_ok r = names_ok s" and "All r = All s"
    and "stable_ports_of r = stable_ports_of s"
  using assms
  by (auto simp: reg_inv_def reg_ok_def reg_synced_def names_ok_def All_def stable_ports_of_def Get_def fun_eq_iff)

lemma boot_parts:
  assumes "boot B version apiPort mcpPort dataDir fs = (Inr (d, token), out, fs1)"
  obtains reg mgr source where "registry_New B dataDir = Inr reg"
    "process_New B (path_join [dataDir, ''logs'']) = Inr mgr"
    "LoadOrCreateToken (be_auth B) fs = (Inr (token, source), fs1)"
    "dm_world d = BeginStartup (be_outside B) 4 (service_New B reg mgr)"
  using assms by (auto simp: boot_def Let_def split: sum.splits prod.splits)



end
