(* ===== verification/Client_Props.thy ===== *)
theory Client_Props
  imports Client
begin

text \<open>
  The client against the daemon: a call is the operation of the service layer, and the code of its error comes
  back; a query is read as it was written; and where the client and the server do not fit together.
\<close>

section \<open>Against the daemon\<close>

definition daemon_transport ::
    "router \<Rightarrow> outside \<Rightarrow> request_env \<Rightarrow> string \<Rightarrow> string \<Rightarrow> daemon transport" where
  "daemon_transport router E R version token q d =
     (case serve router E R version token q d of (r, d1) \<Rightarrow> (Inr r, d1))"

lemma AttachToken_authorized:
  "trim_space token \<noteq> '''' \<Longrightarrow> Authorized (AttachToken token h) token"
  by (simp add: Authorized_def AttachToken_def Let_def)

lemma client_call_daemon:
  assumes "\<forall>c \<in> set path. path_char c" and "router meth path = Found ep param"
    and "LoadClientToken (ce_auth C) fs = (Inr (token, source), fs')" and "trim_space token \<noteq> ''''"
  shows "\<exists>q. hq_Header q = AttachToken token (\<lambda>h. query_get headers h) \<and> hq_Body q = body \<and> hq_Query q = (\<lambda>_. '''')
    \<and> client_call C (daemon_transport router E R version token) meth path body headers decode (fs, d) =
      (case handle E R version ep param q d of
         (r, d1) \<Rightarrow> (if 400 \<le> rp_status r then Inl (parseError C r)
                     else (case decode (rp_body r) of None \<Rightarrow> Inl json_error | Some x \<Rightarrow> Inr x), fs', d1))"
proof -
  define q where "q = \<lparr>hq_Method = meth, hq_Path = path, hq_RawPath = '''', hq_Query = (\<lambda>_. '''' :: string),
    hq_Header = AttachToken token (\<lambda>h. query_get headers h), hq_Body = body, hq_ContentLength = int (length body)\<rparr>"
  have "query_get (ParseQuery '''') = (\<lambda>_. '''')" by (simp add: ParseQuery_def query_pair_def query_get_def fun_eq_iff)
  then have "NewRequest meth path body = Inr (q\<lparr>hq_Header := (\<lambda>_. '''')\<rparr>)"
    using plain_url [OF assms(1)] by (simp add: NewRequest_def q_def)
  moreover have "serve router E R version token q d = handle E R version ep param q d"
    using AttachToken_authorized [OF assms(4)] assms(2)
    by (simp add: serve_def capabilityMiddleware_def routed_path_def q_def)
  ultimately have "client_call C (daemon_transport router E R version token) meth path body headers decode (fs, d) =
      (case handle E R version ep param q d of
         (r, d1) \<Rightarrow> (if 400 \<le> rp_status r then Inl (parseError C r)
                     else (case decode (rp_body r) of None \<Rightarrow> Inl json_error | Some x \<Rightarrow> Inr x), fs', d1))"
    using assms(3)
    by (simp add: client_call_def client_do_def daemon_transport_def q_def case_prod_beta)
  then show ?thesis by (intro exI [of _ q]) (simp add: q_def)
qed

lemma service_reply_status: "400 \<le> rp_status (service_reply e)"
  by (simp add: service_reply_def answer_def domain_reply_def NewHTTPError_def domainHTTPStatus_def
      split: option.split code.split)


text \<open>The error the client builds from an answer.\<close>

lemma parseError_service_reply:
  "gateOf e = None \<Longrightarrow> CodeOf e = Some c \<Longrightarrow>
     \<exists>de. parseError C (service_reply e) = ClientDomain de \<and> de_code de = code_text c"
  "gateOf e = Some g \<Longrightarrow> \<exists>de. parseError C (service_reply e) = ClientDomain de \<and> de_code de = ''conflict''"
proof -
  assume e: "gateOf e = None" "CodeOf e = Some c"
  then obtain de where "as_domain e = Some de" "de_code de = code_text c" using CodeOf_as_domain(1) by blast
  moreover have "code_text c \<noteq> ''''" by (cases c) simp_all
  ultimately show "\<exists>de. parseError C (service_reply e) = ClientDomain de \<and> de_code de = code_text c"
    using e by (simp add: parseError_def body_error_def service_reply_def domain_reply_def answer_def ToWire_def
        FromWire_def wire_of_def Let_def)
next
  assume "gateOf e = Some g"
  then show "\<exists>de. parseError C (service_reply e) = ClientDomain de \<and> de_code de = ''conflict''"
    by (cases g) (simp add: parseError_def body_error_def service_reply_def answer_def FromWire_def Let_def)
qed

text \<open>Stopping a service through the client is stopping it in the daemon; what comes back is the operation's
  result, a coded error with its code, the startup gate as a conflict.\<close>

lemma client_stops_service:
  assumes "\<forall>c \<in> set name. path_char c" and "router ''POST'' (''/stop/'' @ name) = Found EpStop (\<lambda>_. name)"
    and "LoadClientToken (ce_auth C) fs = (Inr (token, source), fs')" and "trim_space token \<noteq> ''''"
    and "ServiceStop E name (dm_world d) = (x, w)"
  shows "\<exists>result. ClientStop C (daemon_transport router E R version token) name (fs, d) = (result, fs', d\<lparr>dm_world := w\<rparr>)
    \<and> (result = Inr () \<longleftrightarrow> x = Inr ())
    \<and> (\<forall>e c. x = Inl e \<and> CodeOf e = Some c \<and> gateOf e = None \<longrightarrow>
         (\<exists>de. result = Inl (ClientDomain de) \<and> de_code de = code_text c))
    \<and> (\<forall>e g. x = Inl e \<and> gateOf e = Some g \<longrightarrow>
         (\<exists>de. result = Inl (ClientDomain de) \<and> de_code de = ''conflict''))"
proof -
  have "\<forall>c \<in> set (''/stop/'' @ name). path_char c"
    using assms(1) by (auto simp: path_char_def unreserved_def Let_def)
  from client_call_daemon [where router = router and meth = "''POST''" and path = "''/stop/'' @ name", OF this assms(2-4),
      of "[(''Content-Type'', ''application/json'')]" "''''" E R version as_nothing d]
  have run: "ClientStop C (daemon_transport router E R version token) name (fs, d) =
      (case handleStop E name d of
         (r, d1) \<Rightarrow> (if 400 \<le> rp_status r then Inl (parseError C r) else Inr (), fs', d1))"
    by (auto simp: ClientStop_def postJSON_def handle_def as_nothing_def case_prod_beta)
  show ?thesis
  proof (cases x)
    case (Inl e)
    then show ?thesis
      using assms(5) parseError_service_reply [of e]
      by (cases "gateOf e") (auto simp: run handleStop_def svc_do_def respond_def service_reply_status)
  next
    case (Inr u)
    then show ?thesis
      using assms(5) by (simp add: run handleStop_def svc_do_def respond_def answer_def)
  qed
qed

definition demo_client :: client_env where
  "demo_client =
     \<lparr>ce_auth = demo_auth\<lparr>au_getenv := (\<lambda>_. ''t0p'')\<rparr>, ce_text = (\<lambda>_. ''''), ce_status = show_nat, ce_deploy = (\<lambda>_. ''{}''),
      ce_issue = (\<lambda>_. ''{}''), ce_teardown = (\<lambda>_. ''{}'')\<rparr>"

definition demo_stop_router :: router where
  "demo_stop_router meth path = (if path = ''/stop/api'' then Found EpStop (\<lambda>_. ''api'') else NoRoute)"

section \<open>Queries\<close>

text \<open>C39: The daemon diagnoses what the client was asked to: the service name and path of a diagnosis travel
  through the query of the URL unchanged, whatever characters they hold.\<close>

theorem diagnose_query_roundtrip:
  "\<exists>q. NewRequest ''GET'' (diagnose_path req) '''' = Inr q \<and> hq_Path q = ''/diagnose''
     \<and> hq_Query q ''service_name'' = dq_ServiceName req \<and> hq_Query q ''path'' = dq_RepoPath req"
proof -
  define qs where "qs = (if dq_ServiceName req \<noteq> '''' then [''service_name='' @ QueryEscape (dq_ServiceName req)] else []) @
                  (if dq_RepoPath req \<noteq> '''' then [''path='' @ QueryEscape (dq_RepoPath req)] else [])"
  have unres: "\<forall>c \<in> set ''service_name''. unreserved c" "\<forall>c \<in> set ''path''. unreserved c"
    by (simp_all add: unreserved_def Let_def)
  have pairs: "query_pair (''service_name='' @ QueryEscape v) = [(''service_name'', v)]"
    "query_pair (''path='' @ QueryEscape v) = [(''path'', v)]" for v
    using query_pair_escaped [OF unres(1), of v] query_pair_escaped [OF unres(2), of v] by simp_all
  have esc: "c \<in> set (QueryEscape v) \<Longrightarrow> (of_char c :: nat) \<in> {32..126} - {35, 38, 63}" for c v
    using QueryEscape_chars [of c v] by (auto simp: unreserved_def Let_def)
  have no_amp: "CHR ''&'' \<notin> set (''service_name='' @ QueryEscape v)" "CHR ''&'' \<notin> set (''path='' @ QueryEscape v)" for v
    using esc [of "CHR ''&''" v] by auto
  let ?query = "str_join ''&'' qs"
  have ParseQuery: "query_get (ParseQuery ?query) ''service_name'' = dq_ServiceName req"
    "query_get (ParseQuery ?query) ''path'' = dq_RepoPath req"
    using split_on_append [OF no_amp(1) [of "dq_ServiceName req"], of "''path='' @ QueryEscape (dq_RepoPath req)"]
      split_on_none [OF no_amp(1) [of "dq_ServiceName req"]] split_on_none [OF no_amp(2) [of "dq_RepoPath req"]]
      pairs [of "dq_ServiceName req"] pairs [of "dq_RepoPath req"]
    by (auto simp: qs_def ParseQuery_def query_get_def query_pair_def [of "''''"])
  have chars: "(of_char c :: nat) \<in> {32..126} - {35, 63}" if "c \<in> set ?query" for c
  proof -
    have "c \<in> set (''service_name='' @ QueryEscape (dq_ServiceName req)) \<union> set ''&''
        \<union> set (''path='' @ QueryEscape (dq_RepoPath req))"
      using that by (auto simp: qs_def split: if_splits)
    then show ?thesis using esc by (auto simp: Ball_def)
  qed
  let ?tail = "if qs \<noteq> [] then ''?'' @ ?query else ''''"
  have path: "diagnose_path req = ''/diagnose'' @ ?tail" by (simp add: diagnose_path_def qs_def Let_def)
  have "CHR ''#'' \<notin> set ?query" using chars [of "CHR ''#''"] by auto
  then have cut: "takeWhile (\<lambda>c. c \<noteq> CHR ''#'') (''/diagnose'' @ ?tail) = ''/diagnose'' @ ?tail"
    by (auto simp: takeWhile_eq_all_conv)
  have low: "\<not> (\<exists>c \<in> set (''/diagnose'' @ ?tail). (of_char c :: nat) < 32 \<or> c = CHR 0x7F)"
    using chars by (auto split: if_splits) fastforce+
  have "url_parse (diagnose_path req) = Some \<lparr>ur_Path = ''/diagnose'', ur_RawPath = '''', ur_Query = (if qs \<noteq> [] then ?query else '''')\<rparr>"
  proof -
    have p: "takeWhile (\<lambda>c. c \<noteq> CHR ''?'') (''/diagnose'' @ ?tail) = ''/diagnose''" by simp
    have e: "unescape ''/diagnose'' = Some ''/diagnose''" by (simp add: unescape_plain)
    have d: "escape_path ''/diagnose'' = ''/diagnose''" by (simp add: escape_path_def path_char_def unreserved_def Let_def)
    show ?thesis
      using low unfolding path url_parse_def Let_def cut p e option.case d by simp
  qed
  moreover have "?query = (if qs \<noteq> [] then ?query else '''')" by simp
  ultimately show ?thesis using ParseQuery by (simp add: NewRequest_def)
qed

text \<open>The source of \<^verbatim>\<open>anito issues --source\<close> is put into the query as it is.\<close>

lemma issues_source_unescaped:
  "\<exists>q. NewRequest ''GET'' (issues_path 20 ''mcp:a&b'') '''' = Inr q \<and> hq_Query q ''source'' = ''mcp:a''"
proof -
  have "url_parse (issues_path 20 ''mcp:a&b'') = Some \<lparr>ur_Path = ''/issues'', ur_RawPath = '''', ur_Query = ''lines=20&source=mcp:a&b''\<rparr>"
    by code_simp
  moreover have "query_get (ParseQuery ''lines=20&source=mcp:a&b'') ''source'' = ''mcp:a''" by code_simp
  ultimately show ?thesis by (simp add: NewRequest_def)
qed

section \<open>Where client and daemon do not fit\<close>

text \<open>The version of the daemon cannot be read from its own health answer, whatever its state.\<close>

lemma DaemonVersion_fails:
  assumes "router ''GET'' ''/health'' = Found EpHealth param"
    and "LoadClientToken (ce_auth C) fs = (Inr (token, source), fs')" and "trim_space token \<noteq> ''''"
  shows "fst (DaemonVersion C (daemon_transport router E R version token) (fs, d)) = Inl json_error"
proof -
  have "\<forall>c \<in> set ''/health''. path_char c" by (simp add: path_char_def unreserved_def Let_def)
  from client_call_daemon [where router = router and meth = "''GET''" and path = "''/health''", OF this assms,
      of "[]" "''''" E R version as_strings d]
  show ?thesis
    by (auto simp: DaemonVersion_def getJSON_def handle_def handleHealth_def answer_def as_strings_def)
qed

end
