(* ===== verification/Install.thy ===== *)
theory Install
  imports Cli
begin

text \<open>
  \<^verbatim>\<open>runInstall\<close>, \<^verbatim>\<open>copyFile\<close>, \<^verbatim>\<open>launchdPlistPath\<close> and \<^verbatim>\<open>runReload\<close> of
  \<^verbatim>\<open>cmd/anito/main.go\<close>: the daemon as a launchd agent. What is done to the host is a list of
  steps, each of which may be refused; the clock and the daemon's health are the list of the answers seen
  before the deadline. The pauses between them are left out.
\<close>

section \<open>The host\<close>

datatype host_step =
    MkdirAll string
  | OpenFile string
  | Truncate string
  | CopyInto string string
  | CloseFile string
  | WriteText string string
  | Launchctl string string

record host_env =
  ho_home :: "err + string"
  ho_self :: "err + string"
  ho_plist :: bool
  ho_refuses :: "host_step \<Rightarrow> err option"
  ho_healthy :: bool
  ho_attempts :: "bool list"
  ho_version :: "client_err + string"

type_synonym trace = "host_step list"

definition host_do :: "host_env \<Rightarrow> host_step \<Rightarrow> trace \<Rightarrow> (unit, trace) res" where
  "host_do H step t = (case ho_refuses H step of Some e \<Rightarrow> (Inl e, t) | None \<Rightarrow> (Inr (), t @ [step]))"

text \<open>A dot is printed after each answer that is not good.\<close>

fun await_daemon :: "bool list \<Rightarrow> bool \<times> string" where
  "await_daemon [] = (False, '''')"
| "await_daemon (a # as) = (if a then (True, '''') else (case await_daemon as of (b, dots) \<Rightarrow> (b, CHR ''.'' # dots)))"

definition daemonWaitTimeout :: int where "daemonWaitTimeout = 60000000000"

section \<open>Installing\<close>

definition launchdPlistPath :: "host_env \<Rightarrow> string" where
  "launchdPlistPath H =
     (case ho_home H of
        Inl e \<Rightarrow> ''''
      | Inr home \<Rightarrow> path_join [home, ''Library'', ''LaunchAgents'', ''com.anito.daemon.plist''])"

definition plistTemplate :: string where
  "plistTemplate = str_join [newline]
     [''<?xml version='' @ dq @ ''1.0'' @ dq @ '' encoding='' @ dq @ ''UTF-8'' @ dq @ ''?>'',
      ''<!DOCTYPE plist PUBLIC '' @ dq @ ''-//Apple//DTD PLIST 1.0//EN'' @ dq,
      ''  '' @ dq @ ''http://www.apple.com/DTDs/PropertyList-1.0.dtd'' @ dq @ ''>'',
      ''<plist version='' @ dq @ ''1.0'' @ dq @ ''>'',
      ''<dict>'',
      ''  <key>Label</key>'',
      ''  <string>com.anito.daemon</string>'',
      '''',
      ''  <key>ProgramArguments</key>'',
      ''  <array>'',
      ''    <string>%s</string>'',
      ''    <string>daemon</string>'',
      ''    <string>--port</string>'',
      ''    <string>7700</string>'',
      ''    <string>--mcp-port</string>'',
      ''    <string>7701</string>'',
      ''  </array>'',
      '''',
      ''  <key>RunAtLoad</key>'',
      ''  <true/>'',
      '''',
      ''  <key>KeepAlive</key>'',
      ''  <true/>'',
      '''',
      ''  <key>StandardOutPath</key>'',
      ''  <string>%s/.anito/logs/anito.log</string>'',
      '''',
      ''  <key>StandardErrorPath</key>'',
      ''  <string>%s/.anito/logs/anito.error.log</string>'',
      '''',
      ''  <key>EnvironmentVariables</key>'',
      ''  <dict>'',
      ''    <key>HOME</key>'',
      ''    <string>%s</string>'',
      ''    <key>PATH</key>'',
      ''    <string>%s/.local/bin:/usr/local/bin:/usr/bin:/bin</string>'',
      ''  </dict>'',
      ''</dict>'',
      ''</plist>'',
      '''']"

definition copyFile :: "host_env \<Rightarrow> string \<Rightarrow> string \<Rightarrow> trace \<Rightarrow> (unit, trace) res" where
  "copyFile H src dst t =
     on_res (host_do H (OpenFile src) t)
       (\<lambda>_ t1. on_res (host_do H (Truncate dst) t1)
          (\<lambda>_ t2. on_res (host_do H (CopyInto src dst) t2)
             (\<lambda>_ t3. host_do H (CloseFile dst) t3)
             (\<lambda>e t3. (Inl e, snd (host_do H (CloseFile dst) t3))))
          (\<lambda>e t2. (Inl e, t2)))
       (\<lambda>e t1. (Inl e, t1))"

text \<open>A step, or the end of the command with its error; what was printed so far is kept.\<close>

definition host_then ::
    "printed list \<Rightarrow> (err \<Rightarrow> err) \<Rightarrow> (unit, trace) res \<Rightarrow> (trace \<Rightarrow> run \<times> trace) \<Rightarrow> run \<times> trace" where
  "host_then before wrap r k =
     (case r of (Inl e, t) \<Rightarrow> (fatal before (ClientErr (wrap e)), t) | (Inr _, t) \<Rightarrow> k t)"

definition launch_error :: "string \<Rightarrow> err \<Rightarrow> err" where
  "launch_error what e = Errorf (what @ '': %s'') [FStr (trim_space (err_text e))]"

definition install_healthy :: "host_env \<Rightarrow> string \<Rightarrow> printed list \<Rightarrow> trace \<Rightarrow> run \<times> trace" where
  "install_healthy H logDir before t =
     (case await_daemon (ho_attempts H) of
        (healthy, dots) \<Rightarrow>
          (let waited = before @ [Out ((''waiting for daemon'') @ dots @ [newline])] in
           if \<not> healthy
           then (fatal waited (ClientErr (Errorf (''daemon did not become healthy within %s '' @ em_dash @ '' check %s/anito.log'')
                                            [FStr (duration_text daemonWaitTimeout), FStr logDir])), t)
           else ((0, waited @ [Out (check_mark @ '' anito installed and running'' @ [newline] @ [newline]), Out (''Connect Claude Code:'' @ [newline]),
                               Out (sprintf (''  claude mcp add --transport http anito http://localhost:%d'' @ [newline]) [show_nat 7701])]), t)))"

definition install_agent :: "host_env \<Rightarrow> string \<Rightarrow> string \<Rightarrow> string \<Rightarrow> printed list \<Rightarrow> trace \<Rightarrow> run \<times> trace" where
  "install_agent H home targetBin logDir out0 t0 =
     (let plistPath = path_join [home, ''Library'', ''LaunchAgents'', ''com.anito.daemon.plist''];
          plist = sprintf plistTemplate [targetBin, home, home, home, home];
          out1 = out0 @ [Out (sprintf (''wrote %s'' @ [newline]) [plistPath])];
          out2 = out1 @ [Out (''loading daemon...'' @ [newline])]
      in host_then out0 (\<lambda>e. Errorf ''creating LaunchAgents dir: %w'' [FErr e]) (host_do H (MkdirAll (path_dir plistPath)) t0)
           (\<lambda>t1. host_then out0 (\<lambda>e. Errorf ''writing plist: %w'' [FErr e]) (host_do H (WriteText plistPath plist) t1)
              (\<lambda>t2. host_then out2 (launch_error ''launchctl load'') (host_do H (Launchctl ''load'' plistPath) t2)
                 (install_healthy H logDir out2))))"

definition runInstall :: "host_env \<Rightarrow> string \<Rightarrow> trace \<Rightarrow> run \<times> trace" where
  "runInstall H binDir0 t0 =
     (case ho_home H of
        Inl e \<Rightarrow> (fatal [] (ClientErr (Errorf ''could not determine home directory: %w'' [FErr e])), t0)
      | Inr home \<Rightarrow>
          if ho_healthy H
          then ((0, [Out (''Anito is already installed and running.'' @ [newline]), Out (''Use 'make reload' to update the binary.'' @ [newline])]), t0)
          else
            (let binDir = (if binDir0 = '''' then path_join [home, ''.local'', ''bin''] else binDir0);
                 targetBin = path_join [binDir, ''anito'']; logDir = path_join [home, ''.anito'', ''logs''];
                 out0 = [Out (sprintf (''installing binary '' @ right_arrow @ '' %s'' @ [newline]) [targetBin])]
             in case ho_self H of
                  Inl e \<Rightarrow> (fatal [] (ClientErr (Errorf ''could not locate current executable: %w'' [FErr e])), t0)
                | Inr self \<Rightarrow>
                    host_then [] (\<lambda>e. Errorf ''creating %s: %w'' [FStr binDir, FErr e]) (host_do H (MkdirAll binDir) t0)
                      (\<lambda>t1. host_then out0 (\<lambda>e. Errorf ''copying binary: %w'' [FErr e]) (copyFile H self targetBin t1)
                         (\<lambda>t2. host_then out0 (\<lambda>e. Errorf ''creating %s: %w'' [FStr logDir, FErr e])
                                 (host_do H (MkdirAll logDir) t2)
                            (install_agent H home targetBin logDir out0)))))"

section \<open>Reloading\<close>

definition reload_healthy :: "host_env \<Rightarrow> printed list \<Rightarrow> trace \<Rightarrow> run \<times> trace" where
  "reload_healthy H before t =
     (case await_daemon (ho_attempts H) of
        (healthy, dots) \<Rightarrow>
          (let waited = before @ [Out ((''waiting for daemon...'') @ dots)] in
           if healthy
           then ((0, waited @ [Out ('' '' @ check_mark @ [newline])] @
                     (case ho_version H of Inl _ \<Rightarrow> [] | Inr v \<Rightarrow> [Out (sprintf (''daemon running version %s'' @ [newline]) [v])])), t)
           else (fatal (waited @ [Out [newline]])
                   (ClientErr (Errorf (''daemon did not become healthy within %s '' @ em_dash @ '' check ~/.anito/logs/anito.log'')
                                 [FStr (duration_text daemonWaitTimeout)])), t)))"

definition runReload :: "host_env \<Rightarrow> trace \<Rightarrow> run \<times> trace" where
  "runReload H t0 =
     (let plist = launchdPlistPath H in
      if \<not> ho_plist H
      then (fatal [] (ClientErr (Errorf (''launchd plist not found at %s '' @ em_dash @ '' is Anito installed as a daemon?'') [FStr plist])), t0)
      else
        (case host_do H (Launchctl ''unload'' plist) t0 of
           (unloaded, t1) \<Rightarrow>
             (let out1 = [Out (''unloading daemon...'' @ [newline])] @
                         (case unloaded of
                            Inl e \<Rightarrow> [ErrOut (sprintf (''warn: unload: %s'' @ [newline]) [trim_space (err_text e)])]
                          | Inr _ \<Rightarrow> []) @
                         [Out (''loading daemon...'' @ [newline])]
              in host_then out1 (launch_error ''load failed'') (host_do H (Launchctl ''load'' plist) t1)
                   (reload_healthy H out1))))"

end
