(* ===== verification/Cli_Args.thy ===== *)
theory Cli_Args
  imports Install Boot
begin

text \<open>
  \<^verbatim>\<open>main\<close> of \<^verbatim>\<open>cmd/anito/main.go\<close>: reading the arguments and running the command they name.
\<close>

section \<open>Reading numbers and flags\<close>

text \<open>\<^verbatim>\<open>fmt.Sscanf\<close> with \<^verbatim>\<open>%d\<close>: what does not start with a number leaves the variable as it is.\<close>

definition sscan_int :: "string \<Rightarrow> int \<Rightarrow> int" where
  "sscan_int s n =
     (let t = dropWhile (\<lambda>c. c \<in> {CHR 0x09, CHR 0x0B, CHR 0x0C, CHR 0x0D, CHR '' ''}) s;
          sign = takeWhile (\<lambda>c. c \<in> {CHR ''+'', CHR ''-''}) (take 1 t);
          ds = takeWhile is_digit (drop (length sign) t)
      in if ds = [] then n else (case Atoi (sign @ ds) of Some i \<Rightarrow> i | None \<Rightarrow> n))"

text \<open>A flag of its own takes the argument behind it, wherever it is found; the last one counts.\<close>

fun flag_value :: "string \<Rightarrow> string list \<Rightarrow> string \<Rightarrow> string" where
  "flag_value flag (x # y # xs) d = flag_value flag (y # xs) (if x = flag then y else d)"
| "flag_value flag _ d = d"

fun lines_value :: "string list \<Rightarrow> int \<Rightarrow> int" where
  "lines_value (x # y # xs) n =
     lines_value (y # xs) (if x = ''--lines'' \<or> x = ''-n'' then sscan_int y n else n)"
| "lines_value _ n = n"

section \<open>The flags of the daemon\<close>

text \<open>\<^verbatim>\<open>strconv.ParseInt\<close> in base 0 with 64 bits: an optional sign, a prefix that gives the base,
  underscores between digits.\<close>

definition any_digit :: "char \<Rightarrow> nat option" where
  "any_digit c =
     (let l = to_lower c in
      if is_digit c then Some (digit_val c)
      else if CHR ''a'' \<le> l \<and> l \<le> CHR ''z'' then Some (of_char l - 87) else None)"

definition base_prefix :: "string \<Rightarrow> nat \<times> string" where
  "base_prefix s =
     (case s of
        CHR ''0'' # c # d # cs \<Rightarrow>
          (if to_lower c = CHR ''b'' then (2, d # cs) else if to_lower c = CHR ''o'' then (8, d # cs)
           else if to_lower c = CHR ''x'' then (16, d # cs) else (8, c # d # cs))
      | CHR ''0'' # cs \<Rightarrow> (8, cs)
      | _ \<Rightarrow> (10, s))"

fun read_digits :: "nat \<Rightarrow> string \<Rightarrow> nat \<Rightarrow> nat option" where
  "read_digits b [] n = Some n"
| "read_digits b (c # cs) n =
     (if c = CHR ''_'' then read_digits b cs n
      else case any_digit c of
        Some d \<Rightarrow> if d < b then read_digits b cs (n * b + d) else None
      | None \<Rightarrow> None)"

text \<open>An underscore stands behind a digit or the prefix, and before a digit. \<open>after\<close> tells what was read
  last: a digit or prefix, an underscore, or neither.\<close>

datatype seen = SeenDigit | SeenUnderscore | SeenNothing

fun underscores_from :: "bool \<Rightarrow> seen \<Rightarrow> string \<Rightarrow> bool" where
  "underscores_from hex after [] = (after \<noteq> SeenUnderscore)"
| "underscores_from hex after (c # cs) =
     (if is_digit c \<or> (hex \<and> CHR ''a'' \<le> to_lower c \<and> to_lower c \<le> CHR ''f'')
      then underscores_from hex SeenDigit cs
      else if c = CHR ''_'' then after = SeenDigit \<and> underscores_from hex SeenUnderscore cs
      else after \<noteq> SeenUnderscore \<and> underscores_from hex SeenNothing cs)"

definition underscoreOK :: "string \<Rightarrow> bool" where
  "underscoreOK s =
     (case s of
        CHR ''0'' # c # cs \<Rightarrow>
          (if to_lower c \<in> {CHR ''b'', CHR ''o'', CHR ''x''}
           then underscores_from (to_lower c = CHR ''x'') SeenDigit cs
           else underscores_from False SeenNothing s)
      | _ \<Rightarrow> underscores_from False SeenNothing s)"

definition ParseInt0 :: "string \<Rightarrow> int option" where
  "ParseInt0 s =
     (let neg = prefix ''-'' s; u = (if prefix ''-'' s \<or> prefix ''+'' s then tl s else s) in
      if u = '''' then None
      else case base_prefix u of (b, ds) \<Rightarrow>
        (case read_digits b ds 0 of
           None \<Rightarrow> None
         | Some n \<Rightarrow>
             (let i = (if neg then - int n else int n) in
              if (CHR ''_'' \<in> set u \<and> \<not> underscoreOK u) \<or> i < - (2 ^ 63) \<or> 2 ^ 63 \<le> i then None else Some i)))"

record daemon_flags =
  df_port :: int
  df_mcp_port :: int
  df_data :: string

text \<open>\<^verbatim>\<open>FlagSet.Parse\<close> with \<^verbatim>\<open>ExitOnError\<close>: the flags, or the exit code (0 after a
  request for help). What the package prints with it is left out.\<close>

definition set_flag :: "string \<Rightarrow> string \<Rightarrow> daemon_flags \<Rightarrow> nat + daemon_flags" where
  "set_flag name v fl =
     (if name = ''data'' then Inr (fl\<lparr>df_data := v\<rparr>)
      else case ParseInt0 v of
        None \<Rightarrow> Inl 2
      | Some i \<Rightarrow> Inr (if name = ''port'' then fl\<lparr>df_port := i\<rparr> else fl\<lparr>df_mcp_port := i\<rparr>))"

fun parse_flags :: "string list \<Rightarrow> daemon_flags \<Rightarrow> nat + daemon_flags" where
  "parse_flags [] fl = Inr fl"
| "parse_flags (s # args) fl =
     (if length s < 2 \<or> hd s \<noteq> CHR ''-'' \<or> s = ''--'' then Inr fl
      else
        (let rest = (if s ! 1 = CHR ''-'' then drop 2 s else tl s) in
         if hd rest = CHR ''-'' \<or> hd rest = CHR ''='' then Inl 2
         else
           (let name = takeWhile (\<lambda>c. c \<noteq> CHR ''='') rest in
            if name \<notin> {''port'', ''mcp-port'', ''data''} then Inl (if name = ''help'' \<or> name = ''h'' then 0 else 2)
            else if name \<noteq> rest
            then (case set_flag name (drop (Suc (length name)) rest) fl of Inl c \<Rightarrow> Inl c | Inr fl1 \<Rightarrow> parse_flags args fl1)
            else (case args of
                    [] \<Rightarrow> Inl 2
                  | v # args1 \<Rightarrow> (case set_flag name v fl of Inl c \<Rightarrow> Inl c | Inr fl1 \<Rightarrow> parse_flags args1 fl1)))))"

section \<open>Commands\<close>

datatype command =
    CmdInstall string
  | CmdDaemon daemon_flags
  | CmdSetup string
  | CmdDoctor string
  | CmdDiagnose "string list"
  | CmdDeploy string
  | CmdPromote string string
  | CmdServices
  | CmdStatus string
  | CmdStop string
  | CmdRestart string
  | CmdRollback string
  | CmdRemove string
  | CmdLogs string bool
  | CmdIssues int string
  | CmdReport issue
  | CmdTeardown string
  | CmdMcp
  | CmdReload
  | CmdVersion
  | CmdEnds run

definition defaultConfigPath :: string where
  "defaultConfigPath = path_join [''.anito'', ''config.yaml'']"

definition defaultDataDir :: "err + string \<Rightarrow> string" where
  "defaultDataDir home = (case home of Inl e \<Rightarrow> ''.anito'' | Inr h \<Rightarrow> path_join [h, ''.anito''])"

definition printUsage :: "printed list" where
  "printUsage = [Out (str_join [newline]
     [''anito '' @ em_dash @ '' local production service manager'',
      '''',
      ''Usage:'',
      ''  anito install [--bin-dir <path>]          first-time daemon setup: install binary, write plist, start daemon'',
      ''  anito daemon [flags]                      start the anito daemon'',
      ''  anito setup [path]                        inspect repo, check service contract, write .anito/config.yaml'',
      ''  anito doctor [path]                       validate .anito/config.yaml and check registry alignment'',
      ''  anito diagnose [service-or-path]          run shared read-only diagnosis and print stable issue codes'',
      ''  anito deploy [config]                     build + deploy (default: .anito/config.yaml)'',
      ''  anito promote <stable-config> [dev-name]  build stable binary and deploy it'',
      ''  anito services                            list all running services'',
      ''  anito status <name>                       show status and port for a service'',
      ''  anito logs <name> [-f|--follow]           print recent log output; -f streams live (use '' @ dq @ ''daemon'' @ dq @ '' for the Anito daemon log)'',
      ''  anito stop <name>                         stop a service'',
      ''  anito restart <name>                      restart a service'',
      ''  anito rollback <name>                     restore and restart the previous deploy'',
      ''  anito remove <name>                       stop and remove a service'',
      ''  anito issues [--lines N] [--source pfx]  show recent logged issues (errors, failures, consumer reports)'',
      ''  anito report <message> [flags]            manually report an issue (--source name, --context text, --repo path)'',
      ''  anito reload                              reload the daemon with the current binary (launchd)'',
      ''  anito version                             print the daemon binary version'',
      ''  anito mcp                                 show MCP server connection info'',
      '''',
      ''Daemon flags:'',
      ''  --port      management API port (default 7700)'',
      ''  --mcp-port  MCP server port     (default 7701)'',
      ''  --data      data directory      (default ~/.anito)'',
      '''',
      ''Examples:'',
      ''  anito promote .anito/gomanan-mcp.yaml gomanan-mcp-dev'',
      ''    '' @ right_arrow @ '' builds gomanan-daemon binary, deploys it as gomanan-mcp on :8100''] @ [newline])]"

definition first_or :: "string \<Rightarrow> string list \<Rightarrow> string" where
  "first_or d rest = (case rest of [] \<Rightarrow> d | x # _ \<Rightarrow> x)"

definition requireArg :: "string \<Rightarrow> string list \<Rightarrow> (string \<Rightarrow> command) \<Rightarrow> command" where
  "requireArg cmd rest k =
     (case rest of
        [] \<Rightarrow> CmdEnds (1, [ErrOut (sprintf (''usage: anito %s <name>'' @ [newline]) [cmd])])
      | name # _ \<Rightarrow> k name)"

definition cli_report :: "string \<Rightarrow> string list \<Rightarrow> issue" where
  "cli_report msg rest =
     (let src = flag_value ''--source'' rest '''' in
      zero_issue\<lparr>is_Source := (if src = '''' then ''cli:report'' else src), is_Tool := ''report'', is_Error := msg,
        is_Context := flag_value ''--context'' rest '''', is_RepoPath := flag_value ''--repo'' rest '''',
        is_Severity := ''info''\<rparr>)"

text \<open>The alias of the daemon's own log.\<close>

definition log_name :: "string \<Rightarrow> string" where
  "log_name name = (if name = ''daemon'' then DaemonLogName else name)"

definition read_command :: "err + string \<Rightarrow> string \<Rightarrow> string list \<Rightarrow> command" where
  "read_command home cmd rest =
     (if cmd = ''install'' then CmdInstall (flag_value ''--bin-dir'' rest '''')
      else if cmd = ''daemon''
      then (case parse_flags rest \<lparr>df_port = 7700, df_mcp_port = 7701, df_data = defaultDataDir home\<rparr> of
              Inl code \<Rightarrow> CmdEnds (code, [])
            | Inr fl \<Rightarrow> CmdDaemon fl)
      else if cmd = ''setup'' then CmdSetup (first_or ''.'' rest)
      else if cmd = ''doctor'' then CmdDoctor (first_or ''.'' rest)
      else if cmd = ''diagnose'' then CmdDiagnose rest
      else if cmd = ''deploy'' then CmdDeploy (first_or defaultConfigPath rest)
      else if cmd = ''promote''
      then (case rest of
              [] \<Rightarrow> CmdEnds (1, [ErrOut (''usage: anito promote <stable-config.yaml> [dev-service-name]'' @ [newline])])
            | conf # dev \<Rightarrow> CmdPromote conf (first_or '''' dev))
      else if cmd = ''services'' then CmdServices
      else if cmd = ''status'' then requireArg cmd rest CmdStatus
      else if cmd = ''stop'' then requireArg cmd rest CmdStop
      else if cmd = ''restart'' then requireArg cmd rest CmdRestart
      else if cmd = ''rollback'' then requireArg cmd rest CmdRollback
      else if cmd = ''remove'' then requireArg cmd rest CmdRemove
      else if cmd = ''logs''
      then requireArg cmd rest (\<lambda>name. CmdLogs (log_name name) (''-f'' \<in> set (tl rest) \<or> ''--follow'' \<in> set (tl rest)))
      else if cmd = ''issues'' then CmdIssues (lines_value rest 20) (flag_value ''--source'' rest '''')
      else if cmd = ''report''
      then (case rest of
              [] \<Rightarrow> CmdEnds (1, [ErrOut (''usage: anito report <message> [--source <name>] [--context <text>] [--repo <path>]'' @ [newline])])
            | msg # flags \<Rightarrow> CmdReport (cli_report msg flags))
      else if cmd = ''teardown'' then CmdTeardown (first_or ''.'' rest)
      else if cmd = ''mcp'' then CmdMcp
      else if cmd = ''reload'' then CmdReload
      else if cmd = ''version'' then CmdVersion
      else CmdEnds (1, ErrOut (sprintf (''unknown command: %s'' @ [newline] @ [newline]) [cmd]) # printUsage))"

definition parse_args :: "err + string \<Rightarrow> string list \<Rightarrow> command" where
  "parse_args home args =
     (case args of program # cmd # rest \<Rightarrow> read_command home cmd rest | _ \<Rightarrow> CmdEnds (1, printUsage))"

section \<open>Running\<close>

definition runMCPInfo :: "int \<Rightarrow> run" where
  "runMCPInfo port =
     (0, [Out (sprintf (''Anito MCP server: http://localhost:%d'' @ [newline] @ [newline]) [show_int port]), Out (''Add to Claude Code:'' @ [newline]),
          Out (sprintf (''  claude mcp add --transport http anito http://localhost:%d'' @ [newline] @ [newline]) [show_int port]),
          Out (''Or add to .mcp.json / ~/.claude.json under mcpServers:'' @ [newline]),
          Out (sprintf (str_join [newline] [
            (''  {''), (''    '' @ dq @ ''anito'' @ dq @ '': {''), (''      '' @ dq @ ''type'' @ dq @ '': '' @ dq @ ''http'' @ dq @ '',''), (''      '' @ dq @ ''url'' @ dq @ '': '' @ dq @ ''http://localhost:%d'' @ dq), (''    }''), (''  }'')] @ [newline])
            [show_int port])])"

definition teardown_lines :: "string list \<Rightarrow> run" where
  "teardown_lines removed =
     (if removed = [] then (0, [Out (''no services found in .anito/deployed.json'' @ [newline])])
      else (0, map (\<lambda>name. Out (sprintf (''removed %s'' @ [newline]) [name])) removed @
               [Out (sprintf (''teardown complete (%d services removed)'' @ [newline]) [show_nat (length removed)])]))"

definition runTeardown :: "cli_env \<Rightarrow> 's transport \<Rightarrow> string \<Rightarrow> 's cli_state \<Rightarrow> run \<times> 's cli_state" where
  "runTeardown C send path st =
     (case go_abs (ci_cwd C) path of
        Inl e \<Rightarrow> (fatal [] (ClientErr e), st)
      | Inr abs_path \<Rightarrow> shown [] teardown_lines (on_daemon (ClientTeardown (ci_client C) send abs_path) st))"

definition follow_logs :: "cli_env \<Rightarrow> 's transport \<Rightarrow> string \<Rightarrow> 's cli_state \<Rightarrow> run \<times> 's cli_state" where
  "follow_logs C send name st =
     shown []
       (\<lambda>(ls, broken).
          let out = map (\<lambda>l. Out (l @ [newline])) ls in
          case broken of None \<Rightarrow> (0, out) | Some e \<Rightarrow> fatal out (ClientErr e))
       (on_daemon (LogsFollow (ci_client C) send name 100) st)"

text \<open>One operation, one line.\<close>

definition run_simple ::
    "string \<Rightarrow> string \<Rightarrow> (token_fs \<times> 's \<Rightarrow> (client_err + unit) \<times> token_fs \<times> 's) \<Rightarrow> 's cli_state \<Rightarrow> run \<times> 's cli_state" where
  "run_simple verb name call st =
     shown [] (\<lambda>_. (0, [Out (sprintf (''%s %s'' @ [newline]) [verb, name])])) (on_daemon call st)"

definition runRollback :: "cli_env \<Rightarrow> 's transport \<Rightarrow> string \<Rightarrow> 's cli_state \<Rightarrow> run \<times> 's cli_state" where
  "runRollback C send name st =
     shown []
       (\<lambda>svc. (0, [Out (sprintf (''rolled back %s'') [sv_name svc])] @
                  (if sv_version svc \<noteq> '''' then [Out (sprintf ('' to %s'') [sv_version svc])] else []) @ [Out [newline]]))
       (on_daemon (ClientRollback (ci_client C) send name) st)"

definition runReport :: "cli_env \<Rightarrow> 's transport \<Rightarrow> issue \<Rightarrow> 's cli_state \<Rightarrow> run \<times> 's cli_state" where
  "runReport C send i st =
     shown [] (\<lambda>_. (0, [Out (''reported'' @ [newline])])) (on_daemon (ClientReport (ci_client C) send i) st)"

text \<open>The machine around the command: what \<^verbatim>\<open>install\<close> and \<^verbatim>\<open>reload\<close> did to the host, the
  daemon that \<^verbatim>\<open>daemon\<close> would become.\<close>

record 's machine =
  ma_cli :: "'s cli_state"
  ma_trace :: trace

definition on_cli :: "('s cli_state \<Rightarrow> run \<times> 's cli_state) \<Rightarrow> 's machine \<Rightarrow> run \<times> 's machine" where
  "on_cli f m = (case f (ma_cli m) of (r, st) \<Rightarrow> (r, m\<lparr>ma_cli := st\<rparr>))"

definition on_host :: "(trace \<Rightarrow> run \<times> trace) \<Rightarrow> 's machine \<Rightarrow> run \<times> 's machine" where
  "on_host f m = (case f (ma_trace m) of (r, t) \<Rightarrow> (r, m\<lparr>ma_trace := t\<rparr>))"

definition run_daemon :: "boot_env \<Rightarrow> string \<Rightarrow> daemon_flags \<Rightarrow> 's cli_state \<Rightarrow> run \<times> 's cli_state" where
  "run_daemon B version fl st =
     (case runDaemon B version (df_port fl) (df_mcp_port fl) (df_data fl) (cs_token st) of
        (r, fs) \<Rightarrow> (r, st\<lparr>cs_token := fs\<rparr>))"

definition run_command ::
    "cli_env \<Rightarrow> host_env \<Rightarrow> boot_env \<Rightarrow> string \<Rightarrow> 's transport \<Rightarrow> command \<Rightarrow> 's machine \<Rightarrow> run \<times> 's machine" where
  "run_command C H B version send cmd =
     (case cmd of
        CmdInstall binDir \<Rightarrow> on_host (runInstall H binDir)
      | CmdDaemon fl \<Rightarrow> on_cli (run_daemon B version fl)
      | CmdSetup path \<Rightarrow> on_cli (runSetup C path)
      | CmdDoctor path \<Rightarrow> on_cli (runDoctor C send path)
      | CmdDiagnose args \<Rightarrow> on_cli (runDiagnose C send args)
      | CmdDeploy path \<Rightarrow> on_cli (runDeploy C send path)
      | CmdPromote conf dev \<Rightarrow> on_cli (runPromote C send conf dev)
      | CmdServices \<Rightarrow> on_cli (runServices C send)
      | CmdStatus name \<Rightarrow> on_cli (runStatus C send name)
      | CmdStop name \<Rightarrow> on_cli (run_simple ''stopped'' name (ClientStop (ci_client C) send name))
      | CmdRestart name \<Rightarrow> on_cli (run_simple ''restarted'' name (ClientRestart (ci_client C) send name))
      | CmdRollback name \<Rightarrow> on_cli (runRollback C send name)
      | CmdRemove name \<Rightarrow> on_cli (run_simple ''removed'' name (ClientRemove (ci_client C) send name))
      | CmdLogs name follow \<Rightarrow> on_cli (if follow then follow_logs C send name else runLogs C send name)
      | CmdIssues n source \<Rightarrow> on_cli (runIssues C send n source)
      | CmdReport i \<Rightarrow> on_cli (runReport C send i)
      | CmdTeardown path \<Rightarrow> on_cli (runTeardown C send path)
      | CmdMcp \<Rightarrow> on_cli (\<lambda>st. (runMCPInfo 7701, st))
      | CmdReload \<Rightarrow> on_host (runReload H)
      | CmdVersion \<Rightarrow> on_cli (\<lambda>st. ((0, [Out (sprintf (''anito %s'' @ [newline]) [version])]), st))
      | CmdEnds r \<Rightarrow> on_cli (\<lambda>st. (r, st)))"

definition anito ::
    "cli_env \<Rightarrow> host_env \<Rightarrow> boot_env \<Rightarrow> string \<Rightarrow> 's transport \<Rightarrow> string list \<Rightarrow> 's machine \<Rightarrow> run \<times> 's machine" where
  "anito C H B version send args = run_command C H B version send (parse_args (ho_home H) args)"

end
