(* ===== verification/Cli_Props.thy ===== *)
theory Cli_Props
  imports Client_Props Cli_Args
begin

text \<open>
  The command line against the daemon: \<^verbatim>\<open>anito stop\<close> is the daemon's stop, \<^verbatim>\<open>anito deploy\<close>
  deploys the configuration it has read, and where a command looks from another directory than it should.
\<close>

section \<open>Stopping\<close>

text \<open>C17: The exit code of \<^verbatim>\<open>anito stop\<close> tells the truth: run against the daemon whose token is on
  the disk, the command has exactly the effect of the daemon's operation and exits with 0 exactly when that
  succeeded; otherwise it exits with 1 and the last thing it prints names the code of the error, a conflict while
  the daemon is starting.\<close>

theorem anito_stop_exit:
  assumes "\<forall>c \<in> set name. path_char c" and "router ''POST'' (''/stop/'' @ name) = Found EpStop (\<lambda>_. name)"
    and "LoadClientToken (ce_auth (ci_client C)) (cs_token (ma_cli m)) = (Inr (token, source), fs')"
    and "trim_space token \<noteq> ''''"
    and "ServiceStop E name (dm_world (cs_daemon (ma_cli m))) = (x, w)"
  shows "\<exists>out m'. anito C H B version (daemon_transport router E R version token) [program, ''stop'', name] m
      = ((if x = Inr () then 0 else 1, out), m')
    \<and> cs_daemon (ma_cli m') = (cs_daemon (ma_cli m))\<lparr>dm_world := w\<rparr> \<and> ma_trace m' = ma_trace m
    \<and> cs_repo (ma_cli m') = cs_repo (ma_cli m)
    \<and> (\<forall>e. x = Inl e \<and> (CodeOf e \<noteq> None \<or> gateOf e \<noteq> None) \<longrightarrow>
         (\<exists>msg. out = [ErrOut (''error ['' @ (case gateOf e of Some g \<Rightarrow> ''conflict'' | None \<Rightarrow> code_text (the (CodeOf e)))
                               @ '']: '' @ msg @ [newline])]))"
proof -
  let ?call = "ClientStop (ci_client C) (daemon_transport router E R version token) name
      (cs_token (ma_cli m), cs_daemon (ma_cli m))"
  note stopped = client_stops_service [where router = router and name = name, OF assms(1-4),
      where d = "cs_daemon (ma_cli m)" and E = E and R = R and version = version, OF assms(5)]
  define result where "result = fst ?call"
  have call: "?call = (result, fs', (cs_daemon (ma_cli m))\<lparr>dm_world := w\<rparr>)"
    and good: "result = Inr () \<longleftrightarrow> x = Inr ()"
    using stopped by (auto simp: result_def)
  have coded: "\<exists>de. result = Inl (ClientDomain de) \<and> de_code de = code_text c"
    if "x = Inl e" "CodeOf e = Some c" "gateOf e = None" for e c
    using stopped that by (auto simp: result_def)
  have gate: "\<exists>de. result = Inl (ClientDomain de) \<and> de_code de = ''conflict''" if "x = Inl e" "gateOf e = Some g" for e g
    using stopped that by (cases g) (auto simp: result_def)
  have parse: "parse_args (ho_home H) [program, ''stop'', name] = CmdStop name"
    by (simp add: parse_args_def read_command_def requireArg_def)
  have shown_error: "\<exists>msg. fatal [] (ClientDomain de) = (1, [ErrOut (''error ['' @ de_code de @ '']: '' @ msg @ [newline])])"
    for de by (simp add: fatal_def client_domain_def)
  show ?thesis
  proof (cases result)
    case (Inr u)
    then show ?thesis
      using good
      by (simp add: anito_def run_command_def parse on_cli_def run_simple_def on_daemon_def call shown_def)
  next
    case (Inl e1)
    then have "x \<noteq> Inr ()" using good by auto
    then obtain e where x: "x = Inl e" by (cases x) auto
    have "\<exists>msg. fatal [] e1 = (1, [ErrOut (''error ['' @ (case gateOf e of Some g \<Rightarrow> ''conflict'' | None \<Rightarrow> code_text (the (CodeOf e)))
        @ '']: '' @ msg @ [newline])])" if "CodeOf e \<noteq> None \<or> gateOf e \<noteq> None"
    proof (cases "gateOf e")
      case None
      with that obtain c where c: "CodeOf e = Some c" by auto
      from coded [OF x c None] Inl obtain de where "e1 = ClientDomain de" "de_code de = code_text c" by auto
      with c None shown_error [of de] show ?thesis by simp
    next
      case (Some g)
      from gate [OF x Some] Inl obtain de where "e1 = ClientDomain de" "de_code de = ''conflict''" by auto
      with Some shown_error [of de] show ?thesis by simp
    qed
    moreover have "fst (fatal [] e1) = 1" by (simp add: fatal_def)
    ultimately show ?thesis
      using x Inl
      by (cases "fatal [] e1")
        (auto simp: anito_def run_command_def parse on_cli_def run_simple_def on_daemon_def call shown_def)
  qed
qed

theorem anito_stop_exit_witness:
  "\<forall>(C :: cli_env) H B E R (m :: daemon machine) d. \<exists>msg m'.
     anito (C\<lparr>ci_client := demo_client\<rparr>) H B ''dev'' (daemon_transport demo_stop_router E R ''dev'' ''t0p'')
       [''anito'', ''stop'', ''api'']
       (m\<lparr>ma_cli := (ma_cli m)\<lparr>cs_token := Map.empty, cs_daemon := d\<lparr>dm_world := demo_booting\<rparr>\<rparr>\<rparr>)
     = ((1, [ErrOut (''error ['' @ ''conflict'' @ '']: '' @ msg @ [newline])]), m')"
proof (intro allI)
  fix C :: cli_env and H B E R and m :: "daemon machine" and d
  have "mutationsBlockedLocked (w_startup demo_booting)"
    by (simp add: demo_booting_def BeginStartup_def Let_def tracker_begin_def mutationsBlockedLocked_def)
  note stop = gate_Stop.blocked [OF this, of E "''api''"]
  define gate where "gate = StartupGateError (tk_phase (w_startup demo_booting)) (tk_completed (w_startup demo_booting))
    (tk_total (w_startup demo_booting))"
  define m0 where "m0 = m\<lparr>ma_cli := (ma_cli m)\<lparr>cs_token := Map.empty, cs_daemon := d\<lparr>dm_world := demo_booting\<rparr>\<rparr>\<rparr>"
  define C0 where "C0 = C\<lparr>ci_client := demo_client\<rparr>"
  have name: "\<forall>c \<in> set ''api''. path_char c" by (simp add: path_char_def unreserved_def Let_def)
  have route: "demo_stop_router ''POST'' (''/stop/'' @ ''api'') = Found EpStop (\<lambda>_. ''api'')"
    by (simp add: demo_stop_router_def)
  have token: "LoadClientToken (ce_auth (ci_client C0)) (cs_token (ma_cli m0)) = (Inr (''t0p'', EnvToken), Map.empty)"
    "trim_space ''t0p'' \<noteq> []"
    by (simp_all add: C0_def m0_def demo_client_def LoadClientToken_def trim_space_def trim_left_def is_space_def)
  have run: "ServiceStop E ''api'' (dm_world (cs_daemon (ma_cli m0))) = (Inl gate, demo_booting)"
    by (simp add: stop gate_def m0_def)
  from anito_stop_exit [where router = demo_stop_router and name = "''api''" and C = C0 and m = m0, OF name route token run,
      of H B "''dev''" R "''anito''"]
  obtain out m' where out: "anito C0 H B ''dev'' (daemon_transport demo_stop_router E R ''dev'' ''t0p'')
       [''anito'', ''stop'', ''api''] m0 = ((if Inl gate = (Inr () :: err + unit) then 0 else 1, out), m')"
    "\<And>e. Inl gate = (Inl e :: err + unit) \<Longrightarrow> CodeOf e \<noteq> None \<or> gateOf e \<noteq> None \<Longrightarrow>
         \<exists>msg. out = [ErrOut (''error ['' @ (case gateOf e of Some g \<Rightarrow> ''conflict'' | None \<Rightarrow> code_text (the (CodeOf e)))
                               @ '']: '' @ msg @ [newline])]"
    by blast
  have "\<exists>msg. out = [ErrOut (''error ['' @ ''conflict'' @ '']: '' @ msg @ [newline])]"
    using out(2) [OF refl] by (simp add: gate_def)
  with out(1) show "\<exists>msg m'.
     anito (C\<lparr>ci_client := demo_client\<rparr>) H B ''dev'' (daemon_transport demo_stop_router E R ''dev'' ''t0p'')
       [''anito'', ''stop'', ''api'']
       (m\<lparr>ma_cli := (ma_cli m)\<lparr>cs_token := Map.empty, cs_daemon := d\<lparr>dm_world := demo_booting\<rparr>\<rparr>\<rparr>)
     = ((1, [ErrOut (''error ['' @ ''conflict'' @ '']: '' @ msg @ [newline])]), m')"
    by (auto simp: m0_def C0_def)
qed

section \<open>Deploying\<close>

text \<open>The request of a configuration, with durations as durations.\<close>

definition config_request :: "config \<Rightarrow> string \<Rightarrow> string \<Rightarrow> deploy_request" where
  "config_request cfg absConfig absOutput =
     \<lparr>dr_Name = cf_Name cfg, dr_Version = cf_Version cfg, dr_VersionPath = cf_VersionPath cfg,
      dr_Type = type_of_text (cf_Type cfg), dr_Path = absOutput, dr_Args = cf_Args cfg,
      dr_StablePort = fst (request_ports cfg), dr_StablePorts = snd (request_ports cfg),
      dr_ProxyBindAddress = cf_ProxyBindAddress cfg, dr_HealthCheckPort = cf_HealthCheckPort cfg,
      dr_EnvFile = env_file_at absConfig cfg, dr_HealthCheck = cf_HealthCheck cfg, dr_WatchPaths = cf_Watch cfg,
      dr_DrainWindow = cf_DrainWindow cfg, dr_HealthCheckTimeout = cf_HealthCheckTimeout cfg,
      dr_RestartPolicy = cf_RestartPolicy cfg, dr_ConfigPath = absConfig\<rparr>"

definition int64 :: "int \<Rightarrow> bool" where
  "int64 i \<longleftrightarrow> - (2 ^ 63) \<le> i \<and> i < 2 ^ 63"

lemma parse_window_text:
  "int64 d \<Longrightarrow> parse_window (if d \<noteq> 0 then duration_text d else '''') bad = Inr d"
proof -
  assume "int64 d"
  then have "ParseDuration (duration_text d) = Inr d" by (intro ParseDuration_text) (simp_all add: int64_def)
  moreover have "ParseDuration '''' \<noteq> Inr d" by (simp add: ParseDuration_def Let_def)
  ultimately show ?thesis by (auto simp: parse_window_def)
qed

lemma clean_foldl_nonempty: "'''' \<notin> set st \<Longrightarrow> '''' \<notin> set (foldl (clean_step r) st cs)"
proof (induction cs arbitrary: st)
  case (Cons c cs)
  have "'''' \<notin> set (clean_step r st c)" using Cons.prems by (cases st) auto
  then show ?case using Cons.IH by simp
qed simp

lemma str_join_eq_Nil: "str_join s xs = '''' \<Longrightarrow> '''' \<notin> set xs \<Longrightarrow> xs = []"
  by (cases xs) (auto simp: str_join_Cons split: if_splits)

lemma Clean_nonempty: "Clean p \<noteq> ''''"
  using clean_foldl_nonempty [of "[]" "IsAbs p" "split_on slash p"] str_join_eq_Nil [of "[slash]" "clean_comps p"]
  by (auto simp: Clean_def clean_comps_def)

lemma go_abs_nonempty: "go_abs getwd p = Inr a \<Longrightarrow> p \<noteq> '''' \<Longrightarrow> a \<noteq> ''''"
  by (auto simp: go_abs_def path_abs_def path_join_def Clean_nonempty Let_def split: if_splits sum.splits)

lemma config_load_named: "config_load rd yaml wd path = Inr cfg \<Longrightarrow> cf_Name cfg \<noteq> '''' \<and> cf_Output cfg \<noteq> ''''"
  by (auto simp: config_load_def Let_def resolve_paths_def config_default_fields normalize_fields
      split: sum.splits if_splits)

text \<open>The ports of a loaded configuration survive, as the service layer reads them.\<close>

definition ports_read :: "int \<times> ports \<Rightarrow> ports" where
  "ports_read p = (if snd p = [] then [(''default'', fst p)] else snd p)"

lemma request_ports_exact:
  assumes "config_load rd yaml wd path = Inr cfg"
  shows "ports_read (request_ports cfg) = (if cf_Ports cfg = [] then [(''default'', 0)] else cf_Ports cfg)"
proof -
  have port: "cf_Port cfg \<noteq> 0 \<Longrightarrow> cf_Ports cfg = [(''default'', cf_Port cfg)]"
    using assms by (auto simp: config_load_def Let_def resolve_paths_def config_default_fields normalize_fields
        split: sum.splits if_splits)
  consider "cf_Ports cfg = []" | k p where "cf_Ports cfg = [(k, p)]" | a b ps where "cf_Ports cfg = a # b # ps"
    by (metis list.exhaust surj_pair)
  then show ?thesis using port
    by cases (auto simp: ports_read_def request_ports_def hasSingleDefault_def)
qed

lemma deploy_payload_read:
  "to_deploy_request (deploy_payload cfg absConfig absOutput) (cf_DrainWindow cfg) (cf_HealthCheckTimeout cfg)
     = config_request cfg absConfig absOutput"
  by (simp add: to_deploy_request_def deploy_payload_def config_request_def)

text \<open>What the daemon does with the payload.\<close>

lemma handleDeploy_payload:
  assumes "re_deploy_json R body = Some (deploy_payload cfg absConfig absOutput)" and "hq_Body q = body"
    and "cf_Name cfg \<noteq> ''''" and "absOutput \<noteq> ''''"
    and "int64 (cf_DrainWindow cfg)" and "int64 (cf_HealthCheckTimeout cfg)"
    and "Deploy E (config_request cfg absConfig absOutput) (dm_world d) = (x, w)"
  shows "\<exists>r d1. handleDeploy E R q d = (r, d1) \<and> dm_world d1 = w \<and> dm_sessions d1 = dm_sessions d
    \<and> (\<forall>svc. x = Inr svc \<longrightarrow> r = answer 200 (BodyService svc)) \<and> (\<forall>e. x = Inl e \<longrightarrow> r = service_reply e)"
proof -
  have windows: "parse_window (hd_DrainWindow (deploy_payload cfg absConfig absOutput)) bad_drain_window = Inr (cf_DrainWindow cfg)"
    "parse_window (hd_HealthCheckTimeout (deploy_payload cfg absConfig absOutput)) bad_timeout = Inr (cf_HealthCheckTimeout cfg)"
    using parse_window_text [OF assms(5), of bad_drain_window] parse_window_text [OF assms(6), of bad_timeout]
    by (simp_all add: deploy_payload_def)
  have named: "hd_Name (deploy_payload cfg absConfig absOutput) \<noteq> ''''" "hd_Path (deploy_payload cfg absConfig absOutput) \<noteq> ''''"
    using assms(3,4) by (simp_all add: deploy_payload_def)
  show ?thesis
    using assms(1,2,7) named
    by (cases x) (simp_all add: handleDeploy_def windows deploy_payload_read svc_do_def log_issue_def split: option.split)
qed

text \<open>C15: \<^verbatim>\<open>anito deploy\<close> deploys what the configuration says: with a configuration that loads, a build
  that succeeds and the daemon's token, the daemon deploys exactly the request of the configuration, whose durations
  travel as text and whose ports as one number or as a map, and the command exits with 0 exactly when the
  deploy succeeds. What the daemon reads as ports are those of the configuration.\<close>

theorem anito_deploy_sends_config:
  assumes "cli_config C configPath = Inr cfg"
    and "go_abs (ci_cwd C) configPath = Inr absConfig" and "go_abs (ci_cwd C) (cf_Output cfg) = Inr absOutput"
    and "cf_Build cfg = '''' \<or> ci_build C (cf_Build cfg) (BuildDir absConfig) = None"
    and "int64 (cf_DrainWindow cfg)" and "int64 (cf_HealthCheckTimeout cfg)"
    and "router ''POST'' ''/deploy'' = Found EpDeploy param"
    and "LoadClientToken (ce_auth (ci_client C)) (cs_token st) = (Inr (token, source), fs')" and "trim_space token \<noteq> ''''"
    and "re_deploy_json R (ce_deploy (ci_client C) (deploy_payload cfg absConfig absOutput))
      = Some (deploy_payload cfg absConfig absOutput)"
    and "Deploy E (config_request cfg absConfig absOutput) (dm_world (cs_daemon st)) = (x, w)"
  shows "\<exists>out st'. runDeploy C (daemon_transport router E R version token) configPath st
      = ((if ok x then 0 else 1, out), st')
    \<and> dm_world (cs_daemon st') = w
    \<and> ports_read (dr_StablePort (config_request cfg absConfig absOutput), dr_StablePorts (config_request cfg absConfig absOutput))
      = (if cf_Ports cfg = [] then [(''default'', 0)] else cf_Ports cfg)"
proof -
  let ?payload = "deploy_payload cfg absConfig absOutput" and ?send = "daemon_transport router E R version token"
  have named: "cf_Name cfg \<noteq> ''''" "cf_Output cfg \<noteq> ''''"
    using config_load_named assms(1) by (auto simp: cli_config_def)
  have ports: "ports_read (dr_StablePort (config_request cfg absConfig absOutput), dr_StablePorts (config_request cfg absConfig absOutput))
      = (if cf_Ports cfg = [] then [(''default'', 0)] else cf_Ports cfg)"
    using request_ports_exact assms(1) by (simp add: config_request_def cli_config_def)
  have path: "\<forall>c \<in> set ''/deploy''. path_char c" by (simp add: path_char_def unreserved_def Let_def)
  from client_call_daemon [where router = router and meth = "''POST''" and path = "''/deploy''", OF path assms(7-9),
      of "[(''Content-Type'', ''application/json'')]" "ce_deploy (ci_client C) ?payload" E R version as_service "cs_daemon st"]
  obtain q where q: "hq_Body q = ce_deploy (ci_client C) ?payload"
    and call: "ClientDeploy (ci_client C) ?send ?payload (cs_token st, cs_daemon st) =
      (case handleDeploy E R q (cs_daemon st) of
         (r, d1) \<Rightarrow> (if 400 \<le> rp_status r then Inl (parseError (ci_client C) r)
                     else (case as_service (rp_body r) of None \<Rightarrow> Inl json_error | Some x \<Rightarrow> Inr x), fs', d1))"
    by (auto simp: ClientDeploy_def postJSON_def handle_def)
  from handleDeploy_payload [OF assms(10) q named(1) go_abs_nonempty [OF assms(3) named(2)] assms(5,6,11)]
  obtain r d1 where handled: "handleDeploy E R q (cs_daemon st) = (r, d1)" "dm_world d1 = w"
    "\<And>svc. x = Inr svc \<Longrightarrow> r = answer 200 (BodyService svc)" "\<And>e. x = Inl e \<Longrightarrow> r = service_reply e"
    by blast
  have "\<exists>result. ClientDeploy (ci_client C) ?send ?payload (cs_token st, cs_daemon st) = (result, fs', d1) \<and> (ok x \<longleftrightarrow> (\<exists>s. result = Inr s))"
  proof (cases x)
    case (Inl e)
    with handled(4) [OF Inl] show ?thesis
      by (simp add: call handled(1) service_reply_status ok_def)
  next
    case (Inr svc)
    with handled(3) [OF Inr] show ?thesis
      by (cases svc) (simp_all add: call handled(1) answer_def as_service_def ok_def)
  qed
  then obtain result where result: "ClientDeploy (ci_client C) ?send ?payload (cs_token st, cs_daemon st) = (result, fs', d1)"
    "ok x \<longleftrightarrow> (\<exists>s. result = Inr s)"
    by blast
  have no_build: "(if cf_Build cfg \<noteq> '''' then ci_build C (cf_Build cfg) (BuildDir absConfig) else None) = None"
    using assms(4) by auto
  show ?thesis
    using result(2) handled(2) ports
    by (cases result)
      (simp_all add: runDeploy_def assms(1-3) no_build on_daemon_def result(1) shown_def fatal_def del: sprintf.simps)
qed

text \<open>A configuration as it is loaded from \<^verbatim>\<open>/repo\<close>.\<close>

definition demo_loaded :: config where
  "demo_loaded =
     resolve_paths ''/repo/.anito'' (config_defaults (normalize_ports
       (demo_config\<lparr>cf_Build := ''make'', cf_DrainWindow := 90500000000\<rparr>)))"

definition demo_cli :: "cli_env \<Rightarrow> cli_env" where
  "demo_cli C = C\<lparr>ci_client := demo_client, ci_cwd := Inr ''/repo'', ci_read := (\<lambda>_. Inr ''''),
     ci_yaml := (\<lambda>_. Inr (demo_config\<lparr>cf_Build := ''make'', cf_DrainWindow := 90500000000\<rparr>)),
     ci_build := (\<lambda>command dir. if dir = ''/repo'' then None else Some (IOError ''make: no rule''))\<rparr>"

lemma demo_loads: "cli_config (demo_cli C) ''.anito/config.yaml'' = Inr demo_loaded"
proof -
  have "config_load (\<lambda>_. Inr '''') (\<lambda>_. Inr (demo_config\<lparr>cf_Build := ''make'', cf_DrainWindow := 90500000000\<rparr>)) (Inr ''/repo'')
      ''.anito/config.yaml'' = Inr demo_loaded"
    by code_simp
  then show ?thesis by (simp add: cli_config_def demo_cli_def)
qed

definition demo_payload :: http_deploy where
  "demo_payload = deploy_payload demo_loaded ''/repo/.anito/config.yaml'' ''/repo/bin/api''"

definition demo_deploy_router :: router where
  "demo_deploy_router meth path = (if path = ''/deploy'' then Found EpDeploy (\<lambda>_. '''') else NoRoute)"

theorem anito_deploy_sends_config_witness:
  "\<forall>(C :: cli_env) E R st d. \<exists>out st'.
     runDeploy (demo_cli C) (daemon_transport demo_deploy_router E (R\<lparr>re_deploy_json := (\<lambda>_. Some demo_payload)\<rparr>) ''dev'' ''t0p'')
       ''.anito/config.yaml'' (st\<lparr>cs_token := Map.empty, cs_daemon := d\<lparr>dm_world := demo_booting\<rparr>\<rparr>) = ((1, out), st')
     \<and> dm_world (cs_daemon st') = demo_booting"
proof (intro allI)
  fix C :: cli_env and E and R :: request_env and st :: "daemon cli_state" and d
  define st0 where "st0 = st\<lparr>cs_token := Map.empty, cs_daemon := d\<lparr>dm_world := demo_booting\<rparr>\<rparr>"
  define R0 where "R0 = R\<lparr>re_deploy_json := (\<lambda>_. Some demo_payload)\<rparr>"
  let ?request = "config_request demo_loaded ''/repo/.anito/config.yaml'' ''/repo/bin/api''"
  have paths: "go_abs (Inr ''/repo'') ''.anito/config.yaml'' = Inr ''/repo/.anito/config.yaml''"
    "go_abs (Inr ''/repo'') (cf_Output demo_loaded) = Inr ''/repo/bin/api''"
    by code_simp+
  have "BuildDir ''/repo/.anito/config.yaml'' = ''/repo''" by code_simp
  then have build: "cf_Build demo_loaded = '''' \<or> ci_build (demo_cli C) (cf_Build demo_loaded) (BuildDir ''/repo/.anito/config.yaml'') = None"
    by (simp add: demo_cli_def)
  have cwd: "ci_cwd (demo_cli C) = Inr ''/repo''" by (simp add: demo_cli_def)
  have windows: "int64 (cf_DrainWindow demo_loaded)" "int64 (cf_HealthCheckTimeout demo_loaded)"
    by (simp_all add: demo_loaded_def resolve_paths_def config_defaults_def normalize_ports_def demo_config_def int64_def)
  have route: "demo_deploy_router ''POST'' ''/deploy'' = Found EpDeploy (\<lambda>_. '''')" by (simp add: demo_deploy_router_def)
  have token: "LoadClientToken (ce_auth (ci_client (demo_cli C))) (cs_token st0) = (Inr (''t0p'', EnvToken), Map.empty)"
    "trim_space ''t0p'' \<noteq> []"
    by (simp_all add: demo_cli_def st0_def demo_client_def LoadClientToken_def trim_space_def trim_left_def is_space_def)
  have json: "re_deploy_json R0 (ce_deploy (ci_client (demo_cli C)) (deploy_payload demo_loaded ''/repo/.anito/config.yaml'' ''/repo/bin/api''))
      = Some (deploy_payload demo_loaded ''/repo/.anito/config.yaml'' ''/repo/bin/api'')"
    by (simp add: R0_def demo_payload_def)
  have "mutationsBlockedLocked (w_startup demo_booting)"
    by (simp add: demo_booting_def BeginStartup_def Let_def tracker_begin_def mutationsBlockedLocked_def)
  note blocked = gate_Deploy.blocked [OF this, of E ?request]
  have run: "Deploy E ?request (dm_world (cs_daemon st0)) = (Inl (StartupGateError (tk_phase (w_startup demo_booting))
      (tk_completed (w_startup demo_booting)) (tk_total (w_startup demo_booting))), demo_booting)"
    by (simp add: st0_def blocked)
  from anito_deploy_sends_config [where router = demo_deploy_router and version = "''dev''", OF demo_loads paths [folded cwd] build windows route token json run]
  show "\<exists>out st'.
     runDeploy (demo_cli C) (daemon_transport demo_deploy_router E (R\<lparr>re_deploy_json := (\<lambda>_. Some demo_payload)\<rparr>) ''dev'' ''t0p'')
       ''.anito/config.yaml'' (st\<lparr>cs_token := Map.empty, cs_daemon := d\<lparr>dm_world := demo_booting\<rparr>\<rparr>) = ((1, out), st')
     \<and> dm_world (cs_daemon st') = demo_booting"
    by (auto simp: st0_def R0_def ok_def)
qed

section \<open>Directories\<close>

text \<open>The output of a build is looked for from the working directory, while the build runs in the repository of
  the configuration, as the doctor assumes.\<close>

lemma output_is_not_where_it_is_built:
  "go_abs (Inr ''/home/me'') ''bin/api'' = Inr ''/home/me/bin/api''"
  "BuildDir ''/repo/.anito/config.yaml'' = ''/repo''"
  "against ''/repo'' ''bin/api'' = ''/repo/bin/api''"
  by code_simp+

text \<open>\<^verbatim>\<open>anito diagnose\<close> asks the daemon about the daemon's own working directory.\<close>

lemma diagnose_sends_a_dot:
  "\<exists>q. NewRequest ''GET'' (diagnose_path (diagnose_request C [])) '''' = Inr q \<and> hq_Query q ''path'' = ''.''"
proof -
  have "diagnose_path (diagnose_request C []) = diagnose_path \<lparr>dq_ServiceName = '''', dq_RepoPath = ''.''\<rparr>"
    by (simp add: diagnose_request_def)
  moreover have "url_parse (diagnose_path \<lparr>dq_ServiceName = '''', dq_RepoPath = ''.''\<rparr>) =
      Some \<lparr>ur_Path = ''/diagnose'', ur_RawPath = '''', ur_Query = ''path=.''\<rparr>" by code_simp
  moreover have "query_get (ParseQuery ''path=.'') ''path'' = ''.''" by code_simp
  ultimately show ?thesis by (simp add: NewRequest_def)
qed

section \<open>Installing\<close>

text \<open>Where the daemon already runs nothing is done.\<close>

lemma install_leaves_running: "ho_healthy H \<Longrightarrow> snd (runInstall H binDir t) = t"
  by (simp add: runInstall_def split: sum.split)

lemma host_do_done: "host_do H step t = (Inr u, t') \<Longrightarrow> t' = t @ [step]"
  by (simp add: host_do_def split: option.splits)

lemma copyFile_done:
  "copyFile H src dst t = (Inr u, t') \<Longrightarrow> t' = t @ [OpenFile src, Truncate dst, CopyInto src dst, CloseFile dst]"
  by (auto simp: copyFile_def split: on_res_split_asm dest!: host_do_done)

lemma host_then_done:
  "host_then before wrap r k = ((0, out), t) \<Longrightarrow> \<exists>u t1. r = (Inr u, t1) \<and> k t1 = ((0, out), t)"
  by (auto simp: host_then_def fatal_def split: prod.splits sum.splits)

lemma await_daemon_iff: "fst (await_daemon as) \<longleftrightarrow> True \<in> set as"
  by (induction as) (auto split: prod.split)

text \<open>When \<^verbatim>\<open>anito install\<close> reports success on a machine without a running daemon, it has installed
  the binary, written the agent and loaded it, in this order and nothing else, the agent starts the installed
  binary, and the daemon has answered.\<close>

theorem install_steps:
  assumes "runInstall H binDir t = ((0, out), t')" and "\<not> ho_healthy H"
  shows "\<exists>home self bin plist. ho_home H = Inr home \<and> ho_self H = Inr self
    \<and> bin = path_join [if binDir = '''' then path_join [home, ''.local'', ''bin''] else binDir, ''anito'']
    \<and> plist = launchdPlistPath H
    \<and> t' = t @ [MkdirAll (if binDir = '''' then path_join [home, ''.local'', ''bin''] else binDir),
                OpenFile self, Truncate bin, CopyInto self bin, CloseFile bin,
                MkdirAll (path_join [home, ''.anito'', ''logs'']), MkdirAll (path_dir plist),
                WriteText plist (sprintf plistTemplate [bin, home, home, home, home]), Launchctl ''load'' plist]
    \<and> True \<in> set (ho_attempts H)"
proof -
  from assms obtain home self where env: "ho_home H = Inr home" "ho_self H = Inr self"
    by (auto simp: runInstall_def fatal_def Let_def split: sum.splits)
  have last: "install_healthy H logDir before t1 = ((0, out), t') \<Longrightarrow> t' = t1 \<and> True \<in> set (ho_attempts H)" for logDir before t1
    using await_daemon_iff [of "ho_attempts H"]
    by (auto simp: install_healthy_def fatal_def Let_def split: prod.splits if_splits)
  have plist: "launchdPlistPath H = path_join [home, ''Library'', ''LaunchAgents'', ''com.anito.daemon.plist'']"
    by (simp add: launchdPlistPath_def env)
  from assms(1) show ?thesis
    unfolding runInstall_def Let_def env sum.case install_agent_def
    using assms(2)
    by (auto simp: plist env simp del: sprintf.simps dest!: host_then_done host_do_done copyFile_done last)
qed

definition demo_host :: host_env where
  "demo_host =
     \<lparr>ho_home = Inr ''/home/me'', ho_self = Inr ''/tmp/anito'', ho_plist = False, ho_refuses = (\<lambda>_. None), ho_healthy = False,
      ho_attempts = [False, True], ho_version = Inr ''dev''\<rparr>"

theorem install_steps_witness:
  "\<exists>out t'. runInstall demo_host '''' [] = ((0, out), t') \<and> length t' = 9
     \<and> OpenFile ''/tmp/anito'' \<in> set t'"
proof -
  obtain out t' where run: "runInstall demo_host '''' [] = ((0, out), t')"
    by (simp add: runInstall_def install_agent_def install_healthy_def copyFile_def host_then_def host_do_def demo_host_def
        Let_def del: sprintf.simps)
  have "\<not> ho_healthy demo_host" by (simp add: demo_host_def)
  from install_steps [OF run this] run show ?thesis by (auto simp: demo_host_def simp del: sprintf.simps)
qed

end
