(* ===== verification/Notify.thy ===== *)
theory Notify
  imports Paths
begin

text \<open>
  \<^verbatim>\<open>internal/notify/notify.go\<close>: a desktop notification is one command, run in the background and
  never waited for. What is modelled is which command is run, with which arguments; whether a helper is
  installed and the home directory are parameters.
\<close>

section \<open>The commands\<close>

definition helperPaths :: "err + string \<Rightarrow> string list" where
  "helperPaths home =
     ''/Applications/AnitoNotify.app/Contents/MacOS/anito-notify'' #
     (case home of
        Inl e \<Rightarrow> []
      | Inr h \<Rightarrow> [path_join [h, ''Applications'', ''AnitoNotify.app'', ''Contents'', ''MacOS'', ''anito-notify'']])"

definition resolveHelper :: "(string \<Rightarrow> bool) \<Rightarrow> err + string \<Rightarrow> string" where
  "resolveHelper installed home =
     (case filter installed (helperPaths home) of p # _ \<Rightarrow> p | [] \<Rightarrow> '''')"

fun escapeAS :: "string \<Rightarrow> string" where
  "escapeAS [] = []"
| "escapeAS (c # cs) =
     (if c = CHR 0x22 \<or> c = CHR 0x5C then CHR 0x5C # c # escapeAS cs else c # escapeAS cs)"

definition osascript :: "string \<Rightarrow> string \<Rightarrow> bool \<Rightarrow> string" where
  "osascript title message sound =
     ''display notification '' @ [CHR 0x22] @ escapeAS message @ [CHR 0x22] @ '' with title '' @ [CHR 0x22] @
     escapeAS title @ [CHR 0x22] @
     (if sound then '' sound name '' @ [CHR 0x22] @ ''default'' @ [CHR 0x22] else '''')"

text \<open>The command and its arguments.\<close>

definition notify_send :: "(string \<Rightarrow> bool) \<Rightarrow> err + string \<Rightarrow> string \<Rightarrow> string \<Rightarrow> bool \<Rightarrow> string list" where
  "notify_send installed home title message sound =
     (let helper = resolveHelper installed home in
      if helper \<noteq> ''''
      then [''open'', path_dir (path_dir (path_dir helper)), ''--args'', ''--title'', title, ''--message'', message] @
           (if sound then [''--sound''] else [])
      else [''osascript'', ''-e'', osascript title message sound])"

definition notify_Send :: "(string \<Rightarrow> bool) \<Rightarrow> err + string \<Rightarrow> string \<Rightarrow> string \<Rightarrow> string list" where
  "notify_Send installed home title message = notify_send installed home title message False"

definition SendWithSound :: "(string \<Rightarrow> bool) \<Rightarrow> err + string \<Rightarrow> string \<Rightarrow> string \<Rightarrow> string list" where
  "SendWithSound installed home title message = notify_send installed home title message True"

section \<open>What the script says\<close>

text \<open>A text literal of the script language, from behind its opening quotation mark: the text it stands
  for and what follows its closing one. Of the escapes it has, only those of the quotation mark and of the
  backslash are read.\<close>

fun read_literal :: "string \<Rightarrow> (string \<times> string) option" where
  "read_literal [] = None"
| "read_literal (c # cs) =
     (if c = CHR 0x22 then Some ([], cs)
      else if c = CHR 0x5C
      then (case cs of
              [] \<Rightarrow> None
            | d # ds \<Rightarrow>
                if d = CHR 0x22 \<or> d = CHR 0x5C then map_option (\<lambda>(t, rest). (d # t, rest)) (read_literal ds)
                else None)
      else map_option (\<lambda>(t, rest). (c # t, rest)) (read_literal cs))"

lemma read_literal_escapeAS: "read_literal (escapeAS s @ CHR 0x22 # rest) = Some (s, rest)"
  by (induction s) auto

text \<open>C40: A notification cannot be made to run code: whatever its title and message hold, the script that
  is handed to the interpreter is one command whose two literals read back as exactly the message and the
  title, with nothing left over but the sound.\<close>

theorem notification_reads_back:
  "\<exists>after. osascript title message sound = ''display notification '' @ [CHR 0x22] @ after
     \<and> (\<exists>after2. read_literal after = Some (message, '' with title '' @ [CHR 0x22] @ after2)
          \<and> read_literal after2 =
              Some (title, if sound then '' sound name '' @ [CHR 0x22] @ ''default'' @ [CHR 0x22] else ''''))"
  by (auto simp: osascript_def read_literal_escapeAS)

end
