(* ===== verification/Spec2Isabelle.thy ===== *)
theory Spec2Isabelle
  imports Registry_Props Proxy_Props Process_Props Failure_Props Query_Props Restore_Props Isolation
    Issues_Props Sessions Auth Watcher Coordinate_Props Setup_Apply_Props Setup_Ports
    Log_Stream Mcp_Props Boot_Props Cli_Props Notify
begin

text \<open>
  Anito is a daemon that keeps local services running: it owns a stable port per service, starts
  the service's binary on an internal port, proxies the one to the other, and replaces a running
  version by a new one only after the candidate answers its health check. This library models the
  parts of its Go code that carry this promise and proves what they guarantee.

  \<^bold>\<open>Parts and theories.\<close> \<open>Errors\<close> has the error values of \<^verbatim>\<open>internal/domain\<close> and the HTTP
  statuses of \<^verbatim>\<open>internal/server\<close>; \<open>Prelude\<close> has results (\<open>err + 'a\<close> with the state), maps as
  association lists with distinct keys, and strings. \<open>Regex\<close> is the part of Go's \<^verbatim>\<open>regexp\<close> the code
  uses, and \<open>Wire\<close> the text of errors, their redaction and their form on the wire.
  \<open>Registry_Types\<close> and \<open>Registry\<close> are \<^verbatim>\<open>internal/registry\<close>: the service records, the store
  and its file. A save is told by a Boolean whether the disk takes it; a failed save keeps the change in
  memory, as the code does. \<open>Registry_Inv\<close> states the contract of the mutators as the locale
  \<open>service_mutator\<close>, \<open>Registry_Props\<close> has the properties.
  \<open>Ip\<close>, \<open>Names\<close>, \<open>Proxy\<close>, \<open>Proxy_Inv\<close> and \<open>Proxy_Props\<close> are \<^verbatim>\<open>internal/proxy\<close>: listeners,
  routing generations, the bind policy, the forwarded headers; the locale \<open>port_router\<close> is the
  interface the service layer uses.
  \<open>Envfile\<close>, \<open>Process_Tree\<close>, \<open>Process\<close> and \<open>Process_Props\<close> are \<^verbatim>\<open>internal/process\<close>: the
  environment of a child, the check that a port belongs to the process that was started, and the
  manager with its waiting goroutines, whose locked sections are separate steps.
  \<open>Paths\<close> and \<open>Receipt\<close> are the path checks and \<^verbatim>\<open>internal/receipt\<close>, \<open>Health\<close> the readiness poll,
  \<open>Startup\<close> the startup tracker and its gate.
  \<open>Config\<close> is \<^verbatim>\<open>internal/config\<close>, \<open>Issues\<close> and \<open>Issues_Props\<close> are \<^verbatim>\<open>internal/issues\<close>, \<open>Sessions\<close> is
  \<^verbatim>\<open>internal/sessions\<close>, \<open>Auth\<close> \<^verbatim>\<open>internal/auth\<close>, and \<open>Watcher\<close> \<^verbatim>\<open>internal/watcher\<close> with the timers of its
  debouncing loop as a step relation.
  \<open>World\<close> joins them into the state of \<^verbatim>\<open>service.Service\<close> and \<open>Service\<close> has its
  operations (\<^verbatim>\<open>internal/service/service.go\<close>, \<^verbatim>\<open>archive.go\<close>, \<^verbatim>\<open>startup_state.go\<close>), each one function with all
  the calls it makes, in their order, and every rollback path. \<open>Restore\<close> is the restore of all services
  after a start of the daemon (\<^verbatim>\<open>restore.go\<close>): the pool of workers is any order of the jobs, and its
  context may be cancelled at any tick.
  \<open>Setup\<close>, \<open>Coordinate\<close> and \<open>Setup_Apply\<close> are \<^verbatim>\<open>internal/setup\<close>: inspecting a repository, assigning ports
  to the services of a composite application with the files that carry them, and planning and applying a
  setup with its staged files and its rollback. \<open>Setup_Ports\<close> (\<^verbatim>\<open>internal/mcp/setup_apply.go\<close>) makes the
  service layer the reserver of ports of a plan.
  \<open>Doctor\<close> and \<open>Diagnosis\<close> are \<^verbatim>\<open>internal/doctor\<close> and \<^verbatim>\<open>internal/diagnosis\<close>, \<open>Log_Stream\<close> the
  following of a log from the file to the client's terminal, \<open>Case_Study\<close> the drafts of case studies,
  \<open>Notify\<close> \<^verbatim>\<open>internal/notify\<close>. \<open>Durations\<close> writes and reads durations as Go's \<^verbatim>\<open>time\<close> does and
  \<open>Urls\<close> is what is used of \<^verbatim>\<open>net/url\<close>.
  \<open>Daemon\<close> is the state behind both front ends: the world, the stores of issues and sessions, the files of
  repositories and drafts. \<open>Server\<close> is \<^verbatim>\<open>internal/server\<close>: the middleware, the table of routes and one
  handler per endpoint. \<open>Mcp\<close> and \<open>Mcp_Http\<close> are \<^verbatim>\<open>internal/mcp\<close>: one function per tool, the views of
  its results, the capability check over the body of a request and the record of sessions. \<open>Requests\<close>
  says what a request may do to the service layer; \<open>Server_Props\<close> and \<open>Mcp_Props\<close> have the properties.
  \<open>Client\<close> is \<^verbatim>\<open>internal/client\<close> over any transport, of which the daemon's own \<open>serve\<close> is one.
  \<open>Cli\<close>, \<open>Install\<close>, \<open>Boot\<close> and \<open>Cli_Args\<close> are \<^verbatim>\<open>cmd/anito\<close>: the commands with their output and exit code,
  the launchd agent as a trace of steps, the start of the daemon, and the reading of arguments.
  \<open>Client_Props\<close>, \<open>Cli_Props\<close> and \<open>Boot_Props\<close> compose them with the daemon.

  \<^bold>\<open>The outside.\<close> Clocks, the disk, sockets, processes, health probes and the file system
  answer through the record \<open>outside\<close>, whose functions take a tick; each call advances the tick.
  Nothing is assumed of the answers, so the theorems hold for every one of them unless a
  hypothesis says otherwise. Where an operation waits, any processes may exit (\<open>interfere\<close>), and
  their exits untrack them, complete start records and queue crash handlers.

  \<^bold>\<open>What is shown.\<close> \<open>Service_Inv\<close> proves that every call keeps the joint invariant \<open>world_inv\<close>
  and says which calls change neither it nor the owners of ports (locale \<open>world_step\<close>, interpreted
  on every call). \<open>Service_Ports\<close> states the specification of an operation as seen from the ports
  (\<open>port_change\<close>) and proves it of the allocation and the rollbacks, \<open>Service_Ops\<close> of every operation.
  \<open>Service_Props\<close> concludes, over runs of operations, crashes, exits and drains: assigned ports
  never move, no port has two owners, and the startup gate blocks every mutation (locale
  \<open>gated_op\<close>). \<open>Deploy_Props\<close> shows what a deploy, a restart and a stop achieve,
  \<open>Failure_Props\<close> what a failed deploy, a crash loop and a removal leave, \<open>Isolation\<close> that whatever runs on
  other services leaves all that the daemon keeps for a service, \<open>Query_Props\<close> what the metrics and log tails report. \<open>Restore_Ops\<close> shows that the restore keeps invariant and ports
  and accounts for every service, \<open>Restore_Props\<close> what its outcomes stand for. \<open>Issues_Props\<close>
  states what the issue store is, a map from fingerprints to occurrences and lifecycle states, and that every
  operation refines it. \<open>Watcher\<close> shows that debouncing neither loses nor invents a change, \<open>Auth\<close> that
  the daemon and its clients agree on the token, \<open>Wire\<close> that codes and redacted messages
  survive the wire. \<open>Setup_Apply_Props\<close> shows that a setup is all or nothing for the files and
  \<open>Setup_Ports\<close> that it is for the ports, \<open>Coordinate_Props\<close> that assigned ports are distinct and free and that
  the generated address file reads back. \<open>Sessions\<close> shows its bound, \<open>Config\<close> what a loaded configuration guarantees.
  \<open>Doctor\<close> shows when a configuration is healthy, \<open>Log_Stream\<close> which lines reach the client and where following
  a log stops. \<open>Server_Props\<close> and \<open>Mcp_Props\<close> show that a request does to the service layer what a
  sequence of its operations does, what a request without the token can reach, and that the startup gate holds for both
  front ends. \<open>Boot_Props\<close> shows that a daemon started on its predecessor's registry knows the same services
  and is closed until they are restored, \<open>Cli_Props\<close> that \<^verbatim>\<open>anito deploy\<close> and
  \<^verbatim>\<open>anito stop\<close> do what they say through arguments, configuration, request, token, route, handler and
  answer, \<open>Notify\<close> that a notification is only text.

  \<^bold>\<open>Parameters.\<close> The router of echo is a function from method and path to an endpoint with its path parameters;
  that what it finds is a route of the table is the hypothesis \<open>sound_router\<close> where it is used. The MCP SDK is a record of
  functions that read calls and assign sessions (\<open>sound_sdk\<close>). Decoders and encoders of JSON are functions, with
  a round trip assumed only where a theorem says so.

  \<^bold>\<open>Bounds and fuel.\<close> The readiness poll runs on fuel computed from its deadline; it always ends
  (\<open>waitHTTPReady_returns\<close>). The walk of the process tree runs on fuel; the number of processes is
  enough (\<open>processTreePIDs_exact\<close>). Integers are unbounded: ports and durations stay far below
  the range of Go's \<^verbatim>\<open>int\<close>.

  \<^bold>\<open>Not modelled.\<close> Operations that overlap in time: an operation of the service layer is one
  step but for the exits, as if one lock covered all services. JSON texts: bodies of answers are typed, those of
  requests are read by parameters; YAML, SHA-1 and SHA-256 are parameters. The contents of forwarded
  requests, what is only printed to the log, the alignment of tables, pauses, the system tools that list processes and
  sockets (their answers are part of \<open>outside\<close>), the dashboard, the scripts and the example service.
\<close>

end
